(* ===== verification/PyFloat.thy ===== *)
theory PyFloat
  imports Prelude
begin

text \<open>
  Python's \<open>float\<close>: IEEE 754 binary64 with round-to-nearest-even, written as an executable
  function on exact rationals. A finite value is \<open>Fin q\<close> with \<open>q\<close> the rational it denotes;
  every arithmetic operation computes the exact rational result and rounds it once with
  \<open>fl\<close> (53-bit significand, gradual underflow down to \<open>2 powi (-1074)\<close>, overflow to infinity
  from \<open>2 ^ 1024\<close> on). The two zeros are one value: Python compares them equal, and no code
  modelled here looks at the sign of a zero. \<open>fwf\<close> says that a value is a binary64 number.

  The lemmas show that rounding is monotone, odd and exact on binary64 numbers, and that a
  difference of two distinct binary64 numbers never rounds to zero. The component proofs use
  these and not the definition of \<open>rnd\<close>.
\<close>

abbreviation p2 :: "int \<Rightarrow> rat" where
  "p2 e \<equiv> 2 powi e"

definition flog2 :: "rat \<Rightarrow> int" where
  "flog2 q = (let (n, d) = quotient_of q; k = bitlen n - bitlen d
              in if p2 k \<le> q then k else k - 1)"

definition rne :: "rat \<Rightarrow> int" where
  "rne x = (let f = \<lfloor>x\<rfloor>; d = x - of_int f in
     if d < 1/2 then f else if 1/2 < d then f + 1 else if even f then f else f + 1)"

definition grid :: "rat \<Rightarrow> int" where
  "grid q = max (flog2 \<bar>q\<bar> - 52) (- 1074)"

definition rnd :: "rat \<Rightarrow> rat" where
  "rnd q = (if q = 0 then 0 else of_int (rne (q / p2 (grid q))) * p2 (grid q))"

subsection \<open>Rounding\<close>

lemma p2_pos [simp]: "0 < p2 e" and p2_nonneg [simp]: "0 \<le> p2 e"
  by simp_all

lemma p2_le_iff [simp]: "p2 a \<le> p2 b \<longleftrightarrow> a \<le> b"
  by (metis linorder_not_le one_less_numeral_iff power_int_increasing power_int_strict_increasing
      semiring_norm(76) order_less_imp_le)

lemma p2_less_iff [simp]: "p2 a < p2 b \<longleftrightarrow> a < b"
  by (simp flip: not_le)

lemma p2_Suc: "p2 (e + 1) = 2 * p2 e"
  by (simp add: power_int_add)

lemma p2_int_multiple: "a \<le> b \<Longrightarrow> \<exists>k. p2 b = of_int k * p2 a"
proof -
  assume "a \<le> b"
  then have "p2 b = p2 (b - a) * p2 a" by (simp flip: power_int_add)
  also have "p2 (b - a) = of_int (2 ^ nat (b - a))"
    using \<open>a \<le> b\<close> by (simp add: power_int_def)
  finally show ?thesis by blast
qed

lemma flog2_bounds:
  assumes "0 < q" shows "p2 (flog2 q) \<le> q" and "q < p2 (flog2 q + 1)"
proof -
  obtain n d where nd: "quotient_of q = (n, d)" by fastforce
  then have q: "q = of_int n / of_int d" and d: "0 < d"
    using quotient_of_div quotient_of_denom_pos by blast+
  with assms have n: "0 < n" by (simp add: zero_less_divide_iff)
  have b: "rat_of_int x < p2 (bitlen x) \<and> p2 (bitlen x - 1) \<le> rat_of_int x" if "0 < x" for x
  proof -
    have "1 \<le> bitlen x" using that by (auto simp: bitlen_alt_def)
    then have "p2 (bitlen x) = of_int (2 ^ nat (bitlen x))"
      "p2 (bitlen x - 1) = of_int (2 ^ nat (bitlen x - 1))"
      by (simp_all add: power_int_def)
    then show ?thesis using bitlen_bounds [OF that] by (simp only: of_int_less_iff of_int_le_iff)
  qed
  let ?k = "bitlen n - bitlen d"
  have up: "q < p2 (?k + 1)"
  proof -
    have "rat_of_int n < p2 (bitlen n)" using b n by blast
    also have "p2 (bitlen n) = p2 (?k + 1) * p2 (bitlen d - 1)" by (simp flip: power_int_add)
    also have "\<dots> \<le> p2 (?k + 1) * of_int d" using b [OF d] by (simp add: mult_left_mono)
    finally show ?thesis using d by (simp add: q pos_divide_less_eq)
  qed
  have lo: "p2 (?k - 1) \<le> q"
  proof -
    have "p2 (?k - 1) * of_int d \<le> p2 (?k - 1) * p2 (bitlen d)"
      using b [OF d] by (simp add: mult_left_mono)
    also have "\<dots> = p2 (bitlen n - 1)" by (simp flip: power_int_add)
    also have "\<dots> \<le> of_int n" using b n by blast
    finally show ?thesis using d by (simp add: q pos_le_divide_eq)
  qed
  have f: "flog2 q = (if p2 ?k \<le> q then ?k else ?k - 1)"
    by (simp add: flog2_def nd Let_def)
  show "p2 (flog2 q) \<le> q" using lo by (simp add: f)
  show "q < p2 (flog2 q + 1)" using up by (auto simp: f)
qed

lemma flog2_unique: "0 < q \<Longrightarrow> p2 e \<le> q \<Longrightarrow> q < p2 (e + 1) \<Longrightarrow> flog2 q = e"
  using flog2_bounds [of q] p2_less_iff [of e "flog2 q + 1"] p2_less_iff [of "flog2 q" "e + 1"]
  by linarith

lemma flog2_less: "0 < q \<Longrightarrow> q < p2 e \<Longrightarrow> flog2 q < e"
  using flog2_bounds [of q] p2_less_iff [of "flog2 q" e] by linarith

lemma flog2_mono: "0 < x \<Longrightarrow> x \<le> y \<Longrightarrow> flog2 x \<le> flog2 y"
  using flog2_bounds [of x] flog2_bounds [of y] p2_less_iff [of "flog2 x" "flog2 y + 1"]
  by linarith

lemma grid_ge: "- 1074 \<le> grid q"
  by (simp add: grid_def)

lemma grid_mono: "0 < x \<Longrightarrow> x \<le> y \<Longrightarrow> grid x \<le> grid y"
  using flog2_mono [of x y] by (auto simp: grid_def)

lemma rne_of_int [simp]: "rne (of_int n) = n"
  by (simp add: rne_def)

lemma rne_bounds: "of_int \<lfloor>x\<rfloor> \<le> rat_of_int (rne x)" "rne x \<le> \<lfloor>x\<rfloor> + 1"
  by (auto simp: rne_def Let_def)

lemma rne_mono: assumes "x \<le> y" shows "rne x \<le> rne y"
proof (cases "\<lfloor>x\<rfloor> = \<lfloor>y\<rfloor>")
  case True
  then show ?thesis using assms by (auto simp: rne_def Let_def)
next
  case False
  then have "\<lfloor>x\<rfloor> + 1 \<le> \<lfloor>y\<rfloor>" using floor_mono [OF assms] by linarith
  then show ?thesis using rne_bounds(2) [of x] rne_bounds(1) [of y] by linarith
qed

lemma rne_minus: "rne (- x) = - rne x"
proof (cases "x = of_int \<lfloor>x\<rfloor>")
  case True
  then show ?thesis by (metis of_int_minus rne_of_int)
next
  case False
  then have "\<lfloor>- x\<rfloor> = - \<lfloor>x\<rfloor> - 1"
    using ceiling_altdef [of x] by (simp add: ceiling_def split: if_splits)
  then show ?thesis using False by (auto simp: rne_def Let_def)
qed

lemma rnd_0 [simp]: "rnd 0 = 0"
  by (simp add: rnd_def)

lemma grid_minus [simp]: "grid (- q) = grid q"
  by (simp add: grid_def)

lemma rnd_minus [simp]: "rnd (- q) = - rnd q"
  by (simp add: rnd_def rne_minus)

lemma rnd_multiple: "\<exists>m. rnd q = of_int m * p2 (grid q)"
  by (cases "q = 0") (auto simp: rnd_def intro: exI [of _ 0])

lemma rnd_multiple_of_grid:
  assumes "q = of_int k * p2 e" and "grid q \<le> e" shows "rnd q = q"
proof (cases "q = 0")
  case False
  obtain j where "p2 e = of_int j * p2 (grid q)" using p2_int_multiple assms(2) by blast
  with assms(1) have "q = of_int (k * j) * p2 (grid q)" by simp
  then have "q / p2 (grid q) = of_int (k * j)" by (simp add: field_simps)
  then show ?thesis using False \<open>q = of_int (k * j) * p2 (grid q)\<close>
    by (simp only: rnd_def rne_of_int if_False)
qed simp

lemma rnd_exact:
  assumes q: "q = of_int m * p2 e" and m: "\<bar>m\<bar> \<le> 2 ^ 53" and e: "- 1074 \<le> e"
  shows "rnd q = q"
proof (cases "\<bar>m\<bar> = 2 ^ 53 \<or> m = 0")
  case True
  have "rnd q = q" if "\<bar>m\<bar> = 2 ^ 53"
  proof -
    from that have aq: "\<bar>q\<bar> = p2 (e + 53)"
      by (simp add: q abs_mult power_int_add flip: of_int_abs)
    then have "flog2 \<bar>q\<bar> = e + 53" by (intro flog2_unique) auto
    then have g: "grid q = e + 1" using e by (simp add: grid_def)
    have "even \<bar>m\<bar>" unfolding that by simp
    then have "even m" by simp
    then obtain k where k: "m = 2 * k" by (elim evenE)
    have "q = of_int k * p2 (e + 1)" by (simp add: q p2_Suc k)
    then show ?thesis by (rule rnd_multiple_of_grid) (simp add: g)
  qed
  then show ?thesis using True q by auto
next
  case False
  then have "\<bar>m\<bar> < 2 ^ 53" "m \<noteq> 0" using m by auto
  then have "\<bar>rat_of_int m\<bar> < 2 ^ 53" by (metis of_int_abs of_int_less_iff of_int_numeral of_int_power)
  then have "\<bar>q\<bar> < p2 (e + 53)" by (simp add: q abs_mult power_int_add)
  then have "flog2 \<bar>q\<bar> < e + 53" using \<open>m \<noteq> 0\<close> q by (intro flog2_less) auto
  then have "grid q \<le> e" using e by (simp add: grid_def)
  with q show ?thesis by (rule rnd_multiple_of_grid)
qed

lemma rnd_of_int: "\<bar>n\<bar> \<le> 2 ^ 53 \<Longrightarrow> rnd (of_int n) = of_int n"
  by (rule rnd_exact [of _ n 0]) simp_all

lemma rnd_half_ints: "\<bar>n\<bar> \<le> 2 ^ 53 \<Longrightarrow> rnd (of_int n / 2) = of_int n / 2"
  by (rule rnd_exact [of _ n "- 1"]) simp_all

lemma rnd_pos_mono:
  assumes "0 < x" and "x \<le> y" shows "rnd x \<le> rnd y"
proof (cases "grid x = grid y")
  case True
  have "rne (x / p2 (grid y)) \<le> rne (y / p2 (grid y))"
    using assms by (intro rne_mono divide_right_mono) auto
  then show ?thesis using assms True
    by (auto simp: rnd_def intro!: mult_right_mono)
next
  case False
  let ?f = "flog2 y"
  have less: "grid x < grid y" using False grid_mono [OF assms] by simp
  have pos: "0 < y" using assms by simp
  have gy: "grid y = ?f - 52" using less grid_ge [of x] assms by (auto simp: grid_def)
  have "flog2 x < ?f" using less gy assms by (auto simp: grid_def)
  then have xf: "x \<le> p2 ?f"
    using flog2_bounds(2) [OF assms(1)] p2_le_iff [of "flog2 x + 1" ?f] by linarith
  obtain j where j: "p2 ?f = of_int j * p2 (grid x)"
    using p2_int_multiple [of "grid x" ?f] less gy by auto
  have "rne (x / p2 (grid x)) \<le> rne (p2 ?f / p2 (grid x))"
    using xf by (intro rne_mono divide_right_mono) auto
  also have "\<dots> = j" using j by simp
  finally have x_le: "rnd x \<le> p2 ?f" using assms j by (auto simp: rnd_def intro!: mult_right_mono)
  obtain i where i: "p2 ?f = of_int i * p2 (grid y)"
    using p2_int_multiple [of "grid y" ?f] gy by auto
  have "i = rne (p2 ?f / p2 (grid y))" using i by simp
  also have "\<dots> \<le> rne (y / p2 (grid y))"
    using flog2_bounds(1) [OF pos] by (intro rne_mono divide_right_mono) auto
  finally have "p2 ?f \<le> rnd y" using pos i by (auto simp: rnd_def intro!: mult_right_mono)
  with x_le show ?thesis by simp
qed

lemma rnd_nonneg: "0 \<le> q \<Longrightarrow> 0 \<le> rnd q"
proof (cases "q = 0")
  case False
  assume "0 \<le> q"
  with False have "rne 0 \<le> rne (q / p2 (grid q))" by (intro rne_mono) auto
  then have "0 \<le> rne (q / p2 (grid q))" using rne_of_int [of 0] by simp
  then show ?thesis by (simp add: rnd_def)
qed simp

lemma rnd_mono: "x \<le> y \<Longrightarrow> rnd x \<le> rnd y"
proof -
  assume le: "x \<le> y"
  consider "0 < x" | "x \<le> 0" "0 \<le> y" | "y < 0" using le by linarith
  then show ?thesis
  proof cases
    case 1 then show ?thesis using le by (rule rnd_pos_mono)
  next
    case 2
    then show ?thesis using rnd_nonneg [of y] rnd_nonneg [of "- x"] by simp
  next
    case 3
    then show ?thesis using rnd_pos_mono [of "- y" "- x"] le by simp
  qed
qed

lemma rne_abs_bound: "\<bar>x\<bar> \<le> of_int n \<Longrightarrow> \<bar>rne x\<bar> \<le> n"
  using rne_mono [of x "of_int n"] rne_mono [of "of_int (- n)" x] rne_of_int [of "- n"]
  by (auto simp del: rne_of_int simp: rne_of_int [of n] abs_le_iff)

lemma rnd_idem [simp]: "rnd (rnd q) = rnd q"
proof (cases "q = 0")
  case False
  have "\<bar>q\<bar> < p2 (flog2 \<bar>q\<bar> + 1)" using False flog2_bounds [of "\<bar>q\<bar>"] by simp
  also have "\<dots> \<le> p2 (grid q + 53)" by (simp add: grid_def)
  finally have "\<bar>q / p2 (grid q)\<bar> \<le> of_int (2 ^ 53)"
    by (simp add: power_int_add pos_divide_le_eq)
  then have "\<bar>rne (q / p2 (grid q))\<bar> \<le> 2 ^ 53" by (rule rne_abs_bound)
  then show ?thesis using False
    by (intro rnd_exact [of _ "rne (q / p2 (grid q))" "grid q"] grid_ge) (auto simp: rnd_def)
qed simp

text \<open>A difference of two distinct binary64 numbers does not round to zero: both are
  multiples of the smallest subnormal, so they differ by at least one of it.\<close>

lemma rnd_ulp_multiple: "\<exists>k. rnd q = of_int k * p2 (- 1074)"
proof -
  obtain m where "rnd q = of_int m * p2 (grid q)" using rnd_multiple by blast
  moreover obtain j where "p2 (grid q) = of_int j * p2 (- 1074)"
    using p2_int_multiple grid_ge by blast
  ultimately have "rnd q = of_int (m * j) * p2 (- 1074)" by simp
  then show ?thesis by blast
qed

lemma rnd_tiny: "rnd (p2 (- 1074)) = p2 (- 1074)"
  by (rule rnd_exact [of _ 1 "- 1074"]) auto

lemma rnd_diff_pos:
  assumes "rnd x = x" "rnd y = y" "x < y" shows "0 < rnd (y - x)"
proof -
  obtain i j where "x = of_int i * p2 (- 1074)" "y = of_int j * p2 (- 1074)"
    using rnd_ulp_multiple [of x] rnd_ulp_multiple [of y] assms by metis
  then have d: "y - x = of_int (j - i) * p2 (- 1074)" by (simp add: left_diff_distrib)
  with assms(3) have "0 < j - i" by (metis diff_gt_0_iff_gt of_int_0_less_iff p2_pos zero_less_mult_pos2)
  then have "1 \<le> rat_of_int (j - i)" by simp
  then have "p2 (- 1074) \<le> y - x" unfolding d by (metis mult_le_cancel_right1 p2_pos not_less_iff_gr_or_eq)
  then have "p2 (- 1074) \<le> rnd (y - x)" using rnd_mono rnd_tiny by metis
  then show ?thesis using p2_pos [of "- 1074"] by linarith
qed

subsection \<open>Values and operations\<close>

datatype pyfloat = NaN | PInf | NInf | Fin rat

definition fbound :: rat where
  "fbound = 2 ^ 1024"

fun fwf :: "pyfloat \<Rightarrow> bool" where
  "fwf (Fin q) \<longleftrightarrow> rnd q = q \<and> \<bar>q\<bar> < fbound"
| "fwf _ \<longleftrightarrow> True"

definition fl :: "rat \<Rightarrow> pyfloat" where
  "fl q = (let r = rnd q in if fbound \<le> r then PInf else if r \<le> - (fbound) then NInf else Fin r)"

fun isfinite :: "pyfloat \<Rightarrow> bool" where
  "isfinite (Fin _) \<longleftrightarrow> True"
| "isfinite _ \<longleftrightarrow> False"

fun fneg :: "pyfloat \<Rightarrow> pyfloat" where
  "fneg NaN = NaN"
| "fneg PInf = NInf"
| "fneg NInf = PInf"
| "fneg (Fin q) = Fin (- q)"

fun fabs :: "pyfloat \<Rightarrow> pyfloat" where
  "fabs NaN = NaN"
| "fabs PInf = PInf"
| "fabs NInf = PInf"
| "fabs (Fin q) = Fin \<bar>q\<bar>"

fun fadd :: "pyfloat \<Rightarrow> pyfloat \<Rightarrow> pyfloat" where
  "fadd (Fin a) (Fin b) = fl (a + b)"
| "fadd NaN _ = NaN"
| "fadd _ NaN = NaN"
| "fadd PInf NInf = NaN"
| "fadd NInf PInf = NaN"
| "fadd PInf _ = PInf"
| "fadd _ PInf = PInf"
| "fadd NInf _ = NInf"
| "fadd _ NInf = NInf"

definition fsub :: "pyfloat \<Rightarrow> pyfloat \<Rightarrow> pyfloat" where
  "fsub a b = fadd a (fneg b)"

text \<open>The sign of a value as \<open>-1\<close>, \<open>0\<close> or \<open>1\<close>, and infinity of a given sign: what products and
  quotients with an infinite operand need.\<close>

fun fsgn :: "pyfloat \<Rightarrow> int" where
  "fsgn NaN = 0"
| "fsgn PInf = 1"
| "fsgn NInf = - 1"
| "fsgn (Fin q) = (if q < 0 then - 1 else if q = 0 then 0 else 1)"

definition finf :: "int \<Rightarrow> pyfloat" where
  "finf s = (if s < 0 then NInf else if s = 0 then NaN else PInf)"

fun fmul :: "pyfloat \<Rightarrow> pyfloat \<Rightarrow> pyfloat" where
  "fmul (Fin a) (Fin b) = fl (a * b)"
| "fmul NaN _ = NaN"
| "fmul _ NaN = NaN"
| "fmul a b = finf (fsgn a * fsgn b)"

text \<open>Python's \<open>/\<close> raises on a zero divisor whatever the dividend is. An infinite dividend
  over a finite zero is excluded by that test, and a finite one over infinity is zero.\<close>

fun fdiv :: "pyfloat \<Rightarrow> pyfloat \<Rightarrow> pyfloat res" where
  "fdiv a (Fin b) = (if b = 0 then Inl ZeroDivisionError
     else Inr (case a of Fin q \<Rightarrow> fl (q / b) | NaN \<Rightarrow> NaN | _ \<Rightarrow> finf (fsgn a * fsgn (Fin b))))"
| "fdiv NaN b = Inr NaN"
| "fdiv a NaN = Inr NaN"
| "fdiv (Fin a) b = Inr (Fin 0)"
| "fdiv a b = Inr NaN"

fun flt :: "pyfloat \<Rightarrow> pyfloat \<Rightarrow> bool" where
  "flt NaN _ \<longleftrightarrow> False"
| "flt _ NaN \<longleftrightarrow> False"
| "flt (Fin a) (Fin b) \<longleftrightarrow> a < b"
| "flt NInf b \<longleftrightarrow> b \<noteq> NInf"
| "flt a PInf \<longleftrightarrow> a \<noteq> PInf"
| "flt _ _ \<longleftrightarrow> False"

fun feq :: "pyfloat \<Rightarrow> pyfloat \<Rightarrow> bool" where
  "feq NaN _ \<longleftrightarrow> False"
| "feq a b \<longleftrightarrow> a = b"

definition fle :: "pyfloat \<Rightarrow> pyfloat \<Rightarrow> bool" where
  "fle a b \<longleftrightarrow> flt a b \<or> feq a b"

text \<open>Python's two-argument \<open>max\<close> and \<open>min\<close>: the first argument wins ties and unordered pairs.\<close>

definition fmax :: "pyfloat \<Rightarrow> pyfloat \<Rightarrow> pyfloat" where
  "fmax a b = (if flt a b then b else a)"

definition fmin :: "pyfloat \<Rightarrow> pyfloat \<Rightarrow> pyfloat" where
  "fmin a b = (if flt b a then b else a)"

text \<open>\<open>float(n)\<close> of a Python integer: correctly rounded, or \<open>OverflowError\<close>.\<close>

definition float_of_int :: "int \<Rightarrow> pyfloat res" where
  "float_of_int n = (case fl (of_int n) of Fin q \<Rightarrow> Inr (Fin q) | _ \<Rightarrow> Inl OverflowError)"

text \<open>\<open>int(f)\<close> of a finite float truncates towards zero.\<close>

fun int_of_float :: "pyfloat \<Rightarrow> int res" where
  "int_of_float (Fin q) = Inr (if 0 \<le> q then \<lfloor>q\<rfloor> else \<lceil>q\<rceil>)"
| "int_of_float NaN = Inl ValueError"
| "int_of_float _ = Inl OverflowError"

text \<open>The builtin \<open>sum\<close> over floats, as CPython 3.12 (the interpreter of the service's image)
  computes it: the first item plus the integer 0, then Neumaier's compensated summation, the
  compensation added at the end when it is finite.\<close>

fun neumaier :: "pyfloat \<Rightarrow> pyfloat \<Rightarrow> pyfloat list \<Rightarrow> pyfloat" where
  "neumaier s c [] = (if isfinite c \<and> c \<noteq> Fin 0 then fadd s c else s)"
| "neumaier s c (x # xs) =
     (let t = fadd s x in
      neumaier t (fadd c (if fle (fabs x) (fabs s) then fadd (fsub s t) x else fadd (fsub x t) s)) xs)"

fun py_sum :: "pyfloat list \<Rightarrow> pyfloat" where
  "py_sum [] = Fin 0"
| "py_sum (x # xs) = neumaier (fadd (Fin 0) x) (Fin 0) xs"

subsection \<open>Order and closure\<close>

lemma fbound_gt: "2 ^ 53 < fbound" and fbound_pos [simp]: "0 < fbound"
  and fbound_nz [simp]: "\<not> fbound \<le> 0"
  by (simp_all add: fbound_def)

lemma fl_cases:
  obtains "fl q = PInf" | "fl q = NInf" | "fl q = Fin (rnd q)" "\<bar>rnd q\<bar> < fbound"
proof -
  consider "fbound \<le> rnd q" | "rnd q \<le> - fbound" | "\<bar>rnd q\<bar> < fbound" by linarith
  then show thesis using that fbound_pos by cases (auto simp: fl_def Let_def abs_less_iff)
qed

lemma fl_FinD: "fl q = Fin r \<Longrightarrow> r = rnd q \<and> \<bar>r\<bar> < fbound"
  by (cases q rule: fl_cases) auto

lemma fwf_fl [simp]: "fwf (fl q)"
  by (cases q rule: fl_cases) auto

lemma fl_not_NaN [simp]: "fl q \<noteq> NaN"
  by (cases q rule: fl_cases) auto

lemma fl_exact: "fwf (Fin q) \<Longrightarrow> fl q = Fin q"
  by (auto simp: fl_def Let_def abs_less_iff)

lemma fwf_int: "\<bar>n\<bar> \<le> 2 ^ 53 \<Longrightarrow> fwf (Fin (of_int n))"
proof -
  assume n: "\<bar>n\<bar> \<le> 2 ^ 53"
  then have "rat_of_int \<bar>n\<bar> \<le> of_int (2 ^ 53)" by (simp only: of_int_le_iff)
  also have "rat_of_int (2 ^ 53) < fbound" using fbound_gt by simp
  finally show ?thesis using rnd_of_int [OF n] by simp
qed

text \<open>For evaluation: comparing exponents is cheaper than comparing with \<open>2 ^ 1024\<close>.\<close>

lemma fbound_le_code: "fbound \<le> \<bar>q\<bar> \<longleftrightarrow> q \<noteq> 0 \<and> 1024 \<le> flog2 \<bar>q\<bar>"
proof (cases "q = 0")
  case False
  have fb: "fbound = p2 1024" by (simp add: fbound_def power_int_def)
  have pos: "0 < \<bar>q\<bar>" using False by simp
  show ?thesis
  proof
    assume "fbound \<le> \<bar>q\<bar>"
    then have "p2 1024 < p2 (flog2 \<bar>q\<bar> + 1)" using flog2_bounds(2) [OF pos] fb by linarith
    then have "1024 < flog2 \<bar>q\<bar> + 1" by (simp only: p2_less_iff)
    then show "q \<noteq> 0 \<and> 1024 \<le> flog2 \<bar>q\<bar>" using False by simp
  next
    assume "q \<noteq> 0 \<and> 1024 \<le> flog2 \<bar>q\<bar>"
    then have "p2 1024 \<le> p2 (flog2 \<bar>q\<bar>)" by (simp only: p2_le_iff)
    then show "fbound \<le> \<bar>q\<bar>" using flog2_bounds(1) [OF pos] fb by linarith
  qed
qed simp

lemma fl_code [code]: "fl q = (let r = rnd q in
   if r \<noteq> 0 \<and> 1024 \<le> flog2 \<bar>r\<bar> then (if 0 < r then PInf else NInf) else Fin r)"
proof -
  have "fl q = (if fbound \<le> \<bar>rnd q\<bar> then (if 0 < rnd q then PInf else NInf) else Fin (rnd q))"
  proof (cases "0 < rnd q")
    case True
    then have "\<not> rnd q \<le> - fbound" using fbound_pos by linarith
    then show ?thesis using True by (simp add: fl_def Let_def)
  next
    case False
    then have "\<not> fbound \<le> rnd q" "\<bar>rnd q\<bar> = - rnd q" using fbound_pos by linarith+
    then show ?thesis using False by (auto simp: fl_def Let_def)
  qed
  then show ?thesis by (simp only: fbound_le_code Let_def)
qed

lemma fwf_code [code]:
  "fwf NaN \<longleftrightarrow> True" "fwf PInf \<longleftrightarrow> True" "fwf NInf \<longleftrightarrow> True"
  "fwf (Fin q) \<longleftrightarrow> rnd q = q \<and> (q = 0 \<or> flog2 \<bar>q\<bar> < 1024)"
  using fbound_le_code [of q] by auto

lemma fwf_numeral [simp]:
  "(numeral n :: int) \<le> 2 ^ 53 \<Longrightarrow> fwf (Fin (numeral n))" "fwf (Fin 0)" "fwf (Fin 1)"
  using fwf_int [of "numeral n"] fwf_int [of 1] by simp_all

lemma fl_numeral [simp]: "(numeral n :: int) \<le> 2 ^ 53 \<Longrightarrow> fl (numeral n) = Fin (numeral n)"
  using fl_exact [OF fwf_numeral(1)] by simp

lemma fl_0 [simp]: "fl 0 = Fin 0"
  by (simp add: fl_def)

lemma fl_1 [simp]: "fl 1 = Fin 1"
  using fl_exact [OF fwf_int [of 1]] by simp

lemma fwf_fneg [simp]: "fwf (fneg a) = fwf a"
  by (cases a) auto

lemma fwf_fabs [simp]: "fwf a \<Longrightarrow> fwf (fabs a)"
  by (cases a) (auto simp: abs_if)

lemma fwf_finf [simp]: "fwf (finf s)"
  by (simp add: finf_def)

lemma fwf_fadd [simp]: "fwf (fadd a b)"
  by (cases "(a, b)" rule: fadd.cases) auto

lemma fwf_fsub [simp]: "fwf (fsub a b)"
  by (simp add: fsub_def)

lemma fwf_fmul [simp]: "fwf (fmul a b)"
  by (cases "(a, b)" rule: fmul.cases) auto

lemma fdiv_fwf: "fdiv a b = Inr c \<Longrightarrow> fwf c"
  by (cases "(a, b)" rule: fdiv.cases) (auto split: if_splits pyfloat.splits)

lemma fdiv_total: "b \<noteq> Fin 0 \<Longrightarrow> \<exists>c. fdiv a b = Inr c"
  by (cases "(a, b)" rule: fdiv.cases) auto

lemma flt_Fin [simp]: "flt (Fin a) (Fin b) \<longleftrightarrow> a < b"
  by simp

lemma feq_Fin [simp]: "feq (Fin a) (Fin b) \<longleftrightarrow> a = b"
  by simp

lemma fle_Fin [simp]: "fle (Fin a) (Fin b) \<longleftrightarrow> a \<le> b"
  by (auto simp: fle_def)

lemma flt_irrefl [simp]: "\<not> flt a a"
  by (cases a) auto

lemma fle_refl: "a \<noteq> NaN \<Longrightarrow> fle a a"
  by (cases a) (auto simp: fle_def)

lemma flt_trans: "flt a b \<Longrightarrow> flt b c \<Longrightarrow> flt a c"
  by (cases a; cases b; cases c) auto

lemma flt_fle_trans: "flt a b \<Longrightarrow> fle b c \<Longrightarrow> flt a c"
  by (cases a; cases b; cases c) (auto simp: fle_def)

lemma fle_flt_trans: "fle a b \<Longrightarrow> flt b c \<Longrightarrow> flt a c"
  by (cases a; cases b; cases c) (auto simp: fle_def)

lemma fle_trans: "fle a b \<Longrightarrow> fle b c \<Longrightarrow> fle a c"
  by (cases a; cases b; cases c) (auto simp: fle_def)

lemma not_flt: "a \<noteq> NaN \<Longrightarrow> b \<noteq> NaN \<Longrightarrow> \<not> flt a b \<longleftrightarrow> fle b a"
  by (cases a; cases b) (auto simp: fle_def)

lemma flt_imp_fle: "flt a b \<Longrightarrow> fle a b"
  by (simp add: fle_def)

lemma flt_asym: "flt a b \<Longrightarrow> \<not> flt b a"
  using flt_trans flt_irrefl by blast

lemma fle_not_NaN: "fle a b \<Longrightarrow> a \<noteq> NaN \<and> b \<noteq> NaN"
  by (cases a; cases b) (auto simp: fle_def)

lemma flt_not_NaN: "flt a b \<Longrightarrow> a \<noteq> NaN \<and> b \<noteq> NaN"
  by (cases a; cases b) auto

lemma isfinite_iff: "isfinite a \<longleftrightarrow> (\<exists>q. a = Fin q)"
  by (cases a) auto

lemma fl_mono: "a \<le> b \<Longrightarrow> fle (fl a) (fl b)"
  using rnd_mono [of a b] by (auto simp: fl_def Let_def fle_def)

lemma fl_pos_diff: "fwf (Fin x) \<Longrightarrow> fwf (Fin y) \<Longrightarrow> x < y \<Longrightarrow> flt (Fin 0) (fl (y - x))"
  using rnd_diff_pos [of x y] by (auto simp: fl_def Let_def)

text \<open>The distance of two distinct binary64 numbers is positive: no division by zero.\<close>

lemma fabs_fsub_pos:
  assumes "fwf (Fin x)" "fwf (Fin y)" "x \<noteq> y"
  shows "flt (Fin 0) (fabs (fsub (Fin x) (Fin y)))"
proof (cases "x < y")
  case True
  then have "0 < rnd (y - x)" using assms rnd_diff_pos by simp
  moreover have "rnd (x - y) = - rnd (y - x)" by (metis minus_diff_eq rnd_minus)
  ultimately show ?thesis by (auto simp: fsub_def fl_def Let_def)
next
  case False
  then have "0 < rnd (x - y)" using assms rnd_diff_pos by simp
  then show ?thesis by (auto simp: fsub_def fl_def Let_def)
qed

lemma fabs_fsub_commute: "fabs (fsub (Fin x) (Fin y)) = fabs (fsub (Fin y) (Fin x))"
proof -
  have "rnd (x - y) = - rnd (y - x)" by (metis minus_diff_eq rnd_minus)
  then show ?thesis by (auto simp: fsub_def fl_def Let_def)
qed

lemma fabs_nonneg: "a \<noteq> NaN \<Longrightarrow> fle (Fin 0) (fabs a)"
  by (cases a) (auto simp: fle_def)

lemma fabs_eq_NaN [simp]: "fabs a = NaN \<longleftrightarrow> a = NaN"
  by (cases a) auto

lemma fsub_Fin_not_NaN [simp]: "fsub (Fin a) (Fin b) \<noteq> NaN"
  by (simp add: fsub_def)

lemma fdiv_Fin_not_NaN: "fdiv (Fin a) b = Inr c \<Longrightarrow> b \<noteq> NaN \<Longrightarrow> c \<noteq> NaN"
  by (cases b) (auto split: if_splits)

text \<open>Quotients of non-negative values by positive ones are non-negative.\<close>

lemma fdiv_nonneg:
  assumes "fle (Fin 0) a" "flt (Fin 0) b" "fdiv a b = Inr c" "c \<noteq> NaN"
  shows "fle (Fin 0) c"
proof (cases a)
  case (Fin x)
  show ?thesis
  proof (cases b)
    case (Fin y)
    have "fle (fl 0) (fl (x / y))" using assms Fin \<open>a = Fin x\<close> by (intro fl_mono) auto
    then show ?thesis using assms Fin \<open>a = Fin x\<close> by (auto split: if_splits)
  qed (use assms Fin in \<open>auto simp: fle_def\<close>)
qed (use assms in \<open>cases b; auto simp: fle_def finf_def split: if_splits\<close>)+

text \<open>The rounding error of a result below one is at most \<open>p2 (- 54)\<close>.\<close>

lemma rne_error: "\<bar>of_int (rne x) - x\<bar> \<le> 1 / 2"
proof -
  have "of_int \<lfloor>x\<rfloor> \<le> x" "x < of_int \<lfloor>x\<rfloor> + 1" by linarith+
  then show ?thesis by (simp add: rne_def Let_def abs_le_iff)
qed

lemma rnd_error: "\<bar>rnd q - q\<bar> \<le> p2 (grid q) / 2"
proof (cases "q = 0")
  case False
  have "rnd q - q = (of_int (rne (q / p2 (grid q))) - q / p2 (grid q)) * p2 (grid q)"
    using False by (simp add: rnd_def left_diff_distrib)
  then have "\<bar>rnd q - q\<bar> = \<bar>of_int (rne (q / p2 (grid q))) - q / p2 (grid q)\<bar> * p2 (grid q)"
    by (simp add: abs_mult)
  also have "\<dots> \<le> 1 / 2 * p2 (grid q)" by (intro mult_right_mono rne_error) simp
  finally show ?thesis by simp
qed simp

lemma rnd_error_unit: assumes "\<bar>q\<bar> < 1" shows "\<bar>rnd q - q\<bar> \<le> p2 (- 54)"
proof (cases "q = 0")
  case False
  have "flog2 \<bar>q\<bar> < 0" using assms False by (intro flog2_less) auto
  then have "grid q \<le> - 53" by (simp add: grid_def)
  then have "p2 (grid q) \<le> p2 (- 54 + 1)" by (simp only: p2_le_iff)
  then have "p2 (grid q) \<le> 2 * p2 (- 54)" by (simp only: p2_Suc)
  then show ?thesis using rnd_error [of q] by linarith
qed simp

lemma rnd_error_unit_le: "\<bar>q\<bar> \<le> 1 \<Longrightarrow> \<bar>rnd q - q\<bar> \<le> p2 (- 54)"
  using rnd_error_unit [of q] rnd_of_int [of 1] rnd_of_int [of "- 1"]
  by (cases "\<bar>q\<bar> = 1") (auto simp: abs_if split: if_splits)

text \<open>Two gaps that share an end point, one on each side of it, cannot both overflow: together
  they span at most twice the largest binary64 number.\<close>

definition fmaxval :: rat where
  "fmaxval = fbound - p2 971"

lemma fmaxval_bound: assumes "fwf (Fin q)" shows "q \<le> fmaxval"
proof (cases "q < p2 1023")
  case True
  have "p2 1024 = 2 * p2 1023" using p2_Suc [of 1023] by simp
  moreover have "p2 971 \<le> p2 1023" by simp
  moreover have "fbound = p2 1024" by (simp add: fbound_def power_int_def)
  ultimately show ?thesis using True unfolding fmaxval_def by linarith
next
  case False
  have fb: "fbound = p2 1024" by (simp add: fbound_def power_int_def)
  have pos: "0 < q" using False p2_pos [of 1023] by linarith
  have "q < p2 (1023 + 1)" using assms fb by (simp add: abs_less_iff del: power_int_numeral)
  then have "flog2 q = 1023" using False pos by (intro flog2_unique) (simp_all del: power_int_numeral)
  then have "grid q = 971" using pos by (simp add: grid_def)
  then obtain m where m: "q = of_int m * p2 971" using rnd_multiple [of q] assms by auto
  have s: "fbound = of_int (2 ^ 53) * p2 971"
    using power_int_add [of "2::rat" 53 971] fb by (simp add: power_int_def)
  have "rat_of_int m * p2 971 < of_int (2 ^ 53) * p2 971" using assms m s by (simp add: abs_less_iff)
  then have "m < 2 ^ 53" by (simp only: mult_less_cancel_right_pos [OF p2_pos] of_int_less_iff)
  then have "rat_of_int m \<le> of_int (2 ^ 53 - 1)" by (simp only: of_int_le_iff)
  then have "q \<le> of_int (2 ^ 53 - 1) * p2 971" unfolding m by (intro mult_right_mono) auto
  then show ?thesis unfolding fmaxval_def s by (simp add: left_diff_distrib)
qed

lemma fmaxval_less: "fmaxval < fbound" and rnd_fmaxval: "rnd fmaxval = fmaxval"
proof -
  show "fmaxval < fbound" using p2_pos [of 971] unfolding fmaxval_def by linarith
  have "fbound = p2 (971 + 53)" by (simp add: fbound_def power_int_def)
  also have "\<dots> = p2 971 * p2 53" by (rule power_int_add) simp
  finally have "fbound = of_int (2 ^ 53) * p2 971" by (simp add: power_int_def)
  then have "fmaxval = of_int (2 ^ 53 - 1) * p2 971" by (simp add: fmaxval_def left_diff_distrib)
  then show "rnd fmaxval = fmaxval" by (rule rnd_exact) simp_all
qed

lemma fl_PInf_gt: "fl q = PInf \<Longrightarrow> fmaxval < q"
proof (rule ccontr)
  assume "fl q = PInf" "\<not> fmaxval < q"
  then have "fbound \<le> rnd q" "rnd q \<le> rnd fmaxval"
    by (auto simp: fl_def Let_def split: if_splits intro: rnd_mono)
  then show False using fmaxval_less rnd_fmaxval by simp
qed

lemma gaps_not_both_inf:
  assumes "fwf (Fin a)" "fwf (Fin c)" "a < b" "b < c"
  shows "fl (b - a) \<noteq> PInf \<or> fl (c - b) \<noteq> PInf"
proof -
  have "- a \<le> fmaxval" using fmaxval_bound [of "- a"] assms(1) by simp
  moreover have "c \<le> fmaxval" using fmaxval_bound [of c] assms(2) by simp
  ultimately show ?thesis using fl_PInf_gt [of "b - a"] fl_PInf_gt [of "c - b"] by linarith
qed

lemmas fwf_simps = fwf_fl fwf_fneg fwf_fabs fwf_finf fwf_fadd fwf_fsub fwf_fmul
lemmas [float_simps] = fsub_def fle_Fin flt_Fin feq_Fin fl_0 fl_1

subsection \<open>A total order for sorting\<close>

text \<open>\<open>sorted\<close> and \<open>list.sort\<close> on tuples of finite floats use Python's \<open><\<close>, which is a total order
  there. The instance places \<open>NaN\<close> above everything, so that the type is a linear order.\<close>

instantiation pyfloat :: linorder
begin

definition less_eq_pyfloat :: "pyfloat \<Rightarrow> pyfloat \<Rightarrow> bool" where
  "less_eq_pyfloat a b \<longleftrightarrow> b = NaN \<or> fle a b"

definition less_pyfloat :: "pyfloat \<Rightarrow> pyfloat \<Rightarrow> bool" where
  "less_pyfloat a b \<longleftrightarrow> (a \<noteq> NaN \<and> b = NaN) \<or> flt a b"

instance
proof
  fix a b c :: pyfloat
  show "(a < b) = (a \<le> b \<and> \<not> b \<le> a)"
    by (cases a; cases b) (auto simp: less_eq_pyfloat_def less_pyfloat_def fle_def)
  show "a \<le> a" by (cases a) (auto simp: less_eq_pyfloat_def fle_def)
  show "a \<le> b \<Longrightarrow> b \<le> c \<Longrightarrow> a \<le> c"
    by (cases a; cases b; cases c) (auto simp: less_eq_pyfloat_def fle_def)
  show "a \<le> b \<Longrightarrow> b \<le> a \<Longrightarrow> a = b"
    by (cases a; cases b) (auto simp: less_eq_pyfloat_def fle_def)
  show "a \<le> b \<or> b \<le> a"
    by (cases a; cases b) (auto simp: less_eq_pyfloat_def fle_def)
qed

end

lemma le_Fin_iff [simp]: "Fin a \<le> Fin b \<longleftrightarrow> a \<le> b" "Fin a < Fin b \<longleftrightarrow> a < b"
  by (simp_all add: less_eq_pyfloat_def less_pyfloat_def)

end
