(* ===== verification/PyValue.thy ===== *)
theory PyValue
  imports PyFloat
begin

text \<open>
  Python's dynamic values and the parts of \<open>str\<close>, \<open>int\<close> and \<open>float\<close> that the program uses.
  Strings are lists of characters; \<open>upper\<close>, \<open>lower\<close> and \<open>isdigit\<close> are those of ASCII text, and
  \<open>strip\<close> removes the whitespace of the Latin-1 range, so the model covers strings over that
  range whose letters are ASCII. A \<open>dict\<close> with string keys is an association list with the
  order of the keys, looked up by \<open>dict_get\<close>.
\<close>

subsection \<open>Strings\<close>

definition is_space :: "char \<Rightarrow> bool" where
  "is_space c \<longleftrightarrow> (of_char c :: nat) \<in> {9, 10, 11, 12, 13, 28, 29, 30, 31, 32, 133, 160}"

definition py_strip :: "string \<Rightarrow> string" where
  "py_strip s = rev (dropWhile is_space (rev (dropWhile is_space s)))"

definition upper_char :: "char \<Rightarrow> char" where
  "upper_char c = (let n = of_char c :: nat in
     if 97 \<le> n \<and> n \<le> 122 then char_of (n - 32) else c)"

definition lower_char :: "char \<Rightarrow> char" where
  "lower_char c = (let n = of_char c :: nat in
     if 65 \<le> n \<and> n \<le> 90 then char_of (n + 32) else c)"

definition py_upper :: "string \<Rightarrow> string" where
  "py_upper s = map upper_char s"

definition py_lower :: "string \<Rightarrow> string" where
  "py_lower s = map lower_char s"

definition is_digit :: "char \<Rightarrow> bool" where
  "is_digit c \<longleftrightarrow> (let n = of_char c :: nat in 48 \<le> n \<and> n \<le> 57)"

definition digit_val :: "char \<Rightarrow> int" where
  "digit_val c = int (of_char c :: nat) - 48"

definition py_isdigit :: "string \<Rightarrow> bool" where
  "py_isdigit s \<longleftrightarrow> s \<noteq> [] \<and> list_all is_digit s"

text \<open>\<open>s.split(sep)\<close> for a one-character separator.\<close>

fun py_split :: "char \<Rightarrow> string \<Rightarrow> string list" where
  "py_split sep [] = [[]]"
| "py_split sep (c # cs) =
     (if c = sep then [] # py_split sep cs
      else case py_split sep cs of [] \<Rightarrow> [[c]] | w # ws \<Rightarrow> (c # w) # ws)"

subsection \<open>int(s) and float(s)\<close>

text \<open>A digit part as the two constructors accept it: digits, with single underscores between
  digits. \<open>digit_part s\<close> is the list of its digits.\<close>

fun digit_part :: "string \<Rightarrow> int list option" where
  "digit_part [] = None"
| "digit_part [c] = (if is_digit c then Some [digit_val c] else None)"
| "digit_part (c # d # cs) =
     (if \<not> is_digit c then None
      else if d = CHR ''_'' then map_option (Cons (digit_val c)) (digit_part cs)
      else map_option (Cons (digit_val c)) (digit_part (d # cs)))"

definition digits_val :: "int list \<Rightarrow> int" where
  "digits_val ds = foldl (\<lambda>a d. 10 * a + d) 0 ds"

definition take_sign :: "string \<Rightarrow> int \<times> string" where
  "take_sign s = (case s of
     c # cs \<Rightarrow> if c = CHR ''-'' then (- 1, cs) else if c = CHR ''+'' then (1, cs) else (1, s)
   | [] \<Rightarrow> (1, s))"

text \<open>\<open>int(s)\<close>, including the interpreter's limit of 4300 digits; \<open>None\<close> is \<open>ValueError\<close>.\<close>

definition parse_int :: "string \<Rightarrow> int option" where
  "parse_int s = (let (sg, t) = take_sign (py_strip s) in
     case digit_part t of None \<Rightarrow> None
     | Some ds \<Rightarrow> if 4300 < length ds then None else Some (sg * digits_val ds))"

definition opt_digit_part :: "string \<Rightarrow> int list option" where
  "opt_digit_part s = (if s = [] then Some [] else digit_part s)"

definition parse_mantissa :: "string \<Rightarrow> (int list \<times> nat) option" where
  "parse_mantissa m = (case py_split (CHR ''.'') m of
     [i] \<Rightarrow> map_option (\<lambda>ds. (ds, 0)) (digit_part i)
   | [i, f] \<Rightarrow> (if i = [] \<and> f = [] then None
       else case (opt_digit_part i, opt_digit_part f) of
         (Some ds, Some fs) \<Rightarrow> Some (ds @ fs, length fs) | _ \<Rightarrow> None)
   | _ \<Rightarrow> None)"

definition parse_exponent :: "string \<Rightarrow> int option" where
  "parse_exponent s = (let (sg, t) = take_sign s in map_option (\<lambda>ds. sg * digits_val ds) (digit_part t))"

definition decimal_val :: "int list \<times> nat \<Rightarrow> int \<Rightarrow> rat" where
  "decimal_val m e = of_int (digits_val (fst m)) * 10 powi (e - int (snd m))"

definition parse_unsigned :: "string \<Rightarrow> rat option" where
  "parse_unsigned s = (case py_split (CHR ''e'') (py_lower s) of
     [m] \<Rightarrow> map_option (\<lambda>d. decimal_val d 0) (parse_mantissa m)
   | [m, x] \<Rightarrow> (case (parse_mantissa m, parse_exponent x) of
       (Some d, Some e) \<Rightarrow> Some (decimal_val d e) | _ \<Rightarrow> None)
   | _ \<Rightarrow> None)"

text \<open>\<open>float(s)\<close>: correctly rounded, \<open>inf\<close>, \<open>infinity\<close> and \<open>nan\<close> in any case; \<open>None\<close> is
  \<open>ValueError\<close>.\<close>

definition parse_float :: "string \<Rightarrow> pyfloat option" where
  "parse_float s = (let (sg, t) = take_sign (py_strip s); l = py_lower t in
     if l = ''inf'' \<or> l = ''infinity'' then Some (finf sg)
     else if l = ''nan'' then Some NaN
     else map_option (\<lambda>q. fl (of_int sg * q)) (parse_unsigned t))"

lemma parse_float_fwf: "parse_float s = Some f \<Longrightarrow> fwf f"
  by (auto simp: parse_float_def Let_def split: prod.splits if_splits)

subsection \<open>Values\<close>

datatype pyval =
    PNone
  | PBool bool
  | PInt int
  | PFloat pyfloat
  | PStr string
  | PList "pyval list"
  | PDict "(string \<times> pyval) list"

type_synonym pydict = "(string \<times> pyval) list"

definition dict_get :: "pydict \<Rightarrow> string \<Rightarrow> pyval" where
  "dict_get d k = (case map_of d k of None \<Rightarrow> PNone | Some v \<Rightarrow> v)"

definition has_key :: "pydict \<Rightarrow> string \<Rightarrow> bool" where
  "has_key d k \<longleftrightarrow> map_of d k \<noteq> None"

text \<open>\<open>math.isfinite\<close> converts an integer to a double first, so a huge integer raises
  \<open>OverflowError\<close>; a bool is an integer; everything else is a \<open>TypeError\<close>.\<close>

fun math_isfinite :: "pyval \<Rightarrow> bool res" where
  "math_isfinite (PFloat f) = Inr (isfinite f)"
| "math_isfinite (PInt n) = rbind (float_of_int n) (\<lambda>_. Inr True)"
| "math_isfinite (PBool _) = Inr True"
| "math_isfinite _ = Inl TypeError"

fun val_wf :: "pyval \<Rightarrow> bool" where
  "val_wf (PFloat f) = fwf f"
| "val_wf (PList vs) = list_all val_wf vs"
| "val_wf (PDict d) = list_all (\<lambda>kv. val_wf (snd kv)) d"
| "val_wf _ = True"

lemma float_of_int_fwf: "float_of_int n = Inr f \<Longrightarrow> fwf f \<and> isfinite f"
  using fwf_fl [of "of_int n"] by (cases "fl (of_int n)") (auto simp: float_of_int_def)

subsection \<open>Numbers\<close>

text \<open>
  Python mixes \<open>int\<close> and \<open>float\<close>: two integers are added, subtracted and multiplied exactly,
  a mixed operation converts the integer (and raises \<open>OverflowError\<close> when it is too large),
  the true division of two integers is correctly rounded. Comparisons are exact: \<open>num_ext\<close>
  places both kinds of numbers in the extended rationals and \<open>flt\<close> compares there.
\<close>

datatype pynum = NI int | NF pyfloat

fun to_num :: "pyval \<Rightarrow> pynum res" where
  "to_num (PInt n) = Inr (NI n)"
| "to_num (PFloat f) = Inr (NF f)"
| "to_num (PBool b) = Inr (NI (if b then 1 else 0))"
| "to_num _ = Inl TypeError"

fun num_ext :: "pynum \<Rightarrow> pyfloat" where
  "num_ext (NI n) = Fin (of_int n)"
| "num_ext (NF f) = f"

fun num_wf :: "pynum \<Rightarrow> bool" where
  "num_wf (NI n) = True"
| "num_wf (NF f) = fwf f"

definition num_lt :: "pynum \<Rightarrow> pynum \<Rightarrow> bool" where
  "num_lt a b \<longleftrightarrow> flt (num_ext a) (num_ext b)"

definition num_le :: "pynum \<Rightarrow> pynum \<Rightarrow> bool" where
  "num_le a b \<longleftrightarrow> fle (num_ext a) (num_ext b)"

fun to_float :: "pynum \<Rightarrow> pyfloat res" where
  "to_float (NI n) = float_of_int n"
| "to_float (NF f) = Inr f"

definition num_arith :: "(int \<Rightarrow> int \<Rightarrow> int) \<Rightarrow> (pyfloat \<Rightarrow> pyfloat \<Rightarrow> pyfloat) \<Rightarrow> pynum \<Rightarrow> pynum \<Rightarrow> pynum res"
  where
  "num_arith iop fop a b = (case (a, b) of
     (NI m, NI n) \<Rightarrow> Inr (NI (iop m n))
   | _ \<Rightarrow> rbind (to_float a) (\<lambda>x. rbind (to_float b) (\<lambda>y. Inr (NF (fop x y)))))"

definition num_add :: "pynum \<Rightarrow> pynum \<Rightarrow> pynum res" where
  "num_add = num_arith (+) fadd"

definition num_sub :: "pynum \<Rightarrow> pynum \<Rightarrow> pynum res" where
  "num_sub = num_arith (-) fsub"

definition num_mul :: "pynum \<Rightarrow> pynum \<Rightarrow> pynum res" where
  "num_mul = num_arith (*) fmul"

definition num_div :: "pynum \<Rightarrow> pynum \<Rightarrow> pynum res" where
  "num_div a b = (case (a, b) of
     (NI m, NI n) \<Rightarrow> (if n = 0 then Inl ZeroDivisionError
        else case fl (of_int m / of_int n) of Fin q \<Rightarrow> Inr (NF (Fin q)) | _ \<Rightarrow> Inl OverflowError)
   | _ \<Rightarrow> rbind (to_float a) (\<lambda>x. rbind (to_float b) (\<lambda>y. rbind (fdiv x y) (\<lambda>z. Inr (NF z)))))"

fun num_abs :: "pynum \<Rightarrow> pynum" where
  "num_abs (NI n) = NI \<bar>n\<bar>"
| "num_abs (NF f) = NF (fabs f)"

fun py_truthy :: "pyval \<Rightarrow> bool" where
  "py_truthy PNone = False"
| "py_truthy (PBool b) = b"
| "py_truthy (PInt n) = (n \<noteq> 0)"
| "py_truthy (PFloat f) = (f \<noteq> Fin 0)"
| "py_truthy (PStr s) = (s \<noteq> [])"
| "py_truthy (PList vs) = (vs \<noteq> [])"
| "py_truthy (PDict d) = (d \<noteq> [])"

text \<open>What \<open>for x in v\<close> runs over, with \<open>TypeError\<close> for a value that is not iterable.\<close>

fun py_iter :: "pyval \<Rightarrow> pyval list res" where
  "py_iter (PList vs) = Inr vs"
| "py_iter (PStr s) = Inr (map (\<lambda>c. PStr [c]) s)"
| "py_iter (PDict d) = Inr (map (\<lambda>kv. PStr (fst kv)) d)"
| "py_iter _ = Inl TypeError"

lemma num_ext_NF [simp]: "num_lt (NF a) (NF b) = flt a b" "num_le (NF a) (NF b) = fle a b"
  by (simp_all add: num_lt_def num_le_def)

lemma num_sub_NF [simp]: "num_sub (NF a) (NF b) = Inr (NF (fsub a b))"
  and num_add_NF [simp]: "num_add (NF a) (NF b) = Inr (NF (fadd a b))"
  and num_mul_NF [simp]: "num_mul (NF a) (NF b) = Inr (NF (fmul a b))"
  and num_div_NF [simp]: "num_div (NF a) (NF b) = rbind (fdiv a b) (\<lambda>z. Inr (NF z))"
  by (simp_all add: num_sub_def num_add_def num_mul_def num_div_def num_arith_def)

lemma num_lt_trans: "num_lt a b \<Longrightarrow> num_lt b c \<Longrightarrow> num_lt a c"
  unfolding num_lt_def by (rule flt_trans)

lemma num_lt_le_trans: "num_lt a b \<Longrightarrow> num_le b c \<Longrightarrow> num_lt a c"
  unfolding num_lt_def num_le_def by (rule flt_fle_trans)

lemma num_le_refl: "num_ext a \<noteq> NaN \<Longrightarrow> num_le a a"
  unfolding num_le_def by (rule fle_refl)

lemma num_ext_abs: "num_ext (num_abs a) = fabs (num_ext a)"
  by (cases a) auto

definition num_finite :: "pynum \<Rightarrow> bool" where
  "num_finite a \<longleftrightarrow> isfinite (num_ext a)"

lemma math_isfinite_to_num:
  "math_isfinite v = Inr True \<Longrightarrow> \<exists>a. to_num v = Inr a \<and> num_finite a"
  by (cases v) (auto simp: num_finite_def)

end
