(* ===== verification/EnvConfig.thy ===== *)
theory EnvConfig
  imports PyValue
begin

text \<open>
  Configuration from the process environment. Every module of the program reads each of its
  parameters from its own environment variable with a documented default, through a helper that
  never raises: an unset, blank, unparseable or out-of-range variable gives the default. The
  helpers of \<open>regime.py\<close> are \<open>resolve_float\<close> and \<open>resolve_int\<close>; other modules carry copies or
  variants of them. What all of them promise is the locale \<open>env_param\<close>, proved once and
  interpreted for each helper.
\<close>

type_synonym env = "string \<Rightarrow> string option"

definition resolve_float :: "env \<Rightarrow> string \<Rightarrow> pyfloat \<Rightarrow> pyfloat \<Rightarrow> pyfloat \<Rightarrow> pyfloat" where
  "resolve_float env env_name dflt low high =
     (case env env_name of
        None \<Rightarrow> dflt
      | Some raw \<Rightarrow>
          if py_strip raw = [] then dflt
          else case parse_float (py_strip raw) of
            None \<Rightarrow> dflt
          | Some value \<Rightarrow>
              if \<not> isfinite value then dflt
              else if flt value low \<or> flt high value then dflt
              else value)"

definition resolve_int :: "env \<Rightarrow> string \<Rightarrow> int \<Rightarrow> int \<Rightarrow> int" where
  "resolve_int env env_name dflt low =
     (case env env_name of
        None \<Rightarrow> dflt
      | Some raw \<Rightarrow>
          if py_strip raw = [] then dflt
          else case parse_int (py_strip raw) of
            None \<Rightarrow> dflt
          | Some value \<Rightarrow> if value < low then dflt else value)"

text \<open>
  The contract of a parameter helper: \<open>parse\<close> is what the helper accepts as text, \<open>ok\<close> the
  range it enforces. The result is the parsed value exactly when there is one in range.
\<close>

locale env_param =
  fixes parse :: "string \<Rightarrow> 'a option"
    and ok :: "'a \<Rightarrow> bool"
    and resolve :: "env \<Rightarrow> string \<Rightarrow> 'a \<Rightarrow> 'a"
  assumes resolve_unset: "env name = None \<Longrightarrow> resolve env name d = d"
    and resolve_blank: "env name = Some raw \<Longrightarrow> py_strip raw = [] \<Longrightarrow> resolve env name d = d"
    and resolve_bad: "env name = Some raw \<Longrightarrow> parse (py_strip raw) = None \<Longrightarrow> resolve env name d = d"
    and resolve_range: "env name = Some raw \<Longrightarrow> parse (py_strip raw) = Some v \<Longrightarrow> \<not> ok v
      \<Longrightarrow> resolve env name d = d"
    and resolve_good: "env name = Some raw \<Longrightarrow> py_strip raw \<noteq> [] \<Longrightarrow> parse (py_strip raw) = Some v
      \<Longrightarrow> ok v \<Longrightarrow> resolve env name d = v"
begin

lemma resolve_eq:
  "resolve env name d =
     (case env name of None \<Rightarrow> d
      | Some raw \<Rightarrow> if py_strip raw = [] then d
          else case parse (py_strip raw) of None \<Rightarrow> d | Some v \<Rightarrow> if ok v then v else d)"
  by (simp add: resolve_unset resolve_blank resolve_bad resolve_range resolve_good
      split: option.split)

lemma resolve_cases:
  obtains "resolve env name d = d"
  | raw v where "env name = Some raw" "parse (py_strip raw) = Some v" "ok v" "resolve env name d = v"
proof (cases "resolve env name d = d")
  case False
  then obtain raw v where "env name = Some raw" "parse (py_strip raw) = Some v" "ok v"
    by (auto simp: resolve_eq split: option.splits if_splits)
  then show thesis using that(2) False by (auto simp: resolve_eq split: if_splits)
qed (rule that(1))

lemma resolve_ok: "ok d \<Longrightarrow> ok (resolve env name d)"
  by (auto simp: resolve_eq split: option.split)

text \<open>A parameter depends on its own variable only.\<close>

lemma resolve_local: "env name = env' name \<Longrightarrow> resolve env name d = resolve env' name d"
  by (simp add: resolve_eq)

end

abbreviation float_in :: "pyfloat \<Rightarrow> pyfloat \<Rightarrow> pyfloat \<Rightarrow> bool" where
  "float_in low high v \<equiv> isfinite v \<and> \<not> flt v low \<and> \<not> flt high v"

interpretation regime_float: env_param parse_float "float_in low high"
    "\<lambda>env name d. resolve_float env name d low high" for low high
  by unfold_locales (auto simp: resolve_float_def)

interpretation regime_int: env_param parse_int "\<lambda>v. low \<le> v"
    "\<lambda>env name d. resolve_int env name d low" for low
  by unfold_locales (auto simp: resolve_int_def)

lemma resolve_float_fwf: "fwf d \<Longrightarrow> fwf (resolve_float env name d low high)"
  by (cases rule: regime_float.resolve_cases [of env name d low high])
    (auto dest: parse_float_fwf)

end
