(* ===== verification/TradeManager.thy ===== *)
theory TradeManager
  imports EnvConfig "HOL-Library.Product_Lexorder"
begin

text \<open>
  \<open>agents/deep-quant-loop/trade_manager.py\<close>: the management plan of a trade and the simulation
  of its exits over a candle window. Plan fields are Python values, because plans are rebuilt
  from stored JSON without type checks; the simulator itself converts and tests them. Prices,
  sizes and R-multiples are binary64 numbers computed in the order of the source.
\<close>

subsection \<open>Configuration\<close>

record trade_manager_config =
  default_first_target_r :: pyfloat
  default_first_target_fraction :: pyfloat
  default_breakeven_trigger_r :: pyfloat
  default_trail_atr_multiple :: pyfloat
  min_blended_reward_to_risk :: pyfloat

text \<open>The three parameters with an exclusive lower bound: an accepted \<open>0.0\<close> reverts to the
  default.\<close>

definition resolve_positive :: "env \<Rightarrow> string \<Rightarrow> pyfloat \<Rightarrow> pyfloat \<Rightarrow> pyfloat" where
  "resolve_positive env name dflt high =
     (let v = resolve_float env name dflt (Fin 0) high in if fle v (Fin 0) then dflt else v)"

definition resolve_trade_manager_config :: "env \<Rightarrow> trade_manager_config" where
  "resolve_trade_manager_config env =
     \<lparr>default_first_target_r = resolve_positive env ''TM_DEFAULT_FIRST_TARGET_R'' (fl 1) (fl 100),
      default_first_target_fraction =
        resolve_positive env ''TM_DEFAULT_FIRST_TARGET_FRACTION'' (fl (5 / 10)) (fl 1),
      default_breakeven_trigger_r =
        resolve_positive env ''TM_DEFAULT_BREAKEVEN_TRIGGER_R'' (fl 1) (fl 100),
      default_trail_atr_multiple =
        resolve_float env ''TM_DEFAULT_TRAIL_ATR_MULTIPLE'' (fl (15 / 10)) (Fin 0) (fl 100),
      min_blended_reward_to_risk =
        resolve_float env ''TM_MIN_BLENDED_REWARD_TO_RISK'' (fl 2) (Fin 0) (fl 100)\<rparr>"

subsection \<open>Plans and results\<close>

record scale_out_leg =
  leg_target :: pyval
  leg_fraction :: pyval

record breakeven_trigger =
  be_price :: pyval
  be_r_multiple :: pyval

record trailing_stop =
  atr_multiple :: pyval
  r_increment :: pyval

record management_plan =
  plan_action :: pyval
  plan_entry :: pyval
  plan_initial_stop :: pyval
  plan_legs :: "scale_out_leg list"
  plan_breakeven :: "breakeven_trigger option"
  plan_trailing :: "trailing_stop option"
  plan_atr_14 :: pyval

datatype fill_kind = K_target | K_stop | K_breakeven_stop | K_trail_stop

record leg_fill =
  fill_index :: int
  fill_price :: pyfloat
  fill_fraction :: pynum
  leg_r :: pyfloat
  fill_timestamp_ms :: int
  fill_kind :: fill_kind

datatype sim_status = Resolved | Open | Invalid

record simulation_result =
  res_status :: sim_status
  res_realized_r :: "pyfloat option"
  res_fills :: "leg_fill list"
  res_residual_fraction :: pyfloat
  res_breakeven_moved_at :: "int option"
  res_trailed :: bool

subsection \<open>Plan construction\<close>

definition single_target_plan :: "pyval \<Rightarrow> pyval \<Rightarrow> pyval \<Rightarrow> management_plan res" where
  "single_target_plan ent stop_loss take_profit =
     rbind (to_num ent) (\<lambda>e. rbind (to_num take_profit) (\<lambda>tp. Inr
       \<lparr>plan_action = PStr (if num_le e tp then ''BUY'' else ''SELL''),
        plan_entry = ent, plan_initial_stop = stop_loss,
        plan_legs = [\<lparr>leg_target = take_profit, leg_fraction = PFloat (Fin 1)\<rparr>],
        plan_breakeven = None, plan_trailing = None, plan_atr_14 = PNone\<rparr>))"

fun num_to_val :: "pynum \<Rightarrow> pyval" where
  "num_to_val (NI n) = PInt n"
| "num_to_val (NF f) = PFloat f"

text \<open>\<open>str(v).upper() == "SELL"\<close>: the text of no value but a string upper-cases to \<open>SELL\<close>.\<close>

definition says_sell :: "pyval \<Rightarrow> bool" where
  "says_sell v \<longleftrightarrow> (case v of PStr s \<Rightarrow> py_upper s = ''SELL'' | _ \<Rightarrow> False)"

definition default_management_plan ::
    "pyval \<Rightarrow> pyval \<Rightarrow> pyval \<Rightarrow> pyval \<Rightarrow> trade_manager_config \<Rightarrow> management_plan res" where
  "default_management_plan act ent stop_loss atr config =
     (let sell = says_sell act in
      rbind (to_num ent) (\<lambda>e. rbind (to_num stop_loss) (\<lambda>sl.
      rbind (num_sub e sl) (\<lambda>d.
      rbind (num_mul (NF (default_first_target_r config)) (num_abs d)) (\<lambda>m.
      rbind (if sell then num_sub e m else num_add e m) (\<lambda>first_target. Inr
       \<lparr>plan_action = PStr (if sell then ''SELL'' else ''BUY''),
        plan_entry = ent, plan_initial_stop = stop_loss,
        plan_legs = [\<lparr>leg_target = num_to_val first_target,
                 leg_fraction = PFloat (default_first_target_fraction config)\<rparr>],
        plan_breakeven = Some \<lparr>be_price = PNone, be_r_multiple = PFloat (default_breakeven_trigger_r config)\<rparr>,
        plan_trailing = Some \<lparr>atr_multiple = PFloat (default_trail_atr_multiple config), r_increment = PNone\<rparr>,
        plan_atr_14 = atr\<rparr>))))))"

subsection \<open>Persistence payload\<close>

text \<open>The dict that \<open>plan_to_json\<close> hands to \<open>json.dumps\<close> and that \<open>plan_from_json\<close> gets back
  from \<open>json.loads\<close>. The text layer between the two is not modelled.\<close>

definition plan_to_payload :: "management_plan \<Rightarrow> pyval" where
  "plan_to_payload plan = PDict
     [(''action'', plan_action plan),
      (''entry'', plan_entry plan),
      (''initial_stop'', plan_initial_stop plan),
      (''legs'', PList (map (\<lambda>leg. PDict [(''target'', leg_target leg), (''fraction'', leg_fraction leg)]) (plan_legs plan))),
      (''breakeven'', case plan_breakeven plan of None \<Rightarrow> PNone
         | Some b \<Rightarrow> PDict [(''price'', be_price b), (''r_multiple'', be_r_multiple b)]),
      (''trailing'', case plan_trailing plan of None \<Rightarrow> PNone
         | Some t \<Rightarrow> PDict [(''atr_multiple'', atr_multiple t), (''r_increment'', r_increment t)]),
      (''atr_14'', plan_atr_14 plan)]"

text \<open>\<open>v[key]\<close>: a missing key of a dict is a \<open>KeyError\<close>, subscripting anything else with a
  string a \<open>TypeError\<close>.\<close>

fun subscript :: "pyval \<Rightarrow> string \<Rightarrow> pyval res" where
  "subscript (PDict d) k = (case map_of d k of None \<Rightarrow> Inl KeyError | Some v \<Rightarrow> Inr v)"
| "subscript _ k = Inl TypeError"

definition leg_from_payload :: "pyval \<Rightarrow> scale_out_leg res" where
  "leg_from_payload leg =
     rbind (subscript leg ''target'') (\<lambda>t. rbind (subscript leg ''fraction'') (\<lambda>f.
       Inr \<lparr>leg_target = t, leg_fraction = f\<rparr>))"

definition plan_from_payload :: "pyval \<Rightarrow> management_plan option" where
  "plan_from_payload payload = (case payload of
     PDict d \<Rightarrow>
       (case rbind (subscript payload ''legs'') (\<lambda>raw_legs.
          case raw_legs of
            PList ls \<Rightarrow>
              rbind (rmap leg_from_payload ls) (\<lambda>lgs.
              rbind (subscript payload ''action'') (\<lambda>act.
              rbind (subscript payload ''entry'') (\<lambda>ent.
              rbind (subscript payload ''initial_stop'') (\<lambda>st. Inr (Some
                \<lparr>plan_action = act, plan_entry = ent, plan_initial_stop = st, plan_legs = lgs,
                 plan_breakeven = (case dict_get d ''breakeven'' of
                    PDict b \<Rightarrow> Some \<lparr>be_price = dict_get b ''price'', be_r_multiple = dict_get b ''r_multiple''\<rparr>
                  | _ \<Rightarrow> None),
                 plan_trailing = (case dict_get d ''trailing'' of
                    PDict t \<Rightarrow> Some \<lparr>atr_multiple = dict_get t ''atr_multiple'', r_increment = dict_get t ''r_increment''\<rparr>
                  | _ \<Rightarrow> None),
                 plan_atr_14 = dict_get d ''atr_14''\<rparr>)))))
          | _ \<Rightarrow> Inr None)
        of Inr p \<Rightarrow> p | Inl _ \<Rightarrow> None)
   | _ \<Rightarrow> None)"

subsection \<open>Management-style tag\<close>

definition MANAGEMENT_STYLE_TAGS :: "string list" where
  "MANAGEMENT_STYLE_TAGS =
     [''single'', ''scale'', ''scale-be'', ''scale-trail'', ''scale-be-trail'', ''be'', ''trail'', ''unknown'']"

definition has_breakeven :: "management_plan \<Rightarrow> bool" where
  "has_breakeven plan \<longleftrightarrow> (case plan_breakeven plan of None \<Rightarrow> False
     | Some b \<Rightarrow> be_price b \<noteq> PNone \<or> be_r_multiple b \<noteq> PNone)"

definition has_trailing :: "management_plan \<Rightarrow> bool" where
  "has_trailing plan \<longleftrightarrow> (case plan_trailing plan of None \<Rightarrow> False
     | Some t \<Rightarrow> atr_multiple t \<noteq> PNone \<or> r_increment t \<noteq> PNone)"

fun any_partial :: "scale_out_leg list \<Rightarrow> bool res" where
  "any_partial [] = Inr False"
| "any_partial (leg # ls) =
     rbind (to_num (leg_fraction leg)) (\<lambda>f. if num_lt f (NF (Fin 1)) then Inr True else any_partial ls)"

definition is_scaling :: "management_plan \<Rightarrow> bool res" where
  "is_scaling plan = (if 1 < length (plan_legs plan) then Inr True else any_partial (plan_legs plan))"

definition management_style_tag :: "management_plan option \<Rightarrow> string" where
  "management_style_tag plan = (case plan of None \<Rightarrow> ''unknown''
   | Some p \<Rightarrow>
       let has_be = has_breakeven p; has_trail = has_trailing p in
       case is_scaling p of
         Inl _ \<Rightarrow> ''unknown''
       | Inr True \<Rightarrow>
           if has_be \<and> has_trail then ''scale-be-trail''
           else if has_be then ''scale-be''
           else if has_trail then ''scale-trail''
           else ''scale''
       | Inr False \<Rightarrow>
           if has_trail then ''trail'' else if has_be then ''be'' else ''single'')"

subsection \<open>Candles\<close>

definition SIZE_TOL :: pyfloat where
  "SIZE_TOL = fl (1 / 10 ^ 9)"

text \<open>\<open>_finite_num\<close>: \<open>float(value)\<close> of a finite number that is not a bool. \<open>math.isfinite\<close> of an
  integer beyond the float range raises.\<close>

fun finite_num :: "pyval \<Rightarrow> pyfloat option res" where
  "finite_num (PInt n) = rbind (float_of_int n) (\<lambda>f. Inr (Some f))"
| "finite_num (PFloat f) = Inr (if isfinite f then Some f else None)"
| "finite_num _ = Inr None"

fun candle_timestamp_keys :: "string list \<Rightarrow> pydict \<Rightarrow> pyfloat option res" where
  "candle_timestamp_keys [] c = Inr None"
| "candle_timestamp_keys (k # ks) c =
     (if has_key c k
      then rbind (finite_num (dict_get c k)) (\<lambda>ts.
             case ts of Some t \<Rightarrow> Inr (Some t) | None \<Rightarrow> candle_timestamp_keys ks c)
      else candle_timestamp_keys ks c)"

definition candle_timestamp :: "pydict \<Rightarrow> pyfloat option res" where
  "candle_timestamp c = candle_timestamp_keys [''timestamp_ms'', ''timestamp'', ''time''] c"

type_synonym candle_row = "pyfloat \<times> pyfloat \<times> pyfloat \<times> pyfloat \<times> pyfloat"

text \<open>One iteration of the filter: \<open>None\<close> is \<open>continue\<close>.\<close>

definition clean_candle :: "pyval \<Rightarrow> candle_row option res" where
  "clean_candle v = (case v of
     PDict c \<Rightarrow>
       rbind (finite_num (dict_get c ''open'')) (\<lambda>opn.
       rbind (finite_num (dict_get c ''high'')) (\<lambda>h.
       rbind (finite_num (dict_get c ''low'')) (\<lambda>lo.
       rbind (finite_num (dict_get c ''close'')) (\<lambda>cl.
       case (opn, h, lo, cl) of
         (Some opn', Some h', Some lo', Some cl') \<Rightarrow>
           rbind (if has_key c ''volume''
                  then rbind (finite_num (dict_get c ''volume'')) (\<lambda>x. Inr (x \<noteq> None))
                  else Inr True) (\<lambda>vol_ok.
           if \<not> vol_ok then Inr None
           else rbind (candle_timestamp c) (\<lambda>ts. Inr
             (case ts of None \<Rightarrow> None | Some t \<Rightarrow> Some (t, opn', h', lo', cl'))))
       | _ \<Rightarrow> Inr None))))
   | _ \<Rightarrow> Inr None)"

definition clean_candles :: "pyval list \<Rightarrow> candle_row list res" where
  "clean_candles candles =
     rbind (rmap clean_candle candles) (\<lambda>rows. Inr (sort (List.map_filter (\<lambda>r. r) rows)))"

subsection \<open>The simulator\<close>

text \<open>The values the simulation fixes before its first candle: \<open>be_level\<close> is the breakeven
  trigger price, \<open>trail_dist\<close> the trailing offset (both absent when no usable rule is
  configured).\<close>

record sim_ctx =
  ctx_is_buy :: bool
  entry_f :: pyfloat
  stop_f :: pyfloat
  ctx_stop_distance :: pyfloat
  be_level :: "pyfloat option"
  trail_dist :: "pyfloat option"
  ctx_legs :: "scale_out_leg list"

record sim_state =
  st_fills :: "leg_fill list"
  filled_indices :: "nat list"
  remaining :: pyfloat
  active_stop :: pyfloat
  stop_origin :: fill_kind
  be_moved :: bool
  be_moved_at :: "int option"
  st_trailed :: bool

definition r_of :: "sim_ctx \<Rightarrow> pyfloat \<Rightarrow> pyfloat res" where
  "r_of ctx price =
     (if ctx_is_buy ctx then fdiv (fsub price (entry_f ctx)) (ctx_stop_distance ctx)
      else fdiv (fsub (entry_f ctx) price) (ctx_stop_distance ctx))"

definition weighted_r :: "leg_fill \<Rightarrow> pyfloat res" where
  "weighted_r f = rbind (to_float (fill_fraction f)) (\<lambda>g. Inr (fmul g (leg_r f)))"

definition realized_r_of :: "leg_fill list \<Rightarrow> pyfloat res" where
  "realized_r_of fs = rbind (rmap weighted_r fs) (\<lambda>ws. Inr (py_sum ws))"

definition breakeven_level :: "bool \<Rightarrow> pyfloat \<Rightarrow> pyfloat \<Rightarrow> breakeven_trigger option \<Rightarrow> pyfloat option res" where
  "breakeven_level buy ent dst be = (case be of None \<Rightarrow> Inr None
   | Some b \<Rightarrow>
       rbind (finite_num (be_price b)) (\<lambda>p.
       rbind (finite_num (be_r_multiple b)) (\<lambda>r. Inr
         (case p of Some price \<Rightarrow> Some price
          | None \<Rightarrow> (case r of None \<Rightarrow> None
              | Some m \<Rightarrow> Some (if buy then fadd ent (fmul m dst) else fsub ent (fmul m dst)))))))"

definition trail_distance :: "pyfloat \<Rightarrow> trailing_stop option \<Rightarrow> pyval \<Rightarrow> pyfloat option res" where
  "trail_distance dst tr atr_v =
     rbind (finite_num atr_v) (\<lambda>atr.
     rbind (case tr of None \<Rightarrow> Inr None | Some t \<Rightarrow> finite_num (atr_multiple t)) (\<lambda>mult.
     rbind (case tr of None \<Rightarrow> Inr None | Some t \<Rightarrow> finite_num (r_increment t)) (\<lambda>incr. Inr
       (let d = (case (mult, atr) of
                   (Some m, Some a) \<Rightarrow> Some (fmul m a)
                 | _ \<Rightarrow> (case incr of Some i \<Rightarrow> Some (fmul i dst) | None \<Rightarrow> None))
        in case d of None \<Rightarrow> None
           | Some x \<Rightarrow> if \<not> isfinite x \<or> flt x (Fin 0) then None else Some x))))"

text \<open>Whether the candle reaches a price on the profit side, and the size a leg closes: its
  fraction, or what is left when that is less (or not comparable).\<close>

definition target_hit :: "sim_ctx \<Rightarrow> pyfloat \<Rightarrow> pyfloat \<Rightarrow> pyfloat \<Rightarrow> bool" where
  "target_hit ctx hi lo tgt \<longleftrightarrow> (if ctx_is_buy ctx then fle tgt hi else fle lo tgt)"

definition leg_size :: "pynum \<Rightarrow> pyfloat \<Rightarrow> pynum" where
  "leg_size f rem = (if num_le f (NF rem) then f else NF rem)"

text \<open>One iteration of the loop over the legs (step 2 of a candle).\<close>

definition fill_leg :: "sim_ctx \<Rightarrow> int \<Rightarrow> pyfloat \<Rightarrow> pyfloat \<Rightarrow> sim_state \<Rightarrow> nat \<times> scale_out_leg \<Rightarrow> sim_state res"
  where
  "fill_leg ctx ts hi lo st il =
     (let i = fst il; leg = snd il; rem = remaining st in
      if i \<in> set (filled_indices st) \<or> fle rem SIZE_TOL then Inr st
      else rbind (finite_num (leg_target leg)) (\<lambda>t.
      case t of None \<Rightarrow> Inr st
      | Some tgt \<Rightarrow>
        if \<not> target_hit ctx hi lo tgt then Inr st
        else rbind (to_num (leg_fraction leg)) (\<lambda>f.
        let frac = leg_size f rem;
            st' = st\<lparr>filled_indices := i # filled_indices st\<rparr> in
        if num_le frac (NF (Fin 0)) then Inr st'
        else rbind (r_of ctx tgt) (\<lambda>r.
        rbind (to_float frac) (\<lambda>g. Inr
          (st'\<lparr>st_fills := st_fills st @
                 [\<lparr>fill_index = int i, fill_price = tgt, fill_fraction = frac, leg_r = r,
                   fill_timestamp_ms = ts, fill_kind = K_target\<rparr>],
               remaining := fsub rem g\<rparr>))))))"

text \<open>Step 3 of a candle: the breakeven move, then the trailing move, for the next candles.\<close>

definition advance_breakeven :: "sim_ctx \<Rightarrow> int \<Rightarrow> pyfloat \<Rightarrow> pyfloat \<Rightarrow> sim_state \<Rightarrow> sim_state" where
  "advance_breakeven ctx ts hi lo st = (case be_level ctx of None \<Rightarrow> st
   | Some lvl \<Rightarrow>
       if be_moved st \<or> \<not> target_hit ctx hi lo lvl then st
       else let st' = (if (if ctx_is_buy ctx then flt (active_stop st) (entry_f ctx)
                           else flt (entry_f ctx) (active_stop st))
                       then st\<lparr>active_stop := entry_f ctx, stop_origin := K_breakeven_stop\<rparr> else st)
            in st'\<lparr>be_moved := True, be_moved_at := Some ts\<rparr>)"

definition trailing_active :: "sim_ctx \<Rightarrow> sim_state \<Rightarrow> bool" where
  "trailing_active ctx st \<longleftrightarrow> trail_dist ctx \<noteq> None \<and> (be_level ctx \<noteq> None \<longrightarrow> be_moved st)"

definition advance_trailing :: "sim_ctx \<Rightarrow> pyfloat \<Rightarrow> sim_state \<Rightarrow> sim_state" where
  "advance_trailing ctx cl st = (case trail_dist ctx of None \<Rightarrow> st
   | Some dst \<Rightarrow>
       if \<not> trailing_active ctx st then st
       else let candidate = (if ctx_is_buy ctx then fsub cl dst else fadd cl dst) in
         if isfinite candidate \<and> (if ctx_is_buy ctx then flt (active_stop st) candidate
                                   else flt candidate (active_stop st))
         then st\<lparr>active_stop := candidate, stop_origin := K_trail_stop, st_trailed := True\<rparr>
         else st)"

text \<open>One candle: \<open>Inl r\<close> inside the result is the return of \<open>r\<close>, \<open>Inr st\<close> the next iteration.\<close>

definition resolved :: "sim_state \<Rightarrow> pyfloat \<Rightarrow> pyfloat \<Rightarrow> simulation_result" where
  "resolved st rr residual =
     \<lparr>res_status = Resolved, res_realized_r = Some rr, res_fills = st_fills st, res_residual_fraction = residual,
      res_breakeven_moved_at = be_moved_at st, res_trailed = st_trailed st\<rparr>"

definition stop_hit :: "sim_ctx \<Rightarrow> sim_state \<Rightarrow> pyfloat \<Rightarrow> pyfloat \<Rightarrow> bool" where
  "stop_hit ctx st hi lo \<longleftrightarrow> (if ctx_is_buy ctx then fle lo (active_stop st) else fle (active_stop st) hi)"

definition stop_out :: "sim_ctx \<Rightarrow> int \<Rightarrow> sim_state \<Rightarrow> simulation_result res" where
  "stop_out ctx ts st =
     rbind (r_of ctx (active_stop st)) (\<lambda>r.
     let st' = st\<lparr>st_fills := st_fills st @
           [\<lparr>fill_index = - 1, fill_price = active_stop st, fill_fraction = NF (remaining st),
             leg_r = r, fill_timestamp_ms = ts, fill_kind = stop_origin st\<rparr>]\<rparr> in
     rbind (realized_r_of (st_fills st')) (\<lambda>rr. Inr (resolved st' rr (remaining st))))"

definition fill_legs :: "sim_ctx \<Rightarrow> int \<Rightarrow> pyfloat \<Rightarrow> pyfloat \<Rightarrow> sim_state \<Rightarrow> sim_state res" where
  "fill_legs ctx ts hi lo st = rfold (fill_leg ctx ts hi lo) st (enumerate 0 (ctx_legs ctx))"

definition sim_candle :: "sim_ctx \<Rightarrow> sim_state \<Rightarrow> candle_row \<Rightarrow> (simulation_result + sim_state) res" where
  "sim_candle ctx st row = (case row of (ts, opn, hi, lo, cl) \<Rightarrow>
     rbind (int_of_float ts) (\<lambda>ts_ms.
     if stop_hit ctx st hi lo then rbind (stop_out ctx ts_ms st) (\<lambda>r. Inr (Inl r))
     else rbind (fill_legs ctx ts_ms hi lo st) (\<lambda>st1.
     if fle (remaining st1) SIZE_TOL
     then rbind (realized_r_of (st_fills st1)) (\<lambda>rr. Inr (Inl (resolved st1 rr (Fin 0))))
     else Inr (Inr (advance_trailing ctx cl (advance_breakeven ctx ts_ms hi lo st1))))))"

fun sim_loop :: "sim_ctx \<Rightarrow> sim_state \<Rightarrow> candle_row list \<Rightarrow> simulation_result res" where
  "sim_loop ctx st [] = Inr
     \<lparr>res_status = Open, res_realized_r = None, res_fills = st_fills st, res_residual_fraction = remaining st,
      res_breakeven_moved_at = be_moved_at st, res_trailed = st_trailed st\<rparr>"
| "sim_loop ctx st (row # rows) =
     rbind (sim_candle ctx st row) (\<lambda>r. case r of Inl res \<Rightarrow> Inr res | Inr st' \<Rightarrow> sim_loop ctx st' rows)"

definition init_state :: "sim_ctx \<Rightarrow> sim_state" where
  "init_state ctx = \<lparr>st_fills = [], filled_indices = [], remaining = Fin 1, active_stop = stop_f ctx,
     stop_origin = K_stop, be_moved = False, be_moved_at = None, st_trailed = False\<rparr>"

definition invalid_result :: simulation_result where
  "invalid_result = \<lparr>res_status = Invalid, res_realized_r = None, res_fills = [], res_residual_fraction = Fin 0,
     res_breakeven_moved_at = None, res_trailed = False\<rparr>"

definition mk_ctx :: "management_plan \<Rightarrow> pyfloat \<Rightarrow> pyfloat \<Rightarrow> sim_ctx res" where
  "mk_ctx plan ent st =
     (let buy = \<not> says_sell (plan_action plan); dst = fabs (fsub ent st) in
      rbind (breakeven_level buy ent dst (plan_breakeven plan)) (\<lambda>be.
      rbind (trail_distance dst (plan_trailing plan) (plan_atr_14 plan)) (\<lambda>tr. Inr
        \<lparr>ctx_is_buy = buy, entry_f = ent, stop_f = st, ctx_stop_distance = dst, be_level = be,
         trail_dist = tr, ctx_legs = plan_legs plan\<rparr>)))"

definition simulate_plan_impl :: "management_plan \<Rightarrow> pyval list \<Rightarrow> simulation_result res" where
  "simulate_plan_impl plan candles =
     rbind (finite_num (plan_entry plan)) (\<lambda>e.
     rbind (finite_num (plan_initial_stop plan)) (\<lambda>s.
     case (e, s) of
       (Some ent, Some st) \<Rightarrow>
         (let dst = fabs (fsub ent st) in
          if dst = Fin 0 \<or> \<not> isfinite dst then Inr invalid_result
          else rbind (mk_ctx plan ent st) (\<lambda>ctx.
               rbind (clean_candles candles) (\<lambda>rows. sim_loop ctx (init_state ctx) rows)))
     | _ \<Rightarrow> Inr invalid_result))"

definition simulate_plan :: "management_plan \<Rightarrow> pyval list \<Rightarrow> simulation_result" where
  "simulate_plan plan candles = (case simulate_plan_impl plan candles of
     Inr r \<Rightarrow> r
   | Inl _ \<Rightarrow> \<lparr>res_status = Open, res_realized_r = None, res_fills = [], res_residual_fraction = Fin 1,
       res_breakeven_moved_at = None, res_trailed = False\<rparr>)"

subsection \<open>Order independence\<close>

lemma rmap_map: "rmap f xs = Inr ys \<longleftrightarrow> map f xs = map Inr ys"
  by (induction xs arbitrary: ys) (auto simp: rbind_eq_Inr Cons_eq_map_conv)

lemma rmap_perm:
  assumes "mset xs = mset xs'" "rmap f xs = Inr ys"
  shows "\<exists>ys'. rmap f xs' = Inr ys' \<and> mset ys' = mset ys"
proof -
  have m: "map f xs = map Inr ys" using assms(2) by (simp add: rmap_map)
  have "\<forall>x \<in> set xs'. \<exists>y. f x = Inr y"
  proof
    fix x assume "x \<in> set xs'"
    then have "x \<in> set xs" using mset_eq_setD [OF assms(1)] by simp
    then have "f x \<in> set (map f xs)" by simp
    then show "\<exists>y. f x = Inr y" unfolding m by auto
  qed
  then have "map f xs' = map Inr (map (projr \<circ> f) xs')"
    unfolding map_map by (intro map_cong) (auto simp: comp_def)
  moreover have "map (projr \<circ> f) xs = ys"
  proof -
    have "map (projr \<circ> f) xs = map projr (map f xs)" by simp
    also have "\<dots> = map projr (map Inr ys)" unfolding m by simp
    finally show ?thesis by (simp add: comp_def)
  qed
  then have "mset (map (projr \<circ> f) xs') = mset ys" using assms(1) by (metis mset_map)
  ultimately show ?thesis unfolding rmap_map by blast
qed

lemma clean_candles_perm:
  assumes "mset cs = mset cs'" "clean_candles cs = Inr rows"
  shows "clean_candles cs' = Inr rows"
proof -
  obtain ys where ys: "rmap clean_candle cs = Inr ys" "rows = sort (List.map_filter (\<lambda>r. r) ys)"
    using assms(2) by (auto simp: clean_candles_def rbind_eq_Inr)
  obtain zs where zs: "rmap clean_candle cs' = Inr zs" "mset zs = mset ys"
    using rmap_perm [OF assms(1) ys(1)] by blast
  have "mset (List.map_filter (\<lambda>r. r) zs) = mset (List.map_filter (\<lambda>r. r) ys)"
    using zs(2) by (simp add: List.map_filter_def)
  then have "sort (List.map_filter (\<lambda>r. r) zs) = rows"
    unfolding ys(2) by (metis properties_for_sort mset_sort sorted_sort)
  then show ?thesis using zs(1) by (simp add: clean_candles_def)
qed

lemma clean_candles_sorted: "clean_candles cs = Inr rows \<Longrightarrow> sorted rows"
  by (auto simp: clean_candles_def rbind_eq_Inr)

text \<open>C15: The simulation depends on the candles as a multiset only: feeding the same candles in
  any order gives the same result, exits, timestamps and R included.\<close>

theorem simulate_plan_order_independent:
  assumes "mset cs = mset cs'"
  shows "simulate_plan plan cs = simulate_plan plan cs'"
proof -
  have "clean_candles cs = clean_candles cs' \<or>
      ((\<exists>e. clean_candles cs = Inl e) \<and> (\<exists>e. clean_candles cs' = Inl e))"
    using clean_candles_perm [OF assms] clean_candles_perm [OF assms [symmetric]]
    by (metis obj_sumE)
  then have "simulate_plan_impl plan cs = simulate_plan_impl plan cs' \<or>
      ((\<exists>e. simulate_plan_impl plan cs = Inl e) \<and> (\<exists>e. simulate_plan_impl plan cs' = Inl e))"
    by (cases "finite_num (plan_entry plan)"; cases "finite_num (plan_initial_stop plan)")
      (auto simp: simulate_plan_impl_def Let_def rbind_def split: option.splits sum.splits)
  then show ?thesis by (auto simp: simulate_plan_def)
qed

subsection \<open>Invariants of the loop\<close>

text \<open>
  A property of the simulation state that holds at the start and that every leg, the breakeven
  move and the trailing move keep, holds in the state in which the simulation ends.
  \<open>sim_ending\<close> says how the result is read off that state.
\<close>

definition ctx_ok :: "sim_ctx \<Rightarrow> bool" where
  "ctx_ok ctx \<longleftrightarrow> (\<exists>e s d. entry_f ctx = Fin e \<and> stop_f ctx = Fin s \<and> ctx_stop_distance ctx = Fin d
     \<and> fabs (fsub (Fin e) (Fin s)) = Fin d \<and> d \<noteq> 0)"

definition sim_ending :: "sim_ctx \<Rightarrow> sim_state \<Rightarrow> simulation_result \<Rightarrow> bool" where
  "sim_ending ctx st r \<longleftrightarrow>
     (res_status r = Open \<and> res_realized_r r = None \<and> res_fills r = st_fills st
        \<and> res_residual_fraction r = remaining st)
     \<or> (\<exists>rr. fle (remaining st) SIZE_TOL \<and> realized_r_of (st_fills st) = Inr rr \<and> r = resolved st rr (Fin 0))
     \<or> (\<exists>ts. stop_out ctx ts st = Inr r)"

locale sim_invariant =
  fixes P :: "sim_ctx \<Rightarrow> sim_state \<Rightarrow> bool"
  assumes inv_init: "ctx_ok ctx \<Longrightarrow> P ctx (init_state ctx)"
    and inv_leg: "ctx_ok ctx \<Longrightarrow> P ctx st \<Longrightarrow> il \<in> set (enumerate 0 (ctx_legs ctx))
      \<Longrightarrow> fill_leg ctx ts hi lo st il = Inr st' \<Longrightarrow> P ctx st'"
    and inv_breakeven: "ctx_ok ctx \<Longrightarrow> P ctx st \<Longrightarrow> P ctx (advance_breakeven ctx ts hi lo st)"
    and inv_trailing: "ctx_ok ctx \<Longrightarrow> P ctx st \<Longrightarrow> P ctx (advance_trailing ctx cl st)"
begin

lemma inv_legs: "ctx_ok ctx \<Longrightarrow> P ctx st \<Longrightarrow> fill_legs ctx ts hi lo st = Inr st' \<Longrightarrow> P ctx st'"
  unfolding fill_legs_def by (erule rfold_invariant) (auto intro: inv_leg)

lemma inv_candle:
  "ctx_ok ctx \<Longrightarrow> P ctx st \<Longrightarrow> sim_candle ctx st row = Inr (Inr st') \<Longrightarrow> P ctx st'"
  by (auto simp: sim_candle_def rbind_eq_Inr split: prod.splits if_splits
      intro!: inv_trailing inv_breakeven intro: inv_legs)

lemma candle_ending:
  "ctx_ok ctx \<Longrightarrow> P ctx st \<Longrightarrow> sim_candle ctx st row = Inr (Inl r) \<Longrightarrow> \<exists>st'. P ctx st' \<and> sim_ending ctx st' r"
proof -
  assume ok: "ctx_ok ctx" and P: "P ctx st" and r: "sim_candle ctx st row = Inr (Inl r)"
  obtain ts opn hi lo cl where row: "row = (ts, opn, hi, lo, cl)" by (cases row)
  obtain ts_ms where ts: "int_of_float ts = Inr ts_ms"
    using r by (auto simp: sim_candle_def row rbind_eq_Inr)
  show ?thesis
  proof (cases "stop_hit ctx st hi lo")
    case True
    then have "stop_out ctx ts_ms st = Inr r" using r ts by (auto simp: sim_candle_def row rbind_eq_Inr)
    then show ?thesis using P by (auto simp: sim_ending_def)
  next
    case False
    then obtain st1 where st1: "fill_legs ctx ts_ms hi lo st = Inr st1"
        and "fle (remaining st1) SIZE_TOL" "\<exists>rr. realized_r_of (st_fills st1) = Inr rr \<and> r = resolved st1 rr (Fin 0)"
      using r ts by (auto simp: sim_candle_def row rbind_eq_Inr split: if_splits)
    then show ?thesis using inv_legs [OF ok P st1] by (auto simp: sim_ending_def)
  qed
qed

lemma loop_ending:
  "ctx_ok ctx \<Longrightarrow> P ctx st \<Longrightarrow> sim_loop ctx st rows = Inr r \<Longrightarrow> \<exists>st'. P ctx st' \<and> sim_ending ctx st' r"
proof (induction rows arbitrary: st)
  case Nil
  then show ?case by (auto simp: sim_ending_def)
next
  case (Cons row rows)
  then obtain x where x: "sim_candle ctx st row = Inr x" by (auto simp: rbind_eq_Inr)
  show ?case
  proof (cases x)
    case (Inl r')
    then have "sim_candle ctx st row = Inr (Inl r)" using Cons.prems(3) x by simp
    then show ?thesis by (rule candle_ending [OF Cons.prems(1,2)])
  next
    case (Inr st')
    then have "sim_candle ctx st row = Inr (Inr st')" "sim_loop ctx st' rows = Inr r"
      using Cons.prems(3) x by simp_all
    then show ?thesis using Cons.IH Cons.prems(1,2) inv_candle by blast
  qed
qed

end

end
