(* ===== verification/Validator.thy ===== *)
theory Validator
  imports TradeManager
begin

text \<open>
  \<open>agents/deep-quant-loop/validator.py\<close>: the hard risk rules every declared trade has to pass
  before it is committed. Levels, ATR and plan fields are Python values, because the code
  itself checks that they are present, numeric and finite. A plan object, dataclass or dict, is
  the dict of its attributes; \<open>field\<close> is the accessor \<open>_field\<close>.
\<close>

subsection \<open>Data\<close>

datatype action = BUY | SELL | HOLD

definition from_str_lenient :: "string option \<Rightarrow> action" where
  "from_str_lenient s = (case s of None \<Rightarrow> HOLD
     | Some t \<Rightarrow> let normalized = py_upper (py_strip t) in
         if normalized = ''BUY'' then BUY
         else if normalized = ''SELL'' then SELL
         else HOLD)"

record execution_levels =
  entry :: pyval
  stop_loss :: pyval
  take_profit :: pyval

datatype validator_reason =
    MISSING_LEVELS
  | RISK_REWARD_TOO_LOW
  | STOP_TOO_TIGHT
  | DIRECTION_INCONSISTENT
  | LEG_FRACTION_OUT_OF_RANGE
  | TARGET_ORDERING_INCONSISTENT
  | BREAKEVEN_OUT_OF_RANGE
  | BLENDED_RR_TOO_LOW

fun reason_tag :: "validator_reason \<Rightarrow> string" where
  "reason_tag MISSING_LEVELS = ''missing-levels''"
| "reason_tag RISK_REWARD_TOO_LOW = ''risk-reward-too-low''"
| "reason_tag STOP_TOO_TIGHT = ''stop-too-tight''"
| "reason_tag DIRECTION_INCONSISTENT = ''direction-inconsistent''"
| "reason_tag LEG_FRACTION_OUT_OF_RANGE = ''leg-fraction-out-of-range''"
| "reason_tag TARGET_ORDERING_INCONSISTENT = ''target-ordering-inconsistent''"
| "reason_tag BREAKEVEN_OUT_OF_RANGE = ''breakeven-out-of-range''"
| "reason_tag BLENDED_RR_TOO_LOW = ''blended-rr-too-low''"

record validator_outcome =
  risk_reward :: "pynum option"
  reason :: "validator_reason option"

definition passed :: "pynum \<Rightarrow> validator_outcome" where
  "passed rr = \<lparr>risk_reward = Some rr, reason = None\<rparr>"

definition failed :: "validator_reason \<Rightarrow> validator_outcome" where
  "failed r = \<lparr>risk_reward = None, reason = Some r\<rparr>"

definition is_pass :: "validator_outcome \<Rightarrow> bool" where
  "is_pass out \<longleftrightarrow> reason out = None"

subsection \<open>Constants and helpers\<close>

definition MIN_RISK_REWARD :: pyfloat where
  "MIN_RISK_REWARD = fl 2"

definition MIN_RISK_REWARD_INTRADAY :: pyfloat where
  "MIN_RISK_REWARD_INTRADAY = fl (13 / 10)"

definition MIN_STOP_ATR_MULTIPLE :: pyfloat where
  "MIN_STOP_ATR_MULTIPLE = fl (15 / 10)"

definition LEG_FRACTION_SUM_TOLERANCE :: pyfloat where
  "LEG_FRACTION_SUM_TOLERANCE = fl (1 / 10 ^ 9)"

definition min_risk_reward_for_profile :: "pyval \<Rightarrow> pyfloat" where
  "min_risk_reward_for_profile profile = (case profile of
     PStr s \<Rightarrow> if py_upper (py_strip s) = ''INTRADAY'' then MIN_RISK_REWARD_INTRADAY else MIN_RISK_REWARD
   | _ \<Rightarrow> MIN_RISK_REWARD)"

text \<open>\<open>_is_finite\<close> catches \<open>TypeError\<close> and \<open>ValueError\<close>, and lets \<open>OverflowError\<close> through.\<close>

definition is_finite :: "pyval \<Rightarrow> bool res" where
  "is_finite x = (case math_isfinite x of
     Inl TypeError \<Rightarrow> Inr False | Inl ValueError \<Rightarrow> Inr False | r \<Rightarrow> r)"

fun field :: "pyval \<Rightarrow> string \<Rightarrow> pyval" where
  "field (PDict d) name = dict_get d name"
| "field _ name = PNone"

subsection \<open>Multi-leg plan checks\<close>

text \<open>The loop over the leg fractions: \<open>None\<close> is the early return with
  \<open>LEG_FRACTION_OUT_OF_RANGE\<close>, \<open>Some s\<close> the accumulated sum.\<close>

fun sum_fractions :: "pynum \<Rightarrow> pyval list \<Rightarrow> pynum option res" where
  "sum_fractions s [] = Inr (Some s)"
| "sum_fractions s (leg # legs) =
     (let fraction = field leg ''fraction'' in
      if fraction = PNone then Inr None
      else rbind (is_finite fraction) (\<lambda>fin.
        if \<not> fin then Inr None
        else rbind (to_num fraction) (\<lambda>f.
          if num_le f (NF (Fin 0)) \<or> num_lt (NF (Fin 1)) f then Inr None
          else rbind (num_add s f) (\<lambda>s'. sum_fractions s' legs))))"

text \<open>The loop over the targets: every target strictly on the profit side of the entry and not
  behind its predecessor.\<close>

fun targets_ordered :: "bool \<Rightarrow> pynum \<Rightarrow> pynum \<Rightarrow> pyval list \<Rightarrow> bool res" where
  "targets_ordered is_buy ent prev [] = Inr True"
| "targets_ordered is_buy ent prev (target # targets) =
     (if target = PNone then Inr False
      else rbind (is_finite target) (\<lambda>fin.
        if \<not> fin then Inr False
        else rbind (to_num target) (\<lambda>t.
          if (if is_buy then num_lt ent t \<and> num_le prev t else num_lt t ent \<and> num_le t prev)
          then targets_ordered is_buy ent t targets
          else Inr False)))"

definition breakeven_ok :: "bool \<Rightarrow> pynum \<Rightarrow> pynum \<Rightarrow> pynum \<Rightarrow> pyval \<Rightarrow> bool res" where
  "breakeven_ok is_buy ent first_target stop_distance breakeven =
     (let be_price = field breakeven ''price''; be_r = field breakeven ''r_multiple'' in
      if be_price \<noteq> PNone then
        rbind (is_finite be_price) (\<lambda>fin.
          if \<not> fin then Inr False
          else rbind (to_num be_price) (\<lambda>p. Inr
            (if is_buy then num_lt ent p \<and> num_lt p first_target
             else num_lt first_target p \<and> num_lt p ent)))
      else if be_r \<noteq> PNone then
        rbind (num_sub first_target ent) (\<lambda>d.
        rbind (num_div (num_abs d) stop_distance) (\<lambda>first_target_r.
        rbind (is_finite be_r) (\<lambda>fin.
          if \<not> fin then Inr False
          else rbind (to_num be_r) (\<lambda>r. Inr (num_lt (NF (Fin 0)) r \<and> num_lt r first_target_r)))))
      else Inr True)"

definition blended_step :: "pynum \<Rightarrow> pynum \<Rightarrow> pynum \<Rightarrow> pyval \<times> pyval \<Rightarrow> pynum res" where
  "blended_step ent stop_distance acc lt =
     rbind (to_num (snd lt)) (\<lambda>t.
     rbind (num_sub t ent) (\<lambda>d.
     rbind (num_div (num_abs d) stop_distance) (\<lambda>r.
     rbind (to_num (field (fst lt) ''fraction'')) (\<lambda>f.
     rbind (num_mul f r) (\<lambda>w. num_add acc w)))))"

text \<open>The minimum a plan's blended ratio has to meet: the caller's, or the configured one.\<close>

definition blended_floor :: "env \<Rightarrow> pynum option \<Rightarrow> pynum" where
  "blended_floor env min_blended = (case min_blended of Some m \<Rightarrow> m
     | None \<Rightarrow> NF (min_blended_reward_to_risk (resolve_trade_manager_config env)))"

text \<open>The checks after the fractions (rules 2 to 4), split where the code's comments split them.\<close>

definition check_reward ::
    "pynum \<Rightarrow> pyval list \<Rightarrow> pynum \<Rightarrow> pynum \<Rightarrow> validator_outcome res" where
  "check_reward min_blended legs e stop_distance =
     rbind (rfold (blended_step e stop_distance) (NF (Fin 0))
         (zip legs (map (\<lambda>leg. field leg ''target'') legs))) (\<lambda>blended.
     if num_lt blended min_blended then Inr (failed BLENDED_RR_TOO_LOW)
     else Inr (passed blended))"

definition check_breakeven :: "bool \<Rightarrow> pyval \<Rightarrow> pyval list \<Rightarrow> pynum \<Rightarrow> pynum \<Rightarrow> bool res" where
  "check_breakeven is_buy plan legs e stop_distance =
     rbind (to_num (field (hd legs) ''target'')) (\<lambda>first_target.
     let breakeven = field plan ''breakeven'' in
     if breakeven = PNone then Inr True
     else breakeven_ok is_buy e first_target stop_distance breakeven)"

definition check_ordering :: "bool \<Rightarrow> pyval list \<Rightarrow> pyval \<Rightarrow> pyval \<Rightarrow> bool res" where
  "check_ordering is_buy legs ent initial_stop =
     rbind (is_finite ent) (\<lambda>fe. if \<not> fe then Inr False
     else rbind (is_finite initial_stop) (\<lambda>fs. if \<not> fs then Inr False
     else rbind (to_num ent) (\<lambda>e.
     rbind (to_num initial_stop) (\<lambda>st.
     rbind (targets_ordered is_buy e e (map (\<lambda>leg. field leg ''target'') legs)) (\<lambda>ordered.
       Inr ((if is_buy then num_lt st e else num_lt e st) \<and> ordered))))))"

definition validate_management_plan ::
    "env \<Rightarrow> action \<Rightarrow> pyval \<Rightarrow> pyval \<Rightarrow> pyval \<Rightarrow> pynum option \<Rightarrow> validator_outcome res" where
  "validate_management_plan env act plan ent initial_stop min_blended =
     (let is_buy = (act = BUY); legs_v = field plan ''legs'' in
      rbind (if py_truthy legs_v then py_iter legs_v else Inr []) (\<lambda>legs.
      if legs = [] then Inr (failed TARGET_ORDERING_INCONSISTENT)
      else rbind (sum_fractions (NF (Fin 0)) legs) (\<lambda>s.
      case s of None \<Rightarrow> Inr (failed LEG_FRACTION_OUT_OF_RANGE)
      | Some fraction_sum \<Rightarrow>
      if num_lt (NF (fadd (Fin 1) LEG_FRACTION_SUM_TOLERANCE)) fraction_sum
      then Inr (failed LEG_FRACTION_OUT_OF_RANGE)
      else rbind (check_ordering is_buy legs ent initial_stop) (\<lambda>ordered.
      if \<not> ordered then Inr (failed TARGET_ORDERING_INCONSISTENT)
      else rbind (to_num ent) (\<lambda>e. rbind (to_num initial_stop) (\<lambda>st.
      rbind (num_sub e st) (\<lambda>d. let stop_distance = num_abs d in
      rbind (check_breakeven is_buy plan legs e stop_distance) (\<lambda>placed.
      if \<not> placed then Inr (failed BREAKEVEN_OUT_OF_RANGE)
      else check_reward (blended_floor env min_blended) legs e stop_distance))))))))"

subsection \<open>The entry point\<close>

definition effective_min_rr :: "pyval \<Rightarrow> pynum" where
  "effective_min_rr min_risk_reward = (case min_risk_reward of
     PInt n \<Rightarrow> if 0 < n then NI n else NF MIN_RISK_REWARD
   | PFloat f \<Rightarrow> if flt (Fin 0) f then NF f else NF MIN_RISK_REWARD
   | _ \<Rightarrow> NF MIN_RISK_REWARD)"

definition levels_finite :: "execution_levels \<Rightarrow> bool res" where
  "levels_finite lv =
     rbind (is_finite (entry lv)) (\<lambda>a. if \<not> a then Inr False
     else rbind (is_finite (stop_loss lv)) (\<lambda>b. if \<not> b then Inr False
     else is_finite (take_profit lv)))"

definition stop_too_tight :: "pyval \<Rightarrow> pynum \<Rightarrow> bool res" where
  "stop_too_tight atr_14 risk =
     (if atr_14 = PNone then Inr False
      else rbind (is_finite atr_14) (\<lambda>fin. if \<not> fin then Inr False
      else rbind (to_num atr_14) (\<lambda>a. if \<not> num_lt (NF (Fin 0)) a then Inr False
      else rbind (num_mul (NF MIN_STOP_ATR_MULTIPLE) a) (\<lambda>floor. Inr (num_lt risk floor)))))"

definition direction_ok :: "action \<Rightarrow> pynum \<Rightarrow> pynum \<Rightarrow> pynum \<Rightarrow> bool" where
  "direction_ok act e sl tp =
     (if act = BUY then num_lt sl e \<and> num_lt e tp else num_lt tp e \<and> num_lt e sl)"

definition validate_trade ::
    "env \<Rightarrow> action \<Rightarrow> execution_levels option \<Rightarrow> pyval \<Rightarrow> pyval \<Rightarrow> pynum option \<Rightarrow> pyval
      \<Rightarrow> validator_outcome res" where
  "validate_trade env act levels atr_14 plan min_blended min_risk_reward =
     (if act = HOLD then Inr (passed (NF (Fin 0)))
      else case levels of None \<Rightarrow> Inr (failed MISSING_LEVELS)
      | Some lv \<Rightarrow>
      rbind (levels_finite lv) (\<lambda>fin.
      if \<not> fin then Inr (failed MISSING_LEVELS)
      else rbind (to_num (entry lv)) (\<lambda>e.
      rbind (to_num (stop_loss lv)) (\<lambda>sl.
      rbind (to_num (take_profit lv)) (\<lambda>tp.
      if \<not> direction_ok act e sl tp then Inr (failed DIRECTION_INCONSISTENT)
      else rbind (num_sub e sl) (\<lambda>d. let risk = num_abs d in
      rbind (num_sub tp e) (\<lambda>d'. let reward = num_abs d' in
      if num_le risk (NF (Fin 0)) then Inr (failed DIRECTION_INCONSISTENT)
      else rbind (stop_too_tight atr_14 risk) (\<lambda>tight.
      if tight then Inr (failed STOP_TOO_TIGHT)
      else if plan \<noteq> PNone then
        (let plan_ent = (let p = field plan ''entry'' in if p = PNone then entry lv else p);
             plan_stop = (let p = field plan ''initial_stop'' in if p = PNone then stop_loss lv else p)
         in validate_management_plan env act plan plan_ent plan_stop min_blended)
      else rbind (num_div reward risk) (\<lambda>rr.
      if num_lt rr (effective_min_rr min_risk_reward) then Inr (failed RISK_REWARD_TOO_LOW)
      else Inr (passed rr))))))))))"

subsection \<open>The hard rules\<close>

abbreviation flevels :: "rat \<Rightarrow> rat \<Rightarrow> rat \<Rightarrow> execution_levels" where
  "flevels e sl tp \<equiv> \<lparr>entry = PFloat (Fin e), stop_loss = PFloat (Fin sl), take_profit = PFloat (Fin tp)\<rparr>"

definition fdistance :: "rat \<Rightarrow> rat \<Rightarrow> pyfloat" where
  "fdistance a b = fabs (fsub (Fin a) (Fin b))"

text \<open>What a bracket of finite floats promises once it has passed: the levels are strictly
  ordered for the direction, the stop is no closer than the ATR floor (when the ATR is known),
  and the reward-to-risk ratio is a number that reaches the floor.\<close>

definition ordered_bracket :: "action \<Rightarrow> rat \<Rightarrow> rat \<Rightarrow> rat \<Rightarrow> bool" where
  "ordered_bracket act e sl tp \<longleftrightarrow> (if act = BUY then sl < e \<and> e < tp else tp < e \<and> e < sl)"

definition atr_floor_ok :: "pyfloat option \<Rightarrow> pyfloat \<Rightarrow> bool" where
  "atr_floor_ok atr risk \<longleftrightarrow> (case atr of
     Some (Fin a) \<Rightarrow> 0 < a \<longrightarrow> fle (fmul MIN_STOP_ATR_MULTIPLE (Fin a)) risk | _ \<Rightarrow> True)"

definition hard_rules :: "action \<Rightarrow> rat \<Rightarrow> rat \<Rightarrow> rat \<Rightarrow> pyfloat option \<Rightarrow> pyfloat \<Rightarrow> pyfloat \<Rightarrow> bool" where
  "hard_rules act e sl tp atr minrr rr \<longleftrightarrow>
     ordered_bracket act e sl tp
     \<and> atr_floor_ok atr (fdistance e sl)
     \<and> fdiv (fdistance tp e) (fdistance e sl) = Inr rr \<and> fle minrr rr"

definition atr_val :: "pyfloat option \<Rightarrow> pyval" where
  "atr_val atr = (case atr of None \<Rightarrow> PNone | Some f \<Rightarrow> PFloat f)"

lemma is_finite_PFloat [simp]: "is_finite (PFloat f) = Inr (isfinite f)"
  by (simp add: is_finite_def)

lemma levels_finite_flevels [simp]: "levels_finite (flevels e sl tp) = Inr True"
  by (simp add: levels_finite_def)

lemma direction_ok_flevels [simp]:
  "direction_ok act (NF (Fin e)) (NF (Fin sl)) (NF (Fin tp)) = ordered_bracket act e sl tp"
  by (simp add: direction_ok_def ordered_bracket_def)

lemma ordered_distance_pos:
  assumes "ordered_bracket act e sl tp" "fwf (Fin e)" "fwf (Fin sl)"
  shows "flt (Fin 0) (fdistance e sl)"
proof -
  have "e \<noteq> sl" using assms(1) by (auto simp: ordered_bracket_def split: if_splits)
  then show ?thesis using fabs_fsub_pos assms(2,3) by (simp add: fdistance_def)
qed

lemma MIN_STOP_eq: "MIN_STOP_ATR_MULTIPLE = Fin (3 / 2)"
  unfolding MIN_STOP_ATR_MULTIPLE_def using rnd_half_ints [of 3]
  by (simp add: fl_def Let_def fbound_def)

lemma fdistance_not_NaN [simp]: "fdistance a b \<noteq> NaN"
  by (simp add: fdistance_def)

lemma stop_too_tight_float:
  "stop_too_tight (atr_val atr) (NF (fdistance e sl)) = Inr (\<not> atr_floor_ok atr (fdistance e sl))"
proof (cases atr)
  case None
  then show ?thesis by (simp add: stop_too_tight_def atr_floor_ok_def atr_val_def)
next
  case (Some f)
  show ?thesis
  proof (cases f)
    case (Fin a)
    have "fmul MIN_STOP_ATR_MULTIPLE (Fin a) \<noteq> NaN" by (simp add: MIN_STOP_eq)
    then show ?thesis using Some Fin not_flt [of "fdistance e sl" "fmul MIN_STOP_ATR_MULTIPLE (Fin a)"]
      by (auto simp: stop_too_tight_def atr_floor_ok_def atr_val_def)
  qed (use Some in \<open>simp_all add: stop_too_tight_def atr_floor_ok_def atr_val_def\<close>)
qed

text \<open>In an ordered bracket the ratio is a number: the two distances share the entry, so they
  are not both infinite, and the risk is positive.\<close>

lemma ordered_ratio:
  assumes "ordered_bracket act e sl tp" "fwf (Fin e)" "fwf (Fin sl)" "fwf (Fin tp)"
  obtains rr where "fdiv (fdistance tp e) (fdistance e sl) = Inr rr" "rr \<noteq> NaN"
proof -
  have pos: "flt (Fin 0) (fdistance e sl)" using ordered_distance_pos assms by blast
  have inf: "fl q \<noteq> NInf" if "0 < q" for q
    using rnd_nonneg [of q] that by (auto simp: fl_def Let_def)
  have neg: "fabs (fl (- q)) = fabs (fl q)" for q by (auto simp: fl_def Let_def)
  have dist_eq: "fdistance a b = fabs (fl (a - b))" "fdistance a b = fabs (fl (b - a))" for a b
    using neg [of "a - b"] by (simp_all add: fdistance_def fsub_def)
  have "\<not> (fdistance tp e = PInf \<and> fdistance e sl = PInf)"
  proof (cases "act = BUY")
    case True
    then have o: "sl < e" "e < tp" using assms(1) by (auto simp: ordered_bracket_def)
    show ?thesis using gaps_not_both_inf [OF assms(3,4) o] inf [of "tp - e"] inf [of "e - sl"] o
      by (cases "fl (tp - e)"; cases "fl (e - sl)") (auto simp: dist_eq(1))
  next
    case False
    then have o: "tp < e" "e < sl" using assms(1) by (auto simp: ordered_bracket_def)
    show ?thesis using gaps_not_both_inf [OF assms(4,3) o] inf [of "e - tp"] inf [of "sl - e"] o
      by (cases "fl (e - tp)"; cases "fl (sl - e)") (auto simp: dist_eq(2))
  qed
  moreover have "fdistance tp e \<noteq> NInf" by (cases "fsub (Fin tp) (Fin e)") (auto simp: fdistance_def)
  ultimately show thesis using that pos fdistance_not_NaN [of tp e]
    by (cases "fdistance tp e"; cases "fdistance e sl") (auto simp: finf_def)
qed

lemma effective_min_rr_not_NaN: "num_ext (effective_min_rr mr) \<noteq> NaN"
  by (auto simp: effective_min_rr_def MIN_RISK_REWARD_def split: pyval.split dest: flt_not_NaN)

text \<open>The decision on a bracket of floats, without plan: never an exception, and never the
  degenerate-stop guard, which direction consistency makes unreachable.\<close>

lemma validate_trade_eval:
  assumes "act \<noteq> HOLD" "fwf (Fin e)" "fwf (Fin sl)" "fwf (Fin tp)"
  shows "validate_trade env act (Some (flevels e sl tp)) (atr_val atr) PNone mb mr =
    Inr (if \<not> ordered_bracket act e sl tp then failed DIRECTION_INCONSISTENT
         else if \<not> atr_floor_ok atr (fdistance e sl) then failed STOP_TOO_TIGHT
         else case fdiv (fdistance tp e) (fdistance e sl) of
           Inr rr \<Rightarrow> if flt rr (num_ext (effective_min_rr mr)) then failed RISK_REWARD_TOO_LOW
                     else passed (NF rr)
         | Inl _ \<Rightarrow> failed RISK_REWARD_TOO_LOW)"
proof (cases "ordered_bracket act e sl tp")
  case True
  obtain rr where rr: "fdiv (fdistance tp e) (fdistance e sl) = Inr rr"
    using ordered_ratio [OF True assms(2-4)] .
  have "\<not> fle (fdistance e sl) (Fin 0)"
    using ordered_distance_pos [OF True assms(2,3)] fle_flt_trans flt_irrefl by blast
  moreover have "num_abs (NF (fsub (Fin a) (Fin b))) = NF (fdistance a b)" for a b
    by (simp add: fdistance_def)
  ultimately show ?thesis using assms(1) True rr
    by (simp add: validate_trade_def Let_def stop_too_tight_float num_lt_def)
qed (use assms(1) in \<open>simp add: validate_trade_def\<close>)

subsection \<open>Properties of the base bracket\<close>

text \<open>C4: On every bracket of finite floats, a BUY or SELL without plan is decided without an
  exception, and it passes exactly when the hard rules hold: strict ordering for the direction,
  stop distance at least 1.5 ATR when the ATR is known, and a reward-to-risk ratio that is a
  number (never NaN) and reaches the resolved minimum. The ratio it reports is that one.\<close>

theorem validate_trade_pass_iff:
  assumes "act \<noteq> HOLD" "fwf (Fin e)" "fwf (Fin sl)" "fwf (Fin tp)"
  shows "\<exists>out. validate_trade env act (Some (flevels e sl tp)) (atr_val atr) PNone mb mr = Inr out
    \<and> (is_pass out \<longleftrightarrow> (\<exists>rr. hard_rules act e sl tp atr (num_ext (effective_min_rr mr)) rr))
    \<and> (\<forall>rr. hard_rules act e sl tp atr (num_ext (effective_min_rr mr)) rr \<longrightarrow> out = passed (NF rr))"
proof (cases "ordered_bracket act e sl tp")
  case True
  obtain rr where rr: "fdiv (fdistance tp e) (fdistance e sl) = Inr rr" "rr \<noteq> NaN"
    using ordered_ratio [OF True assms(2-4)] .
  show ?thesis using True rr not_flt [OF rr(2) effective_min_rr_not_NaN]
    by (auto simp: validate_trade_eval [OF assms] hard_rules_def is_pass_def passed_def failed_def)
qed (simp add: validate_trade_eval [OF assms] hard_rules_def is_pass_def failed_def)

lemma fwf_100_95_115: "fwf (Fin 100)" "fwf (Fin 95)" "fwf (Fin 115)"
  using fwf_int [of 100] fwf_int [of 95] fwf_int [of 115] by simp_all

lemma validate_trade_pass_iff_witness:
  "\<exists>out. validate_trade Map.empty BUY (Some (flevels 100 95 115)) (atr_val (Some (Fin 2))) PNone None PNone
      = Inr out \<and> is_pass out"
proof -
  have "\<exists>rr. hard_rules BUY 100 95 115 (Some (Fin 2)) (num_ext (effective_min_rr PNone)) rr"
    by (rule exI [of _ "Fin 3"], unfold hard_rules_def) code_simp
  then show ?thesis
    using validate_trade_pass_iff [of BUY 100 95 115 Map.empty "Some (Fin 2)" None PNone] fwf_100_95_115
    by auto
qed

text \<open>C16: The SELL rules are the mirror image of the BUY rules: negating the three levels of a
  bracket and swapping the direction gives the same outcome, reason and ratio included.\<close>

theorem validate_trade_mirror:
  assumes "fwf (Fin e)" "fwf (Fin sl)" "fwf (Fin tp)"
  shows "validate_trade env SELL (Some (flevels (- e) (- sl) (- tp))) (atr_val atr) PNone mb mr
    = validate_trade env BUY (Some (flevels e sl tp)) (atr_val atr) PNone mb mr"
proof -
  have d: "fdistance (- a) (- b) = fdistance a b" for a b
    using fabs_fsub_commute [of b a] by (simp add: fdistance_def fsub_def)
  have o: "ordered_bracket SELL (- e) (- sl) (- tp) = ordered_bracket BUY e sl tp"
    by (auto simp: ordered_bracket_def)
  show ?thesis
    using validate_trade_eval [of SELL "- e" "- sl" "- tp" env atr mb mr]
      validate_trade_eval [of BUY e sl tp env atr mb mr] assms
    by (simp add: d o)
qed

lemma validate_trade_mirror_witness:
  "validate_trade Map.empty SELL (Some (flevels (- 100) (- 95) (- 115))) (atr_val None) PNone None PNone
    = validate_trade Map.empty BUY (Some (flevels 100 95 115)) (atr_val None) PNone None PNone"
  by (rule validate_trade_mirror [OF fwf_100_95_115])

lemma MIN_RISK_REWARD_eq: "MIN_RISK_REWARD = Fin 2"
  unfolding MIN_RISK_REWARD_def using fl_exact [OF fwf_int [of 2]] by simp

lemma intraday_floor_lower: "fle (min_risk_reward_for_profile p) MIN_RISK_REWARD"
proof -
  have "fle (fl (13 / 10)) (fl 2)" by (rule fl_mono) simp
  moreover have "fle MIN_RISK_REWARD MIN_RISK_REWARD" by (simp add: MIN_RISK_REWARD_eq)
  ultimately show ?thesis
    by (simp add: min_risk_reward_for_profile_def MIN_RISK_REWARD_INTRADAY_def MIN_RISK_REWARD_def
        split: pyval.split)
qed

lemma profile_floor_pos: "flt (Fin 0) (min_risk_reward_for_profile p)"
proof -
  have "fle (fl 1) (fl (13 / 10))" by (rule fl_mono) simp
  then have "flt (Fin 0) (fl (13 / 10))" using flt_fle_trans [of "Fin 0" "Fin 1"] by simp
  moreover have "flt (Fin 0) MIN_RISK_REWARD" by (simp add: MIN_RISK_REWARD_eq)
  ultimately show ?thesis
    by (simp add: min_risk_reward_for_profile_def MIN_RISK_REWARD_INTRADAY_def split: pyval.split)
qed

text \<open>Resolving the floor from the workspace profile only ever relaxes the rules: a bracket
  that passes under the default 1:2 floor passes, with the same ratio, under the floor of any
  profile.\<close>

theorem profile_floor_relaxes:
  assumes "act \<noteq> HOLD" "fwf (Fin e)" "fwf (Fin sl)" "fwf (Fin tp)"
    and "validate_trade env act (Some (flevels e sl tp)) (atr_val atr) PNone mb PNone = Inr out"
    and "is_pass out"
  shows "validate_trade env act (Some (flevels e sl tp)) (atr_val atr) PNone mb
    (PFloat (min_risk_reward_for_profile profile)) = Inr out"
proof -
  let ?floor = "min_risk_reward_for_profile profile"
  have f: "num_ext (effective_min_rr (PFloat ?floor)) = ?floor"
    by (simp add: effective_min_rr_def profile_floor_pos)
  have d: "num_ext (effective_min_rr PNone) = MIN_RISK_REWARD" by (simp add: effective_min_rr_def)
  have "\<not> flt rr ?floor" if "\<not> flt rr MIN_RISK_REWARD" for rr
    using that flt_fle_trans [OF _ intraday_floor_lower] by blast
  then show ?thesis using assms(5,6)
    unfolding validate_trade_eval [OF assms(1-4)] f d
    by (auto simp: is_pass_def failed_def passed_def split: sum.splits if_splits)
qed

lemma profile_floor_relaxes_witness:
  "validate_trade Map.empty BUY (Some (flevels 100 95 115)) (atr_val (Some (Fin 2))) PNone None
     (PFloat (min_risk_reward_for_profile (PStr '' intraday ''))) = Inr (passed (NF (Fin 3)))"
  by (rule profile_floor_relaxes [OF _ fwf_100_95_115]) (simp_all add: is_pass_def passed_def, code_simp)

text \<open>C4: An integer level beyond the float range makes the validator raise \<open>OverflowError\<close>: the
  finiteness helper converts it to a double and catches only \<open>TypeError\<close> and \<open>ValueError\<close>.\<close>

theorem validate_trade_overflow:
  assumes "act \<noteq> HOLD" "2 ^ 1024 \<le> n"
  shows "validate_trade env act (Some \<lparr>entry = PInt n, stop_loss = sl, take_profit = tp\<rparr>) atr plan mb mr
    = Inl OverflowError"
proof -
  have e: "fbound = of_int 1 * p2 1024" by (simp add: fbound_def power_int_def)
  have "rnd fbound = fbound" by (rule rnd_exact [OF e]) simp_all
  moreover have "rat_of_int (2 ^ 1024) \<le> of_int n" using assms(2) by (simp only: of_int_le_iff)
  then have "fbound \<le> of_int n" by (simp add: fbound_def)
  ultimately have "fbound \<le> rnd (of_int n)" using rnd_mono [of fbound "of_int n"] by simp
  then have "fl (of_int n) = PInf" by (simp add: fl_def)
  then have "is_finite (PInt n) = Inl OverflowError" by (simp add: is_finite_def float_of_int_def)
  then show ?thesis using assms(1) by (simp add: validate_trade_def levels_finite_def)
qed

lemma validate_trade_overflow_witness:
  "validate_trade Map.empty BUY (Some \<lparr>entry = PInt (2 ^ 1024), stop_loss = PInt 1, take_profit = PInt 3\<rparr>)
     PNone PNone None PNone = Inl OverflowError"
  by (rule validate_trade_overflow) simp_all

subsection \<open>Properties of management plans\<close>

lemma is_finite_num: "is_finite v = Inr True \<Longrightarrow> \<exists>a. to_num v = Inr a \<and> num_finite a"
  by (rule math_isfinite_to_num) (auto simp: is_finite_def split: sum.splits pyerr.splits)

lemma num_finite_not_NaN: "num_finite a \<Longrightarrow> num_ext a \<noteq> NaN"
  by (auto simp: num_finite_def)

lemma not_num_le_zero: "num_finite a \<Longrightarrow> \<not> num_le a (NF (Fin 0)) \<Longrightarrow> num_lt (NF (Fin 0)) a"
  using not_flt [of "Fin 0" "num_ext a"] num_finite_not_NaN [of a]
  by (auto simp: num_le_def num_lt_def)

lemma not_num_gt: "num_finite a \<Longrightarrow> \<not> num_lt (NF (Fin 1)) a \<Longrightarrow> num_le a (NF (Fin 1))"
  using not_flt [of "Fin 1" "num_ext a"] num_finite_not_NaN [of a]
  by (auto simp: num_le_def num_lt_def)

definition good_fraction :: "pyval \<Rightarrow> bool" where
  "good_fraction leg \<longleftrightarrow> (\<exists>f. to_num (field leg ''fraction'') = Inr f
     \<and> num_lt (NF (Fin 0)) f \<and> num_le f (NF (Fin 1)))"

lemma sum_fractions_good: "sum_fractions s legs = Inr (Some t) \<Longrightarrow> leg \<in> set legs \<Longrightarrow> good_fraction leg"
proof (induction legs arbitrary: s)
  case (Cons l ls)
  from Cons.prems(1) obtain f s' where l: "is_finite (field l ''fraction'') = Inr True"
      "to_num (field l ''fraction'') = Inr f" "\<not> num_le f (NF (Fin 0))" "\<not> num_lt (NF (Fin 1)) f"
    and rest: "sum_fractions s' ls = Inr (Some t)"
    by (auto simp: Let_def rbind_eq_Inr split: if_splits)
  have "num_finite f" using is_finite_num [OF l(1)] l(2) by auto
  then have "good_fraction l" using l not_num_le_zero not_num_gt by (auto simp: good_fraction_def)
  then show ?case using Cons.IH [OF rest] Cons.prems(2) by auto
qed simp

text \<open>Targets beyond the entry on the profit side, none behind its predecessor.\<close>

definition profit_side :: "bool \<Rightarrow> pynum \<Rightarrow> pynum \<Rightarrow> bool" where
  "profit_side is_buy e t \<longleftrightarrow> (if is_buy then num_lt e t else num_lt t e)"

definition not_behind :: "bool \<Rightarrow> pynum \<Rightarrow> pynum \<Rightarrow> bool" where
  "not_behind is_buy a b \<longleftrightarrow> (if is_buy then num_le a b else num_le b a)"

lemma not_behind_trans: "not_behind b x y \<Longrightarrow> not_behind b y z \<Longrightarrow> not_behind b x z"
  by (auto simp: not_behind_def num_le_def split: if_splits intro: fle_trans)

lemma targets_ordered_sound:
  "targets_ordered is_buy e prev ts = Inr True \<Longrightarrow>
   \<exists>ns. map to_num ts = map Inr ns \<and> (\<forall>n \<in> set ns. num_finite n \<and> profit_side is_buy e n)
     \<and> sorted_wrt (not_behind is_buy) (prev # ns)"
proof (induction ts arbitrary: prev)
  case (Cons t ts)
  from Cons.prems obtain n where n: "is_finite t = Inr True" "to_num t = Inr n"
      "profit_side is_buy e n" "not_behind is_buy prev n"
    and rest: "targets_ordered is_buy e n ts = Inr True"
    by (auto simp: rbind_eq_Inr profit_side_def not_behind_def split: if_splits)
  have fin: "num_finite n" using is_finite_num [OF n(1)] n(2) by auto
  obtain ns where ns: "map to_num ts = map Inr ns" "\<forall>m \<in> set ns. num_finite m \<and> profit_side is_buy e m"
      "sorted_wrt (not_behind is_buy) (n # ns)"
    using Cons.IH [OF rest] by blast
  have "sorted_wrt (not_behind is_buy) (prev # n # ns)"
    using ns(3) n(4) by (auto intro: not_behind_trans)
  then show ?case using n fin ns by (intro exI [of _ "n # ns"]) auto
qed simp

lemma not_pass_failed [simp]: "\<not> is_pass (failed r)"
  by (simp add: is_pass_def failed_def)

lemma passed_neq_failed [simp]: "passed rr \<noteq> failed r" "failed r \<noteq> passed rr"
  by (simp_all add: passed_def failed_def)

lemma check_orderingE:
  assumes "check_ordering is_buy legs ent stop = Inr True"
  obtains e st ns where "to_num ent = Inr e" "to_num stop = Inr st" "num_finite e" "num_finite st"
    "profit_side is_buy st e" "map (\<lambda>leg. to_num (field leg ''target'')) legs = map Inr ns"
    "\<forall>n \<in> set ns. num_finite n \<and> profit_side is_buy e n" "sorted_wrt (not_behind is_buy) ns"
proof -
  from assms obtain e st where fin: "is_finite ent = Inr True" "is_finite stop = Inr True"
      "to_num ent = Inr e" "to_num stop = Inr st" and side: "profit_side is_buy st e"
    and ord: "targets_ordered is_buy e e (map (\<lambda>leg. field leg ''target'') legs) = Inr True"
    by (auto simp: check_ordering_def rbind_eq_Inr profit_side_def split: if_splits)
  have "num_finite e" "num_finite st" using is_finite_num fin by fastforce+
  with fin side targets_ordered_sound [OF ord] that show thesis by (auto simp: comp_def)
qed

lemma plan_passE:
  assumes "validate_management_plan env act plan ent stop mb = Inr out" "is_pass out"
  obtains legs where "py_iter (field plan ''legs'') = Inr legs" "legs \<noteq> []"
    "\<exists>sm. sum_fractions (NF (Fin 0)) legs = Inr (Some sm)"
    "check_ordering (act = BUY) legs ent stop = Inr True"
    "\<exists>e d. check_reward (blended_floor env mb) legs e d = Inr out"
proof -
  obtain legs where legs: "(if py_truthy (field plan ''legs'') then py_iter (field plan ''legs'') else Inr []) = Inr legs"
    using assms(1)
    by (cases "if py_truthy (field plan ''legs'') then py_iter (field plan ''legs'') else Inr []")
      (auto simp: validate_management_plan_def Let_def)
  have ne: "legs \<noteq> []" using assms legs by (auto simp: validate_management_plan_def)
  then have it: "py_iter (field plan ''legs'') = Inr legs" using legs by (auto split: if_splits)
  obtain sm where sm: "sum_fractions (NF (Fin 0)) legs = Inr (Some sm)"
    using assms legs ne
    by (cases "sum_fractions (NF (Fin 0)) legs")
      (auto simp: validate_management_plan_def Let_def split: option.splits)
  have tol: "\<not> num_lt (NF (fadd (Fin 1) LEG_FRACTION_SUM_TOLERANCE)) sm"
    using assms legs ne sm by (auto simp: validate_management_plan_def)
  have ord: "check_ordering (act = BUY) legs ent stop = Inr True"
    using assms legs ne sm tol
    by (cases "check_ordering (act = BUY) legs ent stop")
      (auto simp: validate_management_plan_def Let_def split: if_splits)
  have "\<exists>e d. check_reward (blended_floor env mb) legs e d = Inr out"
    using assms legs ne sm tol ord
    by (auto simp: validate_management_plan_def rbind_eq_Inr Let_def split: if_splits)
  with that it ne sm ord show thesis by blast
qed

text \<open>A plan that passes is sound: it has legs; every fraction is a number in (0, 1]; every
  target is a finite number strictly on the profit side of the entry and not behind the one
  before it; the stop is strictly on the losing side; and the blended reward-to-risk it reports
  is not below the floor.\<close>

theorem management_plan_pass_sound:
  assumes "validate_management_plan env act plan ent stop mb = Inr out" and "is_pass out"
  shows "\<exists>legs e st ns blended. py_iter (field plan ''legs'') = Inr legs \<and> legs \<noteq> []
    \<and> to_num ent = Inr e \<and> to_num stop = Inr st \<and> num_finite e \<and> num_finite st
    \<and> list_all good_fraction legs
    \<and> map (\<lambda>leg. to_num (field leg ''target'')) legs = map Inr ns
    \<and> (\<forall>n \<in> set ns. num_finite n \<and> profit_side (act = BUY) e n)
    \<and> sorted_wrt (not_behind (act = BUY)) ns
    \<and> profit_side (act = BUY) st e
    \<and> risk_reward out = Some blended \<and> \<not> num_lt blended (blended_floor env mb)"
proof -
  obtain legs where legs: "py_iter (field plan ''legs'') = Inr legs" "legs \<noteq> []"
    and fr: "\<exists>sm. sum_fractions (NF (Fin 0)) legs = Inr (Some sm)"
    and ord: "check_ordering (act = BUY) legs ent stop = Inr True"
    and rew: "\<exists>e d. check_reward (blended_floor env mb) legs e d = Inr out"
    using assms by (rule plan_passE)
  obtain e st ns where e: "to_num ent = Inr e" "to_num stop = Inr st" "num_finite e" "num_finite st"
      "profit_side (act = BUY) st e" "map (\<lambda>leg. to_num (field leg ''target'')) legs = map Inr ns"
      "\<forall>n \<in> set ns. num_finite n \<and> profit_side (act = BUY) e n" "sorted_wrt (not_behind (act = BUY)) ns"
    using ord by (rule check_orderingE)
  obtain blended where "out = passed blended" "\<not> num_lt blended (blended_floor env mb)"
    using rew assms(2) by (auto simp: check_reward_def rbind_eq_Inr split: if_splits)
  moreover have "list_all good_fraction legs"
    using fr sum_fractions_good by (auto simp: list_all_iff)
  ultimately show ?thesis using legs e
    by (intro exI [of _ legs] exI [of _ e] exI [of _ st] exI [of _ ns] exI [of _ blended])
      (simp add: passed_def)
qed

definition demo_plan :: pyval where
  "demo_plan = PDict [(''legs'', PList
     [PDict [(''target'', PFloat (Fin 115)), (''fraction'', PInt 1)]])]"

lemma management_plan_pass_sound_witness:
  "\<exists>legs blended. py_iter (field demo_plan ''legs'') = Inr legs \<and> list_all good_fraction legs
     \<and> \<not> num_lt blended (NF (Fin 2))"
proof -
  have v: "validate_management_plan Map.empty BUY demo_plan (PFloat (Fin 100)) (PFloat (Fin 95)) (Some (NF (Fin 2)))
      = Inr (passed (NF (Fin 3)))"
    unfolding demo_plan_def by code_simp
  have "is_pass (passed (NF (Fin 3)))" by (simp add: is_pass_def passed_def)
  from management_plan_pass_sound [OF v this] show ?thesis
    unfolding blended_floor_def option.case by blast
qed

end
