(* ===== verification/TradeManagerFacts.thy ===== *)
theory TradeManagerFacts
  imports TradeManager
begin

text \<open>
  What the exit simulation of \<open>trade_manager.py\<close> guarantees: size accounting, stop discipline,
  worst-case straddles, statuses, the plan payload and the style tag. The size and stop facts
  are interpretations of the locale \<open>sim_invariant\<close>.
\<close>

subsection \<open>Size accounting\<close>

definition fill_size :: "leg_fill \<Rightarrow> rat" where
  "fill_size f = (case num_ext (fill_fraction f) of Fin g \<Rightarrow> g | _ \<Rightarrow> 0)"

definition sized_fill :: "leg_fill \<Rightarrow> bool" where
  "sized_fill f \<longleftrightarrow> (\<exists>g. num_ext (fill_fraction f) = Fin g \<and> 0 < g \<and> g \<le> 1)"

text \<open>The open size is a double in [0, 1]; it and the sizes closed so far add up to one up to one
  rounding error per fill; and the closed legs are distinct legs of the plan.\<close>

definition size_inv :: "sim_ctx \<Rightarrow> sim_state \<Rightarrow> bool" where
  "size_inv ctx st \<longleftrightarrow> (\<exists>r. remaining st = Fin r \<and> rnd r = r \<and> 0 \<le> r \<and> r \<le> 1
     \<and> list_all sized_fill (st_fills st)
     \<and> \<bar>r + sum_list (map fill_size (st_fills st)) - 1\<bar> \<le> of_nat (length (st_fills st)) * p2 (- 54))"

definition once_inv :: "sim_ctx \<Rightarrow> sim_state \<Rightarrow> bool" where
  "once_inv ctx st \<longleftrightarrow> distinct (map fill_index (st_fills st))
     \<and> (\<forall>f \<in> set (st_fills st). fill_kind f = K_target \<and> (\<exists>i \<in> set (filled_indices st).
          fill_index f = int i \<and> i < length (ctx_legs ctx)
          \<and> finite_num (leg_target (ctx_legs ctx ! i)) = Inr (Some (fill_price f))))"

lemma advance_frame [simp]:
  "remaining (advance_breakeven ctx ts hi lo st) = remaining st"
  "st_fills (advance_breakeven ctx ts hi lo st) = st_fills st"
  "filled_indices (advance_breakeven ctx ts hi lo st) = filled_indices st"
  "remaining (advance_trailing ctx cl st) = remaining st"
  "st_fills (advance_trailing ctx cl st) = st_fills st"
  "filled_indices (advance_trailing ctx cl st) = filled_indices st"
  by (simp_all add: advance_breakeven_def advance_trailing_def Let_def split: option.splits)

text \<open>What one iteration over a leg does to the state.\<close>

lemma fill_leg_cases:
  assumes "fill_leg ctx ts hi lo st (i, leg) = Inr st'"
  obtains "st' = st"
  | f where "to_num (leg_fraction leg) = Inr f" "num_le (leg_size f (remaining st)) (NF (Fin 0))"
      "st' = st\<lparr>filled_indices := i # filled_indices st\<rparr>"
  | f fr g tgt r where "i \<notin> set (filled_indices st)" "\<not> fle (remaining st) SIZE_TOL"
      "finite_num (leg_target leg) = Inr (Some tgt)"
      "to_num (leg_fraction leg) = Inr f" "fr = leg_size f (remaining st)"
      "\<not> num_le fr (NF (Fin 0))" "to_float fr = Inr g" "r_of ctx tgt = Inr r"
      "st' = st\<lparr>filled_indices := i # filled_indices st,
         st_fills := st_fills st @ [\<lparr>fill_index = int i, fill_price = tgt, fill_fraction = fr, leg_r = r,
           fill_timestamp_ms = ts, fill_kind = K_target\<rparr>],
         remaining := fsub (remaining st) g\<rparr>"
proof (cases "i \<in> set (filled_indices st) \<or> fle (remaining st) SIZE_TOL")
  case True
  then show thesis using assms that(1) by (auto simp: fill_leg_def)
next
  case False
  then obtain t where t: "finite_num (leg_target leg) = Inr t"
    using assms by (auto simp: fill_leg_def rbind_eq_Inr Let_def)
  show thesis
  proof (cases t)
    case None
    then show thesis using assms False t that(1) by (auto simp: fill_leg_def)
  next
    case (Some tgt)
    show thesis
    proof (cases "target_hit ctx hi lo tgt")
      case hit: True
      then obtain f where f: "to_num (leg_fraction leg) = Inr f"
        using assms False t Some by (auto simp: fill_leg_def rbind_eq_Inr Let_def split: if_splits)
      let ?fr = "leg_size f (remaining st)"
      show thesis
      proof (cases "num_le ?fr (NF (Fin 0))")
        case le: True
        have "st' = st\<lparr>filled_indices := i # filled_indices st\<rparr>"
          using assms False t Some hit f le by (simp add: fill_leg_def Let_def)
        then show thesis using that(2) f le by blast
      next
        case nle: False
        then show thesis
          using assms False t Some hit f that(3) [of tgt f ?fr]
          by (simp add: fill_leg_def Let_def rbind_eq_Inr) blast
      qed
    qed (use assms False t Some that(1) in \<open>simp add: fill_leg_def\<close>)
  qed
qed

lemma enumerate_legs: "(i, leg) \<in> set (enumerate 0 xs) \<Longrightarrow> i < length xs \<and> xs ! i = leg"
  by (auto simp: in_set_enumerate_eq)

text \<open>A fraction that is filled is a positive number not above the open size, so it converts to a
  double without change.\<close>

lemma filled_fraction:
  assumes "to_float fr = Inr g" "\<not> num_le fr (NF (Fin 0))" "num_le fr (NF (Fin r))" "r \<le> 1"
  obtains q where "g = Fin q" "num_ext fr = Fin q" "0 < q" "q \<le> r"
proof (cases fr)
  case (NI n)
  then have "0 < n" "rat_of_int n \<le> r" using assms(2,3) by (auto simp: num_le_def)
  then have "rat_of_int n \<le> 1" using assms(4) by linarith
  then have "n = 1" using \<open>0 < n\<close> by simp
  then show thesis using that assms(1) NI \<open>rat_of_int n \<le> r\<close> by (auto simp: float_of_int_def)
next
  case (NF f)
  then show thesis using that assms by (cases f) (auto simp: fle_def)
qed

lemma size_step:
  assumes "rnd r = r" "0 \<le> r" "r \<le> 1" "0 < q" "q \<le> r"
  shows "fsub (Fin r) (Fin q) = Fin (rnd (r - q))" "0 \<le> rnd (r - q)" "rnd (r - q) \<le> 1"
    "\<bar>rnd (r - q) - (r - q)\<bar> \<le> p2 (- 54)"
proof -
  show n: "0 \<le> rnd (r - q)" using assms by (intro rnd_nonneg) simp
  have "rnd (r - q) \<le> rnd r" using assms by (intro rnd_mono) simp
  then show le: "rnd (r - q) \<le> 1" using assms by simp
  have "1 < fbound" using fbound_gt by simp
  then have "\<bar>rnd (r - q)\<bar> < fbound" using n le by linarith
  then show "fsub (Fin r) (Fin q) = Fin (rnd (r - q))"
    by (auto simp: fsub_def fl_def Let_def abs_less_iff)
  show "\<bar>rnd (r - q) - (r - q)\<bar> \<le> p2 (- 54)" using assms by (intro rnd_error_unit_le) simp
qed

lemma leg_size_le: "num_le (leg_size f (Fin r)) (NF (Fin r))"
  by (simp add: leg_size_def)

lemma size_inv_fill:
  assumes "size_inv ctx st" "to_float fr = Inr g" "\<not> num_le fr (NF (Fin 0))"
    "fr = leg_size f (remaining st)" "num_ext (fill_fraction fill) = num_ext fr"
  shows "size_inv ctx (st\<lparr>filled_indices := is, st_fills := st_fills st @ [fill],
     remaining := fsub (remaining st) g\<rparr>)"
proof -
  obtain r where r: "remaining st = Fin r" "rnd r = r" "0 \<le> r" "r \<le> 1"
      "list_all sized_fill (st_fills st)"
      "\<bar>r + sum_list (map fill_size (st_fills st)) - 1\<bar> \<le> of_nat (length (st_fills st)) * p2 (- 54)"
    using assms(1) by (auto simp: size_inv_def)
  obtain q where q: "g = Fin q" "num_ext fr = Fin q" "0 < q" "q \<le> r"
    using filled_fraction [OF assms(2,3)] leg_size_le r(1,4) assms(4) by metis
  note step = size_step [OF r(2-4) q(3,4)]
  have "\<bar>rnd (r - q) + (sum_list (map fill_size (st_fills st)) + q) - 1\<bar>
      \<le> \<bar>r + sum_list (map fill_size (st_fills st)) - 1\<bar> + \<bar>rnd (r - q) - (r - q)\<bar>"
    by linarith
  also have "\<dots> \<le> of_nat (Suc (length (st_fills st))) * p2 (- 54)"
    using r(6) step(4) by (simp add: distrib_right)
  finally show ?thesis using r q step assms(5)
    by (auto simp: size_inv_def fill_size_def sized_fill_def)
qed

interpretation size: sim_invariant size_inv
proof (unfold_locales, goal_cases)
  case (1 ctx)
  then show ?case using rnd_of_int [of 1] by (simp add: size_inv_def init_state_def)
next
  case (2 ctx st il ts hi lo st')
  obtain i leg where il: "il = (i, leg)" by (cases il)
  from 2(4) [unfolded il] show ?case
  proof (cases rule: fill_leg_cases)
    case (3 f fr g tgt r)
    show ?thesis unfolding 3(9) by (rule size_inv_fill [OF 2(2) 3(7,6,5)]) simp
  qed (use 2(2) in \<open>simp_all add: size_inv_def\<close>)
next
  case (3 ctx st ts hi lo)
  then show ?case by (simp add: size_inv_def)
next
  case (4 ctx st cl)
  then show ?case by (simp add: size_inv_def)
qed

interpretation once: sim_invariant once_inv
proof (unfold_locales, goal_cases)
  case (1 ctx)
  then show ?case by (simp add: once_inv_def init_state_def)
next
  case (2 ctx st il ts hi lo st')
  obtain i leg where il: "il = (i, leg)" by (cases il)
  have leg: "i < length (ctx_legs ctx)" "ctx_legs ctx ! i = leg"
    using enumerate_legs [of i leg "ctx_legs ctx"] 2(3) unfolding il by blast+
  from 2(4) [unfolded il] show ?case
  proof (cases rule: fill_leg_cases)
    case (3 f fr g tgt r)
    have "int i \<notin> fill_index ` set (st_fills st)" using 2(2) 3(1) by (auto simp: once_inv_def)
    then show ?thesis using 2(2) 3 leg by (auto simp: once_inv_def)
  qed (use 2(2) in \<open>auto simp: once_inv_def\<close>)
next
  case (3 ctx st ts hi lo)
  then show ?case by (simp add: once_inv_def)
next
  case (4 ctx st cl)
  then show ?case by (simp add: once_inv_def)
qed

subsection \<open>Stop discipline\<close>

definition not_adverse :: "sim_ctx \<Rightarrow> pyfloat \<Rightarrow> pyfloat \<Rightarrow> bool" where
  "not_adverse ctx a b \<longleftrightarrow> (if ctx_is_buy ctx then fle a b else fle b a)"

definition stop_inv :: "sim_ctx \<Rightarrow> sim_state \<Rightarrow> bool" where
  "stop_inv ctx st \<longleftrightarrow> isfinite (active_stop st) \<and> not_adverse ctx (stop_f ctx) (active_stop st)
     \<and> stop_origin st \<noteq> K_target \<and> (stop_origin st = K_stop \<longrightarrow> active_stop st = stop_f ctx)"

lemma not_adverse_trans: "not_adverse ctx a b \<Longrightarrow> not_adverse ctx b c \<Longrightarrow> not_adverse ctx a c"
  by (auto simp: not_adverse_def split: if_splits intro: fle_trans)

lemma not_adverse_refl: "isfinite a \<Longrightarrow> not_adverse ctx a a"
  by (cases a) (auto simp: not_adverse_def)

lemma advance_breakeven_stop:
  assumes "ctx_ok ctx" "isfinite (active_stop st)"
  shows "isfinite (active_stop (advance_breakeven ctx ts hi lo st))"
    "not_adverse ctx (active_stop st) (active_stop (advance_breakeven ctx ts hi lo st))"
  using assms not_adverse_refl [OF assms(2)]
  by (auto simp: advance_breakeven_def Let_def ctx_ok_def not_adverse_def flt_imp_fle split: option.split)

lemma advance_trailing_stop:
  assumes "isfinite (active_stop st)"
  shows "isfinite (active_stop (advance_trailing ctx cl st))"
    "not_adverse ctx (active_stop st) (active_stop (advance_trailing ctx cl st))"
  using assms not_adverse_refl [OF assms]
  by (auto simp: advance_trailing_def Let_def not_adverse_def flt_imp_fle split: option.split)

lemma fill_leg_stop: "fill_leg ctx ts hi lo st il = Inr st' \<Longrightarrow>
    active_stop st' = active_stop st \<and> stop_origin st' = stop_origin st"
proof -
  assume a: "fill_leg ctx ts hi lo st il = Inr st'"
  obtain i leg where il: "il = (i, leg)" by (cases il)
  from a [unfolded il] show ?thesis by (cases rule: fill_leg_cases) simp_all
qed

lemma advance_breakeven_origin:
  "stop_origin st \<noteq> K_target \<Longrightarrow> stop_origin (advance_breakeven ctx ts hi lo st) \<noteq> K_target"
  "stop_origin (advance_breakeven ctx ts hi lo st) = K_stop \<Longrightarrow>
     stop_origin st = K_stop \<and> active_stop (advance_breakeven ctx ts hi lo st) = active_stop st"
  by (auto simp: advance_breakeven_def Let_def split: option.splits if_splits)

lemma advance_trailing_origin:
  "stop_origin st \<noteq> K_target \<Longrightarrow> stop_origin (advance_trailing ctx cl st) \<noteq> K_target"
  "stop_origin (advance_trailing ctx cl st) = K_stop \<Longrightarrow>
     stop_origin st = K_stop \<and> active_stop (advance_trailing ctx cl st) = active_stop st"
  by (auto simp: advance_trailing_def Let_def split: option.splits if_splits)

interpretation stopd: sim_invariant stop_inv
proof (unfold_locales, goal_cases)
  case (1 ctx)
  then show ?case by (auto simp: stop_inv_def init_state_def ctx_ok_def not_adverse_def)
next
  case (2 ctx st il ts hi lo st')
  then show ?case using fill_leg_stop [OF 2(4)] by (simp add: stop_inv_def)
next
  case (3 ctx st ts hi lo)
  have "isfinite (active_stop st)" "not_adverse ctx (stop_f ctx) (active_stop st)"
    using 3(2) by (simp_all add: stop_inv_def)
  then show ?case using 3(2) advance_breakeven_stop [OF 3(1), of st ts hi lo]
      advance_breakeven_origin(1) [of st ctx ts hi lo]
      advance_breakeven_origin(2) [of ctx ts hi lo st] not_adverse_trans
    unfolding stop_inv_def by metis
next
  case (4 ctx st cl)
  have "isfinite (active_stop st)" "not_adverse ctx (stop_f ctx) (active_stop st)"
    using 4(2) by (simp_all add: stop_inv_def)
  then show ?case using 4(2) advance_trailing_stop [of st ctx cl]
      advance_trailing_origin(1) [of st ctx cl]
      advance_trailing_origin(2) [of ctx cl st] not_adverse_trans
    unfolding stop_inv_def by metis
qed

interpretation simall: sim_invariant "\<lambda>ctx st. size_inv ctx st \<and> once_inv ctx st \<and> stop_inv ctx st"
  by unfold_locales (auto intro: size.inv_init size.inv_leg size.inv_breakeven size.inv_trailing
      once.inv_init once.inv_leg once.inv_breakeven once.inv_trailing
      stopd.inv_init stopd.inv_leg stopd.inv_breakeven stopd.inv_trailing)

subsection \<open>From the loop to the plan\<close>

lemma finite_num_Some: "finite_num v = Inr (Some f) \<Longrightarrow> \<exists>q. f = Fin q"
  by (cases v) (auto simp: rbind_eq_Inr isfinite_iff dest: float_of_int_fwf split: if_splits)

lemma mk_ctx_fields:
  assumes "mk_ctx plan e s = Inr ctx"
  shows "entry_f ctx = e" "stop_f ctx = s" "ctx_stop_distance ctx = fabs (fsub e s)"
    "ctx_is_buy ctx = (\<not> says_sell (plan_action plan))" "ctx_legs ctx = plan_legs plan"
  using assms by (auto simp: mk_ctx_def Let_def rbind_eq_Inr)

lemma simulate_planE:
  assumes "simulate_plan plan cs = r" "res_status r = Resolved \<or> res_fills r \<noteq> []"
  obtains ctx e s rows where "mk_ctx plan (Fin e) (Fin s) = Inr ctx" "ctx_ok ctx"
    "finite_num (plan_entry plan) = Inr (Some (Fin e))" "finite_num (plan_initial_stop plan) = Inr (Some (Fin s))"
    "clean_candles cs = Inr rows" "sim_loop ctx (init_state ctx) rows = Inr r"
proof -
  have impl: "simulate_plan_impl plan cs = Inr r"
    using assms by (auto simp: simulate_plan_def split: sum.splits)
  have ni: "r \<noteq> invalid_result" using assms(2) by (auto simp: invalid_result_def)
  obtain eo so where eso: "finite_num (plan_entry plan) = Inr eo" "finite_num (plan_initial_stop plan) = Inr so"
    using impl by (auto simp: simulate_plan_impl_def rbind_eq_Inr)
  obtain ef sf where efsf: "eo = Some ef" "so = Some sf"
    using impl eso ni by (cases eo; cases so) (auto simp: simulate_plan_impl_def)
  have d: "fabs (fsub ef sf) \<noteq> Fin 0" "isfinite (fabs (fsub ef sf))"
    using impl eso efsf ni by (auto simp: simulate_plan_impl_def Let_def split: if_splits)
  obtain ctx rows where "mk_ctx plan ef sf = Inr ctx" "clean_candles cs = Inr rows"
      "sim_loop ctx (init_state ctx) rows = Inr r"
    using impl eso efsf d by (auto simp: simulate_plan_impl_def Let_def rbind_eq_Inr)
  note v = eso [unfolded efsf] d this
  obtain e s where es: "ef = Fin e" "sf = Fin s" using v(1,2) finite_num_Some by blast
  have "ctx_ok ctx" using mk_ctx_fields [OF v(5)] v(3,4) es by (auto simp: ctx_ok_def isfinite_iff)
  then show thesis using that v es by blast
qed

lemma SIZE_TOL_bound: obtains t where "SIZE_TOL = Fin t" "t \<le> 1 / 10 ^ 9 + p2 (- 54)"
proof -
  have e: "\<bar>rnd (1 / 10 ^ 9) - 1 / 10 ^ 9\<bar> \<le> p2 (- 54)" by (rule rnd_error_unit_le) simp
  have "rnd (1 / 10 ^ 9) \<le> rnd 1" by (rule rnd_mono) simp
  then have "rnd (1 / 10 ^ 9) < fbound" "0 \<le> rnd (1 / 10 ^ 9)"
    using rnd_of_int [of 1] fbound_gt rnd_nonneg [of "1 / 10 ^ 9"] by simp_all
  then have "SIZE_TOL = Fin (rnd (1 / 10 ^ 9))"
    using fbound_pos by (auto simp: SIZE_TOL_def fl_def Let_def)
  moreover have "rnd (1 / 10 ^ 9) \<le> 1 / 10 ^ 9 + p2 (- 54)" using e by linarith
  ultimately show thesis by (rule that)
qed

text \<open>C7: Size is conserved up to rounding: in every resolved result the sizes of the recorded exits
  (the residual closed at the stop included) add up to 1, within one rounding error
  (\<open>2 powi (- 54)\<close>) per exit and the simulator's own closing tolerance of \<open>1e-9\<close>.\<close>

theorem resolved_sizes_conserved:
  assumes "simulate_plan plan cs = r" and "res_status r = Resolved"
  shows "\<bar>sum_list (map fill_size (res_fills r)) - 1\<bar>
    \<le> of_nat (Suc (length (res_fills r))) * p2 (- 54) + 1 / 10 ^ 9"
proof -
  obtain ctx e s rows where ok: "ctx_ok ctx" and loop: "sim_loop ctx (init_state ctx) rows = Inr r"
    using assms(2) by (auto intro: simulate_planE [OF assms(1)])
  obtain st where inv: "size_inv ctx st" and ending: "sim_ending ctx st r"
    using size.loop_ending [OF ok size.inv_init [OF ok] loop] by blast
  obtain x where x: "remaining st = Fin x" "0 \<le> x"
      "\<bar>x + sum_list (map fill_size (st_fills st)) - 1\<bar> \<le> of_nat (length (st_fills st)) * p2 (- 54)"
    using inv by (auto simp: size_inv_def)
  obtain t where t: "SIZE_TOL = Fin t" "t \<le> 1 / 10 ^ 9 + p2 (- 54)" by (rule SIZE_TOL_bound)
  consider "fle (remaining st) SIZE_TOL" "res_fills r = st_fills st"
    | f where "res_fills r = st_fills st @ [f]" "fill_fraction f = NF (remaining st)"
    using ending assms(2) by (auto simp: sim_ending_def resolved_def stop_out_def rbind_eq_Inr Let_def)
  then show ?thesis
  proof cases
    case 1
    then have "x \<le> t" unfolding x(1) t(1) by simp
    then have "\<bar>sum_list (map fill_size (st_fills st)) - 1\<bar>
        \<le> of_nat (length (st_fills st)) * p2 (- 54) + (1 / 10 ^ 9 + p2 (- 54))"
      using x(2,3) t(2) by linarith
    also have "\<dots> = of_nat (Suc (length (st_fills st))) * p2 (- 54) + 1 / 10 ^ 9"
      by (simp only: of_nat_Suc distrib_right mult_1 ac_simps)
    finally show ?thesis unfolding 1(2) .
  next
    case 2
    have "sum_list (map fill_size (res_fills r)) = sum_list (map fill_size (st_fills st)) + x"
      using 2 x(1) by (simp add: fill_size_def)
    then have "\<bar>sum_list (map fill_size (res_fills r)) - 1\<bar> \<le> of_nat (length (st_fills st)) * p2 (- 54)"
      using x(3) by linarith
    also have "\<dots> \<le> of_nat (Suc (length (res_fills r))) * p2 (- 54)"
      unfolding 2(1) by (intro mult_right_mono) auto
    finally show ?thesis by (rule order_trans) simp
  qed
qed

text \<open>C13: A leg is closed at most once and only at its own target price, and at most one exit of a
  result is a stop exit (index -1).\<close>

theorem exits_at_most_once:
  assumes "simulate_plan plan cs = r"
  shows "distinct (map fill_index (res_fills r))
    \<and> (\<forall>f \<in> set (res_fills r).
         if fill_kind f = K_target
         then \<exists>i < length (plan_legs plan). fill_index f = int i
           \<and> finite_num (leg_target (plan_legs plan ! i)) = Inr (Some (fill_price f))
         else fill_index f = - 1)"
proof (cases "res_fills r = []")
  case False
  obtain ctx e s rows where mk: "mk_ctx plan (Fin e) (Fin s) = Inr ctx" and ok: "ctx_ok ctx"
    and loop: "sim_loop ctx (init_state ctx) rows = Inr r"
    using False by (auto intro: simulate_planE [OF assms])
  obtain st where inv: "once_inv ctx st" "stop_inv ctx st" and ending: "sim_ending ctx st r"
    using simall.loop_ending [OF ok simall.inv_init [OF ok] loop] by blast
  have legs: "ctx_legs ctx = plan_legs plan" using mk_ctx_fields [OF mk] by simp
  have neg: "- 1 \<notin> fill_index ` set (st_fills st)" using inv(1) by (force simp: once_inv_def)
  consider "res_fills r = st_fills st"
    | f where "res_fills r = st_fills st @ [f]" "fill_index f = - 1" "fill_kind f \<noteq> K_target"
    using ending inv(2)
    by (auto simp: sim_ending_def resolved_def stop_out_def rbind_eq_Inr Let_def stop_inv_def)
  then show ?thesis
  proof cases
    case 1
    then show ?thesis using inv(1) legs unfolding once_inv_def by fastforce
  next
    case 2
    then show ?thesis using inv(1) legs neg unfolding once_inv_def by fastforce
  qed
qed simp

lemma stop_r_ge:
  assumes d: "fabs (fsub (Fin e) (Fin s)) = Fin d" "d \<noteq> 0" and "s \<le> p"
    and r: "fdiv (fsub (Fin p) (Fin e)) (Fin d) = Inr r"
  shows "fle (Fin (- 1)) r"
proof -
  have dpos: "0 < d" using d fabs_nonneg [of "fsub (Fin e) (Fin s)"] by simp
  have "fle (fl (s - e)) (fl (p - e))" using assms(3) by (intro fl_mono) simp
  moreover have "fle (Fin (- d)) (fl (s - e))"
  proof -
    have sym: "fabs (fl (s - e)) = Fin d"
      using d(1) fabs_fsub_commute [of e s] by (simp add: fsub_def)
    then show ?thesis by (cases "fl (s - e)") auto
  qed
  ultimately have ge: "fle (Fin (- d)) (fl (p - e))" using fle_trans by blast
  show ?thesis
  proof (cases "fl (p - e)")
    case (Fin x)
    then have "- 1 \<le> x / d" using ge dpos by (simp add: field_simps)
    then have "fle (fl (- 1)) (fl (x / d))" by (rule fl_mono)
    moreover have "fl (- 1) = Fin (- 1)" using fl_exact [OF fwf_int [of "- 1"]] by simp
    ultimately show ?thesis using r Fin dpos by (simp add: fsub_def)
  qed (use ge r dpos in \<open>auto simp: fsub_def finf_def fle_def\<close>)
qed

lemma stop_r_ge_sell:
  assumes d: "fabs (fsub (Fin e) (Fin s)) = Fin d" "d \<noteq> 0" and "p \<le> s"
    and r: "fdiv (fsub (Fin e) (Fin p)) (Fin d) = Inr r"
  shows "fle (Fin (- 1)) r"
  using stop_r_ge [of "- e" "- s" d "- p" r] assms fabs_fsub_commute [of e s]
  by (simp add: fsub_def add.commute)

lemma stop_r_exact:
  assumes "fabs (fl x) = Fin d" "d \<noteq> 0" "x < 0" shows "fdiv (fl x) (Fin d) = Inr (Fin (- 1))"
proof -
  have neg: "rnd x \<le> 0" using rnd_nonneg [of "- x"] assms(3) by simp
  then obtain y where y: "fl x = Fin y" "\<bar>y\<bar> = d" using assms(1) by (cases "fl x") auto
  then have "y \<le> 0" using fl_FinD neg by blast
  then have "y = - d" using y by simp
  then have "y / d = - 1" using assms(2) by simp
  then show ?thesis using y assms(2) fl_exact [OF fwf_int [of "- 1"]] by simp
qed

lemma ctx_stop_r:
  assumes "ctx_ok ctx" "stop_inv ctx st" "r_of ctx (active_stop st) = Inr r"
  shows "fle (Fin (- 1)) r"
proof -
  obtain e s d where c: "entry_f ctx = Fin e" "stop_f ctx = Fin s" "ctx_stop_distance ctx = Fin d"
      "fabs (fsub (Fin e) (Fin s)) = Fin d" "d \<noteq> 0"
    using assms(1) by (auto simp: ctx_ok_def)
  obtain p where p: "active_stop st = Fin p" "not_adverse ctx (Fin s) (Fin p)"
    using assms(2) c(2) by (auto simp: stop_inv_def isfinite_iff)
  show ?thesis
  proof (cases "ctx_is_buy ctx")
    case True
    then show ?thesis using stop_r_ge [OF c(4,5)] p assms(3) c by (simp add: r_of_def not_adverse_def)
  next
    case False
    then show ?thesis using stop_r_ge_sell [OF c(4,5)] p assms(3) c by (simp add: r_of_def not_adverse_def)
  qed
qed

text \<open>C11: The stop never costs more than the initial risk: every stop exit (initial, breakeven or
  trailing) has an R-multiple of at least -1.0, at a price no worse than the initial stop; and
  an exit at the initial stop of a protective bracket is exactly -1.0 R.\<close>

theorem stop_loss_bounded:
  assumes "simulate_plan plan cs = r" "f \<in> set (res_fills r)" "fill_kind f \<noteq> K_target"
  shows "fle (Fin (- 1)) (leg_r f)
    \<and> (\<exists>s. finite_num (plan_initial_stop plan) = Inr (Some s)
         \<and> (if says_sell (plan_action plan) then fle (fill_price f) s else fle s (fill_price f)))"
proof -
  have "res_fills r \<noteq> []" using assms(2) by auto
  then obtain ctx e s rows where mk: "mk_ctx plan (Fin e) (Fin s) = Inr ctx" and ok: "ctx_ok ctx"
    and s: "finite_num (plan_initial_stop plan) = Inr (Some (Fin s))"
    and loop: "sim_loop ctx (init_state ctx) rows = Inr r"
    by (auto intro: simulate_planE [OF assms(1)])
  obtain st where inv: "once_inv ctx st" "stop_inv ctx st" and ending: "sim_ending ctx st r"
    using simall.loop_ending [OF ok simall.inv_init [OF ok] loop] by blast
  have "f \<notin> set (st_fills st)" using inv(1) assms(3) by (auto simp: once_inv_def)
  then have f: "fill_price f = active_stop st" "r_of ctx (active_stop st) = Inr (leg_r f)"
    using ending assms(2)
    by (auto simp: sim_ending_def resolved_def stop_out_def rbind_eq_Inr Let_def)
  have "not_adverse ctx (Fin s) (fill_price f)"
    using inv(2) f(1) mk_ctx_fields [OF mk] by (simp add: stop_inv_def)
  then show ?thesis using ctx_stop_r [OF ok inv(2) f(2)] s mk_ctx_fields [OF mk]
    by (auto simp: not_adverse_def split: if_splits)
qed

subsection \<open>Worst-case straddle\<close>

lemma realized_one_stop:
  "realized_r_of [\<lparr>fill_index = i, fill_price = p, fill_fraction = NF (Fin 1), leg_r = Fin (- 1),
     fill_timestamp_ms = t, fill_kind = k\<rparr>] = Inr (Fin (- 1))"
  using fl_exact [OF fwf_int [of "- 1"]] by (simp add: realized_r_of_def weighted_r_def)

text \<open>The stop is resolved before any target. If the first usable candle of a protective plan
  reaches the initial stop, then whatever targets the same candle reaches, whatever the legs, the
  breakeven and the trailing rule are, the whole position is closed at the stop for exactly
  -1.0 R.\<close>

theorem straddle_is_full_stop:
  assumes ctx: "mk_ctx plan (Fin e) (Fin s) = Inr ctx"
    and lv: "finite_num (plan_entry plan) = Inr (Some (Fin e))"
      "finite_num (plan_initial_stop plan) = Inr (Some (Fin s))" "fwf (Fin e)" "fwf (Fin s)"
      "isfinite (fsub (Fin e) (Fin s))"
    and side: "if says_sell (plan_action plan) then e < s else s < e"
    and rows: "clean_candles cs = Inr ((Fin ts, opn, hi, lo, cl) # rest)"
    and hit: "if says_sell (plan_action plan) then fle (Fin s) hi else fle lo (Fin s)"
  shows "\<exists>t. int_of_float (Fin ts) = Inr t \<and> simulate_plan plan cs =
    \<lparr>res_status = Resolved, res_realized_r = Some (Fin (- 1)),
     res_fills = [\<lparr>fill_index = - 1, fill_price = Fin s, fill_fraction = NF (Fin 1), leg_r = Fin (- 1),
       fill_timestamp_ms = t, fill_kind = K_stop\<rparr>],
     res_residual_fraction = Fin 1, res_breakeven_moved_at = None, res_trailed = False\<rparr>"
proof -
  have ne: "e \<noteq> s" using side by (auto split: if_splits)
  obtain d where d: "fabs (fsub (Fin e) (Fin s)) = Fin d" "d \<noteq> 0"
    using lv(5) fabs_fsub_pos [OF lv(3,4) ne] by (auto simp: isfinite_iff)
  obtain t where t: "int_of_float (Fin ts) = Inr t" by simp
  have sell: "fabs (fl (e - s)) = Fin d" "fabs (fl (s - e)) = Fin d"
    using d(1) fabs_fsub_commute [of e s] by (simp_all add: fsub_def)
  have r: "r_of ctx (Fin s) = Inr (Fin (- 1))"
    using stop_r_exact [OF sell(2) d(2)] stop_r_exact [OF sell(1) d(2)] side mk_ctx_fields [OF ctx] d(1)
    by (auto simp: r_of_def fsub_def split: if_splits)
  have "stop_hit ctx (init_state ctx) hi lo"
    using hit mk_ctx_fields [OF ctx] by (auto simp: stop_hit_def init_state_def split: if_splits)
  moreover have "stop_out ctx t (init_state ctx) = Inr
    \<lparr>res_status = Resolved, res_realized_r = Some (Fin (- 1)),
     res_fills = [\<lparr>fill_index = - 1, fill_price = Fin s, fill_fraction = NF (Fin 1), leg_r = Fin (- 1),
       fill_timestamp_ms = t, fill_kind = K_stop\<rparr>],
     res_residual_fraction = Fin 1, res_breakeven_moved_at = None, res_trailed = False\<rparr>"
    using r mk_ctx_fields [OF ctx] by (simp add: stop_out_def init_state_def resolved_def realized_one_stop)
  ultimately have "simulate_plan_impl plan cs = Inr
    \<lparr>res_status = Resolved, res_realized_r = Some (Fin (- 1)),
     res_fills = [\<lparr>fill_index = - 1, fill_price = Fin s, fill_fraction = NF (Fin 1), leg_r = Fin (- 1),
       fill_timestamp_ms = t, fill_kind = K_stop\<rparr>],
     res_residual_fraction = Fin 1, res_breakeven_moved_at = None, res_trailed = False\<rparr>"
    using ctx lv d rows t by (simp add: simulate_plan_impl_def sim_candle_def)
  then show ?thesis using t by (simp add: simulate_plan_def)
qed

text \<open>C12: From one candle to the next the active stop never moves adversely: not down for a BUY,
  not up for a SELL.\<close>

theorem stop_never_moves_adversely:
  assumes "ctx_ok ctx" "isfinite (active_stop st)" "sim_candle ctx st row = Inr (Inr st')"
  shows "not_adverse ctx (active_stop st) (active_stop st') \<and> isfinite (active_stop st')"
proof -
  obtain ts opn hi lo cl where row: "row = (ts, opn, hi, lo, cl)" by (cases row)
  obtain t st1 where st1: "fill_legs ctx t hi lo st = Inr st1"
    and st': "st' = advance_trailing ctx cl (advance_breakeven ctx t hi lo st1)"
    using assms(3) by (auto simp: sim_candle_def row rbind_eq_Inr split: if_splits)
  have s1: "active_stop st1 = active_stop st"
    using st1 unfolding fill_legs_def
    by (rule rfold_invariant [where P = "\<lambda>s. active_stop s = active_stop st"]) (auto dest: fill_leg_stop)
  have fin: "isfinite (active_stop st1)" using s1 assms(2) by simp
  note be = advance_breakeven_stop [OF assms(1) fin, of t hi lo]
  show ?thesis
    using advance_trailing_stop [OF be(1), of ctx cl] be(2) not_adverse_trans
    unfolding st' s1 [symmetric] by blast
qed

definition result_consistent :: "simulation_result \<Rightarrow> bool" where
  "result_consistent r \<longleftrightarrow> (res_realized_r r \<noteq> None) = (res_status r = Resolved)
     \<and> (res_status r = Invalid \<longrightarrow> res_fills r = [])"

lemma stop_out_consistent: "stop_out ctx ts st = Inr r \<Longrightarrow> result_consistent r"
  by (auto simp: stop_out_def resolved_def rbind_eq_Inr result_consistent_def Let_def)

lemma sim_candle_consistent: "sim_candle ctx st row = Inr (Inl r) \<Longrightarrow> result_consistent r"
  by (cases row) (auto simp: sim_candle_def rbind_eq_Inr split: if_splits
      dest: stop_out_consistent, auto simp: resolved_def result_consistent_def)

lemma sim_loop_consistent: "sim_loop ctx st rows = Inr r \<Longrightarrow> result_consistent r"
proof (induction rows arbitrary: st)
  case Nil
  then show ?case by (auto simp: result_consistent_def)
next
  case (Cons row rows)
  then obtain u where u: "sim_candle ctx st row = Inr u" by (auto simp: rbind_eq_Inr)
  then show ?case using Cons by (cases u) (auto dest: sim_candle_consistent)
qed

text \<open>Every result is consistent: it has a realized R exactly when it is resolved, and an invalid
  result records no exit.\<close>

theorem simulate_plan_consistent: "result_consistent (simulate_plan plan cs)"
proof -
  have inv: "result_consistent invalid_result" by (simp add: result_consistent_def invalid_result_def)
  have "result_consistent r" if "simulate_plan_impl plan cs = Inr r" for r
    using that inv unfolding simulate_plan_impl_def
    by (auto simp: rbind_eq_Inr Let_def split: option.splits if_splits dest: sim_loop_consistent)
  then show ?thesis
    by (auto simp: simulate_plan_def split: sum.splits) (simp add: result_consistent_def)
qed

subsection \<open>Payload, style tag, configuration\<close>

lemma map_of_payload [simp]: "map_of ((k, v) # d) x = (if x = k then Some v else map_of d x)"
  by auto

text \<open>The stored payload of a plan rebuilds exactly that plan, for every plan (whatever values
  its fields hold).\<close>

theorem plan_payload_roundtrip: "plan_from_payload (plan_to_payload plan) = Some plan"
proof -
  have "leg_from_payload (PDict [(''target'', leg_target l), (''fraction'', leg_fraction l)]) = Inr l" for l
    by (simp add: leg_from_payload_def)
  then have "rmap leg_from_payload
      (map (\<lambda>leg. PDict [(''target'', leg_target leg), (''fraction'', leg_fraction leg)]) (plan_legs plan))
      = Inr (plan_legs plan)"
    by (simp add: rmap_map comp_def)
  then show ?thesis
    by (cases "plan_breakeven plan"; cases "plan_trailing plan")
      (simp_all add: plan_from_payload_def plan_to_payload_def dict_get_def)
qed

text \<open>The style tag is one of the eight documented values; it is ''unknown'' only for an absent
  plan or a plan with a non-numeric fraction, and a plan of two or more legs is always tagged as
  scaling.\<close>

theorem management_style_tag_range:
  "management_style_tag plan \<in> set MANAGEMENT_STYLE_TAGS
   \<and> (management_style_tag plan = ''unknown'' \<longleftrightarrow>
        (case plan of None \<Rightarrow> True | Some p \<Rightarrow> \<exists>e. is_scaling p = Inl e))
   \<and> (\<forall>p. plan = Some p \<and> 1 < length (plan_legs p) \<longrightarrow> management_style_tag plan
        \<in> {''scale'', ''scale-be'', ''scale-trail'', ''scale-be-trail''})"
  by (auto simp: management_style_tag_def MANAGEMENT_STYLE_TAGS_def is_scaling_def Let_def
      split: option.split sum.split bool.split)

lemma resolve_positive_pos:
  assumes "fle (Fin 0) high" "flt (Fin 0) dflt" "fle dflt high" "isfinite dflt"
  shows "flt (Fin 0) (resolve_positive env name dflt high) \<and> fle (resolve_positive env name dflt high) high"
proof -
  let ?v = "resolve_float env name dflt (Fin 0) high"
  have "float_in (Fin 0) high ?v"
    by (rule regime_float.resolve_ok)
      (use assms flt_asym fle_flt_trans [of dflt high dflt] in auto)
  then show ?thesis using assms not_flt [of high ?v] fle_not_NaN [of "Fin 0" high]
    not_flt [of "Fin 0" ?v]
    by (cases ?v) (auto simp: resolve_positive_def Let_def)
qed

text \<open>Whatever the environment holds, every resolved Trade_Manager parameter lies in its
  documented range: the first target and the breakeven trigger in (0, 100], the first fraction
  in (0, 1], the trail multiple and the blended minimum in [0, 100].\<close>

theorem trade_manager_config_in_range:
  "let c = resolve_trade_manager_config env in
     flt (Fin 0) (default_first_target_r c) \<and> fle (default_first_target_r c) (Fin 100)
   \<and> flt (Fin 0) (default_first_target_fraction c) \<and> fle (default_first_target_fraction c) (Fin 1)
   \<and> flt (Fin 0) (default_breakeven_trigger_r c) \<and> fle (default_breakeven_trigger_r c) (Fin 100)
   \<and> fle (Fin 0) (default_trail_atr_multiple c) \<and> fle (default_trail_atr_multiple c) (Fin 100)
   \<and> fle (Fin 0) (min_blended_reward_to_risk c) \<and> fle (min_blended_reward_to_risk c) (Fin 100)"
proof -
  have h: "fl (5 / 10) = Fin (1 / 2)" "fl (15 / 10) = Fin (3 / 2)"
    using rnd_half_ints [of 1] rnd_half_ints [of 3] by (simp_all add: fl_def Let_def fbound_def)
  have r: "fle (Fin 0) (resolve_float env name dflt (Fin 0) high) \<and> fle (resolve_float env name dflt (Fin 0) high) high"
    if "fle (Fin 0) dflt" "fle dflt high" "isfinite dflt" for name dflt high
  proof -
    let ?v = "resolve_float env name dflt (Fin 0) high"
    have "float_in (Fin 0) high ?v"
      by (rule regime_float.resolve_ok)
        (use that fle_flt_trans [of "Fin 0" dflt "Fin 0"] fle_flt_trans [of dflt high dflt] in auto)
    then show ?thesis using that not_flt [of high ?v] not_flt [of ?v "Fin 0"] fle_not_NaN [of dflt high]
      by (cases ?v) auto
  qed
  show ?thesis
    unfolding resolve_trade_manager_config_def Let_def h
    by (simp add: resolve_positive_pos r)
qed

subsection \<open>Witnesses\<close>

definition demo_candle :: "int \<Rightarrow> int \<Rightarrow> int \<Rightarrow> int \<Rightarrow> int \<Rightarrow> pyval" where
  "demo_candle ts opn hi lo cl = PDict [(''timestamp_ms'', PInt ts), (''open'', PInt opn),
     (''high'', PInt hi), (''low'', PInt lo), (''close'', PInt cl)]"

definition demo_mplan :: management_plan where
  "demo_mplan = \<lparr>plan_action = PStr ''BUY'', plan_entry = PInt 100, plan_initial_stop = PInt 95,
     plan_legs = [\<lparr>leg_target = PInt 105, leg_fraction = PFloat (Fin (1 / 2))\<rparr>,
                  \<lparr>leg_target = PInt 115, leg_fraction = PFloat (Fin (1 / 4))\<rparr>],
     plan_breakeven = Some \<lparr>be_price = PNone, be_r_multiple = PInt 1\<rparr>,
     plan_trailing = None, plan_atr_14 = PNone\<rparr>"

definition demo_run :: "pyval list" where
  "demo_run = [demo_candle 1000 100 106 99 105, demo_candle 2000 105 107 99 100]"

lemma demo_sim: "simulate_plan demo_mplan demo_run =
    \<lparr>res_status = Resolved, res_realized_r = Some (Fin (1 / 2)),
     res_fills = [\<lparr>fill_index = 0, fill_price = Fin 105, fill_fraction = NF (Fin (1 / 2)), leg_r = Fin 1,
                   fill_timestamp_ms = 1000, fill_kind = K_target\<rparr>,
                  \<lparr>fill_index = - 1, fill_price = Fin 100, fill_fraction = NF (Fin (1 / 2)), leg_r = Fin 0,
                   fill_timestamp_ms = 2000, fill_kind = K_breakeven_stop\<rparr>],
     res_residual_fraction = Fin (1 / 2), res_breakeven_moved_at = Some 1000, res_trailed = False\<rparr>"
  unfolding demo_mplan_def demo_run_def demo_candle_def by code_simp

lemma simulate_plan_order_independent_witness:
  "simulate_plan demo_mplan (rev demo_run) = simulate_plan demo_mplan demo_run"
  by (rule simulate_plan_order_independent) simp

lemma resolved_sizes_conserved_witness:
  "\<bar>sum_list (map fill_size (res_fills (simulate_plan demo_mplan demo_run))) - 1\<bar> \<le> 3 * p2 (- 54) + 1 / 10 ^ 9"
  using resolved_sizes_conserved [OF demo_sim] unfolding demo_sim by simp

lemma exits_at_most_once_witness: "distinct (map fill_index (res_fills (simulate_plan demo_mplan demo_run)))"
  using exits_at_most_once [OF refl, of demo_mplan demo_run] by blast

lemma stop_loss_bounded_witness:
  "fle (Fin (- 1)) (leg_r (last (res_fills (simulate_plan demo_mplan demo_run))))"
  using stop_loss_bounded [OF demo_sim, of "last (res_fills (simulate_plan demo_mplan demo_run))"]
  unfolding demo_sim by simp

lemma management_style_tag_range_witness:
  "management_style_tag (Some demo_mplan) \<in> {''scale'', ''scale-be'', ''scale-trail'', ''scale-be-trail''}"
proof -
  have "1 < length (plan_legs demo_mplan)" by (simp add: demo_mplan_def)
  then show ?thesis using management_style_tag_range [of "Some demo_mplan"] by blast
qed

definition straddle_ctx :: sim_ctx where
  "straddle_ctx = \<lparr>ctx_is_buy = True, entry_f = Fin 100, stop_f = Fin 95, ctx_stop_distance = Fin 5,
     be_level = Some (Fin 105), trail_dist = None, ctx_legs = plan_legs demo_mplan\<rparr>"

lemma straddle_is_full_stop_witness:
  "res_realized_r (simulate_plan demo_mplan [demo_candle 1000 100 120 90 100]) = Some (Fin (- 1))"
proof -
  have c: "mk_ctx demo_mplan (Fin 100) (Fin 95) = Inr straddle_ctx"
    unfolding straddle_ctx_def demo_mplan_def by code_simp
  have rows: "clean_candles [demo_candle 1000 100 120 90 100]
      = Inr [(Fin 1000, Fin 100, Fin 120, Fin 90, Fin 100)]"
    unfolding demo_candle_def by code_simp
  have lv: "finite_num (plan_entry demo_mplan) = Inr (Some (Fin 100))"
    "finite_num (plan_initial_stop demo_mplan) = Inr (Some (Fin 95))"
    "isfinite (fsub (Fin 100) (Fin 95))"
    by (simp_all add: demo_mplan_def float_of_int_def fsub_def)
  have f: "fwf (Fin 100)" "fwf (Fin 95)" by (rule fwf_numeral, simp)+
  have a: "\<not> says_sell (plan_action demo_mplan)" unfolding demo_mplan_def by code_simp
  show ?thesis
    using straddle_is_full_stop [OF c lv(1,2) f lv(3) _ rows] a by force
qed

lemma stop_never_moves_adversely_witness:
  "\<exists>st'. sim_candle straddle_ctx (init_state straddle_ctx) (Fin 1000, Fin 100, Fin 106, Fin 99, Fin 105)
      = Inr (Inr st') \<and> not_adverse straddle_ctx (Fin 95) (active_stop st') \<and> active_stop st' = Fin 100"
proof -
  let ?row = "(Fin 1000, Fin 100, Fin 106, Fin 99, Fin 105)"
  obtain st' where st': "sim_candle straddle_ctx (init_state straddle_ctx) ?row = Inr (Inr st')"
      "active_stop st' = Fin 100"
  proof -
    have "(case sim_candle straddle_ctx (init_state straddle_ctx) ?row of
        Inr (Inr st') \<Rightarrow> active_stop st' = Fin 100 | _ \<Rightarrow> False)"
      unfolding straddle_ctx_def demo_mplan_def by code_simp
    then show thesis using that by (auto split: sum.splits)
  qed
  have ok: "ctx_ok straddle_ctx" "isfinite (active_stop (init_state straddle_ctx))"
    by (simp_all add: ctx_ok_def straddle_ctx_def init_state_def fsub_def)
  show ?thesis
    using stop_never_moves_adversely [OF ok st'(1)] st' by (auto simp: init_state_def straddle_ctx_def)
qed

end
