(* ===== verification/PyJson.thy ===== *)
theory PyJson
  imports PyValue "HOL-Library.List_Lexorder" "HOL-Library.Char_ord"
begin

text \<open>
  The text forms of Python values that the program stores and hashes: \<open>repr\<close> of integers and
  floats, and \<open>json.dumps\<close> with sorted keys, compact separators and \<open>ensure_ascii=False\<close>. Integers
  have at most 4300 digits (the interpreter's limit); zero has one sign.
\<close>

subsection \<open>Numbers\<close>

definition digit_char :: "nat \<Rightarrow> char" where
  "digit_char n = char_of (48 + n mod 10)"

fun nat_text_acc :: "nat \<Rightarrow> string \<Rightarrow> string" where
  "nat_text_acc n acc =
     (if n < 10 then digit_char n # acc else nat_text_acc (n div 10) (digit_char n # acc))"

declare nat_text_acc.simps [simp del]

definition int_text :: "int \<Rightarrow> string" where
  "int_text n = (if n < 0 then CHR ''-'' # nat_text_acc (nat (- n)) [] else nat_text_acc (nat n) [])"

text \<open>
  \<open>repr\<close> of a positive float \<open>q\<close> with \<open>10 ^ (k - 1) \<le> q < 10 ^ k\<close>: for the least number \<open>n\<close> of digits
  that any decimal \<open>d * 10 ^ (k - n)\<close> reading back as \<open>q\<close> needs, the closest such decimal, ties to
  an even last digit. Seventeen digits are always enough.
\<close>

definition reads_back :: "rat \<Rightarrow> int \<Rightarrow> int \<Rightarrow> bool" where
  "reads_back q d e \<longleftrightarrow> fl (of_int d * 10 powi e) = Fin q"

definition pick_digits :: "rat \<Rightarrow> int \<Rightarrow> int option" where
  "pick_digits q e = (let x = q / 10 powi e; lo = \<lfloor>x\<rfloor>; hi = lo + 1;
       lo_ok = reads_back q lo e; hi_ok = reads_back q hi e in
     if lo_ok \<and> hi_ok then
       (if x - of_int lo < of_int hi - x \<or> (x - of_int lo = of_int hi - x \<and> even lo)
        then Some lo else Some hi)
     else if lo_ok then Some lo else if hi_ok then Some hi else None)"

fun shortest_from :: "nat \<Rightarrow> nat \<Rightarrow> rat \<Rightarrow> int \<Rightarrow> int \<times> int" where
  "shortest_from 0 n q k = (\<lfloor>q / 10 powi (k - int n)\<rfloor>, k - int n)"
| "shortest_from (Suc fuel) n q k = (case pick_digits q (k - int n) of
     Some d \<Rightarrow> (d, k - int n) | None \<Rightarrow> shortest_from fuel (Suc n) q k)"

text \<open>The decimal exponent, from \<open>2 ^ l \<le> q < 2 ^ (l + 1)\<close> by a first guess and two corrections.\<close>

definition dec_exp :: "rat \<Rightarrow> int" where
  "dec_exp q = (let g = (flog2 q * 30103) div 100000 in
     if q < 10 powi g then g else if q < 10 powi (g + 1) then g + 1 else g + 2)"

text \<open>Digits and the position of the decimal point, with the trailing zeros dropped.\<close>

function drop_zeros :: "int \<Rightarrow> int" where
  "drop_zeros d = (if d \<le> 0 \<or> d mod 10 \<noteq> 0 then d else drop_zeros (d div 10))"
  by pat_completeness auto
termination
  by (relation "measure nat") auto

declare drop_zeros.simps [simp del]

definition place_point :: "string \<Rightarrow> int \<Rightarrow> string" where
  "place_point ds p =
     (if - 4 < p \<and> p \<le> 0 then ''0.'' @ replicate (nat (- p)) (CHR ''0'') @ ds
      else if 0 < p \<and> p \<le> 16 then
        (if int (length ds) \<le> p then ds @ replicate (nat p - length ds) (CHR ''0'') @ ''.0''
         else take (nat p) ds @ ''.'' @ drop (nat p) ds)
      else (let e = p - 1; m = (if length ds = 1 then ds else take 1 ds @ ''.'' @ drop 1 ds);
                a = nat_text_acc (nat \<bar>e\<bar>) [] in
        m @ ''e'' @ (if e < 0 then ''-'' else ''+'') @ (if length a = 1 then ''0'' @ a else a)))"

definition pos_float_text :: "rat \<Rightarrow> string" where
  "pos_float_text q = (let (d, e) = shortest_from 17 1 q (dec_exp q);
     ds = nat_text_acc (nat d) [] in
     place_point (nat_text_acc (nat (drop_zeros d)) []) (e + int (length ds)))"

fun float_text :: "pyfloat \<Rightarrow> string" where
  "float_text NaN = ''NaN''"
| "float_text PInf = ''Infinity''"
| "float_text NInf = ''-Infinity''"
| "float_text (Fin q) = (if q = 0 then ''0.0'' else if q < 0 then CHR ''-'' # pos_float_text (- q)
     else pos_float_text q)"

subsection \<open>json.dumps\<close>

definition hex_char :: "nat \<Rightarrow> char" where
  "hex_char n = (if n < 10 then char_of (48 + n) else char_of (87 + n))"

definition json_escape :: "char \<Rightarrow> string" where
  "json_escape c = (let n = of_char c :: nat; bs = char_of (92::nat) in
     if n = 34 \<or> n = 92 then [bs, c]
     else if n = 10 then [bs, CHR ''n''] else if n = 13 then [bs, CHR ''r'']
     else if n = 9 then [bs, CHR ''t''] else if n = 12 then [bs, CHR ''f'']
     else if n = 8 then [bs, CHR ''b'']
     else if n < 32 then [bs, CHR ''u'', CHR ''0'', CHR ''0'', hex_char (n div 16), hex_char (n mod 16)]
     else [c])"

definition json_string :: "string \<Rightarrow> string" where
  "json_string s = [char_of (34::nat)] @ concat (map json_escape s) @ [char_of (34::nat)]"

fun join_with :: "string \<Rightarrow> string list \<Rightarrow> string" where
  "join_with sep [] = []"
| "join_with sep [x] = x"
| "join_with sep (x # y # ys) = x @ sep @ join_with sep (y # ys)"

fun json_dumps :: "pyval \<Rightarrow> string" where
  "json_dumps PNone = ''null''"
| "json_dumps (PBool b) = (if b then ''true'' else ''false'')"
| "json_dumps (PInt n) = int_text n"
| "json_dumps (PFloat f) = float_text f"
| "json_dumps (PStr s) = json_string s"
| "json_dumps (PList vs) = ''['' @ join_with '','' (map json_dumps vs) @ '']''"
| "json_dumps (PDict d) = ''{'' @ join_with '',''
     (map snd (sort_key fst (map (\<lambda>(k, v). (k, json_string k @ '':'' @ json_dumps v)) d))) @ ''}''"

text \<open>\<open>json.dumps(v, separators=(",", ":"))\<close>: keys in their order, and everything outside printable ASCII
  escaped.\<close>

definition ascii_escape :: "char \<Rightarrow> string" where
  "ascii_escape c = (let n = of_char c :: nat in
     if 127 \<le> n then [char_of (92::nat), CHR ''u'', CHR ''0'', CHR ''0'', hex_char (n div 16), hex_char (n mod 16)]
     else json_escape c)"

definition ascii_string :: "string \<Rightarrow> string" where
  "ascii_string s = [char_of (34::nat)] @ concat (map ascii_escape s) @ [char_of (34::nat)]"

fun json_ascii :: "pyval \<Rightarrow> string" where
  "json_ascii PNone = ''null''"
| "json_ascii (PBool b) = (if b then ''true'' else ''false'')"
| "json_ascii (PInt n) = int_text n"
| "json_ascii (PFloat f) = float_text f"
| "json_ascii (PStr s) = ascii_string s"
| "json_ascii (PList vs) = ''['' @ join_with '','' (map json_ascii vs) @ '']''"
| "json_ascii (PDict d) = ''{'' @ join_with '',''
     (map (\<lambda>(k, v). ascii_string k @ '':'' @ json_ascii v) d) @ ''}''"

subsection \<open>repr and str\<close>

definition repr_char :: "char \<Rightarrow> char \<Rightarrow> string" where
  "repr_char q c = (let n = of_char c :: nat; bs = char_of (92::nat) in
     if c = q \<or> n = 92 then [bs, c]
     else if n = 10 then [bs, CHR ''n''] else if n = 13 then [bs, CHR ''r'']
     else if n = 9 then [bs, CHR ''t'']
     else if n < 32 \<or> (127 \<le> n \<and> n \<le> 160) \<or> n = 173
       then [bs, CHR ''x'', hex_char (n div 16), hex_char (n mod 16)]
     else [c])"

definition repr_string :: "string \<Rightarrow> string" where
  "repr_string s = (let sq = char_of (39::nat); dq = char_of (34::nat);
       q = (if sq \<in> set s \<and> dq \<notin> set s then dq else sq) in
     [q] @ concat (map (repr_char q) s) @ [q])"

fun py_repr :: "pyval \<Rightarrow> string" where
  "py_repr PNone = ''None''"
| "py_repr (PBool b) = (if b then ''True'' else ''False'')"
| "py_repr (PInt n) = int_text n"
| "py_repr (PFloat f) = (case f of NaN \<Rightarrow> ''nan'' | PInf \<Rightarrow> ''inf'' | NInf \<Rightarrow> ''-inf'' | _ \<Rightarrow> float_text f)"
| "py_repr (PStr s) = repr_string s"
| "py_repr (PList vs) = ''['' @ join_with '', '' (map py_repr vs) @ '']''"
| "py_repr (PDict d) = ''{'' @ join_with '', '' (map (\<lambda>(k, v). repr_string k @ '': '' @ py_repr v) d) @ ''}''"

fun py_str :: "pyval \<Rightarrow> string" where
  "py_str (PStr s) = s"
| "py_str v = py_repr v"

end
