(* ===== verification/HashChain.thy ===== *)
theory HashChain
  imports PyJson Sha256
begin

text \<open>
  The append-only, tamper-evident tables of hashchain.py. A table is its rows in the order of
  their ids, the AUTOINCREMENT counter and its two triggers; a row is the dictionary that
  \<open>dict(row)\<close> gives. A store is the map from table names to tables, or \<open>None\<close> when the
  file cannot be opened. The links of a chain are studied once, for any digest of fixed length,
  in the locale \<open>chain_digest\<close>, and interpreted on SHA-256.
\<close>

subsection \<open>Canonical text and the link hash\<close>

definition GENESIS_HASH :: string where
  "GENESIS_HASH = replicate 64 (CHR ''0'')"

fun canonicalise :: "pyval \<Rightarrow> pyval" where
  "canonicalise (PFloat f) = (if isfinite f then PFloat f else PNone)"
| "canonicalise (PDict d) = PDict (map (\<lambda>(k, v). (k, canonicalise v)) d)"
| "canonicalise (PList vs) = PList (map canonicalise vs)"
| "canonicalise v = v"

definition canonical_json :: "pyval \<Rightarrow> string" where
  "canonical_json v = json_dumps (canonicalise v)"

text \<open>\<open>x if isinstance(x, str) and x else GENESIS_HASH\<close>\<close>

fun hash_or_genesis :: "pyval \<Rightarrow> string" where
  "hash_or_genesis (PStr s) = (if s \<noteq> [] then s else GENESIS_HASH)"
| "hash_or_genesis _ = GENESIS_HASH"

definition link_text :: "string \<Rightarrow> string \<Rightarrow> string" where
  "link_text prev body = prev @ [char_of (10::nat)] @ body"

definition hash_payload :: "pyval \<Rightarrow> pyval \<Rightarrow> string" where
  "hash_payload prev_hash payload = sha256_hex (link_text (hash_or_genesis prev_hash) (canonical_json payload))"

subsection \<open>Tables\<close>

record sql_table =
  tbl_rows :: "pydict list"
  tbl_last_id :: int
  tbl_no_update :: bool
  tbl_no_delete :: bool

type_synonym store = "string \<rightharpoonup> sql_table"

definition is_alnum :: "char \<Rightarrow> bool" where
  "is_alnum c \<longleftrightarrow> is_digit c \<or> (let n = of_char c :: nat in (65 \<le> n \<and> n \<le> 90) \<or> (97 \<le> n \<and> n \<le> 122))"

definition safe_table_name :: "string \<Rightarrow> bool" where
  "safe_table_name t \<longleftrightarrow> (let s = filter (\<lambda>c. c \<noteq> CHR ''_'') t in s \<noteq> [] \<and> list_all is_alnum s)"

text \<open>\<open>CREATE TABLE IF NOT EXISTS\<close>, and the two \<open>CREATE TRIGGER IF NOT EXISTS\<close>.\<close>

definition empty_table :: sql_table where
  "empty_table = \<lparr>tbl_rows = [], tbl_last_id = 0, tbl_no_update = False, tbl_no_delete = False\<rparr>"

definition create_table :: "store \<Rightarrow> string \<Rightarrow> store" where
  "create_table db t = (if db t = None then db(t \<mapsto> empty_table) else db)"

definition enforce_append_only :: "store \<Rightarrow> string \<Rightarrow> store res" where
  "enforce_append_only db t =
     (if \<not> safe_table_name t then Inl ValueError
      else case db t of None \<Rightarrow> Inl SqliteError
      | Some tb \<Rightarrow> Inr (db(t \<mapsto> tb\<lparr>tbl_no_update := True, tbl_no_delete := True\<rparr>)))"

text \<open>The statements a client can issue on a table; one that fails leaves it as it was. The
  triggers run for each row a statement touches, so one that touches no row succeeds.
  \<open>S_replace i vals\<close> is \<open>INSERT OR REPLACE\<close> with the existing id \<open>i\<close>: SQLite runs the delete triggers
  of the row it removes only under \<open>recursive_triggers\<close>, which \<open>connect\<close> leaves off.\<close>

datatype sql_stmt =
    S_insert pydict
  | S_update "pydict \<Rightarrow> bool" "pydict \<Rightarrow> pydict"
  | S_delete "pydict \<Rightarrow> bool"
  | S_replace int pydict

definition sql_insert :: "pydict \<Rightarrow> sql_table \<Rightarrow> sql_table" where
  "sql_insert vals tb = tb\<lparr>tbl_rows := tbl_rows tb @ [(''id'', PInt (tbl_last_id tb + 1)) # vals],
                       tbl_last_id := tbl_last_id tb + 1\<rparr>"

fun sql_exec :: "sql_stmt \<Rightarrow> sql_table \<Rightarrow> sql_table res" where
  "sql_exec (S_insert vals) tb = Inr (sql_insert vals tb)"
| "sql_exec (S_update p f) tb =
     (if tbl_no_update tb \<and> list_ex p (tbl_rows tb) then Inl IntegrityError
      else Inr (tb\<lparr>tbl_rows := map (\<lambda>r. if p r then f r else r) (tbl_rows tb)\<rparr>))"
| "sql_exec (S_delete p) tb =
     (if tbl_no_delete tb \<and> list_ex p (tbl_rows tb) then Inl IntegrityError
      else Inr (tb\<lparr>tbl_rows := filter (\<lambda>r. \<not> p r) (tbl_rows tb)\<rparr>))"
| "sql_exec (S_replace i vals) tb =
     Inr (tb\<lparr>tbl_rows := map (\<lambda>r. if dict_get r ''id'' = PInt i then (''id'', PInt i) # vals else r)
                           (tbl_rows tb)\<rparr>)"

fun sql_run :: "sql_stmt list \<Rightarrow> sql_table \<Rightarrow> sql_table" where
  "sql_run [] tb = tb"
| "sql_run (s # ss) tb = sql_run ss (case sql_exec s tb of Inl _ \<Rightarrow> tb | Inr tb' \<Rightarrow> tb')"

definition tip_of :: "pydict list \<Rightarrow> string" where
  "tip_of rows = (if rows = [] then GENESIS_HASH else hash_or_genesis (dict_get (last rows) ''row_hash''))"

definition chain_tip :: "store \<Rightarrow> string \<Rightarrow> string res" where
  "chain_tip db t =
     (if \<not> safe_table_name t then Inl ValueError
      else case db t of None \<Rightarrow> Inl SqliteError | Some tb \<Rightarrow> Inr (tip_of (tbl_rows tb)))"

subsection \<open>Verification\<close>

text \<open>The texts of the five failures are constructors.\<close>

datatype chain_reason = R_prev_hash | R_row_hash | R_unsafe_name | R_cannot_open | R_cannot_read

record chain_verification =
  cv_ok :: bool
  cv_rows :: nat
  cv_broken_at_id :: pyval
  cv_reason :: "chain_reason option"

definition broken :: "nat \<Rightarrow> pyval \<Rightarrow> chain_reason \<Rightarrow> chain_verification" where
  "broken n i r = \<lparr>cv_ok = False, cv_rows = n, cv_broken_at_id = i, cv_reason = Some r\<rparr>"

definition verified :: "nat \<Rightarrow> chain_verification" where
  "verified n = \<lparr>cv_ok = True, cv_rows = n, cv_broken_at_id = PNone, cv_reason = None\<rparr>"

fun verify_from :: "(pydict \<Rightarrow> pyval) \<Rightarrow> string \<Rightarrow> nat \<Rightarrow> pydict list \<Rightarrow> chain_verification" where
  "verify_from payload_of prev seen [] = verified seen"
| "verify_from payload_of prev seen (row # rows) =
     (if dict_get row ''prev_hash'' \<noteq> PStr prev
      then broken (Suc seen) (dict_get row ''id'') R_prev_hash
      else let expected = hash_payload (PStr prev) (payload_of row) in
        if dict_get row ''row_hash'' \<noteq> PStr expected
        then broken (Suc seen) (dict_get row ''id'') R_row_hash
        else verify_from payload_of expected (Suc seen) rows)"

definition verify_rows :: "(pydict \<Rightarrow> pyval) \<Rightarrow> pydict list \<Rightarrow> chain_verification" where
  "verify_rows payload_of rows = verify_from payload_of GENESIS_HASH 0 rows"

definition verify_table :: "string \<Rightarrow> (pydict \<Rightarrow> pyval) \<Rightarrow> store option \<Rightarrow> chain_verification" where
  "verify_table t payload_of db =
     (if \<not> safe_table_name t then broken 0 PNone R_unsafe_name
      else case db of None \<Rightarrow> broken 0 PNone R_cannot_open
      | Some s \<Rightarrow> (case s t of None \<Rightarrow> broken 0 PNone R_cannot_read
        | Some tb \<Rightarrow> verify_rows payload_of (tbl_rows tb)))"

subsection \<open>Chains over any digest of fixed length\<close>

text \<open>A link is the stored \<open>prev_hash\<close>, the stored \<open>row_hash\<close> and the canonical text of the row's
  payload; \<open>chained H p ls\<close> is what the verification loop checks from the hash \<open>p\<close> on.\<close>

type_synonym link = "string \<times> string \<times> string"

fun chained :: "(string \<Rightarrow> string) \<Rightarrow> string \<Rightarrow> link list \<Rightarrow> bool" where
  "chained H p [] = True"
| "chained H p ((prev, hash, body) # ls) \<longleftrightarrow> prev = p \<and> hash = H (link_text p body) \<and> chained H hash ls"

fun tip_from :: "string \<Rightarrow> link list \<Rightarrow> string" where
  "tip_from p [] = p"
| "tip_from p ((prev, hash, body) # ls) = tip_from hash ls"

text \<open>The texts a chain hashes, and its bodies.\<close>

definition hashed_texts :: "link list \<Rightarrow> string set" where
  "hashed_texts ls = (\<lambda>(prev, hash, body). link_text prev body) ` set ls"

definition bodies :: "link list \<Rightarrow> string list" where
  "bodies ls = map (\<lambda>(prev, hash, body). body) ls"

lemma tip_from_append: "tip_from p (xs @ ys) = tip_from (tip_from p xs) ys"
  by (induction xs arbitrary: p) auto

lemma chained_append: "chained H p (xs @ ys) \<longleftrightarrow> chained H p xs \<and> chained H (tip_from p xs) ys"
  by (induction xs arbitrary: p) auto

lemma hashed_texts_append [simp]: "hashed_texts (xs @ ys) = hashed_texts xs \<union> hashed_texts ys"
  by (simp add: hashed_texts_def image_Un)

lemma bodies_append [simp]: "bodies (xs @ ys) = bodies xs @ bodies ys"
  by (simp add: bodies_def)

definition collision :: "(string \<Rightarrow> string) \<Rightarrow> string set \<Rightarrow> string set \<Rightarrow> bool" where
  "collision H A B \<longleftrightarrow> (\<exists>a\<in>A. \<exists>b\<in>B. a \<noteq> b \<and> H a = H b)"

lemma collision_mono: "collision H A B \<Longrightarrow> A \<subseteq> A' \<Longrightarrow> B \<subseteq> B' \<Longrightarrow> collision H A' B'"
  unfolding collision_def by blast

locale chain_digest =
  fixes H :: "string \<Rightarrow> string" and g :: string and n :: nat
  assumes digest_len: "length (H m) = n"
    and genesis_len: "length g = n"
begin

lemma tip_len: "chained H p ls \<Longrightarrow> length p = n \<Longrightarrow> length (tip_from p ls) = n"
  by (induction ls arbitrary: p) (auto simp: digest_len)

lemma link_text_inj: "length p = n \<Longrightarrow> length q = n \<Longrightarrow> link_text p b = link_text q c \<Longrightarrow> p = q \<and> b = c"
  by (simp add: link_text_def)

lemma same_tip:
  assumes "chained H g xs" and "chained H g ys" and "tip_from g xs = tip_from g ys"
  shows "bodies xs = bodies ys \<or> collision H (hashed_texts xs) (hashed_texts ys)
    \<or> (\<exists>m \<in> hashed_texts xs \<union> hashed_texts ys. H m = g)"
  using assms
proof (induction xs arbitrary: ys rule: rev_induct)
  case Nil
  show ?case
  proof (cases ys rule: rev_cases)
    case (snoc zs l)
    obtain prev h b where l: "l = (prev, h, b)" by (cases l)
    have "prev = tip_from g zs" "H (link_text prev b) = g"
      using Nil.prems(2,3) by (auto simp: snoc l chained_append tip_from_append)
    then have "\<exists>m \<in> hashed_texts ys. H m = g"
      by (auto simp: snoc l hashed_texts_def)
    then show ?thesis by blast
  qed simp
next
  case (snoc l xs)
  obtain prev h b where l: "l = (prev, h, b)" by (cases l)
  have x: "chained H g xs" "prev = tip_from g xs" "h = H (link_text prev b)"
    using snoc.prems(1) by (auto simp: l chained_append)
  show ?case
  proof (cases ys rule: rev_cases)
    case Nil
    then have "H (link_text prev b) = g" using snoc.prems(3) x by (simp add: l tip_from_append)
    then show ?thesis by (auto simp: l hashed_texts_def)
  next
    case ys: (snoc zs k)
    obtain prev' h' c where k: "k = (prev', h', c)" by (cases k)
    have y: "chained H g zs" "prev' = tip_from g zs" "h' = H (link_text prev' c)"
      using snoc.prems(2) by (auto simp: ys k chained_append)
    have eq: "H (link_text prev b) = H (link_text prev' c)"
      using snoc.prems(3) x y by (simp add: ys l k tip_from_append)
    have in_x: "link_text prev b \<in> hashed_texts (xs @ [l])" by (simp add: l hashed_texts_def)
    have in_y: "link_text prev' c \<in> hashed_texts ys" by (simp add: ys k hashed_texts_def)
    show ?thesis
    proof (cases "link_text prev b = link_text prev' c")
      case False
      then show ?thesis using eq in_x in_y unfolding collision_def by blast
    next
      case True
      then have same: "prev = prev'" "b = c"
        using link_text_inj [OF _ _ True] tip_len [OF x(1) genesis_len] tip_len [OF y(1) genesis_len]
          x(2) y(2) by auto
      then have "tip_from g xs = tip_from g zs" using x(2) y(2) by simp
      from snoc.IH [OF x(1) y(1) this] consider "bodies xs = bodies zs"
        | "collision H (hashed_texts xs) (hashed_texts zs)"
        | "\<exists>m \<in> hashed_texts xs \<union> hashed_texts zs. H m = g"
        by blast
      then show ?thesis
      proof cases
        case 1
        then show ?thesis using same by (simp add: ys l k bodies_def)
      next
        case 2
        then have "collision H (hashed_texts (xs @ [l])) (hashed_texts ys)"
          by (rule collision_mono) (auto simp: ys)
        then show ?thesis by blast
      qed (auto simp: ys)
    qed
  qed
qed

end

interpretation sha_chain: chain_digest sha256_hex GENESIS_HASH 64
  by unfold_locales (simp_all add: GENESIS_HASH_def)

subsection \<open>The verification loop checks the chain\<close>

text \<open>The link of a row, with an empty string where a hash column holds no text.\<close>

fun text_or_empty :: "pyval \<Rightarrow> string" where
  "text_or_empty (PStr s) = s"
| "text_or_empty _ = []"

definition row_link :: "(pydict \<Rightarrow> pyval) \<Rightarrow> pydict \<Rightarrow> link" where
  "row_link payload_of r = (text_or_empty (dict_get r ''prev_hash''), text_or_empty (dict_get r ''row_hash''),
     canonical_json (payload_of r))"

lemma sha256_hex_nonempty [simp]: "sha256_hex m \<noteq> []"
  using length_sha256_hex [of m] by fastforce

lemma GENESIS_HASH_nonempty [simp]: "GENESIS_HASH \<noteq> []"
  by (simp add: GENESIS_HASH_def)

lemma hash_or_genesis_nonempty [simp]: "hash_or_genesis v \<noteq> []"
  by (cases v) auto

lemma tip_of_nonempty [simp]: "tip_of rows \<noteq> []"
  by (simp add: tip_of_def)

lemma hash_payload_str: "p \<noteq> [] \<Longrightarrow> hash_payload (PStr p) v = sha256_hex (link_text p (canonical_json v))"
  by (simp add: hash_payload_def)

lemma text_or_empty_eq: "s \<noteq> [] \<Longrightarrow> v = PStr s \<longleftrightarrow> text_or_empty v = s"
  by (cases v) auto

lemma verify_from_ok:
  "p \<noteq> [] \<Longrightarrow> cv_ok (verify_from f p k rows) \<longleftrightarrow> chained sha256_hex p (map (row_link f) rows)"
proof (induction rows arbitrary: p k)
  case (Cons r rows)
  show ?case
    using Cons.IH [of "hash_payload (PStr p) (f r)" "Suc k"] Cons.prems
    by (auto simp: row_link_def Let_def broken_def hash_payload_str text_or_empty_eq)
qed (simp add: verified_def)

lemma verify_rows_ok: "cv_ok (verify_rows f rows) \<longleftrightarrow> chained sha256_hex GENESIS_HASH (map (row_link f) rows)"
  by (simp add: verify_rows_def verify_from_ok)

lemma verify_from_append:
  "verify_from f p k (xs @ ys) = (let v = verify_from f p k xs in
     if cv_ok v then verify_from f (tip_from p (map (row_link f) xs)) (k + length xs) ys else v)"
  if "p \<noteq> []"
  using that
proof (induction xs arbitrary: p k)
  case (Cons r xs)
  show ?case
    using Cons.IH [of "hash_payload (PStr p) (f r)" "Suc k"] Cons.prems
    by (auto simp: row_link_def Let_def broken_def hash_payload_str text_or_empty_eq)
qed (simp add: verified_def Let_def)

lemma verify_from_shape:
  "verify_from f p k rows = verified (k + length rows)
   \<or> (\<exists>i r. i < length rows \<and> verify_from f p k rows = broken (k + i + 1) (dict_get (rows ! i) ''id'') r)"
proof (induction rows arbitrary: p k)
  case (Cons x rows)
  have "(\<exists>r. verify_from f p k (x # rows) = broken (Suc k) (dict_get x ''id'') r)
    \<or> verify_from f p k (x # rows) = verify_from f (hash_payload (PStr p) (f x)) (Suc k) rows"
    by (cases "dict_get x ''prev_hash'' = PStr p";
        cases "dict_get x ''row_hash'' = PStr (hash_payload (PStr p) (f x))") auto
  then show ?case
  proof (elim disjE)
    assume "\<exists>r. verify_from f p k (x # rows) = broken (Suc k) (dict_get x ''id'') r"
    then show ?thesis by (metis Nat.add_0_right Suc_eq_plus1 length_greater_0_conv list.discI nth_Cons_0)
  next
    assume 2: "verify_from f p k (x # rows) = verify_from f (hash_payload (PStr p) (f x)) (Suc k) rows"
    from Cons.IH [of "hash_payload (PStr p) (f x)" "Suc k"] show ?thesis
    proof (elim disjE exE conjE)
      fix i r assume "i < length rows" "verify_from f (hash_payload (PStr p) (f x)) (Suc k) rows
        = broken (Suc k + i + 1) (dict_get (rows ! i) ''id'') r"
      then have "Suc i < length (x # rows) \<and> verify_from f p k (x # rows)
        = broken (k + Suc i + 1) (dict_get ((x # rows) ! Suc i) ''id'') r"
        using 2 by simp
      then show ?thesis by blast
    qed (use 2 in simp)
  qed
qed simp

lemma tip_of_chain:
  assumes "chained sha256_hex GENESIS_HASH (map (row_link f) rows)"
  shows "tip_of rows = tip_from GENESIS_HASH (map (row_link f) rows)"
proof (cases rows rule: rev_cases)
  case (snoc xs r)
  have "text_or_empty (dict_get r ''row_hash'') \<noteq> []"
    using assms by (auto simp: snoc row_link_def chained_append)
  then show ?thesis
    by (cases "dict_get r ''row_hash''") (auto simp: snoc tip_of_def tip_from_append row_link_def)
qed (simp add: tip_of_def)

subsection \<open>Chained records\<close>

text \<open>
  What the two record modules share: a payload is stored in the columns \<open>cols\<close> of the table \<open>t\<close>,
  behind the id and before the two hashes. \<open>_init\<close> is \<open>init_table\<close>; \<open>append_row\<close> reads the tip and
  \<open>insert_link\<close> inserts the row computed from it, and nothing but the caller's own
  sequence keeps another writer from inserting in between.
\<close>

definition payload_of :: "string list \<Rightarrow> pydict \<Rightarrow> pyval" where
  "payload_of cols row = PDict (map (\<lambda>c. (c, dict_get row c)) cols)"

definition init_table :: "store \<Rightarrow> string \<Rightarrow> store res" where
  "init_table db t = enforce_append_only (create_table db t) t"

definition link_row :: "string list \<Rightarrow> pydict \<Rightarrow> string \<Rightarrow> pydict" where
  "link_row cols payload prev = map (\<lambda>c. (c, dict_get payload c)) cols
     @ [(''prev_hash'', PStr prev), (''row_hash'', PStr (hash_payload (PStr prev) (PDict payload)))]"

definition insert_link :: "string list \<Rightarrow> pydict \<Rightarrow> string \<Rightarrow> sql_table \<Rightarrow> sql_table" where
  "insert_link cols payload prev tb = sql_insert (link_row cols payload prev) tb"

definition append_row :: "string \<Rightarrow> string list \<Rightarrow> store \<Rightarrow> pydict \<Rightarrow> (store \<times> int) res" where
  "append_row t cols db payload =
     rbind (init_table db t) (\<lambda>db1. rbind (chain_tip db1 t) (\<lambda>prev.
       case db1 t of None \<Rightarrow> Inl SqliteError
       | Some tb \<Rightarrow> (let tb' = insert_link cols payload prev tb in
           Inr (db1(t \<mapsto> tb'), tbl_last_id tb'))))"

definition table_rows :: "store \<Rightarrow> string \<Rightarrow> pydict list" where
  "table_rows db t = (case db t of None \<Rightarrow> [] | Some tb \<Rightarrow> tbl_rows tb)"

text \<open>A payload of a record: its keys are the columns, in order.\<close>

definition fits :: "string list \<Rightarrow> pydict \<Rightarrow> bool" where
  "fits cols payload \<longleftrightarrow> map fst payload = cols"

lemma fits_eq: "distinct cols \<Longrightarrow> fits cols payload \<Longrightarrow> map (\<lambda>c. (c, dict_get payload c)) cols = payload"
proof -
  assume "distinct cols" "fits cols payload"
  then have d: "distinct (map fst payload)" and c: "cols = map fst payload" by (auto simp: fits_def)
  have "dict_get payload (fst kv) = snd kv" if "kv \<in> set payload" for kv
  proof -
    have "map_of payload (fst kv) = Some (snd kv)"
      using map_of_is_SomeI [OF d, of "fst kv" "snd kv"] that by simp
    then show ?thesis by (simp add: dict_get_def)
  qed
  then show ?thesis unfolding c by (auto simp: comp_def intro: map_idI)
qed

lemma dict_get_Cons: "dict_get ((a, v) # d) k = (if a = k then v else dict_get d k)"
  by (simp add: dict_get_def)

lemma dict_get_append:
  "dict_get (d @ e) k = (if k \<in> fst ` set d then dict_get d k else dict_get e k)"
proof (cases "k \<in> fst ` set d")
  case True
  then obtain v where "map_of d k = Some v" by (metis map_of_eq_None_iff not_None_eq)
  then show ?thesis using True by (simp add: dict_get_def)
next
  case False
  then have "map_of d k = None" by (simp add: map_of_eq_None_iff)
  then show ?thesis using False by (simp add: dict_get_def map_add_def)
qed

lemma dict_get_map: "c \<in> set cols \<Longrightarrow> dict_get (map (\<lambda>c. (c, f c)) cols) c = f c"
  by (induction cols) (auto simp: dict_get_Cons)

locale chained_record =
  fixes t :: string and cols :: "string list"
  assumes safe: "safe_table_name t"
    and distinct_cols: "distinct cols"
    and no_meta: "set cols \<inter> {''id'', ''prev_hash'', ''row_hash''} = {}"
begin

lemma payload_of_new: "payload_of cols ((''id'', i) # link_row cols payload prev) = payload_of cols payload"
proof -
  have "dict_get ((''id'', i) # link_row cols payload prev) c = dict_get payload c" if "c \<in> set cols" for c
    using that no_meta by (auto simp: dict_get_Cons link_row_def dict_get_append dict_get_map image_image)
  then show ?thesis by (simp add: payload_of_def)
qed

lemma payload_of_fits: "fits cols payload \<Longrightarrow> payload_of cols payload = PDict payload"
  by (simp add: payload_of_def fits_eq distinct_cols)

lemma new_link:
  assumes "fits cols payload" "prev \<noteq> []"
  shows "row_link (payload_of cols) ((''id'', i) # link_row cols payload prev)
    = (prev, sha256_hex (link_text prev (canonical_json (PDict payload))), canonical_json (PDict payload))"
proof -
  have "''prev_hash'' \<notin> set cols" "''row_hash'' \<notin> set cols" using no_meta by auto
  then have "dict_get ((''id'', i) # link_row cols payload prev) ''prev_hash'' = PStr prev"
    "dict_get ((''id'', i) # link_row cols payload prev) ''row_hash''
       = PStr (hash_payload (PStr prev) (PDict payload))"
    by (auto simp: dict_get_Cons link_row_def dict_get_append image_image)
  then show ?thesis
    using assms by (simp add: row_link_def payload_of_new payload_of_fits hash_payload_str)
qed

lemma insert_verifies:
  assumes "fits cols payload" "prev \<noteq> []"
    and ok: "cv_ok (verify_rows (payload_of cols) (tbl_rows tb))"
  shows "verify_rows (payload_of cols) (tbl_rows (insert_link cols payload prev tb))
    = (if prev = tip_of (tbl_rows tb) then verified (Suc (length (tbl_rows tb)))
       else broken (Suc (length (tbl_rows tb))) (PInt (tbl_last_id tb + 1)) R_prev_hash)"
proof -
  define row where "row = (''id'', PInt (tbl_last_id tb + 1)) # link_row cols payload prev"
  let ?tip = "tip_from GENESIS_HASH (map (row_link (payload_of cols)) (tbl_rows tb))"
  have c: "chained sha256_hex GENESIS_HASH (map (row_link (payload_of cols)) (tbl_rows tb))"
    using ok by (simp add: verify_rows_ok)
  have tip: "tip_of (tbl_rows tb) = ?tip" by (rule tip_of_chain [OF c])
  have "length ?tip = 64" by (rule sha_chain.tip_len [OF c]) (simp add: GENESIS_HASH_def)
  then have nonempty: "?tip \<noteq> []" by fastforce
  have "''prev_hash'' \<notin> set cols" "''row_hash'' \<notin> set cols" using no_meta by auto
  then have get: "dict_get row ''prev_hash'' = PStr prev"
    "dict_get row ''row_hash'' = PStr (hash_payload (PStr prev) (PDict payload))"
    "dict_get row ''id'' = PInt (tbl_last_id tb + 1)"
    by (auto simp: row_def dict_get_Cons link_row_def dict_get_append image_image)
  have pay: "payload_of cols row = PDict payload"
    using assms(1) by (simp add: row_def payload_of_new payload_of_fits)
  have "verify_rows (payload_of cols) (tbl_rows tb @ [row])
    = verify_from (payload_of cols) ?tip (length (tbl_rows tb)) [row]"
    using ok by (simp add: verify_rows_def verify_from_append Let_def)
  also have "\<dots> = (if prev = ?tip then verified (Suc (length (tbl_rows tb)))
       else broken (Suc (length (tbl_rows tb))) (PInt (tbl_last_id tb + 1)) R_prev_hash)"
    using assms(1,2) get pay by (simp add: Let_def)
  finally show ?thesis by (simp add: insert_link_def sql_insert_def tip row_def)
qed

lemma init_eq:
  obtains tb where "init_table db t = Inr (db(t \<mapsto> tb))" "tbl_rows tb = table_rows db t"
    "tbl_no_update tb" "tbl_no_delete tb"
  using safe that [of "(case db t of None \<Rightarrow> empty_table | Some a \<Rightarrow> a)\<lparr>tbl_no_update := True, tbl_no_delete := True\<rparr>"]
  by (cases "db t") (simp_all add: init_table_def create_table_def enforce_append_only_def table_rows_def empty_table_def)

lemma init_again: "db t = Some tb \<Longrightarrow> tbl_no_update tb \<Longrightarrow> tbl_no_delete tb \<Longrightarrow> init_table db t = Inr db"
  using safe by (cases tb) (auto simp: init_table_def create_table_def enforce_append_only_def fun_eq_iff)

lemma append_total: "\<exists>db' i. append_row t cols db payload = Inr (db', i)"
  by (simp add: append_row_def init_table_def enforce_append_only_def create_table_def chain_tip_def safe
      Let_def split: option.split)

lemma append_cases:
  assumes "append_row t cols db payload = Inr (db', i)"
  obtains tb where "db' t = Some tb" "tbl_no_update tb" "tbl_no_delete tb" "tbl_last_id tb = i"
    "tbl_rows tb = table_rows db t @ [(''id'', PInt i) # link_row cols payload (tip_of (table_rows db t))]"
    "\<And>u. u \<noteq> t \<Longrightarrow> db' u = db u"
proof -
  define a where "a = (case db t of None \<Rightarrow> empty_table | Some a \<Rightarrow> a)"
  have rows: "tbl_rows a = table_rows db t"
    by (simp add: a_def table_rows_def empty_table_def split: option.split)
  let ?b = "insert_link cols payload (tip_of (table_rows db t)) (a\<lparr>tbl_no_update := True, tbl_no_delete := True\<rparr>)"
  have "append_row t cols db payload = Inr (db(t \<mapsto> ?b), tbl_last_id ?b)"
    by (cases "db t") (simp_all add: append_row_def init_table_def enforce_append_only_def create_table_def
      chain_tip_def Let_def safe a_def table_rows_def empty_table_def)
  then have eq: "db' = db(t \<mapsto> ?b)" "i = tbl_last_id ?b" using assms by simp_all
  show ?thesis
  proof (rule that [of ?b])
    show "db' t = Some ?b" unfolding eq(1) by simp
    show "tbl_no_update ?b" "tbl_no_delete ?b" by (simp_all add: insert_link_def sql_insert_def)
    show "tbl_last_id ?b = i" using eq(2) by (rule sym)
    show "tbl_rows ?b = table_rows db t @ [(''id'', PInt i) # link_row cols payload (tip_of (table_rows db t))]"
      unfolding eq(2) by (simp add: insert_link_def sql_insert_def rows)
    show "db' u = db u" if "u \<noteq> t" for u using that unfolding eq(1) by simp
  qed
qed

lemma append_verifies:
  assumes "append_row t cols db payload = Inr (db', i)" "fits cols payload"
    and ok: "cv_ok (verify_rows (payload_of cols) (table_rows db t))"
  shows "verify_table t (payload_of cols) (Some db') = verified (Suc (length (table_rows db t)))"
proof -
  obtain tb where tb: "db' t = Some tb"
    "tbl_rows tb = table_rows db t @ [(''id'', PInt i) # link_row cols payload (tip_of (table_rows db t))]"
    by (rule append_cases [OF assms(1)])
  let ?old = "\<lparr>tbl_rows = table_rows db t, tbl_last_id = i - 1, tbl_no_update = True, tbl_no_delete = True\<rparr>"
  have "verify_rows (payload_of cols) (tbl_rows (insert_link cols payload (tip_of (table_rows db t)) ?old))
      = verified (Suc (length (table_rows db t)))"
    using insert_verifies [OF assms(2), of "tip_of (table_rows db t)" ?old] ok by simp
  then show ?thesis
    using tb safe by (simp add: verify_table_def insert_link_def sql_insert_def)
qed

end

subsection \<open>Concurrent writers\<close>

text \<open>
  Several threads append to one table. Reading the tip and inserting the row are two statements:
  the implicit transaction of the connection begins with the INSERT, so other writers can run in
  between. A state is the table and, for every writer between its two statements, the tip it
  has read and the payload it is going to insert. In a serial schedule a writer reads only when
  no other writer is in between.
\<close>

type_synonym writers = "sql_table \<times> (nat \<rightharpoonup> string \<times> pydict)"

inductive write_step :: "string list \<Rightarrow> bool \<Rightarrow> writers \<Rightarrow> writers \<Rightarrow> bool" for cols serial where
  read_tip: "pend w = None \<Longrightarrow> fits cols payload \<Longrightarrow> (serial \<Longrightarrow> pend = Map.empty) \<Longrightarrow>
     write_step cols serial (tb, pend) (tb, pend(w \<mapsto> (tip_of (tbl_rows tb), payload)))"
| insert: "pend w = Some (prev, payload) \<Longrightarrow>
     write_step cols serial (tb, pend) (insert_link cols payload prev tb, pend(w := None))"

inductive_cases write_stepE: "write_step cols serial s s'"

definition writers_ok :: "string list \<Rightarrow> writers \<Rightarrow> bool" where
  "writers_ok cols s \<longleftrightarrow> cv_ok (verify_rows (payload_of cols) (tbl_rows (fst s)))
     \<and> (\<exists>w. dom (snd s) \<subseteq> {w})
     \<and> (\<forall>w prev payload. snd s w = Some (prev, payload) \<longrightarrow> prev = tip_of (tbl_rows (fst s)) \<and> fits cols payload)"

text \<open>Two writers that read the same tip.\<close>

definition raced :: "string list \<Rightarrow> pydict \<Rightarrow> pydict \<Rightarrow> sql_table \<Rightarrow> sql_table" where
  "raced cols p q tb = (let prev = tip_of (tbl_rows tb) in
     insert_link cols q prev (insert_link cols p prev tb))"

context chained_record
begin

lemma serial_step_ok:
  assumes "write_step cols True s s'" "writers_ok cols s"
  shows "writers_ok cols s'"
  using assms(1)
proof (cases rule: write_step.cases)
  case (read_tip pend w payload tb)
  then show ?thesis using assms(2) by (auto simp: writers_ok_def)
next
  case (insert pend w prev payload tb)
  then have h: "prev = tip_of (tbl_rows tb)" "fits cols payload" "cv_ok (verify_rows (payload_of cols) (tbl_rows tb))"
    using assms(2) by (auto simp: writers_ok_def)
  obtain u where "dom pend \<subseteq> {u}" using assms(2) insert(1) by (auto simp: writers_ok_def)
  moreover have "w \<in> dom pend" using insert(3) by blast
  ultimately have "dom pend \<subseteq> {w}" by blast
  then have "pend x = None" if "x \<noteq> w" for x using that by (metis domIff singletonD subsetD)
  then have "pend(w := None) = Map.empty" by (simp add: fun_eq_iff)
  then show ?thesis
    using insert_verifies [OF h(2) tip_of_nonempty h(3)] insert h(1)
    by (simp add: writers_ok_def verified_def)
qed

lemma serial_ok:
  assumes "(write_step cols True)\<^sup>*\<^sup>* s s'" "writers_ok cols s"
  shows "writers_ok cols s'"
  using assms by (induction rule: rtranclp_induct) (auto intro: serial_step_ok)

lemma raced_reachable:
  assumes "fits cols p" "fits cols q"
  shows "(write_step cols False)\<^sup>*\<^sup>* (tb, Map.empty) (raced cols p q tb, Map.empty)"
proof -
  let ?t = "tip_of (tbl_rows tb)"
  let ?p1 = "[0 \<mapsto> (?t, p)]" and ?p2 = "[0 \<mapsto> (?t, p), Suc 0 \<mapsto> (?t, q)]"
  have "write_step cols False (tb, Map.empty) (tb, ?p1)"
    by (rule read_tip) (use assms in auto)
  moreover have "write_step cols False (tb, ?p1) (tb, ?p2)"
    by (rule read_tip) (use assms in auto)
  moreover have "write_step cols False (tb, ?p2) (insert_link cols p ?t tb, ?p2(0 := None))"
    by (rule insert) simp
  moreover have "write_step cols False (insert_link cols p ?t tb, ?p2(0 := None))
      (raced cols p q tb, (?p2(0 := None))(Suc 0 := None))"
    unfolding raced_def Let_def by (rule insert) simp
  moreover have "(?p2(0 := None))(Suc 0 := None) = Map.empty" by auto
  ultimately show ?thesis by (metis (no_types, lifting) converse_rtranclp_into_rtranclp r_into_rtranclp)
qed

lemma raced_broken:
  assumes ok: "cv_ok (verify_rows (payload_of cols) (tbl_rows tb))" and fits: "fits cols p" "fits cols q"
  shows "verify_rows (payload_of cols) (tbl_rows (raced cols p q tb))
      = broken (length (tbl_rows tb) + 2) (PInt (tbl_last_id tb + 2)) R_prev_hash
    \<or> sha256_hex (link_text (tip_of (tbl_rows tb)) (canonical_json (PDict p))) = tip_of (tbl_rows tb)"
proof -
  let ?t = "tip_of (tbl_rows tb)" and ?tb1 = "insert_link cols p (tip_of (tbl_rows tb)) tb"
  have one: "verify_rows (payload_of cols) (tbl_rows ?tb1) = verified (Suc (length (tbl_rows tb)))"
    using insert_verifies [OF fits(1) tip_of_nonempty ok] by simp
  have meta: "''prev_hash'' \<notin> set cols" "''row_hash'' \<notin> set cols" using no_meta by auto
  have tip1: "tip_of (tbl_rows ?tb1) = sha256_hex (link_text ?t (canonical_json (PDict p)))"
    using meta by (auto simp: tip_of_def insert_link_def sql_insert_def dict_get_Cons link_row_def
        dict_get_append image_image hash_payload_str)
  have "tbl_last_id ?tb1 = tbl_last_id tb + 1" "length (tbl_rows ?tb1) = Suc (length (tbl_rows tb))"
    by (simp_all add: insert_link_def sql_insert_def)
  then show ?thesis
    using insert_verifies [OF fits(2) tip_of_nonempty, where tb = ?tb1] one tip1
      insert_verifies [OF fits(2), of ?t ?tb1]
    by (auto simp: raced_def Let_def verified_def add.commute)
qed

end

end
