(* ===== verification/InteractionLog.thy ===== *)
theory InteractionLog
  imports HashChain
begin

text \<open>
  The interaction log of interaction_log.py: what was published, to whom and when. The two kinds of
  events are payloads over the fourteen columns, appended to the chained table \<open>interactions\<close>. The
  clock is an argument.
\<close>

subsection \<open>Events\<close>

definition TABLE :: string where "TABLE = ''interactions''"

definition PAYLOAD_COLUMNS :: "string list" where
  "PAYLOAD_COLUMNS = [''created_at'', ''event'', ''kind'', ''thread_id'', ''user_id'', ''mode'', ''symbol'',
     ''timeframe'', ''profile'', ''model'', ''content'', ''status'', ''detail'', ''refusal_category'']"

definition EVENT_REQUEST :: string where "EVENT_REQUEST = ''request''"
definition EVENT_OUTCOME :: string where "EVENT_OUTCOME = ''outcome''"

definition MAX_CONTENT_CHARS :: nat where "MAX_CONTENT_CHARS = 100000"

definition cut_text :: "string \<Rightarrow> string" where
  "cut_text s = (if MAX_CONTENT_CHARS < length s
     then take MAX_CONTENT_CHARS s @ [char_of (10::nat)] @ ''[truncated ''
       @ int_text (int (length s - MAX_CONTENT_CHARS)) @ '' characters]''
     else s)"

definition text_field :: "pyval \<Rightarrow> pyval" where
  "text_field value = (if value = PNone then PNone
     else let s = py_str value in if py_strip s = [] then PNone else PStr (cut_text s))"

definition text_or_unknown :: "pyval \<Rightarrow> pyval" where
  "text_or_unknown value = (let s = text_field value in if py_truthy s then s else PStr ''unknown'')"

record event_args =
  ev_kind :: pyval
  ev_thread_id :: pyval
  ev_user_id :: pyval
  ev_content :: pyval
  ev_mode :: pyval
  ev_symbol :: pyval
  ev_timeframe :: pyval
  ev_profile :: pyval
  ev_model :: pyval
  ev_status :: pyval
  ev_detail :: pyval
  ev_refusal_category :: pyval

definition request_payload :: "pyfloat \<Rightarrow> event_args \<Rightarrow> pydict" where
  "request_payload now a =
    [(''created_at'', PFloat now), (''event'', PStr EVENT_REQUEST), (''kind'', text_or_unknown (ev_kind a)),
     (''thread_id'', text_field (ev_thread_id a)), (''user_id'', text_field (ev_user_id a)),
     (''mode'', text_field (ev_mode a)), (''symbol'', text_field (ev_symbol a)),
     (''timeframe'', text_field (ev_timeframe a)), (''profile'', text_field (ev_profile a)),
     (''model'', text_field (ev_model a)), (''content'', text_field (ev_content a)),
     (''status'', PNone), (''detail'', PNone), (''refusal_category'', PNone)]"

definition outcome_payload :: "pyfloat \<Rightarrow> event_args \<Rightarrow> pydict" where
  "outcome_payload now a =
    [(''created_at'', PFloat now), (''event'', PStr EVENT_OUTCOME), (''kind'', text_or_unknown (ev_kind a)),
     (''thread_id'', text_field (ev_thread_id a)), (''user_id'', text_field (ev_user_id a)),
     (''mode'', text_field (ev_mode a)), (''symbol'', PNone), (''timeframe'', PNone), (''profile'', PNone),
     (''model'', text_field (ev_model a)), (''content'', text_field (ev_content a)),
     (''status'', text_or_unknown (ev_status a)), (''detail'', text_field (ev_detail a)),
     (''refusal_category'', text_field (ev_refusal_category a))]"

subsection \<open>Operations\<close>

definition ensure_store :: "store \<Rightarrow> store res" where
  "ensure_store db = init_table db TABLE"

definition append :: "store \<Rightarrow> pydict \<Rightarrow> (store \<times> int) res" where
  "append db payload = append_row TABLE PAYLOAD_COLUMNS db payload"

definition record_request :: "pyfloat \<Rightarrow> event_args \<Rightarrow> store \<Rightarrow> (store \<times> int) res" where
  "record_request now a db = append db (request_payload now a)"

definition record_outcome :: "pyfloat \<Rightarrow> event_args \<Rightarrow> store \<Rightarrow> (store \<times> int) res" where
  "record_outcome now a db = append db (outcome_payload now a)"

definition verify_chain :: "store option \<Rightarrow> chain_verification" where
  "verify_chain db = verify_table TABLE (payload_of PAYLOAD_COLUMNS) db"

text \<open>The readers give nothing for a store that cannot be opened or has no table.\<close>

definition readable_rows :: "store option \<Rightarrow> pydict list" where
  "readable_rows db = (case db of None \<Rightarrow> [] | Some s \<Rightarrow> table_rows s TABLE)"

definition count_events :: "store option \<Rightarrow> int" where
  "count_events db = int (length (readable_rows db))"

definition for_thread :: "pyval \<Rightarrow> store option \<Rightarrow> pydict list" where
  "for_thread thread_id db =
     filter (\<lambda>r. dict_get r ''thread_id'' = PStr (py_str thread_id)) (readable_rows db)"

definition for_user :: "pyval \<Rightarrow> int \<Rightarrow> store option \<Rightarrow> pydict list" where
  "for_user user_id limit db = take (nat (max 0 limit))
     (rev (filter (\<lambda>r. dict_get r ''user_id'' = PStr (py_str user_id)) (readable_rows db)))"

definition latest :: "int \<Rightarrow> store option \<Rightarrow> pydict list" where
  "latest limit db = take (nat (max 0 limit)) (rev (readable_rows db))"

text \<open>A run of the service: events logged one after the other.\<close>

datatype event = E_request pyfloat event_args | E_outcome pyfloat event_args

fun log_event :: "store \<Rightarrow> event \<Rightarrow> store res" where
  "log_event db (E_request now a) = rbind (record_request now a db) (\<lambda>(db', i). Inr db')"
| "log_event db (E_outcome now a) = rbind (record_outcome now a db) (\<lambda>(db', i). Inr db')"

fun event_payload :: "event \<Rightarrow> pydict" where
  "event_payload (E_request now a) = request_payload now a"
| "event_payload (E_outcome now a) = outcome_payload now a"

interpretation ilog: chained_record TABLE PAYLOAD_COLUMNS
  by unfold_locales (simp_all add: TABLE_def PAYLOAD_COLUMNS_def safe_table_name_def Let_def is_alnum_def is_digit_def)

lemma event_fits [simp]: "fits PAYLOAD_COLUMNS (event_payload e)"
  "fits PAYLOAD_COLUMNS (request_payload now a)" "fits PAYLOAD_COLUMNS (outcome_payload now a)"
  by (cases e) (simp_all add: fits_def request_payload_def outcome_payload_def PAYLOAD_COLUMNS_def)

lemma log_event_eq: "log_event db e = rbind (append db (event_payload e)) (\<lambda>(db', i). Inr db')"
  by (cases e) (simp_all add: record_request_def record_outcome_def)

end
