(* ===== verification/InteractionLogFacts.thy ===== *)
theory InteractionLogFacts
  imports InteractionLog "HOL-Library.Sublist"
begin

text \<open>
  What the hash chain and the interaction log promise: verification finds the first broken row,
  a verified table is determined by its tip up to a SHA-256 collision, the triggers make the tables
  append-only, logged events verify and are all found again; and the two gaps: a truncated table
  still verifies, and so do not two rows appended by writers that read the same tip.
\<close>

subsection \<open>Verification\<close>

text \<open>Verification of any rows either accepts all of them or names the first row that does not
  reconcile: the rows before it verify, and the rows up to and including it do not.\<close>

theorem verification_locates_first_break:
  "verify_rows f rows = verified (length rows)
   \<or> (\<exists>i r. i < length rows \<and> verify_rows f rows = broken (i + 1) (dict_get (rows ! i) ''id'') r
        \<and> verify_rows f (take i rows) = verified i \<and> cv_ok (verify_rows f (take (i + 1) rows)) = False)"
proof (cases "cv_ok (verify_rows f rows)")
  case True
  then show ?thesis
    using verify_from_shape [of f GENESIS_HASH 0 rows] by (auto simp: verify_rows_def broken_def)
next
  case False
  then obtain i r where i: "i < length rows" and
      v: "verify_rows f rows = broken (i + 1) (dict_get (rows ! i) ''id'') r"
    using verify_from_shape [of f GENESIS_HASH 0 rows] by (auto simp: verify_rows_def verified_def)
  have split: "verify_rows f rows = (if cv_ok (verify_rows f (take k rows))
      then verify_from f (tip_from GENESIS_HASH (map (row_link f) (take k rows))) k (drop k rows)
      else verify_rows f (take k rows))" if "k \<le> length rows" for k
    using verify_from_append [of GENESIS_HASH f 0 "take k rows" "drop k rows"] that
    by (simp add: verify_rows_def Let_def min_absorb2)
  have seen: "cv_rows (verify_from f p k xs) \<le> k + length xs \<and> (cv_ok (verify_from f p k xs) \<or>
      k < cv_rows (verify_from f p k xs))" for p k xs
    using verify_from_shape [of f p k xs] by (auto simp: verified_def broken_def)
  have "cv_ok (verify_rows f (take i rows))"
  proof (rule ccontr)
    assume "\<not> ?thesis"
    then have "cv_rows (verify_rows f rows) \<le> i"
      using split [of i] seen [of GENESIS_HASH 0 "take i rows"] i by (simp add: verify_rows_def min_absorb2)
    then show False using v by (simp add: broken_def)
  qed
  then have "verify_rows f (take i rows) = verified i"
    using verify_from_shape [of f GENESIS_HASH 0 "take i rows"] i
    by (auto simp: verify_rows_def broken_def min_absorb2)
  moreover have "\<not> cv_ok (verify_rows f (take (i + 1) rows))"
  proof
    assume "cv_ok (verify_rows f (take (i + 1) rows))"
    then have "verify_rows f rows = verify_from f
        (tip_from GENESIS_HASH (map (row_link f) (take (i + 1) rows))) (i + 1) (drop (i + 1) rows)"
      using split [of "i + 1"] i by simp
    then have "i + 1 < cv_rows (verify_rows f rows)" using False seen by metis
    then show False using v by (simp add: broken_def)
  qed
  ultimately show ?thesis using i v by blast
qed

text \<open>C33: A verified table is determined by the hash of its last row: two tables that verify and end
  in the same hash hold the same canonical payload texts in the same order, unless two different
  texts hashed by the two chains collide under SHA-256, or one hashes to the genesis value. So an
  edited, inserted, removed or reordered row shows in a tip kept elsewhere.\<close>

theorem verified_table_determined_by_tip:
  assumes "cv_ok (verify_rows f rows)" and "cv_ok (verify_rows f rows')" and "tip_of rows = tip_of rows'"
  shows "map (\<lambda>r. canonical_json (f r)) rows = map (\<lambda>r. canonical_json (f r)) rows'
    \<or> collision sha256_hex (hashed_texts (map (row_link f) rows)) (hashed_texts (map (row_link f) rows'))
    \<or> (\<exists>m \<in> hashed_texts (map (row_link f) rows) \<union> hashed_texts (map (row_link f) rows').
         sha256_hex m = GENESIS_HASH)"
proof -
  have c: "chained sha256_hex GENESIS_HASH (map (row_link f) rows)"
    "chained sha256_hex GENESIS_HASH (map (row_link f) rows')"
    using assms by (simp_all add: verify_rows_ok)
  have b: "bodies (map (row_link f) rs) = map (\<lambda>r. canonical_json (f r)) rs" for rs
    by (simp add: bodies_def row_link_def comp_def)
  show ?thesis
    using sha_chain.same_tip [OF c] assms(3) unfolding tip_of_chain [OF c(1)] tip_of_chain [OF c(2)] b
    by blast
qed

lemma verify_rows_full: "cv_ok (verify_rows f rows) \<Longrightarrow> verify_rows f rows = verified (length rows)"
  using verify_from_shape [of f GENESIS_HASH 0 rows] by (auto simp: verify_rows_def broken_def)

text \<open>Removing the last rows is not detected: every initial part of a verified table verifies.\<close>

theorem truncated_table_verifies:
  assumes "cv_ok (verify_rows f rows)"
  shows "verify_rows f (take n rows) = verified (min n (length rows))"
proof -
  have "cv_ok (verify_rows f (take n rows))"
    using assms chained_append [of _ _ "map (row_link f) (take n rows)" "map (row_link f) (drop n rows)"]
    by (simp add: verify_rows_ok flip: map_append)
  then show ?thesis by (simp add: verify_rows_full min.commute)
qed

subsection \<open>The append-only triggers\<close>

fun is_replace :: "sql_stmt \<Rightarrow> bool" where
  "is_replace (S_replace i vals) = True"
| "is_replace _ = False"

lemma guarded_exec:
  assumes "tbl_no_update tb" "tbl_no_delete tb" "\<not> is_replace s" "sql_exec s tb = Inr tb'"
  shows "tbl_no_update tb' \<and> tbl_no_delete tb' \<and> prefix (tbl_rows tb) (tbl_rows tb')"
  using assms
proof (cases s)
  case (S_update p f)
  then have "map (\<lambda>r. if p r then f r else r) (tbl_rows tb) = tbl_rows tb"
    using assms by (intro map_idI) (auto simp: list_ex_iff split: if_splits)
  then show ?thesis using assms S_update by (auto split: if_splits)
next
  case (S_delete p)
  then have "filter (\<lambda>r. \<not> p r) (tbl_rows tb) = tbl_rows tb"
    using assms by (intro filter_True) (auto simp: list_ex_iff split: if_splits)
  then show ?thesis using assms S_delete by (auto split: if_splits)
qed (auto simp: sql_insert_def)

lemma guarded_run:
  assumes "tbl_no_update tb" "tbl_no_delete tb" "list_all (\<lambda>s. \<not> is_replace s) ss"
  shows "prefix (tbl_rows tb) (tbl_rows (sql_run ss tb))"
  using assms
proof (induction ss arbitrary: tb)
  case (Cons s ss)
  show ?case
  proof (cases "sql_exec s tb")
    case (Inr tb')
    then have "tbl_no_update tb' \<and> tbl_no_delete tb' \<and> prefix (tbl_rows tb) (tbl_rows tb')"
      using Cons.prems guarded_exec [of tb s tb'] by simp
    then show ?thesis
      using Cons.IH [of tb'] Cons.prems(3) Inr prefix_order.order_trans by fastforce
  qed (use Cons in simp)
qed simp

text \<open>Once the triggers are installed, no sequence of INSERT, UPDATE and DELETE statements changes
  or removes a row that is in the table: the rows stay an initial part of it.\<close>

theorem triggers_make_append_only:
  assumes "enforce_append_only db t = Inr db'" and "db' t = Some tb"
    and "list_all (\<lambda>s. \<not> is_replace s) ss"
  shows "prefix (table_rows db t) (tbl_rows (sql_run ss tb))"
proof -
  have "tbl_no_update tb" "tbl_no_delete tb" "tbl_rows tb = table_rows db t"
    using assms(1,2) by (auto simp: enforce_append_only_def table_rows_def split: if_splits option.splits)
  then show ?thesis using guarded_run [of tb ss] assms(3) by simp
qed

subsection \<open>The interaction log\<close>

lemma log_events:
  assumes "db TABLE = Some tb" "cv_ok (verify_rows (payload_of PAYLOAD_COLUMNS) (tbl_rows tb))"
  shows "\<exists>db' tb'. rfold log_event db es = Inr db' \<and> db' TABLE = Some tb'
    \<and> cv_ok (verify_rows (payload_of PAYLOAD_COLUMNS) (tbl_rows tb'))
    \<and> map (payload_of PAYLOAD_COLUMNS) (tbl_rows tb')
        = map (payload_of PAYLOAD_COLUMNS) (tbl_rows tb) @ map (\<lambda>e. PDict (event_payload e)) es"
  using assms
proof (induction es arbitrary: db tb)
  case (Cons e es)
  obtain db1 i where app: "append_row TABLE PAYLOAD_COLUMNS db (event_payload e) = Inr (db1, i)"
    using ilog.append_total by blast
  then obtain tb1 where tb1: "db1 TABLE = Some tb1" "tbl_rows tb1 = table_rows db TABLE
      @ [(''id'', PInt i) # link_row PAYLOAD_COLUMNS (event_payload e) (tip_of (table_rows db TABLE))]"
    by (rule ilog.append_cases)
  have rows: "table_rows db TABLE = tbl_rows tb" using Cons.prems(1) by (simp add: table_rows_def)
  have "cv_ok (verify_rows (payload_of PAYLOAD_COLUMNS) (tbl_rows tb1))"
    using ilog.append_verifies [OF app] Cons.prems(2) tb1(1) ilog.safe
    by (simp add: rows verify_table_def verified_def)
  from Cons.IH [of db1 tb1, OF tb1(1) this] show ?case
    using app by (auto simp: log_event_eq append_def tb1(2) rows ilog.payload_of_new ilog.payload_of_fits)
qed simp

text \<open>Every sequence of logged events is stored completely: starting from a new store all writes
  succeed, the chain verifies with one row per event, and the rows hold the payloads of the events
  in the order they were logged.\<close>

theorem logged_events_verify:
  "\<exists>db0 db. ensure_store Map.empty = Inr db0 \<and> rfold log_event db0 es = Inr db
     \<and> verify_chain (Some db) = verified (length es) \<and> count_events (Some db) = int (length es)
     \<and> map (payload_of PAYLOAD_COLUMNS) (table_rows db TABLE) = map (\<lambda>e. PDict (event_payload e)) es"
proof -
  obtain db0 tb0 where db0: "ensure_store Map.empty = Inr db0" "db0 TABLE = Some tb0" "tbl_rows tb0 = []"
    using ilog.safe by (simp add: ensure_store_def init_table_def create_table_def enforce_append_only_def
        empty_table_def)
  obtain db tb where r: "rfold log_event db0 es = Inr db" "db TABLE = Some tb"
    "cv_ok (verify_rows (payload_of PAYLOAD_COLUMNS) (tbl_rows tb))"
    "map (payload_of PAYLOAD_COLUMNS) (tbl_rows tb) = map (\<lambda>e. PDict (event_payload e)) es"
    using log_events [of db0 tb0 es, OF db0(2)] db0(3) by (auto simp: verify_rows_def verified_def)
  have len: "length (tbl_rows tb) = length es" using arg_cong [OF r(4), of length] by simp
  have "verify_rows (payload_of PAYLOAD_COLUMNS) (tbl_rows tb) = verified (length es)"
    using verify_rows_full [OF r(3)] len by simp
  then show ?thesis
    using db0 r len ilog.safe
    by (auto simp: verify_chain_def verify_table_def count_events_def readable_rows_def table_rows_def)
qed

text \<open>Writers that append one after the other keep the chain intact: in every state that serial
  schedules reach from a verified table, the table verifies.\<close>

theorem serial_writers_verify:
  assumes "(write_step PAYLOAD_COLUMNS True)\<^sup>*\<^sup>* (tb, Map.empty) s"
    and "cv_ok (verify_rows (payload_of PAYLOAD_COLUMNS) (tbl_rows tb))"
  shows "verify_rows (payload_of PAYLOAD_COLUMNS) (tbl_rows (fst s)) = verified (length (tbl_rows (fst s)))"
proof -
  have "writers_ok PAYLOAD_COLUMNS s"
    by (rule ilog.serial_ok [OF assms(1)]) (use assms(2) in \<open>simp add: writers_ok_def\<close>)
  then show ?thesis by (simp add: writers_ok_def verify_rows_full)
qed

text \<open>Two appends that interleave break the chain without any tampering: from every verified table
  and for any two events, the writers can reach a table in which verification reports the second new
  row as out of order (or the first new row hashes to the tip it was linked to).\<close>

theorem interleaved_appends_break_chain:
  assumes "cv_ok (verify_rows (payload_of PAYLOAD_COLUMNS) (tbl_rows tb))"
  shows "\<exists>tb'. (write_step PAYLOAD_COLUMNS False)\<^sup>*\<^sup>* (tb, Map.empty) (tb', Map.empty)
    \<and> (verify_rows (payload_of PAYLOAD_COLUMNS) (tbl_rows tb')
         = broken (length (tbl_rows tb) + 2) (PInt (tbl_last_id tb + 2)) R_prev_hash
       \<or> sha256_hex (link_text (tip_of (tbl_rows tb)) (canonical_json (PDict (event_payload e1))))
         = tip_of (tbl_rows tb))
    \<and> map (payload_of PAYLOAD_COLUMNS) (tbl_rows tb') = map (payload_of PAYLOAD_COLUMNS) (tbl_rows tb)
         @ [PDict (event_payload e1), PDict (event_payload e2)]"
proof (intro exI conjI)
  let ?tb' = "raced PAYLOAD_COLUMNS (event_payload e1) (event_payload e2) tb"
  show "(write_step PAYLOAD_COLUMNS False)\<^sup>*\<^sup>* (tb, Map.empty) (?tb', Map.empty)"
    by (rule ilog.raced_reachable) simp_all
  show "verify_rows (payload_of PAYLOAD_COLUMNS) (tbl_rows ?tb')
         = broken (length (tbl_rows tb) + 2) (PInt (tbl_last_id tb + 2)) R_prev_hash
       \<or> sha256_hex (link_text (tip_of (tbl_rows tb)) (canonical_json (PDict (event_payload e1))))
         = tip_of (tbl_rows tb)"
    by (rule ilog.raced_broken [OF assms]) simp_all
  show "map (payload_of PAYLOAD_COLUMNS) (tbl_rows ?tb') = map (payload_of PAYLOAD_COLUMNS) (tbl_rows tb)
         @ [PDict (event_payload e1), PDict (event_payload e2)]"
    by (simp add: raced_def Let_def insert_link_def sql_insert_def ilog.payload_of_new ilog.payload_of_fits)
qed

text \<open>A logged request is found again: recording it always succeeds, and the newest row is then
  that row, with the id returned and the payload of the request.\<close>

theorem recorded_request_is_latest:
  "\<exists>db' i row. record_request now a db = Inr (db', i) \<and> latest 1 (Some db') = [row]
     \<and> dict_get row ''id'' = PInt i \<and> payload_of PAYLOAD_COLUMNS row = PDict (request_payload now a)
     \<and> count_events (Some db') = count_events (Some db) + 1"
proof -
  obtain db' i where app: "append_row TABLE PAYLOAD_COLUMNS db (request_payload now a) = Inr (db', i)"
    using ilog.append_total by blast
  then obtain tb where tb: "db' TABLE = Some tb" "tbl_rows tb = table_rows db TABLE
      @ [(''id'', PInt i) # link_row PAYLOAD_COLUMNS (request_payload now a) (tip_of (table_rows db TABLE))]"
    by (rule ilog.append_cases)
  then show ?thesis
    using app by (simp add: record_request_def append_def latest_def count_events_def readable_rows_def
        table_rows_def dict_get_Cons ilog.payload_of_new ilog.payload_of_fits)
qed

subsection \<open>Witnesses\<close>

definition demo_event :: event_args where
  "demo_event = \<lparr>ev_kind = PStr ''qa'', ev_thread_id = PStr ''t1'', ev_user_id = PStr ''u1'',
     ev_content = PStr ''why this stop?'', ev_mode = PNone, ev_symbol = PStr ''INFY'', ev_timeframe = PNone,
     ev_profile = PNone, ev_model = PNone, ev_status = PNone, ev_detail = PNone, ev_refusal_category = PNone\<rparr>"

definition demo_table :: sql_table where
  "demo_table = insert_link PAYLOAD_COLUMNS (request_payload (Fin 1000) demo_event) GENESIS_HASH empty_table"

lemma demo_table_ok: "verify_rows (payload_of PAYLOAD_COLUMNS) (tbl_rows demo_table) = verified 1"
  unfolding demo_table_def
  using ilog.insert_verifies [of "request_payload (Fin 1000) demo_event" GENESIS_HASH empty_table]
  by (simp add: empty_table_def verify_rows_def verified_def tip_of_def)

lemma verified_table_determined_by_tip_witness:
  "canonical_json (payload_of PAYLOAD_COLUMNS (last (tbl_rows demo_table)))
     \<in> set (map (\<lambda>r. canonical_json (payload_of PAYLOAD_COLUMNS r)) (tbl_rows demo_table))
   \<and> (map (\<lambda>r. canonical_json (payload_of PAYLOAD_COLUMNS r)) (tbl_rows demo_table)
        = map (\<lambda>r. canonical_json (payload_of PAYLOAD_COLUMNS r)) (tbl_rows demo_table)
      \<or> collision sha256_hex (hashed_texts (map (row_link (payload_of PAYLOAD_COLUMNS)) (tbl_rows demo_table)))
          (hashed_texts (map (row_link (payload_of PAYLOAD_COLUMNS)) (tbl_rows demo_table)))
      \<or> (\<exists>m \<in> hashed_texts (map (row_link (payload_of PAYLOAD_COLUMNS)) (tbl_rows demo_table))
              \<union> hashed_texts (map (row_link (payload_of PAYLOAD_COLUMNS)) (tbl_rows demo_table)).
           sha256_hex m = GENESIS_HASH))"
proof
  show "canonical_json (payload_of PAYLOAD_COLUMNS (last (tbl_rows demo_table)))
     \<in> set (map (\<lambda>r. canonical_json (payload_of PAYLOAD_COLUMNS r)) (tbl_rows demo_table))"
    by (simp add: demo_table_def insert_link_def sql_insert_def empty_table_def)
qed (rule verified_table_determined_by_tip, simp_all add: demo_table_ok verified_def)

lemma truncated_table_verifies_witness:
  "verify_rows (payload_of PAYLOAD_COLUMNS) (take 0 (tbl_rows demo_table)) = verified 0"
  using truncated_table_verifies [of "payload_of PAYLOAD_COLUMNS" "tbl_rows demo_table" 0] demo_table_ok
  by (simp add: verified_def)

lemma triggers_make_append_only_witness:
  "prefix (tbl_rows demo_table) (tbl_rows (sql_run [S_delete (\<lambda>r. True), S_update (\<lambda>r. True) (\<lambda>r. [])]
     (demo_table\<lparr>tbl_no_update := True, tbl_no_delete := True\<rparr>)))"
  using triggers_make_append_only [of "[TABLE \<mapsto> demo_table]" TABLE
      "[TABLE \<mapsto> demo_table\<lparr>tbl_no_update := True, tbl_no_delete := True\<rparr>]"
      "demo_table\<lparr>tbl_no_update := True, tbl_no_delete := True\<rparr>"
      "[S_delete (\<lambda>r. True), S_update (\<lambda>r. True) (\<lambda>r. [])]"] ilog.safe
  by (simp add: enforce_append_only_def table_rows_def)

lemma serial_writers_verify_witness:
  "verify_rows (payload_of PAYLOAD_COLUMNS) (tbl_rows demo_table) = verified 1"
proof -
  have "(write_step PAYLOAD_COLUMNS True)\<^sup>*\<^sup>* (empty_table, Map.empty) (demo_table, [0 \<mapsto> (GENESIS_HASH, request_payload (Fin 1000) demo_event)](0 := None))"
  proof (rule converse_rtranclp_into_rtranclp [OF _ r_into_rtranclp])
    have "tip_of (tbl_rows empty_table) = GENESIS_HASH" by (simp add: tip_of_def empty_table_def)
    then show "write_step PAYLOAD_COLUMNS True (empty_table, Map.empty)
        (empty_table, [0 \<mapsto> (GENESIS_HASH, request_payload (Fin 1000) demo_event)])"
      using write_step.read_tip [of Map.empty 0 PAYLOAD_COLUMNS "request_payload (Fin 1000) demo_event" True empty_table]
      by simp
    show "write_step PAYLOAD_COLUMNS True (empty_table, [0 \<mapsto> (GENESIS_HASH, request_payload (Fin 1000) demo_event)])
        (demo_table, [0 \<mapsto> (GENESIS_HASH, request_payload (Fin 1000) demo_event)](0 := None))"
      unfolding demo_table_def by (rule write_step.insert) simp
  qed
  from serial_writers_verify [OF this] show ?thesis
    by (simp add: empty_table_def verify_rows_def verified_def demo_table_def insert_link_def sql_insert_def)
qed

lemma interleaved_appends_break_chain_witness:
  "\<exists>tb'. (write_step PAYLOAD_COLUMNS False)\<^sup>*\<^sup>* (empty_table, Map.empty) (tb', Map.empty)
    \<and> (verify_rows (payload_of PAYLOAD_COLUMNS) (tbl_rows tb') = broken 2 (PInt 2) R_prev_hash
       \<or> sha256_hex (link_text GENESIS_HASH (canonical_json (PDict (event_payload (E_request (Fin 1000) demo_event)))))
         = GENESIS_HASH)"
  using interleaved_appends_break_chain [of empty_table "E_request (Fin 1000) demo_event" "E_request (Fin 1001) demo_event"]
  by (force simp: empty_table_def verify_rows_def verified_def tip_of_def numeral_2_eq_2)

end
