(* ===== verification/RecoStore.thy ===== *)
theory RecoStore
  imports HashChain EnvConfig
begin

text \<open>
  The recommendation store of reco_store.py: one chained row per published recommendation, at most one
  per LangGraph thread. \<open>record_begin\<close> is what \<open>record\<close> does up to the INSERT, \<open>record_insert\<close> the
  INSERT with the partial UNIQUE index on \<open>thread_id\<close> and its recovery; the store between the two may
  have been extended by other writers. Arguments the code stores as they come are optional texts,
  as annotated; the others are any values.
\<close>

subsection \<open>Coercions\<close>

fun finite_or_none :: "pyval \<Rightarrow> pyval res" where
  "finite_or_none (PInt n) = rbind (float_of_int n) (\<lambda>f. Inr (PFloat f))"
| "finite_or_none (PFloat f) = Inr (if isfinite f then PFloat f else PNone)"
| "finite_or_none _ = Inr PNone"

text \<open>\<open>int(inf)\<close> is an \<open>OverflowError\<close>, which the handler does not catch.\<close>

fun int_or_none :: "pyval \<Rightarrow> pyval res" where
  "int_or_none (PInt n) = Inr (PInt n)"
| "int_or_none (PFloat f) = (case int_of_float f of
     Inr n \<Rightarrow> Inr (PInt n) | Inl OverflowError \<Rightarrow> Inl OverflowError | Inl _ \<Rightarrow> Inr PNone)"
| "int_or_none (PStr s) = Inr (case parse_int s of Some n \<Rightarrow> PInt n | None \<Rightarrow> PNone)"
| "int_or_none _ = Inr PNone"

definition stripped_or_none :: "string option \<Rightarrow> pyval" where
  "stripped_or_none v = (case v of None \<Rightarrow> PNone
     | Some s \<Rightarrow> if py_strip s \<noteq> [] then PStr (py_strip s) else PNone)"

definition analyst_of_record :: "env \<Rightarrow> pyval" where
  "analyst_of_record env = stripped_or_none (env ''ANALYST_OF_RECORD'')"

subsection \<open>The table\<close>

definition TABLE :: string where "TABLE = ''recommendations''"

definition PAYLOAD_COLUMNS :: "string list" where
  "PAYLOAD_COLUMNS = [''created_at'', ''thread_id'', ''user_id'', ''symbol'', ''timeframe'', ''mode'', ''profile'',
     ''action'', ''entry'', ''stop_loss'', ''take_profit'', ''horizon'', ''conviction'', ''risk_reward'',
     ''rationale_json'', ''tool_inputs_json'', ''model_id'', ''prompt_hash'', ''prompt_set_hash'',
     ''analyst_of_record'']"

record reco_args =
  ra_action :: pyval
  ra_thread_id :: pyval
  ra_user_id :: pyval
  ra_symbol :: "string option"
  ra_timeframe :: "string option"
  ra_mode :: "string option"
  ra_profile :: "string option"
  ra_entry :: pyval
  ra_stop_loss :: pyval
  ra_take_profit :: pyval
  ra_horizon :: "string option"
  ra_conviction :: pyval
  ra_risk_reward :: pyval
  ra_rationale :: pyval
  ra_tool_inputs :: pyval
  ra_model_id :: "string option"
  ra_prompt_hash :: "string option"
  ra_prompt_set_hash :: "string option"

definition opt_str :: "string option \<Rightarrow> pyval" where
  "opt_str v = (case v of None \<Rightarrow> PNone | Some s \<Rightarrow> PStr s)"

definition thread_key :: "pyval \<Rightarrow> pyval" where
  "thread_key v = (case v of PStr s \<Rightarrow> stripped_or_none (Some s) | _ \<Rightarrow> PNone)"

definition user_or_none :: "pyval \<Rightarrow> pyval" where
  "user_or_none v = (case v of PStr s \<Rightarrow> if py_strip s \<noteq> [] then PStr s else PNone | _ \<Rightarrow> PNone)"

definition json_or_none :: "pyval \<Rightarrow> pyval" where
  "json_or_none v = (if v = PNone then PNone else PStr (canonical_json v))"

definition action_text :: "pyval \<Rightarrow> pyval" where
  "action_text v = PStr (py_upper (py_str (if py_truthy v then v else PStr ''HOLD'')))"

definition reco_payload :: "env \<Rightarrow> pyfloat \<Rightarrow> reco_args \<Rightarrow> pydict res" where
  "reco_payload env now a =
     rbind (finite_or_none (ra_entry a)) (\<lambda>entry.
     rbind (finite_or_none (ra_stop_loss a)) (\<lambda>stop.
     rbind (finite_or_none (ra_take_profit a)) (\<lambda>target.
     rbind (int_or_none (ra_conviction a)) (\<lambda>conviction.
     rbind (finite_or_none (ra_risk_reward a)) (\<lambda>rr.
     Inr [(''created_at'', PFloat now), (''thread_id'', thread_key (ra_thread_id a)),
          (''user_id'', user_or_none (ra_user_id a)), (''symbol'', opt_str (ra_symbol a)),
          (''timeframe'', opt_str (ra_timeframe a)), (''mode'', opt_str (ra_mode a)),
          (''profile'', opt_str (ra_profile a)), (''action'', action_text (ra_action a)),
          (''entry'', entry), (''stop_loss'', stop), (''take_profit'', target),
          (''horizon'', opt_str (ra_horizon a)), (''conviction'', conviction), (''risk_reward'', rr),
          (''rationale_json'', json_or_none (ra_rationale a)),
          (''tool_inputs_json'', json_or_none (ra_tool_inputs a)),
          (''model_id'', opt_str (ra_model_id a)), (''prompt_hash'', opt_str (ra_prompt_hash a)),
          (''prompt_set_hash'', opt_str (ra_prompt_set_hash a)),
          (''analyst_of_record'', analyst_of_record env)])))))"

text \<open>\<open>SELECT id ... WHERE thread_id=? ORDER BY id ASC LIMIT 1\<close>\<close>

definition existing_row :: "pyval \<Rightarrow> pydict list \<Rightarrow> pyval option" where
  "existing_row tid rows = map_option (\<lambda>r. dict_get r ''id'') (find (\<lambda>r. dict_get r ''thread_id'' = tid) rows)"

text \<open>What the INSERT binds must fit SQLite's 64-bit integers.\<close>

definition int64_ok :: "pyval \<Rightarrow> bool" where
  "int64_ok v = (case v of PInt n \<Rightarrow> - (2 ^ 63) \<le> n \<and> n < 2 ^ 63 | _ \<Rightarrow> True)"

text \<open>Up to the INSERT: the id of the thread's row, or the payload and the tip it is linked to.\<close>

definition record_begin :: "env \<Rightarrow> pyfloat \<Rightarrow> reco_args \<Rightarrow> store \<Rightarrow> (store \<times> (pyval + pydict \<times> string)) res" where
  "record_begin env now a db =
     rbind (init_table db TABLE) (\<lambda>db1.
       let tid = thread_key (ra_thread_id a) in
       case (if tid = PNone then None else existing_row tid (table_rows db1 TABLE)) of
         Some i \<Rightarrow> Inr (db1, Inl i)
       | None \<Rightarrow> rbind (reco_payload env now a) (\<lambda>payload.
           rbind (chain_tip db1 TABLE) (\<lambda>prev. Inr (db1, Inr (payload, prev)))))"

definition record_insert :: "pydict \<Rightarrow> string \<Rightarrow> store \<Rightarrow> (store \<times> pyval) res" where
  "record_insert payload prev db = (case db TABLE of None \<Rightarrow> Inl SqliteError
     | Some tb \<Rightarrow>
       if \<not> int64_ok (dict_get payload ''conviction'') then Inl OverflowError
       else let tid = dict_get payload ''thread_id'' in
         case (if tid = PNone then None else existing_row tid (tbl_rows tb)) of
           Some i \<Rightarrow> Inr (db, i)
         | None \<Rightarrow> (let tb' = insert_link PAYLOAD_COLUMNS payload prev tb in
             Inr (db(TABLE \<mapsto> tb'), PInt (tbl_last_id tb'))))"

definition record_reco :: "env \<Rightarrow> pyfloat \<Rightarrow> reco_args \<Rightarrow> store \<Rightarrow> (store \<times> pyval) res" where
  "record_reco env now a db = rbind (record_begin env now a db) (\<lambda>(db1, r). case r of
     Inl i \<Rightarrow> Inr (db1, i) | Inr (payload, prev) \<Rightarrow> record_insert payload prev db1)"

definition ensure_store :: "store \<Rightarrow> store res" where
  "ensure_store db = init_table db TABLE"

definition verify_chain :: "store option \<Rightarrow> chain_verification" where
  "verify_chain db = verify_table TABLE (payload_of PAYLOAD_COLUMNS) db"

definition count_recos :: "store option \<Rightarrow> int" where
  "count_recos db = (case db of None \<Rightarrow> 0 | Some s \<Rightarrow> int (length (table_rows s TABLE)))"

definition latest_recos :: "int \<Rightarrow> store option \<Rightarrow> pydict list" where
  "latest_recos limit db = (case db of None \<Rightarrow> []
     | Some s \<Rightarrow> take (nat (max 0 limit)) (rev (table_rows s TABLE)))"

interpretation rlog: chained_record TABLE PAYLOAD_COLUMNS
  by unfold_locales (simp_all add: TABLE_def PAYLOAD_COLUMNS_def safe_table_name_def Let_def is_alnum_def is_digit_def)

subsection \<open>One recommendation per thread\<close>

text \<open>The table verifies, its ids are below the counter, and rows with a thread have different ones.\<close>

definition thread_ids :: "pydict list \<Rightarrow> pyval list" where
  "thread_ids rows = filter (\<lambda>v. v \<noteq> PNone) (map (\<lambda>r. dict_get r ''thread_id'') rows)"

definition store_ok :: "store \<Rightarrow> bool" where
  "store_ok db \<longleftrightarrow> cv_ok (verify_rows (payload_of PAYLOAD_COLUMNS) (table_rows db TABLE))
     \<and> distinct (thread_ids (table_rows db TABLE))"

lemma reco_payload_fits: "reco_payload env now a = Inr p \<Longrightarrow> fits PAYLOAD_COLUMNS p"
  by (auto simp: reco_payload_def rbind_eq_Inr fits_def PAYLOAD_COLUMNS_def)

lemma reco_payload_thread:
  "reco_payload env now a = Inr p \<Longrightarrow> dict_get p ''thread_id'' = thread_key (ra_thread_id a)"
  by (auto simp: reco_payload_def rbind_eq_Inr dict_get_def)

lemma existing_row_None: "existing_row tid rows = None \<longleftrightarrow> tid \<notin> (\<lambda>r. dict_get r ''thread_id'') ` set rows"
  by (auto simp: existing_row_def find_None_iff)

lemma thread_ids_snoc:
  "thread_ids (rows @ [r]) = thread_ids rows @ (if dict_get r ''thread_id'' = PNone then [] else [dict_get r ''thread_id''])"
  by (simp add: thread_ids_def)

lemma set_thread_ids: "set (thread_ids rows) = (\<lambda>r. dict_get r ''thread_id'') ` set rows - {PNone}"
  by (auto simp: thread_ids_def)

lemma new_row_thread:
  "dict_get ((''id'', i) # link_row PAYLOAD_COLUMNS p prev) ''thread_id'' = dict_get p ''thread_id''"
  by (simp add: dict_get_Cons link_row_def PAYLOAD_COLUMNS_def)

lemma record_cases:
  assumes "record_reco env now a db = Inr (db', i)"
  obtains (old) tb where "db' TABLE = Some tb" "tbl_no_update tb" "tbl_no_delete tb"
      "thread_key (ra_thread_id a) \<noteq> PNone"
      "existing_row (thread_key (ra_thread_id a)) (table_rows db TABLE) = Some i"
      "tbl_rows tb = table_rows db TABLE"
  | (new) tb payload where "db' TABLE = Some tb" "i = PInt (tbl_last_id tb)" "tbl_no_update tb" "tbl_no_delete tb"
      "reco_payload env now a = Inr payload" "int64_ok (dict_get payload ''conviction'')"
      "thread_key (ra_thread_id a) = PNone
        \<or> existing_row (thread_key (ra_thread_id a)) (table_rows db TABLE) = None"
      "tbl_rows tb = table_rows db TABLE
        @ [(''id'', i) # link_row PAYLOAD_COLUMNS payload (tip_of (table_rows db TABLE))]"
proof -
  let ?tid = "thread_key (ra_thread_id a)"
  obtain tb1 where tb1: "init_table db TABLE = Inr (db(TABLE \<mapsto> tb1))" "tbl_rows tb1 = table_rows db TABLE"
    "tbl_no_update tb1" "tbl_no_delete tb1"
    by (rule rlog.init_eq)
  have rows1: "table_rows (db(TABLE \<mapsto> tb1)) TABLE = table_rows db TABLE"
    using tb1(2) by (simp add: table_rows_def)
  have tip1: "chain_tip (db(TABLE \<mapsto> tb1)) TABLE = Inr (tip_of (table_rows db TABLE))"
    using rlog.safe by (simp add: chain_tip_def tb1(2))
  show thesis
  proof (cases "if ?tid = PNone then None else existing_row ?tid (table_rows db TABLE)")
    case (Some j)
    then have "db' = db(TABLE \<mapsto> tb1)" "i = j"
      using assms unfolding record_reco_def record_begin_def tb1(1) Let_def rbind_Inr rows1 Some
      by simp_all
    then show thesis using old [of tb1] Some tb1 by (simp split: if_splits)
  next
    case None
    then obtain payload where p: "reco_payload env now a = Inr payload"
      "record_insert payload (tip_of (table_rows db TABLE)) (db(TABLE \<mapsto> tb1)) = Inr (db', i)"
      using assms unfolding record_reco_def record_begin_def tb1(1) Let_def rbind_Inr rows1 None tip1
      by (auto simp: rbind_eq_Inr)
    let ?tb = "insert_link PAYLOAD_COLUMNS payload (tip_of (table_rows db TABLE)) tb1"
    have "int64_ok (dict_get payload ''conviction'')" "db' = db(TABLE \<mapsto> ?tb)" "i = PInt (tbl_last_id ?tb)"
      using p(2) None by (simp_all add: record_insert_def reco_payload_thread [OF p(1)] tb1(2) Let_def split: if_splits)
    then show thesis
      using new [of ?tb payload] p(1) None tb1 by (simp add: insert_link_def sql_insert_def split: if_splits)
  qed
qed

lemma store_ok_snoc:
  assumes ok: "store_ok db" and p: "reco_payload env now a = Inr payload"
    and tid: "thread_key (ra_thread_id a) = PNone
        \<or> existing_row (thread_key (ra_thread_id a)) (table_rows db TABLE) = None"
    and db': "table_rows db' TABLE = table_rows db TABLE
        @ [(''id'', i) # link_row PAYLOAD_COLUMNS payload (tip_of (table_rows db TABLE))]"
    and i: "i = PInt n"
  shows "store_ok db'"
proof -
  let ?tb = "\<lparr>tbl_rows = table_rows db TABLE, tbl_last_id = n - 1, tbl_no_update = True, tbl_no_delete = True\<rparr>"
  have "cv_ok (verify_rows (payload_of PAYLOAD_COLUMNS)
      (tbl_rows (insert_link PAYLOAD_COLUMNS payload (tip_of (table_rows db TABLE)) ?tb)))"
    using rlog.insert_verifies [OF reco_payload_fits [OF p], of "tip_of (table_rows db TABLE)" ?tb] ok
    by (simp add: store_ok_def verified_def)
  moreover have "thread_key (ra_thread_id a) \<notin> set (thread_ids (table_rows db TABLE))"
    using tid by (auto simp: existing_row_None set_thread_ids)
  ultimately show ?thesis
    using ok unfolding store_ok_def db'
    by (simp add: thread_ids_snoc new_row_thread reco_payload_thread [OF p] insert_link_def sql_insert_def i)
qed

subsection \<open>Properties\<close>

text \<open>Recording a recommendation keeps the store well formed: if the chain verifies and no two rows
  share a thread, the same holds afterwards, and the old rows are an initial part of the new ones,
  with at most one row added.\<close>

theorem record_preserves_store:
  assumes "store_ok db" and "record_reco env now a db = Inr (db', i)"
  shows "store_ok db' \<and> take (length (table_rows db TABLE)) (table_rows db' TABLE) = table_rows db TABLE
    \<and> length (table_rows db' TABLE) \<le> length (table_rows db TABLE) + 1"
  using assms(2)
proof (cases rule: record_cases)
  case (old tb)
  then have "table_rows db' TABLE = table_rows db TABLE" by (simp add: table_rows_def)
  then show ?thesis using assms(1) by (simp add: store_ok_def)
next
  case (new tb payload)
  then have "table_rows db' TABLE = table_rows db TABLE
      @ [(''id'', i) # link_row PAYLOAD_COLUMNS payload (tip_of (table_rows db TABLE))]"
    by (simp add: table_rows_def)
  then show ?thesis using store_ok_snoc [OF assms(1) new(5,7) _ new(2)] by simp
qed

text \<open>C34: Recording is idempotent per thread: once a thread's recommendation is recorded, recording
  again for that thread, with whatever levels and at whatever time, returns the same id and leaves
  the store exactly as it was.\<close>

theorem record_idempotent:
  assumes "record_reco env now a db = Inr (db1, i)"
    and "thread_key (ra_thread_id a) \<noteq> PNone"
    and "thread_key (ra_thread_id b) = thread_key (ra_thread_id a)"
  shows "record_reco env' now' b db1 = Inr (db1, i)"
proof -
  let ?tid = "thread_key (ra_thread_id a)"
  obtain tb where tb: "db1 TABLE = Some tb" "tbl_no_update tb" "tbl_no_delete tb"
    "existing_row ?tid (tbl_rows tb) = Some i"
    using assms(1)
  proof (cases rule: record_cases)
    case (old tb)
    then show thesis using that [of tb] by simp
  next
    case (new tb payload)
    have "find (\<lambda>r. dict_get r ''thread_id'' = ?tid) (table_rows db TABLE) = None"
      using new(7) assms(2) by (simp add: existing_row_def)
    moreover have "dict_get ((''id'', i) # link_row PAYLOAD_COLUMNS payload (tip_of (table_rows db TABLE)))
        ''thread_id'' = ?tid"
      by (simp add: new_row_thread reco_payload_thread [OF new(5)])
    ultimately have "existing_row ?tid (tbl_rows tb) = Some i"
      unfolding new(8) existing_row_def by (simp add: find_snoc dict_get_Cons)
    then show thesis using that [of tb] new by simp
  qed
  have "init_table db1 TABLE = Inr db1" by (rule rlog.init_again [of db1 tb]) (use tb in simp_all)
  then show ?thesis
    using tb assms(2,3) by (simp add: record_reco_def record_begin_def Let_def table_rows_def)
qed

text \<open>An infinite conviction loses the recommendation: the coercion that is meant to store a missing
  value raises OverflowError, and the row of a thread-less recommendation is not written.\<close>

theorem infinite_conviction_raises:
  assumes "ra_conviction a = PFloat PInf" and "ra_thread_id a = PNone"
    and "finite_or_none (ra_entry a) = Inr e" and "finite_or_none (ra_stop_loss a) = Inr s"
    and "finite_or_none (ra_take_profit a) = Inr t"
  shows "record_reco env now a db = Inl OverflowError"
proof -
  obtain tb where "init_table db TABLE = Inr (db(TABLE \<mapsto> tb))" by (rule rlog.init_eq)
  then show ?thesis
    using assms by (simp add: record_reco_def record_begin_def Let_def thread_key_def reco_payload_def)
qed

lemma begin_new:
  assumes "record_begin env now a db = Inr (db1, Inr (p, prev))"
  shows "prev = tip_of (table_rows db TABLE) \<and> table_rows db1 TABLE = table_rows db TABLE
    \<and> reco_payload env now a = Inr p \<and> (\<exists>tb. db1 TABLE = Some tb)"
proof -
  obtain tb1 where tb1: "init_table db TABLE = Inr (db(TABLE \<mapsto> tb1))" "tbl_rows tb1 = table_rows db TABLE"
    by (rule rlog.init_eq)
  then have "table_rows (db(TABLE \<mapsto> tb1)) TABLE = table_rows db TABLE" by (simp add: table_rows_def)
  then show ?thesis
    using assms tb1 rlog.safe
    by (auto simp: record_begin_def Let_def chain_tip_def rbind_eq_Inr split: option.splits if_splits)
qed

lemma insert_cases:
  assumes "record_insert p prev db = Inr (db', i)" "db TABLE = Some tb"
  shows "db' TABLE = Some tb \<or> (i = PInt (tbl_last_id tb + 1) \<and> db' = db(TABLE \<mapsto> insert_link PAYLOAD_COLUMNS p prev tb))"
  using assms by (auto simp: record_insert_def Let_def insert_link_def sql_insert_def split: if_splits option.splits)

text \<open>Two recommendations published at once break the chain without tampering: when two writers
  for different rows both read the tip before either inserts, and both inserts succeed, the chain no
  longer verifies at the second row (or the first row hashes to the tip it was linked to).\<close>

theorem concurrent_records_break_chain:
  assumes ok: "store_ok db"
    and b1: "record_begin env now1 a db = Inr (db1, Inr (p, prev1))"
    and b2: "record_begin env now2 b db1 = Inr (db2, Inr (q, prev2))"
    and i1: "record_insert p prev1 db2 = Inr (db3, i)"
    and i2: "record_insert q prev2 db3 = Inr (db4, j)"
    and two: "length (table_rows db4 TABLE) = length (table_rows db TABLE) + 2"
  shows "verify_chain (Some db4) = broken (length (table_rows db TABLE) + 2) j R_prev_hash
    \<or> sha256_hex (link_text (tip_of (table_rows db TABLE)) (canonical_json (PDict p))) = tip_of (table_rows db TABLE)"
proof -
  obtain tb where tb: "db2 TABLE = Some tb" "tbl_rows tb = table_rows db TABLE"
    using begin_new [OF b1] begin_new [OF b2] by (auto simp: table_rows_def)
  have prev: "prev1 = tip_of (tbl_rows tb)" "prev2 = tip_of (tbl_rows tb)"
    using begin_new [OF b1] begin_new [OF b2] tb(2) by simp_all
  have len: "length (tbl_rows (insert_link PAYLOAD_COLUMNS r h t)) = Suc (length (tbl_rows t))" for r h t
    by (simp add: insert_link_def sql_insert_def)
  have d3: "db3 = db2(TABLE \<mapsto> insert_link PAYLOAD_COLUMNS p prev1 tb)"
    using insert_cases [OF i1 tb(1)]
  proof
    assume "db3 TABLE = Some tb"
    from insert_cases [OF i2 this] show ?thesis
      using two by (auto simp: table_rows_def len tb(2))
  qed blast
  have d4: "db4 TABLE = Some (raced PAYLOAD_COLUMNS p q tb) \<and> j = PInt (tbl_last_id tb + 2)"
    using insert_cases [OF i2, of "insert_link PAYLOAD_COLUMNS p prev1 tb"] two
    by (auto simp: d3 table_rows_def len tb(2) raced_def Let_def prev insert_link_def sql_insert_def)
  have "fits PAYLOAD_COLUMNS p" "fits PAYLOAD_COLUMNS q"
    using begin_new [OF b1] begin_new [OF b2] reco_payload_fits by blast+
  from rlog.raced_broken [OF _ this, of tb] show ?thesis
    using ok d4 rlog.safe by (simp add: store_ok_def verify_chain_def verify_table_def tb(2))
qed

subsection \<open>Witnesses\<close>

definition demo_reco :: "string \<Rightarrow> reco_args" where
  "demo_reco tid = \<lparr>ra_action = PStr ''buy'', ra_thread_id = PStr tid, ra_user_id = PStr ''u1'',
     ra_symbol = Some ''INFY'', ra_timeframe = Some ''15m'', ra_mode = None, ra_profile = Some ''INTRADAY'',
     ra_entry = PFloat (Fin 100), ra_stop_loss = PFloat (Fin 95), ra_take_profit = PFloat (Fin 110),
     ra_horizon = None, ra_conviction = PInt 7, ra_risk_reward = PFloat (Fin 2), ra_rationale = PNone,
     ra_tool_inputs = PNone, ra_model_id = None, ra_prompt_hash = None, ra_prompt_set_hash = None\<rparr>"

lemma demo_payload: "\<exists>p. reco_payload (\<lambda>_. None) (Fin 1000) (demo_reco tid) = Inr p
    \<and> int64_ok (dict_get p ''conviction'')"
  by (simp add: reco_payload_def demo_reco_def dict_get_def int64_ok_def)

lemma empty_store_ok: "store_ok Map.empty"
  by (simp add: store_ok_def table_rows_def verify_rows_def verified_def thread_ids_def)

lemma demo_record: "\<exists>db' i. record_reco (\<lambda>_. None) (Fin 1000) (demo_reco ''t1'') Map.empty = Inr (db', i)"
proof -
  obtain tb1 where tb1: "init_table Map.empty TABLE = Inr ([TABLE \<mapsto> tb1])" "tbl_rows tb1 = []"
    by (rule rlog.init_eq [of Map.empty]) (simp_all add: table_rows_def)
  obtain p where "reco_payload (\<lambda>_. None) (Fin 1000) (demo_reco ''t1'') = Inr p" "int64_ok (dict_get p ''conviction'')"
    using demo_payload by blast
  then show ?thesis
    using tb1 rlog.safe by (simp add: record_reco_def record_begin_def record_insert_def Let_def table_rows_def
        existing_row_def chain_tip_def)
qed

lemma record_preserves_store_witness:
  "\<exists>db' i. record_reco (\<lambda>_. None) (Fin 1000) (demo_reco ''t1'') Map.empty = Inr (db', i) \<and> store_ok db'"
proof -
  obtain db' i where r: "record_reco (\<lambda>_. None) (Fin 1000) (demo_reco ''t1'') Map.empty = Inr (db', i)"
    using demo_record by blast
  then show ?thesis using record_preserves_store [OF empty_store_ok r] by blast
qed

lemma record_idempotent_witness:
  "\<exists>db' i. record_reco (\<lambda>_. None) (Fin 1000) (demo_reco ''t1'') Map.empty = Inr (db', i)
     \<and> record_reco (\<lambda>_. None) (Fin 2000) (demo_reco '' t1 '') db' = Inr (db', i)"
proof -
  obtain db' i where r: "record_reco (\<lambda>_. None) (Fin 1000) (demo_reco ''t1'') Map.empty = Inr (db', i)"
    using demo_record by blast
  have "thread_key (ra_thread_id (demo_reco ''t1'')) = PStr ''t1''" "thread_key (ra_thread_id (demo_reco '' t1 '')) = PStr ''t1''"
    by (simp_all add: demo_reco_def thread_key_def stripped_or_none_def py_strip_def is_space_def)
  then show ?thesis using r record_idempotent [OF r, of "demo_reco '' t1 ''" "\<lambda>_. None" "Fin 2000"] by auto
qed

lemma infinite_conviction_raises_witness:
  "record_reco (\<lambda>_. None) (Fin 1000) ((demo_reco []) \<lparr>ra_thread_id := PNone, ra_conviction := PFloat PInf\<rparr>) Map.empty
     = Inl OverflowError"
  by (rule infinite_conviction_raises [where e = "PFloat (Fin 100)" and s = "PFloat (Fin 95)" and t = "PFloat (Fin 110)"])
    (simp_all add: demo_reco_def)

lemma demo_thread: "tid \<in> {''t1'', ''t2''} \<Longrightarrow> thread_key (ra_thread_id (demo_reco tid)) = PStr tid"
  by (auto simp: demo_reco_def thread_key_def stripped_or_none_def py_strip_def is_space_def)

lemma concurrent_records_break_chain_witness:
  "\<exists>db1 db2 db3 db4 p q prev1 prev2 i j.
     record_begin (\<lambda>_. None) (Fin 1000) (demo_reco ''t1'') Map.empty = Inr (db1, Inr (p, prev1))
   \<and> record_begin (\<lambda>_. None) (Fin 1000) (demo_reco ''t2'') db1 = Inr (db2, Inr (q, prev2))
   \<and> record_insert p prev1 db2 = Inr (db3, i) \<and> record_insert q prev2 db3 = Inr (db4, j)
   \<and> (verify_chain (Some db4) = broken 2 j R_prev_hash
      \<or> sha256_hex (link_text GENESIS_HASH (canonical_json (PDict p))) = GENESIS_HASH)"
proof -
  obtain tb1 where tb1: "init_table Map.empty TABLE = Inr ([TABLE \<mapsto> tb1])" "tbl_rows tb1 = []"
      "tbl_no_update tb1" "tbl_no_delete tb1"
    by (rule rlog.init_eq [of Map.empty]) (simp_all add: table_rows_def)
  let ?db1 = "[TABLE \<mapsto> tb1]"
  have again: "init_table ?db1 TABLE = Inr ?db1"
    by (rule rlog.init_again [of ?db1 tb1]) (use tb1 in simp_all)
  obtain p where p: "reco_payload (\<lambda>_. None) (Fin 1000) (demo_reco ''t1'') = Inr p" "int64_ok (dict_get p ''conviction'')"
    using demo_payload by blast
  obtain q where q: "reco_payload (\<lambda>_. None) (Fin 1000) (demo_reco ''t2'') = Inr q" "int64_ok (dict_get q ''conviction'')"
    using demo_payload by blast
  have tids: "dict_get p ''thread_id'' = PStr ''t1''" "dict_get q ''thread_id'' = PStr ''t2''"
    using reco_payload_thread [OF p(1)] reco_payload_thread [OF q(1)] by (simp_all add: demo_thread)
  have tip: "chain_tip ?db1 TABLE = Inr GENESIS_HASH"
    using rlog.safe by (simp add: chain_tip_def tb1(2) tip_of_def)
  have b1: "record_begin (\<lambda>_. None) (Fin 1000) (demo_reco ''t1'') Map.empty = Inr (?db1, Inr (p, GENESIS_HASH))"
    unfolding record_begin_def tb1(1) by (simp add: Let_def demo_thread table_rows_def tb1(2) existing_row_def p tip)
  have b2: "record_begin (\<lambda>_. None) (Fin 1000) (demo_reco ''t2'') ?db1 = Inr (?db1, Inr (q, GENESIS_HASH))"
    unfolding record_begin_def again by (simp add: Let_def demo_thread table_rows_def tb1(2) existing_row_def q tip)
  let ?tb2 = "insert_link PAYLOAD_COLUMNS p GENESIS_HASH tb1"
  let ?db3 = "?db1(TABLE \<mapsto> ?tb2)"
  have i1: "record_insert p GENESIS_HASH ?db1 = Inr (?db3, PInt (tbl_last_id ?tb2))"
    by (simp add: record_insert_def p tids existing_row_def tb1(2) Let_def)
  have "existing_row (PStr ''t2'') (tbl_rows ?tb2) = None"
    by (simp add: existing_row_def insert_link_def sql_insert_def tb1(2) new_row_thread tids)
  then have i2: "record_insert q GENESIS_HASH ?db3 = Inr (?db3(TABLE \<mapsto> insert_link PAYLOAD_COLUMNS q GENESIS_HASH ?tb2),
      PInt (tbl_last_id (insert_link PAYLOAD_COLUMNS q GENESIS_HASH ?tb2)))"
    by (simp add: record_insert_def q tids Let_def)
  have n: "length (table_rows (?db3(TABLE \<mapsto> insert_link PAYLOAD_COLUMNS q GENESIS_HASH ?tb2)) TABLE)
      = length (table_rows Map.empty TABLE) + 2"
    by (simp add: table_rows_def insert_link_def sql_insert_def tb1(2))
  have e: "length (table_rows Map.empty TABLE) = 0" "tip_of (table_rows Map.empty TABLE) = GENESIS_HASH"
    by (simp_all add: table_rows_def tip_of_def)
  show ?thesis
    using b1 b2 i1 i2 concurrent_records_break_chain [OF empty_store_ok b1 b2 i1 i2 n, unfolded e]
    by (metis add_0)
qed

end
