(* ===== verification/Session.thy ===== *)
theory Session
  imports EnvConfig PyJson
begin

text \<open>
  The session classifier of session.py: from a candle timestamp and a configuration to the phase of
  the trading day, the minutes since open and until close, the weekly expiry and the favorability
  of the moment. The time zone database is outside the program: \<open>zone name\<close> is the offset from UTC in
  seconds, as a function of the UTC second, or \<open>None\<close> where \<open>ZoneInfo(name)\<close> raises. A local
  datetime is its day number (1970-01-01 is 0) and its microsecond of the day.
\<close>

subsection \<open>Configuration\<close>

record dtime =
  tm_hour :: int
  tm_minute :: int
  tm_second :: int

definition hm :: "int \<Rightarrow> int \<Rightarrow> dtime" where
  "hm h m = \<lparr>tm_hour = h, tm_minute = m, tm_second = 0\<rparr>"

definition time_lt :: "dtime \<Rightarrow> dtime \<Rightarrow> bool" where
  "time_lt a b \<longleftrightarrow> tm_hour a < tm_hour b \<or> (tm_hour a = tm_hour b \<and>
     (tm_minute a < tm_minute b \<or> (tm_minute a = tm_minute b \<and> tm_second a < tm_second b)))"

type_synonym zoneinfo = "string \<Rightarrow> (int \<Rightarrow> int) option"

definition fixed_tz_offsets :: "string \<Rightarrow> int option" where
  "fixed_tz_offsets = map_of [(''Asia/Kolkata'', 19800), (''Asia/Calcutta'', 19800), (''UTC'', 0), (''Etc/UTC'', 0)]"

definition resolve_tzinfo :: "zoneinfo \<Rightarrow> string \<Rightarrow> int \<Rightarrow> int" where
  "resolve_tzinfo zone name = (case zone name of Some off \<Rightarrow> off
     | None \<Rightarrow> (case fixed_tz_offsets name of Some off \<Rightarrow> (\<lambda>_. off) | None \<Rightarrow> (\<lambda>_. 0)))"

definition DEFAULT_SESSION_TIMEZONE :: string where "DEFAULT_SESSION_TIMEZONE = ''Asia/Kolkata''"
definition DEFAULT_SESSION_OPEN :: dtime where "DEFAULT_SESSION_OPEN = hm 9 15"
definition DEFAULT_SESSION_CLOSE :: dtime where "DEFAULT_SESSION_CLOSE = hm 15 30"
definition DEFAULT_OPENING_MINUTES :: int where "DEFAULT_OPENING_MINUTES = 15"
definition DEFAULT_CLOSING_MINUTES :: int where "DEFAULT_CLOSING_MINUTES = 30"
definition DEFAULT_MIDDAY_START :: dtime where "DEFAULT_MIDDAY_START = hm 11 30"
definition DEFAULT_MIDDAY_END :: dtime where "DEFAULT_MIDDAY_END = hm 13 30"
definition DEFAULT_EXPIRY_WEEKDAY :: int where "DEFAULT_EXPIRY_WEEKDAY = 3"

record session_config =
  sc_timezone :: string
  sc_open_time :: dtime
  sc_close_time :: dtime
  sc_opening_minutes :: int
  sc_closing_minutes :: int
  sc_midday_start :: dtime
  sc_midday_end :: dtime
  sc_expiry_weekday :: int

definition resolve_timezone :: "zoneinfo \<Rightarrow> env \<Rightarrow> string \<Rightarrow> string \<Rightarrow> string" where
  "resolve_timezone zone env env_name dflt = (case env env_name of
     None \<Rightarrow> dflt
   | Some raw \<Rightarrow> if py_strip raw = [] then dflt
       else let candidate = py_strip raw in if zone candidate = None then dflt else candidate)"

text \<open>\<open>HH:MM\<close>, with blanks around the two numbers allowed.\<close>

definition parse_time :: "string \<Rightarrow> dtime option" where
  "parse_time txt = (case py_split (CHR '':'') txt of
     [h, m] \<Rightarrow> (let hh = py_strip h; mm = py_strip m in
       if \<not> (py_isdigit hh \<and> py_isdigit mm) then None
       else case (parse_int hh, parse_int mm) of
         (Some hour, Some minute) \<Rightarrow>
           if 0 \<le> hour \<and> hour \<le> 23 \<and> 0 \<le> minute \<and> minute \<le> 59 then Some (hm hour minute) else None
       | _ \<Rightarrow> None)
   | _ \<Rightarrow> None)"

definition resolve_time :: "env \<Rightarrow> string \<Rightarrow> dtime \<Rightarrow> dtime" where
  "resolve_time env env_name dflt = (case env env_name of
     None \<Rightarrow> dflt
   | Some raw \<Rightarrow> if py_strip raw = [] then dflt
       else case parse_time (py_strip raw) of None \<Rightarrow> dflt | Some t \<Rightarrow> t)"

definition resolve_int :: "env \<Rightarrow> string \<Rightarrow> int \<Rightarrow> int \<Rightarrow> int option \<Rightarrow> int" where
  "resolve_int env env_name dflt low high = (case env env_name of
     None \<Rightarrow> dflt
   | Some raw \<Rightarrow> if py_strip raw = [] then dflt
       else case parse_int (py_strip raw) of None \<Rightarrow> dflt
       | Some v \<Rightarrow> if v < low then dflt
           else (case high of Some h \<Rightarrow> if h < v then dflt else v | None \<Rightarrow> v))"

definition resolve_session_config :: "zoneinfo \<Rightarrow> env \<Rightarrow> session_config" where
  "resolve_session_config zone env =
     (let tz = resolve_timezone zone env ''SESSION_TIMEZONE'' DEFAULT_SESSION_TIMEZONE;
          op = resolve_time env ''SESSION_OPEN'' DEFAULT_SESSION_OPEN;
          cl = resolve_time env ''SESSION_CLOSE'' DEFAULT_SESSION_CLOSE;
          (op, cl) = (if \<not> time_lt op cl then (DEFAULT_SESSION_OPEN, DEFAULT_SESSION_CLOSE) else (op, cl))
      in \<lparr>sc_timezone = tz, sc_open_time = op, sc_close_time = cl,
          sc_opening_minutes = resolve_int env ''SESSION_OPENING_MINUTES'' DEFAULT_OPENING_MINUTES 0 None,
          sc_closing_minutes = resolve_int env ''SESSION_CLOSING_MINUTES'' DEFAULT_CLOSING_MINUTES 0 None,
          sc_midday_start = resolve_time env ''SESSION_MIDDAY_START'' DEFAULT_MIDDAY_START,
          sc_midday_end = resolve_time env ''SESSION_MIDDAY_END'' DEFAULT_MIDDAY_END,
          sc_expiry_weekday = resolve_int env ''SESSION_EXPIRY_WEEKDAY'' DEFAULT_EXPIRY_WEEKDAY 0 (Some 6)\<rparr>)"

interpretation session_int: env_param parse_int "\<lambda>v. low \<le> v \<and> (case high of Some h \<Rightarrow> v \<le> h | None \<Rightarrow> True)"
    "\<lambda>env name d. resolve_int env name d low high" for low high
  by unfold_locales (auto simp: resolve_int_def split: option.splits)

interpretation session_time: env_param parse_time "\<lambda>_. True" resolve_time
  by unfold_locales (auto simp: resolve_time_def)

interpretation session_zone: env_param Some "\<lambda>name. zone name \<noteq> None" "resolve_timezone zone" for zone
  by unfold_locales (auto simp: resolve_timezone_def Let_def)

subsection \<open>Local time\<close>

record local_dt =
  ld_day :: int
  ld_us :: int

definition is_finite_number :: "pyval \<Rightarrow> bool res" where
  "is_finite_number v = (case v of PInt n \<Rightarrow> math_isfinite v | PFloat f \<Rightarrow> math_isfinite v | _ \<Rightarrow> Inr False)"

definition seconds_of_day :: "dtime \<Rightarrow> int" where
  "seconds_of_day t = tm_hour t * 3600 + tm_minute t * 60 + tm_second t"

text \<open>
  \<open>datetime.fromtimestamp(t, tz)\<close>: the fraction is scaled to microseconds in floating point and rounded
  half to even; UTC and local time must lie in the years 1 to 9999.
\<close>

definition us_in_range :: "int \<Rightarrow> bool" where
  "us_in_range u \<longleftrightarrow> - 62135596800000000 \<le> u \<and> u < 253402300800000000"

definition utc_micros :: "rat \<Rightarrow> int" where
  "utc_micros q = (let sec = (if 0 \<le> q then \<lfloor>q\<rfloor> else \<lceil>q\<rceil>) in
     sec * 1000000 + (case fmul (Fin (q - of_int sec)) (Fin 1000000) of Fin f \<Rightarrow> rne f | _ \<Rightarrow> 0))"

definition fromtimestamp :: "(int \<Rightarrow> int) \<Rightarrow> rat \<Rightarrow> local_dt option" where
  "fromtimestamp tz q = (let u = utc_micros q; l = u + tz (u div 1000000) * 1000000 in
     if us_in_range u \<and> us_in_range l then Some \<lparr>ld_day = l div 86400000000, ld_us = l mod 86400000000\<rparr>
     else None)"

definition to_local_datetime :: "zoneinfo \<Rightarrow> pyval \<Rightarrow> session_config \<Rightarrow> local_dt option res" where
  "to_local_datetime zone timestamp_ms config =
     rbind (is_finite_number timestamp_ms) (\<lambda>fin.
       if \<not> fin then Inr None
       else rbind (to_num timestamp_ms) (\<lambda>ms. case num_div ms (NF (Fin 1000)) of
           Inr (NF (Fin q)) \<Rightarrow> Inr (fromtimestamp (resolve_tzinfo zone (sc_timezone config)) q)
         | _ \<Rightarrow> Inr None))"

subsection \<open>Classification\<close>

definition PHASE_PRE_OPEN :: string where "PHASE_PRE_OPEN = ''pre_open''"
definition PHASE_OPENING :: string where "PHASE_OPENING = ''opening''"
definition PHASE_MORNING :: string where "PHASE_MORNING = ''morning''"
definition PHASE_MIDDAY :: string where "PHASE_MIDDAY = ''midday''"
definition PHASE_AFTERNOON :: string where "PHASE_AFTERNOON = ''afternoon''"
definition PHASE_CLOSING :: string where "PHASE_CLOSING = ''closing''"
definition PHASE_POST_CLOSE :: string where "PHASE_POST_CLOSE = ''post_close''"

definition FAVORABLE :: string where "FAVORABLE = ''favorable''"
definition UNFAVORABLE :: string where "UNFAVORABLE = ''unfavorable''"
definition NEUTRAL :: string where "NEUTRAL = ''neutral''"

definition base_favorability :: "string \<Rightarrow> string option" where
  "base_favorability = map_of [(PHASE_PRE_OPEN, NEUTRAL), (PHASE_OPENING, UNFAVORABLE), (PHASE_MORNING, FAVORABLE),
     (PHASE_MIDDAY, NEUTRAL), (PHASE_AFTERNOON, FAVORABLE), (PHASE_CLOSING, NEUTRAL), (PHASE_POST_CLOSE, NEUTRAL)]"

definition expiry_override_phases :: "string list" where
  "expiry_override_phases = [PHASE_AFTERNOON, PHASE_CLOSING]"

text \<open>\<open>_seconds_of_day(local_dt.time())\<close> drops the microseconds.\<close>

definition phase_at :: "int \<Rightarrow> session_config \<Rightarrow> string" where
  "phase_at t config =
     (let open_s = seconds_of_day (sc_open_time config); close_s = seconds_of_day (sc_close_time config);
          opening_end = open_s + sc_opening_minutes config * 60;
          closing_start = close_s - sc_closing_minutes config * 60;
          midday_start_s = seconds_of_day (sc_midday_start config);
          midday_end_s = seconds_of_day (sc_midday_end config)
      in if t < open_s then PHASE_PRE_OPEN
         else if close_s < t then PHASE_POST_CLOSE
         else if t < opening_end then PHASE_OPENING
         else if closing_start \<le> t then PHASE_CLOSING
         else if midday_start_s \<le> t \<and> t < midday_end_s then PHASE_MIDDAY
         else if opening_end \<le> t \<and> t < midday_start_s then PHASE_MORNING
         else PHASE_AFTERNOON)"

definition classify_session_phase :: "local_dt \<Rightarrow> session_config \<Rightarrow> string" where
  "classify_session_phase dt config = phase_at (ld_us dt div 1000000) config"

text \<open>The open and the close on the local date, in microseconds of that day.\<close>

definition session_open_close :: "session_config \<Rightarrow> int \<times> int" where
  "session_open_close config =
     (seconds_of_day (sc_open_time config) * 1000000, seconds_of_day (sc_close_time config) * 1000000)"

text \<open>\<open>math.floor(delta.total_seconds() / 60)\<close> for a difference in microseconds.\<close>

definition whole_minutes :: "int \<Rightarrow> int" where
  "whole_minutes us = (case fl (of_int us / 1000000) of
     Fin s \<Rightarrow> (case fdiv (Fin s) (Fin 60) of Inr (Fin m) \<Rightarrow> \<lfloor>m\<rfloor> | _ \<Rightarrow> 0) | _ \<Rightarrow> 0)"

definition compute_minutes_since_open :: "local_dt \<Rightarrow> session_config \<Rightarrow> pyval" where
  "compute_minutes_since_open dt config = (let (op, cl) = session_open_close config in
     if ld_us dt < op \<or> cl < ld_us dt then PNone
     else let minutes = whole_minutes (ld_us dt - op) in
       if minutes < 0 then PNone else PFloat (Fin (of_int minutes)))"

definition compute_minutes_until_close :: "local_dt \<Rightarrow> session_config \<Rightarrow> pyval" where
  "compute_minutes_until_close dt config = (let (op, cl) = session_open_close config in
     if ld_us dt < op \<or> cl < ld_us dt then PNone
     else let minutes = whole_minutes (cl - ld_us dt) in
       if minutes < 0 then PNone else PFloat (Fin (of_int minutes)))"

text \<open>Day 0 was a Thursday, weekday 3.\<close>

definition weekday :: "int \<Rightarrow> int" where
  "weekday day = (day + 3) mod 7"

definition compute_expiry_context :: "local_dt \<Rightarrow> session_config \<Rightarrow> pydict" where
  "compute_expiry_context dt config = (let wd = weekday (ld_day dt) in
     [(''is_expiry_day'', PBool (wd = sc_expiry_weekday config)),
      (''days_until_expiry'', PInt ((sc_expiry_weekday config - wd) mod 7))])"

definition derive_time_favorability :: "string \<Rightarrow> pyval \<Rightarrow> string" where
  "derive_time_favorability session_phase expiry_context =
     (let base = (case base_favorability session_phase of Some b \<Rightarrow> b | None \<Rightarrow> NEUTRAL);
          is_expiry_day = (case expiry_context of PDict d \<Rightarrow> py_truthy (dict_get d ''is_expiry_day'') | _ \<Rightarrow> False)
      in if is_expiry_day \<and> session_phase \<in> set expiry_override_phases then UNFAVORABLE else base)"

definition opt_entry :: "string \<Rightarrow> string option \<Rightarrow> pydict" where
  "opt_entry k v = (case v of None \<Rightarrow> [] | Some s \<Rightarrow> [(k, PStr s)])"

definition unavailable :: "string \<Rightarrow> string option \<Rightarrow> string option \<Rightarrow> pydict" where
  "unavailable reason symbol timeframe =
     opt_entry ''symbol'' symbol @ opt_entry ''timeframe'' timeframe
     @ [(''unavailable'', PBool True), (''reason'', PStr reason)]"

fun error_name :: "pyerr \<Rightarrow> string" where
  "error_name ZeroDivisionError = ''ZeroDivisionError''"
| "error_name OverflowError = ''OverflowError''"
| "error_name TypeError = ''TypeError''"
| "error_name ValueError = ''ValueError''"
| "error_name KeyError = ''KeyError''"
| "error_name AttributeError = ''AttributeError''"
| "error_name IndexError = ''IndexError''"
| "error_name SqliteError = ''OperationalError''"
| "error_name IntegrityError = ''IntegrityError''"
| "error_name ImmutableFieldError = ''ImmutableFieldError''"

definition session_label :: "local_dt \<Rightarrow> session_config \<Rightarrow> pydict" where
  "session_label dt config =
     (let phase = classify_session_phase dt config; ctx = PDict (compute_expiry_context dt config) in
       [(''session_phase'', PStr phase),
        (''minutes_since_open'', compute_minutes_since_open dt config),
        (''minutes_until_close'', compute_minutes_until_close dt config),
        (''expiry_context'', ctx),
        (''time_favorability'', PStr (derive_time_favorability phase ctx))])"

definition classify_session ::
  "zoneinfo \<Rightarrow> pyval \<Rightarrow> session_config \<Rightarrow> string option \<Rightarrow> string option \<Rightarrow> pydict" where
  "classify_session zone timestamp_ms config symbol timeframe =
     (case to_local_datetime zone timestamp_ms config of
        Inl e \<Rightarrow> unavailable (''session classification error: '' @ error_name e) symbol timeframe
      | Inr None \<Rightarrow> unavailable (''invalid timestamp: expected a finite epoch-millisecond number, got ''
          @ py_repr timestamp_ms) symbol timeframe
      | Inr (Some dt) \<Rightarrow> session_label dt config @ opt_entry ''symbol'' symbol @ opt_entry ''timeframe'' timeframe)"

end
