(* ===== verification/SessionFacts.thy ===== *)
theory SessionFacts
  imports Session
begin

text \<open>
  What the session classifier promises: a valid configuration from every environment, phases in the
  order of the day, exact whole minutes in spite of the floating point division, the expiry
  countdown, and a label or a marker for every input.
\<close>

subsection \<open>Configuration\<close>

definition time_ok :: "dtime \<Rightarrow> bool" where
  "time_ok t \<longleftrightarrow> 0 \<le> tm_hour t \<and> tm_hour t \<le> 23 \<and> 0 \<le> tm_minute t \<and> tm_minute t \<le> 59
     \<and> 0 \<le> tm_second t \<and> tm_second t \<le> 59"

definition config_ok :: "session_config \<Rightarrow> bool" where
  "config_ok c \<longleftrightarrow> time_ok (sc_open_time c) \<and> time_ok (sc_close_time c) \<and> time_ok (sc_midday_start c)
     \<and> time_ok (sc_midday_end c) \<and> time_lt (sc_open_time c) (sc_close_time c)
     \<and> 0 \<le> sc_opening_minutes c \<and> 0 \<le> sc_closing_minutes c
     \<and> 0 \<le> sc_expiry_weekday c \<and> sc_expiry_weekday c \<le> 6"

lemma parse_time_ok: "parse_time s = Some t \<Longrightarrow> time_ok t"
  by (auto simp: parse_time_def Let_def time_ok_def hm_def split: list.splits option.splits if_splits)

lemma resolve_time_ok: "time_ok d \<Longrightarrow> time_ok (resolve_time env name d)"
  by (cases rule: session_time.resolve_cases [of env name d]) (auto dest: parse_time_ok)

lemma default_times_ok [simp]: "time_ok DEFAULT_SESSION_OPEN" "time_ok DEFAULT_SESSION_CLOSE"
  "time_ok DEFAULT_MIDDAY_START" "time_ok DEFAULT_MIDDAY_END" "time_lt DEFAULT_SESSION_OPEN DEFAULT_SESSION_CLOSE"
  by (simp_all add: time_ok_def time_lt_def hm_def DEFAULT_SESSION_OPEN_def DEFAULT_SESSION_CLOSE_def
      DEFAULT_MIDDAY_START_def DEFAULT_MIDDAY_END_def)

text \<open>Every environment gives a usable session configuration: valid times of day with the open
  strictly before the close, window lengths that are not negative, a weekday, and a time zone that
  the database can load or the default one.\<close>

theorem session_config_valid:
  "config_ok (resolve_session_config zone env)
   \<and> sc_timezone (resolve_session_config zone env) \<in> {tz. zone tz \<noteq> None} \<union> {DEFAULT_SESSION_TIMEZONE}"
proof
  have i: "0 \<le> resolve_int env name d 0 None" if "0 \<le> d" for name d
    using session_int.resolve_ok [of 0 d None env name] that by simp
  have w: "0 \<le> resolve_int env name 3 0 (Some 6) \<and> resolve_int env name 3 0 (Some 6) \<le> 6" for name
    using session_int.resolve_ok [of 0 3 "Some 6" env name] by simp
  show "config_ok (resolve_session_config zone env)"
    by (simp add: config_ok_def resolve_session_config_def Let_def resolve_time_ok i w
        DEFAULT_OPENING_MINUTES_def DEFAULT_CLOSING_MINUTES_def DEFAULT_EXPIRY_WEEKDAY_def)
  have tz: "sc_timezone (resolve_session_config zone env)
      = resolve_timezone zone env ''SESSION_TIMEZONE'' DEFAULT_SESSION_TIMEZONE"
    by (simp add: resolve_session_config_def Let_def split: prod.split)
  show "sc_timezone (resolve_session_config zone env) \<in> {tz. zone tz \<noteq> None} \<union> {DEFAULT_SESSION_TIMEZONE}"
    unfolding tz by (cases rule: session_zone.resolve_cases [of zone env "''SESSION_TIMEZONE''" DEFAULT_SESSION_TIMEZONE]) auto
qed

subsection \<open>Phases\<close>

lemmas phase_defs = PHASE_PRE_OPEN_def PHASE_OPENING_def PHASE_MORNING_def PHASE_MIDDAY_def
  PHASE_AFTERNOON_def PHASE_CLOSING_def PHASE_POST_CLOSE_def

definition phase_order :: "string list" where
  "phase_order = [PHASE_PRE_OPEN, PHASE_OPENING, PHASE_MORNING, PHASE_MIDDAY, PHASE_AFTERNOON, PHASE_CLOSING,
     PHASE_POST_CLOSE]"

definition phase_rank :: "string \<Rightarrow> nat" where
  "phase_rank p = length (takeWhile (\<lambda>q. q \<noteq> p) phase_order)"

lemma phase_rank_simps [simp]:
  "phase_rank PHASE_PRE_OPEN = 0" "phase_rank PHASE_OPENING = 1" "phase_rank PHASE_MORNING = 2"
  "phase_rank PHASE_MIDDAY = 3" "phase_rank PHASE_AFTERNOON = 4" "phase_rank PHASE_CLOSING = 5"
  "phase_rank PHASE_POST_CLOSE = 6"
  by (simp_all add: phase_rank_def phase_order_def phase_defs)

text \<open>The windows of a configuration do not overlap.\<close>

definition windows_apart :: "session_config \<Rightarrow> bool" where
  "windows_apart c \<longleftrightarrow>
     seconds_of_day (sc_open_time c) + sc_opening_minutes c * 60 \<le> seconds_of_day (sc_midday_start c)
   \<and> seconds_of_day (sc_midday_start c) \<le> seconds_of_day (sc_midday_end c)
   \<and> seconds_of_day (sc_midday_end c) \<le> seconds_of_day (sc_close_time c) - sc_closing_minutes c * 60"

text \<open>The phases of a day come in their order: when the configured windows do not overlap, a later
  moment of the same day is never in an earlier phase.\<close>

theorem phases_in_order:
  assumes "config_ok c" and "windows_apart c" and "ld_us d \<le> ld_us d'"
  shows "phase_rank (classify_session_phase d c) \<le> phase_rank (classify_session_phase d' c)"
proof -
  have le: "ld_us d div 1000000 \<le> ld_us d' div 1000000" using assms(3) by (rule zdiv_mono1) simp
  have pos: "0 \<le> sc_opening_minutes c * 60" "0 \<le> sc_closing_minutes c * 60"
    using assms(1) by (simp_all add: config_ok_def)
  show ?thesis
    using le pos assms(2) unfolding classify_session_phase_def phase_at_def Let_def windows_apart_def
    by (simp split: if_split)
qed

subsection \<open>Minutes\<close>

lemma whole_minutes_exact:
  assumes "0 \<le> us" "us < 86400000000"
  shows "whole_minutes us = us div 60000000"
proof -
  define m where "m = us div 60000000"
  have us: "60000000 * m \<le> us" "us \<le> 60000000 * (m + 1) - 1"
    by (simp_all add: m_def)
  have m: "0 \<le> m" "m < 1440" using assms by (simp_all add: m_def pos_imp_zdiv_nonneg_iff)
  have big: "(2000000 :: rat) < fbound" by (simp add: fbound_def)
  define s where "s = rnd (of_int us / 1000000)"
  have "rnd (of_int (60 * m)) \<le> s"
    unfolding s_def by (rule rnd_mono) (use us(1) in \<open>simp add: field_simps flip: of_int_le_iff [where 'a = rat]\<close>)
  then have s1: "of_int (60 * m) \<le> s" using rnd_of_int [of "60 * m"] m by simp
  define u where "u = of_int (60 * (m + 1) * 2 ^ 20 - 1) * p2 (- 20)"
  have p20: "p2 (- 20) = 1 / 1048576" "p2 (- 26) = 1 / 67108864" by (simp_all add: power_int_minus)
  have u: "u = of_int (60 * (m + 1)) - 1 / 1048576" by (simp add: u_def p20 field_simps)
  have "rnd u = u" by (rule rnd_exact [OF u_def]) (use m in auto)
  moreover have "of_int us / 1000000 \<le> u"
    using us(2) by (simp add: u field_simps flip: of_int_le_iff [where 'a = rat])
  ultimately have s2: "s \<le> u" unfolding s_def using rnd_mono by metis
  have fs: "fl (of_int us / 1000000) = Fin s"
    using s1 s2 m big u by (simp add: fl_def Let_def flip: s_def)
  define t where "t = rnd (s / 60)"
  have "rnd (of_int m) \<le> t" unfolding t_def by (rule rnd_mono) (use s1 in simp)
  then have t1: "of_int m \<le> t" using rnd_of_int [of m] m by simp
  define w where "w = of_int ((m + 1) * 2 ^ 26 - 1) * p2 (- 26)"
  have w: "w = of_int (m + 1) - 1 / 67108864" by (simp add: w_def p20 field_simps)
  have "rnd w = w" by (rule rnd_exact [OF w_def]) (use m in auto)
  moreover have "s / 60 \<le> w" using s2 by (simp add: u w field_simps)
  ultimately have t2: "t \<le> w" unfolding t_def using rnd_mono by metis
  have "fl (s / 60) = Fin t"
    using t1 t2 m big w by (simp add: fl_def Let_def flip: t_def)
  moreover have "\<lfloor>t\<rfloor> = m" using t1 t2 by (simp add: floor_eq_iff w)
  ultimately show ?thesis by (simp add: whole_minutes_def fs m_def)
qed

lemma seconds_bounds: "time_ok t \<Longrightarrow> 0 \<le> seconds_of_day t \<and> seconds_of_day t < 86400"
  by (auto simp: time_ok_def seconds_of_day_def)

text \<open>The minutes of an in-session moment are the exact whole minutes of the elapsed and of the
  remaining time: the two floating point divisions never round across a minute; outside the
  session both are absent.\<close>

theorem session_minutes_exact:
  assumes "config_ok c" and "0 \<le> ld_us d" and "ld_us d < 86400000000"
  shows "compute_minutes_since_open d c =
      (if fst (session_open_close c) \<le> ld_us d \<and> ld_us d \<le> snd (session_open_close c)
       then PFloat (Fin (of_int ((ld_us d - fst (session_open_close c)) div 60000000))) else PNone)
    \<and> compute_minutes_until_close d c =
      (if fst (session_open_close c) \<le> ld_us d \<and> ld_us d \<le> snd (session_open_close c)
       then PFloat (Fin (of_int ((snd (session_open_close c) - ld_us d) div 60000000))) else PNone)"
proof -
  let ?op = "fst (session_open_close c)" and ?cl = "snd (session_open_close c)"
  have b: "0 \<le> ?op" "?cl < 86400000000"
    using seconds_bounds [of "sc_open_time c"] seconds_bounds [of "sc_close_time c"] assms(1)
    by (auto simp: session_open_close_def config_ok_def)
  have "whole_minutes (ld_us d - ?op) = (ld_us d - ?op) div 60000000" if "?op \<le> ld_us d"
    by (rule whole_minutes_exact) (use that b assms in auto)
  moreover have "whole_minutes (?cl - ld_us d) = (?cl - ld_us d) div 60000000" if "ld_us d \<le> ?cl"
    by (rule whole_minutes_exact) (use that b assms in auto)
  ultimately show ?thesis
    by (auto simp: compute_minutes_since_open_def compute_minutes_until_close_def Let_def
        pos_imp_zdiv_neg_iff split: prod.split)
qed

text \<open>The classifier disagrees with itself within the second after the close: the phase, which
  drops the microseconds, is still an in-session one, but both minute counts are absent.\<close>

theorem subsecond_after_close:
  assumes "config_ok c" and "ld_us d div 1000000 = seconds_of_day (sc_close_time c)"
    and "ld_us d mod 1000000 \<noteq> 0"
  shows "classify_session_phase d c \<noteq> PHASE_POST_CLOSE \<and> classify_session_phase d c \<noteq> PHASE_PRE_OPEN
    \<and> compute_minutes_since_open d c = PNone \<and> compute_minutes_until_close d c = PNone"
proof -
  have lt: "seconds_of_day (sc_open_time c) < seconds_of_day (sc_close_time c)"
    using assms(1) by (auto simp: config_ok_def time_lt_def time_ok_def seconds_of_day_def)
  have "0 < ld_us d mod 1000000" using assms(3) pos_mod_sign [of 1000000 "ld_us d"] by linarith
  then have "seconds_of_day (sc_close_time c) * 1000000 < ld_us d"
    using assms(2) div_mult_mod_eq [of "ld_us d" 1000000] by linarith
  then show ?thesis
    using lt assms(2) by (simp add: classify_session_phase_def phase_at_def Let_def phase_defs
        compute_minutes_since_open_def compute_minutes_until_close_def session_open_close_def)
qed

subsection \<open>Expiry and favorability\<close>

text \<open>The expiry countdown is right: it is a number of days from 0 to 6, the day that many days later
  has the configured weekday, no earlier day has it, and the flag is set exactly when it is 0.\<close>

theorem expiry_countdown:
  assumes "config_ok c"
  shows "\<exists>n. compute_expiry_context d c = [(''is_expiry_day'', PBool (n = 0)), (''days_until_expiry'', PInt n)]
    \<and> 0 \<le> n \<and> n \<le> 6 \<and> weekday (ld_day d + n) = sc_expiry_weekday c
    \<and> (\<forall>k \<in> {0..<n}. weekday (ld_day d + k) \<noteq> sc_expiry_weekday c)"
proof -
  let ?e = "sc_expiry_weekday c" and ?wd = "weekday (ld_day d)"
  let ?n = "(?e - ?wd) mod 7"
  have e: "0 \<le> ?e" "?e \<le> 6" using assms by (simp_all add: config_ok_def)
  have wd: "0 \<le> ?wd" "?wd \<le> 6" by (simp_all add: weekday_def)
  have shift: "weekday (ld_day d + k) = (?wd + k) mod 7" for k
    by (simp add: weekday_def mod_simps algebra_simps)
  have "(?wd + ?n) mod 7 = ?e" using e by (simp add: mod_simps)
  moreover have "(?wd + k) mod 7 \<noteq> ?e" if "0 \<le> k" "k < ?n" for k
  proof
    assume "(?wd + k) mod 7 = ?e"
    then have "?n = k mod 7" by (metis add_diff_cancel_left' mod_diff_left_eq)
    moreover have "k mod 7 = k" using that pos_mod_bound [of 7 "?e - ?wd"] by simp
    ultimately show False using that by simp
  qed
  moreover have "?wd = ?e \<longleftrightarrow> ?n = 0" using e wd by presburger
  ultimately show ?thesis
    unfolding shift by (intro exI [of _ ?n]) (auto simp: compute_expiry_context_def Let_def shift)
qed

text \<open>The favorability of a classified moment is unfavorable exactly in the opening window and, on
  an expiry day, in the afternoon and the closing window; favorable exactly in the morning and in
  the afternoon of other days; neutral otherwise.\<close>

theorem favorability_of_phase:
  "derive_time_favorability (classify_session_phase d c) (PDict (compute_expiry_context d c)) =
    (let p = classify_session_phase d c; expiry = (weekday (ld_day d) = sc_expiry_weekday c) in
       if p = PHASE_OPENING \<or> (expiry \<and> p \<in> {PHASE_AFTERNOON, PHASE_CLOSING}) then UNFAVORABLE
       else if p = PHASE_MORNING \<or> p = PHASE_AFTERNOON then FAVORABLE else NEUTRAL)"
proof -
  let ?p = "classify_session_phase d c"
  have "?p \<in> set phase_order"
    by (simp add: classify_session_phase_def phase_at_def Let_def phase_order_def)
  moreover have "py_truthy (dict_get (compute_expiry_context d c) ''is_expiry_day'')
      \<longleftrightarrow> weekday (ld_day d) = sc_expiry_weekday c"
    by (simp add: compute_expiry_context_def Let_def dict_get_def)
  ultimately show ?thesis
    by (auto simp: phase_order_def derive_time_favorability_def Let_def base_favorability_def
        expiry_override_phases_def phase_defs UNFAVORABLE_def FAVORABLE_def NEUTRAL_def)
qed

subsection \<open>Labels and markers\<close>

lemma has_key_iff: "has_key d k \<longleftrightarrow> k \<in> set (map fst d)"
  by (simp add: has_key_def map_of_eq_None_iff)

text \<open>Classification is total and never mixes the two results: for every value passed as the
  timestamp it gives either a marker without a phase or favorability, or a label with them and
  without the unavailable flag; neither has a trade decision field.\<close>

theorem classify_session_total:
  "let r = classify_session zone ts c symbol timeframe in
     (has_key r ''unavailable'' \<noteq> has_key r ''session_phase'')
   \<and> (has_key r ''unavailable'' \<noteq> has_key r ''time_favorability'')
   \<and> (has_key r ''unavailable'' = has_key r ''reason'')
   \<and> has_key r ''symbol'' = (symbol \<noteq> None) \<and> has_key r ''timeframe'' = (timeframe \<noteq> None)
   \<and> \<not> has_key r ''action'' \<and> \<not> has_key r ''conviction''"
proof -
  have l: "has_key (session_label dt c @ opt_entry ''symbol'' symbol @ opt_entry ''timeframe'' timeframe) k
      \<longleftrightarrow> k \<in> {''session_phase'', ''minutes_since_open'', ''minutes_until_close'', ''expiry_context'', ''time_favorability''}
        \<or> (k = ''symbol'' \<and> symbol \<noteq> None) \<or> (k = ''timeframe'' \<and> timeframe \<noteq> None)" for dt k
    by (cases symbol; cases timeframe) (auto simp: has_key_iff session_label_def Let_def opt_entry_def)
  have u: "has_key (unavailable reason symbol timeframe) k
      \<longleftrightarrow> k \<in> {''unavailable'', ''reason''} \<or> (k = ''symbol'' \<and> symbol \<noteq> None)
        \<or> (k = ''timeframe'' \<and> timeframe \<noteq> None)" for reason k
    by (cases symbol; cases timeframe) (auto simp: has_key_iff unavailable_def opt_entry_def)
  show ?thesis
  proof (cases "to_local_datetime zone ts c")
    case (Inr r)
    then show ?thesis by (cases r) (simp_all add: classify_session_def Let_def l u)
  qed (simp add: classify_session_def Let_def u)
qed

subsection \<open>Witnesses\<close>

definition demo_session :: session_config where
  "demo_session = resolve_session_config (\<lambda>_. None) (\<lambda>_. None)"

lemma demo_session_ok: "config_ok demo_session"
  unfolding demo_session_def by (simp add: config_ok_def resolve_session_config_def resolve_time_def
      resolve_int_def Let_def DEFAULT_OPENING_MINUTES_def DEFAULT_CLOSING_MINUTES_def DEFAULT_EXPIRY_WEEKDAY_def)

lemma demo_session_simps:
  "seconds_of_day (sc_open_time demo_session) = 33300" "seconds_of_day (sc_close_time demo_session) = 55800"
  "windows_apart demo_session"
  by (simp_all add: demo_session_def resolve_session_config_def resolve_time_def resolve_int_def Let_def
      windows_apart_def seconds_of_day_def hm_def time_lt_def DEFAULT_SESSION_OPEN_def DEFAULT_SESSION_CLOSE_def
      DEFAULT_MIDDAY_START_def DEFAULT_MIDDAY_END_def DEFAULT_OPENING_MINUTES_def DEFAULT_CLOSING_MINUTES_def)

lemma phases_in_order_witness:
  "phase_rank (classify_session_phase \<lparr>ld_day = 0, ld_us = 36000000000\<rparr> demo_session)
     \<le> phase_rank (classify_session_phase \<lparr>ld_day = 0, ld_us = 50000000000\<rparr> demo_session)"
  by (rule phases_in_order) (simp_all add: demo_session_ok demo_session_simps)

lemma session_minutes_exact_witness:
  "compute_minutes_since_open \<lparr>ld_day = 0, ld_us = 33359999999\<rparr> demo_session = PFloat (Fin 0)"
  using session_minutes_exact [OF demo_session_ok, of "\<lparr>ld_day = 0, ld_us = 33359999999\<rparr>"]
  by (simp add: session_open_close_def demo_session_simps)

lemma subsecond_after_close_witness:
  "compute_minutes_until_close \<lparr>ld_day = 0, ld_us = 55800500000\<rparr> demo_session = PNone
   \<and> classify_session_phase \<lparr>ld_day = 0, ld_us = 55800500000\<rparr> demo_session \<noteq> PHASE_POST_CLOSE"
  using subsecond_after_close [OF demo_session_ok, of "\<lparr>ld_day = 0, ld_us = 55800500000\<rparr>"]
  by (simp add: demo_session_simps)

lemma expiry_countdown_witness:
  "\<exists>n. compute_expiry_context \<lparr>ld_day = 1, ld_us = 0\<rparr> demo_session
     = [(''is_expiry_day'', PBool (n = 0)), (''days_until_expiry'', PInt n)] \<and> n \<le> 6"
  using expiry_countdown [OF demo_session_ok, of "\<lparr>ld_day = 1, ld_us = 0\<rparr>"] by blast

end
