(* ===== verification/SessionStore.thy ===== *)
theory SessionStore
  imports PyJson EnvConfig "HOL-Library.Product_Lexorder"
begin

text \<open>
  The session store of session_store.py: sessions, their runs, the ordered frames of a run and the
  messages of a session, as the rows of four tables. Every operation runs in one transaction; the
  clock and fresh identifiers are arguments. The CHECK, UNIQUE and FOREIGN KEY constraints of the
  schema are part of the inserts and updates and raise \<open>IntegrityError\<close>; an operation that raises
  leaves the store as it was. The JSON columns hold their texts.
\<close>

subsection \<open>Vocabularies\<close>

definition SESSION_ACTIVE :: string where "SESSION_ACTIVE = ''active''"
definition SESSION_ARCHIVED :: string where "SESSION_ARCHIVED = ''archived''"
definition SESSION_DELETED :: string where "SESSION_DELETED = ''deleted''"
definition SESSION_STATUSES :: "string list" where
  "SESSION_STATUSES = [SESSION_ACTIVE, SESSION_ARCHIVED, SESSION_DELETED]"

definition RUN_KINDS :: "string list" where "RUN_KINDS = [''find'', ''verify'']"
definition RUN_RUNNING :: string where "RUN_RUNNING = ''running''"
definition RUN_WATCHING :: string where "RUN_WATCHING = ''watching''"
definition RUN_TRUNCATED :: string where "RUN_TRUNCATED = ''truncated''"
definition RUN_STATUSES :: "string list" where
  "RUN_STATUSES = [RUN_RUNNING, RUN_WATCHING, ''complete'', ''cancelled'', ''error'', RUN_TRUNCATED]"
definition RUN_LIVE_STATUSES :: "string list" where "RUN_LIVE_STATUSES = [RUN_RUNNING, RUN_WATCHING]"

definition ROLE_USER :: string where "ROLE_USER = ''user''"
definition ROLES :: "string list" where "ROLES = [ROLE_USER, ''assistant'', ''system'']"
definition MESSAGE_KINDS :: "string list" where
  "MESSAGE_KINDS = [''analysis_request'', ''analysis_answer'', ''qa_question'', ''qa_answer'', ''notice'']"
definition MSG_STREAMING :: string where "MSG_STREAMING = ''streaming''"
definition MSG_COMPLETE :: string where "MSG_COMPLETE = ''complete''"
definition MSG_TRUNCATED :: string where "MSG_TRUNCATED = ''truncated''"
definition MESSAGE_STATUSES :: "string list" where
  "MESSAGE_STATUSES = [MSG_STREAMING, MSG_COMPLETE, MSG_TRUNCATED, ''error'', ''cancelled'']"

definition MAX_CONTENT_CHARS :: nat where "MAX_CONTENT_CHARS = 200000"

subsection \<open>Identifiers\<close>

definition b32_alphabet :: string where
  "b32_alphabet = ''0123456789ABCDEFGHJKMNPQRSTVWXYZ''"

text \<open>The loop that takes five bits at a time, and the reversal.\<close>

fun b32_digits :: "nat \<Rightarrow> nat \<Rightarrow> string" where
  "b32_digits 0 value = []"
| "b32_digits (Suc k) value = b32_digits k (value div 32) @ [b32_alphabet ! (value mod 32)]"

definition new_id :: "string \<Rightarrow> nat \<Rightarrow> nat \<Rightarrow> string" where
  "new_id prefix millis bits =
     prefix @ ''_'' @ b32_digits 26 ((millis mod 2 ^ 48) * 2 ^ 80 + bits)"

subsection \<open>Tables\<close>

record session_row =
  ses_id :: string
  ses_user :: string
  ses_title :: "string option"
  ses_symbol :: string
  ses_profile :: string
  ses_timeframe :: string
  ses_status :: string
  ses_active_run :: "string option"
  ses_created_at :: pyfloat
  ses_updated_at :: pyfloat
  ses_archived_at :: "pyfloat option"
  ses_metadata :: "string option"

record run_row =
  run_id :: string
  run_session :: string
  run_user :: string
  run_thread :: string
  run_kind :: string
  run_symbol :: string
  run_timeframe :: string
  run_profile :: string
  run_model :: "string option"
  run_manual_trade :: "string option"
  run_status :: string
  run_terminal :: "string option"
  run_started_at :: pyfloat
  run_ended_at :: "pyfloat option"
  run_last_event_at :: pyfloat
  run_last_seq :: int

record message_row =
  msg_id :: string
  msg_session :: string
  msg_run :: "string option"
  msg_seq :: int
  msg_role :: string
  msg_kind :: string
  msg_content :: string
  msg_status :: string
  msg_error :: "string option"
  msg_activity :: "string option"
  msg_client :: "string option"
  msg_created_at :: pyfloat
  msg_updated_at :: pyfloat

record frame_row =
  fr_run :: string
  fr_seq :: int
  fr_event :: string
  fr_payload :: string
  fr_created_at :: pyfloat

record store_db =
  db_sessions :: "session_row list"
  db_runs :: "run_row list"
  db_messages :: "message_row list"
  db_frames :: "frame_row list"

definition empty_db :: store_db where
  "empty_db = \<lparr>db_sessions = [], db_runs = [], db_messages = [], db_frames = []\<rparr>"

subsection \<open>Constraints\<close>

definition session_check :: "session_row \<Rightarrow> bool" where
  "session_check r \<longleftrightarrow> ses_status r \<in> set SESSION_STATUSES \<and> ses_user r \<noteq> [] \<and> ses_symbol r \<noteq> []
     \<and> ses_profile r \<noteq> [] \<and> ses_timeframe r \<noteq> []
     \<and> ((ses_status r = SESSION_ACTIVE) = (ses_archived_at r = None))"

definition run_check :: "run_row \<Rightarrow> bool" where
  "run_check r \<longleftrightarrow> run_kind r \<in> set RUN_KINDS \<and> run_status r \<in> set RUN_STATUSES \<and> 0 \<le> run_last_seq r"

definition message_check :: "message_row \<Rightarrow> bool" where
  "message_check r \<longleftrightarrow> msg_role r \<in> set ROLES \<and> msg_kind r \<in> set MESSAGE_KINDS
     \<and> msg_status r \<in> set MESSAGE_STATUSES \<and> 0 < msg_seq r
     \<and> (msg_role r \<noteq> ROLE_USER \<or> msg_status r = MSG_COMPLETE)"

definition insert_session :: "session_row \<Rightarrow> store_db \<Rightarrow> store_db res" where
  "insert_session r db =
     (if session_check r \<and> ses_id r \<notin> ses_id ` set (db_sessions db)
      then Inr (db\<lparr>db_sessions := db_sessions db @ [r]\<rparr>) else Inl IntegrityError)"

definition insert_run :: "run_row \<Rightarrow> store_db \<Rightarrow> store_db res" where
  "insert_run r db =
     (if run_check r \<and> run_id r \<notin> run_id ` set (db_runs db) \<and> run_thread r \<notin> run_thread ` set (db_runs db)
        \<and> run_session r \<in> ses_id ` set (db_sessions db)
      then Inr (db\<lparr>db_runs := db_runs db @ [r]\<rparr>) else Inl IntegrityError)"

definition insert_message :: "message_row \<Rightarrow> store_db \<Rightarrow> store_db res" where
  "insert_message r db =
     (if message_check r \<and> msg_id r \<notin> msg_id ` set (db_messages db)
        \<and> (msg_session r, msg_seq r) \<notin> (\<lambda>m. (msg_session m, msg_seq m)) ` set (db_messages db)
        \<and> (msg_client r = None \<or>
           (msg_session r, msg_client r) \<notin> (\<lambda>m. (msg_session m, msg_client m)) ` set (db_messages db))
        \<and> msg_session r \<in> ses_id ` set (db_sessions db)
        \<and> (case msg_run r of None \<Rightarrow> True | Some i \<Rightarrow> i \<in> run_id ` set (db_runs db))
      then Inr (db\<lparr>db_messages := db_messages db @ [r]\<rparr>) else Inl IntegrityError)"

text \<open>\<open>INSERT OR IGNORE\<close> against the primary key \<open>(run_id, seq)\<close>.\<close>

definition insert_frame :: "frame_row \<Rightarrow> store_db \<Rightarrow> store_db" where
  "insert_frame r db =
     (if (fr_run r, fr_seq r) \<in> (\<lambda>f. (fr_run f, fr_seq f)) ` set (db_frames db) then db
      else db\<lparr>db_frames := db_frames db @ [r]\<rparr>)"

definition update_rows :: "('r \<Rightarrow> bool) \<Rightarrow> ('r \<Rightarrow> 'r) \<Rightarrow> 'r list \<Rightarrow> 'r list" where
  "update_rows p f rows = map (\<lambda>r. if p r then f r else r) rows"

definition update_sessions :: "(session_row \<Rightarrow> bool) \<Rightarrow> (session_row \<Rightarrow> session_row) \<Rightarrow> store_db \<Rightarrow> store_db res" where
  "update_sessions p f db =
     (if list_all (\<lambda>r. p r \<longrightarrow> session_check (f r)) (db_sessions db)
      then Inr (db\<lparr>db_sessions := update_rows p f (db_sessions db)\<rparr>) else Inl IntegrityError)"

definition update_runs :: "(run_row \<Rightarrow> bool) \<Rightarrow> (run_row \<Rightarrow> run_row) \<Rightarrow> store_db \<Rightarrow> store_db res" where
  "update_runs p f db =
     (if list_all (\<lambda>r. p r \<longrightarrow> run_check (f r)) (db_runs db)
      then Inr (db\<lparr>db_runs := update_rows p f (db_runs db)\<rparr>) else Inl IntegrityError)"

definition update_messages :: "(message_row \<Rightarrow> bool) \<Rightarrow> (message_row \<Rightarrow> message_row) \<Rightarrow> store_db \<Rightarrow> store_db res" where
  "update_messages p f db =
     (if list_all (\<lambda>r. p r \<longrightarrow> message_check (f r)) (db_messages db)
      then Inr (db\<lparr>db_messages := update_rows p f (db_messages db)\<rparr>) else Inl IntegrityError)"

subsection \<open>Coercions\<close>

definition text_cap :: "nat \<Rightarrow> pyval \<Rightarrow> string option" where
  "text_cap cap value = (if value = PNone then None
     else let s = filter (\<lambda>c. c \<noteq> char_of (0::nat)) (py_str value) in
       if py_strip s = [] then None
       else if cap < length s then Some (take cap s @ [char_of (10::nat)] @ ''[truncated ''
         @ int_text (int (length s - cap)) @ '' characters]'')
       else Some s)"

definition text_value :: "pyval \<Rightarrow> string option" where
  "text_value = text_cap MAX_CONTENT_CHARS"

definition required :: "pyval \<Rightarrow> string res" where
  "required value = (case text_value value of None \<Rightarrow> Inl ValueError | Some s \<Rightarrow> Inr s)"

definition json_or_none :: "pyval \<Rightarrow> string option" where
  "json_or_none value = (if value = PNone then None else Some (json_ascii value))"

definition touch :: "string \<Rightarrow> pyfloat \<Rightarrow> store_db \<Rightarrow> store_db res" where
  "touch session_id stamp = update_sessions (\<lambda>r. ses_id r = session_id) (\<lambda>r. r\<lparr>ses_updated_at := stamp\<rparr>)"

definition find_session :: "string \<Rightarrow> store_db \<Rightarrow> session_row option" where
  "find_session session_id db = find (\<lambda>r. ses_id r = session_id) (db_sessions db)"

definition find_owned :: "string \<Rightarrow> string \<Rightarrow> store_db \<Rightarrow> session_row option" where
  "find_owned session_id uid db = find (\<lambda>r. ses_id r = session_id \<and> ses_user r = uid) (db_sessions db)"

subsection \<open>Sessions\<close>

definition create_session ::
  "string \<Rightarrow> pyfloat \<Rightarrow> pyval \<Rightarrow> pyval \<Rightarrow> pyval \<Rightarrow> pyval \<Rightarrow> pyval \<Rightarrow> pyval \<Rightarrow> store_db \<Rightarrow> (store_db \<times> session_row) res"
  where
  "create_session fresh stamp user_id symbol profile timeframe title metadata db =
     rbind (required user_id) (\<lambda>uid. rbind (required symbol) (\<lambda>sym.
     rbind (required profile) (\<lambda>prof. rbind (required timeframe) (\<lambda>tf.
       let r = \<lparr>ses_id = fresh, ses_user = uid, ses_title = text_cap 200 title, ses_symbol = py_upper sym,
                ses_profile = py_upper prof, ses_timeframe = tf, ses_status = SESSION_ACTIVE,
                ses_active_run = None, ses_created_at = stamp, ses_updated_at = stamp,
                ses_archived_at = None, ses_metadata = json_or_none metadata\<rparr>
       in rbind (insert_session r db) (\<lambda>db'. Inr (db', r))))))"

definition get_session_for_user :: "string \<Rightarrow> pyval \<Rightarrow> store_db \<Rightarrow> session_row option res" where
  "get_session_for_user session_id user_id db =
     rbind (required user_id) (\<lambda>uid. Inr (find_owned session_id uid db))"

text \<open>SQLite's \<open>LIKE\<close>: \<open>%\<close> is any text, \<open>_\<close> any character, ASCII letters match in both cases.\<close>

fun sql_like :: "string \<Rightarrow> string \<Rightarrow> bool" where
  "sql_like [] s = (s = [])"
| "sql_like (p # ps) [] = (p = CHR ''%'' \<and> sql_like ps [])"
| "sql_like (p # ps) (c # s) =
     (if p = CHR ''%'' then sql_like ps (c # s) \<or> sql_like (p # ps) s
      else (p = CHR ''_'' \<or> upper_char p = upper_char c) \<and> sql_like ps s)"

definition matches_query :: "string \<Rightarrow> session_row \<Rightarrow> bool" where
  "matches_query query r = (let like = CHR ''%'' # py_upper (py_strip query) @ ''%'' in
     sql_like like (ses_symbol r)
     \<or> sql_like like (py_upper (case ses_title r of None \<Rightarrow> [] | Some t \<Rightarrow> t)))"

definition status_matches :: "string option \<Rightarrow> session_row \<Rightarrow> bool" where
  "status_matches status r = (case status of Some s \<Rightarrow> ses_status r = s | None \<Rightarrow> ses_status r \<noteq> SESSION_DELETED)"

text \<open>\<open>ORDER BY updated_at DESC, session_id DESC\<close>, and the keyset predicate of a cursor.\<close>

definition newer :: "session_row \<Rightarrow> session_row \<Rightarrow> bool" where
  "newer a b \<longleftrightarrow> ses_updated_at b < ses_updated_at a
     \<or> (ses_updated_at a = ses_updated_at b \<and> ses_id b \<le> ses_id a)"

fun insert_by_newer :: "session_row \<Rightarrow> session_row list \<Rightarrow> session_row list" where
  "insert_by_newer a [] = [a]"
| "insert_by_newer a (b # bs) = (if newer a b then a # b # bs else b # insert_by_newer a bs)"

definition sort_newest :: "session_row list \<Rightarrow> session_row list" where
  "sort_newest rs = foldr insert_by_newer rs []"

definition after_cursor :: "(pyfloat \<times> string) option \<Rightarrow> session_row \<Rightarrow> bool" where
  "after_cursor cursor r = (case cursor of None \<Rightarrow> True
     | Some (stamp, sid) \<Rightarrow> ses_updated_at r < stamp \<or> (ses_updated_at r = stamp \<and> ses_id r < sid))"

definition encode_cursor :: "pyfloat \<times> string \<Rightarrow> string" where
  "encode_cursor c = py_repr (PFloat (fst c)) @ ''|'' @ snd c"

fun partition_bar :: "string \<Rightarrow> string \<times> string" where
  "partition_bar [] = ([], [])"
| "partition_bar (c # cs) = (if c = CHR ''|'' then ([], cs)
     else (let (a, b) = partition_bar cs in (c # a, b)))"

definition decode_cursor :: "string \<Rightarrow> (pyfloat \<times> string) option" where
  "decode_cursor cursor = (let (stamp, sid) = partition_bar cursor in
     if sid = [] then None else map_option (\<lambda>f. (f, sid)) (parse_float stamp))"

definition page_limit :: "int \<Rightarrow> nat" where
  "page_limit limit = nat (max 1 (min limit 100))"

definition session_page ::
  "(session_row \<Rightarrow> bool) \<Rightarrow> (pyfloat \<times> string) option \<Rightarrow> nat \<Rightarrow> store_db \<Rightarrow>
     session_row list \<times> (pyfloat \<times> string) option" where
  "session_page p cursor limit db =
     (let rows = take (limit + 1) (sort_newest (filter (\<lambda>r. p r \<and> after_cursor cursor r) (db_sessions db)));
          has_more = limit < length rows; items = take limit rows
      in (items, if has_more \<and> items \<noteq> [] then Some (ses_updated_at (last items), ses_id (last items)) else None))"

definition list_filter :: "string \<Rightarrow> string option \<Rightarrow> string option \<Rightarrow> session_row \<Rightarrow> bool" where
  "list_filter uid status query r \<longleftrightarrow> ses_user r = uid \<and> status_matches status r
     \<and> (case query of None \<Rightarrow> True | Some q \<Rightarrow> py_strip q = [] \<or> matches_query q r)"

definition list_sessions ::
  "pyval \<Rightarrow> string option \<Rightarrow> string option \<Rightarrow> int \<Rightarrow> string option \<Rightarrow> store_db \<Rightarrow>
     (session_row list \<times> string option) res" where
  "list_sessions user_id status cursor limit query db =
     rbind (required user_id) (\<lambda>uid.
       if (case status of Some s \<Rightarrow> s \<notin> set SESSION_STATUSES | None \<Rightarrow> False) then Inl ValueError
       else let parsed = (case cursor of None \<Rightarrow> None | Some c \<Rightarrow> if c = [] then None else decode_cursor c);
                (items, next) = session_page (list_filter uid status query) parsed (page_limit limit) db
            in Inr (items, map_option encode_cursor next))"

definition MUTABLE_SESSION_FIELDS :: "string list" where
  "MUTABLE_SESSION_FIELDS = [''title'', ''timeframe'', ''status'', ''active_run_id'', ''metadata'']"

definition IMMUTABLE_SESSION_FIELDS :: "string list" where
  "IMMUTABLE_SESSION_FIELDS = [''symbol'', ''profile'', ''session_id'', ''user_id'', ''created_at'']"

fun check_patch_keys :: "string list \<Rightarrow> unit res" where
  "check_patch_keys [] = Inr ()"
| "check_patch_keys (k # ks) =
     (if k \<in> set IMMUTABLE_SESSION_FIELDS then Inl ImmutableFieldError
      else if k \<notin> set MUTABLE_SESSION_FIELDS then Inl ValueError else check_patch_keys ks)"

text \<open>The assignments that a patch builds, as one function on the row.\<close>

definition patch_status :: "pydict \<Rightarrow> pyfloat \<Rightarrow> session_row \<Rightarrow> session_row res" where
  "patch_status patch stamp r =
     (if \<not> has_key patch ''status'' then Inr r
      else case dict_get patch ''status'' of
        PStr s \<Rightarrow> if s \<notin> set SESSION_STATUSES then Inl ValueError
          else Inr (r\<lparr>ses_status := s, ses_archived_at := (if s = SESSION_ACTIVE then None else Some stamp)\<rparr>)
      | _ \<Rightarrow> Inl ValueError)"

definition patch_timeframe :: "pydict \<Rightarrow> session_row \<Rightarrow> session_row res" where
  "patch_timeframe patch r =
     (if \<not> has_key patch ''timeframe'' then Inr r
      else rbind (required (dict_get patch ''timeframe'')) (\<lambda>tf. Inr (r\<lparr>ses_timeframe := tf\<rparr>)))"

definition patch_row :: "pydict \<Rightarrow> pyfloat \<Rightarrow> session_row \<Rightarrow> session_row res" where
  "patch_row patch stamp r =
     (let r1 = (if has_key patch ''title'' then r\<lparr>ses_title := text_cap 200 (dict_get patch ''title'')\<rparr> else r) in
      rbind (patch_timeframe patch r1) (\<lambda>r2.
        let r3 = (if has_key patch ''active_run_id''
                  then r2\<lparr>ses_active_run := text_value (dict_get patch ''active_run_id'')\<rparr> else r2);
            r4 = (if has_key patch ''metadata''
                  then r3\<lparr>ses_metadata := json_or_none (dict_get patch ''metadata'')\<rparr> else r3)
        in rbind (patch_status patch stamp r4) (\<lambda>r5. Inr (r5\<lparr>ses_updated_at := stamp\<rparr>))))"

text \<open>The values are checked before the statement runs, whether or not a row matches it.\<close>

definition check_patch :: "pydict \<Rightarrow> unit res" where
  "check_patch patch = rbind (check_patch_keys (map fst patch)) (\<lambda>_.
     rbind (if has_key patch ''timeframe'' then required (dict_get patch ''timeframe'') else Inr []) (\<lambda>_.
       if \<not> has_key patch ''status'' then Inr ()
       else case dict_get patch ''status'' of
         PStr s \<Rightarrow> if s \<in> set SESSION_STATUSES then Inr () else Inl ValueError | _ \<Rightarrow> Inl ValueError))"

definition update_session ::
  "string \<Rightarrow> pyval \<Rightarrow> pydict \<Rightarrow> pyfloat \<Rightarrow> store_db \<Rightarrow> (store_db \<times> session_row option) res" where
  "update_session session_id user_id patch stamp db =
     rbind (required user_id) (\<lambda>uid. rbind (check_patch patch) (\<lambda>_.
       if patch = [] then Inr (db, find_owned session_id uid db)
       else let p = (\<lambda>r. ses_id r = session_id \<and> ses_user r = uid);
                f = (\<lambda>r. case patch_row patch stamp r of Inr r' \<Rightarrow> r' | Inl _ \<Rightarrow> r)
            in rbind (update_sessions p f db) (\<lambda>db'.
                 Inr (db', if list_ex p (db_sessions db) then find_session session_id db' else None))))"

definition archive_session :: "string \<Rightarrow> pyval \<Rightarrow> pyfloat \<Rightarrow> store_db \<Rightarrow> (store_db \<times> session_row option) res" where
  "archive_session session_id user_id stamp db =
     update_session session_id user_id [(''status'', PStr SESSION_ARCHIVED)] stamp db"

definition reopen_session :: "string \<Rightarrow> pyval \<Rightarrow> pyfloat \<Rightarrow> store_db \<Rightarrow> (store_db \<times> session_row option) res" where
  "reopen_session session_id user_id stamp db =
     update_session session_id user_id [(''status'', PStr SESSION_ACTIVE)] stamp db"

text \<open>The deletes of a hard delete, with the cascades of the schema: frames go with their run, and the
  \<open>run_id\<close> of other messages that name a deleted run becomes NULL.\<close>

definition scrub :: "string \<Rightarrow> store_db \<Rightarrow> store_db" where
  "scrub session_id db =
     (let gone = run_id ` set (filter (\<lambda>r. run_session r = session_id) (db_runs db)) in
      db\<lparr>db_frames := filter (\<lambda>f. fr_run f \<notin> gone) (db_frames db),
         db_messages := map (\<lambda>m. case msg_run m of
              Some i \<Rightarrow> if i \<in> gone then m\<lparr>msg_run := None\<rparr> else m | None \<Rightarrow> m)
            (filter (\<lambda>m. msg_session m \<noteq> session_id) (db_messages db)),
         db_runs := filter (\<lambda>r. run_session r \<noteq> session_id) (db_runs db)\<rparr>)"

definition tombstone :: "pyfloat \<Rightarrow> session_row \<Rightarrow> session_row" where
  "tombstone stamp r = r\<lparr>ses_status := SESSION_DELETED, ses_title := None, ses_active_run := None,
     ses_metadata := None, ses_archived_at := Some stamp, ses_updated_at := stamp\<rparr>"

definition delete_session ::
  "string \<Rightarrow> pyval \<Rightarrow> bool \<Rightarrow> pyfloat \<Rightarrow> store_db \<Rightarrow> (store_db \<times> session_row option) res" where
  "delete_session session_id user_id hard stamp db =
     rbind (required user_id) (\<lambda>uid.
       if \<not> hard then update_session session_id (PStr uid) [(''status'', PStr SESSION_DELETED)] stamp db
       else case find_owned session_id uid db of
         None \<Rightarrow> Inr (db, None)
       | Some _ \<Rightarrow> rbind (update_sessions (\<lambda>r. ses_id r = session_id \<and> ses_user r = uid) (tombstone stamp)
             (scrub session_id db)) (\<lambda>db'. Inr (db', find_session session_id db')))"

subsection \<open>Runs\<close>

record run_args =
  new_kind :: string
  new_symbol :: pyval
  new_timeframe :: pyval
  new_profile :: pyval
  new_model :: pyval
  new_manual_trade :: pyval
  new_thread :: pyval

definition create_run ::
  "string \<Rightarrow> string \<Rightarrow> pyfloat \<Rightarrow> string \<Rightarrow> pyval \<Rightarrow> run_args \<Rightarrow> store_db \<Rightarrow> (store_db \<times> run_row option) res" where
  "create_run fresh_run fresh_thread stamp session_id user_id a db =
     rbind (required user_id) (\<lambda>uid.
       if new_kind a \<notin> set RUN_KINDS then Inl ValueError
       else case find_owned session_id uid db of
         None \<Rightarrow> Inr (db, None)
       | Some owned \<Rightarrow>
           if ses_status owned = SESSION_DELETED then Inr (db, None)
           else rbind (required (new_symbol a)) (\<lambda>sym. rbind (required (new_timeframe a)) (\<lambda>tf.
             rbind (required (new_profile a)) (\<lambda>prof.
             let tid = (case text_value (new_thread a) of Some t \<Rightarrow> t | None \<Rightarrow> fresh_thread);
                 r = \<lparr>run_id = fresh_run, run_session = session_id, run_user = uid, run_thread = tid,
                      run_kind = new_kind a, run_symbol = py_upper sym, run_timeframe = tf,
                      run_profile = py_upper prof, run_model = text_value (new_model a),
                      run_manual_trade = json_or_none (new_manual_trade a), run_status = RUN_RUNNING,
                      run_terminal = None, run_started_at = stamp, run_ended_at = None,
                      run_last_event_at = stamp, run_last_seq = 0\<rparr>
             in rbind (insert_run r db) (\<lambda>db1.
                rbind (update_sessions (\<lambda>s. ses_id s = session_id)
                    (\<lambda>s. s\<lparr>ses_active_run := Some fresh_run, ses_updated_at := stamp\<rparr>) db1) (\<lambda>db2.
                Inr (db2, Some r)))))))"

definition get_run_for_user :: "string \<Rightarrow> pyval \<Rightarrow> store_db \<Rightarrow> run_row option res" where
  "get_run_for_user rid user_id db =
     rbind (required user_id) (\<lambda>uid. Inr (find (\<lambda>r. run_id r = rid \<and> run_user r = uid) (db_runs db)))"

definition get_run_by_thread_for_user :: "string \<Rightarrow> pyval \<Rightarrow> store_db \<Rightarrow> run_row option res" where
  "get_run_by_thread_for_user tid user_id db =
     rbind (required user_id) (\<lambda>uid. Inr (find (\<lambda>r. run_thread r = tid \<and> run_user r = uid) (db_runs db)))"

definition get_run_by_thread :: "string \<Rightarrow> store_db \<Rightarrow> run_row option" where
  "get_run_by_thread tid db = find (\<lambda>r. run_thread r = tid) (db_runs db)"

definition list_runs :: "string \<Rightarrow> pyval \<Rightarrow> store_db \<Rightarrow> run_row list res" where
  "list_runs session_id user_id db = rbind (required user_id) (\<lambda>uid. Inr
     (sort_key (\<lambda>r. (run_started_at r, run_id r))
       (filter (\<lambda>r. run_session r = session_id \<and> find_owned session_id uid db \<noteq> None) (db_runs db))))"

text \<open>The Booleans are \<open>cur.rowcount > 0\<close>.\<close>

definition open_run :: "string \<Rightarrow> run_row \<Rightarrow> bool" where
  "open_run rid r \<longleftrightarrow> run_id r = rid \<and> run_terminal r = None"

definition update_run_status :: "string \<Rightarrow> string \<Rightarrow> pyfloat \<Rightarrow> store_db \<Rightarrow> (store_db \<times> bool) res" where
  "update_run_status rid status stamp db =
     (if status \<notin> set RUN_LIVE_STATUSES then Inl ValueError
      else rbind (update_runs (open_run rid) (\<lambda>r. r\<lparr>run_status := status, run_last_event_at := stamp\<rparr>) db)
        (\<lambda>db'. Inr (db', list_ex (open_run rid) (db_runs db))))"

definition close_run :: "string \<Rightarrow> pyfloat \<Rightarrow> run_row \<Rightarrow> run_row" where
  "close_run status stamp r = r\<lparr>run_status := status, run_terminal := Some status,
     run_ended_at := Some stamp, run_last_event_at := stamp\<rparr>"

definition touch_run_session :: "string \<Rightarrow> pyfloat \<Rightarrow> store_db \<Rightarrow> store_db res" where
  "touch_run_session rid stamp db = (case find (\<lambda>r. run_id r = rid) (db_runs db) of
     None \<Rightarrow> Inr db | Some r \<Rightarrow> touch (run_session r) stamp db)"

definition finalize_run :: "string \<Rightarrow> string \<Rightarrow> pyfloat \<Rightarrow> store_db \<Rightarrow> (store_db \<times> bool) res" where
  "finalize_run rid terminal_status stamp db =
     (if terminal_status \<notin> set RUN_STATUSES \<or> terminal_status \<in> set RUN_LIVE_STATUSES then Inl ValueError
      else rbind (update_runs (open_run rid) (close_run terminal_status stamp) db) (\<lambda>db1.
        if list_ex (open_run rid) (db_runs db)
        then rbind (touch_run_session rid stamp db1) (\<lambda>db2. Inr (db2, True))
        else Inr (db1, False)))"

subsection \<open>Frames\<close>

text \<open>The rows of a batch, numbered from \<open>seq\<close> on.\<close>

fun number_frames :: "string \<Rightarrow> pyfloat \<Rightarrow> int \<Rightarrow> (pyval \<times> pyval) list \<Rightarrow> frame_row list res" where
  "number_frames rid stamp seq [] = Inr []"
| "number_frames rid stamp seq ((event, payload) # es) =
     rbind (required event) (\<lambda>ev. rbind (number_frames rid stamp (seq + 1) es) (\<lambda>rs.
       Inr (\<lparr>fr_run = rid, fr_seq = seq + 1, fr_event = ev,
             fr_payload = (case json_or_none payload of Some j \<Rightarrow> j | None \<Rightarrow> ''{}''),
             fr_created_at = stamp\<rparr> # rs)))"

text \<open>
  \<open>append_run_events\<close> reads \<open>last_seq\<close> and then writes; the transaction begins with the first INSERT.
  \<open>read_last_seq\<close> is the read, \<open>write_frames\<close> the rest; \<open>OR IGNORE\<close> does not cover the foreign key of a run
  that was deleted in between.
\<close>

definition read_last_seq :: "string \<Rightarrow> store_db \<Rightarrow> (string \<times> int) option" where
  "read_last_seq rid db = map_option (\<lambda>r. (run_session r, run_last_seq r)) (find (\<lambda>r. run_id r = rid) (db_runs db))"

definition write_frames ::
  "string \<Rightarrow> string \<times> int \<Rightarrow> (pyval \<times> pyval) list \<Rightarrow> pyfloat \<Rightarrow> store_db \<Rightarrow> (store_db \<times> int) res" where
  "write_frames rid seen es stamp db =
     rbind (number_frames rid stamp (snd seen) es) (\<lambda>rows.
       if rows \<noteq> [] \<and> rid \<notin> run_id ` set (db_runs db) then Inl IntegrityError else
       let seq = snd seen + int (length es) in
       rbind (update_runs (\<lambda>r. run_id r = rid) (\<lambda>r. r\<lparr>run_last_seq := seq, run_last_event_at := stamp\<rparr>)
           (fold insert_frame rows db)) (\<lambda>db2.
       rbind (touch (fst seen) stamp db2) (\<lambda>db3. Inr (db3, seq))))"

definition append_run_events ::
  "string \<Rightarrow> (pyval \<times> pyval) list \<Rightarrow> pyfloat \<Rightarrow> store_db \<Rightarrow> (store_db \<times> int) res" where
  "append_run_events rid es stamp db = (case read_last_seq rid db of
     None \<Rightarrow> Inr (db, 0)
   | Some seen \<Rightarrow> if es = [] then Inr (db, snd seen) else write_frames rid seen es stamp db)"

definition list_run_events :: "string \<Rightarrow> int \<Rightarrow> int \<Rightarrow> store_db \<Rightarrow> frame_row list \<times> int" where
  "list_run_events rid after_seq limit db = (case read_last_seq rid db of
     None \<Rightarrow> ([], 0)
   | Some seen \<Rightarrow> (take (nat (max 1 (min limit 5000))) (sort_key fr_seq
        (filter (\<lambda>f. fr_run f = rid \<and> max 0 after_seq < fr_seq f) (db_frames db))), snd seen))"

subsection \<open>Messages\<close>

record message_args =
  new_role :: string
  new_msg_kind :: string
  new_status :: string
  new_content :: pyval
  new_run :: pyval
  new_client :: pyval
  new_activity :: pyval
  new_error :: pyval

definition next_seq :: "string \<Rightarrow> store_db \<Rightarrow> int" where
  "next_seq session_id db =
     fold (\<lambda>m a. max (msg_seq m) a) (filter (\<lambda>m. msg_session m = session_id) (db_messages db)) 0 + 1"

definition create_message ::
  "string \<Rightarrow> pyfloat \<Rightarrow> string \<Rightarrow> message_args \<Rightarrow> store_db \<Rightarrow> (store_db \<times> message_row option) res" where
  "create_message fresh stamp session_id a db =
     (if new_role a \<notin> set ROLES \<or> new_msg_kind a \<notin> set MESSAGE_KINDS \<or> new_status a \<notin> set MESSAGE_STATUSES
         \<or> (new_role a = ROLE_USER \<and> new_status a \<noteq> MSG_COMPLETE) then Inl ValueError
      else if find_session session_id db = None then Inr (db, None)
      else let cid = text_cap 200 (new_client a) in
        case (if cid = None then None
              else find (\<lambda>m. msg_session m = session_id \<and> msg_client m = cid) (db_messages db)) of
          Some prior \<Rightarrow> Inr (db, Some prior)
        | None \<Rightarrow>
            let r = \<lparr>msg_id = fresh, msg_session = session_id, msg_run = text_value (new_run a),
                     msg_seq = next_seq session_id db, msg_role = new_role a, msg_kind = new_msg_kind a,
                     msg_content = (case text_value (new_content a) of Some s \<Rightarrow> s | None \<Rightarrow> []),
                     msg_status = new_status a, msg_error = text_value (new_error a),
                     msg_activity = json_or_none (new_activity a), msg_client = cid,
                     msg_created_at = stamp, msg_updated_at = stamp\<rparr>
            in rbind (insert_message r db) (\<lambda>db1. rbind (touch session_id stamp db1) (\<lambda>db2. Inr (db2, Some r))))"

definition strip_nul :: "string \<Rightarrow> string" where
  "strip_nul s = filter (\<lambda>c. c \<noteq> char_of (0::nat)) s"

definition coalesce :: "'a option \<Rightarrow> 'a option \<Rightarrow> 'a option" where
  "coalesce a b = (case a of Some x \<Rightarrow> Some x | None \<Rightarrow> b)"

definition streaming :: "string \<Rightarrow> message_row \<Rightarrow> bool" where
  "streaming mid m \<longleftrightarrow> msg_id m = mid \<and> msg_status m = MSG_STREAMING"

definition touch_message_session :: "string \<Rightarrow> pyfloat \<Rightarrow> store_db \<Rightarrow> store_db res" where
  "touch_message_session mid stamp db = (case find (\<lambda>m. msg_id m = mid) (db_messages db) of
     None \<Rightarrow> Inr db | Some m \<Rightarrow> touch (msg_session m) stamp db)"

definition add_delta :: "string \<Rightarrow> pyval \<Rightarrow> pyfloat \<Rightarrow> message_row \<Rightarrow> message_row" where
  "add_delta delta activity stamp m =
     m\<lparr>msg_content := take MAX_CONTENT_CHARS (msg_content m @ strip_nul delta),
       msg_activity := coalesce (json_or_none activity) (msg_activity m), msg_updated_at := stamp\<rparr>"

definition append_message_delta ::
  "string \<Rightarrow> string \<Rightarrow> pyval \<Rightarrow> pyfloat \<Rightarrow> store_db \<Rightarrow> (store_db \<times> bool) res" where
  "append_message_delta mid delta activity stamp db =
     rbind (update_messages (streaming mid) (add_delta delta activity stamp) db) (\<lambda>db1.
       if list_ex (streaming mid) (db_messages db)
       then rbind (touch_message_session mid stamp db1) (\<lambda>db2. Inr (db2, True)) else Inr (db1, False))"

definition close_message ::
  "string \<Rightarrow> string option \<Rightarrow> pyval \<Rightarrow> pyval \<Rightarrow> pyfloat \<Rightarrow> message_row \<Rightarrow> message_row" where
  "close_message status content error activity stamp m =
     m\<lparr>msg_status := status,
       msg_content := (case content of None \<Rightarrow> msg_content m
                       | Some c \<Rightarrow> take MAX_CONTENT_CHARS (strip_nul c)),
       msg_error := coalesce (text_value error) (msg_error m),
       msg_activity := coalesce (json_or_none activity) (msg_activity m), msg_updated_at := stamp\<rparr>"

definition finalize_message ::
  "string \<Rightarrow> string \<Rightarrow> string option \<Rightarrow> pyval \<Rightarrow> pyval \<Rightarrow> pyfloat \<Rightarrow> store_db \<Rightarrow> (store_db \<times> bool) res" where
  "finalize_message mid status content error activity stamp db =
     (if status \<notin> set MESSAGE_STATUSES \<or> status = MSG_STREAMING then Inl ValueError
      else rbind (update_messages (streaming mid) (close_message status content error activity stamp) db) (\<lambda>db1.
        if list_ex (streaming mid) (db_messages db)
        then rbind (touch_message_session mid stamp db1) (\<lambda>db2. Inr (db2, True)) else Inr (db1, False)))"

definition list_messages :: "string \<Rightarrow> pyval \<Rightarrow> int \<Rightarrow> int \<Rightarrow> store_db \<Rightarrow> (message_row list \<times> int) res" where
  "list_messages session_id user_id after_seq limit db =
     rbind (required user_id) (\<lambda>uid. Inr (case find_owned session_id uid db of
       None \<Rightarrow> ([], 0)
     | Some _ \<Rightarrow> (take (nat (max 1 (min limit 1000))) (sort_key msg_seq
          (filter (\<lambda>m. msg_session m = session_id \<and> max 0 after_seq < msg_seq m) (db_messages db))),
          next_seq session_id db - 1)))"

subsection \<open>Reconciliation and retention\<close>

text \<open>\<open>graph thread\<close> is whether LangGraph reports a pending step for the thread, False on any failure;
  \<open>None\<close> is the absence of a checkpointer.\<close>

definition thread_has_pending_step :: "(string \<Rightarrow> bool) option \<Rightarrow> string \<Rightarrow> bool" where
  "thread_has_pending_step graph tid = (case graph of None \<Rightarrow> False | Some pending \<Rightarrow> tid \<noteq> [] \<and> pending tid)"

definition truncate_run :: "pyfloat \<Rightarrow> run_row \<Rightarrow> run_row" where
  "truncate_run stamp r = r\<lparr>run_status := RUN_TRUNCATED, run_terminal := coalesce (run_terminal r) (Some RUN_TRUNCATED),
     run_ended_at := coalesce (run_ended_at r) (Some stamp), run_last_event_at := stamp\<rparr>"

definition truncate_message :: "pyfloat \<Rightarrow> message_row \<Rightarrow> message_row" where
  "truncate_message stamp m = m\<lparr>msg_status := MSG_TRUNCATED, msg_updated_at := stamp\<rparr>"

definition live_run :: "run_row \<Rightarrow> bool" where
  "live_run r \<longleftrightarrow> run_status r \<in> set RUN_LIVE_STATUSES"

definition reconcile_one ::
  "(string \<Rightarrow> bool) option \<Rightarrow> pyfloat \<Rightarrow> store_db \<times> nat \<Rightarrow> run_row \<Rightarrow> (store_db \<times> nat) res" where
  "reconcile_one graph stamp s row = (let (db, adjusted) = s in
     if thread_has_pending_step graph (run_thread row)
     then rbind (update_runs (\<lambda>r. run_id r = run_id row)
            (\<lambda>r. r\<lparr>run_status := RUN_WATCHING, run_last_event_at := stamp\<rparr>) db) (\<lambda>db'. Inr (db', adjusted))
     else rbind (update_runs (\<lambda>r. run_id r = run_id row) (truncate_run stamp) db) (\<lambda>db1.
          rbind (update_messages (\<lambda>m. msg_run m = Some (run_id row) \<and> msg_status m = MSG_STREAMING)
            (truncate_message stamp) db1) (\<lambda>db2. Inr (db2, adjusted + 1))))"

definition orphan :: "store_db \<Rightarrow> message_row \<Rightarrow> bool" where
  "orphan db m \<longleftrightarrow> msg_status m = MSG_STREAMING \<and> (case msg_run m of None \<Rightarrow> False
     | Some i \<Rightarrow> i \<notin> run_id ` set (filter live_run (db_runs db)))"

definition reconcile_stale_runs ::
  "(string \<Rightarrow> bool) option \<Rightarrow> pyfloat \<Rightarrow> store_db \<Rightarrow> (store_db \<times> nat) res" where
  "reconcile_stale_runs graph stamp db =
     rbind (rfold (reconcile_one graph stamp) (db, 0) (filter live_run (db_runs db))) (\<lambda>(db1, adjusted).
     rbind (update_messages (orphan db1) (truncate_message stamp) db1) (\<lambda>db2.
       Inr (db2, adjusted + length (filter (orphan db1) (db_messages db1)))))"

text \<open>The variant for a running event loop prefers the checkpointer's asynchronous reader where it has one.
  It reads the live runs before its first write opens the transaction, and every other task of the
  loop may run while it awaits the checkpointer: \<open>rows\<close> is what the query returned, \<open>db\<close> the store
  the writes meet.\<close>

definition athread_has_pending_step ::
  "((string \<Rightarrow> bool) option \<times> (string \<Rightarrow> bool)) option \<Rightarrow> string \<Rightarrow> bool" where
  "athread_has_pending_step graph tid = (case graph of None \<Rightarrow> False
     | Some (aget_state, get_state) \<Rightarrow> tid \<noteq> [] \<and> (case aget_state of Some f \<Rightarrow> f tid | None \<Rightarrow> get_state tid))"

definition areconcile_rows ::
  "((string \<Rightarrow> bool) option \<times> (string \<Rightarrow> bool)) option \<Rightarrow> pyfloat \<Rightarrow> run_row list \<Rightarrow> store_db \<Rightarrow> (store_db \<times> nat) res" where
  "areconcile_rows graph stamp rows db =
     rbind (rfold (reconcile_one (Some (athread_has_pending_step graph)) stamp) (db, 0) rows) (\<lambda>(db1, adjusted).
     rbind (update_messages (orphan db1) (truncate_message stamp) db1) (\<lambda>db2.
       Inr (db2, adjusted + length (filter (orphan db1) (db_messages db1)))))"

definition areconcile_stale_runs ::
  "((string \<Rightarrow> bool) option \<times> (string \<Rightarrow> bool)) option \<Rightarrow> pyfloat \<Rightarrow> (store_db \<Rightarrow> store_db) \<Rightarrow> store_db \<Rightarrow> (store_db \<times> nat) res" where
  "areconcile_stale_runs graph stamp others db =
     areconcile_rows graph stamp (filter live_run (db_runs db)) (others db)"

definition retention_days :: "env \<Rightarrow> pyfloat" where
  "retention_days env = (let raw = py_strip (case env ''RUN_EVENTS_RETENTION_DAYS'' of None \<Rightarrow> [] | Some v \<Rightarrow> v) in
     if raw = [] then Fin 90
     else case parse_float raw of None \<Rightarrow> Fin 90 | Some f \<Rightarrow> fmax (Fin 0) f)"

definition prunable :: "pyfloat \<Rightarrow> run_row \<Rightarrow> bool" where
  "prunable cutoff r \<longleftrightarrow> \<not> live_run r
     \<and> flt (case run_ended_at r of Some e \<Rightarrow> e | None \<Rightarrow> run_last_event_at r) cutoff"

definition prune_run_events :: "env \<Rightarrow> pyfloat option \<Rightarrow> pyfloat \<Rightarrow> store_db \<Rightarrow> store_db \<times> nat" where
  "prune_run_events env days now db =
     (let window = (case days of None \<Rightarrow> retention_days env | Some d \<Rightarrow> fmax (Fin 0) d) in
      if fle window (Fin 0) then (db, 0)
      else let cutoff = fsub now (fmul window (Fin 86400));
               old = run_id ` set (filter (prunable cutoff) (db_runs db));
               keep = filter (\<lambda>f. fr_run f \<notin> old) (db_frames db)
           in (db\<lparr>db_frames := keep\<rparr>, length (db_frames db) - length keep))"

definition stats :: "store_db \<Rightarrow> pydict" where
  "stats db = [(''sessions'', PInt (int (length (db_sessions db)))), (''runs'', PInt (int (length (db_runs db)))),
     (''messages'', PInt (int (length (db_messages db)))), (''run_events'', PInt (int (length (db_frames db))))]"

end
