(* ===== verification/SessionStoreFacts.thy ===== *)
theory SessionStoreFacts
  imports SessionStore
begin

text \<open>
  The invariant of the session store and its preservation by every operation: constraints,
  unique keys, references, dense message numbers, ordered frames and consistent run states.
\<close>

named_theorems store_rows \<open>what each row update does to the keys\<close>

subsection \<open>The invariant\<close>

definition run_state_ok :: "run_row \<Rightarrow> bool" where
  "run_state_ok r \<longleftrightarrow> (live_run r = (run_terminal r = None)) \<and> (run_terminal r = None) = (run_ended_at r = None)
     \<and> (case run_terminal r of None \<Rightarrow> True | Some s \<Rightarrow> run_status r = s)"

definition sessions_ok :: "store_db \<Rightarrow> bool" where
  "sessions_ok db \<longleftrightarrow> list_all session_check (db_sessions db) \<and> distinct (map ses_id (db_sessions db))"

definition runs_ok :: "store_db \<Rightarrow> bool" where
  "runs_ok db \<longleftrightarrow> list_all run_check (db_runs db) \<and> list_all run_state_ok (db_runs db)
     \<and> distinct (map run_id (db_runs db)) \<and> distinct (map run_thread (db_runs db))
     \<and> run_session ` set (db_runs db) \<subseteq> ses_id ` set (db_sessions db)"

definition seqs_of :: "string \<Rightarrow> message_row list \<Rightarrow> int list" where
  "seqs_of sid ms = map msg_seq (filter (\<lambda>m. msg_session m = sid) ms)"

definition client_keys :: "message_row list \<Rightarrow> (string \<times> string option) list" where
  "client_keys ms = map (\<lambda>m. (msg_session m, msg_client m)) (filter (\<lambda>m. msg_client m \<noteq> None) ms)"

definition dense :: "message_row list \<Rightarrow> bool" where
  "dense ms \<longleftrightarrow> (\<forall>sid. seqs_of sid ms = map int [1..<length (seqs_of sid ms) + 1])"

definition messages_ok :: "store_db \<Rightarrow> bool" where
  "messages_ok db \<longleftrightarrow> list_all message_check (db_messages db) \<and> distinct (map msg_id (db_messages db))
     \<and> dense (db_messages db) \<and> distinct (client_keys (db_messages db))
     \<and> msg_session ` set (db_messages db) \<subseteq> ses_id ` set (db_sessions db)"

definition frame_seqs :: "string \<Rightarrow> frame_row list \<Rightarrow> int list" where
  "frame_seqs rid fs = map fr_seq (filter (\<lambda>f. fr_run f = rid) fs)"

definition frames_ok :: "store_db \<Rightarrow> bool" where
  "frames_ok db \<longleftrightarrow> (\<forall>rid. sorted_wrt (<) (frame_seqs rid (db_frames db)))
     \<and> (\<forall>f \<in> set (db_frames db). 0 < fr_seq f \<and>
          (\<exists>r \<in> set (db_runs db). run_id r = fr_run f \<and> fr_seq f \<le> run_last_seq r))"

text \<open>\<open>messages.run_id REFERENCES runs(run_id)\<close>: a message names a run that is there, or none.\<close>

definition links_ok :: "store_db \<Rightarrow> bool" where
  "links_ok db \<longleftrightarrow> Option.these (msg_run ` set (db_messages db)) \<subseteq> run_id ` set (db_runs db)"

definition db_ok :: "store_db \<Rightarrow> bool" where
  "db_ok db \<longleftrightarrow> sessions_ok db \<and> runs_ok db \<and> messages_ok db \<and> frames_ok db \<and> links_ok db"

lemma linked_run:
  "links_ok db \<longleftrightarrow> (\<forall>m \<in> set (db_messages db). \<forall>i. msg_run m = Some i \<longrightarrow> i \<in> run_id ` set (db_runs db))"
  by (auto simp: links_ok_def Option.these_def subset_iff image_iff) (metis option.sel option.distinct(1))+

lemma empty_db_ok: "db_ok empty_db"
  by (simp add: db_ok_def empty_db_def sessions_ok_def runs_ok_def messages_ok_def frames_ok_def
      links_ok_def dense_def seqs_of_def client_keys_def frame_seqs_def)

lemma frame_run: "frames_ok db \<Longrightarrow> fr \<in> set (db_frames db) \<Longrightarrow>
    \<exists>r \<in> set (db_runs db). run_id r = fr_run fr \<and> fr_seq fr \<le> run_last_seq r"
  by (simp add: frames_ok_def)

lemma frame_pos: "frames_ok db \<Longrightarrow> fr \<in> set (db_frames db) \<Longrightarrow> 0 < fr_seq fr"
  by (simp add: frames_ok_def)

subsection \<open>Row updates\<close>

lemma map_update_keys:
  "(\<And>r. r \<in> set xs \<Longrightarrow> p r \<Longrightarrow> k (f r) = k r) \<Longrightarrow> map k (update_rows p f xs) = map k xs"
  by (induction xs) (auto simp: update_rows_def)

lemma image_update_keys:
  "(\<And>r. r \<in> set xs \<Longrightarrow> p r \<Longrightarrow> k (f r) = k r) \<Longrightarrow> k ` set (update_rows p f xs) = k ` set xs"
  by (metis map_update_keys list.set_map)

lemma filter_update_keys:
  "(\<And>r. r \<in> set xs \<Longrightarrow> p r \<Longrightarrow> k (f r) = k r \<and> q (f r) = q r) \<Longrightarrow>
     map k (filter q (update_rows p f xs)) = map k (filter q xs)"
  by (induction xs) (auto simp: update_rows_def)

lemma set_update_rows: "r \<in> set (update_rows p f xs) \<longleftrightarrow> (\<exists>x \<in> set xs. r = (if p x then f x else x))"
  by (auto simp: update_rows_def)

lemma list_all_update:
  "list_all q xs \<Longrightarrow> (\<And>r. r \<in> set xs \<Longrightarrow> p r \<Longrightarrow> q (f r)) \<Longrightarrow> list_all q (update_rows p f xs)"
  by (auto simp: list_all_iff set_update_rows)

lemma update_sessions_shape:
  assumes "update_sessions p f db = Inr db'"
  shows "db_sessions db' = update_rows p f (db_sessions db)" "db_runs db' = db_runs db"
    "db_messages db' = db_messages db" "db_frames db' = db_frames db"
    and "\<And>r. r \<in> set (db_sessions db) \<Longrightarrow> p r \<Longrightarrow> session_check (f r)"
  using assms by (auto simp: update_sessions_def list_all_iff split: if_splits)

lemma update_runs_shape:
  assumes "update_runs p f db = Inr db'"
  shows "db_runs db' = update_rows p f (db_runs db)" "db_sessions db' = db_sessions db"
    "db_messages db' = db_messages db" "db_frames db' = db_frames db"
    and "\<And>r. r \<in> set (db_runs db) \<Longrightarrow> p r \<Longrightarrow> run_check (f r)"
  using assms by (auto simp: update_runs_def list_all_iff split: if_splits)

lemma update_messages_shape:
  assumes "update_messages p f db = Inr db'"
  shows "db_messages db' = update_rows p f (db_messages db)" "db_sessions db' = db_sessions db"
    "db_runs db' = db_runs db" "db_frames db' = db_frames db"
    and "\<And>r. r \<in> set (db_messages db) \<Longrightarrow> p r \<Longrightarrow> message_check (f r)"
  using assms by (auto simp: update_messages_def list_all_iff split: if_splits)

lemma update_sessions_ok:
  assumes "update_sessions p f db = Inr db'" and ok: "db_ok db"
    and keys: "\<And>r. r \<in> set (db_sessions db) \<Longrightarrow> p r \<Longrightarrow> ses_id (f r) = ses_id r"
  shows "db_ok db'"
proof -
  note sh = update_sessions_shape [OF assms(1)]
  have ids: "map ses_id (db_sessions db') = map ses_id (db_sessions db)"
    "ses_id ` set (db_sessions db') = ses_id ` set (db_sessions db)"
    unfolding sh(1) by (rule map_update_keys image_update_keys, simp add: keys)+
  have "list_all session_check (db_sessions db')"
    unfolding sh(1) by (rule list_all_update) (use ok sh(5) in \<open>auto simp: db_ok_def sessions_ok_def\<close>)
  then show ?thesis
    using ok unfolding db_ok_def sessions_ok_def runs_ok_def messages_ok_def frames_ok_def links_ok_def ids sh(2-4) by simp
qed

lemma update_runs_ok:
  assumes "update_runs p f db = Inr db'" and ok: "db_ok db"
    and keys: "\<And>r. r \<in> set (db_runs db) \<Longrightarrow> p r \<Longrightarrow> run_id (f r) = run_id r \<and> run_thread (f r) = run_thread r
        \<and> run_session (f r) = run_session r \<and> run_last_seq r \<le> run_last_seq (f r)"
    and state: "\<And>r. r \<in> set (db_runs db) \<Longrightarrow> p r \<Longrightarrow> run_state_ok r \<Longrightarrow> run_state_ok (f r)"
  shows "db_ok db'"
proof -
  note sh = update_runs_shape [OF assms(1)]
  have k: "map run_id (db_runs db') = map run_id (db_runs db)" "map run_thread (db_runs db') = map run_thread (db_runs db)"
    "run_session ` set (db_runs db') = run_session ` set (db_runs db)" "run_id ` set (db_runs db') = run_id ` set (db_runs db)"
    unfolding sh(1) by (rule map_update_keys image_update_keys, simp add: keys)+
  have rows: "list_all run_check (db_runs db')" "list_all run_state_ok (db_runs db')"
    unfolding sh(1) by (rule list_all_update; use ok sh(5) state in \<open>auto simp: db_ok_def runs_ok_def list_all_iff\<close>)+
  have grow: "\<exists>r' \<in> set (db_runs db'). run_id r' = run_id r \<and> run_last_seq r \<le> run_last_seq r'"
    if "r \<in> set (db_runs db)" for r
    using that keys [OF that] unfolding sh(1)
    by (intro bexI [of _ "if p r then f r else r"]) (auto simp: set_update_rows)
  have "\<exists>r \<in> set (db_runs db'). run_id r = fr_run fr \<and> fr_seq fr \<le> run_last_seq r"
    if fr: "fr \<in> set (db_frames db)" for fr
  proof -
    obtain r where r: "r \<in> set (db_runs db)" "run_id r = fr_run fr" "fr_seq fr \<le> run_last_seq r"
      using frame_run [OF _ fr] ok by (auto simp: db_ok_def)
    obtain r' where r': "r' \<in> set (db_runs db')" "run_id r' = run_id r" "run_last_seq r \<le> run_last_seq r'"
      using grow [OF r(1)] by blast
    show ?thesis by (rule bexI [OF _ r'(1)]) (use r r' in simp)
  qed
  then have "frames_ok db'"
    using ok frame_pos [of db] by (simp add: db_ok_def frames_ok_def sh(4))
  then show ?thesis
    using ok rows unfolding db_ok_def sessions_ok_def runs_ok_def messages_ok_def links_ok_def k sh(2-4) by simp
qed

lemma update_messages_ok:
  assumes "update_messages p f db = Inr db'" and ok: "db_ok db"
    and keys: "\<And>r. r \<in> set (db_messages db) \<Longrightarrow> p r \<Longrightarrow> msg_id (f r) = msg_id r \<and> msg_session (f r) = msg_session r
        \<and> msg_seq (f r) = msg_seq r \<and> msg_client (f r) = msg_client r \<and> msg_run (f r) = msg_run r"
  shows "db_ok db'"
proof -
  note sh = update_messages_shape [OF assms(1)]
  have k: "map msg_id (db_messages db') = map msg_id (db_messages db)"
    "msg_session ` set (db_messages db') = msg_session ` set (db_messages db)" "msg_run ` set (db_messages db') = msg_run ` set (db_messages db)"
    unfolding sh(1) by (rule map_update_keys image_update_keys, simp add: keys)+
  have s: "seqs_of sid (db_messages db') = seqs_of sid (db_messages db)" for sid
    unfolding sh(1) seqs_of_def by (rule filter_update_keys) (simp add: keys)
  have c: "client_keys (db_messages db') = client_keys (db_messages db)"
    unfolding sh(1) client_keys_def by (rule filter_update_keys) (simp add: keys)
  have "list_all message_check (db_messages db')"
    unfolding sh(1) by (rule list_all_update) (use ok sh(5) in \<open>auto simp: db_ok_def messages_ok_def\<close>)
  then show ?thesis
    using ok unfolding db_ok_def sessions_ok_def runs_ok_def messages_ok_def frames_ok_def links_ok_def dense_def k s c sh(2-4)
    by simp
qed

lemma touch_ok: "touch sid stamp db = Inr db' \<Longrightarrow> db_ok db \<Longrightarrow> db_ok db'"
  unfolding touch_def by (erule update_sessions_ok) simp_all

lemma touch_total: "db_ok db \<Longrightarrow> \<exists>db'. touch sid stamp db = Inr db'"
  by (auto simp: touch_def update_sessions_def db_ok_def sessions_ok_def list_all_iff session_check_def)

subsection \<open>Inserts\<close>

lemma insert_session_ok:
  assumes "insert_session r db = Inr db'" "db_ok db"
  shows "db_ok db'"
proof -
  have sh: "db' = db\<lparr>db_sessions := db_sessions db @ [r]\<rparr>" "session_check r" "ses_id r \<notin> ses_id ` set (db_sessions db)"
    using assms(1) by (auto simp: insert_session_def split: if_splits)
  show ?thesis
    using assms(2) sh(2,3) unfolding db_ok_def sh(1) sessions_ok_def runs_ok_def messages_ok_def frames_ok_def links_ok_def
    by (simp add: subset_insertI2)
qed

lemma insert_run_ok:
  assumes "insert_run r db = Inr db'" "db_ok db" "run_state_ok r"
  shows "db_ok db'"
proof -
  have sh: "db' = db\<lparr>db_runs := db_runs db @ [r]\<rparr>" "run_check r" "run_id r \<notin> run_id ` set (db_runs db)"
    "run_thread r \<notin> run_thread ` set (db_runs db)" "run_session r \<in> ses_id ` set (db_sessions db)"
    using assms(1) by (auto simp: insert_run_def split: if_splits)
  have "frames_ok db'"
    using assms(2) unfolding db_ok_def frames_ok_def sh(1) by fastforce
  then show ?thesis
    using assms(2,3) sh(2-5) unfolding db_ok_def sh(1) sessions_ok_def runs_ok_def messages_ok_def links_ok_def
    by (simp add: subset_insertI2)
qed

lemma fold_max_upt: "fold max (map int [1..<n + 1]) 0 = int n"
proof (induction n)
  case (Suc n)
  then show ?case by (simp add: max_def)
qed simp

lemma next_seq_dense:
  assumes "dense (db_messages db)"
  shows "next_seq sid db = int (length (seqs_of sid (db_messages db))) + 1"
proof -
  have "fold (\<lambda>m a. max (msg_seq m) a) ms a0 = fold max (map msg_seq ms) a0" for ms :: "message_row list" and a0
    by (induction ms arbitrary: a0) auto
  then have "next_seq sid db = fold max (seqs_of sid (db_messages db)) 0 + 1"
    by (simp add: next_seq_def seqs_of_def)
  also have "fold max (seqs_of sid (db_messages db)) 0 = int (length (seqs_of sid (db_messages db)))"
    using assms fold_max_upt unfolding dense_def by metis
  finally show ?thesis .
qed

lemma insert_message_ok:
  assumes "insert_message r db = Inr db'" "db_ok db" "msg_seq r = next_seq (msg_session r) db"
  shows "db_ok db'"
proof -
  have sh: "db' = db\<lparr>db_messages := db_messages db @ [r]\<rparr>" "message_check r" "msg_id r \<notin> msg_id ` set (db_messages db)"
    "msg_session r \<in> ses_id ` set (db_sessions db)"
    "msg_client r = None \<or> (msg_session r, msg_client r) \<notin> (\<lambda>m. (msg_session m, msg_client m)) ` set (db_messages db)"
    "case msg_run r of None \<Rightarrow> True | Some i \<Rightarrow> i \<in> run_id ` set (db_runs db)"
    using assms(1) by (auto simp: insert_message_def split: if_splits)
  have d: "dense (db_messages db)" using assms(2) by (simp add: db_ok_def messages_ok_def)
  have "dense (db_messages db @ [r])"
    unfolding dense_def
  proof
    fix sid
    have seqs: "seqs_of sid (db_messages db @ [r])
        = seqs_of sid (db_messages db) @ (if msg_session r = sid then [msg_seq r] else [])"
      by (simp add: seqs_of_def)
    have old: "seqs_of sid (db_messages db) = map int [1..<length (seqs_of sid (db_messages db)) + 1]"
      using d unfolding dense_def by blast
    show "seqs_of sid (db_messages db @ [r]) = map int [1..<length (seqs_of sid (db_messages db @ [r])) + 1]"
    proof (cases "msg_session r = sid")
      case True
      then have "msg_seq r = int (length (seqs_of sid (db_messages db)) + 1)"
        using assms(3) next_seq_dense [OF d] by simp
      then show ?thesis unfolding seqs using True old by simp
    qed (use old in \<open>simp add: seqs\<close>)
  qed
  moreover have "distinct (client_keys (db_messages db @ [r]))"
    using assms(2) sh(5) unfolding db_ok_def messages_ok_def client_keys_def by auto
  moreover have "links_ok db'" using assms(2) sh(6) by (auto simp: db_ok_def linked_run sh(1))
  ultimately show ?thesis
    using assms(2) sh(2-4) unfolding db_ok_def sh(1) sessions_ok_def runs_ok_def messages_ok_def frames_ok_def
    by simp
qed

subsection \<open>Frames\<close>

lemma number_frames_shape:
  "number_frames rid stamp seq es = Inr rows \<Longrightarrow>
     map fr_seq rows = map (\<lambda>i. seq + int i) [1..<length es + 1] \<and> (\<forall>f \<in> set rows. fr_run f = rid)"
proof (induction rid stamp seq es arbitrary: rows rule: number_frames.induct)
  case (2 rid stamp seq event payload es)
  then obtain ev rs where r: "required event = Inr ev" "number_frames rid stamp (seq + 1) es = Inr rs"
    "rows = \<lparr>fr_run = rid, fr_seq = seq + 1, fr_event = ev,
             fr_payload = (case json_or_none payload of Some j \<Rightarrow> j | None \<Rightarrow> ''{}''), fr_created_at = stamp\<rparr> # rs"
    by (auto simp: rbind_eq_Inr)
  have "map fr_seq rs = map (\<lambda>i. seq + 1 + int i) [1..<length es + 1]" "\<forall>f \<in> set rs. fr_run f = rid"
    using 2(1) [OF r(2)] by auto
  moreover have "map (\<lambda>i. seq + int i) [1..<Suc (length es) + 1]
      = (seq + 1) # map (\<lambda>i. seq + 1 + int i) [1..<length es + 1]"
    by (rule nth_equalityI) (auto simp: nth_Cons' simp del: upt_Suc)
  ultimately show ?case by (simp add: r(3) del: upt_Suc)
qed simp

lemma fold_insert_new:
  assumes "\<forall>f \<in> set rows. (fr_run f, fr_seq f) \<notin> (\<lambda>f. (fr_run f, fr_seq f)) ` set (db_frames db)"
    and "distinct (map (\<lambda>f. (fr_run f, fr_seq f)) rows)"
  shows "fold insert_frame rows db = db\<lparr>db_frames := db_frames db @ rows\<rparr>"
  using assms
proof (induction rows arbitrary: db)
  case (Cons f rows)
  have "insert_frame f db = db\<lparr>db_frames := db_frames db @ [f]\<rparr>"
    using Cons.prems(1) by (simp add: insert_frame_def)
  moreover have "\<forall>g \<in> set rows. (fr_run g, fr_seq g) \<noteq> (fr_run f, fr_seq f)"
    using Cons.prems(2) by (metis (mono_tags, lifting) distinct.simps(2) image_eqI list.set_map list.simps(9))
  then have "fold insert_frame rows (db\<lparr>db_frames := db_frames db @ [f]\<rparr>)
      = (db\<lparr>db_frames := db_frames db @ [f]\<rparr>)\<lparr>db_frames := (db_frames db @ [f]) @ rows\<rparr>"
    using Cons.IH [of "db\<lparr>db_frames := db_frames db @ [f]\<rparr>"] Cons.prems by auto
  ultimately show ?case by simp
qed simp

lemma rows_seqs:
  assumes "map fr_seq rows = map (\<lambda>i. n + int i) [1..<k + 1]"
  shows "sorted_wrt (<) (map fr_seq rows)" and "length rows = k"
    and "f \<in> set rows \<Longrightarrow> n < fr_seq f \<and> fr_seq f \<le> n + int k"
proof -
  show "sorted_wrt (<) (map fr_seq rows)"
    unfolding assms sorted_wrt_map by (rule sorted_wrt_mono_rel [OF _ sorted_wrt_upt]) simp
  show "length rows = k" using arg_cong [OF assms, of length] by simp
  assume "f \<in> set rows"
  then have "fr_seq f \<in> set (map (\<lambda>i. n + int i) [1..<k + 1])" unfolding assms [symmetric] by simp
  then show "n < fr_seq f \<and> fr_seq f \<le> n + int k" by (auto simp del: upt_Suc)
qed

lemma append_frames_ok:
  assumes ok: "db_ok d" and r: "r \<in> set (db_runs d)" "run_id r = rid" "run_last_seq r = n + int k"
    and rows: "map fr_seq rows = map (\<lambda>i. n + int i) [1..<k + 1]" "\<forall>f \<in> set rows. fr_run f = rid"
    and old: "\<And>f. f \<in> set (db_frames d) \<Longrightarrow> fr_run f = rid \<Longrightarrow> fr_seq f \<le> n" and n: "0 \<le> n"
  shows "db_ok (d\<lparr>db_frames := db_frames d @ rows\<rparr>)"
proof -
  let ?d = "d\<lparr>db_frames := db_frames d @ rows\<rparr>"
  have fok: "frames_ok d" using ok by (simp add: db_ok_def)
  have "sorted_wrt (<) (frame_seqs rid' (db_frames d @ rows))" for rid'
  proof (cases "rid' = rid")
    case True
    have "frame_seqs rid (db_frames d @ rows) = frame_seqs rid (db_frames d) @ map fr_seq rows"
      using rows(2) by (simp add: frame_seqs_def filter_True)
    moreover have "a < b" if "a \<in> set (frame_seqs rid (db_frames d))" "b \<in> set (map fr_seq rows)" for a b
      using that old rows_seqs(3) [OF rows(1)] by (fastforce simp: frame_seqs_def)
    ultimately show ?thesis
      using True fok rows_seqs(1) [OF rows(1)] by (simp add: sorted_wrt_append frames_ok_def)
  next
    case False
    then have "filter (\<lambda>f. fr_run f = rid') rows = []"
      using rows(2) by (simp add: filter_empty_conv)
    then have "frame_seqs rid' (db_frames d @ rows) = frame_seqs rid' (db_frames d)"
      by (simp add: frame_seqs_def)
    then show ?thesis using fok by (simp add: frames_ok_def)
  qed
  moreover have "0 < fr_seq f \<and> (\<exists>r \<in> set (db_runs d). run_id r = fr_run f \<and> fr_seq f \<le> run_last_seq r)"
    if "f \<in> set (db_frames d @ rows)" for f
  proof (cases "f \<in> set (db_frames d)")
    case True
    then show ?thesis using frame_run [OF fok True] frame_pos [OF fok True] by simp
  next
    case False
    then have "f \<in> set rows" using that by simp
    then have "n < fr_seq f \<and> fr_seq f \<le> n + int k" "fr_run f = rid"
      using rows_seqs(3) [OF rows(1)] rows(2) by auto
    then show ?thesis using r n by auto
  qed
  ultimately have "frames_ok ?d" by (simp add: frames_ok_def)
  then show ?thesis using ok by (simp add: db_ok_def sessions_ok_def runs_ok_def messages_ok_def links_ok_def)
qed

lemma read_last_seqE:
  assumes "read_last_seq rid db = Some seen"
  obtains r where "r \<in> set (db_runs db)" "run_id r = rid" "seen = (run_session r, run_last_seq r)"
  using assms by (auto simp: read_last_seq_def find_Some_iff) (metis nth_mem)

lemma run_unique: "runs_ok db \<Longrightarrow> r \<in> set (db_runs db) \<Longrightarrow> r' \<in> set (db_runs db) \<Longrightarrow> run_id r = run_id r' \<Longrightarrow> r = r'"
  by (auto simp: runs_ok_def distinct_map inj_on_def)

text \<open>A batch written at the number it was read at.\<close>

lemma write_frames_current:
  assumes ok: "db_ok db" and r: "r \<in> set (db_runs db)" "run_id r = rid"
    and w: "write_frames rid (run_session r, run_last_seq r) es stamp db = Inr (db', seq)"
  obtains rows where "number_frames rid stamp (run_last_seq r) es = Inr rows"
    "db_frames db' = db_frames db @ rows" "seq = run_last_seq r + int (length es)" "db_ok db'"
    "\<exists>r' \<in> set (db_runs db'). run_id r' = rid \<and> run_last_seq r' = seq"
proof -
  let ?n = "run_last_seq r" and ?seq = "run_last_seq r + int (length es)"
  let ?upd = "\<lambda>r. r\<lparr>run_last_seq := ?seq, run_last_event_at := stamp\<rparr>"
  obtain rows db2 where rows: "number_frames rid stamp ?n es = Inr rows"
    and u: "update_runs (\<lambda>r. run_id r = rid) ?upd (fold insert_frame rows db) = Inr db2"
    and t: "touch (run_session r) stamp db2 = Inr db'" and seq: "seq = ?seq"
    using w by (auto simp: write_frames_def rbind_eq_Inr Let_def split: if_splits)
  note sh = number_frames_shape [OF rows]
  have old: "fr_seq f \<le> ?n" if "f \<in> set (db_frames db)" "fr_run f = rid" for f
    using frame_run [of db f] that ok r run_unique [of db] by (fastforce simp: db_ok_def)
  have n: "0 \<le> ?n" using ok r(1) by (auto simp: db_ok_def runs_ok_def run_check_def list_all_iff)
  have fold: "fold insert_frame rows db = db\<lparr>db_frames := db_frames db @ rows\<rparr>"
  proof (rule fold_insert_new)
    show "\<forall>f \<in> set rows. (fr_run f, fr_seq f) \<notin> (\<lambda>f. (fr_run f, fr_seq f)) ` set (db_frames db)"
      using sh rows_seqs(3) [OF conjunct1 [OF sh]] old by fastforce
    have "distinct (map fr_seq rows)"
      using rows_seqs(1) [OF conjunct1 [OF sh]] strict_sorted_iff by blast
    then show "distinct (map (\<lambda>f. (fr_run f, fr_seq f)) rows)"
      by (auto simp: distinct_map inj_on_def)
  qed
  obtain d where d: "update_runs (\<lambda>r. run_id r = rid) ?upd db = Inr d" "db2 = d\<lparr>db_frames := db_frames db @ rows\<rparr>"
    using u unfolding fold by (auto simp: update_runs_def split: if_splits)
  have "db_ok d"
  proof (rule update_runs_ok [OF d(1) ok])
    fix q assume "q \<in> set (db_runs db)" "run_id q = rid"
    then have "q = r" using run_unique [of db q r] ok r by (simp add: db_ok_def)
    then show "run_id (?upd q) = run_id q \<and> run_thread (?upd q) = run_thread q
        \<and> run_session (?upd q) = run_session q \<and> run_last_seq q \<le> run_last_seq (?upd q)" by simp
  qed (auto simp: run_state_ok_def live_run_def split: option.splits)
  moreover have up: "?upd r \<in> set (db_runs d)"
    using r unfolding update_runs_shape(1) [OF d(1)] set_update_rows by (intro bexI [of _ r]) simp_all
  moreover have fr: "db_frames d = db_frames db" by (rule update_runs_shape(4) [OF d(1)])
  ultimately have ok2: "db_ok (d\<lparr>db_frames := db_frames d @ rows\<rparr>)"
    by (intro append_frames_ok [of d "?upd r" rid ?n "length es" rows]) (use r sh old n in auto)
  have db2: "db2 = d\<lparr>db_frames := db_frames d @ rows\<rparr>" using d(2) fr by simp
  have sh': "db_frames db' = db_frames db2" "db_runs db' = db_runs db2"
    using update_sessions_shape [OF t [unfolded touch_def]] by simp_all
  show thesis
  proof (rule that [OF rows])
    show "db_frames db' = db_frames db @ rows" by (simp add: sh' db2 fr)
    show "db_ok db'" by (rule touch_ok [OF t]) (use ok2 db2 in simp)
    show "\<exists>r' \<in> set (db_runs db'). run_id r' = rid \<and> run_last_seq r' = seq"
      using up r(2) by (intro bexI [of _ "?upd r"]) (simp_all add: sh' db2 seq)
  qed (rule seq)
qed

lemma append_run_events_ok:
  assumes "append_run_events rid es stamp db = Inr (db', seq)" "db_ok db"
  shows "db_ok db'"
proof (cases "read_last_seq rid db")
  case (Some seen)
  then obtain r where r: "r \<in> set (db_runs db)" "run_id r = rid" "seen = (run_session r, run_last_seq r)"
    by (rule read_last_seqE)
  show ?thesis
  proof (cases "es = []")
    case False
    then have "write_frames rid (run_session r, run_last_seq r) es stamp db = Inr (db', seq)"
      using assms(1) Some r(3) by (simp add: append_run_events_def)
    then show ?thesis by (rule write_frames_current [OF assms(2) r(1,2)])
  qed (use assms Some in \<open>simp add: append_run_events_def\<close>)
qed (use assms in \<open>simp add: append_run_events_def\<close>)

subsection \<open>Every operation\<close>

datatype store_op =
    O_create_session string pyfloat pyval pyval pyval pyval pyval pyval
  | O_update_session string pyval pydict pyfloat
  | O_delete_session string pyval bool pyfloat
  | O_create_run string string pyfloat string pyval run_args
  | O_run_status string string pyfloat
  | O_finalize_run string string pyfloat
  | O_append_events string "(pyval \<times> pyval) list" pyfloat
  | O_create_message string pyfloat string message_args
  | O_delta string string pyval pyfloat
  | O_finalize_message string string "string option" pyval pyval pyfloat
  | O_reconcile "(string \<Rightarrow> bool) option" pyfloat
  | O_prune env "pyfloat option" pyfloat

fun op_result :: "store_op \<Rightarrow> store_db \<Rightarrow> store_db res" where
  "op_result (O_create_session fresh stamp x1 x2 x3 x4 x5 x6) db =
     rbind (create_session fresh stamp x1 x2 x3 x4 x5 x6 db) (\<lambda>r. Inr (fst r))"
| "op_result (O_update_session sid u patch stamp) db = rbind (update_session sid u patch stamp db) (\<lambda>r. Inr (fst r))"
| "op_result (O_delete_session sid u hard stamp) db = rbind (delete_session sid u hard stamp db) (\<lambda>r. Inr (fst r))"
| "op_result (O_create_run fr ft stamp sid u a) db = rbind (create_run fr ft stamp sid u a db) (\<lambda>r. Inr (fst r))"
| "op_result (O_run_status rid status stamp) db = rbind (update_run_status rid status stamp db) (\<lambda>r. Inr (fst r))"
| "op_result (O_finalize_run rid status stamp) db = rbind (finalize_run rid status stamp db) (\<lambda>r. Inr (fst r))"
| "op_result (O_append_events rid es stamp) db = rbind (append_run_events rid es stamp db) (\<lambda>r. Inr (fst r))"
| "op_result (O_create_message fresh stamp sid a) db = rbind (create_message fresh stamp sid a db) (\<lambda>r. Inr (fst r))"
| "op_result (O_delta mid delta x1 stamp) db = rbind (append_message_delta mid delta x1 stamp db) (\<lambda>r. Inr (fst r))"
| "op_result (O_finalize_message mid status c x1 x2 stamp) db =
     rbind (finalize_message mid status c x1 x2 stamp db) (\<lambda>r. Inr (fst r))"
| "op_result (O_reconcile graph stamp) db = rbind (reconcile_stale_runs graph stamp db) (\<lambda>r. Inr (fst r))"
| "op_result (O_prune env days now) db = Inr (fst (prune_run_events env days now db))"

definition exec_op :: "store_op \<Rightarrow> store_db \<Rightarrow> store_db" where
  "exec_op op db = (case op_result op db of Inl _ \<Rightarrow> db | Inr db' \<Rightarrow> db')"

abbreviation same_session :: "session_row \<Rightarrow> session_row \<Rightarrow> bool" where
  "same_session r' r \<equiv> ses_id r' = ses_id r \<and> ses_user r' = ses_user r
    \<and> ses_symbol r' = ses_symbol r \<and> ses_profile r' = ses_profile r \<and> ses_created_at r' = ses_created_at r"

lemma patch_timeframe_keys: "patch_timeframe patch r = Inr r' \<Longrightarrow> same_session r' r"
  by (auto simp: patch_timeframe_def rbind_eq_Inr split: if_splits)

lemma patch_status_keys: "patch_status patch stamp r = Inr r' \<Longrightarrow> same_session r' r"
  by (cases "dict_get patch ''status''") (auto simp: patch_status_def split: if_splits)

lemma patch_row_keys:
  assumes "patch_row patch stamp r = Inr r'"
  shows "same_session r' r"
  using assms unfolding patch_row_def Let_def rbind_eq_Inr
  by (elim exE conjE) (drule patch_timeframe_keys, drule patch_status_keys, auto split: if_splits)

lemma update_session_ok:
  assumes "update_session sid u patch stamp db = Inr (db', res)" "db_ok db"
  shows "db_ok db'"
proof -
  obtain uid where uid: "required u = Inr uid" "check_patch patch = Inr ()"
    using assms(1) by (auto simp: update_session_def rbind_eq_Inr)
  show ?thesis
  proof (cases "patch = []")
    case False
    then have "update_sessions (\<lambda>r. ses_id r = sid \<and> ses_user r = uid)
        (\<lambda>r. case patch_row patch stamp r of Inr r' \<Rightarrow> r' | Inl _ \<Rightarrow> r) db = Inr db'"
      using assms(1) uid by (auto simp: update_session_def rbind_eq_Inr Let_def)
    then show ?thesis
      by (rule update_sessions_ok [OF _ assms(2)]) (auto dest: patch_row_keys split: sum.split)
  qed (use assms uid in \<open>simp add: update_session_def\<close>)
qed

lemma scrub_ok:
  assumes ok: "db_ok db"
  shows "db_ok (scrub sid db)"
proof -
  define gone where "gone = run_id ` set (filter (\<lambda>r. run_session r = sid) (db_runs db))"
  define unlink where "unlink = (\<lambda>m :: message_row. case msg_run m of
      Some i \<Rightarrow> if i \<in> gone then m\<lparr>msg_run := None\<rparr> else m | None \<Rightarrow> m)"
  let ?kept = "filter (\<lambda>m. msg_session m \<noteq> sid) (db_messages db)"
  have u: "msg_id (unlink m) = msg_id m" "msg_session (unlink m) = msg_session m" "msg_seq (unlink m) = msg_seq m"
    "msg_client (unlink m) = msg_client m" "message_check (unlink m) = message_check m" for m
    by (auto simp: unlink_def message_check_def split: option.split)
  have rows: "db_frames (scrub sid db) = filter (\<lambda>f. fr_run f \<notin> gone) (db_frames db)"
    "db_messages (scrub sid db) = map unlink ?kept" "db_sessions (scrub sid db) = db_sessions db"
    "db_runs (scrub sid db) = filter (\<lambda>r. run_session r \<noteq> sid) (db_runs db)"
    unfolding scrub_def Let_def gone_def unlink_def by (simp_all del: set_filter)
  have runs: "runs_ok (scrub sid db)"
    using ok unfolding db_ok_def runs_ok_def rows by (auto simp: list_all_iff distinct_map_filter)
  have seqs: "seqs_of sid' (map unlink ?kept) = (if sid' = sid then [] else seqs_of sid' (db_messages db))" for sid'
    by (auto simp: seqs_of_def filter_map comp_def u filter_empty_conv intro!: arg_cong [of _ _ "map msg_seq"] filter_cong)
  have "client_keys (map unlink ?kept) = filter (\<lambda>k. fst k \<noteq> sid) (client_keys (db_messages db))"
    by (simp add: client_keys_def filter_map comp_def u conj_commute)
  then have msgs: "messages_ok (scrub sid db)"
    using ok unfolding db_ok_def messages_ok_def rows dense_def seqs
    by (auto simp: list_all_iff u comp_def distinct_map_filter)
  have links: "links_ok (scrub sid db)"
    unfolding linked_run
  proof (intro ballI allI impI)
    fix m i assume m: "m \<in> set (db_messages (scrub sid db))" and i: "msg_run m = Some i"
    then obtain m0 where m0: "m0 \<in> set (db_messages db)" "m = unlink m0" by (auto simp: rows)
    then have "msg_run m0 = Some i" "i \<notin> gone" using i by (auto simp: unlink_def split: option.splits if_splits)
    moreover have "i \<in> run_id ` set (db_runs db)" using ok m0(1) calculation(1) by (simp add: db_ok_def linked_run)
    ultimately show "i \<in> run_id ` set (db_runs (scrub sid db))" by (auto simp: rows gone_def)
  qed
  have "frames_ok (scrub sid db)"
    unfolding frames_ok_def
  proof (intro conjI allI ballI)
    fix rid
    have "frame_seqs rid (db_frames (scrub sid db)) = (if rid \<in> gone then [] else frame_seqs rid (db_frames db))"
      unfolding rows frame_seqs_def by (auto simp: filter_empty_conv intro!: arg_cong [of _ _ "map fr_seq"] filter_cong)
    then show "sorted_wrt (<) (frame_seqs rid (db_frames (scrub sid db)))"
      using ok by (simp add: db_ok_def frames_ok_def)
  next
    fix f assume "f \<in> set (db_frames (scrub sid db))"
    then have f: "f \<in> set (db_frames db)" "fr_run f \<notin> gone" by (auto simp: rows)
    have fok: "frames_ok db" using ok by (simp add: db_ok_def)
    show "0 < fr_seq f" by (rule frame_pos [OF fok f(1)])
    obtain r where r: "r \<in> set (db_runs db)" "run_id r = fr_run f" "fr_seq f \<le> run_last_seq r"
      using frame_run [OF fok f(1)] by blast
    have "run_id r \<in> gone" if "run_session r = sid" using that r(1) unfolding gone_def by simp
    then have "run_session r \<noteq> sid" using f(2) r(2) by auto
    then show "\<exists>r \<in> set (db_runs (scrub sid db)). run_id r = fr_run f \<and> fr_seq f \<le> run_last_seq r"
      using r unfolding rows by (intro bexI [of _ r]) auto
  qed
  then show ?thesis using runs msgs links ok by (simp add: db_ok_def sessions_ok_def rows)
qed

lemma delete_session_ok:
  assumes "delete_session sid u hard stamp db = Inr (db', res)" "db_ok db"
  shows "db_ok db'"
proof -
  obtain uid where uid: "required u = Inr uid" using assms(1) by (auto simp: delete_session_def rbind_eq_Inr)
  show ?thesis
  proof (cases "hard \<and> find_owned sid uid db \<noteq> None")
    case True
    then have "update_sessions (\<lambda>r. ses_id r = sid \<and> ses_user r = uid) (tombstone stamp) (scrub sid db) = Inr db'"
      using assms(1) uid by (auto simp: delete_session_def rbind_eq_Inr)
    then show ?thesis
      by (rule update_sessions_ok [OF _ scrub_ok [OF assms(2)]]) (simp add: tombstone_def)
  next
    case False
    then show ?thesis
      using assms uid update_session_ok [of sid "PStr uid" "[(''status'', PStr SESSION_DELETED)]" stamp db db' res]
      by (cases hard) (auto simp: delete_session_def)
  qed
qed

lemma create_session_ok:
  assumes "create_session fresh stamp u x1 x2 x3 x4 x5 db = Inr (db', r)" "db_ok db"
  shows "db_ok db'"
  using assms by (auto simp: create_session_def rbind_eq_Inr Let_def intro: insert_session_ok)

lemma create_run_ok:
  assumes "create_run fr ft stamp sid u a db = Inr (db', res)" "db_ok db"
  shows "db_ok db'"
proof -
  obtain uid where uid: "required u = Inr uid" "new_kind a \<in> set RUN_KINDS"
    using assms(1) by (auto simp: create_run_def rbind_eq_Inr split: if_splits)
  show ?thesis
  proof (cases "find_owned sid uid db")
    case (Some owned)
    show ?thesis
    proof (cases "ses_status owned = SESSION_DELETED")
      case False
      obtain r db1 where r: "insert_run r db = Inr db1" "run_state_ok r"
        "update_sessions (\<lambda>s. ses_id s = sid) (\<lambda>s. s\<lparr>ses_active_run := Some fr, ses_updated_at := stamp\<rparr>) db1 = Inr db'"
        using assms(1) uid Some False
        by (auto simp: create_run_def rbind_eq_Inr Let_def run_state_ok_def live_run_def RUN_LIVE_STATUSES_def)
      show ?thesis
        by (rule update_sessions_ok [OF r(3) insert_run_ok [OF r(1) assms(2) r(2)]]) simp
    qed (use assms uid Some in \<open>simp add: create_run_def\<close>)
  qed (use assms uid in \<open>simp add: create_run_def\<close>)
qed

lemma update_run_status_ok:
  assumes "update_run_status rid status stamp db = Inr (db', b)" "db_ok db"
  shows "db_ok db'"
proof -
  have u: "update_runs (open_run rid) (\<lambda>r. r\<lparr>run_status := status, run_last_event_at := stamp\<rparr>) db = Inr db'"
    "status \<in> set RUN_LIVE_STATUSES"
    using assms(1) by (auto simp: update_run_status_def rbind_eq_Inr split: if_splits)
  show ?thesis
    by (rule update_runs_ok [OF u(1) assms(2)])
      (use u(2) in \<open>auto simp: run_state_ok_def live_run_def open_run_def\<close>)
qed

lemma touch_run_session_ok: "touch_run_session rid stamp db = Inr db' \<Longrightarrow> db_ok db \<Longrightarrow> db_ok db'"
  by (auto simp: touch_run_session_def split: option.splits intro: touch_ok)

lemma touch_message_session_ok: "touch_message_session mid stamp db = Inr db' \<Longrightarrow> db_ok db \<Longrightarrow> db_ok db'"
  by (auto simp: touch_message_session_def split: option.splits intro: touch_ok)

lemma finalize_run_ok:
  assumes "finalize_run rid status stamp db = Inr (db', b)" "db_ok db"
  shows "db_ok db'"
proof -
  obtain db1 where u: "update_runs (open_run rid) (close_run status stamp) db = Inr db1"
    "status \<notin> set RUN_LIVE_STATUSES" "touch_run_session rid stamp db1 = Inr db' \<or> db' = db1"
    using assms(1) by (auto simp: finalize_run_def rbind_eq_Inr split: if_splits)
  have "db_ok db1"
    by (rule update_runs_ok [OF u(1) assms(2)])
      (use u(2) in \<open>auto simp: run_state_ok_def live_run_def open_run_def close_run_def\<close>)
  then show ?thesis using u(3) touch_run_session_ok by blast
qed

lemma create_message_ok:
  assumes "create_message fresh stamp sid a db = Inr (db', res)" "db_ok db"
  shows "db_ok db'"
proof (cases "db' = db")
  case False
  obtain r db1 where r: "insert_message r db = Inr db1" "msg_seq r = next_seq sid db" "msg_session r = sid"
    "touch sid stamp db1 = Inr db'"
    using assms(1) False by (auto simp: create_message_def rbind_eq_Inr Let_def split: if_splits option.splits)
  show ?thesis
    by (rule touch_ok [OF r(4) insert_message_ok [OF r(1) assms(2)]]) (simp add: r)
qed (use assms in simp)

lemma append_message_delta_ok:
  assumes "append_message_delta mid delta x1 stamp db = Inr (db', b)" "db_ok db"
  shows "db_ok db'"
proof -
  obtain db1 where u: "update_messages (streaming mid) (add_delta delta x1 stamp) db = Inr db1"
    "touch_message_session mid stamp db1 = Inr db' \<or> db' = db1"
    using assms(1) by (auto simp: append_message_delta_def rbind_eq_Inr split: if_splits)
  have "db_ok db1" by (rule update_messages_ok [OF u(1) assms(2)]) (simp add: add_delta_def)
  then show ?thesis using u(2) touch_message_session_ok by blast
qed

lemma finalize_message_ok:
  assumes "finalize_message mid status c x1 x2 stamp db = Inr (db', b)" "db_ok db"
  shows "db_ok db'"
proof -
  obtain db1 where u: "update_messages (streaming mid) (close_message status c x1 x2 stamp) db = Inr db1"
    "touch_message_session mid stamp db1 = Inr db' \<or> db' = db1"
    using assms(1) by (auto simp: finalize_message_def rbind_eq_Inr split: if_splits)
  have "db_ok db1" by (rule update_messages_ok [OF u(1) assms(2)]) (simp add: close_message_def)
  then show ?thesis using u(2) touch_message_session_ok by blast
qed

subsection \<open>Reconciliation in closed form\<close>

definition reconciled :: "(string \<Rightarrow> bool) option \<Rightarrow> pyfloat \<Rightarrow> run_row \<Rightarrow> run_row" where
  "reconciled graph stamp r = (if thread_has_pending_step graph (run_thread r)
     then r\<lparr>run_status := RUN_WATCHING, run_last_event_at := stamp\<rparr> else truncate_run stamp r)"

lemma reconciled_keys [simp]: "run_id (reconciled graph stamp r) = run_id r"
  "run_thread (reconciled graph stamp r) = run_thread r" "run_session (reconciled graph stamp r) = run_session r"
  "run_last_seq (reconciled graph stamp r) = run_last_seq r"
  by (simp_all add: reconciled_def truncate_run_def)

lemma reconciled_check: "run_check r \<Longrightarrow> run_check (reconciled graph stamp r)"
  by (auto simp: reconciled_def truncate_run_def run_check_def RUN_STATUSES_def)

lemma reconciled_state: "live_run r \<Longrightarrow> run_state_ok r \<Longrightarrow> run_state_ok (reconciled graph stamp r)"
  by (auto simp: reconciled_def truncate_run_def run_state_ok_def live_run_def RUN_LIVE_STATUSES_def
      RUN_RUNNING_def RUN_WATCHING_def RUN_TRUNCATED_def coalesce_def split: option.splits)

lemma truncate_message_check: "message_check m \<Longrightarrow> msg_status m = MSG_STREAMING \<Longrightarrow> message_check (truncate_message stamp m)"
  by (auto simp: truncate_message_def message_check_def MESSAGE_STATUSES_def MSG_STREAMING_def MSG_COMPLETE_def
      MSG_TRUNCATED_def)

definition cut_off :: "(string \<Rightarrow> bool) option \<Rightarrow> run_row list \<Rightarrow> message_row \<Rightarrow> bool" where
  "cut_off graph rows m \<longleftrightarrow> msg_status m = MSG_STREAMING
     \<and> (\<exists>x \<in> set rows. \<not> thread_has_pending_step graph (run_thread x) \<and> msg_run m = Some (run_id x))"

lemma truncated_not_streaming [simp]: "msg_status (truncate_message stamp m) \<noteq> MSG_STREAMING"
  by (simp add: truncate_message_def MSG_TRUNCATED_def MSG_STREAMING_def)

lemma truncate_message_keys [simp]: "msg_run (truncate_message stamp m) = msg_run m"
  "msg_id (truncate_message stamp m) = msg_id m" "msg_session (truncate_message stamp m) = msg_session m"
  "msg_seq (truncate_message stamp m) = msg_seq m" "msg_client (truncate_message stamp m) = msg_client m"
  "msg_content (truncate_message stamp m) = msg_content m"
  by (simp_all add: truncate_message_def)

lemma reconcile_fold:
  assumes "distinct (map run_id (db_runs db))" "list_all run_check (db_runs db)"
    "list_all message_check (db_messages db)" "set rows \<subseteq> set (db_runs db)" "distinct (map run_id rows)"
  shows "\<exists>db'. rfold (reconcile_one graph stamp) (db, k) rows
      = Inr (db', k + length (filter (\<lambda>r. \<not> thread_has_pending_step graph (run_thread r)) rows))
    \<and> db_runs db' = map (\<lambda>r. if r \<in> set rows then reconciled graph stamp r else r) (db_runs db)
    \<and> db_messages db' = update_rows (cut_off graph rows) (truncate_message stamp) (db_messages db)
    \<and> db_sessions db' = db_sessions db \<and> db_frames db' = db_frames db"
  using assms
proof (induction rows arbitrary: db k)
  case Nil
  then show ?case by (simp add: update_rows_def cut_off_def)
next
  case (Cons x xs)
  let ?p = "thread_has_pending_step graph (run_thread x)"
  have x: "x \<in> set (db_runs db)" using Cons.prems(4) by simp
  have only: "run_id r = run_id x \<longleftrightarrow> r = x" if "r \<in> set (db_runs db)" for r
    using Cons.prems(1) x that by (auto simp: distinct_map inj_on_def)
  have upd: "update_rows (\<lambda>r. run_id r = run_id x) (\<lambda>r. if ?p then r\<lparr>run_status := RUN_WATCHING, run_last_event_at := stamp\<rparr>
      else truncate_run stamp r) (db_runs db) = map (\<lambda>r. if r = x then reconciled graph stamp x else r) (db_runs db)"
    unfolding update_rows_def by (rule map_cong [OF refl]) (use only in \<open>auto simp: reconciled_def\<close>)
  define db1 where "db1 = db\<lparr>db_runs := map (\<lambda>r. if r = x then reconciled graph stamp x else r) (db_runs db),
    db_messages := update_rows (cut_off graph [x]) (truncate_message stamp) (db_messages db)\<rparr>"
  have chk: "list_all (\<lambda>r. run_id r = run_id x \<longrightarrow> run_check (if ?p then r\<lparr>run_status := RUN_WATCHING, run_last_event_at := stamp\<rparr>
      else truncate_run stamp r)) (db_runs db)"
    using Cons.prems(2) only x reconciled_check [of x graph stamp] by (auto simp: list_all_iff reconciled_def)
  have step: "reconcile_one graph stamp (db, k) x = Inr (db1, k + (if ?p then 0 else 1))"
  proof (cases ?p)
    case True
    have "update_rows (cut_off graph [x]) (truncate_message stamp) (db_messages db) = db_messages db"
      using True by (simp add: update_rows_def cut_off_def)
    then show ?thesis
      using True chk upd by (simp add: reconcile_one_def update_runs_def db1_def)
  next
    case False
    have mc: "list_all (\<lambda>m. (msg_run m = Some (run_id x) \<and> msg_status m = MSG_STREAMING)
        \<longrightarrow> message_check (truncate_message stamp m)) (db_messages db)"
      using Cons.prems(3) truncate_message_check by (auto simp: list_all_iff)
    have "update_rows (cut_off graph [x]) = update_rows (\<lambda>m. msg_run m = Some (run_id x) \<and> msg_status m = MSG_STREAMING)"
      using False by (intro arg_cong [of _ _ update_rows]) (auto simp: cut_off_def)
    then show ?thesis
      using False chk upd mc by (simp add: reconcile_one_def update_runs_def update_messages_def db1_def)
  qed
  have "run_id x \<notin> run_id ` set xs" using Cons.prems(5) by simp
  then have other: "run_id y \<noteq> run_id x" if "y \<in> set xs" for y using that by (metis imageI)
  have ids: "map run_id (db_runs db1) = map run_id (db_runs db)" by (auto simp: db1_def)
  have c1: "list_all run_check (db_runs db1)" "list_all message_check (db_messages db1)"
    using Cons.prems(2,3) x reconciled_check [of x graph stamp] truncate_message_check
    by (auto simp: db1_def list_all_iff set_update_rows cut_off_def)
  have sub: "set xs \<subseteq> set (db_runs db1)"
  proof
    fix y assume y: "y \<in> set xs"
    then have "y \<noteq> x" "y \<in> set (db_runs db)" using other Cons.prems(4) by auto
    then show "y \<in> set (db_runs db1)" by (auto simp: db1_def)
  qed
  obtain db' where db': "rfold (reconcile_one graph stamp) (db1, k + (if ?p then 0 else 1)) xs
      = Inr (db', k + (if ?p then 0 else 1) + length (filter (\<lambda>r. \<not> thread_has_pending_step graph (run_thread r)) xs))"
    "db_runs db' = map (\<lambda>r. if r \<in> set xs then reconciled graph stamp r else r) (db_runs db1)"
    "db_messages db' = update_rows (cut_off graph xs) (truncate_message stamp) (db_messages db1)"
    "db_sessions db' = db_sessions db1" "db_frames db' = db_frames db1"
    using Cons.IH [OF _ c1 sub, of "k + (if ?p then 0 else 1)"] Cons.prems(1,5) ids by auto
  have rx: "reconciled graph stamp x \<notin> set xs" using other by fastforce
  have xx: "x \<notin> set xs" using other by blast
  have runs: "db_runs db' = map (\<lambda>r. if r \<in> set (x # xs) then reconciled graph stamp r else r) (db_runs db)"
    unfolding db'(2) db1_def using rx xx by simp
  have msgs: "db_messages db' = update_rows (cut_off graph (x # xs)) (truncate_message stamp) (db_messages db)"
    unfolding db'(3) db1_def update_rows_def by (auto simp: cut_off_def)
  show ?case
    using step db'(1,4,5) runs msgs by (intro exI [of _ db']) (auto simp: db1_def)
qed

text \<open>The live runs that can be resumed, and the messages no such run will ever finish.\<close>

definition resumable :: "(string \<Rightarrow> bool) option \<Rightarrow> run_row \<Rightarrow> bool" where
  "resumable graph r \<longleftrightarrow> live_run r \<and> thread_has_pending_step graph (run_thread r)"

definition abandoned :: "(string \<Rightarrow> bool) option \<Rightarrow> store_db \<Rightarrow> message_row \<Rightarrow> bool" where
  "abandoned graph db m \<longleftrightarrow> msg_status m = MSG_STREAMING \<and> msg_run m \<noteq> None
     \<and> msg_run m \<notin> Some ` run_id ` set (filter (resumable graph) (db_runs db))"

lemma reconciled_live: "live_run r \<Longrightarrow> live_run (reconciled graph stamp r) = thread_has_pending_step graph (run_thread r)"
  by (auto simp: live_run_def reconciled_def truncate_run_def RUN_LIVE_STATUSES_def RUN_WATCHING_def
      RUN_RUNNING_def RUN_TRUNCATED_def)

lemma live_after: "map run_id (filter live_run (update_rows live_run (reconciled graph stamp) rs))
    = map run_id (filter (resumable graph) rs)"
  by (induction rs) (auto simp: update_rows_def resumable_def reconciled_live)

lemma reconcile_closed_form:
  assumes ok: "db_ok db"
  shows "\<exists>db' n. reconcile_stale_runs graph stamp db = Inr (db', n)
    \<and> db_runs db' = update_rows live_run (reconciled graph stamp) (db_runs db)
    \<and> db_messages db' = update_rows (abandoned graph db) (truncate_message stamp) (db_messages db)
    \<and> db_sessions db' = db_sessions db \<and> db_frames db' = db_frames db
    \<and> (filter (\<lambda>r. live_run r \<and> \<not> resumable graph r) (db_runs db) = [] \<and> filter (abandoned graph db) (db_messages db) = []
         \<longrightarrow> n = 0)"
proof -
  let ?live = "filter live_run (db_runs db)"
  have prem: "distinct (map run_id (db_runs db))" "list_all run_check (db_runs db)" "list_all message_check (db_messages db)"
    "set ?live \<subseteq> set (db_runs db)" "distinct (map run_id ?live)"
    using ok by (auto simp: db_ok_def runs_ok_def messages_ok_def distinct_map_filter)
  let ?k = "length (filter (\<lambda>r. \<not> thread_has_pending_step graph (run_thread r)) ?live)"
  obtain db1 where db1: "rfold (reconcile_one graph stamp) (db, 0) ?live = Inr (db1, ?k)"
    "db_runs db1 = map (\<lambda>r. if r \<in> set ?live then reconciled graph stamp r else r) (db_runs db)"
    "db_messages db1 = update_rows (cut_off graph ?live) (truncate_message stamp) (db_messages db)"
    "db_sessions db1 = db_sessions db" "db_frames db1 = db_frames db"
    using reconcile_fold [OF prem, of graph stamp 0] by auto
  have runs: "db_runs db1 = update_rows live_run (reconciled graph stamp) (db_runs db)"
    unfolding db1(2) update_rows_def by (rule map_cong [OF refl]) simp
  have live1: "run_id ` set (filter live_run (db_runs db1)) = run_id ` set (filter (resumable graph) (db_runs db))"
    unfolding runs using live_after [of graph stamp "db_runs db"] by (metis list.set_map)
  have orphan1: "orphan db1 = abandoned graph db"
    by (rule ext) (auto simp: orphan_def abandoned_def live1 simp del: set_filter split: option.split)
  have cut: "cut_off graph ?live m \<Longrightarrow> abandoned graph db m" for m
    using prem(1) by (auto simp: cut_off_def abandoned_def resumable_def distinct_map inj_on_def)
  have na: "\<not> abandoned graph db (truncate_message stamp m)" for m by (simp add: abandoned_def)
  have both: "update_rows (abandoned graph db) (truncate_message stamp) (db_messages db1)
      = update_rows (abandoned graph db) (truncate_message stamp) (db_messages db)"
    unfolding db1(3) update_rows_def map_map comp_def by (rule map_cong [OF refl]) (auto simp: na dest: cut)
  have chk: "list_all (\<lambda>m. orphan db1 m \<longrightarrow> message_check (truncate_message stamp m)) (db_messages db1)"
    using prem(3) truncate_message_check unfolding db1(3)
    by (auto simp: list_all_iff set_update_rows orphan1 abandoned_def split: if_splits)
  define db2 where "db2 = db1\<lparr>db_messages := update_rows (abandoned graph db) (truncate_message stamp) (db_messages db)\<rparr>"
  have fin: "reconcile_stale_runs graph stamp db = Inr (db2, ?k + length (filter (abandoned graph db) (db_messages db1)))"
    using chk both by (simp add: reconcile_stale_runs_def db1(1) update_messages_def orphan1 db2_def cong: filter_cong)
  have "filter (abandoned graph db) (db_messages db) = [] \<Longrightarrow> filter (abandoned graph db) (db_messages db1) = []"
    unfolding db1(3) by (auto simp: filter_empty_conv set_update_rows abandoned_def split: if_splits)
  moreover have "filter (\<lambda>r. live_run r \<and> \<not> resumable graph r) (db_runs db) = [] \<Longrightarrow> ?k = 0"
    by (auto simp: filter_empty_conv resumable_def)
  ultimately show ?thesis
    using fin runs db1(4,5) by (intro exI [of _ db2]) (auto simp: db2_def)
qed

lemma reconcile_ok:
  assumes "reconcile_stale_runs graph stamp db = Inr (db', n)" and ok: "db_ok db"
  shows "db_ok db'"
proof -
  have sh: "db_runs db' = update_rows live_run (reconciled graph stamp) (db_runs db)"
    "db_messages db' = update_rows (abandoned graph db) (truncate_message stamp) (db_messages db)"
    "db_sessions db' = db_sessions db" "db_frames db' = db_frames db"
    using reconcile_closed_form [OF ok, of graph stamp] assms(1) by auto
  let ?d = "db\<lparr>db_runs := db_runs db'\<rparr>"
  have "update_runs live_run (reconciled graph stamp) db = Inr ?d"
    using ok reconciled_check by (auto simp: update_runs_def sh(1) db_ok_def runs_ok_def list_all_iff)
  then have d: "db_ok ?d" by (rule update_runs_ok [OF _ ok]) (simp_all add: reconciled_state)
  have "update_messages (abandoned graph db) (truncate_message stamp) ?d = Inr db'"
    using ok truncate_message_check sh by (auto simp: update_messages_def db_ok_def messages_ok_def list_all_iff abandoned_def)
  then show ?thesis by (rule update_messages_ok [OF _ d]) simp
qed

lemma prune_ok: "db_ok db \<Longrightarrow> db_ok (fst (prune_run_events env days now db))"
proof -
  assume ok: "db_ok db"
  have "db_ok (db\<lparr>db_frames := filter (\<lambda>f. fr_run f \<notin> old) (db_frames db)\<rparr>)" for old
  proof -
    have "frame_seqs rid (filter (\<lambda>f. fr_run f \<notin> old) (db_frames db))
        = (if rid \<in> old then [] else frame_seqs rid (db_frames db))" for rid
      by (auto simp: frame_seqs_def filter_empty_conv intro!: arg_cong [of _ _ "map fr_seq"] filter_cong)
    then show ?thesis
      using ok by (simp add: db_ok_def sessions_ok_def runs_ok_def messages_ok_def frames_ok_def links_ok_def)
  qed
  then show ?thesis using ok by (simp add: prune_run_events_def Let_def)
qed

lemma op_result_ok: "op_result op db = Inr db' \<Longrightarrow> db_ok db \<Longrightarrow> db_ok db'"
  by (cases op) (auto simp: rbind_eq_Inr intro: create_session_ok update_session_ok delete_session_ok create_run_ok
      update_run_status_ok finalize_run_ok append_run_events_ok create_message_ok append_message_delta_ok
      finalize_message_ok reconcile_ok prune_ok)

lemma exec_op_ok: "db_ok db \<Longrightarrow> db_ok (exec_op op db)"
  by (auto simp: exec_op_def intro: op_result_ok split: sum.split)

end
