(* ===== verification/SessionStoreProps.thy ===== *)
theory SessionStoreProps
  imports SessionStoreFacts
begin

text \<open>
  The properties of the session store: its invariant in every reachable state, set-once outcomes of
  runs and messages, the pass that resolves runs a dead process left behind, ownership,
  pagination, deletion, and what streamed text and frames keep.
\<close>

subsection \<open>Reachable states\<close>

lemma reachable_ok: "db_ok (fold exec_op ops empty_db)"
  by (rule fold_invariant_list [where P = db_ok]) (auto intro: empty_db_ok exec_op_ok)

text \<open>C35: Whatever sequence of operations is run, whatever their arguments, every reachable store is
  well formed: all constraints hold, keys are unique, references resolve, the messages of each
  session are numbered 1, 2, 3, ... in the order they were added, a message names a run that is there or none, the frames
  of a run are in order and below its counter, and a run has a terminal status and an end exactly when it is not live.\<close>

theorem store_always_well_formed: "db_ok (fold exec_op ops empty_db)"
  by (rule reachable_ok)

subsection \<open>Set-once outcomes\<close>

fun is_hard_delete :: "store_op \<Rightarrow> bool" where
  "is_hard_delete (O_delete_session sid u hard stamp) = hard"
| "is_hard_delete _ = False"

text \<open>A hard delete of this session.\<close>

definition removes_session :: "string \<Rightarrow> store_op \<Rightarrow> bool" where
  "removes_session sid op \<longleftrightarrow> is_hard_delete op \<and> (case op of O_delete_session sid' u hard stamp \<Rightarrow> sid' = sid | _ \<Rightarrow> False)"

definition same_outcome :: "run_row \<Rightarrow> run_row \<Rightarrow> bool" where
  "same_outcome r' r \<longleftrightarrow> run_id r' = run_id r \<and> run_session r' = run_session r \<and> run_terminal r' = run_terminal r
     \<and> run_status r' = run_status r \<and> run_ended_at r' = run_ended_at r"

definition runs_kept :: "string \<Rightarrow> store_db \<Rightarrow> store_db \<Rightarrow> bool" where
  "runs_kept sid db db' \<longleftrightarrow> (\<forall>r \<in> set (db_runs db). run_session r = sid \<and> run_terminal r \<noteq> None
     \<longrightarrow> (\<exists>r' \<in> set (db_runs db'). same_outcome r' r))"

lemma runs_kept_same: "db_runs db' = db_runs db \<Longrightarrow> runs_kept sid db db'"
  by (auto simp: runs_kept_def same_outcome_def)

lemma runs_kept_trans: "runs_kept sid a b \<Longrightarrow> runs_kept sid b c \<Longrightarrow> runs_kept sid a c"
  unfolding runs_kept_def same_outcome_def by (metis (no_types, lifting))

lemma runs_kept_update:
  assumes "db_runs db' = update_rows p f (db_runs db)"
    and "\<And>r. r \<in> set (db_runs db) \<Longrightarrow> p r \<Longrightarrow> run_terminal r = None \<or> same_outcome (f r) r"
  shows "runs_kept sid db db'"
  unfolding runs_kept_def
proof (intro ballI impI)
  fix r assume r: "r \<in> set (db_runs db)" "run_session r = sid \<and> run_terminal r \<noteq> None"
  then have "same_outcome (if p r then f r else r) r"
    using assms(2) [of r] by (auto simp: same_outcome_def)
  moreover have "(if p r then f r else r) \<in> set (db_runs db')"
    unfolding assms(1) set_update_rows using r(1) by blast
  ultimately show "\<exists>r' \<in> set (db_runs db'). same_outcome r' r" by blast
qed

lemma scrub_other_runs: "r \<in> set (db_runs (scrub sid db)) \<longleftrightarrow> r \<in> set (db_runs db) \<and> run_session r \<noteq> sid"
  by (simp add: scrub_def Let_def)

lemma session_update_runs: "update_sessions p f db = Inr db' \<Longrightarrow> db_runs db' = db_runs db"
  "touch sid stamp db = Inr db' \<Longrightarrow> db_runs db' = db_runs db"
  "touch_run_session rid stamp db = Inr db' \<Longrightarrow> db_runs db' = db_runs db"
  "touch_message_session mid stamp db = Inr db' \<Longrightarrow> db_runs db' = db_runs db"
  by (auto simp: touch_def touch_run_session_def touch_message_session_def update_sessions_def
      split: if_splits option.splits)

lemma message_update_runs: "update_messages q g db = Inr db' \<Longrightarrow> db_runs db' = db_runs db"
  by (auto simp: update_messages_def split: if_splits)

lemma fold_frames_runs: "db_runs (fold insert_frame rows db) = db_runs db"
  by (induction rows arbitrary: db) (auto simp: insert_frame_def)

lemma update_session_runs: "update_session sid u patch stamp db = Inr (db', res) \<Longrightarrow> db_runs db' = db_runs db"
  by (auto simp: update_session_def rbind_eq_Inr Let_def session_update_runs split: if_splits)

lemma delete_keeps_runs:
  assumes "delete_session sid' u hard stamp db = Inr (db', res)" and "hard \<Longrightarrow> sid' \<noteq> sid"
  shows "runs_kept sid db db'"
proof -
  obtain uid where uid: "required u = Inr uid" using assms(1) by (auto simp: delete_session_def rbind_eq_Inr)
  show ?thesis
  proof (cases "hard \<and> find_owned sid' uid db \<noteq> None")
    case True
    then have "update_sessions (\<lambda>r. ses_id r = sid' \<and> ses_user r = uid) (tombstone stamp) (scrub sid' db) = Inr db'"
      using assms(1) uid by (auto simp: delete_session_def rbind_eq_Inr)
    then have "db_runs db' = db_runs (scrub sid' db)" by (rule session_update_runs)
    then show ?thesis using assms(2) True by (auto simp: runs_kept_def scrub_other_runs same_outcome_def)
  next
    case False
    then show ?thesis using assms uid
      by (intro runs_kept_same) (auto simp: delete_session_def update_session_runs split: if_splits)
  qed
qed

lemma op_keeps_runs:
  assumes "op_result op db = Inr db'" "db_ok db" "\<not> removes_session sid op"
  shows "runs_kept sid db db'"
  using assms
proof (cases op)
  case (O_create_session fresh stamp x1 x2 x3 x4 x5 x6)
  then show ?thesis using assms(1)
    by (intro runs_kept_same) (auto simp: rbind_eq_Inr create_session_def Let_def insert_session_def split: if_splits)
next
  case (O_update_session sid' u patch stamp)
  then show ?thesis using assms(1) by (intro runs_kept_same) (auto simp: rbind_eq_Inr update_session_runs)
next
  case (O_delete_session sid' u hard stamp)
  then show ?thesis using assms(1,3)
    by (auto simp: rbind_eq_Inr removes_session_def intro: delete_keeps_runs)
next
  case (O_create_run fr ft stamp sid' u a)
  have "db_runs db' = db_runs db \<or> (\<exists>r. db_runs db' = db_runs db @ [r])"
    using assms(1) O_create_run
    by (auto simp: rbind_eq_Inr create_run_def Let_def insert_run_def session_update_runs
        split: if_splits option.splits)
  then show ?thesis by (auto simp: runs_kept_def same_outcome_def)
next
  case (O_run_status rid status stamp)
  then have "db_runs db' = update_rows (open_run rid) (\<lambda>r. r\<lparr>run_status := status, run_last_event_at := stamp\<rparr>) (db_runs db)"
    using assms(1) by (auto simp: rbind_eq_Inr update_run_status_def update_runs_def split: if_splits)
  then show ?thesis by (rule runs_kept_update) (simp add: open_run_def)
next
  case (O_finalize_run rid status stamp)
  then have "db_runs db' = update_rows (open_run rid) (close_run status stamp) (db_runs db)"
    using assms(1) by (auto simp: rbind_eq_Inr finalize_run_def update_runs_def session_update_runs split: if_splits)
  then show ?thesis by (rule runs_kept_update) (simp add: open_run_def)
next
  case (O_append_events rid es stamp)
  then consider "db_runs db' = db_runs db"
    | f where "db_runs db' = update_rows (\<lambda>r. run_id r = rid) f (db_runs db)" "\<And>r. same_outcome (f r) r"
    using assms(1)
    by (auto simp: rbind_eq_Inr append_run_events_def write_frames_def Let_def update_runs_def session_update_runs
        fold_frames_runs same_outcome_def split: if_splits option.splits)
  then show ?thesis by cases (auto intro: runs_kept_same runs_kept_update)
next
  case (O_create_message fresh stamp sid' a)
  then show ?thesis using assms(1)
    by (intro runs_kept_same) (auto simp: rbind_eq_Inr create_message_def Let_def insert_message_def session_update_runs
        split: if_splits option.splits)
next
  case (O_delta mid delta x1 stamp)
  then show ?thesis using assms(1)
    by (intro runs_kept_same) (auto simp: rbind_eq_Inr append_message_delta_def message_update_runs session_update_runs
        split: if_splits)
next
  case (O_finalize_message mid status c x1 x2 stamp)
  then show ?thesis using assms(1)
    by (intro runs_kept_same) (auto simp: rbind_eq_Inr finalize_message_def message_update_runs session_update_runs
        split: if_splits)
next
  case (O_reconcile graph stamp)
  then have "db_runs db' = update_rows live_run (reconciled graph stamp) (db_runs db)"
    using assms(1) reconcile_closed_form [OF assms(2), of graph stamp] by (auto simp: rbind_eq_Inr)
  then show ?thesis
    by (rule runs_kept_update) (use assms(2) in \<open>auto simp: db_ok_def runs_ok_def run_state_ok_def list_all_iff\<close>)
next
  case (O_prune env days now)
  then show ?thesis using assms(1) by (intro runs_kept_same) (auto simp: prune_run_events_def Let_def)
qed

lemma ops_keep_runs:
  "db_ok db \<Longrightarrow> list_all (\<lambda>op. \<not> removes_session sid op) ops \<Longrightarrow> runs_kept sid db (fold exec_op ops db)"
proof (induction ops arbitrary: db)
  case (Cons op ops)
  have "runs_kept sid db (exec_op op db)"
    using op_keeps_runs [of op db] Cons.prems by (auto simp: exec_op_def runs_kept_same split: sum.split)
  then show ?case
    using Cons.IH [OF exec_op_ok [OF Cons.prems(1)]] Cons.prems(2) runs_kept_trans by simp
qed (simp add: runs_kept_same)

text \<open>C36: A run's outcome is recorded once: after it has a terminal status, no sequence of operations
  other than a hard delete of its own session, duplicated finalizations, reconciliation and hard deletes of other sessions
  included, changes its status, its terminal status or its end.\<close>

theorem run_outcome_set_once:
  assumes "db_ok db" and "r \<in> set (db_runs db)" and "run_terminal r = Some s"
    and "list_all (\<lambda>op. \<not> removes_session (run_session r) op) ops"
  shows "\<exists>r' \<in> set (db_runs (fold exec_op ops db)). run_id r' = run_id r \<and> run_terminal r' = Some s
    \<and> run_status r' = s \<and> run_ended_at r' = run_ended_at r"
proof -
  have "run_status r = s"
    using assms(1-3) by (auto simp: db_ok_def runs_ok_def run_state_ok_def list_all_iff)
  then show ?thesis
    using ops_keep_runs [OF assms(1,4)] assms(2,3) by (fastforce simp: runs_kept_def same_outcome_def)
qed

subsection \<open>Finished messages\<close>

definition same_message :: "message_row \<Rightarrow> message_row \<Rightarrow> bool" where
  "same_message m' m \<longleftrightarrow> msg_id m' = msg_id m \<and> msg_session m' = msg_session m \<and> msg_seq m' = msg_seq m
     \<and> msg_role m' = msg_role m \<and> msg_status m' = msg_status m \<and> msg_content m' = msg_content m
     \<and> msg_error m' = msg_error m"

definition messages_kept :: "store_db \<Rightarrow> store_db \<Rightarrow> bool" where
  "messages_kept db db' \<longleftrightarrow> (\<forall>m \<in> set (db_messages db). msg_status m \<noteq> MSG_STREAMING \<longrightarrow>
     (\<exists>m' \<in> set (db_messages db'). same_message m' m))"

lemma messages_kept_same: "db_messages db' = db_messages db \<Longrightarrow> messages_kept db db'"
  by (auto simp: messages_kept_def same_message_def)

lemma messages_kept_trans: "messages_kept a b \<Longrightarrow> messages_kept b c \<Longrightarrow> messages_kept a c"
  unfolding messages_kept_def same_message_def by (metis (no_types, lifting))

lemma messages_kept_update:
  assumes "db_messages db' = update_rows p f (db_messages db)"
    and "\<And>m. m \<in> set (db_messages db) \<Longrightarrow> p m \<Longrightarrow> msg_status m = MSG_STREAMING"
  shows "messages_kept db db'"
  unfolding messages_kept_def
proof (intro ballI impI)
  fix m assume m: "m \<in> set (db_messages db)" "msg_status m \<noteq> MSG_STREAMING"
  then have "m \<in> set (db_messages db')"
    unfolding assms(1) set_update_rows using assms(2) [OF m(1)] by (intro bexI [of _ m]) auto
  then show "\<exists>m' \<in> set (db_messages db'). same_message m' m" by (auto simp: same_message_def)
qed

lemma session_update_messages: "update_sessions p f db = Inr db' \<Longrightarrow> db_messages db' = db_messages db"
  "touch sid stamp db = Inr db' \<Longrightarrow> db_messages db' = db_messages db"
  "touch_run_session rid stamp db = Inr db' \<Longrightarrow> db_messages db' = db_messages db"
  "touch_message_session mid stamp db = Inr db' \<Longrightarrow> db_messages db' = db_messages db"
  by (auto simp: touch_def touch_run_session_def touch_message_session_def update_sessions_def
      split: if_splits option.splits)

lemma run_update_messages: "update_runs q g db = Inr db' \<Longrightarrow> db_messages db' = db_messages db"
  by (auto simp: update_runs_def split: if_splits)

lemma fold_frames_messages: "db_messages (fold insert_frame rows db) = db_messages db"
  by (induction rows arbitrary: db) (auto simp: insert_frame_def)

lemma update_session_messages:
  "update_session sid u patch stamp db = Inr (db', res) \<Longrightarrow> db_messages db' = db_messages db"
  by (auto simp: update_session_def rbind_eq_Inr Let_def session_update_messages split: if_splits)

lemma op_keeps_messages:
  assumes "op_result op db = Inr db'" "db_ok db" "\<not> is_hard_delete op"
  shows "messages_kept db db'"
  using assms
proof (cases op)
  case (O_create_session fresh stamp x1 x2 x3 x4 x5 x6)
  then show ?thesis using assms(1)
    by (intro messages_kept_same) (auto simp: rbind_eq_Inr create_session_def Let_def insert_session_def split: if_splits)
next
  case (O_update_session sid u patch stamp)
  then show ?thesis using assms(1) by (intro messages_kept_same) (auto simp: rbind_eq_Inr update_session_messages)
next
  case (O_delete_session sid u hard stamp)
  then show ?thesis using assms(1,3)
    by (intro messages_kept_same) (auto simp: rbind_eq_Inr delete_session_def update_session_messages)
next
  case (O_create_run fr ft stamp sid u a)
  then show ?thesis using assms(1)
    by (intro messages_kept_same) (auto simp: rbind_eq_Inr create_run_def Let_def insert_run_def session_update_messages
        split: if_splits option.splits)
next
  case (O_run_status rid status stamp)
  then show ?thesis using assms(1)
    by (intro messages_kept_same) (auto simp: rbind_eq_Inr update_run_status_def run_update_messages split: if_splits)
next
  case (O_finalize_run rid status stamp)
  then show ?thesis using assms(1)
    by (intro messages_kept_same) (auto simp: rbind_eq_Inr finalize_run_def run_update_messages session_update_messages
        split: if_splits)
next
  case (O_append_events rid es stamp)
  then show ?thesis using assms(1)
    by (intro messages_kept_same) (auto simp: rbind_eq_Inr append_run_events_def write_frames_def Let_def
        run_update_messages session_update_messages fold_frames_messages split: if_splits option.splits)
next
  case (O_create_message fresh stamp sid a)
  have "db_messages db' = db_messages db \<or> (\<exists>m. db_messages db' = db_messages db @ [m])"
    using assms(1) O_create_message
    by (auto simp: rbind_eq_Inr create_message_def Let_def insert_message_def session_update_messages
        split: if_splits option.splits)
  then show ?thesis by (auto simp: messages_kept_def same_message_def)
next
  case (O_delta mid delta x1 stamp)
  then have "db_messages db' = update_rows (streaming mid) (add_delta delta x1 stamp) (db_messages db)"
    using assms(1) by (auto simp: rbind_eq_Inr append_message_delta_def update_messages_def session_update_messages
        split: if_splits)
  then show ?thesis by (rule messages_kept_update) (simp add: streaming_def)
next
  case (O_finalize_message mid status c x1 x2 stamp)
  then have "db_messages db' = update_rows (streaming mid) (close_message status c x1 x2 stamp) (db_messages db)"
    using assms(1) by (auto simp: rbind_eq_Inr finalize_message_def update_messages_def session_update_messages
        split: if_splits)
  then show ?thesis by (rule messages_kept_update) (simp add: streaming_def)
next
  case (O_reconcile graph stamp)
  then have "db_messages db' = update_rows (abandoned graph db) (truncate_message stamp) (db_messages db)"
    using assms(1) reconcile_closed_form [OF assms(2), of graph stamp] by (auto simp: rbind_eq_Inr)
  then show ?thesis by (rule messages_kept_update) (simp add: abandoned_def)
next
  case (O_prune env days now)
  then show ?thesis using assms(1) by (intro messages_kept_same) (auto simp: prune_run_events_def Let_def)
qed

lemma ops_keep_messages:
  "db_ok db \<Longrightarrow> list_all (\<lambda>op. \<not> is_hard_delete op) ops \<Longrightarrow> messages_kept db (fold exec_op ops db)"
proof (induction ops arbitrary: db)
  case (Cons op ops)
  have "messages_kept db (exec_op op db)"
    using op_keeps_messages [of op db] Cons.prems by (auto simp: exec_op_def messages_kept_same split: sum.split)
  then show ?case
    using Cons.IH [OF exec_op_ok [OF Cons.prems(1)]] Cons.prems(2) messages_kept_trans by simp
qed (simp add: messages_kept_same)

text \<open>A message that is no longer streaming never changes again: no late delta, second
  finalization or reconciliation rewrites its text, its status or its error, so an answer recorded
  as truncated can never turn into a complete one.\<close>

theorem finished_message_immutable:
  assumes "db_ok db" and "m \<in> set (db_messages db)" and "msg_status m \<noteq> MSG_STREAMING"
    and "list_all (\<lambda>op. \<not> is_hard_delete op) ops"
  shows "\<exists>m' \<in> set (db_messages (fold exec_op ops db)). msg_id m' = msg_id m \<and> msg_session m' = msg_session m
    \<and> msg_seq m' = msg_seq m \<and> msg_status m' = msg_status m \<and> msg_content m' = msg_content m
    \<and> msg_error m' = msg_error m"
  using ops_keep_messages [OF assms(1,4)] assms(2,3) unfolding messages_kept_def same_message_def by blast

subsection \<open>Reconciliation\<close>

lemma update_rows_none: "filter p xs = [] \<Longrightarrow> update_rows p f xs = xs"
  by (auto simp: update_rows_def filter_empty_conv intro: map_idI)

lemma update_rows_same: "(\<And>r. r \<in> set xs \<Longrightarrow> p r \<Longrightarrow> f r = g r) \<Longrightarrow> update_rows p f xs = update_rows p g xs"
  by (simp add: update_rows_def)

text \<open>The asynchronous pass that the application runs at startup is the same one when nothing else writes while it
  waits for the graph.\<close>

lemma startup_reconciles:
  "areconcile_stale_runs graph stamp (\<lambda>db. db) db = reconcile_stale_runs (Some (athread_has_pending_step graph)) stamp db"
  by (simp add: areconcile_stale_runs_def areconcile_rows_def reconcile_stale_runs_def)

text \<open>C38: After the reconciliation nothing unfinished is left that nobody will finish: it never
  fails, every run it leaves live is one LangGraph can resume and is watching, a message still marked as
  streaming belongs to such a run or names no run (those it leaves as they are), no message text, no session and no frame
  changes. A second call with the same answers of the graph counts nothing and only stamps the time of the last
  event of the runs that can be resumed anew.\<close>

theorem reconcile_leaves_only_resumable:
  assumes "db_ok db"
  shows "\<exists>db' n. reconcile_stale_runs graph stamp db = Inr (db', n)
    \<and> (\<forall>r \<in> set (db_runs db'). live_run r = resumable graph r \<and> (live_run r \<longrightarrow> run_status r = RUN_WATCHING))
    \<and> (\<forall>m \<in> set (db_messages db'). msg_status m = MSG_STREAMING \<longrightarrow>
         msg_run m = None \<or> msg_run m \<in> Some ` run_id ` set (filter live_run (db_runs db')))
    \<and> (\<forall>m \<in> set (db_messages db). msg_status m = MSG_STREAMING \<and> msg_run m = None \<longrightarrow> m \<in> set (db_messages db'))
    \<and> map msg_content (db_messages db') = map msg_content (db_messages db) \<and> db_frames db' = db_frames db
    \<and> db_sessions db' = db_sessions db
    \<and> reconcile_stale_runs graph stamp' db'
        = Inr (db'\<lparr>db_runs := update_rows live_run (\<lambda>r. r\<lparr>run_last_event_at := stamp'\<rparr>) (db_runs db')\<rparr>, 0)"
proof -
  obtain db' n where r: "reconcile_stale_runs graph stamp db = Inr (db', n)"
    and runs: "db_runs db' = update_rows live_run (reconciled graph stamp) (db_runs db)"
    and msgs: "db_messages db' = update_rows (abandoned graph db) (truncate_message stamp) (db_messages db)"
    and frames: "db_frames db' = db_frames db" "db_sessions db' = db_sessions db"
    using reconcile_closed_form [OF assms, of graph stamp] by blast
  have live: "live_run q = resumable graph q \<and> (live_run q \<longrightarrow> run_status q = RUN_WATCHING)"
    if "q \<in> set (db_runs db')" for q
  proof -
    obtain x where x: "x \<in> set (db_runs db)" "q = (if live_run x then reconciled graph stamp x else x)"
      using \<open>q \<in> set (db_runs db')\<close> unfolding runs set_update_rows by blast
    show ?thesis
    proof (cases "live_run x")
      case True
      then have q: "q = reconciled graph stamp x" using x(2) by simp
      have "live_run q = thread_has_pending_step graph (run_thread x)" unfolding q by (rule reconciled_live [OF True])
      then show ?thesis unfolding resumable_def by (auto simp: q) (simp add: reconciled_def)
    qed (use x(2) in \<open>simp add: resumable_def\<close>)
  qed
  have live_same: "filter (resumable graph) (db_runs db') = filter live_run (db_runs db')"
    using live by (intro filter_cong [OF refl]) blast
  then have ids: "run_id ` set (filter (resumable graph) (db_runs db')) = run_id ` set (filter (resumable graph) (db_runs db))"
    using live_after [of graph stamp "db_runs db"] by (metis list.set_map runs)
  have none: "\<not> abandoned graph db' m" if m: "m \<in> set (db_messages db')" for m
  proof -
    have "abandoned graph db' m = abandoned graph db m" unfolding abandoned_def ids by simp
    moreover have "\<not> abandoned graph db (truncate_message stamp y)" for y by (simp add: abandoned_def)
    moreover obtain x where "m = (if abandoned graph db x then truncate_message stamp x else x)"
      using m unfolding msgs set_update_rows by blast
    ultimately show ?thesis by (cases "abandoned graph db x") simp_all
  qed
  have texts: "map msg_content (db_messages db') = map msg_content (db_messages db)"
    unfolding msgs by (rule map_update_keys) simp
  have "filter (\<lambda>r. live_run r \<and> \<not> resumable graph r) (db_runs db') = []"
    "filter (abandoned graph db') (db_messages db') = []"
    using live none by (auto simp: filter_empty_conv)
  then obtain db'' where again: "reconcile_stale_runs graph stamp' db' = Inr (db'', 0)"
    "db_runs db'' = update_rows live_run (reconciled graph stamp') (db_runs db')"
    "db_messages db'' = update_rows (abandoned graph db') (truncate_message stamp') (db_messages db')"
    "db_sessions db'' = db_sessions db'" "db_frames db'' = db_frames db'"
    using reconcile_closed_form [OF reconcile_ok [OF r assms], of graph stamp'] by blast
  have "update_rows live_run (reconciled graph stamp') (db_runs db')
      = update_rows live_run (\<lambda>r. r\<lparr>run_last_event_at := stamp'\<rparr>) (db_runs db')"
  proof (rule update_rows_same)
    fix q assume q: "q \<in> set (db_runs db')" "live_run q"
    then have "run_status q = RUN_WATCHING" "thread_has_pending_step graph (run_thread q)"
      using live [OF q(1)] unfolding resumable_def by simp_all
    then show "reconciled graph stamp' q = q\<lparr>run_last_event_at := stamp'\<rparr>" by (cases q) (simp add: reconciled_def)
  qed
  moreover have "db_messages db'' = db_messages db'"
    unfolding again(3) using none by (intro update_rows_none) (auto simp: filter_empty_conv)
  ultimately have second: "db'' = db'\<lparr>db_runs := update_rows live_run (\<lambda>r. r\<lparr>run_last_event_at := stamp'\<rparr>) (db_runs db')\<rparr>"
    using again(2,4,5) by (cases db'; cases db'') simp
  have owned: "\<forall>m \<in> set (db_messages db'). msg_status m = MSG_STREAMING \<longrightarrow>
      msg_run m = None \<or> msg_run m \<in> Some ` run_id ` set (filter live_run (db_runs db'))"
    using none live_same by (simp add: abandoned_def)
  have kept: "\<forall>m \<in> set (db_messages db). msg_status m = MSG_STREAMING \<and> msg_run m = None \<longrightarrow> m \<in> set (db_messages db')"
  proof (intro ballI impI)
    fix m assume m: "m \<in> set (db_messages db)" "msg_status m = MSG_STREAMING \<and> msg_run m = None"
    then have "m = (if abandoned graph db m then truncate_message stamp m else m)" by (simp add: abandoned_def)
    then show "m \<in> set (db_messages db')" unfolding msgs set_update_rows using m(1) by blast
  qed
  have runs_live: "\<forall>q \<in> set (db_runs db'). live_run q = resumable graph q \<and> (live_run q \<longrightarrow> run_status q = RUN_WATCHING)"
    using live by (rule ballI)
  note parts = r runs_live owned kept texts frames again(1) [unfolded second]
  show ?thesis by (rule exI [of _ db'], rule exI [of _ n], intro conjI) (fact parts)+
qed

subsection \<open>Pagination\<close>

text \<open>Following the cursors from page to page; \<open>fuel\<close> bounds the number of pages.\<close>

fun all_pages ::
  "nat \<Rightarrow> (session_row \<Rightarrow> bool) \<Rightarrow> (pyfloat \<times> string) option \<Rightarrow> nat \<Rightarrow> store_db \<Rightarrow> session_row list" where
  "all_pages 0 p cursor limit db = []"
| "all_pages (Suc fuel) p cursor limit db = (let (items, next) = session_page p cursor limit db in
     items @ (case next of None \<Rightarrow> [] | Some c \<Rightarrow> all_pages fuel p (Some c) limit db))"

lemma newer_total: "newer a b \<or> newer b a"
  by (auto simp: newer_def)

lemma newer_trans: "newer a b \<Longrightarrow> newer b c \<Longrightarrow> newer a c"
  by (auto simp: newer_def)

lemma set_insert_by_newer [simp]: "set (insert_by_newer a bs) = insert a (set bs)"
  by (induction bs) auto

lemma sorted_insert_by_newer: "sorted_wrt newer bs \<Longrightarrow> sorted_wrt newer (insert_by_newer a bs)"
proof (induction bs)
  case (Cons b bs)
  then show ?case
    using newer_total [of a b] by (auto intro: newer_trans)
qed simp

lemma sort_newest_sorted: "sorted_wrt newer (sort_newest rs)"
  unfolding sort_newest_def by (induction rs) (auto intro: sorted_insert_by_newer)

lemma mset_insert_by_newer: "mset (insert_by_newer a bs) = add_mset a (mset bs)"
  by (induction bs) auto

lemma mset_sort_newest [simp]: "mset (sort_newest rs) = mset rs"
  unfolding sort_newest_def by (induction rs) (auto simp: mset_insert_by_newer)

lemma set_sort_newest [simp]: "set (sort_newest rs) = set rs"
  by (metis mset_sort_newest set_mset_mset)

lemma length_sort_newest [simp]: "length (sort_newest rs) = length rs"
  by (metis mset_sort_newest size_mset)

lemma newer_antisym: "newer a b \<Longrightarrow> newer b a \<Longrightarrow> ses_id a = ses_id b"
  by (auto simp: newer_def)

lemma sorted_unique:
  assumes "sorted_wrt newer xs" "sorted_wrt newer ys" "mset xs = mset ys" "inj_on ses_id (set xs)"
  shows "xs = ys"
  using assms
proof (induction xs arbitrary: ys)
  case (Cons x xs)
  then obtain y ys' where ys: "ys = y # ys'" by (cases ys) auto
  have sets: "set (x # xs) = set ys" using Cons.prems(3) by (metis set_mset_mset)
  have "newer x y" if "y \<noteq> x" using that sets Cons.prems(1) ys by auto
  moreover have "newer y x" if "y \<noteq> x" using that sets Cons.prems(2) ys by auto
  ultimately have "y = x"
    using newer_antisym [of x y] Cons.prems(4) sets ys unfolding inj_on_def by (metis list.set_intros(1))
  then show ?case using Cons ys by (auto simp: inj_on_def)
qed simp

lemma sort_newest_filter:
  assumes "distinct (map ses_id rs)"
  shows "sort_newest (filter q rs) = filter q (sort_newest rs)"
proof (rule sorted_unique)
  show "sorted_wrt newer (filter q (sort_newest rs))" by (rule sorted_wrt_filter [OF sort_newest_sorted])
  show "inj_on ses_id (set (sort_newest (filter q rs)))" using assms by (auto simp: distinct_map inj_on_def)
qed (simp_all add: sort_newest_sorted mset_filter)

lemma after_key: "ses_id a \<noteq> ses_id b \<Longrightarrow> after_cursor (Some (ses_updated_at a, ses_id a)) b = newer a b"
  by (auto simp: after_cursor_def newer_def)

lemma filter_after:
  assumes "sorted_wrt newer (xs @ a # ys)" "distinct (map ses_id (xs @ a # ys))"
  shows "filter (after_cursor (Some (ses_updated_at a, ses_id a))) (xs @ a # ys) = ys"
proof -
  have other: "ses_id x \<noteq> ses_id a" if "x \<in> set zs" "ses_id a \<notin> ses_id ` set zs" for x zs
    using that by (metis imageI)
  have fresh: "ses_id a \<notin> ses_id ` set xs" "ses_id a \<notin> ses_id ` set ys" using assms(2) by auto
  have "\<not> after_cursor (Some (ses_updated_at a, ses_id a)) x" if "x \<in> set xs" for x
  proof -
    have "newer x a" using that assms(1) by (simp add: sorted_wrt_append)
    moreover have "ses_id x \<noteq> ses_id a" using other [OF that] fresh by metis
    ultimately show ?thesis using after_key [of a x] newer_antisym by metis
  qed
  moreover have "after_cursor (Some (ses_updated_at a, ses_id a)) y" if "y \<in> set ys" for y
  proof -
    have "newer a y" using that assms(1) by (simp add: sorted_wrt_append)
    moreover have "ses_id a \<noteq> ses_id y" using other [OF that] fresh by metis
    ultimately show ?thesis using after_key [of a y] by simp
  qed
  moreover have "\<not> after_cursor (Some (ses_updated_at a, ses_id a)) a" by (simp add: after_cursor_def)
  ultimately show ?thesis by (simp add: filter_empty_conv filter_True)
qed

lemma pages_rest:
  assumes d: "distinct (map ses_id (db_sessions db))" and l: "0 < limit"
    and s: "sort_newest (filter p (db_sessions db)) = seen @ rest"
    and c: "cursor = (if seen = [] then None else Some (ses_updated_at (last seen), ses_id (last seen)))"
    and f: "length rest < fuel"
  shows "all_pages fuel p cursor limit db = rest"
  using s c f
proof (induction fuel arbitrary: seen rest cursor)
  case (Suc fuel)
  let ?all = "sort_newest (filter p (db_sessions db))"
  have dp: "distinct (map ses_id (filter p (db_sessions db)))" using d by (rule distinct_map_filter)
  have dd: "distinct (map ses_id ?all)" using dp by (metis mset_sort_newest mset_map mset_eq_imp_distinct_iff)
  have rest: "sort_newest (filter (\<lambda>r. p r \<and> after_cursor cursor r) (db_sessions db)) = rest"
  proof -
    have "filter (\<lambda>r. p r \<and> after_cursor cursor r) (db_sessions db)
        = filter (after_cursor cursor) (filter p (db_sessions db))" by (simp add: conj_commute)
    then have *: "sort_newest (filter (\<lambda>r. p r \<and> after_cursor cursor r) (db_sessions db)) = filter (after_cursor cursor) ?all"
      by (simp only: sort_newest_filter [OF dp])
    show ?thesis
    proof (cases seen rule: rev_cases)
      case Nil
      then show ?thesis using * Suc.prems(1,2) by (simp add: after_cursor_def)
    next
      case (snoc xs a)
      then have "filter (after_cursor cursor) (xs @ a # rest) = rest"
        using Suc.prems(1,2) filter_after [of xs a rest] sort_newest_sorted [of "filter p (db_sessions db)"] dd by simp
      then show ?thesis using * Suc.prems(1) snoc by simp
    qed
  qed
  show ?case
  proof (cases "limit < length rest")
    case True
    let ?items = "take limit rest"
    have it: "?items \<noteq> []" using True l by auto
    have "session_page p cursor limit db = (?items, Some (ses_updated_at (last ?items), ses_id (last ?items)))"
      using True it by (simp add: session_page_def rest Let_def min_def)
    moreover have "all_pages fuel p (Some (ses_updated_at (last ?items), ses_id (last ?items))) limit db = drop limit rest"
      by (rule Suc.IH [of "seen @ ?items"]) (use Suc.prems it l True in auto)
    ultimately show ?thesis by simp
  next
    case False
    then show ?thesis by (simp add: session_page_def rest Let_def)
  qed
qed simp

text \<open>C37: Paging through the sessions serves every matching session exactly once, newest activity first:
  the pages that the cursors lead through, concatenated, are the sorted list of all matching
  sessions, for every page size and every filter, ties in the activity time included.\<close>

theorem pages_cover_exactly:
  assumes "db_ok db" and "0 < limit" and "length (db_sessions db) < fuel"
  shows "all_pages fuel p None limit db = sort_newest (filter p (db_sessions db))
    \<and> mset (all_pages fuel p None limit db) = mset (filter p (db_sessions db))"
proof -
  have "length (filter p (db_sessions db)) < fuel" using assms(3) length_filter_le le_less_trans by blast
  then have "all_pages fuel p None limit db = sort_newest (filter p (db_sessions db))"
    by (intro pages_rest [where seen = "[]"]) (use assms in \<open>simp_all add: db_ok_def sessions_ok_def\<close>)
  then show ?thesis by simp
qed

subsection \<open>Deletion\<close>

lemma filter_update_other: "(\<And>r. r \<in> set xs \<Longrightarrow> p r \<Longrightarrow> \<not> q r \<and> \<not> q (f r)) \<Longrightarrow> filter q (update_rows p f xs) = filter q xs"
  by (induction xs) (auto simp: update_rows_def)

lemma scrub_messages:
  obtains unlink where "db_messages (scrub sid db) = map unlink (filter (\<lambda>m. msg_session m \<noteq> sid) (db_messages db))"
    "\<And>m. msg_session (unlink m) = msg_session m" "\<And>m. msg_content (unlink m) = msg_content m"
proof -
  define unlink where "unlink = (\<lambda>m :: message_row. case msg_run m of
      Some i \<Rightarrow> if i \<in> run_id ` set (filter (\<lambda>r. run_session r = sid) (db_runs db)) then m\<lparr>msg_run := None\<rparr> else m
    | None \<Rightarrow> m)"
  show thesis
    by (rule that [of unlink]) (auto simp: unlink_def scrub_def Let_def simp del: set_filter split: option.split)
qed

text \<open>A hard delete removes the conversation and nothing else: afterwards no message, no run and no
  frame of the session is left and its row is a blank tombstone, while every other session row, the
  runs and frames of other sessions and the text of their messages are untouched.\<close>

theorem hard_delete_scrubs:
  assumes "db_ok db" and "delete_session sid u True stamp db = Inr (db', Some s)"
  shows "ses_id s = sid \<and> ses_status s = SESSION_DELETED \<and> ses_title s = None \<and> ses_metadata s = None
    \<and> (\<forall>m \<in> set (db_messages db'). msg_session m \<noteq> sid) \<and> (\<forall>r \<in> set (db_runs db'). run_session r \<noteq> sid)
    \<and> (\<forall>f \<in> set (db_frames db'). \<forall>r \<in> set (db_runs db). run_id r = fr_run f \<longrightarrow> run_session r \<noteq> sid)
    \<and> filter (\<lambda>r. ses_id r \<noteq> sid) (db_sessions db') = filter (\<lambda>r. ses_id r \<noteq> sid) (db_sessions db)
    \<and> db_runs db' = filter (\<lambda>r. run_session r \<noteq> sid) (db_runs db)
    \<and> map msg_content (db_messages db') = map msg_content (filter (\<lambda>m. msg_session m \<noteq> sid) (db_messages db))"
proof -
  obtain uid where uid: "required u = Inr uid" using assms(2) by (auto simp: delete_session_def rbind_eq_Inr)
  then have upd: "update_sessions (\<lambda>r. ses_id r = sid \<and> ses_user r = uid) (tombstone stamp) (scrub sid db) = Inr db'"
    and owned: "find_owned sid uid db \<noteq> None" and s: "find_session sid db' = Some s"
    using assms(2) by (auto simp: delete_session_def rbind_eq_Inr split: option.splits)
  note sh = update_sessions_shape [OF upd]
  have keep: "db_sessions (scrub sid db) = db_sessions db" "db_runs (scrub sid db) = filter (\<lambda>r. run_session r \<noteq> sid) (db_runs db)"
    by (simp_all add: scrub_def Let_def)
  obtain x where x: "x \<in> set (db_sessions db)" "ses_id x = sid" "ses_user x = uid"
    using owned by (auto simp: find_owned_def find_None_iff)
  have uniq: "y = x" if "y \<in> set (db_sessions db)" "ses_id y = sid" for y
    using that x assms(1) by (auto simp: db_ok_def sessions_ok_def distinct_map inj_on_def)
  have mem: "s \<in> set (db_sessions db')" "ses_id s = sid"
    using s by (auto simp: find_session_def find_Some_iff)
  then obtain y where y: "y \<in> set (db_sessions db)"
    "s = (if ses_id y = sid \<and> ses_user y = uid then tombstone stamp y else y)"
    unfolding sh(1) keep set_update_rows by blast
  then have "ses_id y = sid" using mem(2) by (auto simp: tombstone_def split: if_splits)
  then have "y = x" by (rule uniq [OF y(1)])
  then have s_eq: "s = tombstone stamp x" using y(2) x by simp
  have others: "filter (\<lambda>r. ses_id r \<noteq> sid) (db_sessions db') = filter (\<lambda>r. ses_id r \<noteq> sid) (db_sessions db)"
    unfolding sh(1) keep by (rule filter_update_other) (simp add: tombstone_def)
  obtain unlink where unlink: "db_messages (scrub sid db) = map unlink (filter (\<lambda>m. msg_session m \<noteq> sid) (db_messages db))"
    "\<And>m. msg_session (unlink m) = msg_session m" "\<And>m. msg_content (unlink m) = msg_content m"
    using scrub_messages [of sid db] by metis
  have msgs: "\<forall>m \<in> set (db_messages db'). msg_session m \<noteq> sid"
    unfolding sh(3) unlink(1) by (auto simp: unlink(2))
  have texts: "map msg_content (db_messages db') = map msg_content (filter (\<lambda>m. msg_session m \<noteq> sid) (db_messages db))"
    unfolding sh(3) unlink(1) by (simp add: comp_def unlink(3))
  have frames: "\<forall>f \<in> set (db_frames db'). \<forall>r \<in> set (db_runs db). run_id r = fr_run f \<longrightarrow> run_session r \<noteq> sid"
  proof (intro ballI impI notI)
    fix f r assume f: "f \<in> set (db_frames db')" and r: "r \<in> set (db_runs db)" "run_id r = fr_run f" "run_session r = sid"
    have "fr_run f \<notin> run_id ` set (filter (\<lambda>r. run_session r = sid) (db_runs db))"
      using f unfolding sh(4) by (simp add: scrub_def Let_def)
    moreover have "run_id r \<in> run_id ` set (filter (\<lambda>r. run_session r = sid) (db_runs db))"
      using r by (intro imageI) simp
    ultimately show False using r(2) by simp
  qed
  show ?thesis
    using s_eq x others msgs texts frames sh(2) keep(2) by (auto simp: tombstone_def)
qed

subsection \<open>Frames\<close>

lemma last_seq_of:
  assumes "db_ok db" "\<exists>r \<in> set (db_runs db). run_id r = rid \<and> run_last_seq r = seq"
  shows "\<exists>sid. read_last_seq rid db = Some (sid, seq)"
proof -
  obtain r where r: "r \<in> set (db_runs db)" "run_id r = rid" "run_last_seq r = seq" using assms(2) by blast
  then have "find (\<lambda>r. run_id r = rid) (db_runs db) \<noteq> None" by (auto simp: find_None_iff)
  then obtain q where q: "find (\<lambda>r. run_id r = rid) (db_runs db) = Some q" by blast
  then have "q \<in> set (db_runs db)" "run_id q = rid" by (auto simp: find_Some_iff)
  then have "q = r" using run_unique [of db q r] r assms(1) by (simp add: db_ok_def)
  then show ?thesis using q r(3) by (simp add: read_last_seq_def)
qed

text \<open>Reattaching is free of gaps: a client that has seen everything up to a batch and asks for what
  follows gets exactly the frames of the batch, in order and with consecutive numbers, and the
  number to ask from next.\<close>

theorem reattach_gap_free:
  assumes "db_ok db" and "r \<in> set (db_runs db)" and "es \<noteq> []"
    and "append_run_events (run_id r) es stamp db = Inr (db', seq)"
    and "int (length es) \<le> limit" and "limit \<le> 5000"
  shows "\<exists>rows. number_frames (run_id r) stamp (run_last_seq r) es = Inr rows
    \<and> list_run_events (run_id r) (run_last_seq r) limit db' = (rows, seq)
    \<and> map fr_seq rows = map (\<lambda>i. run_last_seq r + int i) [1..<length es + 1]"
proof -
  let ?n = "run_last_seq r"
  obtain sid where seen: "read_last_seq (run_id r) db = Some (sid, ?n)"
    using last_seq_of [OF assms(1), of "run_id r" ?n] assms(2) by blast
  obtain r0 where r0: "r0 \<in> set (db_runs db)" "run_id r0 = run_id r" "(sid, ?n) = (run_session r0, run_last_seq r0)"
    using seen by (rule read_last_seqE)
  have "write_frames (run_id r) (run_session r0, run_last_seq r0) es stamp db = Inr (db', seq)"
    using assms(3,4) seen r0(3) by (simp add: append_run_events_def)
  then obtain rows where rows: "number_frames (run_id r) stamp (run_last_seq r0) es = Inr rows"
    "db_frames db' = db_frames db @ rows" "db_ok db'"
    "\<exists>r' \<in> set (db_runs db'). run_id r' = run_id r \<and> run_last_seq r' = seq"
    by (rule write_frames_current [OF assms(1) r0(1,2)])
  have n: "run_last_seq r0 = ?n" using r0(3) by simp
  note sh = number_frames_shape [OF rows(1) [unfolded n]]
  have old: "fr_seq f \<le> ?n" if "f \<in> set (db_frames db)" "fr_run f = run_id r" for f
    using frame_run [of db f] that assms(1,2) run_unique [of db] by (fastforce simp: db_ok_def)
  have pos: "0 \<le> ?n" using assms(1,2) by (auto simp: db_ok_def runs_ok_def run_check_def list_all_iff)
  have "filter (\<lambda>f. fr_run f = run_id r \<and> max 0 ?n < fr_seq f) (db_frames db) = []"
    using pos by (auto simp: filter_empty_conv max_def dest: old)
  moreover have "filter (\<lambda>f. fr_run f = run_id r \<and> max 0 ?n < fr_seq f) rows = rows"
    using sh rows_seqs(3) [OF conjunct1 [OF sh]] pos by (auto simp: filter_True max_def)
  moreover have "sort_key fr_seq rows = rows"
    using rows_seqs(1) [OF conjunct1 [OF sh]] by (intro sort_key_id_if_sorted) (simp add: strict_sorted_iff)
  moreover have "length rows \<le> nat (max 1 (min limit 5000))"
    using rows_seqs(2) [OF conjunct1 [OF sh]] assms(5,6) by simp
  moreover obtain sid' where "read_last_seq (run_id r) db' = Some (sid', seq)"
    using last_seq_of [OF rows(3,4)] by blast
  ultimately have "list_run_events (run_id r) ?n limit db' = (rows, seq)"
    by (simp add: list_run_events_def rows(2))
  then show ?thesis using rows(1) n sh by auto
qed

lemma insert_known: "(fr_run f, fr_seq f) \<in> (\<lambda>f. (fr_run f, fr_seq f)) ` set (db_frames db) \<Longrightarrow> insert_frame f db = db"
  by (simp add: insert_frame_def)

lemma fold_insert_known:
  "\<forall>f \<in> set rows. (fr_run f, fr_seq f) \<in> (\<lambda>f. (fr_run f, fr_seq f)) ` set (db_frames db) \<Longrightarrow>
     fold insert_frame rows db = db"
  by (induction rows) (simp_all add: insert_known)

text \<open>Two batches for one run whose reads of the counter precede both writes lose frames without an
  error: when the second is not longer than the first, none of its frames is stored, and the counter
  goes back to the end of the second batch.\<close>

theorem interleaved_batches_lose_frames:
  assumes "db_ok db" and "r \<in> set (db_runs db)" and "read_last_seq (run_id r) db = Some seen"
    and "write_frames (run_id r) seen es1 stamp1 db = Inr (db1, seq1)"
    and "write_frames (run_id r) seen es2 stamp2 db1 = Inr (db2, seq2)"
    and "length es2 \<le> length es1"
  shows "db_frames db2 = db_frames db1 \<and> length (db_frames db2) = length (db_frames db) + length es1
    \<and> seq2 = run_last_seq r + int (length es2) \<and> seq2 \<le> seq1"
proof -
  obtain r0 where r0: "r0 \<in> set (db_runs db)" "run_id r0 = run_id r" "seen = (run_session r0, run_last_seq r0)"
    by (rule read_last_seqE [OF assms(3)])
  have "r0 = r" using run_unique [of db r0 r] r0 assms(1,2) by (simp add: db_ok_def)
  then have seen: "seen = (run_session r, run_last_seq r)" using r0(3) by simp
  obtain rows where rows: "number_frames (run_id r) stamp1 (run_last_seq r) es1 = Inr rows"
    "db_frames db1 = db_frames db @ rows" "seq1 = run_last_seq r + int (length es1)"
    by (rule write_frames_current [OF assms(1,2) refl assms(4) [unfolded seen]])
  note sh1 = number_frames_shape [OF rows(1)]
  obtain rows2 where rows2: "number_frames (run_id r) stamp2 (run_last_seq r) es2 = Inr rows2"
    and seq2: "seq2 = run_last_seq r + int (length es2)"
    and w: "\<exists>d. update_runs (\<lambda>q. run_id q = run_id r) (\<lambda>q. q\<lparr>run_last_seq := seq2, run_last_event_at := stamp2\<rparr>)
        (fold insert_frame rows2 db1) = Inr d \<and> touch (run_session r) stamp2 d = Inr db2"
    using assms(5) unfolding seen by (auto simp: write_frames_def rbind_eq_Inr Let_def split: if_splits)
  note sh2 = number_frames_shape [OF rows2]
  have known: "\<forall>f \<in> set rows2. (fr_run f, fr_seq f) \<in> (\<lambda>f. (fr_run f, fr_seq f)) ` set (db_frames db1)"
  proof
    fix f assume f: "f \<in> set rows2"
    then have "fr_seq f \<in> set (map fr_seq rows2)" by simp
    then have "fr_seq f \<in> set (map fr_seq rows)"
      unfolding conjunct1 [OF sh2] conjunct1 [OF sh1] using assms(6) by (auto simp del: upt_Suc)
    then obtain g where "g \<in> set rows" "fr_seq g = fr_seq f" by auto
    then show "(fr_run f, fr_seq f) \<in> (\<lambda>f. (fr_run f, fr_seq f)) ` set (db_frames db1)"
      using f sh1 sh2 by (intro image_eqI [of _ _ g]) (auto simp: rows(2))
  qed
  obtain d where d: "update_runs (\<lambda>q. run_id q = run_id r) (\<lambda>q. q\<lparr>run_last_seq := seq2, run_last_event_at := stamp2\<rparr>)
        db1 = Inr d" "touch (run_session r) stamp2 d = Inr db2"
    using w unfolding fold_insert_known [OF known] by blast
  have "db_frames db2 = db_frames db1"
    using update_runs_shape(4) [OF d(1)] update_sessions_shape(4) [OF d(2) [unfolded touch_def]] by simp
  then show ?thesis
    using rows(2,3) seq2 assms(6) rows_seqs(2) [OF conjunct1 [OF sh1]] by simp
qed

subsection \<open>Streamed text\<close>

text \<open>The deltas of an answer, appended one after the other.\<close>

definition stream_deltas :: "string \<Rightarrow> string list \<Rightarrow> pyfloat \<Rightarrow> store_db \<Rightarrow> store_db" where
  "stream_deltas mid ds stamp db = fold (\<lambda>d db. exec_op (O_delta mid d PNone stamp) db) ds db"

lemma touch_message_session_total: "db_ok db \<Longrightarrow> \<exists>db'. touch_message_session mid stamp db = Inr db'"
  by (cases "find (\<lambda>m. msg_id m = mid) (db_messages db)") (auto simp: touch_message_session_def touch_total)

lemma delta_step:
  assumes ok: "db_ok db" and m: "m \<in> set (db_messages db)" "msg_id m = mid" "msg_status m = MSG_STREAMING"
  shows "\<exists>db'. append_message_delta mid d PNone stamp db = Inr (db', True)
    \<and> add_delta d PNone stamp m \<in> set (db_messages db')"
proof -
  have keep: "message_check (add_delta d PNone stamp x) = message_check x" for x
    by (simp add: message_check_def add_delta_def)
  let ?db1 = "db\<lparr>db_messages := update_rows (streaming mid) (add_delta d PNone stamp) (db_messages db)\<rparr>"
  have u: "update_messages (streaming mid) (add_delta d PNone stamp) db = Inr ?db1"
    using ok by (auto simp: update_messages_def keep db_ok_def messages_ok_def list_all_iff)
  have "db_ok ?db1" by (rule update_messages_ok [OF u ok]) (simp add: add_delta_def)
  then obtain db2 where t: "touch_message_session mid stamp ?db1 = Inr db2"
    using touch_message_session_total by blast
  have "list_ex (streaming mid) (db_messages db)" using m by (auto simp: list_ex_iff streaming_def)
  then have "append_message_delta mid d PNone stamp db = Inr (db2, True)"
    by (simp add: append_message_delta_def u t)
  moreover have "add_delta d PNone stamp m \<in> set (db_messages ?db1)"
    using m by (auto simp: set_update_rows streaming_def intro!: bexI [of _ m])
  ultimately show ?thesis using session_update_messages(4) [OF t] by simp
qed

lemma stream_deltas_text:
  assumes "db_ok db" "m \<in> set (db_messages db)" "msg_id m = mid" "msg_status m = MSG_STREAMING" "ds \<noteq> []"
  shows "\<exists>m' \<in> set (db_messages (stream_deltas mid ds stamp db)). msg_id m' = mid \<and> msg_status m' = MSG_STREAMING
    \<and> msg_content m' = take MAX_CONTENT_CHARS (msg_content m @ concat (map strip_nul ds))"
  using assms
proof (induction ds arbitrary: db m)
  case (Cons d ds)
  obtain db1 where db1: "append_message_delta mid d PNone stamp db = Inr (db1, True)"
    "add_delta d PNone stamp m \<in> set (db_messages db1)"
    using delta_step [OF Cons.prems(1-4)] by blast
  have step: "exec_op (O_delta mid d PNone stamp) db = db1" by (simp add: exec_op_def db1(1))
  let ?m = "add_delta d PNone stamp m"
  have m: "msg_id ?m = mid" "msg_status ?m = MSG_STREAMING"
    "msg_content ?m = take MAX_CONTENT_CHARS (msg_content m @ strip_nul d)"
    using Cons.prems(3,4) by (simp_all add: add_delta_def)
  have rest: "stream_deltas mid (d # ds) stamp db = stream_deltas mid ds stamp db1"
    by (simp add: stream_deltas_def step)
  show ?case
  proof (cases "ds = []")
    case True
    then show ?thesis using db1(2) m unfolding rest by (intro bexI [of _ ?m]) (simp_all add: stream_deltas_def)
  next
    case False
    have "db_ok db1" using append_message_delta_ok [OF db1(1) Cons.prems(1)] .
    from Cons.IH [OF this db1(2) m(1,2) False] show ?thesis
      unfolding rest m(3) by (auto simp: min_def take_add split: if_splits)
  qed
qed simp

text \<open>Streamed text is neither lost nor reordered up to the cap: after any chunks, the message holds
  what it held before followed by the chunks in order (without NUL characters), cut at the cap; what
  exceeds the cap is dropped without a mark.\<close>

theorem streamed_text_concatenated:
  assumes "db_ok db" and "m \<in> set (db_messages db)" and "msg_id m = mid" and "msg_status m = MSG_STREAMING"
    and "ds \<noteq> []"
  shows "\<exists>m' \<in> set (db_messages (stream_deltas mid ds stamp db)). msg_id m' = mid \<and> msg_status m' = MSG_STREAMING
    \<and> msg_content m' = take MAX_CONTENT_CHARS (msg_content m @ concat (map strip_nul ds))"
  by (rule stream_deltas_text [OF assms])

subsection \<open>Ownership\<close>

lemma find_owned_Some: "find_owned sid uid db = Some r \<Longrightarrow> ses_id r = sid \<and> ses_user r = uid \<and> r \<in> set (db_sessions db)"
  by (auto simp: find_owned_def find_Some_iff)

lemma session_page_items: "r \<in> set (fst (session_page p cursor limit db)) \<Longrightarrow> p r"
  by (auto simp: session_page_def Let_def dest!: in_set_takeD)

text \<open>A user sees and changes only what is theirs: the session, run and listings returned to a user
  are of that user, the messages and runs of a session owned by someone else read as empty, and an
  update leaves the sessions of every other user and all runs, messages and frames as they are.\<close>

theorem only_owner_reads_and_writes:
  assumes "required u = Inr uid"
  shows "(\<forall>r. get_session_for_user sid u db = Inr (Some r) \<longrightarrow> ses_user r = uid)
    \<and> (\<forall>r. get_run_by_thread_for_user tid u db = Inr (Some r) \<longrightarrow> run_user r = uid)
    \<and> (\<forall>items next. list_sessions u status cursor limit query db = Inr (items, next) \<longrightarrow>
         (\<forall>r \<in> set items. ses_user r = uid))
    \<and> (find_owned sid uid db = None \<longrightarrow>
         list_messages sid u after_seq limit db = Inr ([], 0) \<and> list_runs sid u db = Inr [])
    \<and> (\<forall>db' r. update_session sid u patch stamp db = Inr (db', r) \<longrightarrow>
         filter (\<lambda>s. ses_user s \<noteq> uid) (db_sessions db') = filter (\<lambda>s. ses_user s \<noteq> uid) (db_sessions db)
         \<and> db_runs db' = db_runs db \<and> db_messages db' = db_messages db \<and> db_frames db' = db_frames db)"
proof (intro conjI allI impI)
  fix r assume "get_session_for_user sid u db = Inr (Some r)"
  then show "ses_user r = uid" using assms find_owned_Some by (auto simp: get_session_for_user_def)
next
  fix r assume "get_run_by_thread_for_user tid u db = Inr (Some r)"
  then show "run_user r = uid" using assms by (auto simp: get_run_by_thread_for_user_def find_Some_iff)
next
  fix items nxt
  assume l: "list_sessions u status cursor limit query db = Inr (items, nxt)"
  have "items = fst (session_page (list_filter uid status query)
      (case cursor of None \<Rightarrow> None | Some c \<Rightarrow> if c = [] then None else decode_cursor c) (page_limit limit) db)"
    using l assms unfolding list_sessions_def Let_def by (simp split: if_splits prod.splits)
  then show "\<forall>r \<in> set items. ses_user r = uid"
    using session_page_items [where p = "list_filter uid status query"] unfolding list_filter_def by blast
next
  assume none: "find_owned sid uid db = None"
  then show "list_messages sid u after_seq limit db = Inr ([], 0)" using assms by (simp add: list_messages_def)
  show "list_runs sid u db = Inr []" using assms none by (simp add: list_runs_def)
next
  fix db' r assume up: "update_session sid u patch stamp db = Inr (db', r)"
  have chk: "check_patch patch = Inr ()" using up assms by (auto simp: update_session_def rbind_eq_Inr)
  let ?p = "\<lambda>r. ses_id r = sid \<and> ses_user r = uid"
  let ?f = "\<lambda>r. case patch_row patch stamp r of Inr r' \<Rightarrow> r' | Inl _ \<Rightarrow> r"
  consider "db' = db" | "update_sessions ?p ?f db = Inr db'"
    using up assms chk by (auto simp: update_session_def rbind_eq_Inr Let_def split: if_splits)
  then have all: "filter (\<lambda>s. ses_user s \<noteq> uid) (db_sessions db') = filter (\<lambda>s. ses_user s \<noteq> uid) (db_sessions db)
         \<and> db_runs db' = db_runs db \<and> db_messages db' = db_messages db \<and> db_frames db' = db_frames db"
  proof cases
    case 2
    note sh = update_sessions_shape [OF 2]
    have "filter (\<lambda>s. ses_user s \<noteq> uid) (db_sessions db') = filter (\<lambda>s. ses_user s \<noteq> uid) (db_sessions db)"
      unfolding sh(1) by (rule filter_update_other) (auto dest: patch_row_keys split: sum.split)
    then show ?thesis using sh by simp
  qed simp
  then show "filter (\<lambda>s. ses_user s \<noteq> uid) (db_sessions db') = filter (\<lambda>s. ses_user s \<noteq> uid) (db_sessions db)"
    "db_runs db' = db_runs db" "db_messages db' = db_messages db" "db_frames db' = db_frames db" by simp_all
qed

subsection \<open>Identifiers and retries\<close>

lemma b32_digits_length [simp]: "length (b32_digits k v) = k"
  by (induction k arbitrary: v) auto

lemma b32_alphabet_mono: "a < b \<Longrightarrow> b < 32 \<Longrightarrow> b32_alphabet ! a < b32_alphabet ! b"
proof -
  have "\<forall>a \<in> set [0..<32]. \<forall>b \<in> set [0..<32]. a < b \<longrightarrow> b32_alphabet ! a < b32_alphabet ! b"
    unfolding b32_alphabet_def by code_simp
  then show "a < b \<Longrightarrow> b < 32 \<Longrightarrow> b32_alphabet ! a < b32_alphabet ! b" by simp
qed

lemma less_append_same: "(x @ u < x @ v) = (u < (v :: string))"
  by (induction x) auto

lemma less_append_same_length: "length x = length y \<Longrightarrow> x < (y :: string) \<Longrightarrow> x @ u < y @ v"
proof (induction x y rule: list_induct2)
  case (Cons a x b y)
  then show ?case by (auto simp: Cons_less_Cons)
qed simp

lemma b32_digits_mono: "v < w \<Longrightarrow> w < 32 ^ k \<Longrightarrow> b32_digits k v < b32_digits k w"
proof (induction k arbitrary: v w)
  case (Suc k)
  show ?case
  proof (cases "v div 32 = w div 32")
    case True
    then have "v mod 32 < w mod 32" using Suc.prems(1) by (metis div_mult_mod_eq nat_add_left_cancel_less)
    then have "b32_alphabet ! (v mod 32) < b32_alphabet ! (w mod 32)" by (rule b32_alphabet_mono) simp
    then show ?thesis using True by (simp add: less_append_same)
  next
    case False
    then have lt: "v div 32 < w div 32" using Suc.prems(1) by (simp add: div_le_mono le_neq_implies_less)
    have "w div 32 < 32 ^ k" using Suc.prems(2) by (simp add: less_mult_imp_div_less mult.commute)
    then show ?thesis using Suc.IH [OF lt] by (simp add: less_append_same_length)
  qed
qed simp

text \<open>Identifiers sort by the time they were made: of two identifiers with the same prefix, made at
  different milliseconds before the 48-bit clock wraps, the earlier one is the smaller text,
  whatever their random bits; and equal ones have the same time and bits.\<close>

theorem new_id_sorts_by_time:
  assumes "m1 < 2 ^ 48" and "m2 < 2 ^ 48" and "r1 < 2 ^ 80" and "r2 < 2 ^ 80"
    and "m1 < m2 \<or> (m1 = m2 \<and> r1 < r2)"
  shows "new_id prefix m1 r1 < new_id prefix m2 r2"
proof -
  have lt: "m1 * 2 ^ 80 + r1 < m2 * 2 ^ 80 + r2"
  proof (cases "m1 < m2")
    case True
    then have "Suc m1 * 2 ^ 80 \<le> m2 * 2 ^ 80" by (intro mult_le_mono1) simp
    then show ?thesis using assms(3) by simp
  qed (use assms(5) in simp)
  have "Suc m2 * 2 ^ 80 \<le> 2 ^ 48 * 2 ^ 80" using assms(2) by (intro mult_le_mono1) simp
  then have "m2 * 2 ^ 80 + r2 < 2 ^ 48 * 2 ^ 80" using assms(4) by simp
  also have "(2 :: nat) ^ 48 * 2 ^ 80 < 32 ^ 26" by simp
  finally have "b32_digits 26 (m1 * 2 ^ 80 + r1) < b32_digits 26 (m2 * 2 ^ 80 + r2)"
    by (rule b32_digits_mono [OF lt])
  then show ?thesis
    using assms(1,2) by (simp only: new_id_def mod_less less_append_same)
qed

lemma find_session_mem: "find_session sid db \<noteq> None \<longleftrightarrow> sid \<in> ses_id ` set (db_sessions db)"
  by (auto simp: find_session_def find_None_iff)

text \<open>A retried send does not double the turn: sending again under the same client identifier,
  with whatever content, returns the stored message and leaves the store as it is.\<close>

theorem message_send_idempotent:
  assumes "db_ok db" and "create_message fresh stamp sid a db = Inr (db1, Some m)"
    and "text_cap 200 (new_client a) \<noteq> None" and "text_cap 200 (new_client b) = text_cap 200 (new_client a)"
    and "new_role b = new_role a" and "new_msg_kind b = new_msg_kind a" and "new_status b = new_status a"
  shows "create_message fresh' stamp' sid b db1 = Inr (db1, Some m)"
proof -
  let ?cid = "text_cap 200 (new_client a)"
  let ?same = "\<lambda>m. msg_session m = sid \<and> msg_client m = ?cid"
  have voc: "\<not> (new_role a \<notin> set ROLES \<or> new_msg_kind a \<notin> set MESSAGE_KINDS \<or> new_status a \<notin> set MESSAGE_STATUSES
         \<or> (new_role a = ROLE_USER \<and> new_status a \<noteq> MSG_COMPLETE))" and ex: "find_session sid db \<noteq> None"
    using assms(2) by (auto simp: create_message_def split: if_splits)
  have prior: "find ?same (db_messages db1) = Some m \<and> find_session sid db1 \<noteq> None"
  proof (cases "find ?same (db_messages db)")
    case (Some prior)
    then show ?thesis using assms(2,3) voc ex by (auto simp: create_message_def Let_def)
  next
    case None
    then obtain db' where ins: "insert_message m db = Inr db'" "touch sid stamp db' = Inr db1"
      "msg_session m = sid" "msg_client m = ?cid"
      using assms(2,3) voc ex by (auto simp: create_message_def Let_def rbind_eq_Inr)
    have sh: "db_messages db1 = db_messages db @ [m]" "db_sessions db' = db_sessions db"
      using session_update_messages(2) [OF ins(2)] ins(1) by (auto simp: insert_message_def split: if_splits)
    have "find ?same (db_messages db1) = Some m"
      unfolding sh(1) using None ins(3,4) by (simp add: find_snoc)
    moreover have "ses_id ` set (db_sessions db1) = ses_id ` set (db_sessions db)"
      unfolding update_sessions_shape(1) [OF ins(2) [unfolded touch_def]] by (subst image_update_keys) (simp_all add: sh(2))
    ultimately show ?thesis
      using ex unfolding find_session_mem by simp
  qed
  then show ?thesis
    using assms(3-7) voc by (auto simp: create_message_def Let_def)
qed

subsection \<open>Witnesses\<close>

definition demo_run_args :: run_args where
  "demo_run_args = \<lparr>new_kind = ''find'', new_symbol = PStr ''infy'', new_timeframe = PStr ''15m'',
     new_profile = PStr ''intraday'', new_model = PNone, new_manual_trade = PNone, new_thread = PNone\<rparr>"

definition demo_message :: message_args where
  "demo_message = \<lparr>new_role = ''assistant'', new_msg_kind = ''qa_answer'', new_status = ''streaming'',
     new_content = PStr ''The stop'', new_run = PStr ''r1'', new_client = PStr ''c1'', new_activity = PNone,
     new_error = PNone\<rparr>"

definition demo_ops :: "store_op list" where
  "demo_ops = [O_create_session ''s1'' (Fin 1) (PStr ''u1'') (PStr ''infy'') (PStr ''intraday'') (PStr ''15m'') PNone PNone,
     O_create_run ''r1'' ''t1'' (Fin 2) ''s1'' (PStr ''u1'') demo_run_args,
     O_create_message ''m1'' (Fin 3) ''s1'' demo_message]"

definition demo_session_row :: session_row where
  "demo_session_row = \<lparr>ses_id = ''s1'', ses_user = ''u1'', ses_title = None, ses_symbol = ''INFY'',
     ses_profile = ''INTRADAY'', ses_timeframe = ''15m'', ses_status = ''active'', ses_active_run = Some ''r1'',
     ses_created_at = Fin 1, ses_updated_at = Fin 3, ses_archived_at = None, ses_metadata = None\<rparr>"

definition demo_run_row :: run_row where
  "demo_run_row = \<lparr>run_id = ''r1'', run_session = ''s1'', run_user = ''u1'', run_thread = ''t1'', run_kind = ''find'',
     run_symbol = ''INFY'', run_timeframe = ''15m'', run_profile = ''INTRADAY'', run_model = None,
     run_manual_trade = None, run_status = ''running'', run_terminal = None, run_started_at = Fin 2,
     run_ended_at = None, run_last_event_at = Fin 2, run_last_seq = 0\<rparr>"

definition demo_message_row :: message_row where
  "demo_message_row = \<lparr>msg_id = ''m1'', msg_session = ''s1'', msg_run = Some ''r1'', msg_seq = 1, msg_role = ''assistant'',
     msg_kind = ''qa_answer'', msg_content = ''The stop'', msg_status = ''streaming'', msg_error = None,
     msg_activity = None, msg_client = Some ''c1'', msg_created_at = Fin 3, msg_updated_at = Fin 3\<rparr>"

definition demo_db :: store_db where
  "demo_db = \<lparr>db_sessions = [demo_session_row], db_runs = [demo_run_row], db_messages = [demo_message_row], db_frames = []\<rparr>"

lemmas vocab_defs = SESSION_STATUSES_def SESSION_ACTIVE_def SESSION_ARCHIVED_def SESSION_DELETED_def RUN_KINDS_def
  RUN_STATUSES_def RUN_LIVE_STATUSES_def RUN_RUNNING_def RUN_WATCHING_def RUN_TRUNCATED_def ROLES_def ROLE_USER_def
  MESSAGE_KINDS_def MESSAGE_STATUSES_def MSG_STREAMING_def MSG_COMPLETE_def MSG_TRUNCATED_def

lemma nul_char: "char_of (0::nat) = CHR 0x00"
  by (simp add: char_of_def)

lemmas text_defs = char_of_def bit_0 required_def text_value_def text_cap_def MAX_CONTENT_CHARS_def py_strip_def is_space_def
  py_upper_def upper_char_def json_or_none_def Let_def

lemma demo_db_reached: "fold exec_op demo_ops empty_db = demo_db"
  by (simp add: demo_ops_def demo_db_def empty_db_def exec_op_def create_session_def create_run_def create_message_def
      insert_session_def insert_run_def insert_message_def session_check_def run_check_def message_check_def
      find_owned_def find_session_def update_sessions_def update_rows_def touch_def next_seq_def
      demo_run_args_def demo_message_def demo_session_row_def demo_run_row_def demo_message_row_def vocab_defs text_defs)

lemma demo_db_ok: "db_ok demo_db"
  using reachable_ok [of demo_ops] by (simp add: demo_db_reached)

lemma demo_finished: "fold exec_op [O_finalize_run ''r1'' ''complete'' (Fin 4), O_finalize_message ''m1'' ''truncated'' None PNone PNone (Fin 4)] demo_db
    = \<lparr>db_sessions = [demo_session_row\<lparr>ses_updated_at := Fin 4\<rparr>],
       db_runs = [close_run ''complete'' (Fin 4) demo_run_row],
       db_messages = [close_message ''truncated'' None PNone PNone (Fin 4) demo_message_row], db_frames = []\<rparr>"
  by (simp add: demo_db_def exec_op_def finalize_run_def finalize_message_def update_runs_def update_messages_def
      update_rows_def run_check_def message_check_def open_run_def streaming_def close_run_def close_message_def
      touch_run_session_def touch_message_session_def touch_def update_sessions_def session_check_def
      demo_session_row_def demo_run_row_def demo_message_row_def vocab_defs coalesce_def text_defs)

lemma demo_finished_ok: "db_ok (fold exec_op [O_finalize_run ''r1'' ''complete'' (Fin 4),
    O_finalize_message ''m1'' ''truncated'' None PNone PNone (Fin 4)] demo_db)"
  using reachable_ok [of "demo_ops @ [O_finalize_run ''r1'' ''complete'' (Fin 4),
    O_finalize_message ''m1'' ''truncated'' None PNone PNone (Fin 4)]"] by (simp add: demo_db_reached)

lemma run_outcome_set_once_witness:
  "\<exists>r' \<in> set (db_runs (fold exec_op [O_finalize_run ''r1'' ''error'' (Fin 5), O_reconcile None (Fin 6),
        O_delete_session ''s2'' (PStr ''u1'') True (Fin 7)]
     (fold exec_op [O_finalize_run ''r1'' ''complete'' (Fin 4),
        O_finalize_message ''m1'' ''truncated'' None PNone PNone (Fin 4)] demo_db))).
     run_id r' = ''r1'' \<and> run_terminal r' = Some ''complete''"
proof -
  let ?ops = "[O_finalize_run ''r1'' ''error'' (Fin 5), O_reconcile None (Fin 6), O_delete_session ''s2'' (PStr ''u1'') True (Fin 7)]"
  let ?r = "close_run ''complete'' (Fin 4) demo_run_row"
  have "?r \<in> set (db_runs (fold exec_op [O_finalize_run ''r1'' ''complete'' (Fin 4),
        O_finalize_message ''m1'' ''truncated'' None PNone PNone (Fin 4)] demo_db))"
    unfolding demo_finished by simp
  moreover have "run_terminal ?r = Some ''complete''" "run_id ?r = ''r1''" "run_session ?r = ''s1''"
    by (simp_all add: close_run_def demo_run_row_def)
  moreover have "list_all (\<lambda>op. \<not> removes_session ''s1'' op) ?ops" by (simp add: removes_session_def)
  ultimately show ?thesis using run_outcome_set_once [OF demo_finished_ok, of ?r "''complete''" ?ops] by metis
qed

lemma finished_message_immutable_witness:
  "\<exists>m' \<in> set (db_messages (fold exec_op [O_delta ''m1'' ''late'' PNone (Fin 5)]
     (fold exec_op [O_finalize_run ''r1'' ''complete'' (Fin 4),
        O_finalize_message ''m1'' ''truncated'' None PNone PNone (Fin 4)] demo_db))).
     msg_id m' = ''m1'' \<and> msg_status m' = ''truncated'' \<and> msg_content m' = ''The stop''"
  using finished_message_immutable [OF demo_finished_ok, of "close_message ''truncated'' None PNone PNone (Fin 4) demo_message_row"
      "[O_delta ''m1'' ''late'' PNone (Fin 5)]"]
  unfolding demo_finished by (auto simp: close_message_def demo_message_row_def MSG_STREAMING_def)

lemma reconcile_leaves_only_resumable_witness:
  "\<exists>db' n. reconcile_stale_runs None (Fin 9) demo_db = Inr (db', n)
    \<and> (\<forall>r \<in> set (db_runs db'). \<not> live_run r) \<and> (\<exists>db''. reconcile_stale_runs None (Fin 10) db' = Inr (db'', 0))"
  using reconcile_leaves_only_resumable [OF demo_db_ok, of None "Fin 9" "Fin 10"]
  by (auto simp: resumable_def thread_has_pending_step_def)

lemma pages_cover_exactly_witness:
  "all_pages 2 (\<lambda>r. ses_user r = ''u1'') None 1 demo_db = [demo_session_row]"
  using pages_cover_exactly [OF demo_db_ok, of 1 2 "\<lambda>r. ses_user r = ''u1''"]
  by (simp add: demo_db_def demo_session_row_def sort_newest_def)

lemma streamed_text_concatenated_witness:
  "\<exists>m' \<in> set (db_messages (stream_deltas ''m1'' ['' sits'', '' at 95''] (Fin 4) demo_db)).
     msg_content m' = ''The stop sits at 95''"
  using streamed_text_concatenated [OF demo_db_ok, of demo_message_row "''m1''" "['' sits'', '' at 95'']" "Fin 4"]
  by (auto simp: demo_db_def demo_message_row_def MSG_STREAMING_def strip_nul_def nul_char MAX_CONTENT_CHARS_def)

lemma only_owner_reads_and_writes_witness:
  "list_messages ''s1'' (PStr ''u2'') 0 10 demo_db = Inr ([], 0)"
proof -
  have "required (PStr ''u2'') = Inr ''u2''" by (simp add: text_defs)
  from only_owner_reads_and_writes [OF this, of "''s1''" demo_db] show ?thesis
    by (simp add: demo_db_def demo_session_row_def find_owned_def)
qed

lemma new_id_sorts_by_time_witness: "new_id ''run'' 5 77 < new_id ''run'' 6 3"
  by (rule new_id_sorts_by_time) simp_all

lemma demo_delete: "\<exists>db' s. delete_session ''s1'' (PStr ''u1'') True (Fin 9) demo_db = Inr (db', Some s)"
  by (simp add: delete_session_def demo_db_def demo_session_row_def demo_run_row_def demo_message_row_def
      find_owned_def find_session_def scrub_def tombstone_def update_sessions_def update_rows_def session_check_def
      vocab_defs text_defs)

lemma hard_delete_scrubs_witness:
  "\<exists>db' s. delete_session ''s1'' (PStr ''u1'') True (Fin 9) demo_db = Inr (db', Some s) \<and> db_runs db' = []
     \<and> ses_status s = SESSION_DELETED"
proof -
  obtain db' s where d: "delete_session ''s1'' (PStr ''u1'') True (Fin 9) demo_db = Inr (db', Some s)"
    using demo_delete by blast
  then show ?thesis
    using hard_delete_scrubs [OF demo_db_ok d] by (auto simp: demo_db_def demo_run_row_def)
qed

lemma message_send_idempotent_witness:
  "\<exists>m. create_message ''m2'' (Fin 8) ''s1'' (demo_message\<lparr>new_content := PStr ''other''\<rparr>) demo_db = Inr (demo_db, Some m)"
proof -
  have "create_message ''m9'' (Fin 7) ''s1'' demo_message demo_db = Inr (demo_db, Some demo_message_row)"
    by (simp add: create_message_def demo_db_def demo_message_def demo_message_row_def demo_session_row_def
        find_session_def vocab_defs text_defs)
  from message_send_idempotent [OF demo_db_ok this, of "demo_message\<lparr>new_content := PStr ''other''\<rparr>"] show ?thesis
    by (simp add: demo_message_def text_defs)
qed

definition demo_frames :: "(pyval \<times> pyval) list" where
  "demo_frames = [(PStr ''REASONING'', PStr ''a''), (PStr ''DECISION'', PNone)]"

lemma demo_write: "\<exists>db'. append_run_events ''r1'' demo_frames (Fin 4) demo_db = Inr (db', 2) \<and> length (db_frames db') = 2
   \<and> (\<exists>db''. write_frames ''r1'' (''s1'', 0) demo_frames (Fin 4) demo_db = Inr (db', 2)
     \<and> write_frames ''r1'' (''s1'', 0) demo_frames (Fin 5) db' = Inr (db'', 2))"
  by (simp add: append_run_events_def read_last_seq_def write_frames_def demo_frames_def demo_db_def demo_run_row_def
      demo_session_row_def insert_frame_def update_runs_def update_rows_def run_check_def touch_def update_sessions_def
      session_check_def vocab_defs text_defs)

lemma reattach_gap_free_witness:
  "\<exists>db' rows. list_run_events ''r1'' 0 10 db' = (rows, 2) \<and> map fr_seq rows = [1, 2]"
proof -
  obtain db' where "append_run_events ''r1'' demo_frames (Fin 4) demo_db = Inr (db', 2)" using demo_write by blast
  then obtain rows where "list_run_events ''r1'' 0 10 db' = (rows, 2)" "map fr_seq rows = [1, 2]"
    using reattach_gap_free [OF demo_db_ok, of demo_run_row demo_frames "Fin 4" db' 2 10]
    by (auto simp: demo_db_def demo_run_row_def demo_frames_def)
  then show ?thesis by (intro exI conjI)
qed

lemma interleaved_batches_lose_frames_witness:
  "\<exists>db1 db2. write_frames ''r1'' (''s1'', 0) demo_frames (Fin 4) demo_db = Inr (db1, 2)
     \<and> write_frames ''r1'' (''s1'', 0) demo_frames (Fin 5) db1 = Inr (db2, 2) \<and> length (db_frames db2) = 2"
proof -
  obtain db1 db2 where w: "write_frames ''r1'' (''s1'', 0) demo_frames (Fin 4) demo_db = Inr (db1, 2)"
     "write_frames ''r1'' (''s1'', 0) demo_frames (Fin 5) db1 = Inr (db2, 2)" "length (db_frames db1) = 2"
    using demo_write by (auto simp: append_run_events_def demo_db_def demo_run_row_def read_last_seq_def)
  then show ?thesis
    using interleaved_batches_lose_frames [OF demo_db_ok, of demo_run_row "(''s1'', 0)" demo_frames "Fin 4" db1 2 demo_frames "Fin 5" db2 2]
    by (simp add: demo_db_def demo_run_row_def demo_frames_def read_last_seq_def)
qed

end
