(* ===== verification/StreamPersist.thy ===== *)
theory StreamPersist
  imports SessionStoreProps
begin

text \<open>
  \<open>stream_persist.py\<close>: the recorder of one turn. Frames and prose are buffered and written in
  batches, at the latest before a terminal frame; the end of the turn is written once. It is the
  client of the session store's operations. A \<open>tick\<close> is what one call finds outside: the
  environment, the readings of the monotonic clock, the stamps and identifiers the store would
  make, and which store calls fail (locked, read-only or missing database). A failing call leaves
  the store as it was and becomes a warning.
\<close>

definition BATCH_SIZE :: nat where "BATCH_SIZE = 25"
definition BATCH_MAX_AGE_S :: pyfloat where "BATCH_MAX_AGE_S = Fin (1 / 4)"
definition CONTENT_EVENTS :: "string list" where "CONTENT_EVENTS = [''REASONING'', ''TEXT_MESSAGE'']"
definition TERMINAL_EVENTS :: "string list" where "TERMINAL_EVENTS = [''RUN_FINISHED'', ''ERROR'']"

definition enabled :: "env \<Rightarrow> bool" where
  "enabled env \<longleftrightarrow> py_lower (py_strip (case env ''DEEP_QUANT_PERSIST_STREAM'' of None \<Rightarrow> ''0'' | Some v \<Rightarrow> if v = [] then ''0'' else v))
     \<in> {''1'', ''true'', ''yes'', ''on''}"

datatype store_call = C_create_message | C_append_events | C_append_delta | C_finalize_run | C_finalize_message | C_update_status

record tick =
  tk_env :: env
  tk_monotonic :: pyfloat
  tk_monotonic_flush :: pyfloat
  tk_stamp :: "store_call \<Rightarrow> pyfloat"
  tk_fresh :: string
  tk_down :: "store_call \<Rightarrow> bool"

record persister =
  sp_run :: "string option"
  sp_session :: "string option"
  sp_kind :: string
  sp_message :: "string option"
  sp_buffer :: "(string \<times> pyval) list"
  sp_pending :: "string list"
  sp_opened_at :: pyfloat
  sp_flushed_at :: pyfloat
  sp_finalized :: bool
  sp_warned :: bool

definition new_persister :: "string option \<Rightarrow> string option \<Rightarrow> string \<Rightarrow> pyfloat \<Rightarrow> pyfloat \<Rightarrow> persister" where
  "new_persister run session kind opened flushed = \<lparr>sp_run = run, sp_session = session, sp_kind = kind, sp_message = None,
     sp_buffer = [], sp_pending = [], sp_opened_at = opened, sp_flushed_at = flushed, sp_finalized = False,
     sp_warned = False\<rparr>"

definition active :: "tick \<Rightarrow> persister \<Rightarrow> bool" where
  "active tk p \<longleftrightarrow> (case sp_run p of None \<Rightarrow> False | Some r \<Rightarrow> r \<noteq> []) \<and> enabled (tk_env tk)"

definition warn :: "persister \<Rightarrow> persister" where
  "warn p = (if sp_warned p then p else p\<lparr>sp_warned := True\<rparr>)"

definition call :: "tick \<Rightarrow> store_call \<Rightarrow> (pyfloat \<Rightarrow> store_db \<Rightarrow> (store_db \<times> 'a) res) \<Rightarrow> store_db \<Rightarrow> (store_db \<times> 'a) res" where
  "call tk c f db = (if tk_down tk c then Inl SqliteError else f (tk_stamp tk c) db)"

definition run_of :: "persister \<Rightarrow> string" where
  "run_of p = (case sp_run p of None \<Rightarrow> [] | Some r \<Rightarrow> r)"

definition answer_args :: "persister \<Rightarrow> message_args" where
  "answer_args p = \<lparr>new_role = ''assistant'',
     new_msg_kind = (if sp_kind p = ''qa'' then ''qa_answer'' else ''analysis_answer''), new_status = MSG_STREAMING,
     new_content = PStr [], new_run = PStr (run_of p), new_client = PNone, new_activity = PNone, new_error = PNone\<rparr>"

definition sp_open :: "tick \<Rightarrow> persister \<times> store_db \<Rightarrow> persister \<times> store_db" where
  "sp_open tk s = (let (p, db) = s in
     if \<not> active tk p \<or> sp_message p \<noteq> None then (p, db)
     else case call tk C_create_message (\<lambda>stamp db. case sp_session p of None \<Rightarrow> Inr (db, None)
            | Some sid \<Rightarrow> create_message (tk_fresh tk) stamp sid (answer_args p) db) db of
        Inl _ \<Rightarrow> (warn p, db)
      | Inr (db', m) \<Rightarrow> (p\<lparr>sp_message := map_option msg_id m\<rparr>, db'))"

text \<open>The two writes of a flush; the first failure ends it, what was written before stays.\<close>

definition write_batch ::
  "tick \<Rightarrow> persister \<Rightarrow> (string \<times> pyval) list \<Rightarrow> string \<Rightarrow> store_db \<Rightarrow> store_db \<times> bool" where
  "write_batch tk p frames text db =
     (case (if frames = [] then Inr (db, 0)
            else call tk C_append_events (append_run_events (run_of p) (map (\<lambda>(e, v). (PStr e, v)) frames)) db) of
        Inl _ \<Rightarrow> (db, False)
      | Inr (db1, _) \<Rightarrow>
          (case sp_message p of None \<Rightarrow> (db1, True)
           | Some mid \<Rightarrow> if text = [] then (db1, True)
               else (case call tk C_append_delta (append_message_delta mid text PNone) db1 of
                  Inl _ \<Rightarrow> (db1, False) | Inr (db2, _) \<Rightarrow> (db2, True))))"

definition sp_flush :: "tick \<Rightarrow> persister \<times> store_db \<Rightarrow> persister \<times> store_db" where
  "sp_flush tk s = (let (p, db) = s in
     if \<not> active tk p \<or> (sp_buffer p = [] \<and> sp_pending p = []) then (p, db)
     else let p1 = p\<lparr>sp_buffer := [], sp_pending := [], sp_flushed_at := tk_monotonic_flush tk\<rparr>;
              (db', ok) = write_batch tk p1 (sp_buffer p) (concat (sp_pending p)) db
          in (if ok then p1 else warn p1, db'))"

definition content_of :: "string \<Rightarrow> pyval \<Rightarrow> string" where
  "content_of event payload = (case payload of
     PDict d \<Rightarrow> if event \<in> set CONTENT_EVENTS then (case dict_get d ''content'' of PStr c \<Rightarrow> c | _ \<Rightarrow> []) else []
   | _ \<Rightarrow> [])"

definition sp_add :: "tick \<Rightarrow> string \<Rightarrow> pyval \<Rightarrow> persister \<times> store_db \<Rightarrow> persister \<times> store_db" where
  "sp_add tk event payload s = (let (p, db) = s in
     if \<not> active tk p then (p, db)
     else let p1 = (if sp_kind p \<noteq> ''qa'' then p\<lparr>sp_buffer := sp_buffer p @ [(event, payload)]\<rparr> else p);
              c = content_of event payload;
              p2 = (if c \<noteq> [] then p1\<lparr>sp_pending := sp_pending p1 @ [c]\<rparr> else p1)
          in if event \<in> set TERMINAL_EVENTS \<or> BATCH_SIZE \<le> length (sp_buffer p2)
                \<or> fle BATCH_MAX_AGE_S (fsub (tk_monotonic tk) (sp_flushed_at p2))
             then sp_flush tk (p2, db) else (p2, db))"

definition map_terminal :: "string \<Rightarrow> string \<times> string" where
  "map_terminal word = (let w = py_lower (py_strip word) in
     if w \<in> {''completed'', ''complete''} then (''complete'', MSG_COMPLETE)
     else if w = ''cancelled'' then (''cancelled'', ''cancelled'')
     else if w = ''error'' then (''error'', ''error'')
     else (RUN_TRUNCATED, MSG_TRUNCATED))"

text \<open>The two set-once writes that end a turn.\<close>

definition write_end ::
  "tick \<Rightarrow> persister \<Rightarrow> string \<Rightarrow> string \<Rightarrow> pyval \<Rightarrow> store_db \<Rightarrow> store_db \<times> bool" where
  "write_end tk p rstatus mstatus detail db =
     (case call tk C_finalize_run (finalize_run (run_of p) rstatus) db of
        Inl _ \<Rightarrow> (db, False)
      | Inr (db1, _) \<Rightarrow> (case sp_message p of None \<Rightarrow> (db1, True)
          | Some mid \<Rightarrow> (case call tk C_finalize_message (finalize_message mid mstatus None detail PNone) db1 of
              Inl _ \<Rightarrow> (db1, False) | Inr (db2, _) \<Rightarrow> (db2, True))))"

definition sp_end ::
  "tick \<Rightarrow> string \<Rightarrow> string \<Rightarrow> pyval \<Rightarrow> persister \<times> store_db \<Rightarrow> persister \<times> store_db" where
  "sp_end tk rstatus mstatus detail s = (let (p, db) = s in
     if \<not> active tk p \<or> sp_finalized p then (p, db)
     else let (p1, db1) = sp_flush tk (p\<lparr>sp_finalized := True\<rparr>, db);
              (db2, ok) = write_end tk p1 rstatus mstatus detail db1
          in (if ok then p1 else warn p1, db2))"

definition sp_finalize :: "tick \<Rightarrow> string \<Rightarrow> string option \<Rightarrow> persister \<times> store_db \<Rightarrow> persister \<times> store_db" where
  "sp_finalize tk word detail s = (let (rstatus, mstatus) = map_terminal word in
     sp_end tk rstatus mstatus (case detail of None \<Rightarrow> PNone | Some d \<Rightarrow> PStr d) s)"

definition record_disconnect :: "tick \<Rightarrow> persister \<times> store_db \<Rightarrow> persister \<times> store_db" where
  "record_disconnect tk s = sp_end tk RUN_TRUNCATED MSG_TRUNCATED PNone s"

definition mark_watching :: "tick \<Rightarrow> persister \<times> store_db \<Rightarrow> persister \<times> store_db" where
  "mark_watching tk s = (let (p, db) = s in
     if \<not> active tk p then (p, db)
     else let (p1, db1) = sp_flush tk (p, db)
          in case call tk C_update_status (update_run_status (run_of p1) RUN_WATCHING) db1 of
               Inl _ \<Rightarrow> (warn p1, db1) | Inr (db2, _) \<Rightarrow> (p1, db2))"

subsection \<open>The turn, as the generator drives it\<close>

text \<open>
  \<open>main.event_generator\<close> opens the recorder, hands it every frame, and ends it: a finished turn by
  its terminal frame and \<open>finalize\<close>, a turn that parks at a price watch by its terminal frame and
  \<open>mark_watching\<close>, an abandoned one by nothing. Its \<open>finally\<close> then records a disconnect.
\<close>

datatype turn_end = Ends string "string option" pyval | Parks pyval | Dropped

definition end_turn :: "tick \<Rightarrow> turn_end \<Rightarrow> persister \<times> store_db \<Rightarrow> persister \<times> store_db" where
  "end_turn tk e s = (case e of
     Ends word detail frame \<Rightarrow>
       sp_finalize tk word detail (sp_add tk (if word = ''error'' then ''ERROR'' else ''RUN_FINISHED'') frame s)
   | Parks frame \<Rightarrow> mark_watching tk (sp_add tk ''RUN_FINISHED'' frame s)
   | Dropped \<Rightarrow> s)"

definition event_generator ::
  "tick \<Rightarrow> (tick \<times> string \<times> pyval) list \<Rightarrow> tick \<Rightarrow> turn_end \<Rightarrow> tick \<Rightarrow> persister \<times> store_db \<Rightarrow> persister \<times> store_db" where
  "event_generator tk_open frames tk_end e tk_last s =
     record_disconnect tk_last (end_turn tk_end e
       (fold (\<lambda>(tk, event, payload). sp_add tk event payload) frames (sp_open tk_open s)))"

end
