(* ===== verification/StreamPersistFacts.thy ===== *)
theory StreamPersistFacts
  imports StreamPersist
begin

text \<open>
  What a recorded turn leaves in the session store. \<open>records\<close> relates the recorder and the store to an
  abstract recorder without a buffer (\<open>record_frame\<close>): stored frames followed by buffered ones, stored
  prose followed by pending prose. Every call of the recorder keeps the relation, whatever it flushes;
  the ends of a turn empty the buffer first.
\<close>

subsection \<open>Store calls of a healthy store\<close>

definition transcript :: "string \<Rightarrow> store_db \<Rightarrow> (string \<times> string) list" where
  "transcript rid db = map (\<lambda>f. (fr_event f, fr_payload f)) (filter (\<lambda>f. fr_run f = rid) (db_frames db))"

fun frame_text :: "string \<times> pyval \<Rightarrow> string \<times> string" where
  "frame_text (e, v) = (e, case json_or_none v of Some j \<Rightarrow> j | None \<Rightarrow> ''{}'')"

definition event_name :: "string \<Rightarrow> bool" where
  "event_name e \<longleftrightarrow> required (PStr e) = Inr e"

definition bound_frames :: "(string \<times> pyval) list \<Rightarrow> (pyval \<times> pyval) list" where
  "bound_frames = map (\<lambda>(e, v). (PStr e, v))"

lemma length_bound_frames [simp]: "length (bound_frames es) = length es" "bound_frames es = [] \<longleftrightarrow> es = []"
  by (simp_all add: bound_frames_def)

lemma number_frames_total:
  "\<forall>f \<in> set es. event_name (fst f) \<Longrightarrow> \<exists>rows. number_frames rid stamp n (bound_frames es) = Inr rows
     \<and> map (\<lambda>f. (fr_event f, fr_payload f)) rows = map frame_text es"
proof (induction es arbitrary: n)
  case (Cons f es)
  then obtain rows where "number_frames rid stamp (n + 1) (bound_frames es) = Inr rows"
     "map (\<lambda>f. (fr_event f, fr_payload f)) rows = map frame_text es" by force
  then show ?case using Cons.prems by (cases f) (simp add: bound_frames_def event_name_def)
qed (simp add: bound_frames_def)

lemma touch_explicit:
  "sessions_ok db \<Longrightarrow> touch sid stamp db
     = Inr (db\<lparr>db_sessions := update_rows (\<lambda>r. ses_id r = sid) (\<lambda>r. r\<lparr>ses_updated_at := stamp\<rparr>) (db_sessions db)\<rparr>)"
  by (auto simp: touch_def update_sessions_def sessions_ok_def list_all_iff session_check_def)

text \<open>The run is there, with this terminal status, or open.\<close>

definition stands :: "string option \<Rightarrow> string \<Rightarrow> store_db \<Rightarrow> bool" where
  "stands out rid db \<longleftrightarrow> (\<exists>r \<in> set (db_runs db). run_id r = rid \<and> run_terminal r = out)"

lemma append_healthy:
  assumes ok: "db_ok db" and run: "stands out rid db" and names: "\<forall>f \<in> set es. event_name (fst f)"
  shows "\<exists>db' seq. append_run_events rid (bound_frames es) stamp db = Inr (db', seq) \<and> db_ok db'
    \<and> transcript rid db' = transcript rid db @ map frame_text es \<and> db_messages db' = db_messages db \<and> stands out rid db'"
proof -
  obtain r where r: "r \<in> set (db_runs db)" "run_id r = rid" "run_terminal r = out"
    using run by (auto simp: stands_def)
  obtain sid where seen: "read_last_seq rid db = Some (sid, run_last_seq r)"
    using last_seq_of [OF ok] r by blast
  obtain r0 where r0: "r0 \<in> set (db_runs db)" "run_id r0 = rid" "(sid, run_last_seq r) = (run_session r0, run_last_seq r0)"
    using seen by (rule read_last_seqE)
  have "r0 = r" using run_unique [of db r0 r] r0 r ok by (simp add: db_ok_def)
  then have sid: "sid = run_session r" using r0 by simp
  show ?thesis
  proof (cases "es = []")
    case True
    then show ?thesis using ok run by (simp add: append_run_events_def seen)
  next
    case False
    obtain rows where rows: "number_frames rid stamp (run_last_seq r) (bound_frames es) = Inr rows"
      "map (\<lambda>f. (fr_event f, fr_payload f)) rows = map frame_text es"
      using number_frames_total [OF names] by blast
    let ?seq = "run_last_seq r + int (length es)"
    let ?up = "\<lambda>q :: run_row. q\<lparr>run_last_seq := ?seq, run_last_event_at := stamp\<rparr>"
    let ?d = "fold insert_frame rows db"
    have d: "db_runs ?d = db_runs db" "db_messages ?d = db_messages db" "db_sessions ?d = db_sessions db"
      by (induction rows arbitrary: db) (simp_all add: insert_frame_def)
    have chk: "run_check (?up q)" if "q \<in> set (db_runs db)" for q
      using that ok r(1) by (auto simp: db_ok_def runs_ok_def list_all_iff run_check_def)
    then have u: "update_runs (\<lambda>q. run_id q = rid) ?up ?d = Inr (?d\<lparr>db_runs := update_rows (\<lambda>q. run_id q = rid) ?up (db_runs db)\<rparr>)"
      (is "_ = Inr ?d2") by (auto simp: update_runs_def list_all_iff d)
    have "sessions_ok ?d2" using ok by (simp add: sessions_ok_def db_ok_def d)
    note t = touch_explicit [OF this, of "run_session r" stamp]
    have "run_id r \<in> run_id ` set (db_runs db)" using r(1) by blast
    then have "write_frames rid (run_session r, run_last_seq r) (bound_frames es) stamp db
        = Inr (?d2\<lparr>db_sessions := update_rows (\<lambda>q. ses_id q = run_session r) (\<lambda>q. q\<lparr>ses_updated_at := stamp\<rparr>) (db_sessions ?d2)\<rparr>, ?seq)"
      (is "_ = Inr (?d3, _)") using u t r(2) by (simp add: write_frames_def rows(1)) (simp only: Let_def)
    moreover have "db_messages ?d3 = db_messages db" by (simp add: d(2))
    moreover have "stands out rid ?d3"
      unfolding stands_def using r
      by (intro bexI [of _ "?up r"]) (auto simp: update_rows_def image_iff intro!: bexI [of _ r])
    ultimately obtain d3 where w: "write_frames rid (run_session r, run_last_seq r) (bound_frames es) stamp db = Inr (d3, ?seq)"
      "db_messages d3 = db_messages db" "stands out rid d3" by blast
    have app: "append_run_events rid (bound_frames es) stamp db = Inr (d3, ?seq)"
      using False by (simp add: append_run_events_def seen sid w(1))
    obtain rows' where rows': "number_frames rid stamp (run_last_seq r) (bound_frames es) = Inr rows'"
        "db_frames d3 = db_frames db @ rows'" "db_ok d3"
      by (rule write_frames_current [OF ok r(1,2) w(1)]) simp
    then have fr: "db_frames d3 = db_frames db @ rows" "\<forall>f \<in> set rows. fr_run f = rid"
      using rows(1) number_frames_shape [OF rows(1)] by simp_all
    have "transcript rid d3 = transcript rid db @ map frame_text es"
      unfolding transcript_def fr(1) using fr(2) rows(2) by (simp add: filter_True)
    then show ?thesis using app rows'(3) w(2,3) by blast
  qed
qed

definition holds_text :: "string \<Rightarrow> string \<Rightarrow> store_db \<Rightarrow> bool" where
  "holds_text mid t db \<longleftrightarrow> (\<exists>m \<in> set (db_messages db). streaming mid m \<and> msg_content m = t)"

lemma touch_message_shape:
  assumes "touch_message_session mid stamp db = Inr db'"
  shows "db_messages db' = db_messages db \<and> db_runs db' = db_runs db \<and> db_frames db' = db_frames db"
proof (cases "find (\<lambda>m. msg_id m = mid) (db_messages db)")
  case (Some m)
  then have "update_sessions (\<lambda>r. ses_id r = msg_session m) (\<lambda>r. r\<lparr>ses_updated_at := stamp\<rparr>) db = Inr db'"
    using assms by (simp add: touch_message_session_def touch_def)
  from update_sessions_shape(2-4) [OF this] show ?thesis by simp
qed (use assms in \<open>simp add: touch_message_session_def\<close>)

lemma delta_healthy:
  assumes ok: "db_ok db" and m: "holds_text mid t db"
  shows "\<exists>db'. append_message_delta mid d PNone stamp db = Inr (db', True) \<and> db_ok db'
    \<and> db_frames db' = db_frames db \<and> db_runs db' = db_runs db
    \<and> holds_text mid (take MAX_CONTENT_CHARS (t @ strip_nul d)) db'"
proof -
  obtain m where m: "m \<in> set (db_messages db)" "msg_id m = mid" "msg_status m = MSG_STREAMING" "msg_content m = t"
    using assms(2) by (auto simp: holds_text_def streaming_def)
  obtain db' where db': "append_message_delta mid d PNone stamp db = Inr (db', True)"
      "add_delta d PNone stamp m \<in> set (db_messages db')"
    using delta_step [OF ok m(1-3)] by blast
  then obtain db1 where "update_messages (streaming mid) (add_delta d PNone stamp) db = Inr db1"
      "touch_message_session mid stamp db1 = Inr db'"
    by (auto simp: append_message_delta_def rbind_eq_Inr split: if_splits)
  then have "db_frames db' = db_frames db \<and> db_runs db' = db_runs db"
    using touch_message_shape [of mid stamp db1 db'] update_messages_shape(3,4) [of "streaming mid" _ db db1] by simp
  moreover have "holds_text mid (take MAX_CONTENT_CHARS (t @ strip_nul d)) db'"
    using db'(2) m(2-4) by (auto simp: holds_text_def streaming_def add_delta_def intro!: bexI [of _ "add_delta d PNone stamp m"])
  moreover have "db_ok db'" using append_message_delta_ok [OF db'(1) ok] .
  ultimately show ?thesis using db'(1) by blast
qed

definition healthy :: "tick \<Rightarrow> bool" where
  "healthy tk \<longleftrightarrow> enabled (tk_env tk) \<and> (\<forall>c. \<not> tk_down tk c)"

lemma call_healthy: "healthy tk \<Longrightarrow> call tk c f db = f (tk_stamp tk c) db"
  by (simp add: healthy_def call_def)

definition recording :: "string option \<Rightarrow> string \<Rightarrow> string \<Rightarrow> (string \<times> string) list \<Rightarrow> string \<Rightarrow> store_db \<Rightarrow> bool" where
  "recording out rid mid fs t db \<longleftrightarrow> db_ok db \<and> stands out rid db \<and> transcript rid db = fs \<and> holds_text mid t db
     \<and> length t \<le> MAX_CONTENT_CHARS"

lemma write_batch_healthy:
  assumes "recording out rid mid fs t db" and "healthy tk" and "run_of p = rid" "sp_message p = Some mid"
    and "\<forall>f \<in> set frames. event_name (fst f)"
  shows "\<exists>db'. write_batch tk p frames text db = (db', True)
    \<and> recording out rid mid (fs @ map frame_text frames) (take MAX_CONTENT_CHARS (t @ strip_nul text)) db'"
proof -
  have r: "db_ok db" "stands out rid db" "transcript rid db = fs" "holds_text mid t db" "length t \<le> MAX_CONTENT_CHARS"
    using assms(1) by (auto simp: recording_def)
  obtain db1 seq where a: "append_run_events rid (bound_frames frames) (tk_stamp tk C_append_events) db = Inr (db1, seq)"
    "db_ok db1" "transcript rid db1 = fs @ map frame_text frames" "db_messages db1 = db_messages db" "stands out rid db1"
    using append_healthy [OF r(1,2) assms(5)] r(3) by blast
  define d1 where "d1 = (if frames = [] then db else db1)"
  have d1: "db_ok d1" "transcript rid d1 = fs @ map frame_text frames" "holds_text mid t d1" "stands out rid d1"
    using a r by (simp_all add: d1_def holds_text_def)
  have first: "(if frames = [] then Inr (db, 0)
      else call tk C_append_events (append_run_events (run_of p) (map (\<lambda>(e, v). (PStr e, v)) frames)) db)
    = Inr (d1, if frames = [] then 0 else seq)"
    using a(1) by (simp add: d1_def call_healthy [OF assms(2)] assms(3) bound_frames_def)
  obtain db2 where b: "append_message_delta mid text PNone (tk_stamp tk C_append_delta) d1 = Inr (db2, True)" "db_ok db2"
    "db_frames db2 = db_frames d1" "db_runs db2 = db_runs d1"
    "holds_text mid (take MAX_CONTENT_CHARS (t @ strip_nul text)) db2"
    using delta_healthy [OF d1(1,3)] by blast
  have "recording out rid mid (fs @ map frame_text frames) (take MAX_CONTENT_CHARS (t @ strip_nul text)) db2"
    using b d1(2,4) by (simp add: recording_def transcript_def stands_def)
  moreover have "text = [] \<Longrightarrow> recording out rid mid (fs @ map frame_text frames) (take MAX_CONTENT_CHARS (t @ strip_nul text)) d1"
    using d1 r(5) by (simp add: recording_def strip_nul_def)
  ultimately show ?thesis
    unfolding write_batch_def first assms(4) using b(1) by (cases "text = []") (simp_all add: call_healthy [OF assms(2)])
qed


definition records :: "string option \<Rightarrow> string \<Rightarrow> string \<Rightarrow> string \<Rightarrow> (string \<times> string) list \<times> string \<Rightarrow> persister \<times> store_db \<Rightarrow> bool" where
  "records out kind rid mid a s \<longleftrightarrow> rid \<noteq> [] \<and> sp_run (fst s) = Some rid \<and> sp_message (fst s) = Some mid \<and> sp_kind (fst s) = kind
     \<and> (\<forall>f \<in> set (sp_buffer (fst s)). event_name (fst f))
     \<and> (\<exists>fs t. recording out rid mid fs t (snd s) \<and> fst a = fs @ map frame_text (sp_buffer (fst s))
         \<and> snd a = take MAX_CONTENT_CHARS (t @ strip_nul (concat (sp_pending (fst s)))))"

definition record_frame :: "string \<Rightarrow> string \<Rightarrow> pyval \<Rightarrow> (string \<times> string) list \<times> string \<Rightarrow> (string \<times> string) list \<times> string" where
  "record_frame kind event payload a = (if kind = ''qa'' then fst a else fst a @ [frame_text (event, payload)],
     take MAX_CONTENT_CHARS (snd a @ strip_nul (content_of event payload)))"

lemma records_active: "records out kind rid mid a (p, db) \<Longrightarrow> healthy tk \<Longrightarrow> active tk p \<and> run_of p = rid"
  by (simp add: records_def active_def healthy_def run_of_def)

definition same_turn :: "persister \<Rightarrow> persister \<Rightarrow> bool" where
  "same_turn p' p \<longleftrightarrow> sp_run p' = sp_run p \<and> sp_message p' = sp_message p \<and> sp_kind p' = sp_kind p
     \<and> sp_finalized p' = sp_finalized p \<and> sp_session p' = sp_session p"

lemma flush_healthy:
  assumes "records out kind rid mid a (p, db)" and "healthy tk"
  shows "\<exists>p' db'. sp_flush tk (p, db) = (p', db') \<and> sp_buffer p' = [] \<and> sp_pending p' = [] \<and> same_turn p' p
    \<and> recording out rid mid (fst a) (snd a) db'"
proof -
  obtain fs t where r: "recording out rid mid fs t db" "fst a = fs @ map frame_text (sp_buffer p)"
      "snd a = take MAX_CONTENT_CHARS (t @ strip_nul (concat (sp_pending p)))"
      "\<forall>f \<in> set (sp_buffer p). event_name (fst f)" "sp_message p = Some mid"
    using assms(1) by (auto simp: records_def)
  note act = records_active [OF assms]
  show ?thesis
  proof (cases "sp_buffer p = [] \<and> sp_pending p = []")
    case True
    then show ?thesis using r by (simp add: sp_flush_def same_turn_def strip_nul_def recording_def)
  next
    case False
    let ?p = "p\<lparr>sp_buffer := [], sp_pending := [], sp_flushed_at := tk_monotonic_flush tk\<rparr>"
    have "run_of ?p = rid" using act by (simp add: run_of_def)
    then obtain db' where "write_batch tk ?p (sp_buffer p) (concat (sp_pending p)) db = (db', True)"
        "recording out rid mid (fst a) (snd a) db'"
      using write_batch_healthy [OF r(1) assms(2), of ?p "sp_buffer p" "concat (sp_pending p)"] r(2-5) by auto
    then show ?thesis using False act by (auto simp: sp_flush_def same_turn_def)
  qed
qed

lemma recorded_empty:
  assumes "recording out rid mid (fst a) (snd a) db'" and "sp_buffer p' = []" "sp_pending p' = []" "same_turn p' p"
    and "records out kind rid mid b (p, db)"
  shows "records out kind rid mid a (p', db')"
  using assms by (auto simp: records_def same_turn_def strip_nul_def recording_def intro!: exI [of _ "fst a"] exI [of _ "snd a"])

lemma add_healthy:
  assumes rel: "records out kind rid mid a (p, db)" and "healthy tk" and name: "event_name e"
  shows "records out kind rid mid (record_frame kind e v a) (sp_add tk e v (p, db))
    \<and> sp_finalized (fst (sp_add tk e v (p, db))) = sp_finalized p"
proof -
  let ?p1 = "if sp_kind p \<noteq> ''qa'' then p\<lparr>sp_buffer := sp_buffer p @ [(e, v)]\<rparr> else p"
  let ?p2 = "if content_of e v \<noteq> [] then ?p1\<lparr>sp_pending := sp_pending ?p1 @ [content_of e v]\<rparr> else ?p1"
  have kind: "sp_kind p = kind" using rel by (simp add: records_def)
  have cat: "take MAX_CONTENT_CHARS (take MAX_CONTENT_CHARS x @ y) = take MAX_CONTENT_CHARS (x @ y)" for x y :: string
    by (simp add: take_append min_def)
  obtain fs t where r: "recording out rid mid fs t db" "fst a = fs @ map frame_text (sp_buffer p)"
      "snd a = take MAX_CONTENT_CHARS (t @ strip_nul (concat (sp_pending p)))"
    using rel by (auto simp: records_def)
  have pend: "strip_nul (concat (sp_pending ?p2)) = strip_nul (concat (sp_pending p)) @ strip_nul (content_of e v)"
    by (simp add: strip_nul_def)
  have "snd (record_frame kind e v a) = take MAX_CONTENT_CHARS (t @ strip_nul (concat (sp_pending ?p2)))"
    unfolding record_frame_def snd_conv r(3) cat pend by simp
  moreover have "fst (record_frame kind e v a) = fs @ map frame_text (sp_buffer ?p2)"
    by (simp add: record_frame_def r(2) kind)
  ultimately have buffered: "records out kind rid mid (record_frame kind e v a) (?p2, db)"
    using rel name r(1) unfolding records_def fst_conv snd_conv by auto
  have fin: "sp_finalized ?p2 = sp_finalized p" by simp
  obtain p' db' where flushed: "sp_flush tk (?p2, db) = (p', db')" "sp_buffer p' = []" "sp_pending p' = []" "same_turn p' ?p2"
      "recording out rid mid (fst (record_frame kind e v a)) (snd (record_frame kind e v a)) db'"
    using flush_healthy [OF buffered assms(2)] by blast
  have "records out kind rid mid (record_frame kind e v a) (p', db')"
    by (rule recorded_empty [OF flushed(5,2,3,4) buffered])
  moreover have "sp_finalized p' = sp_finalized p" using flushed(4) fin by (simp add: same_turn_def)
  moreover have "sp_add tk e v (p, db) \<in> {sp_flush tk (?p2, db), (?p2, db)}"
    using kind records_active [OF rel assms(2)] by (simp add: sp_add_def Let_def)
  ultimately show ?thesis using buffered fin flushed(1) by auto
qed

type_synonym framed = "tick \<times> string \<times> pyval"

lemma adds_healthy:
  assumes "records out kind rid mid a s" and "\<forall>(tk, e, v) \<in> set frames. healthy tk \<and> event_name e"
  shows "records out kind rid mid (fold (\<lambda>(tk, e, v). record_frame kind e v) frames a) (fold (\<lambda>(tk, e, v). sp_add tk e v) frames s)
    \<and> sp_finalized (fst (fold (\<lambda>(tk, e, v). sp_add tk e v) frames s)) = sp_finalized (fst s)"
  using assms
proof (induction frames arbitrary: a s)
  case (Cons f frames)
  obtain tk e v where f: "f = (tk, e, v)" by (cases f) auto
  obtain p db where s: "s = (p, db)" by (cases s)
  have "records out kind rid mid (record_frame kind e v a) (sp_add tk e v s) \<and> sp_finalized (fst (sp_add tk e v s)) = sp_finalized (fst s)"
    using add_healthy [of out kind rid mid a p db tk e v] Cons.prems by (simp add: f s)
  then show ?case using Cons.IH [of "record_frame kind e v a" "sp_add tk e v s"] Cons.prems(2) by (simp add: f)
qed simp


lemma touch_shape: "touch sid stamp db = Inr db' \<Longrightarrow>
    db_messages db' = db_messages db \<and> db_runs db' = db_runs db \<and> db_frames db' = db_frames db"
  using update_sessions_shape(2-4) [of "\<lambda>r. ses_id r = sid" _ db db'] unfolding touch_def by blast

lemma touch_run_session_total: "db_ok db \<Longrightarrow> \<exists>db'. touch_run_session rid stamp db = Inr db'"
  by (cases "find (\<lambda>r. run_id r = rid) (db_runs db)") (auto simp: touch_run_session_def touch_total)

lemma touch_run_shape:
  "touch_run_session rid stamp db = Inr db' \<Longrightarrow>
     db_messages db' = db_messages db \<and> db_runs db' = db_runs db \<and> db_frames db' = db_frames db"
  by (cases "find (\<lambda>r. run_id r = rid) (db_runs db)") (auto simp: touch_run_session_def dest: touch_shape)

definition closed_run :: "string \<Rightarrow> string \<Rightarrow> store_db \<Rightarrow> bool" where
  "closed_run rid status db \<longleftrightarrow>
     (\<exists>r \<in> set (db_runs db). run_id r = rid \<and> run_status r = status \<and> run_terminal r = Some status)"

definition closed_message :: "string \<Rightarrow> string \<Rightarrow> string \<Rightarrow> store_db \<Rightarrow> bool" where
  "closed_message mid status t db \<longleftrightarrow>
     (\<exists>m \<in> set (db_messages db). msg_id m = mid \<and> msg_status m = status \<and> msg_content m = t)"

text \<open>A run has one outcome: the one it has, or else the one it is closed with.\<close>

definition run_outcome :: "string option \<Rightarrow> string \<Rightarrow> string" where
  "run_outcome out status = (case out of None \<Rightarrow> status | Some s \<Rightarrow> s)"

lemma finalize_open_run:
  assumes ok: "db_ok db" and run: "stands None rid db" and rs: "rs \<in> set RUN_STATUSES" "rs \<notin> set RUN_LIVE_STATUSES"
  shows "\<exists>db'. finalize_run rid rs stamp db = Inr (db', True) \<and> db_messages db' = db_messages db
    \<and> db_frames db' = db_frames db \<and> closed_run rid rs db'"
proof -
  obtain r where r: "r \<in> set (db_runs db)" "open_run rid r" using run by (auto simp: stands_def open_run_def)
  let ?db1 = "db\<lparr>db_runs := update_rows (open_run rid) (close_run rs stamp) (db_runs db)\<rparr>"
  have "list_all (\<lambda>q. run_check (close_run rs stamp q)) (db_runs db)"
    using ok rs(1) by (auto simp: db_ok_def runs_ok_def list_all_iff run_check_def close_run_def)
  then have u: "update_runs (open_run rid) (close_run rs stamp) db = Inr ?db1"
    by (auto simp: update_runs_def list_all_iff)
  have "db_ok ?db1"
    by (rule update_runs_ok [OF u ok])
      (use rs(2) in \<open>auto simp: close_run_def run_state_ok_def live_run_def\<close>)
  then obtain db2 where t: "touch_run_session rid stamp ?db1 = Inr db2" using touch_run_session_total by blast
  have f: "finalize_run rid rs stamp db = Inr (db2, True)"
    using rs u t r by (auto simp: finalize_run_def list_ex_iff)
  note sh = touch_run_shape [OF t]
  have "closed_run rid rs db2"
    unfolding closed_run_def using sh r
    by (intro bexI [of _ "close_run rs stamp r"]) (auto simp: close_run_def open_run_def set_update_rows intro!: bexI [of _ r])
  then show ?thesis using f sh by auto
qed

lemma finalize_closed_run:
  assumes ok: "db_ok db" and run: "stands (Some s) rid db" and rs: "rs \<in> set RUN_STATUSES" "rs \<notin> set RUN_LIVE_STATUSES"
  shows "finalize_run rid rs stamp db = Inr (db, False) \<and> closed_run rid s db"
proof -
  obtain r where r: "r \<in> set (db_runs db)" "run_id r = rid" "run_terminal r = Some s" using run by (auto simp: stands_def)
  have none: "\<not> open_run rid q" if "q \<in> set (db_runs db)" for q
    using run_unique [of db q r] ok that r by (auto simp: open_run_def db_ok_def)
  then have "update_rows (open_run rid) f (db_runs db) = db_runs db" for f
    by (auto simp: update_rows_def intro: map_idI)
  then have "update_runs (open_run rid) (close_run rs stamp) db = Inr db"
    using none by (auto simp: update_runs_def list_all_iff)
  moreover have "\<not> list_ex (open_run rid) (db_runs db)" using none by (auto simp: list_ex_iff)
  moreover have "run_state_ok r" using ok r(1) by (simp add: db_ok_def runs_ok_def list_all_iff)
  ultimately show ?thesis
    using rs r by (auto simp: finalize_run_def closed_run_def run_state_ok_def intro!: bexI [of _ r])
qed

lemma finalize_run_healthy:
  assumes ok: "db_ok db" and run: "stands out rid db" and rs: "rs \<in> set RUN_STATUSES" "rs \<notin> set RUN_LIVE_STATUSES"
  shows "\<exists>db' b. finalize_run rid rs stamp db = Inr (db', b) \<and> db_ok db' \<and> db_messages db' = db_messages db
    \<and> db_frames db' = db_frames db \<and> closed_run rid (run_outcome out rs) db'"
proof (cases out)
  case None
  then obtain db' where f: "finalize_run rid rs stamp db = Inr (db', True)" "db_messages db' = db_messages db"
      "db_frames db' = db_frames db" "closed_run rid rs db'"
    using finalize_open_run [OF ok _ rs] run by blast
  then show ?thesis using finalize_run_ok [OF f(1) ok] None by (auto simp: run_outcome_def)
qed (use finalize_closed_run [OF ok _ rs, of _ rid stamp] run ok in \<open>auto simp: run_outcome_def\<close>)

lemma finalize_message_healthy:
  assumes ok: "db_ok db" and m: "holds_text mid t db" and ms: "ms \<in> set MESSAGE_STATUSES" "ms \<noteq> MSG_STREAMING"
  shows "\<exists>db'. finalize_message mid ms None detail PNone stamp db = Inr (db', True) \<and> db_ok db'
    \<and> db_runs db' = db_runs db \<and> db_frames db' = db_frames db \<and> closed_message mid ms t db'"
proof -
  obtain m where m: "m \<in> set (db_messages db)" "streaming mid m" "msg_content m = t"
    using assms(2) by (auto simp: holds_text_def)
  let ?close = "close_message ms None detail PNone stamp"
  let ?db1 = "db\<lparr>db_messages := update_rows (streaming mid) ?close (db_messages db)\<rparr>"
  have chk: "message_check (?close q)" if "q \<in> set (db_messages db)" "streaming mid q" for q
    using that ok ms(1) by (auto simp: db_ok_def messages_ok_def list_all_iff message_check_def close_message_def
        streaming_def MSG_STREAMING_def MSG_COMPLETE_def)
  then have u: "update_messages (streaming mid) ?close db = Inr ?db1"
    by (auto simp: update_messages_def list_all_iff)
  have "db_ok ?db1" by (rule update_messages_ok [OF u ok]) (simp add: close_message_def)
  then obtain db2 where t: "touch_message_session mid stamp ?db1 = Inr db2" using touch_message_session_total by blast
  have f: "finalize_message mid ms None detail PNone stamp db = Inr (db2, True)"
    using ms u t m by (auto simp: finalize_message_def list_ex_iff)
  note sh = touch_message_shape [OF t]
  have "closed_message mid ms t db2"
    unfolding closed_message_def using sh m
    by (intro bexI [of _ "?close m"]) (auto simp: close_message_def streaming_def set_update_rows intro!: bexI [of _ m])
  then show ?thesis using f sh finalize_message_ok [OF f ok] by auto
qed

text \<open>The end of a turn on a run whose outcome before it was \<open>out\<close>.\<close>

definition ended :: "string option \<Rightarrow> string \<Rightarrow> string \<Rightarrow> string \<Rightarrow> string \<Rightarrow> (string \<times> string) list \<times> string \<Rightarrow> store_db \<Rightarrow> bool" where
  "ended out rid mid rs ms a db \<longleftrightarrow> db_ok db \<and> transcript rid db = fst a \<and> closed_run rid (run_outcome out rs) db
     \<and> closed_message mid ms (snd a) db"

lemma write_end_healthy:
  assumes r: "recording out rid mid (fst a) (snd a) db" and "healthy tk" and p: "run_of p = rid" "sp_message p = Some mid"
    and rs: "rs \<in> set RUN_STATUSES" "rs \<notin> set RUN_LIVE_STATUSES"
    and ms: "ms \<in> set MESSAGE_STATUSES" "ms \<noteq> MSG_STREAMING"
  shows "\<exists>db'. write_end tk p rs ms detail db = (db', True) \<and> ended out rid mid rs ms a db'"
proof -
  have r: "db_ok db" "stands out rid db" "transcript rid db = fst a" "holds_text mid (snd a) db"
    using r by (auto simp: recording_def)
  obtain db1 b where f: "finalize_run rid rs (tk_stamp tk C_finalize_run) db = Inr (db1, b)" "db_ok db1"
    "db_messages db1 = db_messages db" "db_frames db1 = db_frames db" "closed_run rid (run_outcome out rs) db1"
    using finalize_run_healthy [OF r(1,2) rs] by blast
  have "holds_text mid (snd a) db1" using r(4) f(3) by (simp add: holds_text_def)
  then obtain db2 where g: "finalize_message mid ms None detail PNone (tk_stamp tk C_finalize_message) db1 = Inr (db2, True)"
    "db_ok db2" "db_runs db2 = db_runs db1" "db_frames db2 = db_frames db1" "closed_message mid ms (snd a) db2"
    using finalize_message_healthy [OF f(2) _ ms] by blast
  have "ended out rid mid rs ms a db2"
    using f g r(3) by (simp add: ended_def closed_run_def transcript_def)
  then show ?thesis using f(1) g(1) by (simp add: write_end_def call_healthy [OF assms(2)] p)
qed

lemma end_healthy:
  assumes rel: "records out kind rid mid a s" and h: "healthy tk" and "\<not> sp_finalized (fst s)"
    and rs: "rs \<in> set RUN_STATUSES" "rs \<notin> set RUN_LIVE_STATUSES"
    and ms: "ms \<in> set MESSAGE_STATUSES" "ms \<noteq> MSG_STREAMING"
  shows "\<exists>p' db'. sp_end tk rs ms detail s = (p', db') \<and> ended out rid mid rs ms a db' \<and> sp_finalized p'"
proof -
  obtain p db where s: "s = (p, db)" by (cases s)
  have rel1: "records out kind rid mid a (p\<lparr>sp_finalized := True\<rparr>, db)" using rel by (simp add: records_def s)
  then obtain p' db' where f: "sp_flush tk (p\<lparr>sp_finalized := True\<rparr>, db) = (p', db')" "same_turn p' (p\<lparr>sp_finalized := True\<rparr>)"
      "recording out rid mid (fst a) (snd a) db'"
    using flush_healthy [OF rel1 h] by blast
  have "run_of p' = rid" "sp_message p' = Some mid"
    using f(2) rel by (auto simp: same_turn_def records_def run_of_def s)
  then obtain db2 where "write_end tk p' rs ms detail db' = (db2, True)" "ended out rid mid rs ms a db2"
    using write_end_healthy [OF f(3) h _ _ rs ms] by blast
  then show ?thesis
    using f(1,2) assms(3) records_active [OF rel [unfolded s] h] by (auto simp: sp_end_def s same_turn_def)
qed

lemma map_terminal_ok:
  "fst (map_terminal w) \<in> set RUN_STATUSES" "fst (map_terminal w) \<notin> set RUN_LIVE_STATUSES"
  "snd (map_terminal w) \<in> set MESSAGE_STATUSES" "snd (map_terminal w) \<noteq> MSG_STREAMING"
  by (simp_all add: map_terminal_def Let_def RUN_STATUSES_def RUN_LIVE_STATUSES_def RUN_TRUNCATED_def RUN_RUNNING_def
      RUN_WATCHING_def MESSAGE_STATUSES_def MSG_STREAMING_def MSG_COMPLETE_def MSG_TRUNCATED_def)

lemma next_seq_unused:
  assumes "messages_ok db" and "m \<in> set (db_messages db)" and "msg_session m = sid"
  shows "msg_seq m < next_seq sid db"
proof -
  have d: "dense (db_messages db)" using assms(1) by (simp add: messages_ok_def)
  then have seqs: "seqs_of sid (db_messages db) = map int [1..<length (seqs_of sid (db_messages db)) + 1]"
    unfolding dense_def by blast
  have "msg_seq m \<in> set (seqs_of sid (db_messages db))" using assms(2,3) by (auto simp: seqs_of_def)
  then have "msg_seq m \<in> set (map int [1..<length (seqs_of sid (db_messages db)) + 1])" using seqs by simp
  then show ?thesis by (auto simp: next_seq_dense [OF d] simp del: upt_Suc)
qed

definition can_open :: "string option \<Rightarrow> string \<Rightarrow> string \<Rightarrow> string \<Rightarrow> store_db \<Rightarrow> bool" where
  "can_open out rid sid mid db \<longleftrightarrow> rid \<noteq> [] \<and> text_value (PStr rid) = Some rid \<and> db_ok db \<and> stands out rid db
     \<and> sid \<in> ses_id ` set (db_sessions db) \<and> mid \<notin> msg_id ` set (db_messages db)"

lemma text_empty: "text_cap n (PStr []) = None" "text_cap n PNone = None"
  by (simp_all add: text_cap_def py_strip_def)

lemma next_seq_pos: "0 < next_seq sid db"
proof -
  have "0 \<le> a \<Longrightarrow> 0 \<le> fold (\<lambda>m a. max (msg_seq m) a) ms a" for ms :: "message_row list" and a
    by (induction ms arbitrary: a) (simp_all add: max_def)
  then show ?thesis by (simp add: next_seq_def)
qed

lemma open_healthy:
  assumes can: "can_open out rid sid (tk_fresh tk) db" and h: "healthy tk"
  shows "records out kind rid (tk_fresh tk) (transcript rid db, []) (sp_open tk (new_persister (Some rid) (Some sid) kind t0 t1, db))
    \<and> \<not> sp_finalized (fst (sp_open tk (new_persister (Some rid) (Some sid) kind t0 t1, db)))"
proof -
  let ?p = "new_persister (Some rid) (Some sid) kind t0 t1"
  let ?stamp = "tk_stamp tk C_create_message"
  have ok: "db_ok db" and rid: "rid \<noteq> []" "text_value (PStr rid) = Some rid" "stands out rid db"
    and sid: "find_session sid db \<noteq> None" "sid \<in> ses_id ` set (db_sessions db)"
    and new: "tk_fresh tk \<notin> msg_id ` set (db_messages db)"
    using can find_session_mem [of sid db] by (auto simp: can_open_def)
  have p: "sp_run ?p = Some rid" "sp_session ?p = Some sid" "sp_kind ?p = kind" "sp_message ?p = None" "sp_buffer ?p = []"
    "sp_pending ?p = []" "\<not> sp_finalized ?p"
    by (simp_all add: new_persister_def)
  define m where "m = \<lparr>msg_id = tk_fresh tk, msg_session = sid, msg_run = Some rid, msg_seq = next_seq sid db,
      msg_role = ''assistant'', msg_kind = (if kind = ''qa'' then ''qa_answer'' else ''analysis_answer''), msg_content = [],
      msg_status = MSG_STREAMING, msg_error = None, msg_activity = None, msg_client = None,
      msg_created_at = ?stamp, msg_updated_at = ?stamp\<rparr>"
  have "message_check m" using next_seq_pos
    by (simp add: m_def message_check_def ROLES_def MESSAGE_KINDS_def MESSAGE_STATUSES_def ROLE_USER_def)
  moreover have "rid \<in> run_id ` set (db_runs db)" using rid(3) by (auto simp: stands_def)
  moreover have "messages_ok db" using ok by (simp add: db_ok_def)
  then have "(sid, next_seq sid db) \<notin> (\<lambda>m. (msg_session m, msg_seq m)) ` set (db_messages db)"
    using next_seq_unused [of db _ sid] by fastforce
  ultimately have ins: "insert_message m db = Inr (db\<lparr>db_messages := db_messages db @ [m]\<rparr>)" (is "_ = Inr ?db1")
    using new sid(2) by (simp add: insert_message_def m_def)
  have "db_ok ?db1" by (rule insert_message_ok [OF ins ok]) (simp add: m_def)
  then obtain db2 where t: "touch sid ?stamp ?db1 = Inr db2" "db_ok db2" using touch_total touch_ok by blast
  have args: "new_role (answer_args ?p) = ''assistant''" "new_status (answer_args ?p) = MSG_STREAMING"
    "new_msg_kind (answer_args ?p) = (if kind = ''qa'' then ''qa_answer'' else ''analysis_answer'')"
    "new_content (answer_args ?p) = PStr []" "new_run (answer_args ?p) = PStr rid" "new_client (answer_args ?p) = PNone"
    "new_activity (answer_args ?p) = PNone" "new_error (answer_args ?p) = PNone"
    by (simp_all add: answer_args_def p run_of_def)
  have voc: "''assistant'' \<in> set ROLES" "''assistant'' \<noteq> ROLE_USER" "MSG_STREAMING \<in> set MESSAGE_STATUSES"
    "(if kind = ''qa'' then ''qa_answer'' else ''analysis_answer'') \<in> set MESSAGE_KINDS"
    by (simp_all add: ROLES_def ROLE_USER_def MESSAGE_STATUSES_def MESSAGE_KINDS_def)
  have row: "\<lparr>msg_id = tk_fresh tk, msg_session = sid, msg_run = text_value (PStr rid), msg_seq = next_seq sid db,
      msg_role = ''assistant'', msg_kind = (if kind = ''qa'' then ''qa_answer'' else ''analysis_answer''),
      msg_content = (case text_value (PStr []) of Some s \<Rightarrow> s | None \<Rightarrow> []),
      msg_status = MSG_STREAMING, msg_error = text_value PNone, msg_activity = json_or_none PNone, msg_client = None,
      msg_created_at = ?stamp, msg_updated_at = ?stamp\<rparr> = m"
    by (simp add: m_def rid(2)) (simp add: text_value_def text_empty json_or_none_def)
  have c: "create_message (tk_fresh tk) ?stamp sid (answer_args ?p) db = Inr (db2, Some m)"
    unfolding create_message_def args text_empty Let_def row using sid(1) voc by (simp add: ins t(1))
  have "sp_open tk (?p, db) = (?p\<lparr>sp_message := Some (tk_fresh tk)\<rparr>, db2)"
    using c h rid(1) by (simp add: sp_open_def p active_def healthy_def call_def m_def)
  moreover note sh = touch_shape [OF t(1)]
  have "recording out rid (tk_fresh tk) (transcript rid db) [] db2"
    using sh t(2) rid(3) by (auto simp: recording_def transcript_def stands_def holds_text_def streaming_def m_def)
  ultimately show ?thesis by (auto simp: records_def p rid strip_nul_def)
qed

lemma mark_healthy:
  assumes rel: "records None kind rid mid a s" and h: "healthy tk"
  shows "records None kind rid mid a (mark_watching tk s) \<and> sp_finalized (fst (mark_watching tk s)) = sp_finalized (fst s)
    \<and> (\<exists>r \<in> set (db_runs (snd (mark_watching tk s))). run_id r = rid \<and> run_status r = RUN_WATCHING \<and> run_terminal r = None)"
proof -
  obtain p db where s: "s = (p, db)" by (cases s)
  obtain p' db' where f: "sp_flush tk (p, db) = (p', db')" "sp_buffer p' = []" "sp_pending p' = []" "same_turn p' p"
      "recording None rid mid (fst a) (snd a) db'"
    using flush_healthy [OF rel [unfolded s] h] by blast
  have r: "db_ok db'" "stands None rid db'" "transcript rid db' = fst a" "holds_text mid (snd a) db'"
      "length (snd a) \<le> MAX_CONTENT_CHARS"
    using f(5) by (auto simp: recording_def)
  let ?stamp = "tk_stamp tk C_update_status"
  let ?up = "\<lambda>q :: run_row. q\<lparr>run_status := RUN_WATCHING, run_last_event_at := ?stamp\<rparr>"
  let ?db2 = "db'\<lparr>db_runs := update_rows (open_run rid) ?up (db_runs db')\<rparr>"
  have "run_check (?up q)" if "q \<in> set (db_runs db')" for q
    using that r(1) by (auto simp: db_ok_def runs_ok_def list_all_iff run_check_def RUN_STATUSES_def RUN_WATCHING_def)
  then have "update_runs (open_run rid) ?up db' = Inr ?db2" by (auto simp: update_runs_def list_all_iff)
  then have u: "update_run_status rid RUN_WATCHING ?stamp db' = Inr (?db2, list_ex (open_run rid) (db_runs db'))"
    by (simp add: update_run_status_def RUN_LIVE_STATUSES_def)
  obtain q where q: "q \<in> set (db_runs db')" "open_run rid q" using r(2) by (auto simp: stands_def open_run_def)
  then have w: "?up q \<in> set (db_runs ?db2)" "open_run rid (?up q)"
    by (auto simp: set_update_rows open_run_def intro!: bexI [of _ q])
  have still: "stands None rid ?db2"
    unfolding stands_def by (rule bexI [of _ "?up q"]) (use w in \<open>simp_all add: open_run_def\<close>)
  have "recording None rid mid (fst a) (snd a) ?db2"
    unfolding recording_def using update_run_status_ok [OF u r(1)] r(3-5) still
    by (simp add: transcript_def holds_text_def)
  then have "records None kind rid mid a (p', ?db2)"
    by (rule recorded_empty [OF _ f(2-4) rel [unfolded s]])
  moreover have "mark_watching tk s = (p', ?db2)"
    using f(1,4) u records_active [OF rel [unfolded s] h] h
    by (simp add: mark_watching_def s call_healthy same_turn_def run_of_def)
  moreover have "\<exists>r \<in> set (db_runs ?db2). run_id r = rid \<and> run_status r = RUN_WATCHING \<and> run_terminal r = None"
    by (rule bexI [OF _ w(1)]) (use w(2) in \<open>simp add: open_run_def\<close>)
  ultimately show ?thesis using f(4) by (simp add: s same_turn_def)
qed


definition framed_ok :: "framed list \<Rightarrow> bool" where
  "framed_ok frames \<longleftrightarrow> (\<forall>(tk, e, v) \<in> set frames. healthy tk \<and> event_name e)"

definition record_all :: "string \<Rightarrow> framed list \<Rightarrow> (string \<times> string) list \<times> string \<Rightarrow> (string \<times> string) list \<times> string" where
  "record_all kind frames a = fold (\<lambda>(tk, e, v). record_frame kind e v) frames a"

text \<open>What a turn adds: its frames, but for a question, and the prose of its frames without NUL characters, cut at the
  length the store allows.\<close>

definition turn_frames :: "string \<Rightarrow> framed list \<Rightarrow> (string \<times> string) list" where
  "turn_frames kind frames = (if kind = ''qa'' then [] else map (\<lambda>(_, f). frame_text f) frames)"

definition turn_text :: "framed list \<Rightarrow> string" where
  "turn_text frames = take MAX_CONTENT_CHARS (strip_nul (concat (map (\<lambda>(_, e, v). content_of e v) frames)))"

lemma record_all_turn: "record_all kind frames (fs, []) = (fs @ turn_frames kind frames, turn_text frames)"
proof -
  let ?texts = "\<lambda>frames :: framed list. strip_nul (concat (map (\<lambda>(_, e, v). content_of e v) frames))"
  have cat: "take n (take n t @ x) = take n (t @ x)" for n and t x :: string by (simp add: take_append min_def)
  have texts: "?texts ((tk, e, v) # frames) = strip_nul (content_of e v) @ ?texts frames" for tk e v frames
    by (simp add: strip_nul_def)
  have "record_all kind frames (fs, take MAX_CONTENT_CHARS t)
      = (fs @ turn_frames kind frames, take MAX_CONTENT_CHARS (t @ ?texts frames))" for t
  proof (induction frames arbitrary: fs t)
    case (Cons f frames)
    obtain tk e v where f: "f = (tk, e, v)" by (cases f) auto
    have "record_all kind (f # frames) (fs, take MAX_CONTENT_CHARS t) = record_all kind frames
        (if kind = ''qa'' then fs else fs @ [frame_text (e, v)], take MAX_CONTENT_CHARS (t @ strip_nul (content_of e v)))"
      by (simp only: f record_all_def fold_simps comp_def prod.case record_frame_def fst_conv snd_conv cat)
    then show ?case unfolding Cons.IH f texts by (simp add: turn_frames_def)
  qed (simp add: record_all_def turn_frames_def strip_nul_def)
  from this [of "[]"] show ?thesis by (simp add: turn_text_def)
qed

lemma terminal_names: "event_name ''RUN_FINISHED''" "event_name ''ERROR''"
  by (simp_all add: event_name_def text_defs)

lemma disconnect_after_end: "sp_finalized (fst s) \<Longrightarrow> record_disconnect tk s = s"
  by (cases s) (simp add: record_disconnect_def sp_end_def)

lemma turn_recorded:
  assumes "can_open out rid sid (tk_fresh tk0) db" and "healthy tk0" and "framed_ok frames"
  shows "records out kind rid (tk_fresh tk0) (record_all kind frames (transcript rid db, []))
      (fold (\<lambda>(tk, e, v). sp_add tk e v) frames (sp_open tk0 (new_persister (Some rid) (Some sid) kind t0 t1, db)))
    \<and> \<not> sp_finalized (fst (fold (\<lambda>(tk, e, v). sp_add tk e v) frames
          (sp_open tk0 (new_persister (Some rid) (Some sid) kind t0 t1, db))))"
proof -
  note o = open_healthy [OF assms(1,2), of kind t0 t1]
  show ?thesis
    using adds_healthy [OF conjunct1 [OF o], of frames] conjunct2 [OF o] assms(3)
    unfolding framed_ok_def record_all_def by simp
qed

definition finished :: "framed list \<Rightarrow> tick \<Rightarrow> string \<Rightarrow> pyval \<Rightarrow> framed list" where
  "finished frames tk word v = frames @ [(tk, if word = ''error'' then ''ERROR'' else ''RUN_FINISHED'', v)]"

text \<open>C39: A turn that ends is recorded whole: with a recorder that is on and a store that answers, and whatever
  the batching did, the store then holds exactly the frames of the turn, in order, after those of earlier turns (a question
  adds none), and as the text of its message the prose they carried, without NUL characters and cut at the
  length the store allows. The message has the status of the ending; the run has it too when it was open, and keeps the
  outcome it had when it was not (a turn resumed after a park, a question on a finished run). The disconnect that the generator
  records last changes nothing.\<close>

theorem finished_turn_is_whole:
  assumes "can_open out rid sid (tk_fresh tk0) db" and "healthy tk0" and "framed_ok frames"
    and "healthy tk_end"
  shows "\<exists>p' db'. event_generator tk0 frames tk_end (Ends word detail v) tk_last
        (new_persister (Some rid) (Some sid) kind t0 t1, db) = (p', db')
    \<and> ended out rid (tk_fresh tk0) (fst (map_terminal word)) (snd (map_terminal word))
        (transcript rid db @ turn_frames kind (finished frames tk_end word v), turn_text (finished frames tk_end word v)) db'"
proof -
  let ?e = "if word = ''error'' then ''ERROR'' else ''RUN_FINISHED''"
  let ?s = "fold (\<lambda>(tk, e, v). sp_add tk e v) frames (sp_open tk0 (new_persister (Some rid) (Some sid) kind t0 t1, db))"
  obtain p db1 where s: "?s = (p, db1)" by (cases ?s)
  have rec: "records out kind rid (tk_fresh tk0) (record_all kind frames (transcript rid db, [])) (p, db1)" "\<not> sp_finalized p"
    using turn_recorded [OF assms(1-3), of kind t0 t1] unfolding s by simp_all
  let ?a = "record_all kind (frames @ [(tk_end, ?e, v)]) (transcript rid db, [])"
  have "records out kind rid (tk_fresh tk0) ?a (sp_add tk_end ?e v (p, db1))" "\<not> sp_finalized (fst (sp_add tk_end ?e v (p, db1)))"
    using add_healthy [OF rec(1) assms(4), of ?e v] rec(2) terminal_names by (simp_all add: record_all_def)
  note fin = end_healthy [OF this(1) assms(4) this(2) map_terminal_ok [of word],
      of "case detail of None \<Rightarrow> PNone | Some d \<Rightarrow> PStr d"]
  obtain p' db' where "sp_finalize tk_end word detail (sp_add tk_end ?e v (p, db1)) = (p', db')"
      "ended out rid (tk_fresh tk0) (fst (map_terminal word)) (snd (map_terminal word)) ?a db'" "sp_finalized p'"
    using fin by (auto simp: sp_finalize_def case_prod_beta)
  then show ?thesis
    unfolding event_generator_def s end_turn_def finished_def record_all_turn [symmetric] by (simp add: disconnect_after_end)
qed

text \<open>C40: A turn that parks at a price watch does not stay parked: the generator marks its run as watching
  and then, as it is not finalized, records a disconnect, which closes the run and its message as
  truncated, so that the outcome of the resumed analysis can never be recorded on it. The recorder is on, the store answers and the run was open.\<close>

theorem parked_turn_is_truncated:
  assumes "can_open None rid sid (tk_fresh tk0) db" and "healthy tk0" and "framed_ok frames"
    and "healthy tk_end" and "healthy tk_last"
  shows "\<exists>p' db'. event_generator tk0 frames tk_end (Parks v) tk_last
        (new_persister (Some rid) (Some sid) kind t0 t1, db) = (p', db')
    \<and> ended None rid (tk_fresh tk0) RUN_TRUNCATED MSG_TRUNCATED
        (transcript rid db @ turn_frames kind (frames @ [(tk_end, ''RUN_FINISHED'', v)]), turn_text (frames @ [(tk_end, ''RUN_FINISHED'', v)])) db'
    \<and> (\<exists>r \<in> set (db_runs (snd (end_turn tk_end (Parks v) (fold (\<lambda>(tk, e, v). sp_add tk e v) frames
          (sp_open tk0 (new_persister (Some rid) (Some sid) kind t0 t1, db)))))).
        run_id r = rid \<and> run_status r = RUN_WATCHING)"
proof -
  let ?s = "fold (\<lambda>(tk, e, v). sp_add tk e v) frames (sp_open tk0 (new_persister (Some rid) (Some sid) kind t0 t1, db))"
  obtain p db1 where s: "?s = (p, db1)" by (cases ?s)
  have rec: "records None kind rid (tk_fresh tk0) (record_all kind frames (transcript rid db, [])) (p, db1)" "\<not> sp_finalized p"
    using turn_recorded [OF assms(1-3), of kind t0 t1] unfolding s by simp_all
  let ?s2 = "sp_add tk_end ''RUN_FINISHED'' v (p, db1)"
  let ?a = "record_all kind (frames @ [(tk_end, ''RUN_FINISHED'', v)]) (transcript rid db, [])"
  have two: "records None kind rid (tk_fresh tk0) ?a ?s2" "\<not> sp_finalized (fst ?s2)"
    using add_healthy [OF rec(1) assms(4), of "''RUN_FINISHED''" v] rec(2) terminal_names by (simp_all add: record_all_def)
  note mark = mark_healthy [OF two(1) assms(4)]
  have st: "RUN_TRUNCATED \<in> set RUN_STATUSES" "RUN_TRUNCATED \<notin> set RUN_LIVE_STATUSES"
      "MSG_TRUNCATED \<in> set MESSAGE_STATUSES" "MSG_TRUNCATED \<noteq> MSG_STREAMING"
    by (simp_all add: vocab_defs)
  have "\<not> sp_finalized (fst (mark_watching tk_end ?s2))" using mark two(2) by simp
  from end_healthy [OF conjunct1 [OF mark] assms(5) this st, of PNone]
  obtain p' db' where last: "record_disconnect tk_last (mark_watching tk_end ?s2) = (p', db')"
      "ended None rid (tk_fresh tk0) RUN_TRUNCATED MSG_TRUNCATED ?a db'"
    by (auto simp: record_disconnect_def)
  have "event_generator tk0 frames tk_end (Parks v) tk_last (new_persister (Some rid) (Some sid) kind t0 t1, db) = (p', db')"
    unfolding event_generator_def s end_turn_def by (simp add: last(1))
  moreover have "\<exists>r \<in> set (db_runs (snd (end_turn tk_end (Parks v) ?s))). run_id r = rid \<and> run_status r = RUN_WATCHING"
    unfolding s end_turn_def using mark by auto
  ultimately show ?thesis using last(2) [unfolded record_all_turn] by blast
qed


subsection \<open>A failing store\<close>

lemma write_batch_ok: "db_ok db \<Longrightarrow> db_ok (fst (write_batch tk p frames text db))"
  by (auto simp: write_batch_def call_def split: sum.splits option.splits if_splits
      intro: append_run_events_ok append_message_delta_ok)

lemma flush_ok: "db_ok (snd s) \<Longrightarrow> db_ok (snd (sp_flush tk s))"
  by (cases s) (simp add: sp_flush_def Let_def case_prod_beta write_batch_ok)

lemma add_ok: "db_ok (snd s) \<Longrightarrow> db_ok (snd (sp_add tk e v s))"
  using flush_ok by (cases s) (simp add: sp_add_def Let_def)

lemma write_end_ok: "db_ok db \<Longrightarrow> db_ok (fst (write_end tk p rs ms detail db))"
  by (auto simp: write_end_def call_def split: sum.splits option.splits if_splits
      intro: finalize_run_ok finalize_message_ok)

lemma end_ok: "db_ok (snd s) \<Longrightarrow> db_ok (snd (sp_end tk rs ms detail s))"
  by (cases s) (simp add: sp_end_def Let_def case_prod_beta write_end_ok flush_ok)


lemma open_ok: "db_ok (snd s) \<Longrightarrow> db_ok (snd (sp_open tk s))"
  by (cases s) (auto simp: sp_open_def Let_def call_def split: sum.splits option.splits if_splits intro: create_message_ok)

lemma mark_ok: "db_ok (snd s) \<Longrightarrow> db_ok (snd (mark_watching tk s))"
  by (cases s) (auto simp: mark_watching_def Let_def call_def case_prod_beta flush_ok
      split: sum.splits if_splits intro: update_run_status_ok [OF _ flush_ok])

lemma adds_ok: "db_ok (snd s) \<Longrightarrow> db_ok (snd (fold (\<lambda>(tk, e, v). sp_add tk e v) frames s))"
proof (induction frames arbitrary: s)
  case (Cons f frames)
  then show ?case by (cases f) (simp add: add_ok)
qed simp

text \<open>Whatever calls fail and whatever is handed over, a turn never raises and leaves the store well formed;
  with the recorder inactive it does not touch the store at all.\<close>

lemma recorder_keeps_store:
  assumes "db_ok db"
  shows "db_ok (snd (event_generator tk0 frames tk_end e tk_last (p, db)))"
proof -
  have "db_ok (snd (fold (\<lambda>(tk, e, v). sp_add tk e v) frames (sp_open tk0 (p, db))))" (is "db_ok (snd ?s)")
    by (intro adds_ok open_ok) (simp add: assms)
  then have "db_ok (snd (end_turn tk_end e ?s))"
    by (auto simp: end_turn_def sp_finalize_def case_prod_beta split: turn_end.split intro: end_ok add_ok mark_ok)
  then show ?thesis by (simp add: event_generator_def record_disconnect_def end_ok)
qed

subsection \<open>Witnesses\<close>

definition demo_tick :: "string \<Rightarrow> tick" where
  "demo_tick fresh = \<lparr>tk_env = (\<lambda>_. Some ''1''), tk_monotonic = Fin 0, tk_monotonic_flush = Fin 0, tk_stamp = (\<lambda>_. Fin 9),
     tk_fresh = fresh, tk_down = (\<lambda>_. False)\<rparr>"

definition demo_turn :: "framed list" where
  "demo_turn = [(demo_tick [], ''REASONING'', PDict [(''content'', PStr ''hi'')])]"

lemma demo_healthy: "healthy (demo_tick fresh)" "framed_ok demo_turn"
  by (simp_all add: healthy_def demo_tick_def enabled_def py_lower_def lower_char_def framed_ok_def demo_turn_def
      event_name_def text_defs)

lemma demo_can_open: "can_open None ''r1'' ''s1'' (tk_fresh (demo_tick ''m2'')) demo_db"
  unfolding can_open_def using demo_db_ok
  by (simp add: demo_db_def demo_tick_def demo_run_row_def demo_session_row_def demo_message_row_def stands_def
      text_defs)

lemma finished_turn_is_whole_witness:
  "\<exists>p' db'. event_generator (demo_tick ''m2'') demo_turn (demo_tick []) (Ends ''completed'' None PNone) (demo_tick [])
        (new_persister (Some ''r1'') (Some ''s1'') ''run'' (Fin 0) (Fin 0), demo_db) = (p', db')
    \<and> closed_run ''r1'' ''complete'' db' \<and> closed_message ''m2'' ''complete'' ''hi'' db'"
proof -
  have "map_terminal ''completed'' = (''complete'', ''complete'')"
    by (simp add: map_terminal_def py_lower_def lower_char_def text_defs MSG_COMPLETE_def)
  moreover have "turn_text (finished demo_turn (demo_tick []) ''completed'' PNone) = ''hi''"
    by (simp add: turn_text_def finished_def demo_turn_def content_of_def CONTENT_EVENTS_def dict_get_def
        strip_nul_def nul_char MAX_CONTENT_CHARS_def)
  ultimately show ?thesis
    using finished_turn_is_whole [OF demo_can_open demo_healthy demo_healthy(1) [of "[]"], of "''completed''" None PNone "demo_tick []"
        "''run''" "Fin 0" "Fin 0"]
    by (auto simp: ended_def demo_tick_def run_outcome_def)
qed

lemma parked_turn_is_truncated_witness:
  "\<exists>p' db'. event_generator (demo_tick ''m2'') demo_turn (demo_tick []) (Parks PNone) (demo_tick [])
        (new_persister (Some ''r1'') (Some ''s1'') ''run'' (Fin 0) (Fin 0), demo_db) = (p', db')
    \<and> closed_run ''r1'' RUN_TRUNCATED db'"
  using parked_turn_is_truncated [OF demo_can_open demo_healthy demo_healthy(1,1) [of "[]"], of PNone "''run''" "Fin 0" "Fin 0"]
  by (auto simp: ended_def run_outcome_def)

end
