(* ===== verification/Opportunity.thy ===== *)
theory Opportunity
  imports EnvConfig PyJson
begin

text \<open>
  \<open>opportunity.py\<close>: the pure core that bounds a hunt. The configuration, the tier ladder, the watch
  cap and session budget, the fingerprint of a thesis and the test for an unchanged re-arm, the
  plan of a resume, the accounting of heartbeats, the pruning of the history and the interim read.
  The functions read dynamic values, so a huge integer makes their finiteness test raise.
\<close>

subsection \<open>Configuration\<close>

record opportunity_config =
  oc_watch_cap :: int
  oc_session_max_turns :: int
  oc_session_max_wall_secs :: pyfloat
  oc_size_factor_a_plus :: pyfloat
  oc_size_factor_b_continuation :: pyfloat
  oc_size_factor_scalp :: pyfloat
  oc_lower_tiers_enabled :: bool
  oc_heartbeat_enabled :: bool
  oc_heartbeat_cadence_secs :: pyfloat
  oc_heartbeat_max :: int
  oc_prune_keep_recent_turns :: int
  oc_prune_max_messages :: int

definition DEFAULT_WATCH_CAP :: int where "DEFAULT_WATCH_CAP = 3"
definition DEFAULT_SESSION_MAX_TURNS :: int where "DEFAULT_SESSION_MAX_TURNS = 40"
definition DEFAULT_SESSION_MAX_WALL_SECS :: pyfloat where "DEFAULT_SESSION_MAX_WALL_SECS = Fin 3600"
definition DEFAULT_HEARTBEAT_MAX :: int where "DEFAULT_HEARTBEAT_MAX = 6"
definition DEFAULT_PRUNE_KEEP_RECENT_TURNS :: int where "DEFAULT_PRUNE_KEEP_RECENT_TURNS = 8"
definition DEFAULT_PRUNE_MAX_MESSAGES :: int where "DEFAULT_PRUNE_MAX_MESSAGES = 40"
definition PRUNE_MIN :: int where "PRUNE_MIN = 1"

definition bool_token :: "string \<Rightarrow> bool option" where
  "bool_token s = (let token = py_lower s in
     if token \<in> {''1'', ''true'', ''yes'', ''on''} then Some True
     else if token \<in> {''0'', ''false'', ''no'', ''off''} then Some False else None)"

definition resolve_bool :: "env \<Rightarrow> string \<Rightarrow> bool \<Rightarrow> bool" where
  "resolve_bool env name dflt = (case env name of None \<Rightarrow> dflt
     | Some raw \<Rightarrow> if py_strip raw = [] then dflt
         else (case bool_token (py_strip raw) of None \<Rightarrow> dflt | Some b \<Rightarrow> b))"

interpretation opportunity_flag: env_param bool_token "\<lambda>_. True" resolve_bool
  by unfold_locales (auto simp: resolve_bool_def)

text \<open>A resolved value on the exclusive bound zero reverts to the default.\<close>

definition above_zero :: "env \<Rightarrow> string \<Rightarrow> pyfloat \<Rightarrow> pyfloat \<Rightarrow> pyfloat" where
  "above_zero env name dflt high = (let v = resolve_float env name dflt (Fin 0) high in
     if fle v (Fin 0) then dflt else v)"

definition resolve_opportunity_config :: "env \<Rightarrow> opportunity_config" where
  "resolve_opportunity_config env = \<lparr>
     oc_watch_cap = resolve_int env ''OPPORTUNITY_WATCH_CAP'' DEFAULT_WATCH_CAP 1,
     oc_session_max_turns = resolve_int env ''OPPORTUNITY_SESSION_MAX_TURNS'' DEFAULT_SESSION_MAX_TURNS 1,
     oc_session_max_wall_secs = above_zero env ''OPPORTUNITY_SESSION_MAX_WALL_SECS'' DEFAULT_SESSION_MAX_WALL_SECS PInf,
     oc_size_factor_a_plus = above_zero env ''OPPORTUNITY_SIZE_FACTOR_A_PLUS'' (Fin 1) (Fin 1),
     oc_size_factor_b_continuation = above_zero env ''OPPORTUNITY_SIZE_FACTOR_B_CONTINUATION'' (fl (6 / 10)) (Fin 1),
     oc_size_factor_scalp = above_zero env ''OPPORTUNITY_SIZE_FACTOR_SCALP'' (fl (3 / 10)) (Fin 1),
     oc_lower_tiers_enabled = resolve_bool env ''OPPORTUNITY_LOWER_TIERS_ENABLED'' True,
     oc_heartbeat_enabled = resolve_bool env ''OPPORTUNITY_HEARTBEAT_ENABLED'' False,
     oc_heartbeat_cadence_secs = above_zero env ''OPPORTUNITY_HEARTBEAT_CADENCE_SECS'' (Fin 300) PInf,
     oc_heartbeat_max = resolve_int env ''OPPORTUNITY_HEARTBEAT_MAX'' DEFAULT_HEARTBEAT_MAX 0,
     oc_prune_keep_recent_turns = resolve_int env ''OPPORTUNITY_PRUNE_KEEP_RECENT_TURNS'' DEFAULT_PRUNE_KEEP_RECENT_TURNS PRUNE_MIN,
     oc_prune_max_messages = resolve_int env ''OPPORTUNITY_PRUNE_MAX_MESSAGES'' DEFAULT_PRUNE_MAX_MESSAGES PRUNE_MIN\<rparr>"

subsection \<open>The tier ladder\<close>

definition OPPORTUNITY_TIERS :: "string list" where
  "OPPORTUNITY_TIERS = [''a_plus'', ''b_continuation'', ''scalp'', ''stand_aside'']"

definition A_PLUS_MIN_PATTERN_CONF :: pyfloat where "A_PLUS_MIN_PATTERN_CONF = fl (75 / 100)"
definition B_CONTINUATION_MIN_PATTERN_CONF :: pyfloat where "B_CONTINUATION_MIN_PATTERN_CONF = fl (55 / 100)"
definition SCALP_MIN_PATTERN_CONF :: pyfloat where "SCALP_MIN_PATTERN_CONF = fl (40 / 100)"
definition A_PLUS_MIN_ALIGNED :: nat where "A_PLUS_MIN_ALIGNED = 3"
definition B_CONTINUATION_MIN_ALIGNED :: nat where "B_CONTINUATION_MIN_ALIGNED = 2"
definition SCALP_MIN_ALIGNED :: nat where "SCALP_MIN_ALIGNED = 1"

record tier_evaluation =
  te_tier :: string
  te_size_factor :: pyfloat
  te_rationale :: string
  te_gated_by :: "string option"

definition finite_number :: "pyval \<Rightarrow> bool res" where
  "finite_number v = (case v of PInt n \<Rightarrow> math_isfinite v | PFloat f \<Rightarrow> math_isfinite v | _ \<Rightarrow> Inr False)"

definition as_dict :: "pyval \<Rightarrow> pydict" where
  "as_dict v = (case v of PDict d \<Rightarrow> d | _ \<Rightarrow> [])"

text \<open>\<open>float(v)\<close> of a value that is a number.\<close>

definition as_float :: "pyval \<Rightarrow> pyfloat res" where
  "as_float v = rbind (to_num v) to_float"

definition pattern_confidence :: "pydict \<Rightarrow> pyfloat res" where
  "pattern_confidence ev = (let val = dict_get ev ''pattern_confidence'' in
     rbind (finite_number val) (\<lambda>fin. if \<not> fin then Inr (Fin 0)
       else rbind (as_float val) (\<lambda>f. Inr (fmax (Fin 0) (fmin (Fin 1) f)))))"

definition all_finite :: "pyval list \<Rightarrow> bool res" where
  "all_finite vs = foldr (\<lambda>v r. rbind (finite_number v) (\<lambda>fin. if fin then r else Inr False)) vs (Inr True)"

definition opposite_sides :: "pyval \<Rightarrow> pyval \<Rightarrow> pyval \<Rightarrow> bool res" where
  "opposite_sides ent stop target =
     rbind (to_num ent) (\<lambda>e. rbind (to_num stop) (\<lambda>s. rbind (to_num target) (\<lambda>t.
     rbind (num_sub t e) (\<lambda>a. rbind (num_sub e s) (\<lambda>b. rbind (num_mul a b) (\<lambda>p. Inr (num_lt (NF (Fin 0)) p)))))))"

definition has_defensible_triple :: "pydict \<Rightarrow> bool res" where
  "has_defensible_triple ev = (case dict_get ev ''has_defensible_triple'' of PBool b \<Rightarrow> Inr b
     | _ \<Rightarrow> (let e = dict_get ev ''entry''; s = dict_get ev ''stop''; t = dict_get ev ''target'' in
         rbind (all_finite [e, s, t]) (\<lambda>fin. if \<not> fin then Inr False else opposite_sides e s t)))"

fun first_text :: "pydict \<Rightarrow> string list \<Rightarrow> string option" where
  "first_text d [] = None"
| "first_text d (k # ks) = (case dict_get d k of PStr s \<Rightarrow> Some (py_lower (py_strip s)) | _ \<Rightarrow> first_text d ks)"

definition signal_state :: "pyval \<Rightarrow> string list \<Rightarrow> int" where
  "signal_state sub keys = (case sub of PDict d \<Rightarrow>
       if dict_get d ''available'' = PBool False then 0
       else (case first_text d keys of None \<Rightarrow> 0
         | Some raw \<Rightarrow> if raw \<in> {''favorable'', ''aligned''} then 1
             else if raw \<in> {''unfavorable'', ''misaligned''} then - 1 else 0)
     | _ \<Rightarrow> 0)"

definition signal_states :: "pydict \<Rightarrow> (string \<times> int) list" where
  "signal_states ev =
     [(''regime'', signal_state (dict_get ev ''regime'') [''favorability'']),
      (''session'', signal_state (dict_get ev ''session'') [''time_favorability'', ''favorability'']),
      (''relative_strength'', signal_state (dict_get ev ''relative_strength'') [''alignment'']),
      (''forecast'', signal_state (dict_get ev ''forecast'') [''forecast_alignment'', ''alignment'']),
      (''macro'', signal_state (dict_get ev ''macro'') [''alignment'']),
      (''options'', signal_state (dict_get ev ''options'') [''alignment''])]"

definition state_of :: "pydict \<Rightarrow> string \<Rightarrow> int" where
  "state_of ev name = (case map_of (signal_states ev) name of Some s \<Rightarrow> s | None \<Rightarrow> 0)"

definition aligned :: "pydict \<Rightarrow> nat" where
  "aligned ev = length (filter (\<lambda>s. 0 < snd s) (signal_states ev))"

definition misaligned :: "pydict \<Rightarrow> nat" where
  "misaligned ev = length (filter (\<lambda>s. snd s < 0) (signal_states ev))"

definition cfg_factor :: "pyfloat \<Rightarrow> pyfloat" where
  "cfg_factor v = (if isfinite v then v else Fin 0)"

definition size_factor :: "string \<Rightarrow> opportunity_config \<Rightarrow> pyfloat" where
  "size_factor tier cfg =
     (let a_plus = cfg_factor (oc_size_factor_a_plus cfg);
          b_cont = fmin (cfg_factor (oc_size_factor_b_continuation cfg)) a_plus;
          scalp = fmin (cfg_factor (oc_size_factor_scalp cfg)) b_cont
      in if tier = ''a_plus'' then a_plus else if tier = ''b_continuation'' then b_cont
         else if tier = ''scalp'' then scalp else Fin 0)"

text \<open>\<open>f"{x:.2f}"\<close> of a number that is not negative.\<close>

definition two_places :: "pyfloat \<Rightarrow> string" where
  "two_places x = (case x of Fin q \<Rightarrow> (let n = rne (q * 100) in
       int_text (n div 100) @ ''.'' @ int_text (n mod 100 div 10) @ int_text (n mod 10)) | _ \<Rightarrow> [])"

definition stand_aside :: "string \<Rightarrow> string \<Rightarrow> tier_evaluation" where
  "stand_aside rationale gate = \<lparr>te_tier = ''stand_aside'', te_size_factor = Fin 0, te_rationale = rationale,
     te_gated_by = Some gate\<rparr>"

definition take_tier :: "opportunity_config \<Rightarrow> string \<Rightarrow> string \<Rightarrow> tier_evaluation" where
  "take_tier cfg tier rationale = \<lparr>te_tier = tier, te_size_factor = size_factor tier cfg, te_rationale = rationale,
     te_gated_by = None\<rparr>"

text \<open>The texts are ASCII: a dash in them is written as a hyphen. A tier's own bar: a defensible triple, enough pattern confidence and enough aligned signals.\<close>

definition meets :: "bool \<Rightarrow> pyfloat \<Rightarrow> nat \<Rightarrow> pyfloat \<Rightarrow> nat \<Rightarrow> bool" where
  "meets triple conf al min_conf min_aligned \<longleftrightarrow> triple \<and> fle min_conf conf \<and> min_aligned \<le> al"

definition evidence_reason :: "bool \<Rightarrow> pyfloat \<Rightarrow> nat \<Rightarrow> string" where
  "evidence_reason triple conf al =
     (if \<not> triple then ''no defensible entry/stop/target triple is present''
      else if flt conf SCALP_MIN_PATTERN_CONF
        then ''structural pattern confidence '' @ two_places conf @ '' is below the ''
          @ two_places SCALP_MIN_PATTERN_CONF @ '' floor for even a scalp''
      else ''only '' @ int_text (int al) @ '' aligned confluence signal(s) - below the minimum evidence bar for any tradeable tier'')"

definition ladder :: "pydict \<Rightarrow> opportunity_config \<Rightarrow> bool \<Rightarrow> pyfloat \<Rightarrow> tier_evaluation" where
  "ladder ev cfg triple conf =
     (let al = aligned ev;
          b_bar = meets triple conf al B_CONTINUATION_MIN_PATTERN_CONF B_CONTINUATION_MIN_ALIGNED;
          scalp_bar = meets triple conf al SCALP_MIN_PATTERN_CONF SCALP_MIN_ALIGNED
      in if meets triple conf al A_PLUS_MIN_PATTERN_CONF A_PLUS_MIN_ALIGNED \<and> misaligned ev = 0
         then take_tier cfg ''a_plus'' (''A+ setup: defensible entry/stop/target triple, structural pattern confidence ''
           @ two_places conf @ '' >= '' @ two_places A_PLUS_MIN_PATTERN_CONF @ '', '' @ int_text (int al)
           @ '' aligned confluence signals with no misalignment.'')
         else if b_bar \<or> scalp_bar then
           (if \<not> oc_lower_tiers_enabled cfg
            then stand_aside ''Stand aside: a lower-tier setup is present but tiers below A+ are disabled by configuration (A+-only policy).'' ''config''
            else if state_of ev ''regime'' < 0
            then stand_aside ''Stand aside: a lower-tier setup is present but the market regime is unfavorable, so no b_continuation or scalp trade is taken.'' ''regime''
            else if state_of ev ''session'' < 0
            then stand_aside ''Stand aside: a lower-tier setup is present but the session time-favorability is unfavorable, so no b_continuation or scalp trade is taken.'' ''session''
            else if b_bar
            then take_tier cfg ''b_continuation'' (''B/continuation setup: defensible triple, structural pattern confidence ''
              @ two_places conf @ '' >= '' @ two_places B_CONTINUATION_MIN_PATTERN_CONF @ '', '' @ int_text (int al)
              @ '' aligned confluence signals, regime and session not unfavorable.'')
            else take_tier cfg ''scalp'' (''Scalp/micro setup: defensible triple, structural pattern confidence ''
              @ two_places conf @ '' >= '' @ two_places SCALP_MIN_PATTERN_CONF @ '', '' @ int_text (int al)
              @ '' aligned confluence signal(s), regime and session not unfavorable.''))
         else stand_aside (''Stand aside: '' @ evidence_reason triple conf al @ ''.'') ''evidence-bar'')"

definition evaluate_tier :: "pyval \<Rightarrow> opportunity_config \<Rightarrow> tier_evaluation res" where
  "evaluate_tier evidence cfg = (let ev = as_dict evidence in
     rbind (has_defensible_triple ev) (\<lambda>triple. rbind (pattern_confidence ev) (\<lambda>conf.
       Inr (ladder ev cfg triple conf))))"


subsection \<open>Bounds of the hunt\<close>

definition coerce_count :: "pyval \<Rightarrow> int res" where
  "coerce_count value = rbind (finite_number value) (\<lambda>fin. if \<not> fin then Inr 0
     else rbind (case value of PInt n \<Rightarrow> Inr n | PFloat f \<Rightarrow> int_of_float f | _ \<Rightarrow> Inr 0) (\<lambda>n. Inr (if 0 < n then n else 0)))"

definition cfg_int :: "int \<Rightarrow> int \<Rightarrow> int res" where
  "cfg_int value dflt = rbind (finite_number (PInt value)) (\<lambda>fin. Inr (if fin then value else dflt))"

definition cfg_float :: "pyfloat \<Rightarrow> pyfloat \<Rightarrow> pyfloat" where
  "cfg_float value dflt = (if isfinite value then value else dflt)"

definition watch_cap_reached :: "pyval \<Rightarrow> opportunity_config \<Rightarrow> bool res" where
  "watch_cap_reached state cfg = rbind (coerce_count (dict_get (as_dict state) ''watch_cycles'')) (\<lambda>cycles.
     rbind (cfg_int (oc_watch_cap cfg) DEFAULT_WATCH_CAP) (\<lambda>cap. Inr (cap \<le> cycles)))"

definition wall_clock_elapsed :: "pyval \<Rightarrow> opportunity_config \<Rightarrow> pyval \<Rightarrow> bool res" where
  "wall_clock_elapsed started_at cfg now =
     rbind (all_finite [started_at, now]) (\<lambda>fin. if \<not> fin then Inr False
       else rbind (as_float now) (\<lambda>n. rbind (as_float started_at) (\<lambda>s.
         Inr (fle (cfg_float (oc_session_max_wall_secs cfg) DEFAULT_SESSION_MAX_WALL_SECS) (fsub n s)))))"

definition session_budget_exhausted :: "pyval \<Rightarrow> opportunity_config \<Rightarrow> pyval \<Rightarrow> bool res" where
  "session_budget_exhausted state cfg now = (let st = as_dict state in
     rbind (coerce_count (dict_get st ''session_turns'')) (\<lambda>turns.
     rbind (cfg_int (oc_session_max_turns cfg) DEFAULT_SESSION_MAX_TURNS) (\<lambda>max_turns.
       if max_turns \<le> turns then Inr True
       else wall_clock_elapsed (dict_get st ''session_started_at'') cfg now)))"

definition termination_reason :: "pyval \<Rightarrow> opportunity_config \<Rightarrow> pyval \<Rightarrow> string option res" where
  "termination_reason state cfg now =
     rbind (watch_cap_reached state cfg) (\<lambda>cap. if cap then Inr (Some ''watch-cap-reached'')
       else rbind (session_budget_exhausted state cfg now) (\<lambda>spent.
         Inr (if spent then Some ''session-budget-exhausted'' else None)))"

subsection \<open>The thesis of a watch\<close>

definition REARM_LEVEL_ATR_TOLERANCE_MULT :: pyfloat where "REARM_LEVEL_ATR_TOLERANCE_MULT = Fin (1 / 2)"
definition VOL_FLOOR_ATR_MULT :: pyfloat where "VOL_FLOOR_ATR_MULT = Fin 1"

definition normalize_direction :: "pyval \<Rightarrow> string option" where
  "normalize_direction value = (case value of PStr s \<Rightarrow> (let token = py_lower (py_strip s) in
       if token \<in> {''above'', ''up'', ''long'', ''buy''} then Some ''above''
       else if token \<in> {''below'', ''down'', ''short'', ''sell''} then Some ''below'' else None)
     | _ \<Rightarrow> None)"

text \<open>\<open>round(x, 4)\<close>: the decimal with four places closest to the exact value, ties to even, read back.\<close>

definition round4 :: "pyfloat \<Rightarrow> pyfloat" where
  "round4 x = (case x of Fin q \<Rightarrow> fl (of_int (rne (q * 10000)) / 10000) | _ \<Rightarrow> x)"

definition quantize_level :: "pyval \<Rightarrow> pyfloat option res" where
  "quantize_level value = rbind (finite_number value) (\<lambda>fin. if \<not> fin then Inr None
     else rbind (as_float value) (\<lambda>f. Inr (Some (round4 f))))"

record fingerprint =
  fp_symbol :: "string option"
  fp_timeframe :: "string option"
  fp_direction :: "string option"
  fp_level :: "pyfloat option"

definition stripped_text :: "pyval \<Rightarrow> string option" where
  "stripped_text v = (case v of PStr s \<Rightarrow> if py_strip s \<noteq> [] then Some (py_strip s) else None | _ \<Rightarrow> None)"

definition thesis_fingerprint :: "pyval \<Rightarrow> fingerprint res" where
  "thesis_fingerprint watch_args = (let args = as_dict watch_args in
     rbind (quantize_level (if dict_get args ''price_level'' = PNone then dict_get args ''level''
                            else dict_get args ''price_level'')) (\<lambda>level.
       Inr \<lparr>fp_symbol = map_option py_upper (stripped_text (dict_get args ''symbol'')),
            fp_timeframe = map_option py_lower (stripped_text (dict_get args ''timeframe'')),
            fp_direction = normalize_direction (dict_get args ''direction''), fp_level = level\<rparr>))"

text \<open>A fingerprint as the dict that the code stores and passes on.\<close>

definition opt_text :: "string option \<Rightarrow> pyval" where
  "opt_text t = (case t of None \<Rightarrow> PNone | Some s \<Rightarrow> PStr s)"

definition fingerprint_dict :: "fingerprint \<Rightarrow> pyval" where
  "fingerprint_dict fp = PDict [(''symbol'', opt_text (fp_symbol fp)), (''timeframe'', opt_text (fp_timeframe fp)),
     (''direction'', opt_text (fp_direction fp)),
     (''level'', case fp_level fp of None \<Rightarrow> PNone | Some l \<Rightarrow> PFloat l)]"

definition complete :: "fingerprint \<Rightarrow> bool" where
  "complete fp \<longleftrightarrow> fp_symbol fp \<noteq> None \<and> fp_timeframe fp \<noteq> None \<and> fp_direction fp \<noteq> None \<and> fp_level fp \<noteq> None"

text \<open>A usable ATR: a finite number above zero, as a float.\<close>

definition usable_atr :: "pyval \<Rightarrow> pyfloat option res" where
  "usable_atr atr = rbind (finite_number atr) (\<lambda>fin. if \<not> fin then Inr None
     else rbind (as_float atr) (\<lambda>a. Inr (if fle a (Fin 0) then None else Some a)))"

definition is_rearm_unchanged :: "pyval \<Rightarrow> pyval \<Rightarrow> pyval \<Rightarrow> bool res" where
  "is_rearm_unchanged prior proposed atr =
     rbind (thesis_fingerprint prior) (\<lambda>a. rbind (thesis_fingerprint proposed) (\<lambda>b.
       if \<not> complete a \<or> \<not> complete b then Inr False
       else if fp_symbol a \<noteq> fp_symbol b \<or> fp_timeframe a \<noteq> fp_timeframe b \<or> fp_direction a \<noteq> fp_direction b
       then Inr False
       else rbind (usable_atr atr) (\<lambda>u. Inr (case (u, fp_level a, fp_level b) of
           (Some v, Some x, Some y) \<Rightarrow> fle (fabs (fsub x y)) (fmul REARM_LEVEL_ATR_TOLERANCE_MULT v)
         | _ \<Rightarrow> False))))"

definition keep_or_floor :: "pyval \<Rightarrow> (pyfloat \<Rightarrow> bool) \<Rightarrow> pyfloat \<Rightarrow> pyfloat option res" where
  "keep_or_floor proposed_inv far_enough floored =
     rbind (finite_number proposed_inv) (\<lambda>fin. if \<not> fin then Inr (Some floored)
       else rbind (as_float proposed_inv) (\<lambda>p. Inr (Some (if far_enough p then p else floored))))"

definition volatility_floored_invalidation :: "pyval \<Rightarrow> pyval \<Rightarrow> pyval \<Rightarrow> pyval \<Rightarrow> pyfloat option res" where
  "volatility_floored_invalidation direction ref_price proposed_inv atr =
     (case normalize_direction direction of None \<Rightarrow> Inr None
      | Some side \<Rightarrow> rbind (finite_number ref_price) (\<lambda>fin. if \<not> fin then Inr None
        else rbind (usable_atr atr) (\<lambda>u. case u of None \<Rightarrow> Inr None
        | Some a \<Rightarrow> rbind (as_float ref_price) (\<lambda>ref. let floor = fmul VOL_FLOOR_ATR_MULT a in
            if side = ''above''
            then (let floored = fsub ref floor in keep_or_floor proposed_inv (\<lambda>p. fle p floored) floored)
            else (let floored = fadd ref floor in keep_or_floor proposed_inv (\<lambda>p. fle floored p) floored)))))"

subsection \<open>Resuming\<close>

definition FULL_ORDER_OF_OPERATIONS_TOOLS :: "string list" where
  "FULL_ORDER_OF_OPERATIONS_TOOLS = [''get_multi_tf_trend'', ''get_consensus_report'', ''get_market_regime'',
     ''get_relative_strength'', ''get_session_context'', ''get_options_analytics'', ''get_event_risk'',
     ''get_support_resistance'', ''get_volume_profile'', ''get_chart_patterns'', ''get_candles'', ''get_forecast'',
     ''get_prediction'', ''get_news_context'', ''get_trade_performance'']"

definition RESUME_TARGET :: string where "RESUME_TARGET = ''target''"
definition RESUME_INVALIDATION :: string where "RESUME_INVALIDATION = ''invalidation''"
definition RESUME_HEARTBEAT :: string where "RESUME_HEARTBEAT = ''heartbeat''"

definition classify_resume :: "pyval \<Rightarrow> string" where
  "classify_resume trigger_kind = (case trigger_kind of PStr s \<Rightarrow> (let token = py_lower (py_strip s) in
       if token = [] then RESUME_TARGET
       else if token \<in> {''target'', ''targets'', ''target_reached'', ''target-reached'', ''hit'', ''reached''} then RESUME_TARGET
       else if token \<in> {''invalidation'', ''invalidated'', ''invalid'', ''stop'', ''stopped'', ''stop_out'', ''stop-out''}
         then RESUME_INVALIDATION
       else if token \<in> {''heartbeat'', ''heart_beat'', ''heart-beat'', ''hb'', ''tick'', ''pulse''} then RESUME_HEARTBEAT
       else RESUME_TARGET)
     | _ \<Rightarrow> RESUME_TARGET)"

definition delta_recheck_plans :: "string \<Rightarrow> string list" where
  "delta_recheck_plans kind =
     (if kind = RESUME_INVALIDATION \<or> kind = RESUME_HEARTBEAT
      then [''get_candles'', ''get_consensus_report'', ''get_market_regime'', ''get_support_resistance'']
      else [''get_candles'', ''get_consensus_report'', ''get_event_risk'', ''get_support_resistance'',
            ''get_chart_patterns'', ''get_forecast''])"

fun insert_before :: "string \<Rightarrow> string \<Rightarrow> string list \<Rightarrow> string list" where
  "insert_before x y [] = [x]"
| "insert_before x y (z # zs) = (if z = y then x # z # zs else z # insert_before x y zs)"

definition delta_recheck_plan :: "pyval \<Rightarrow> pyval \<Rightarrow> string list" where
  "delta_recheck_plan trigger_kind symbol_class =
     (let kind = classify_resume trigger_kind; plan = delta_recheck_plans kind;
          index = (case symbol_class of PStr s \<Rightarrow> py_lower (py_strip s) = ''index'' | _ \<Rightarrow> False)
      in if (kind = RESUME_TARGET \<or> kind = RESUME_HEARTBEAT) \<and> index \<and> ''get_options_analytics'' \<notin> set plan
         then insert_before ''get_options_analytics'' ''get_event_risk'' plan else plan)"

record heartbeat_accounting =
  ha_accepted :: bool
  ha_heartbeat_count :: int
  ha_session_turns :: int

definition account_heartbeat :: "pyval \<Rightarrow> opportunity_config \<Rightarrow> heartbeat_accounting res" where
  "account_heartbeat state cfg = (let st = as_dict state in
     rbind (coerce_count (dict_get st ''heartbeat_count'')) (\<lambda>prior_hb.
     rbind (coerce_count (dict_get st ''session_turns'')) (\<lambda>prior_turns.
     rbind (cfg_int (oc_heartbeat_max cfg) DEFAULT_HEARTBEAT_MAX) (\<lambda>m. let hb_max = max 0 m in
       Inr (if hb_max \<le> prior_hb
         then \<lparr>ha_accepted = False, ha_heartbeat_count = min prior_hb hb_max, ha_session_turns = prior_turns\<rparr>
         else \<lparr>ha_accepted = True, ha_heartbeat_count = prior_hb + 1, ha_session_turns = prior_turns + 1\<rparr>)))))"

subsection \<open>Pruning the history\<close>

text \<open>
  What the code reads of a message: its role, its tool calls, raw ones in its extra arguments, the
  name and the call that a tool result answers, its text, and the two dictionaries that the agent
  attaches to its own messages: the status of every call and the feedback for those that failed,
  by the identifier of the call.
\<close>

record tool_call =
  tc_name :: string
  tc_args :: pydict
  tc_id :: string

record chat_message =
  cm_type :: "string option"
  cm_calls :: "tool_call list"
  cm_raw_calls :: bool
  cm_name :: "string option"
  cm_content :: "string option"
  cm_answers :: "string option"
  cm_statuses :: "(string \<times> string) list"
  cm_synthetic :: "(string \<times> string) list"

definition ai_has_tool_calls :: "chat_message \<Rightarrow> bool" where
  "ai_has_tool_calls m \<longleftrightarrow> cm_calls m \<noteq> [] \<or> cm_raw_calls m"

definition msg_tool_name :: "chat_message \<Rightarrow> string option" where
  "msg_tool_name m = (case cm_name m of Some n \<Rightarrow> if py_strip n \<noteq> [] then Some n else None | None \<Rightarrow> None)"

text \<open>The groups are built from the last one on: \<open>groups\<close> is held in reverse, each group in order.\<close>

definition attach_message :: "chat_message \<Rightarrow> chat_message list list \<Rightarrow> chat_message list list" where
  "attach_message m groups = (case groups of
     (h # hs) # gs \<Rightarrow> if cm_type m = Some ''tool'' \<and> cm_type h = Some ''ai'' \<and> ai_has_tool_calls h
       then ((h # hs) @ [m]) # gs else [m] # groups
   | _ \<Rightarrow> [m] # groups)"

definition group_messages :: "chat_message list \<Rightarrow> chat_message list list" where
  "group_messages msgs = rev (fold attach_message msgs [])"

definition head_type :: "chat_message list \<Rightarrow> string option" where
  "head_type g = (case g of [] \<Rightarrow> None | m # _ \<Rightarrow> cm_type m)"

definition flat_len :: "chat_message list list \<Rightarrow> nat list \<Rightarrow> nat" where
  "flat_len groups sel = sum_list (map (\<lambda>i. length (groups ! i)) sel)"

definition tool_names :: "chat_message list \<Rightarrow> string list" where
  "tool_names g = List.map_filter (\<lambda>m. if cm_type m = Some ''tool'' then msg_tool_name m else None) g"

text \<open>The last group that answers for some tool, for every tool.\<close>

definition latest_tool_groups :: "chat_message list list \<Rightarrow> nat set" where
  "latest_tool_groups groups = {i \<in> {..<length groups}. list_ex (\<lambda>name.
     list_all (\<lambda>j. name \<notin> set (tool_names (groups ! j))) [i + 1..<length groups]) (tool_names (groups ! i))}"

definition keep_set :: "chat_message list list \<Rightarrow> nat \<Rightarrow> nat list" where
  "keep_set groups keep_recent = filter (\<lambda>i. head_type (groups ! i) = Some ''system''
     \<or> i \<in> latest_tool_groups groups \<or> length groups - keep_recent \<le> i) [0..<length groups]"

text \<open>One pass of dropping from the front what is not protected, until the rest fits.\<close>

fun drop_oldest :: "(nat \<Rightarrow> bool) \<Rightarrow> (nat list \<Rightarrow> nat) \<Rightarrow> nat \<Rightarrow> nat list \<Rightarrow> nat list \<Rightarrow> nat list" where
  "drop_oldest protected weight limit kept [] = kept"
| "drop_oldest protected weight limit kept (i # sel) =
     (if weight (kept @ i # sel) \<le> limit then kept @ i # sel
      else if protected i then drop_oldest protected weight limit (kept @ [i]) sel
      else drop_oldest protected weight limit kept sel)"

definition prune_selection :: "chat_message list list \<Rightarrow> nat \<Rightarrow> nat \<Rightarrow> nat list" where
  "prune_selection groups limit keep_recent =
     (let selected = keep_set groups keep_recent;
          sys = (\<lambda>i. head_type (groups ! i) = Some ''system'');
          mandatory = (\<lambda>i. sys i \<or> length groups - keep_recent \<le> i);
          s1 = drop_oldest mandatory (flat_len groups) limit [] selected
      in drop_oldest sys (flat_len groups) limit [] s1)"

definition usable_bound :: "int \<Rightarrow> int \<Rightarrow> nat res" where
  "usable_bound value dflt = rbind (cfg_int value dflt) (\<lambda>v. Inr (nat (if v < PRUNE_MIN then dflt else v)))"

definition prune_messages :: "chat_message list \<Rightarrow> opportunity_config \<Rightarrow> chat_message list res" where
  "prune_messages msgs cfg =
     rbind (usable_bound (oc_prune_max_messages cfg) DEFAULT_PRUNE_MAX_MESSAGES) (\<lambda>limit.
     rbind (usable_bound (oc_prune_keep_recent_turns cfg) DEFAULT_PRUNE_KEEP_RECENT_TURNS) (\<lambda>keep_recent.
       Inr (if length msgs \<le> limit then msgs
         else let groups = group_messages msgs;
                  result = concat (map ((!) groups) (prune_selection groups limit keep_recent))
              in if limit < length result then drop (length result - limit) result else result)))"

subsection \<open>The interim read\<close>

definition level_entries :: "pydict \<Rightarrow> (string \<times> pyval) list \<Rightarrow> pydict res" where
  "level_entries acc kvs = rfold (\<lambda>acc (k, v). rbind (finite_number v) (\<lambda>fin. if \<not> fin then Inr acc
     else rbind (as_float v) (\<lambda>f. Inr (acc @ [(k, PFloat f)])))) acc kvs"

definition triple_direction :: "pyval \<Rightarrow> pyval \<Rightarrow> int res" where
  "triple_direction ent target = rbind (all_finite [ent, target]) (\<lambda>fin. if \<not> fin then Inr 0
     else rbind (as_float target) (\<lambda>t. rbind (as_float ent) (\<lambda>e.
       Inr (if flt e t then 1 else if flt t e then - 1 else 0))))"

definition read_levels :: "pydict \<Rightarrow> pydict res" where
  "read_levels ev = rbind (case dict_get ev ''reference_levels'' of PDict d \<Rightarrow> level_entries [] d | _ \<Rightarrow> Inr []) (\<lambda>levels.
     if levels = [] \<and> (has_key ev ''levels_structural'' \<longrightarrow> py_truthy (dict_get ev ''levels_structural''))
     then level_entries [] (map (\<lambda>k. (k, dict_get ev k)) [''entry'', ''stop'', ''target'']) else Inr levels)"

definition why_standing_aside :: "tier_evaluation option \<Rightarrow> string" where
  "why_standing_aside te = (case te of
     None \<Rightarrow> ''No committed trade; interim read derived from current evidence only.''
   | Some t \<Rightarrow> if py_strip (te_rationale t) \<noteq> [] then py_strip (te_rationale t)
       else if py_strip (te_tier t) \<noteq> [] then ''Current best available tier: '' @ py_strip (te_tier t) @ ''.''
       else ''No committed trade; interim read derived from current evidence only.'')"

definition best_current_read :: "pyval \<Rightarrow> tier_evaluation option \<Rightarrow> pydict res" where
  "best_current_read evidence te = (let ev = as_dict evidence; net = sum_list (map snd (signal_states ev)) in
     rbind (triple_direction (dict_get ev ''entry'') (dict_get ev ''target'')) (\<lambda>dir.
     rbind (read_levels ev) (\<lambda>levels. let score = net + dir in
       Inr [(''bias'', PStr (if 0 < score then ''bullish'' else if score < 0 then ''bearish'' else ''neutral'')),
            (''levels'', PDict levels), (''why_standing_aside'', PStr (why_standing_aside te))])))"

definition tier_tag :: "pyval \<Rightarrow> string" where
  "tier_tag decision = (case dict_get (as_dict decision) ''opportunity_tier'' of
     PStr s \<Rightarrow> (let token = py_lower (py_strip s) in
       if token \<in> {''a_plus'', ''b_continuation'', ''scalp'', ''stand_aside''} then token else ''unknown'')
   | _ \<Rightarrow> ''unknown'')"

end
