(* ===== verification/OpportunityFacts.thy ===== *)
theory OpportunityFacts
  imports Opportunity "HOL-Library.Sublist"
begin

text \<open>
  What the hunt's pure core guarantees: the ladder never takes a tier that its gates forbid, pruning
  bounds the history and keeps whole turns, heartbeats and invalidations are bounded, and a re-arm
  is compared symmetrically.
\<close>

subsection \<open>The ladder\<close>

lemma fmin_Fin: "fmin (Fin a) (Fin b) = Fin (min a b)"
  by (auto simp: fmin_def)

definition factor_ok :: "pyfloat \<Rightarrow> bool" where
  "factor_ok v \<longleftrightarrow> (\<exists>q. v = Fin q \<and> 0 < q \<and> q \<le> 1)"

definition factors_ok :: "opportunity_config \<Rightarrow> bool" where
  "factors_ok cfg \<longleftrightarrow> factor_ok (oc_size_factor_a_plus cfg) \<and> factor_ok (oc_size_factor_b_continuation cfg)
     \<and> factor_ok (oc_size_factor_scalp cfg)"

lemma above_zero_ok: "factor_ok d \<Longrightarrow> factor_ok (above_zero env name d (Fin 1))"
  by (cases rule: regime_float.resolve_cases [of env name d "Fin 0" "Fin 1"]; cases "resolve_float env name d (Fin 0) (Fin 1)")
    (auto simp: above_zero_def Let_def factor_ok_def fle_def)

lemma fl_unit: "1 / 4 \<le> a \<Longrightarrow> a \<le> 1 \<Longrightarrow> factor_ok (fl a)"
proof -
  assume a: "1 / 4 \<le> a" "a \<le> 1"
  have "fl (1 / 4) = Fin (1 / 4)" by code_simp
  then show ?thesis
    using fl_mono [OF a(1)] fl_mono [OF a(2)] by (cases "fl a") (auto simp: factor_ok_def fle_def)
qed

lemma resolved_factors: "factors_ok (resolve_opportunity_config env)"
proof -
  have "factor_ok (fl (6 / 10)) \<and> factor_ok (fl (3 / 10)) \<and> factor_ok (Fin 1)"
    by (intro conjI fl_unit) (simp_all add: factor_ok_def)
  then show ?thesis by (simp add: factors_ok_def resolve_opportunity_config_def above_zero_ok)
qed

lemma size_ladder:
  assumes "factors_ok cfg"
  shows "\<exists>a b c. size_factor ''a_plus'' cfg = Fin a \<and> size_factor ''b_continuation'' cfg = Fin b
    \<and> size_factor ''scalp'' cfg = Fin c \<and> 0 < c \<and> c \<le> b \<and> b \<le> a \<and> a \<le> 1"
  using assms by (auto simp: factors_ok_def factor_ok_def size_factor_def cfg_factor_def Let_def fmin_Fin)

lemma tier_fields [simp]:
  "te_tier (take_tier cfg t r) = t" "te_gated_by (take_tier cfg t r) = None"
  "te_size_factor (take_tier cfg t r) = size_factor t cfg" "te_rationale (take_tier cfg t r) = r"
  "te_tier (stand_aside r g) = ''stand_aside''" "te_gated_by (stand_aside r g) = Some g"
  "te_size_factor (stand_aside r g) = Fin 0" "te_rationale (stand_aside r g) = r"
  by (simp_all add: take_tier_def stand_aside_def)

definition lower_tiers_open :: "pydict \<Rightarrow> opportunity_config \<Rightarrow> bool" where
  "lower_tiers_open ev cfg \<longleftrightarrow> oc_lower_tiers_enabled cfg \<and> 0 \<le> state_of ev ''regime'' \<and> 0 \<le> state_of ev ''session''"

text \<open>Each tier on its own bar.\<close>

definition chosen :: "pydict \<Rightarrow> opportunity_config \<Rightarrow> bool \<Rightarrow> pyfloat \<Rightarrow> tier_evaluation \<Rightarrow> bool" where
  "chosen ev cfg triple conf te \<longleftrightarrow>
     (te_tier te = ''a_plus'' \<and> meets triple conf (aligned ev) A_PLUS_MIN_PATTERN_CONF A_PLUS_MIN_ALIGNED
        \<and> misaligned ev = 0)
     \<or> (te_tier te = ''b_continuation'' \<and> lower_tiers_open ev cfg
        \<and> meets triple conf (aligned ev) B_CONTINUATION_MIN_PATTERN_CONF B_CONTINUATION_MIN_ALIGNED)
     \<or> (te_tier te = ''scalp'' \<and> lower_tiers_open ev cfg
        \<and> meets triple conf (aligned ev) SCALP_MIN_PATTERN_CONF SCALP_MIN_ALIGNED)"

lemma ladder_sound:
  "(chosen ev cfg triple conf (ladder ev cfg triple conf) \<and> te_gated_by (ladder ev cfg triple conf) = None
      \<and> te_size_factor (ladder ev cfg triple conf) = size_factor (te_tier (ladder ev cfg triple conf)) cfg)
   \<or> (te_tier (ladder ev cfg triple conf) = ''stand_aside'' \<and> te_size_factor (ladder ev cfg triple conf) = Fin 0
      \<and> te_gated_by (ladder ev cfg triple conf) \<in> Some ` {''config'', ''regime'', ''session'', ''evidence-bar''})"
  unfolding ladder_def Let_def chosen_def lower_tiers_open_def
  by (cases "meets triple conf (aligned ev) A_PLUS_MIN_PATTERN_CONF A_PLUS_MIN_ALIGNED \<and> misaligned ev = 0";
      cases "meets triple conf (aligned ev) B_CONTINUATION_MIN_PATTERN_CONF B_CONTINUATION_MIN_ALIGNED";
      cases "meets triple conf (aligned ev) SCALP_MIN_PATTERN_CONF SCALP_MIN_ALIGNED";
      cases "oc_lower_tiers_enabled cfg"; cases "state_of ev ''regime'' < 0"; cases "state_of ev ''session'' < 0")
    (simp_all add: not_less)

lemma ladder_rationale: "te_rationale (ladder ev cfg triple conf) \<noteq> []"
  unfolding ladder_def Let_def by (simp split: if_split)


text \<open>C32: The ladder never overtrades: whatever the evidence, with a configuration read from any environment a tier
  is taken only on a defensible triple and on its own bar of pattern confidence and aligned signals, a tier below A+ only
  when the lower tiers are enabled and neither regime nor session is unfavorable, A+ only without a contrary signal, each
  with its factor, between zero and one and no larger than that of the tier above; otherwise it
  stands aside with size zero and a stated gate, and there is always a rationale.\<close>

theorem tier_never_overtrades:
  assumes "cfg = resolve_opportunity_config env" and "evaluate_tier evidence cfg = Inr te"
  shows "te_rationale te \<noteq> []
    \<and> ((te_tier te = ''stand_aside'' \<and> te_size_factor te = Fin 0 \<and> te_gated_by te \<noteq> None)
       \<or> (has_defensible_triple (as_dict evidence) = Inr True
          \<and> (\<exists>conf. pattern_confidence (as_dict evidence) = Inr conf \<and> chosen (as_dict evidence) cfg True conf te)
          \<and> te_size_factor te = size_factor (te_tier te) cfg \<and> te_gated_by te = None))
    \<and> (\<exists>a b c. size_factor ''a_plus'' cfg = Fin a \<and> size_factor ''b_continuation'' cfg = Fin b
        \<and> size_factor ''scalp'' cfg = Fin c \<and> 0 < c \<and> c \<le> b \<and> b \<le> a \<and> a \<le> 1)"
proof -
  let ?ev = "as_dict evidence"
  obtain triple conf where t: "has_defensible_triple ?ev = Inr triple" "pattern_confidence ?ev = Inr conf"
    "te = ladder ?ev cfg triple conf"
    using assms(2) by (auto simp: evaluate_tier_def Let_def rbind_eq_Inr)
  have "chosen ?ev cfg triple conf te \<Longrightarrow> triple"
    by (auto simp: chosen_def meets_def)
  then have "(te_tier te = ''stand_aside'' \<and> te_size_factor te = Fin 0 \<and> te_gated_by te \<noteq> None)
     \<or> (triple \<and> chosen ?ev cfg True conf te \<and> te_size_factor te = size_factor (te_tier te) cfg \<and> te_gated_by te = None)"
    using ladder_sound [of ?ev cfg triple conf, folded t(3)] by (cases triple) auto
  then show ?thesis
    using t(1,2) ladder_rationale [of ?ev cfg triple conf, folded t(3)] size_ladder [OF resolved_factors [of env]] assms(1)
    by auto
qed

subsection \<open>Pruning\<close>

lemma concat_groups_fold:
  "[] \<notin> set gs \<Longrightarrow> concat (rev (fold attach_message msgs gs)) = concat (rev gs) @ msgs \<and> [] \<notin> set (fold attach_message msgs gs)"
proof (induction msgs arbitrary: gs)
  case (Cons m msgs)
  have "concat (rev (attach_message m gs)) = concat (rev gs) @ [m] \<and> [] \<notin> set (attach_message m gs)"
    using Cons.prems by (auto simp: attach_message_def split: list.split)
  then show ?case using Cons.IH [of "attach_message m gs"] by simp
qed simp

lemma concat_groups: "concat (group_messages msgs) = msgs" "[] \<notin> set (group_messages msgs)"
  using concat_groups_fold [of "[]" msgs] by (simp_all add: group_messages_def)

text \<open>A message that is not a tool result starts a group; a tool result follows its call.\<close>

definition well_grouped :: "chat_message list \<Rightarrow> bool" where
  "well_grouped g \<longleftrightarrow> (case g of [] \<Rightarrow> False | m # ms \<Rightarrow> (\<forall>x \<in> set ms. cm_type x = Some ''tool'')
     \<and> (ms = [] \<or> (cm_type m = Some ''ai'' \<and> ai_has_tool_calls m)))"

lemma well_grouped_attach: "list_all well_grouped gs \<Longrightarrow> list_all well_grouped (attach_message m gs)"
  by (auto simp: attach_message_def well_grouped_def split: list.splits)

lemma well_grouped_groups: "list_all well_grouped (group_messages msgs)"
proof -
  have "list_all well_grouped (fold attach_message msgs gs)" if "list_all well_grouped gs" for gs
    using that well_grouped_attach by (rule fold_invariant_list)
  then show ?thesis by (simp add: group_messages_def)
qed

lemma subseq_concat: "subseq gs hs \<Longrightarrow> subseq (concat gs) (concat hs)"
  by (induction rule: list_emb.induct) (auto intro: list_emb_append_mono)

lemma subseq_elems: "subseq xs ys \<Longrightarrow> set xs \<subseteq> set ys"
  by (induction rule: list_emb.induct) auto

lemma drop_oldest_subseq: "subseq (drop_oldest protected weight limit kept sel) (kept @ sel)"
proof (induction protected weight limit kept sel rule: drop_oldest.induct)
  case (2 protected weight limit kept i sel)
  have "subseq (kept @ sel) (kept @ i # sel)" by (intro list_emb_append_mono) auto
  then show ?case using 2 by (auto intro: subseq_order.order_trans)
qed simp

lemma drop_oldest_fits:
  "list_all protected kept \<Longrightarrow> weight (drop_oldest protected weight limit kept sel) \<le> limit
     \<or> list_all protected (drop_oldest protected weight limit kept sel)"
  by (induction protected weight limit kept sel rule: drop_oldest.induct) auto

lemma drop_oldest_keeps:
  "(\<And>i. q i \<Longrightarrow> protected i) \<Longrightarrow> filter q (drop_oldest protected weight limit kept sel) = filter q (kept @ sel)"
  by (induction protected weight limit kept sel rule: drop_oldest.induct) auto

lemma keep_set_subseq: "subseq (keep_set groups k) [0..<length groups]"
  by (simp add: keep_set_def subseq_filter_left)

lemma prune_selection_subseq: "subseq (prune_selection groups limit k) [0..<length groups]"
proof -
  have "subseq (drop_oldest p w limit [] sel) sel" for p w and sel :: "nat list"
    using drop_oldest_subseq [of p w limit "[]" sel] by simp
  then show ?thesis
    unfolding prune_selection_def Let_def by (meson keep_set_subseq subseq_order.order_trans)
qed

definition is_system :: "chat_message \<Rightarrow> bool" where
  "is_system m \<longleftrightarrow> cm_type m = Some ''system''"

abbreviation system_group :: "chat_message list list \<Rightarrow> nat \<Rightarrow> bool" where
  "system_group groups i \<equiv> head_type (groups ! i) = Some ''system''"

lemma selection_systems:
  "filter (system_group groups) (prune_selection groups limit k) = filter (system_group groups) [0..<length groups]"
proof -
  have "filter (system_group groups) (keep_set groups k) = filter (system_group groups) [0..<length groups]"
    unfolding keep_set_def filter_filter by (rule filter_cong) auto
  then show ?thesis
    unfolding prune_selection_def Let_def by (simp add: drop_oldest_keeps)
qed

lemma group_systems:
  "well_grouped g \<Longrightarrow> filter is_system g = (if head_type g = Some ''system'' then g else [])"
  by (cases g) (auto simp: well_grouped_def is_system_def head_type_def filter_empty_conv)

lemma systems_of_selection:
  assumes "list_all well_grouped groups" and "set sel \<subseteq> {..<length groups}"
  shows "filter is_system (concat (map ((!) groups) sel)) = concat (map ((!) groups) (filter (system_group groups) sel))"
  using assms(2)
proof (induction sel)
  case (Cons i sel)
  then have "well_grouped (groups ! i)" using assms(1) by (auto simp: list_all_length)
  then show ?case using Cons by (simp add: group_systems)
qed simp


lemma system_group_length: "well_grouped g \<Longrightarrow> head_type g = Some ''system'' \<Longrightarrow> length g = 1"
  by (cases g) (auto simp: well_grouped_def head_type_def)

lemma selection_length: "length (concat (map ((!) groups) sel)) = flat_len groups sel"
  by (simp add: flat_len_def length_concat comp_def)

lemma subseq_drop: "subseq xs ys \<Longrightarrow> subseq (drop n xs) ys"
  by (rule subseq_order.order_trans [OF suffix_imp_subseq [OF suffix_drop]])

lemma all_systems: "list_all well_grouped groups \<Longrightarrow>
    filter is_system (concat groups) = concat (map ((!) groups) (filter (system_group groups) [0..<length groups]))"
  using systems_of_selection [of groups "[0..<length groups]"] by (simp add: map_nth atLeast0LessThan)

lemma selection_fits:
  assumes "list_all well_grouped groups" and "length (filter is_system (concat groups)) \<le> limit"
  shows "flat_len groups (prune_selection groups limit k) \<le> limit"
proof (cases "list_all (system_group groups) (prune_selection groups limit k)")
  case True
  let ?sel = "prune_selection groups limit k"
  have sub: "set ?sel \<subseteq> {..<length groups}" using prune_selection_subseq [of groups limit k] by (auto dest!: subseq_elems)
  have "length (concat (map ((!) groups) ?sel)) = length (filter is_system (concat (map ((!) groups) ?sel)))"
    using True by (simp add: systems_of_selection [OF assms(1) sub] list_all_iff)
  also have "\<dots> = length (filter is_system (concat groups))"
    by (simp only: systems_of_selection [OF assms(1) sub] selection_systems all_systems [OF assms(1)])
  finally show ?thesis using assms(2) by (simp add: selection_length)
next
  case False
  then show ?thesis
    using drop_oldest_fits [of "system_group groups" "[]" "flat_len groups" limit] unfolding prune_selection_def Let_def by auto
qed

definition prune_limit :: "opportunity_config \<Rightarrow> nat res" where
  "prune_limit cfg = usable_bound (oc_prune_max_messages cfg) DEFAULT_PRUNE_MAX_MESSAGES"

text \<open>Pruning bounds the history without tearing it: the result fits the ceiling and is a subsequence of
  the history; when the system messages fit, all of them are kept and the rest is cut at whole turns,
  so no tool result is kept without its call and no call without its results.\<close>

theorem pruning_keeps_turns_whole:
  assumes "prune_messages msgs cfg = Inr out" and "prune_limit cfg = Inr limit"
  shows "length out \<le> limit \<and> subseq out msgs
    \<and> (length (filter is_system msgs) \<le> limit \<longrightarrow> filter is_system out = filter is_system msgs
       \<and> (\<exists>turns. subseq turns (group_messages msgs) \<and> out = concat turns \<and> list_all well_grouped turns))"
proof -
  let ?groups = "group_messages msgs"
  obtain keep where keep: "usable_bound (oc_prune_keep_recent_turns cfg) DEFAULT_PRUNE_KEEP_RECENT_TURNS = Inr keep"
    using assms by (auto simp: prune_messages_def rbind_eq_Inr)
  let ?sel = "prune_selection ?groups limit keep"
  let ?res = "concat (map ((!) ?groups) ?sel)"
  have out: "out = (if length msgs \<le> limit then msgs
      else if limit < length ?res then drop (length ?res - limit) ?res else ?res)"
    using assms keep
    by (cases "length msgs \<le> limit"; cases "limit < length ?res") (simp_all add: prune_messages_def prune_limit_def Let_def)
  have sel: "subseq (map ((!) ?groups) ?sel) ?groups"
    using subseq_map [OF prune_selection_subseq [of ?groups limit keep], of "(!) ?groups"] by (simp add: map_nth)
  then have res: "subseq ?res msgs" using subseq_concat concat_groups(1) by metis
  have "subseq out msgs"
    unfolding out using res by (simp add: subseq_drop)
  moreover have "length out \<le> limit" unfolding out by auto
  moreover have "filter is_system out = filter is_system msgs
      \<and> (\<exists>turns. subseq turns ?groups \<and> out = concat turns \<and> list_all well_grouped turns)"
    if few: "length (filter is_system msgs) \<le> limit"
  proof (cases "length msgs \<le> limit")
    case True
    then show ?thesis
      using well_grouped_groups by (auto simp: out concat_groups intro!: exI [of _ ?groups])
  next
    case False
    have "flat_len ?groups ?sel \<le> limit"
      by (rule selection_fits [OF well_grouped_groups]) (simp add: concat_groups few)
    then have o: "out = ?res" using False by (simp add: out selection_length [symmetric])
    have sub: "set ?sel \<subseteq> {..<length ?groups}"
      using prune_selection_subseq [of ?groups limit keep] by (auto dest!: subseq_elems)
    have "filter is_system ?res = filter is_system msgs"
      using all_systems [OF well_grouped_groups [of msgs]]
      by (simp add: systems_of_selection [OF well_grouped_groups sub] selection_systems concat_groups)
    moreover have "list_all well_grouped (map ((!) ?groups) ?sel)"
      using well_grouped_groups [of msgs] sub by (auto simp: list_all_iff)
    ultimately show ?thesis using sel unfolding o by blast
  qed
  ultimately show ?thesis by blast
qed

text \<open>Pruning can drop the turn it is asked to keep: when the latest turn, an assistant call with its
  results, is larger than the ceiling, nothing but the system message is sent, not even the user's
  question, although the recent turns are documented as always retained.\<close>

theorem pruning_loses_large_turn:
  assumes "prune_limit cfg = Inr limit" and "0 < limit"
    and "usable_bound (oc_prune_keep_recent_turns cfg) DEFAULT_PRUNE_KEEP_RECENT_TURNS = Inr keep" and "0 < keep"
    and "cm_type s = Some ''system''" "cm_type h = Some ''human''" "cm_type a = Some ''ai''" "ai_has_tool_calls a"
    and "\<forall>t \<in> set ts. cm_type t = Some ''tool''" and "limit \<le> length ts"
  shows "prune_messages ([s, h, a] @ ts) cfg = Inr [s]"
proof -
  have tools: "fold attach_message ts ((a # us) # gs) = (a # us @ ts) # gs" for us gs
    using assms(7-9) by (induction ts arbitrary: us) (simp_all add: attach_message_def)
  have groups: "group_messages ([s, h, a] @ ts) = [[s], [h], a # ts]"
    using assms(5-7) tools [of "[]"] by (simp add: group_messages_def attach_message_def)
  let ?groups = "[[s], [h], a # ts]"
  have upt: "[0..<3] = [0, 1, 2 :: nat]" by (simp add: upt_rec)
  have keep: "keep_set ?groups keep = 0 # (if 2 \<le> keep then [1, 2] else [2])"
    using assms(4-7) by (auto simp: keep_set_def upt head_type_def latest_tool_groups_def tool_names_def map_filter_simps)
  have len: "limit < flat_len ?groups [0, 1, 2]" "limit < flat_len ?groups [0, 2]"
    using assms(2,10) by (simp_all add: flat_len_def)
  have fits: "flat_len ?groups [0] \<le> limit" using assms(2) by (simp add: flat_len_def)
  have "prune_selection ?groups limit keep = [0]"
    unfolding prune_selection_def Let_def keep
    using len fits assms(5-7) by (auto simp: head_type_def)
  then show ?thesis
    using assms(1-3,10) unfolding prune_messages_def groups prune_limit_def by (simp add: Let_def)
qed


definition demo_evidence :: pyval where
  "demo_evidence = PDict [(''entry'', PInt 100), (''stop'', PInt 98), (''target'', PInt 104), (''pattern_confidence'', PFloat (Fin (3 / 4))),
     (''regime'', PDict [(''favorability'', PStr ''favorable'')]), (''session'', PDict [(''favorability'', PStr ''favorable'')])]"

lemma demo_tier:
  "evaluate_tier demo_evidence (resolve_opportunity_config (\<lambda>_. None)) =
     Inr (ladder (as_dict demo_evidence) (resolve_opportunity_config (\<lambda>_. None)) True (Fin (3 / 4)))"
  "te_tier (ladder (as_dict demo_evidence) (resolve_opportunity_config (\<lambda>_. None)) True (Fin (3 / 4))) = ''b_continuation''"
proof -
  have "has_defensible_triple (as_dict demo_evidence) = Inr True" by code_simp
  moreover have "pattern_confidence (as_dict demo_evidence) = Inr (Fin (3 / 4))" by code_simp
  ultimately show "evaluate_tier demo_evidence (resolve_opportunity_config (\<lambda>_. None)) =
     Inr (ladder (as_dict demo_evidence) (resolve_opportunity_config (\<lambda>_. None)) True (Fin (3 / 4)))"
    by (simp add: evaluate_tier_def)
  show "te_tier (ladder (as_dict demo_evidence) (resolve_opportunity_config (\<lambda>_. None)) True (Fin (3 / 4))) = ''b_continuation''"
    by code_simp
qed

theorem tier_never_overtrades_witness:
  "\<exists>te. evaluate_tier demo_evidence (resolve_opportunity_config (\<lambda>_. None)) = Inr te \<and> te_tier te = ''b_continuation''
     \<and> te_gated_by te = None \<and> te_size_factor te = size_factor ''b_continuation'' (resolve_opportunity_config (\<lambda>_. None))"
proof -
  let ?te = "ladder (as_dict demo_evidence) (resolve_opportunity_config (\<lambda>_. None)) True (Fin (3 / 4))"
  have "te_tier ?te \<noteq> ''stand_aside''" by (simp add: demo_tier(2))
  then show ?thesis
    using tier_never_overtrades [OF refl demo_tier(1)] demo_tier by auto
qed

subsection \<open>A turn too large\<close>

definition demo_message :: "string \<Rightarrow> tool_call list \<Rightarrow> chat_message" where
  "demo_message role calls = \<lparr>cm_type = Some role, cm_calls = calls, cm_raw_calls = False, cm_name = None,
     cm_content = None, cm_answers = None, cm_statuses = [], cm_synthetic = []\<rparr>"

definition demo_history :: "chat_message list" where
  "demo_history = [demo_message ''system'' [], demo_message ''human'' [],
     demo_message ''ai'' [\<lparr>tc_name = ''get_candles'', tc_args = [], tc_id = ''1''\<rparr>]]
     @ [demo_message ''tool'' [], demo_message ''tool'' []]"

definition demo_opportunity_config :: opportunity_config where
  "demo_opportunity_config = resolve_opportunity_config (\<lambda>_. None) \<lparr>oc_prune_max_messages := 2, oc_prune_keep_recent_turns := 1\<rparr>"

lemma demo_bounds:
  "prune_limit demo_opportunity_config = Inr 2"
  "usable_bound (oc_prune_keep_recent_turns demo_opportunity_config) DEFAULT_PRUNE_KEEP_RECENT_TURNS = Inr 1"
proof -
  have 1: "oc_prune_max_messages demo_opportunity_config = 2" "oc_prune_keep_recent_turns demo_opportunity_config = 1"
    by (simp_all add: demo_opportunity_config_def)
  have "usable_bound 2 DEFAULT_PRUNE_MAX_MESSAGES = Inr 2" by code_simp
  then show "prune_limit demo_opportunity_config = Inr 2" by (simp add: prune_limit_def 1)
  have "usable_bound 1 DEFAULT_PRUNE_KEEP_RECENT_TURNS = Inr 1" by code_simp
  then show "usable_bound (oc_prune_keep_recent_turns demo_opportunity_config) DEFAULT_PRUNE_KEEP_RECENT_TURNS = Inr 1"
    by (simp add: 1)
qed

theorem pruning_loses_large_turn_witness:
  "prune_messages demo_history demo_opportunity_config = Inr [demo_message ''system'' []]"
  unfolding demo_history_def
  by (rule pruning_loses_large_turn [OF demo_bounds(1) _ demo_bounds(2)]) (simp_all add: demo_message_def ai_has_tool_calls_def)

theorem pruning_keeps_turns_whole_witness:
  "\<exists>out. prune_messages (demo_history @ [demo_message ''human'' []]) demo_opportunity_config = Inr out \<and> length out \<le> 2
     \<and> filter is_system out = filter is_system (demo_history @ [demo_message ''human'' []])"
proof -
  let ?msgs = "demo_history @ [demo_message ''human'' []]"
  obtain out where out: "prune_messages ?msgs demo_opportunity_config = Inr out"
    using demo_bounds by (auto simp: prune_messages_def prune_limit_def)
  have "length (filter is_system ?msgs) \<le> 2"
    by (simp add: demo_history_def demo_message_def is_system_def)
  then show ?thesis using pruning_keeps_turns_whole [OF out demo_bounds(1)] out by auto
qed

subsection \<open>Heartbeats, re-arms and invalidations\<close>

text \<open>A heartbeat is accounted for within its bound: it is accepted exactly while fewer than the maximum
  were, an accepted one counts as a heartbeat and as a turn of the session, a refused one as neither,
  and the count never passes the maximum.\<close>

theorem heartbeats_bounded:
  assumes "account_heartbeat state cfg = Inr h"
    and "coerce_count (dict_get (as_dict state) ''heartbeat_count'') = Inr beats"
    and "coerce_count (dict_get (as_dict state) ''session_turns'') = Inr turns"
  shows "ha_heartbeat_count h \<le> max 0 (oc_heartbeat_max cfg)
    \<and> (ha_accepted h \<longleftrightarrow> beats < max 0 (oc_heartbeat_max cfg))
    \<and> (beats \<le> max 0 (oc_heartbeat_max cfg) \<longrightarrow> ha_heartbeat_count h = beats + (if ha_accepted h then 1 else 0))
    \<and> ha_session_turns h = turns + (if ha_accepted h then 1 else 0)"
  using assms
  by (auto simp: account_heartbeat_def Let_def rbind_eq_Inr cfg_int_def finite_number_def split: if_splits sum.splits)

theorem heartbeats_bounded_witness:
  "\<exists>h. account_heartbeat (PDict [(''heartbeat_count'', PInt 6)]) (resolve_opportunity_config (\<lambda>_. None)) = Inr h
     \<and> ha_heartbeat_count h \<le> 6 \<and> \<not> ha_accepted h"
proof -
  let ?st = "PDict [(''heartbeat_count'', PInt 6)]" and ?cfg = "resolve_opportunity_config (\<lambda>_. None)"
  have m: "oc_heartbeat_max ?cfg = 6" by code_simp
  have c: "coerce_count (dict_get (as_dict ?st) ''heartbeat_count'') = Inr 6"
    "coerce_count (dict_get (as_dict ?st) ''session_turns'') = Inr 0" "cfg_int 6 DEFAULT_HEARTBEAT_MAX = Inr 6"
    by code_simp+
  then obtain h where h: "account_heartbeat ?st ?cfg = Inr h"
    by (auto simp: account_heartbeat_def m Let_def)
  show ?thesis using heartbeats_bounded [OF h c(1,2)] h by (auto simp: m)
qed

lemma fabs_fsub_sym: "fabs (fsub x y) = fabs (fsub y x)"
  by (cases x; cases y) (auto simp: fabs_fsub_commute, auto simp: fsub_def)

text \<open>Whether a watch is an unchanged re-arm does not depend on which of the two is the earlier: the test
  gives the same answer both ways, and it holds only of two complete theses on the same instrument,
  timeframe and side.\<close>

theorem rearm_test_symmetric:
  assumes "is_rearm_unchanged prior proposed atr = Inr same"
  shows "is_rearm_unchanged proposed prior atr = Inr same
    \<and> (same \<longrightarrow> (\<exists>a b. thesis_fingerprint prior = Inr a \<and> thesis_fingerprint proposed = Inr b \<and> complete a
        \<and> complete b \<and> fp_symbol a = fp_symbol b \<and> fp_timeframe a = fp_timeframe b \<and> fp_direction a = fp_direction b))"
proof -
  obtain a b where ab: "thesis_fingerprint prior = Inr a" "thesis_fingerprint proposed = Inr b"
    using assms by (auto simp: is_rearm_unchanged_def rbind_eq_Inr)
  show ?thesis
    using assms unfolding is_rearm_unchanged_def ab
    by (cases "usable_atr atr"; cases "fp_level a"; cases "fp_level b")
      (auto simp: fabs_fsub_sym complete_def split: if_splits option.splits)
qed

lemma finite_number_Fin:
  assumes "finite_number v = Inr True" and "as_float v = Inr f"
  shows "\<exists>q. f = Fin q"
  using assms
  by (cases v) (auto simp: finite_number_def as_float_def float_of_int_def Let_def elim!: isfinite.elims dest!: sym [of "Fin _"] split: if_splits pyfloat.splits)

text \<open>An invalidation keeps its distance: when the floor applies, the level that is returned lies at least one
  ATR from the reference price, on the side opposite to the direction of the watch.\<close>

theorem invalidation_keeps_distance:
  assumes "volatility_floored_invalidation direction ref_price proposed atr = Inr (Some level)"
    and "as_float ref_price = Inr price" and "as_float atr = Inr a"
  shows "(if normalize_direction direction = Some ''above''
      then fle level (fsub price (fmul VOL_FLOOR_ATR_MULT a))
      else normalize_direction direction = Some ''below'' \<and> fle (fadd price (fmul VOL_FLOOR_ATR_MULT a)) level)
    \<and> (finite_number proposed = Inr False \<longrightarrow> level =
        (if normalize_direction direction = Some ''above'' then fsub price (fmul VOL_FLOOR_ATR_MULT a)
         else fadd price (fmul VOL_FLOOR_ATR_MULT a)))"
proof -
  let ?floor = "fmul VOL_FLOOR_ATR_MULT a"
  obtain side where side: "normalize_direction direction = Some side" "side = ''above'' \<or> side = ''below''"
    using assms(1) by (auto simp: volatility_floored_invalidation_def normalize_direction_def Let_def split: option.splits pyval.splits if_splits)
  have fin: "finite_number ref_price = Inr True" and u: "usable_atr atr = Inr (Some a)"
    using assms side by (auto simp: volatility_floored_invalidation_def usable_atr_def rbind_eq_Inr split: if_splits option.splits)
  obtain p q where "price = Fin p" "a = Fin q"
    using finite_number_Fin [OF fin assms(2)] finite_number_Fin [of atr a] u assms(3)
    by (auto simp: usable_atr_def rbind_eq_Inr split: if_splits)
  then have num: "fsub price ?floor \<noteq> NaN" "fadd price ?floor \<noteq> NaN"
    by (auto simp: VOL_FLOOR_ATR_MULT_def fl_def Let_def fsub_def)
  show ?thesis
    using assms(1) side num unfolding volatility_floored_invalidation_def
    by (auto simp: fin u assms(2) keep_or_floor_def rbind_eq_Inr Let_def fle_refl split: if_splits)
qed

theorem invalidation_keeps_distance_witness:
  "\<exists>level. volatility_floored_invalidation (PStr ''long'') (PInt 100) (PInt 99) (PInt 2) = Inr (Some level)
     \<and> fle level (fsub (Fin 100) (fmul VOL_FLOOR_ATR_MULT (Fin 2)))"
proof -
  have v: "volatility_floored_invalidation (PStr ''long'') (PInt 100) (PInt 99) (PInt 2) = Inr (Some (Fin 98))" by code_simp
  have "as_float (PInt 100) = Inr (Fin 100)" "as_float (PInt 2) = Inr (Fin 2)" "normalize_direction (PStr ''long'') = Some ''above''"
    by code_simp+
  then show ?thesis using invalidation_keeps_distance [OF v, of "Fin 100" "Fin 2"] v by simp
qed

definition demo_watch :: "int \<Rightarrow> pyval" where
  "demo_watch level = PDict [(''symbol'', PStr ''NIFTY''), (''timeframe'', PStr ''15m''), (''direction'', PStr ''up''), (''price_level'', PInt level)]"

theorem rearm_test_symmetric_witness:
  "is_rearm_unchanged (demo_watch 101) (demo_watch 100) (PInt 4) = Inr True"
proof -
  have "is_rearm_unchanged (demo_watch 100) (demo_watch 101) (PInt 4) = Inr True" by code_simp
  then show ?thesis using rearm_test_symmetric by blast
qed

subsection \<open>The plan of a resume\<close>

lemma plan_cases: "delta_recheck_plans k = delta_recheck_plans ''target'' \<or> delta_recheck_plans k = delta_recheck_plans ''heartbeat''"
  by (simp add: delta_recheck_plans_def RESUME_INVALIDATION_def RESUME_HEARTBEAT_def)

definition part_of_full :: "string list \<Rightarrow> bool" where
  "part_of_full plan \<longleftrightarrow> set plan \<subset> set FULL_ORDER_OF_OPERATIONS_TOOLS \<and> distinct plan \<and> hd plan = ''get_candles''
     \<and> {''get_consensus_report'', ''get_support_resistance''} \<subseteq> set plan \<and> \<not> subseq plan FULL_ORDER_OF_OPERATIONS_TOOLS"

lemma full_strings:
  "\<not> subseq (''get_candles'' # ''get_consensus_report'' # rest) FULL_ORDER_OF_OPERATIONS_TOOLS"
  unfolding FULL_ORDER_OF_OPERATIONS_TOOLS_def by (simp only: subseq_Cons2_iff) simp

lemma part_of_fullI:
  assumes "plan = ''get_candles'' # ''get_consensus_report'' # rest"
    and "list_all (List.member FULL_ORDER_OF_OPERATIONS_TOOLS) plan \<and> \<not> List.member plan ''get_prediction''
      \<and> distinct plan \<and> List.member plan ''get_support_resistance''"
  shows "part_of_full plan"
proof -
  have "List.member FULL_ORDER_OF_OPERATIONS_TOOLS ''get_prediction''" by code_simp
  moreover have "set plan \<subseteq> set FULL_ORDER_OF_OPERATIONS_TOOLS" "''get_prediction'' \<notin> set plan"
      "''get_support_resistance'' \<in> set plan" "distinct plan"
    using assms(2) by (unfold list_all_iff Ball_def List.member_iff subset_iff, blast+)
  moreover have "\<not> subseq plan FULL_ORDER_OF_OPERATIONS_TOOLS" "hd plan = ''get_candles''" "''get_consensus_report'' \<in> set plan"
    unfolding assms(1) by (rule full_strings) (simp_all only: list.sel list.set insert_iff simp_thms)
  ultimately show ?thesis unfolding part_of_full_def List.member_iff by blast
qed

lemma resume_plans:
  "delta_recheck_plans ''target'' = ''get_candles'' # ''get_consensus_report'' # tl (tl (delta_recheck_plans ''target''))"
  "delta_recheck_plans ''heartbeat'' = ''get_candles'' # ''get_consensus_report'' # tl (tl (delta_recheck_plans ''heartbeat''))"
  "insert_before ''get_options_analytics'' ''get_event_risk'' (delta_recheck_plans ''target'')
    = ''get_candles'' # ''get_consensus_report'' # ''get_options_analytics'' # tl (tl (delta_recheck_plans ''target''))"
  "insert_before ''get_options_analytics'' ''get_event_risk'' (delta_recheck_plans ''heartbeat'')
    = ''get_candles'' # ''get_consensus_report'' # tl (tl (delta_recheck_plans ''heartbeat'')) @ [''get_options_analytics'']"
  by code_simp+

lemmas plan_parts = part_of_fullI [OF resume_plans(1)] part_of_fullI [OF resume_plans(2)]
  part_of_fullI [OF resume_plans(3)] part_of_fullI [OF resume_plans(4)]

lemma part_of_full_plans:
  "part_of_full (delta_recheck_plans ''target'')"
  "part_of_full (delta_recheck_plans ''heartbeat'')"
  "part_of_full (insert_before ''get_options_analytics'' ''get_event_risk'' (delta_recheck_plans ''target''))"
  "part_of_full (insert_before ''get_options_analytics'' ''get_event_risk'' (delta_recheck_plans ''heartbeat''))"
  by (rule plan_parts, code_simp)+

text \<open>A resume rechecks a part of the full sequence of tools: whatever triggered it, its plan is a proper,
  duplicate-free subset of that sequence that starts with fresh candles and asks for the consensus
  and the levels; it is not in the order of the full sequence, although the comment says so.\<close>

theorem resume_rechecks_a_part:
  "let plan = delta_recheck_plan kind cls in
     set plan \<subset> set FULL_ORDER_OF_OPERATIONS_TOOLS \<and> distinct plan \<and> hd plan = ''get_candles''
     \<and> {''get_consensus_report'', ''get_support_resistance''} \<subseteq> set plan \<and> \<not> subseq plan FULL_ORDER_OF_OPERATIONS_TOOLS"
proof -
  have "part_of_full (delta_recheck_plan kind cls)"
    using plan_cases [of "classify_resume kind"] part_of_full_plans
    unfolding delta_recheck_plan_def Let_def by (auto simp only: split: if_split)
  then show ?thesis unfolding part_of_full_def Let_def .
qed

end
