(* ===== verification/ToolCalls.thy ===== *)
theory ToolCalls
  imports Opportunity
begin

text \<open>
  \<open>graph.py\<close>: the calls in an answer of the model and the results of the tools. Calls are read from
  the structured part of the answer or from markup in its text and classified; results are judged by
  the marks that the tools leave in their text. What parses text as JSON (\<open>json.loads\<close>, and
  \<open>ast.literal_eval\<close> for a result) and what scans the text for markup with regular expressions are
  arguments. The content of a message is text, as every tool of the program returns text.
\<close>

subsection \<open>A JSON object in a text\<close>

text \<open>\<open>scan_object in_string escaped depth acc rest\<close>: the text up to the brace that closes the object.\<close>

fun scan_object :: "bool \<Rightarrow> bool \<Rightarrow> nat \<Rightarrow> string \<Rightarrow> string \<Rightarrow> string option" where
  "scan_object in_string escaped depth acc [] = None"
| "scan_object in_string escaped depth acc (c # rest) =
     (if in_string then
        (if escaped then scan_object True False depth (acc @ [c]) rest
         else if of_char c = (92 :: nat) then scan_object True True depth (acc @ [c]) rest
         else if of_char c = (34 :: nat) then scan_object False False depth (acc @ [c]) rest
         else scan_object True False depth (acc @ [c]) rest)
      else if of_char c = (34 :: nat) then scan_object True escaped depth (acc @ [c]) rest
      else if c = CHR ''{'' then scan_object False escaped (depth + 1) (acc @ [c]) rest
      else if c = CHR ''}'' then
        (if depth = 1 then Some (acc @ [c]) else scan_object False escaped (depth - 1) (acc @ [c]) rest)
      else scan_object False escaped depth (acc @ [c]) rest)"

definition extract_balanced_json :: "string \<Rightarrow> nat \<Rightarrow> string option" where
  "extract_balanced_json text start = (case dropWhile (\<lambda>c. c \<noteq> CHR ''{'') (drop start text) of
       [] \<Rightarrow> None | rest \<Rightarrow> scan_object False False 0 [] rest)"

text \<open>\<open>json.dumps(v)\<close>.\<close>

fun json_text :: "pyval \<Rightarrow> string" where
  "json_text PNone = ''null''"
| "json_text (PBool b) = (if b then ''true'' else ''false'')"
| "json_text (PInt n) = int_text n"
| "json_text (PFloat f) = float_text f"
| "json_text (PStr s) = ascii_string s"
| "json_text (PList vs) = ''['' @ join_with '', '' (map json_text vs) @ '']''"
| "json_text (PDict d) = ''{'' @ join_with '', '' (map (\<lambda>(k, v). ascii_string k @ '': '' @ json_text v) d) @ ''}''"

subsection \<open>The calls of an answer\<close>

definition REGISTERED_TOOL_NAMES :: "string list" where
  "REGISTERED_TOOL_NAMES = [''get_candles'', ''get_consensus_report'', ''get_multi_tf_trend'', ''get_chart_patterns'',
     ''get_support_resistance'', ''get_volume_profile'', ''get_news_context'', ''get_prediction'',
     ''get_trade_performance'', ''get_market_regime'', ''get_relative_strength'', ''get_order_flow'', ''get_forecast'',
     ''get_session_context'', ''get_options_analytics'', ''get_event_risk'', ''watch_price_condition'', ''declare_trade'']"

definition MARKET_DATA_TOOL_NAMES :: "string list" where
  "MARKET_DATA_TOOL_NAMES = [''get_candles'', ''get_consensus_report'', ''get_multi_tf_trend'', ''get_chart_patterns'',
     ''get_support_resistance'', ''get_volume_profile'', ''get_news_context'', ''get_prediction'', ''get_market_regime'',
     ''get_relative_strength'', ''get_order_flow'', ''get_forecast'', ''get_session_context'',
     ''get_options_analytics'', ''get_event_risk'']"

definition CORE_DATA_TOOL_NAMES :: "string list" where
  "CORE_DATA_TOOL_NAMES = [''get_market_regime'', ''get_consensus_report'', ''get_relative_strength'',
     ''get_session_context'', ''get_order_flow'']"

record extracted_call =
  ec_name :: string
  ec_args :: "pydict option"
  ec_raw :: string
  ec_status :: string
  ec_id :: string

text \<open>A structured call as the provider returns it: name, arguments and identifier may be missing.\<close>

record native_call =
  nc_name :: "string option"
  nc_args :: pyval
  nc_id :: "string option"

text \<open>A fragment that is no object is refused. The second attempt of the code, on the fragment without
  zero-width characters, is the first one again for the strings of the model, which have none.\<close>

definition parse_args_fragment :: "(string \<Rightarrow> pyval option) \<Rightarrow> string \<Rightarrow> pydict option" where
  "parse_args_fragment loads raw = (case loads raw of Some (PDict d) \<Rightarrow> Some d | _ \<Rightarrow> None)"

definition call_id :: "string \<Rightarrow> nat \<Rightarrow> string" where
  "call_id name i = ''call_'' @ name @ ''_'' @ int_text (int i)"

definition native_extracted :: "(string \<Rightarrow> pyval option) \<Rightarrow> nat \<times> native_call \<Rightarrow> extracted_call" where
  "native_extracted loads = (\<lambda>(i, tc).
     let name = py_strip (case nc_name tc of None \<Rightarrow> [] | Some n \<Rightarrow> n);
         args = (case nc_args tc of PStr s \<Rightarrow> (case parse_args_fragment loads s of None \<Rightarrow> PNone | Some d \<Rightarrow> PDict d)
                 | v \<Rightarrow> v)
     in \<lparr>ec_name = name, ec_args = Some (as_dict args),
          ec_raw = (case nc_args tc of PStr s \<Rightarrow> s | PNone \<Rightarrow> [] | v \<Rightarrow> json_text v),
          ec_status = ''ok'',
          ec_id = (case nc_id tc of Some (c # cs) \<Rightarrow> c # cs | _ \<Rightarrow> call_id name i)\<rparr>)"

definition scanned_extracted :: "(string \<Rightarrow> pyval option) \<Rightarrow> nat \<times> string \<times> string \<Rightarrow> extracted_call" where
  "scanned_extracted loads = (\<lambda>(i, name, raw).
     let cid = call_id name i in
     if name \<notin> set REGISTERED_TOOL_NAMES
     then \<lparr>ec_name = name, ec_args = None, ec_raw = raw, ec_status = ''invalid_tool'', ec_id = cid\<rparr>
     else case parse_args_fragment loads raw of
         Some d \<Rightarrow> \<lparr>ec_name = name, ec_args = Some d, ec_raw = raw, ec_status = ''ok'', ec_id = cid\<rparr>
       | None \<Rightarrow> \<lparr>ec_name = name, ec_args = None, ec_raw = raw, ec_status = ''parse_failure'', ec_id = cid\<rparr>)"

definition extract_tool_calls ::
    "(string \<Rightarrow> pyval option) \<Rightarrow> (string \<Rightarrow> (string \<times> string) list) \<Rightarrow> native_call list \<Rightarrow> string \<Rightarrow> extracted_call list" where
  "extract_tool_calls loads scan natives content =
     (if natives \<noteq> [] then map (native_extracted loads) (enumerate 0 natives)
      else map (scanned_extracted loads) (enumerate 0 (if content = [] then [] else scan content)))"

text \<open>The tools in the feedback are listed in alphabetical order.\<close>

definition synthetic_failure_content :: "extracted_call \<Rightarrow> string" where
  "synthetic_failure_content c = (if ec_status c = ''invalid_tool''
     then ''Tool-call error: '' @ [char_of (39::nat)] @ ec_name c @ [char_of (39::nat)]
       @ '' is not a registered Analysis_Tool. Registered tools are: '' @ join_with '', '' (sort REGISTERED_TOOL_NAMES)
       @ ''. Re-issue the call using a valid tool name.''
     else ''Tool-call error: could not parse JSON arguments for '' @ [char_of (39::nat)] @ ec_name c @ [char_of (39::nat)]
       @ ''. Received fragment: '' @ repr_string (ec_raw c) @ ''. Re-issue the call with a valid JSON object as arguments.'')"

text \<open>The calls as the agent's message carries them: every call, with its status and feedback by identifier.\<close>

definition ok_status :: "extracted_call \<Rightarrow> bool" where
  "ok_status c \<longleftrightarrow> ec_status c = ''ok''"

definition message_call :: "extracted_call \<Rightarrow> tool_call" where
  "message_call c = \<lparr>tc_name = ec_name c, tc_args = (case ec_args c of None \<Rightarrow> [] | Some d \<Rightarrow> d), tc_id = ec_id c\<rparr>"

text \<open>A dictionary built from pairs keeps the last value of a key: the pairs are looked up from the end.\<close>

definition last_value :: "(string \<times> 'a) list \<Rightarrow> string \<Rightarrow> 'a option" where
  "last_value kvs k = map_of (rev kvs) k"

definition call_status :: "chat_message \<Rightarrow> tool_call \<Rightarrow> string" where
  "call_status m tc = (case last_value (cm_statuses m) (tc_id tc) of None \<Rightarrow> ''ok'' | Some s \<Rightarrow> s)"

definition ok_calls_of :: "chat_message \<Rightarrow> tool_call list" where
  "ok_calls_of m = filter (\<lambda>tc. call_status m tc = ''ok'') (cm_calls m)"

definition failed_calls_of :: "chat_message \<Rightarrow> tool_call list" where
  "failed_calls_of m = filter (\<lambda>tc. call_status m tc \<noteq> ''ok'') (cm_calls m)"

subsection \<open>Messages\<close>

definition plain_message :: "string \<Rightarrow> string \<Rightarrow> chat_message" where
  "plain_message role text = \<lparr>cm_type = Some role, cm_calls = [], cm_raw_calls = False, cm_name = None,
     cm_content = Some text, cm_answers = None, cm_statuses = [], cm_synthetic = []\<rparr>"

definition tool_message :: "string \<Rightarrow> string \<Rightarrow> string \<Rightarrow> chat_message" where
  "tool_message name cid text = (plain_message ''tool'' text)\<lparr>cm_name := Some name, cm_answers := Some cid\<rparr>"

definition is_tool_message :: "chat_message \<Rightarrow> bool" where
  "is_tool_message m \<longleftrightarrow> cm_type m = Some ''tool''"

definition is_human_message :: "chat_message \<Rightarrow> bool" where
  "is_human_message m \<longleftrightarrow> cm_type m = Some ''human''"

subsection \<open>The results of the tools\<close>

fun contains :: "string \<Rightarrow> string \<Rightarrow> bool" where
  "contains sub [] = (sub = [])"
| "contains sub (c # s) = (take (length sub) (c # s) = sub \<or> contains sub s)"

definition starts_with :: "string \<Rightarrow> string \<Rightarrow> bool" where
  "starts_with pre s \<longleftrightarrow> take (length pre) s = pre"

definition quoted :: "nat \<Rightarrow> string \<Rightarrow> string" where
  "quoted q s = [char_of q] @ s @ [char_of q]"

definition tool_result_is_error :: "string option \<Rightarrow> bool" where
  "tool_result_is_error content = (case content of None \<Rightarrow> True
     | Some text \<Rightarrow> contains (quoted 34 ''error'') text \<or> contains (quoted 39 ''error'') text
         \<or> starts_with ''error'' (py_lower (py_strip text)))"

text \<open>
  The search for an unavailable mark, in the text in lower case: a quoted key, a colon with space
  around it, and its value. The quotes on the two sides may differ.
\<close>

definition quote_char :: "char \<Rightarrow> bool" where
  "quote_char c \<longleftrightarrow> of_char c \<in> {34 :: nat, 39}"

definition after_quoted :: "string \<Rightarrow> string \<Rightarrow> string option" where
  "after_quoted w s = (case s of [] \<Rightarrow> None
     | c # t \<Rightarrow> if quote_char c \<and> starts_with w t
         then (case drop (length w) t of d # rest \<Rightarrow> if quote_char d then Some rest else None | [] \<Rightarrow> None) else None)"

definition after_colon :: "string \<Rightarrow> string option" where
  "after_colon s = (case dropWhile is_space s of [] \<Rightarrow> None
     | c # t \<Rightarrow> if c = CHR '':'' then Some (dropWhile is_space t) else None)"

definition mark_at :: "string \<Rightarrow> bool" where
  "mark_at s \<longleftrightarrow> list_ex (\<lambda>(key, value_ok). case after_quoted key s of None \<Rightarrow> False
       | Some r \<Rightarrow> (case after_colon r of None \<Rightarrow> False | Some t \<Rightarrow> value_ok t))
     [(''sentiment_summary'', \<lambda>t. after_quoted ''unavailable'' t \<noteq> None), (''unavailable'', starts_with ''true''),
      (''status'', \<lambda>t. after_quoted ''unavailable'' t \<noteq> None)]"

fun has_mark :: "string \<Rightarrow> bool" where
  "has_mark [] = False"
| "has_mark (c # s) = (mark_at (c # s) \<or> has_mark s)"

definition tool_result_is_unavailable :: "string option \<Rightarrow> bool" where
  "tool_result_is_unavailable content = (case content of None \<Rightarrow> False | Some text \<Rightarrow> has_mark (py_lower text))"

definition tool_result_is_usable :: "string option \<Rightarrow> bool" where
  "tool_result_is_usable content \<longleftrightarrow> content \<noteq> None \<and> \<not> tool_result_is_error content \<and> \<not> tool_result_is_unavailable content"

definition result_of :: "string list \<Rightarrow> chat_message \<Rightarrow> bool" where
  "result_of names m \<longleftrightarrow> is_tool_message m \<and> cm_name m \<in> Some ` set names"

definition market_data_seen :: "chat_message list \<Rightarrow> bool" where
  "market_data_seen msgs = list_ex (\<lambda>m. result_of MARKET_DATA_TOOL_NAMES m
     \<and> \<not> (tool_result_is_error (cm_content m) \<or> tool_result_is_unavailable (cm_content m))) msgs"

definition market_data_attempted :: "chat_message list \<Rightarrow> bool" where
  "market_data_attempted msgs = list_ex (result_of MARKET_DATA_TOOL_NAMES) msgs"

definition tool_resolved :: "chat_message list \<Rightarrow> string \<Rightarrow> bool" where
  "tool_resolved msgs name = list_ex (\<lambda>m. is_tool_message m \<and> cm_name m = Some name
     \<and> (tool_result_is_usable (cm_content m) \<or> tool_result_is_unavailable (cm_content m))) msgs"

definition resolved_core_tools :: "chat_message list \<Rightarrow> string list" where
  "resolved_core_tools msgs = filter (tool_resolved msgs) CORE_DATA_TOOL_NAMES"

definition core_acquisition_resolved :: "chat_message list \<Rightarrow> bool" where
  "core_acquisition_resolved msgs = list_all (tool_resolved msgs) CORE_DATA_TOOL_NAMES"

text \<open>The last result that parses, for one tool; \<open>parse\<close> reads a result's text.\<close>

definition latest_result :: "(string \<Rightarrow> pyval option) \<Rightarrow> chat_message list \<Rightarrow> string \<Rightarrow> pyval" where
  "latest_result parse msgs name = (case List.map_filter (\<lambda>m.
       if is_tool_message m \<and> cm_name m = Some name \<and> \<not> tool_result_is_error (cm_content m)
       then (case cm_content m of None \<Rightarrow> None | Some t \<Rightarrow> if py_strip t = [] then None
             else (case parse (py_strip t) of Some PNone \<Rightarrow> None | r \<Rightarrow> r))
       else None) (rev msgs) of [] \<Rightarrow> PNone | v # _ \<Rightarrow> v)"

definition latest_atr :: "(string \<Rightarrow> pyval option) \<Rightarrow> chat_message list \<Rightarrow> pyval res" where
  "latest_atr parse msgs = (case latest_result parse msgs ''get_consensus_report'' of
     PDict d \<Rightarrow> (let atr = dict_get d ''atr_14'' in
       rbind (finite_number atr) (\<lambda>fin. if \<not> fin then Inr PNone else rbind (as_float atr) (\<lambda>f. Inr (PFloat f))))
   | _ \<Rightarrow> Inr PNone)"

fun first_watch :: "tool_call list \<Rightarrow> pydict option" where
  "first_watch [] = None"
| "first_watch (tc # tcs) = (if tc_name tc = ''watch_price_condition'' then Some (tc_args tc) else first_watch tcs)"

definition latest_watch_args :: "chat_message list \<Rightarrow> pydict" where
  "latest_watch_args msgs = (case List.map_filter (\<lambda>m. first_watch (cm_calls m)) (rev msgs) of [] \<Rightarrow> [] | d # _ \<Rightarrow> d)"

subsection \<open>The declared decision\<close>

definition declare_is_directional :: "pydict \<Rightarrow> bool" where
  "declare_is_directional args = (case dict_get args ''action'' of
     PStr s \<Rightarrow> py_upper (py_strip s) \<in> {''BUY'', ''SELL''} | _ \<Rightarrow> False)"

definition coerce_price :: "pyval \<Rightarrow> pyval res" where
  "coerce_price v = (case v of
       PInt n \<Rightarrow> rbind (as_float v) (\<lambda>f. Inr (if isfinite f then PFloat f else PNone))
     | PFloat f \<Rightarrow> Inr (if isfinite f then PFloat f else PNone)
     | PStr s \<Rightarrow> Inr (case parse_float (py_strip s) of None \<Rightarrow> PNone | Some f \<Rightarrow> if isfinite f then PFloat f else PNone)
     | _ \<Rightarrow> Inr PNone)"

definition normalize_action :: "pyval \<Rightarrow> string option" where
  "normalize_action v = (if \<not> py_truthy v then None
     else let n = py_upper (py_strip (py_str v)) in
       Some (if n \<in> {''BUY'', ''LONG''} then ''BUY'' else if n \<in> {''SELL'', ''SHORT''} then ''SELL'' else n))"

definition declared_action :: "pyval \<Rightarrow> string" where
  "declared_action v = (case normalize_action v of Some (c # cs) \<Rightarrow> c # cs | _ \<Rightarrow> ''HOLD'')"

definition decision_from_declare :: "tool_call list \<Rightarrow> pydict option res" where
  "decision_from_declare calls = (case filter (\<lambda>tc. tc_name tc = ''declare_trade'') calls of
     [] \<Rightarrow> Inr None
   | tc # _ \<Rightarrow> (let a = tc_args tc in
       rbind (rmap (\<lambda>k. coerce_price (dict_get a k)) [''entry'', ''stop_loss'', ''take_profit'', ''atr_14'']) (\<lambda>ps.
         Inr (Some ([(''action'', PStr (declared_action (dict_get a ''action''))),
           (''conviction_score'', dict_get a ''conviction_score''), (''setup_validation'', dict_get a ''setup_validation''),
           (''execution_plan'', dict_get a ''execution_plan'')]
           @ zip [''entry'', ''stop_loss'', ''take_profit'', ''atr_14''] ps
           @ [(''management_plan'', dict_get a ''management_plan''), (''source'', PStr ''declare_trade'')])))))"

definition declare_was_rejected :: "chat_message list \<Rightarrow> bool" where
  "declare_was_rejected msgs = list_ex (\<lambda>m. is_tool_message m \<and> cm_name m = Some ''declare_trade''
     \<and> contains ''TRADE_REJECTED'' (case cm_content m of None \<Rightarrow> ''None'' | Some t \<Rightarrow> t)) msgs"

subsection \<open>A history that can be replayed\<close>

definition last_human :: "chat_message list \<Rightarrow> nat option" where
  "last_human msgs = (case filter (\<lambda>i. is_human_message (msgs ! i)) (rev [0..<length msgs]) of [] \<Rightarrow> None | i # _ \<Rightarrow> Some i)"

definition flatten_one :: "chat_message \<Rightarrow> chat_message list" where
  "flatten_one m = (if is_tool_message m then []
     else if cm_type m = Some ''ai'' \<and> ai_has_tool_calls m
       then (case cm_content m of Some t \<Rightarrow> if py_strip t \<noteq> [] then [plain_message ''ai'' t] else [] | None \<Rightarrow> [])
     else [m])"

definition flatten_prior_tool_history :: "chat_message list \<Rightarrow> chat_message list" where
  "flatten_prior_tool_history msgs = (let h = (case last_human msgs of None \<Rightarrow> length msgs | Some i \<Rightarrow> i) in
     concat (map flatten_one (take h msgs)) @ drop h msgs)"

end
