(* ===== verification/ToolCallsFacts.thy ===== *)
theory ToolCallsFacts
  imports ToolCalls
begin

text \<open>
  The scan for a JSON object in the text of an answer finds exactly what \<open>json.dumps\<close> wrote there:
  the text of every value is passed over by the scan, and the braces of an object are counted.
\<close>


text \<open>A text that the scan passes over: in the object, outside of strings, it changes nothing but what was read.\<close>

definition passes :: "string \<Rightarrow> bool" where
  "passes s \<longleftrightarrow> (\<forall>depth acc rest. 0 < depth \<longrightarrow>
     scan_object False False depth acc (s @ rest) = scan_object False False depth (acc @ s) rest)"

lemma passes_Nil [simp]: "passes []"
  by (simp add: passes_def)

lemma passes_append [intro]: "passes a \<Longrightarrow> passes b \<Longrightarrow> passes (a @ b)"
  by (simp add: passes_def)

definition plain_char :: "char \<Rightarrow> bool" where
  "plain_char c \<longleftrightarrow> of_char c \<noteq> (34 :: nat) \<and> of_char c \<noteq> (123 :: nat) \<and> of_char c \<noteq> (125 :: nat)"

lemma plain_brace: "plain_char c \<Longrightarrow> c \<noteq> CHR ''{'' \<and> c \<noteq> CHR ''}''"
  by (auto simp: plain_char_def)

lemma passes_plain: "list_all plain_char s \<Longrightarrow> passes s"
proof (induction s)
  case (Cons c s)
  then have "passes s" by simp
  moreover have "passes [c]" using Cons.prems plain_brace [of c] by (auto simp: passes_def plain_char_def)
  ultimately show ?case using passes_append [of "[c]" s] by simp
qed simp

lemma passes_join: "list_all passes xs \<Longrightarrow> passes sep \<Longrightarrow> passes (join_with sep xs)"
  by (induction sep xs rule: join_with.induct) auto

lemma passes_braces: "passes s \<Longrightarrow> passes (''{'' @ s @ ''}'')"
  by (simp add: passes_def)

subsection \<open>Strings\<close>

definition inner_char :: "char \<Rightarrow> bool" where
  "inner_char c \<longleftrightarrow> of_char c \<noteq> (34 :: nat) \<and> of_char c \<noteq> (92 :: nat)"

definition escape_shape :: "char \<Rightarrow> bool" where
  "escape_shape c = (case ascii_escape c of [] \<Rightarrow> False | [d] \<Rightarrow> inner_char d
     | b # d # t \<Rightarrow> of_char b = (92 :: nat) \<and> list_all inner_char t)"

lemma inner_hex: "n < 256 \<Longrightarrow> inner_char (hex_char (n div 16)) \<and> inner_char (hex_char (n mod 16))"
proof -
  have hex: "inner_char (hex_char k)" if "k < 16" for k
    using that by (auto simp: hex_char_def inner_char_def)
  show "n < 256 \<Longrightarrow> ?thesis" by (intro conjI hex) auto
qed

lemma inner_letters: "list_all inner_char [CHR ''u'', CHR ''0'', CHR ''n'', CHR ''r'', CHR ''t'', CHR ''f'', CHR ''b'']"
  by code_simp

lemma escape_shapes: "escape_shape c"
  using inner_hex [OF nat_of_char_less_256 [of c]] inner_letters
  by (simp add: escape_shape_def ascii_escape_def json_escape_def Let_def inner_char_def)

lemma scan_inner:
  "list_all inner_char s \<Longrightarrow> scan_object True False depth acc (s @ rest) = scan_object True False depth (acc @ s) rest"
  by (induction s arbitrary: acc) (simp_all add: inner_char_def)

lemma scan_escape:
  "scan_object True False depth acc (ascii_escape c @ rest) = scan_object True False depth (acc @ ascii_escape c) rest"
proof (cases "ascii_escape c" rule: remdups_adj.cases)
  case (2 d)
  then show ?thesis using escape_shapes [of c] scan_inner [of "[d]"] by (simp add: escape_shape_def)
next
  case (3 b d t)
  then show ?thesis
    using escape_shapes [of c] scan_inner [of t depth "acc @ [b, d]" rest] by (simp add: escape_shape_def)
qed (use escape_shapes [of c] in \<open>simp add: escape_shape_def\<close>)

lemma scan_escapes:
  "scan_object True False depth acc (concat (map ascii_escape s) @ rest) = scan_object True False depth (acc @ concat (map ascii_escape s)) rest"
  by (induction s arbitrary: acc) (simp_all add: scan_escape)

lemma passes_string: "passes (ascii_string s)"
  by (simp add: passes_def ascii_string_def scan_escapes)

subsection \<open>Numbers\<close>

lemma plain_digit: "plain_char (digit_char n)"
  by (auto simp: digit_char_def plain_char_def)

lemma plain_nat_text: "list_all plain_char acc \<Longrightarrow> list_all plain_char (nat_text_acc n acc)"
proof (induction n acc rule: nat_text_acc.induct)
  case (1 n acc)
  then show ?case by (subst nat_text_acc.simps) (simp add: plain_digit)
qed

lemma plain_chars: "plain_char CHR ''-''" "plain_char CHR ''+''" "plain_char CHR ''.''" "plain_char CHR ''e''" "plain_char CHR ''0''"
  by (simp_all add: plain_char_def)

lemma plain_take_drop: "list_all plain_char s \<Longrightarrow> list_all plain_char (take n s) \<and> list_all plain_char (drop n s)"
  by (auto simp: list_all_iff dest: in_set_takeD in_set_dropD)

lemma plain_int_text: "list_all plain_char (int_text n)"
  by (simp add: int_text_def plain_nat_text plain_chars)

lemma plain_replicate: "plain_char c \<Longrightarrow> list_all plain_char (replicate n c)"
  by (simp add: list_all_iff)

lemma plain_place_point: "list_all plain_char ds \<Longrightarrow> list_all plain_char (place_point ds p)"
  using plain_take_drop [of ds] plain_nat_text [of "[]"]
  by (simp add: place_point_def Let_def plain_chars plain_replicate)

lemma plain_float_text: "list_all plain_char (float_text f)"
proof -
  have "list_all plain_char (pos_float_text q)" for q
    by (simp add: pos_float_text_def plain_place_point plain_nat_text case_prod_beta Let_def)
  then show ?thesis by (cases f) (simp_all add: plain_char_def plain_chars)
qed

subsection \<open>Values\<close>

lemma passes_seps: "passes '', ''" "passes '': ''" "passes ''[''" "passes '']''"
  by (rule passes_plain, simp add: plain_char_def)+

lemma passes_object:
  assumes "\<And>k v. (k, v) \<in> set d \<Longrightarrow> passes (json_text v)"
  shows "passes (join_with '', '' (map (\<lambda>(k, v). ascii_string k @ '': '' @ json_text v) d))"
proof -
  have "passes (ascii_string k @ '': '' @ json_text v)" if "(k, v) \<in> set d" for k v
    by (intro passes_append passes_string passes_seps assms [OF that])
  then show ?thesis by (intro passes_join passes_seps) (auto simp: list_all_iff)
qed

lemma passes_json: "passes (json_text v)"
proof (induction v rule: json_text.induct)
  case (2 b) show ?case by (cases b) (rule passes_plain, simp add: plain_char_def)+
next
  case (6 vs)
  then have "passes (join_with '', '' (map json_text vs))"
    by (intro passes_join passes_seps) (auto simp: list_all_iff)
  then show ?case unfolding json_text.simps by (intro passes_append passes_seps)
next
  case (7 d)
  then show ?case unfolding json_text.simps by (intro passes_braces passes_object) auto
qed (simp_all add: passes_plain plain_int_text plain_float_text passes_string, rule passes_plain, simp add: plain_char_def)

text \<open>The arguments of a call written out in the text of an answer are found exactly: after a prefix without an
  opening brace, the JSON text of any object is extracted whole, whatever strings and nested objects
  it holds and whatever follows it.\<close>

theorem balanced_json_found:
  assumes "CHR ''{'' \<notin> set pre"
  shows "extract_balanced_json (pre @ json_text (PDict d) @ rest) (length pre) = Some (json_text (PDict d))
    \<and> extract_balanced_json (pre @ json_text (PDict d) @ rest) 0 = Some (json_text (PDict d))"
proof -
  let ?body = "join_with '', '' (map (\<lambda>(k, v). ascii_string k @ '': '' @ json_text v) d)"
  have "passes (join_with '', '' (map (\<lambda>(k, v). ascii_string k @ '': '' @ json_text v) d))"
    by (rule passes_object) (rule passes_json)
  then have "scan_object False False 0 [] (''{'' @ ?body @ ''}'' @ rest) = Some (''{'' @ ?body @ ''}'')"
    by (simp add: passes_def)
  moreover have "dropWhile (\<lambda>c. c \<noteq> CHR ''{'') (pre @ ''{'' @ t) = ''{'' @ t" for t
    using assms by (induction pre) auto
  ultimately show ?thesis by (simp add: extract_balanced_json_def)
qed

theorem balanced_json_found_witness:
  "extract_balanced_json (''Call: '' @ json_text (PDict [(''note'', PStr ''a } in a string''), (''legs'', PList [PDict []])]) @ '' }'') 0
     = Some (json_text (PDict [(''note'', PStr ''a } in a string''), (''legs'', PList [PDict []])]))"
  by (rule balanced_json_found [THEN conjunct2]) simp

end
