(* ===== verification/AgentLoop.thy ===== *)
theory AgentLoop
  imports ToolCalls
begin

text \<open>
  \<open>graph.py\<close>: the state of an analysis, its nodes and its routing. A node takes the state and gives
  the state with its update merged in; messages are appended. What the nodes take from outside is
  gathered in \<open>agent_world\<close>, in arguments for what the model answers and the tools return, and in
  the clock. A channel of the state that was never written reads as zero, false or \<open>None\<close>.
\<close>

subsection \<open>State\<close>

record agent_state =
  ag_messages :: "chat_message list"
  ag_mode :: "string option"
  ag_phase :: "string option"
  ag_decision :: "pydict option"
  ag_reasoning_turns :: int
  ag_market_data_seen :: bool
  ag_advocate_done :: bool
  ag_session_turns :: int
  ag_session_started_at :: "pyfloat option"
  ag_watch_cycles :: int
  ag_invalidation_count :: int
  ag_postmortem_pending :: bool
  ag_prior_thesis :: "fingerprint option"
  ag_heartbeat_count :: int
  ag_last_resume_kind :: "string option"
  ag_best_current_read :: "pydict option"
  ag_qa_turns :: int
  ag_debate_turns :: int
  ag_debate_round :: "int option"
  ag_bull_stance :: "pydict option"
  ag_bear_stance :: "pydict option"
  ag_debate_consensus :: "string option"
  ag_debate_conviction :: "int option"

text \<open>
  The outside of the nodes: the configuration, the system prompt, the compaction of large results,
  the parser of results, the completion of a decision (tier, defensibility record, journal), and the
  interim read of a heartbeat, \<open>None\<close> when it fails.
\<close>

record agent_world =
  aw_cfg :: opportunity_config
  aw_prompt :: "agent_state \<Rightarrow> string"
  aw_compact :: "chat_message list \<Rightarrow> chat_message list"
  aw_parse :: "string \<Rightarrow> pyval option"
  aw_finalize :: "agent_state \<Rightarrow> pydict \<Rightarrow> pydict"
  aw_read :: "agent_state \<Rightarrow> pydict option"

definition MAX_REASONING_TURNS :: int where "MAX_REASONING_TURNS = 6"
definition DEBATE_MODE :: string where "DEBATE_MODE = ''DEBATE''"

definition resolve_max_reasoning_turns :: "env \<Rightarrow> int" where
  "resolve_max_reasoning_turns env = resolve_int env ''DEEP_QUANT_MAX_REASONING_TURNS'' MAX_REASONING_TURNS 1"

text \<open>The part of the state that the bounds of the hunt read.\<close>

definition hunt_state :: "agent_state \<Rightarrow> pyval" where
  "hunt_state s = PDict [(''watch_cycles'', PInt (ag_watch_cycles s)), (''session_turns'', PInt (ag_session_turns s)),
     (''session_started_at'', case ag_session_started_at s of None \<Rightarrow> PNone | Some t \<Rightarrow> PFloat t),
     (''heartbeat_count'', PInt (ag_heartbeat_count s))]"

definition dict_put :: "pydict \<Rightarrow> string \<Rightarrow> pyval \<Rightarrow> pydict" where
  "dict_put d k v = (if has_key d k then map (\<lambda>(k', v'). (k', if k' = k then v else v')) d else d @ [(k, v)])"

text \<open>\<open>state["messages"][-1]\<close>.\<close>

definition last_message :: "agent_state \<Rightarrow> chat_message res" where
  "last_message s = (if ag_messages s = [] then Inl IndexError else Inr (last (ag_messages s)))"

definition mode_is :: "string \<Rightarrow> agent_state \<Rightarrow> bool" where
  "mode_is m s \<longleftrightarrow> py_upper (py_strip (case ag_mode s of None \<Rightarrow> [] | Some x \<Rightarrow> x)) = m"

definition add_messages :: "chat_message list \<Rightarrow> agent_state \<Rightarrow> agent_state" where
  "add_messages ms s = s\<lparr>ag_messages := ag_messages s @ ms\<rparr>"

subsection \<open>The model's turn\<close>

definition with_system :: "agent_world \<Rightarrow> agent_state \<Rightarrow> chat_message list" where
  "with_system w s = (if list_ex (\<lambda>m. cm_type m = Some ''system'') (ag_messages s) then ag_messages s
     else plain_message ''system'' (aw_prompt w s) # ag_messages s)"

definition should_run_advocate :: "agent_state \<Rightarrow> chat_message list \<Rightarrow> bool" where
  "should_run_advocate s msgs \<longleftrightarrow> mode_is ''VERIFY'' s \<and> \<not> ag_advocate_done s
     \<and> (ag_market_data_seen s \<or> market_data_seen msgs)"

text \<open>The messages that the model is sent; \<open>advocate\<close> is the answer of the devil's advocate.\<close>

definition advocate_part :: "agent_world \<Rightarrow> agent_state \<Rightarrow> chat_message option \<Rightarrow> chat_message list" where
  "advocate_part w s advocate = (if should_run_advocate s (with_system w s)
     then (case advocate of None \<Rightarrow> [] | Some m \<Rightarrow> [m]) else [])"

definition sent_messages :: "agent_world \<Rightarrow> agent_state \<Rightarrow> chat_message option \<Rightarrow> chat_message list res" where
  "sent_messages w s advocate = rbind (prune_messages (with_system w s @ advocate_part w s advocate) (aw_cfg w))
     (\<lambda>msgs. Inr (aw_compact w msgs))"

definition response_message :: "string \<Rightarrow> extracted_call list \<Rightarrow> chat_message" where
  "response_message content calls = (plain_message ''ai'' content)\<lparr>cm_calls := map message_call calls,
     cm_statuses := map (\<lambda>c. (ec_id c, ec_status c)) calls,
     cm_synthetic := map (\<lambda>c. (ec_id c, synthetic_failure_content c)) (filter (\<lambda>c. \<not> ok_status c) calls)\<rparr>"

definition proposed_watch :: "extracted_call list \<Rightarrow> pydict option" where
  "proposed_watch calls = first_watch (map message_call (filter ok_status calls))"

text \<open>Whether a turn registers a new watch: it proposes one whose thesis is not that of the last one sent.\<close>

definition fresh_watch :: "chat_message list \<Rightarrow> extracted_call list \<Rightarrow> bool res" where
  "fresh_watch msgs calls = (case proposed_watch calls of None \<Rightarrow> Inr False
     | Some proposed \<Rightarrow> (let prior = latest_watch_args msgs in
         if prior = [] then Inr True
         else rbind (thesis_fingerprint (PDict prior)) (\<lambda>a. rbind (thesis_fingerprint (PDict proposed)) (\<lambda>b.
           Inr (a \<noteq> b)))))"

definition call_model ::
    "agent_world \<Rightarrow> pyfloat \<Rightarrow> agent_state \<Rightarrow> string \<Rightarrow> extracted_call list \<Rightarrow> chat_message option \<Rightarrow> agent_state res" where
  "call_model w now s content calls advocate =
     rbind (sent_messages w s advocate) (\<lambda>msgs. rbind (fresh_watch msgs calls) (\<lambda>fresh.
       Inr (add_messages (advocate_part w s advocate @ [response_message content calls])
         (s\<lparr>ag_reasoning_turns := (if calls \<noteq> [] then 0 else ag_reasoning_turns s + 1),
            ag_market_data_seen := ag_market_data_seen s \<or> market_data_seen msgs,
            ag_session_turns := ag_session_turns s + 1,
            ag_session_started_at := (case ag_session_started_at s of None \<Rightarrow> Some now | t \<Rightarrow> t),
            ag_watch_cycles := (if fresh then ag_watch_cycles s + 1 else ag_watch_cycles s),
            ag_advocate_done := ag_advocate_done s \<or> advocate_part w s advocate \<noteq> [],
            ag_phase := (if mode_is DEBATE_MODE s \<and> (case ag_phase s of None \<Rightarrow> True | Some p \<Rightarrow> p = [])
              then Some ''research'' else ag_phase s)\<rparr>))))"

subsection \<open>The tools' turn\<close>

definition is_declare :: "tool_call \<Rightarrow> bool" where "is_declare tc \<longleftrightarrow> tc_name tc = ''declare_trade''"
definition is_watch :: "tool_call \<Rightarrow> bool" where "is_watch tc \<longleftrightarrow> tc_name tc = ''watch_price_condition''"

text \<open>A gate divides the calls into those it holds back and those it lets pass.\<close>

definition hold_back :: "bool \<Rightarrow> (tool_call \<Rightarrow> bool) \<Rightarrow> tool_call list \<Rightarrow> tool_call list \<times> tool_call list" where
  "hold_back active P calls = (if active then (filter P calls, filter (\<lambda>tc. \<not> P tc) calls) else ([], calls))"

definition heartbeat_gate :: "agent_world \<Rightarrow> pyfloat \<Rightarrow> agent_state \<Rightarrow> bool res" where
  "heartbeat_gate w now s = (if ag_last_resume_kind s = Some RESUME_HEARTBEAT \<and> \<not> core_acquisition_resolved (ag_messages s)
     then rbind (termination_reason (hunt_state s) (aw_cfg w) (PFloat now)) (\<lambda>r. Inr (r = None)) else Inr False)"

text \<open>One call at the re-arm gate: suppressed, or passed on, a watch with its invalidation floored.\<close>

definition rearm_call :: "fingerprint \<Rightarrow> pyval \<Rightarrow> tool_call \<Rightarrow> tool_call option res" where
  "rearm_call prior atr tc = (if \<not> is_watch tc then Inr (Some tc)
     else rbind (is_rearm_unchanged (fingerprint_dict prior) (PDict (tc_args tc)) atr) (\<lambda>same.
       if same then Inr None
       else rbind (volatility_floored_invalidation (dict_get (tc_args tc) ''direction'') (dict_get (tc_args tc) ''price_level'')
           (dict_get (tc_args tc) ''invalidation_level'') atr) (\<lambda>floored.
         Inr (Some (case floored of None \<Rightarrow> tc
           | Some l \<Rightarrow> tc\<lparr>tc_args := dict_put (tc_args tc) ''invalidation_level'' (PFloat l)\<rparr>)))))"

definition rearm_calls :: "fingerprint \<Rightarrow> pyval \<Rightarrow> tool_call list \<Rightarrow> (tool_call list \<times> tool_call list) res" where
  "rearm_calls prior atr calls = rfold (\<lambda>(suppressed, retained) tc. rbind (rearm_call prior atr tc) (\<lambda>r.
     Inr (case r of None \<Rightarrow> (suppressed @ [tc], retained) | Some tc' \<Rightarrow> (suppressed, retained @ [tc'])))) ([], []) calls"

definition rearm_gate :: "agent_world \<Rightarrow> agent_state \<Rightarrow> tool_call list \<Rightarrow> (tool_call list \<times> tool_call list) res" where
  "rearm_gate w s calls = (case (ag_postmortem_pending s, ag_prior_thesis s) of
     (True, Some prior) \<Rightarrow> rbind (latest_atr (aw_parse w) (ag_messages s)) (\<lambda>atr. rearm_calls prior atr calls)
   | _ \<Rightarrow> Inr ([], calls))"

definition failed_answer :: "chat_message \<Rightarrow> tool_call \<Rightarrow> chat_message" where
  "failed_answer m tc = tool_message (if tc_name tc = [] then ''unknown_tool'' else tc_name tc) (tc_id tc)
     (case last_value (cm_synthetic m) (tc_id tc) of Some t \<Rightarrow> t
      | None \<Rightarrow> ''Tool-call error: '' @ quoted 39 (tc_name tc) @ '' could not be executed.'')"

definition suppressed_note :: string where
  "suppressed_note = ''watch_price_condition suppressed: this re-arms the SAME thesis (symbol / timeframe / direction / level) that was just invalidated. Do NOT blindly re-arm the failed setup - change the structure, timeframe, or tier, or stand aside. Re-analyze before proposing a materially different watch.''"

definition research_note :: string where
  "research_note = ''declare_trade suppressed during the research phase: the Research_Phase gathers the shared evidence base only and never commits a trade. The Judge will commit the trade after the Bull/Bear debate weighs this evidence. Stop declaring and conclude your evidence gathering.''"

definition blocked_note :: "bool \<Rightarrow> string" where
  "blocked_note attempted = (if attempted
     then ''declare_trade not committed: required market data for a directional decision is unavailable (market-data tools were called but failed or returned no usable data). Finalizing HOLD due to the data limitation.''
     else ''declare_trade rejected: no market-data tool has returned data yet in this run. You MUST call at least one market-data tool (e.g. get_multi_tf_trend or get_consensus_report) and review its result before declaring a trade. Continue your analysis.'')"

definition heartbeat_note :: "agent_state \<Rightarrow> string" where
  "heartbeat_note s = ''declare_trade not committed: this stand-aside HOLD was proposed on a heartbeat wake before your core data acquisition finished. Core tools still unresolved: ''
     @ join_with '', '' (sort (filter (\<lambda>t. \<not> tool_resolved (ag_messages s) t) CORE_DATA_TOOL_NAMES))
     @ ''. Finish acquiring these core tools (or confirm each is explicitly unavailable) before committing a terminal HOLD, then re-declare. Continue your analysis.''"

definition answers :: "string \<Rightarrow> string \<Rightarrow> tool_call list \<Rightarrow> chat_message list" where
  "answers name note calls = map (\<lambda>tc. tool_message name (tc_id tc) note) calls"

subsubsection \<open>A watch that came back\<close>

definition watch_result :: "string \<Rightarrow> chat_message \<Rightarrow> bool" where
  "watch_result mark m \<longleftrightarrow> is_tool_message m \<and> cm_name m = Some ''watch_price_condition''
     \<and> (case cm_content m of None \<Rightarrow> False | Some t \<Rightarrow> starts_with mark t)"

definition INVALIDATED :: string where "INVALIDATED = ''Setup INVALIDATED''"
definition HEARTBEAT :: string where "HEARTBEAT = ''Heartbeat check''"

definition record_resume :: "agent_world \<Rightarrow> agent_state \<Rightarrow> chat_message list \<Rightarrow> agent_state res" where
  "record_resume w s out = (case find (\<lambda>m. watch_result INVALIDATED m \<or> watch_result HEARTBEAT m) out of
     None \<Rightarrow> Inr s
   | Some m \<Rightarrow> if watch_result INVALIDATED m
       then rbind (thesis_fingerprint (PDict (latest_watch_args (ag_messages s)))) (\<lambda>fp.
         Inr (s\<lparr>ag_postmortem_pending := True, ag_prior_thesis := Some fp,
           ag_invalidation_count := ag_invalidation_count s + 1, ag_watch_cycles := ag_watch_cycles s + 1,
           ag_last_resume_kind := Some RESUME_INVALIDATION\<rparr>))
       else rbind (account_heartbeat (hunt_state s) (aw_cfg w)) (\<lambda>a.
         Inr (s\<lparr>ag_heartbeat_count := ha_heartbeat_count a, ag_session_turns := ha_session_turns a,
           ag_last_resume_kind := Some RESUME_HEARTBEAT,
           ag_best_current_read := (case aw_read w s of None \<Rightarrow> ag_best_current_read s | r \<Rightarrow> r)\<rparr>)))"

subsubsection \<open>Decisions\<close>

definition hold_base :: "string \<Rightarrow> string \<Rightarrow> string \<Rightarrow> string \<Rightarrow> pydict" where
  "hold_base reason validation plan src = [(''action'', PStr ''HOLD''), (''conviction_score'', PInt 0),
     (''reason'', PStr reason), (''setup_validation'', PStr validation), (''execution_plan'', PStr plan), (''source'', PStr src)]"

definition data_gate_hold :: pydict where
  "data_gate_hold = hold_base ''directional-data-unavailable''
     ''Required market data for a directional decision is unavailable; market-data tools were called but failed or returned no usable data. Holding to preserve capital rather than trade on assumptions.''
     ''HOLD - no trade taken due to a data limitation.'' ''data_gating''"

definition summary_message :: "string list \<Rightarrow> pydict \<Rightarrow> chat_message" where
  "summary_message keys d = plain_message ''ai'' (json_text (PDict (map (\<lambda>k. (k, dict_get d k)) keys)))"

definition SUMMARY_KEYS :: "string list" where
  "SUMMARY_KEYS = [''conviction_score'', ''setup_validation'', ''execution_plan'']"

text \<open>How the tools' turn ends, given what the gates held back, the calls that ran and their answers.\<close>

definition close_tools ::
    "agent_world \<Rightarrow> agent_state \<Rightarrow> agent_state \<Rightarrow> tool_call list \<Rightarrow> tool_call list \<Rightarrow> tool_call list
      \<Rightarrow> tool_call list \<Rightarrow> chat_message list \<Rightarrow> agent_state res" where
  "close_tools w s s' research blocked heartbeats passed out =
     (if research \<noteq> [] then
        Inr (add_messages (out @ answers ''declare_trade'' research_note research) (s'\<lparr>ag_phase := Some ''debate''\<rparr>))
      else if blocked \<noteq> [] then
        (let attempted = market_data_attempted (ag_messages s); notes = answers ''declare_trade'' (blocked_note attempted) blocked;
             d = aw_finalize w s data_gate_hold
         in Inr (if attempted then add_messages (out @ notes @ [summary_message SUMMARY_KEYS d]) (s'\<lparr>ag_decision := Some d\<rparr>)
              else add_messages (out @ notes) s'))
      else if heartbeats \<noteq> [] then
        Inr (add_messages (out @ answers ''declare_trade'' (heartbeat_note s) heartbeats) s')
      else rbind (decision_from_declare passed) (\<lambda>d. Inr (add_messages out (case d of
          None \<Rightarrow> s'
        | Some dec \<Rightarrow> if declare_was_rejected out then s' else s'\<lparr>ag_decision := Some (aw_finalize w s dec)\<rparr>))))"

text \<open>\<open>invoke\<close> gives the results of the calls that are run, in one batch.\<close>

definition tool_node ::
    "agent_world \<Rightarrow> (tool_call list \<Rightarrow> chat_message list) \<Rightarrow> pyfloat \<Rightarrow> agent_state \<Rightarrow> agent_state res" where
  "tool_node w invoke now s =
     rbind (last_message s) (\<lambda>m.
      let (research, calls1) = hold_back (ag_phase s = Some ''research'') is_declare (ok_calls_of m);
          (blocked, calls2) = hold_back (\<not> ag_market_data_seen s) is_declare calls1
      in rbind (heartbeat_gate w now s) (\<lambda>gated.
         let (heartbeats, calls3) = hold_back gated (\<lambda>tc. is_declare tc \<and> \<not> declare_is_directional (tc_args tc)) calls2
         in rbind (rearm_gate w s calls3) (\<lambda>(suppressed, passed).
            let out = (if passed = [] then [] else invoke passed) @ map (failed_answer m) (failed_calls_of m)
                  @ answers ''watch_price_condition'' suppressed_note suppressed
            in rbind (record_resume w s out) (\<lambda>s'. close_tools w s s' research blocked heartbeats passed out))))"

subsection \<open>Routing\<close>

datatype route = Continue | Suspend | LoopAgent | ForceHold | ForceTerminal | DebateHandoff | EndRun

definition decided :: "agent_state \<Rightarrow> bool" where
  "decided s \<longleftrightarrow> (case ag_decision s of None \<Rightarrow> False | Some d \<Rightarrow> d \<noteq> [])"

definition should_continue :: "agent_world \<Rightarrow> env \<Rightarrow> pyfloat \<Rightarrow> agent_state \<Rightarrow> route res" where
  "should_continue w env now s =
     rbind (last_message s) (\<lambda>m.
      if cm_calls m \<noteq> [] then
        (if list_ex is_watch (ok_calls_of m)
         then rbind (termination_reason (hunt_state s) (aw_cfg w) (PFloat now)) (\<lambda>r.
           Inr (if r \<noteq> None then ForceTerminal else Suspend))
         else Inr Continue)
      else if decided s then Inr EndRun
      else rbind (session_budget_exhausted (hunt_state s) (aw_cfg w) (PFloat now)) (\<lambda>spent.
        Inr (if spent then ForceTerminal
          else if ag_reasoning_turns s < resolve_max_reasoning_turns env then LoopAgent
          else if ag_phase s \<in> {Some ''research'', Some ''debate''} then DebateHandoff else ForceHold)))"

definition route_after_tools :: "agent_state \<Rightarrow> route" where
  "route_after_tools s = (if decided s then EndRun else if ag_phase s = Some ''debate'' then DebateHandoff else LoopAgent)"

subsection \<open>Forced endings\<close>

definition force_hold_base :: pydict where
  "force_hold_base = hold_base ''no-decision-reached''
     ''Reasoning budget exhausted without a validated A+ setup. Holding to preserve capital rather than force a low-conviction trade.''
     ''HOLD - no trade taken.'' ''forced_hold''"

definition read_bits :: "pydict \<Rightarrow> string list" where
  "read_bits r = (case dict_get r ''bias'' of PStr (c # cs) \<Rightarrow> [''directional bias '' @ c # cs] | _ \<Rightarrow> [])
     @ (case dict_get r ''levels'' of PDict (l # ls) \<Rightarrow> [''key reference levels ('' @ join_with '', ''
          (map (\<lambda>(k, v). k @ ''='' @ py_str v) (l # ls)) @ '')''] | _ \<Rightarrow> [])
     @ (case dict_get r ''why_standing_aside'' of PStr t \<Rightarrow> if py_strip t \<noteq> [] then [py_strip t] else [] | _ \<Rightarrow> [])"

text \<open>The interim read, when the completed decision has one, goes into the texts of the forced HOLD.\<close>

definition surface_read :: "pydict \<Rightarrow> pydict" where
  "surface_read d = (case dict_get d ''best_current_read'' of
     PDict r \<Rightarrow> (if read_bits r = [] then d
       else case dict_get d ''setup_validation'' of
         PStr v \<Rightarrow> dict_put (dict_put d ''setup_validation'' (PStr (v @ '' Best_Current_Read: '' @ join_with ''; '' (read_bits r) @ ''.'')))
           ''execution_plan'' (PStr (''HOLD - no trade taken; standing aside with a directional read (''
             @ (case dict_get r ''bias'' of PStr (c # cs) \<Rightarrow> c # cs | _ \<Rightarrow> ''neutral'') @ ''). No entry/stop/target committed.''))
       | _ \<Rightarrow> d)
   | _ \<Rightarrow> d)"

definition force_hold :: "agent_world \<Rightarrow> agent_state \<Rightarrow> agent_state" where
  "force_hold w s = (let d = surface_read (aw_finalize w s force_hold_base) in
     add_messages [summary_message (SUMMARY_KEYS @ [''best_current_read'']) d] (s\<lparr>ag_decision := Some d\<rparr>))"

definition terminal_note :: "string \<Rightarrow> string" where
  "terminal_note reason = ''watch_price_condition not registered: the bounded hunt is exhausted ('' @ reason
     @ ''). Committing a terminal stand-aside decision with the current best read rather than arming another watch.''"

definition terminal_base :: "string \<Rightarrow> pydict" where
  "terminal_base reason = hold_base reason (''Bounded hunt exhausted ('' @ reason
       @ '') without a committed A+/tiered setup. Standing aside to preserve capital rather than re-arm another watch.'')
     ''HOLD - stand aside; bounded hunt reached its Watch_Cap / Session_Budget.'' ''force_terminal''"

definition force_terminal :: "agent_world \<Rightarrow> pyfloat \<Rightarrow> agent_state \<Rightarrow> agent_state res" where
  "force_terminal w now s = rbind (termination_reason (hunt_state s) (aw_cfg w) (PFloat now)) (\<lambda>r.
     rbind (last_message s) (\<lambda>m.
     let reason = (case r of None \<Rightarrow> ''bounded-hunt-exhausted'' | Some t \<Rightarrow> t);
         d = aw_finalize w s (terminal_base reason)
     in Inr (add_messages (answers ''watch_price_condition'' (terminal_note reason) (filter is_watch (ok_calls_of m))
         @ [summary_message SUMMARY_KEYS d]) (s\<lparr>ag_decision := Some d\<rparr>))))"

subsection \<open>The graph of an analysis\<close>

datatype node = AgentNode | ToolsNode | HoldNode | TerminalNode | BullNode | BearNode | JudgeNode | Finished

fun target :: "route \<Rightarrow> node" where
  "target Continue = ToolsNode"
| "target Suspend = ToolsNode"
| "target LoopAgent = AgentNode"
| "target ForceHold = HoldNode"
| "target ForceTerminal = TerminalNode"
| "target DebateHandoff = BullNode"
| "target EndRun = Finished"

text \<open>One node and the choice of the next. The model's answer, the results and the clock are free.\<close>

inductive agent_step :: "agent_world \<Rightarrow> env \<Rightarrow> node \<times> agent_state \<Rightarrow> node \<times> agent_state \<Rightarrow> bool"
  for w :: agent_world and env :: env where
  model: "call_model w now s content calls advocate = Inr s' \<Longrightarrow> should_continue w env later s' = Inr r
    \<Longrightarrow> agent_step w env (AgentNode, s) (target r, s')"
| tools: "tool_node w invoke now s = Inr s' \<Longrightarrow> agent_step w env (ToolsNode, s) (target (route_after_tools s'), s')"
| hold: "agent_step w env (HoldNode, s) (Finished, force_hold w s)"
| terminal: "force_terminal w now s = Inr s' \<Longrightarrow> agent_step w env (TerminalNode, s) (Finished, s')"

inductive_cases agent_stepE: "agent_step w env (n, s) x"

end
