(* ===== verification/QaLoop.thy ===== *)
theory QaLoop
  imports AgentLoop
begin

text \<open>
  \<open>graph.py\<close>: the questions about a finished or paused analysis. A question runs its own small loop
  on the state of the thread: the model answers or asks for data, a forbidden tool is refused, and
  the sub-agents are run apart from the executor. The detector of questions about the user's own
  finances, the answers of the sub-agents and what the model answers are arguments.
\<close>

definition MAX_QA_TURNS :: int where "MAX_QA_TURNS = 8"

definition QA_FORBIDDEN_TOOLS :: "string list" where
  "QA_FORBIDDEN_TOOLS = [''declare_trade'', ''watch_price_condition'']"

definition QA_SUBAGENT_TOOLS :: "string list" where
  "QA_SUBAGENT_TOOLS = [''run_debate'', ''rerun_analysis'']"

definition latest_user_question :: "chat_message list \<Rightarrow> string" where
  "latest_user_question msgs = (case find is_human_message (rev msgs) of None \<Rightarrow> []
     | Some m \<Rightarrow> (case cm_content m of None \<Rightarrow> [] | Some t \<Rightarrow> t))"

definition qa_status :: "extracted_call \<Rightarrow> string" where
  "qa_status c = (if ok_status c \<and> ec_name c \<in> set QA_FORBIDDEN_TOOLS then ''qa_forbidden'' else ec_status c)"

definition qa_feedback :: "extracted_call \<Rightarrow> string" where
  "qa_feedback c = (if qa_status c = ''qa_forbidden''
     then quoted 39 (ec_name c) @ '' is disabled in Trade Q&A mode: the committed trade is immutable here. Answer the user's question using the recorded analysis context instead.''
     else synthetic_failure_content c)"

definition qa_response :: "string \<Rightarrow> extracted_call list \<Rightarrow> chat_message" where
  "qa_response content calls = (plain_message ''ai'' content)\<lparr>cm_calls := map message_call calls,
     cm_statuses := map (\<lambda>c. (ec_id c, qa_status c)) calls,
     cm_synthetic := map (\<lambda>c. (ec_id c, qa_feedback c)) (filter (\<lambda>c. qa_status c \<noteq> ''ok'') calls)\<rparr>"

text \<open>The last turn of the budget is answered without tools bound to the model.\<close>

definition is_final_qa_turn :: "agent_state \<Rightarrow> bool" where
  "is_final_qa_turn s \<longleftrightarrow> MAX_QA_TURNS - 1 \<le> ag_qa_turns s"

text \<open>\<open>detect\<close> gives the text of the refusal; \<open>model\<close> answers with or without tools bound.\<close>

definition qa_node ::
    "(string \<Rightarrow> string option) \<Rightarrow> (bool \<Rightarrow> string \<times> extracted_call list) \<Rightarrow> agent_state \<Rightarrow> agent_state" where
  "qa_node detect model s = (let s' = s\<lparr>ag_qa_turns := ag_qa_turns s + 1\<rparr> in
     case detect (latest_user_question (ag_messages s)) of
       Some refusal \<Rightarrow> add_messages [plain_message ''ai'' refusal] s'
     | None \<Rightarrow> (case model (\<not> is_final_qa_turn s) of (content, calls) \<Rightarrow> add_messages [qa_response content calls] s'))"

definition is_subagent :: "tool_call \<Rightarrow> bool" where
  "is_subagent tc \<longleftrightarrow> tc_name tc \<in> set QA_SUBAGENT_TOOLS"

definition qa_failed_answer :: "chat_message \<Rightarrow> tool_call \<Rightarrow> chat_message" where
  "qa_failed_answer m tc = tool_message (if tc_name tc = [] then ''unknown_tool'' else tc_name tc) (tc_id tc)
     (case last_value (cm_synthetic m) (tc_id tc) of Some t \<Rightarrow> t
      | None \<Rightarrow> ''Tool-call '' @ quoted 39 (tc_name tc) @ '' could not be executed in Q&A mode.'')"

text \<open>The calls that are handed to the executor.\<close>

definition qa_executed :: "chat_message \<Rightarrow> tool_call list" where
  "qa_executed m = filter (\<lambda>tc. \<not> is_subagent tc) (ok_calls_of m)"

definition qa_tool_node ::
    "(tool_call list \<Rightarrow> chat_message list) \<Rightarrow> (string \<Rightarrow> pydict \<Rightarrow> agent_state \<Rightarrow> string) \<Rightarrow> agent_state \<Rightarrow> agent_state res" where
  "qa_tool_node invoke subagent s = rbind (last_message s) (\<lambda>m.
     Inr (add_messages ((if qa_executed m = [] then [] else invoke (qa_executed m))
       @ map (\<lambda>tc. tool_message (tc_name tc) (tc_id tc) (subagent (tc_name tc) (tc_args tc) s)) (filter is_subagent (ok_calls_of m))
       @ map (qa_failed_answer m) (failed_calls_of m)) s))"

definition qa_should_continue :: "agent_state \<Rightarrow> bool res" where
  "qa_should_continue s = rbind (last_message s) (\<lambda>m. Inr (cm_calls m \<noteq> [] \<and> ag_qa_turns s < MAX_QA_TURNS))"

text \<open>A question: the nodes that follow one another until the routing ends the run. \<open>fuel\<close> bounds the
  rounds; a budget of turns is always enough, as is proved.\<close>

fun qa_loop :: "(string \<Rightarrow> string option) \<Rightarrow> (nat \<Rightarrow> bool \<Rightarrow> string \<times> extracted_call list)
    \<Rightarrow> (nat \<Rightarrow> tool_call list \<Rightarrow> chat_message list) \<Rightarrow> (string \<Rightarrow> pydict \<Rightarrow> agent_state \<Rightarrow> string)
    \<Rightarrow> nat \<Rightarrow> agent_state \<Rightarrow> agent_state option" where
  "qa_loop detect model invoke subagent 0 s = None"
| "qa_loop detect model invoke subagent (Suc fuel) s = (let s' = qa_node detect (model fuel) s in
     case qa_should_continue s' of
       Inr True \<Rightarrow> (case qa_tool_node (invoke fuel) subagent s' of Inr t \<Rightarrow> qa_loop detect model invoke subagent fuel t | Inl _ \<Rightarrow> None)
     | Inr False \<Rightarrow> Some s'
     | Inl _ \<Rightarrow> None)"

text \<open>What a question adds to the thread.\<close>

definition ask :: "string \<Rightarrow> agent_state \<Rightarrow> agent_state" where
  "ask question s = add_messages [plain_message ''human'' question] (s\<lparr>ag_mode := Some ''QA''\<rparr>)"

end
