(* ===== verification/AgentLoopFacts.thy ===== *)
theory AgentLoopFacts
  imports AgentLoop "HOL-Library.Multiset"
begin

text \<open>
  What the nodes and the routing of an analysis guarantee, and what they do not: every call of a
  message is answered once, a decision comes from a declared trade or a stated HOLD, the turns of
  a hunt that wait on a watch and the turns of pure reasoning are bounded, while tool calls are not.
\<close>


subsection \<open>The tools' turn\<close>

lemma messages_add [simp]: "ag_messages (add_messages ms s) = ag_messages s @ ms"
  by (simp add: add_messages_def)

lemma add_fields [simp]:
  "ag_decision (add_messages ms s) = ag_decision s" "ag_phase (add_messages ms s) = ag_phase s"
  "ag_watch_cycles (add_messages ms s) = ag_watch_cycles s" "ag_session_turns (add_messages ms s) = ag_session_turns s"
  "ag_postmortem_pending (add_messages ms s) = ag_postmortem_pending s" "ag_prior_thesis (add_messages ms s) = ag_prior_thesis s"
  "ag_reasoning_turns (add_messages ms s) = ag_reasoning_turns s" "ag_market_data_seen (add_messages ms s) = ag_market_data_seen s"
  "ag_session_started_at (add_messages ms s) = ag_session_started_at s" "ag_qa_turns (add_messages ms s) = ag_qa_turns s"
  "ag_heartbeat_count (add_messages ms s) = ag_heartbeat_count s" "ag_last_resume_kind (add_messages ms s) = ag_last_resume_kind s"
  "ag_mode (add_messages ms s) = ag_mode s" "hunt_state (add_messages ms s) = hunt_state s"
  by (simp_all add: add_messages_def hunt_state_def)

lemma last_message_Inr [simp]: "last_message s = Inr m \<longleftrightarrow> (\<exists>ms. ag_messages s = ms @ [m])"
  by (cases "ag_messages s" rule: rev_cases) (auto simp: last_message_def)

text \<open>What a turn of the tools consists of.\<close>

definition ran_calls :: "(tool_call list \<Rightarrow> chat_message list) \<Rightarrow> tool_call list \<Rightarrow> chat_message list" where
  "ran_calls invoke passed = (if passed = [] then [] else invoke passed)"

lemma tool_nodeE:
  assumes "tool_node w invoke now s = Inr t"
  obtains ms m research calls1 blocked calls2 gated heartbeats calls3 suppressed passed out s' where
    "ag_messages s = ms @ [m]"
    "hold_back (ag_phase s = Some ''research'') is_declare (ok_calls_of m) = (research, calls1)"
    "hold_back (\<not> ag_market_data_seen s) is_declare calls1 = (blocked, calls2)"
    "heartbeat_gate w now s = Inr gated"
    "hold_back gated (\<lambda>tc. is_declare tc \<and> \<not> declare_is_directional (tc_args tc)) calls2 = (heartbeats, calls3)"
    "rearm_gate w s calls3 = Inr (suppressed, passed)"
    "out = ran_calls invoke passed @ map (failed_answer m) (failed_calls_of m)
       @ answers ''watch_price_condition'' suppressed_note suppressed"
    "record_resume w s out = Inr s'"
    "close_tools w s s' research blocked heartbeats passed out = Inr t"
proof -
  obtain ms m where m: "ag_messages s = ms @ [m]"
    using assms by (auto simp: tool_node_def rbind_eq_Inr)
  obtain research calls1 where 1: "hold_back (ag_phase s = Some ''research'') is_declare (ok_calls_of m) = (research, calls1)" by fastforce
  obtain blocked calls2 where 2: "hold_back (\<not> ag_market_data_seen s) is_declare calls1 = (blocked, calls2)" by fastforce
  obtain gated where 3: "heartbeat_gate w now s = Inr gated"
    using assms m 1 2 by (auto simp: tool_node_def rbind_eq_Inr Let_def)
  obtain heartbeats calls3 where 4: "hold_back gated (\<lambda>tc. is_declare tc \<and> \<not> declare_is_directional (tc_args tc)) calls2 = (heartbeats, calls3)" by fastforce
  have l: "last_message s = Inr m" using m by simp
  obtain suppressed passed where 5: "rearm_gate w s calls3 = Inr (suppressed, passed)"
    using assms 1 2 3 4 unfolding tool_node_def l by (auto simp: rbind_eq_Inr Let_def)
  show ?thesis
    using assms that [OF m 1 2 3 4 5 refl] 1 2 3 4 5 unfolding tool_node_def l ran_calls_def
    by (auto simp: rbind_eq_Inr Let_def)
qed

lemma heartbeat_turns:
  assumes "account_heartbeat (hunt_state s) cfg = Inr a" shows "ag_session_turns s \<le> ha_session_turns a"
  using assms by (auto simp: account_heartbeat_def hunt_state_def as_dict_def coerce_count_def finite_number_def dict_get_def
      rbind_eq_Inr Let_def split: if_splits sum.splits)

lemma record_resume_cases:
  assumes "record_resume w s out = Inr s'"
  shows "ag_messages s' = ag_messages s \<and> ag_decision s' = ag_decision s \<and> ag_phase s' = ag_phase s
    \<and> ag_watch_cycles s \<le> ag_watch_cycles s' \<and> ag_reasoning_turns s' = ag_reasoning_turns s
    \<and> ag_session_turns s \<le> ag_session_turns s'
    \<and> (ag_postmortem_pending s \<longrightarrow> ag_postmortem_pending s') \<and> (ag_prior_thesis s \<noteq> None \<longrightarrow> ag_prior_thesis s' \<noteq> None)"
  using assms by (auto simp: record_resume_def rbind_eq_Inr heartbeat_turns split: option.splits if_splits)

lemma close_tools_messages:
  assumes "close_tools w s s' research blocked heartbeats passed out = Inr t" and "ag_messages s' = ag_messages s"
  shows "\<exists>rest. ag_messages t = ag_messages s @ out @ rest"
  using assms by (auto simp: close_tools_def Let_def rbind_eq_Inr split: if_splits option.splits)

subsubsection \<open>Every call is answered\<close>

definition call_ids :: "tool_call list \<Rightarrow> string multiset" where
  "call_ids calls = mset (map tc_id calls)"

definition answered_ids :: "chat_message list \<Rightarrow> string multiset" where
  "answered_ids msgs = mset (List.map_filter cm_answers msgs)"

lemma call_ids_append [simp]: "call_ids (a @ b) = call_ids a + call_ids b" "call_ids [] = {#}" "call_ids (c # a) = add_mset (tc_id c) (call_ids a)"
  by (simp_all add: call_ids_def)

lemma answered_append [simp]: "answered_ids (a @ b) = answered_ids a + answered_ids b" "answered_ids [] = {#}"
  by (simp_all add: answered_ids_def map_filter_def)

lemma answered_notes [simp]: "answered_ids (answers name note calls) = call_ids calls"
  by (induction calls) (simp_all add: answers_def answered_ids_def map_filter_simps tool_message_def)

lemma answered_failed [simp]: "answered_ids (map (failed_answer m) calls) = call_ids calls"
  by (induction calls) (simp_all add: answered_ids_def map_filter_simps failed_answer_def tool_message_def)

lemma answered_plain [simp]: "answered_ids [summary_message ks d] = {#}"
  by (simp add: answered_ids_def map_filter_simps summary_message_def plain_message_def)

lemma hold_back_ids: "hold_back active P calls = (held, rest) \<Longrightarrow> call_ids calls = call_ids held + call_ids rest"
  by (auto simp: hold_back_def call_ids_def image_mset_filter_mset_swap [symmetric] mset_map mset_filter simp flip: image_mset_union split: if_splits)

lemma status_ids: "call_ids (cm_calls m) = call_ids (ok_calls_of m) + call_ids (failed_calls_of m)"
  using hold_back_ids [of True "\<lambda>tc. call_status m tc = ''ok''" "cm_calls m"]
  by (simp add: hold_back_def ok_calls_of_def failed_calls_of_def)

lemma rearm_call_id: "rearm_call prior atr tc = Inr (Some tc') \<Longrightarrow> tc_id tc' = tc_id tc \<and> tc_name tc' = tc_name tc"
  by (auto simp: rearm_call_def rbind_eq_Inr split: if_splits option.splits)

lemma rearm_calls_ids:
  assumes "rearm_calls prior atr calls = Inr (suppressed, passed)"
  shows "call_ids calls = call_ids suppressed + call_ids passed
    \<and> (\<forall>tc \<in> set passed. is_declare tc \<longrightarrow> tc \<in> set calls)"
proof -
  let ?step = "\<lambda>(sup, ret) tc. rbind (rearm_call prior atr tc) (\<lambda>r. Inr (case r of None \<Rightarrow> (sup @ [tc], ret) | Some tc' \<Rightarrow> (sup, ret @ [tc'])))"
  have "rfold ?step (sup, ret) calls = Inr (suppressed, passed) \<Longrightarrow>
      call_ids sup + call_ids ret + call_ids calls = call_ids suppressed + call_ids passed
      \<and> (\<forall>tc \<in> set passed. is_declare tc \<longrightarrow> tc \<in> set ret \<union> set calls)" for sup ret
  proof (induction calls arbitrary: sup ret)
    case (Cons c calls)
    then obtain r where r: "rearm_call prior atr c = Inr r"
      "rfold ?step (case r of None \<Rightarrow> (sup @ [c], ret) | Some c' \<Rightarrow> (sup, ret @ [c'])) calls = Inr (suppressed, passed)"
      by (auto simp: rbind_eq_Inr)
    show ?case
    proof (cases r)
      case None
      then show ?thesis using Cons.IH [of "sup @ [c]" ret] r(2) by auto
    next
      case (Some c')
      have "is_declare c' \<Longrightarrow> c' = c"
        using r(1) Some by (auto simp: rearm_call_def rbind_eq_Inr is_declare_def is_watch_def split: if_splits option.splits)
      then show ?thesis using Cons.IH [of sup "ret @ [c']"] r rearm_call_id [of prior atr c c'] Some by auto
    qed
  qed auto
  from this [of "[]" "[]"] show ?thesis using assms by (simp add: rearm_calls_def)
qed

lemma rearm_gate_ids:
  assumes "rearm_gate w s calls = Inr (suppressed, passed)"
  shows "call_ids calls = call_ids suppressed + call_ids passed \<and> (\<forall>tc \<in> set passed. is_declare tc \<longrightarrow> tc \<in> set calls)"
  using assms rearm_calls_ids by (auto simp: rearm_gate_def rbind_eq_Inr split: bool.splits option.splits)

text \<open>C29: The tools' turn answers every call of the agent's message exactly once, whichever gates hold calls back and
  whatever failed to parse, provided that the executor answers every call that it is given.\<close>

theorem every_call_answered:
  assumes "tool_node w invoke now s = Inr t" and "ag_messages s = ms @ [m]"
    and "\<And>calls. answered_ids (invoke calls) = call_ids calls"
  shows "\<exists>out. ag_messages t = ag_messages s @ out \<and> answered_ids out = call_ids (cm_calls m)"
  using assms(1)
proof (cases rule: tool_nodeE)
  case (1 ms' m' research calls1 blocked calls2 gated heartbeats calls3 suppressed passed out s')
  have m: "m' = m" using 1(1) assms(2) by simp
  have ran: "answered_ids (ran_calls invoke passed) = call_ids passed" using assms(3) by (simp add: ran_calls_def)
  have ids: "call_ids (cm_calls m) = call_ids research + call_ids blocked + call_ids heartbeats + answered_ids out"
    using hold_back_ids [OF 1(2)] hold_back_ids [OF 1(3)] hold_back_ids [OF 1(5)] rearm_gate_ids [OF 1(6)]
    by (simp add: status_ids 1(7) ran m)
  have b: "blocked = []" if "research \<noteq> []"
    using that 1(2,3) by (auto simp: hold_back_def split: if_splits)
  have h: "heartbeats = []" if "research \<noteq> [] \<or> blocked \<noteq> []"
    using that 1(2,3,5) by (auto simp: hold_back_def filter_empty_conv split: if_splits)
  show ?thesis
    using 1(9) record_resume_cases [OF 1(8)] ids b h
    by (auto simp: close_tools_def Let_def rbind_eq_Inr split: if_splits option.splits)
qed



subsubsection \<open>Decisions\<close>

lemma declare_source:
  assumes "decision_from_declare calls = Inr (Some d)"
  shows "\<exists>tc \<in> set calls. is_declare tc \<and> dict_get d ''action'' = PStr (declared_action (dict_get (tc_args tc) ''action''))"
proof -
  obtain tc rest where tc: "filter (\<lambda>tc. tc_name tc = ''declare_trade'') calls = tc # rest"
    using assms by (cases "filter (\<lambda>tc. tc_name tc = ''declare_trade'') calls") (auto simp: decision_from_declare_def)
  then have "tc \<in> set calls" "is_declare tc"
    by (auto simp: is_declare_def filter_eq_Cons_iff)
  moreover have "dict_get d ''action'' = PStr (declared_action (dict_get (tc_args tc) ''action''))"
    using assms by (auto simp: decision_from_declare_def tc Let_def rbind_eq_Inr dict_get_def)
  ultimately show ?thesis by blast
qed

lemma passed_declares:
  assumes "hold_back (ag_phase s = Some ''research'') is_declare calls = (research, calls1)"
    and "hold_back (\<not> ag_market_data_seen s) is_declare calls1 = (blocked, calls2)"
    and "hold_back gated P calls2 = (heartbeats, calls3)" and "tc \<in> set calls3" and "is_declare tc"
  shows "tc \<in> set calls \<and> ag_market_data_seen s \<and> ag_phase s \<noteq> Some ''research''"
  using assms by (auto simp: hold_back_def split: if_splits)

lemma close_tools_decides:
  assumes "close_tools w s s' research blocked heartbeats passed out = Inr t" and "ag_decision t \<noteq> ag_decision s'"
    and "ag_messages s' = ag_messages s"
  shows "(blocked \<noteq> [] \<and> market_data_attempted (ag_messages s) \<and> ag_decision t = Some (aw_finalize w s data_gate_hold))
    \<or> (\<exists>d. decision_from_declare passed = Inr (Some d) \<and> \<not> declare_was_rejected out
        \<and> ag_decision t = Some (aw_finalize w s d) \<and> ag_messages t = ag_messages s @ out)"
proof (cases "decision_from_declare passed")
  case (Inl e)
  then show ?thesis using assms by (auto simp: close_tools_def Let_def split: if_splits)
next
  case (Inr r)
  then show ?thesis using assms by (cases r) (auto simp: close_tools_def Let_def split: if_splits)
qed

text \<open>C2: A decision comes from nowhere but a declared trade or the data gate: when the tools' turn decides, then
  either usable market data was seen before, the research phase is over, a call of the message that
  parsed declares the action and no answer of the turn carries the rejection mark, or no usable data was
  ever seen in spite of an attempt and the decision is the HOLD that says so.\<close>

theorem decision_is_declared:
  assumes "tool_node w invoke now s = Inr t" and "ag_messages s = ms @ [m]" and "ag_decision t \<noteq> ag_decision s"
  shows "\<exists>d out. ag_decision t = Some (aw_finalize w s d) \<and> ag_messages t = ag_messages s @ out
    \<and> ((d = data_gate_hold \<and> \<not> ag_market_data_seen s \<and> market_data_attempted (ag_messages s))
       \<or> (ag_market_data_seen s \<and> ag_phase s \<noteq> Some ''research'' \<and> \<not> declare_was_rejected out
          \<and> (\<exists>tc \<in> set (cm_calls m). is_declare tc \<and> call_status m tc = ''ok''
              \<and> dict_get d ''action'' = PStr (declared_action (dict_get (tc_args tc) ''action'')))))"
  using assms(1)
proof (cases rule: tool_nodeE)
  case (1 ms' m' research calls1 blocked calls2 gated heartbeats calls3 suppressed passed out s')
  have m: "m' = m" using 1(1) assms(2) by simp
  have s': "ag_messages s' = ag_messages s" "ag_decision s' = ag_decision s" using record_resume_cases [OF 1(8)] by auto
  have blocked: "\<not> ag_market_data_seen s" if "blocked \<noteq> []"
    using that 1(3) by (auto simp: hold_back_def split: if_splits)
  consider (hold) "blocked \<noteq> []" "market_data_attempted (ag_messages s)"
      "ag_decision t = Some (aw_finalize w s data_gate_hold)"
    | (commit) d where "decision_from_declare passed = Inr (Some d)" "\<not> declare_was_rejected out"
      "ag_decision t = Some (aw_finalize w s d)" "ag_messages t = ag_messages s @ out"
    using close_tools_decides [OF 1(9)] assms(3) s' by auto
  then show ?thesis
  proof cases
    case hold
    then show ?thesis using blocked close_tools_messages [OF 1(9) s'(1)] by blast
  next
    case commit
    obtain tc where tc: "tc \<in> set passed" "is_declare tc"
        "dict_get d ''action'' = PStr (declared_action (dict_get (tc_args tc) ''action''))"
      using declare_source [OF commit(1)] by blast
    then have "tc \<in> set calls3" using rearm_gate_ids [OF 1(6)] by blast
    from passed_declares [OF 1(2,3,5) this tc(2)] show ?thesis
      using commit tc by (auto simp: ok_calls_of_def m intro!: exI [of _ d] exI [of _ out])
  qed
qed

text \<open>C6: The validator's word is not needed for a commit: an answer to a declared trade that does not carry the
  rejection mark, such as the executor's report that the arguments of the call were invalid and that
  the tool never ran, lets the declared BUY or SELL become the decision.\<close>

theorem unvalidated_declare_commits:
  assumes "cm_calls m = [tc]" and "call_status m tc = ''ok''" and "is_declare tc" and "ag_messages s = ms @ [m]"
    and "ag_market_data_seen s" and "ag_phase s = None" and "ag_last_resume_kind s = None" and "\<not> ag_postmortem_pending s"
    and "invoke [tc] = [tool_message ''declare_trade'' (tc_id tc) report]" and "\<not> contains ''TRADE_REJECTED'' report"
    and "decision_from_declare [tc] = Inr (Some d)"
  shows "\<exists>t. tool_node w invoke now s = Inr t \<and> ag_decision t = Some (aw_finalize w s d)"
proof -
  have l: "last_message s = Inr m" using assms(4) by simp
  have ok: "ok_calls_of m = [tc]" "failed_calls_of m = []" using assms(1,2) by (simp_all add: ok_calls_of_def failed_calls_of_def)
  have gates: "heartbeat_gate w now s = Inr False" "rearm_gate w s [tc] = Inr ([], [tc])"
    using assms(7,8) by (simp_all add: heartbeat_gate_def rearm_gate_def split: option.split)
  let ?out = "[tool_message ''declare_trade'' (tc_id tc) report]"
  have "record_resume w s ?out = Inr s"
    by (simp add: record_resume_def watch_result_def tool_message_def)
  moreover have "\<not> declare_was_rejected ?out"
    using assms(10) by (simp add: declare_was_rejected_def tool_message_def plain_message_def)
  ultimately show ?thesis
    using assms(5,6,9,11) unfolding tool_node_def l
    by (simp add: hold_back_def ok gates answers_def close_tools_def)
qed

subsection \<open>The bounds of the hunt\<close>

lemma step_messages:
  assumes "call_model w now s content calls advocate = Inr t"
  shows "ag_messages t = ag_messages s @ advocate_part w s advocate @ [response_message content calls]
    \<and> ag_session_turns t = ag_session_turns s + 1 \<and> ag_decision t = ag_decision s \<and> ag_watch_cycles s \<le> ag_watch_cycles t
    \<and> ag_postmortem_pending t = ag_postmortem_pending s \<and> ag_prior_thesis t = ag_prior_thesis s
    \<and> ag_reasoning_turns t = (if calls \<noteq> [] then 0 else ag_reasoning_turns s + 1)"
  using assms by (auto simp: call_model_def rbind_eq_Inr)

lemma tool_step:
  assumes "tool_node w invoke now s = Inr t"
  shows "ag_watch_cycles s \<le> ag_watch_cycles t \<and> (ag_postmortem_pending s \<longrightarrow> ag_postmortem_pending t)
    \<and> (ag_prior_thesis s \<noteq> None \<longrightarrow> ag_prior_thesis t \<noteq> None) \<and> ag_reasoning_turns t = ag_reasoning_turns s
    \<and> ag_session_turns s \<le> ag_session_turns t"
  using assms
proof (cases rule: tool_nodeE)
  case (1 ms m research calls1 blocked calls2 gated heartbeats calls3 suppressed passed out s')
  have "ag_watch_cycles t = ag_watch_cycles s' \<and> ag_postmortem_pending t = ag_postmortem_pending s'
      \<and> ag_prior_thesis t = ag_prior_thesis s' \<and> ag_reasoning_turns t = ag_reasoning_turns s'
      \<and> ag_session_turns t = ag_session_turns s'"
    using 1(9) by (auto simp: close_tools_def Let_def rbind_eq_Inr split: if_splits option.splits)
  then show ?thesis using record_resume_cases [OF 1(8)] by auto
qed

text \<open>The post-mortem is never over: once an invalidation has made it pending, every later state of the analysis
  has it pending, with a thesis that failed, so that the gate goes on refusing the one that failed last, although
  the state documents that the gate clears it.\<close>

theorem postmortem_never_cleared:
  assumes "(agent_step w env)\<^sup>*\<^sup>* (n, s) (n', t)" and "ag_postmortem_pending s" and "ag_prior_thesis s \<noteq> None"
  shows "ag_postmortem_pending t \<and> ag_prior_thesis t \<noteq> None"
proof -
  have step: "agent_step w env x y \<Longrightarrow> ag_postmortem_pending (snd x) \<and> ag_prior_thesis (snd x) \<noteq> None
      \<Longrightarrow> ag_postmortem_pending (snd y) \<and> ag_prior_thesis (snd y) \<noteq> None" for x y
    by (induction rule: agent_step.induct)
      (auto dest!: step_messages tool_step simp: force_hold_def force_terminal_def Let_def rbind_eq_Inr add_messages_def)
  have "ag_postmortem_pending (snd y) \<and> ag_prior_thesis (snd y) \<noteq> None" if "(agent_step w env)\<^sup>*\<^sup>* (n, s) y" for y
    using that by (induction rule: rtranclp_induct) (use assms(2,3) step in auto)
  from this [OF assms(1)] show ?thesis by simp
qed

text \<open>The bounds as the code reads them from the state.\<close>

lemma cap_not_reached:
  assumes "termination_reason (hunt_state s) cfg now = Inr None"
  shows "ag_watch_cycles s < oc_watch_cap cfg \<and> max 0 (ag_session_turns s) < oc_session_max_turns cfg"
  using assms
  by (auto simp: termination_reason_def watch_cap_reached_def session_budget_exhausted_def hunt_state_def as_dict_def
      coerce_count_def cfg_int_def finite_number_def dict_get_def rbind_eq_Inr Let_def split: if_splits)

lemma suspends_below_caps:
  assumes "should_continue w env now s = Inr Suspend"
  shows "ag_watch_cycles s < oc_watch_cap (aw_cfg w) \<and> ag_session_turns s < oc_session_max_turns (aw_cfg w)"
  using assms cap_not_reached [of s "aw_cfg w" "PFloat now"]
  by (auto simp: should_continue_def rbind_eq_Inr split: if_splits)

lemma step_counters:
  assumes "agent_step w env (n, s) x" and "n \<noteq> AgentNode"
  shows "ag_watch_cycles s \<le> ag_watch_cycles (snd x) \<and> ag_session_turns s \<le> ag_session_turns (snd x)"
  using assms by (cases rule: agent_step.cases)
    (auto dest: tool_step simp: force_hold_def force_terminal_def Let_def rbind_eq_Inr add_messages_def)

text \<open>The analysis with two counts of the turns that go on to wait for a watch: the first of those whose first good watch
  states another thesis than the last one, the second of all of them.\<close>

inductive hunt :: "agent_world \<Rightarrow> env \<Rightarrow> agent_state \<Rightarrow> nat \<Rightarrow> nat \<Rightarrow> node \<times> agent_state \<Rightarrow> bool"
  for w :: agent_world and env :: env and s0 :: agent_state where
  start: "hunt w env s0 0 0 (AgentNode, s0)"
| wait: "hunt w env s0 new all (AgentNode, s) \<Longrightarrow> call_model w now s content calls advocate = Inr t
    \<Longrightarrow> should_continue w env later t = Inr Suspend
    \<Longrightarrow> hunt w env s0 (if ag_watch_cycles s < ag_watch_cycles t then new + 1 else new) (all + 1) (target Suspend, t)"
| turn: "hunt w env s0 new all (AgentNode, s) \<Longrightarrow> call_model w now s content calls advocate = Inr t
    \<Longrightarrow> should_continue w env later t = Inr r \<Longrightarrow> r \<noteq> Suspend \<Longrightarrow> hunt w env s0 new all (target r, t)"
| other: "hunt w env s0 new all (n, s) \<Longrightarrow> n \<noteq> AgentNode \<Longrightarrow> agent_step w env (n, s) x \<Longrightarrow> hunt w env s0 new all x"

lemma hunt_counts:
  assumes "hunt w env s0 new all x"
  shows "ag_watch_cycles s0 + int new \<le> ag_watch_cycles (snd x) \<and> ag_session_turns s0 + int all \<le> ag_session_turns (snd x)
    \<and> (new = 0 \<or> ag_watch_cycles s0 + int new < oc_watch_cap (aw_cfg w))
    \<and> (all = 0 \<or> ag_session_turns s0 + int all < oc_session_max_turns (aw_cfg w))"
  using assms
proof (induction rule: hunt.induct)
  case (wait new all s now content calls advocate t later)
  then show ?case using step_messages [OF wait(2)] suspends_below_caps [OF wait(3)] by auto
next
  case (turn new all s now content calls advocate t later r)
  then show ?case using step_messages [OF turn(2)] by auto
next
  case (other new all n s x)
  then show ?case using step_counters [OF other(3,2)] by auto
qed simp


text \<open>A turn of pure reasoning that the routing sends back to the model.\<close>

inductive reason_step :: "agent_world \<Rightarrow> env \<Rightarrow> agent_state \<Rightarrow> agent_state \<Rightarrow> bool" for w :: agent_world and env :: env where
  "call_model w now s content [] advocate = Inr t \<Longrightarrow> should_continue w env later t = Inr LoopAgent \<Longrightarrow> reason_step w env s t"

lemma reason_step_counts:
  assumes "reason_step w env s t"
  shows "ag_reasoning_turns t = ag_reasoning_turns s + 1 \<and> ag_reasoning_turns t < resolve_max_reasoning_turns env"
  using assms
proof (cases rule: reason_step.cases)
  case (1 now content advocate later)
  have "ag_reasoning_turns t < resolve_max_reasoning_turns env"
    using 1(2) by (auto simp: should_continue_def rbind_eq_Inr split: if_splits)
  then show ?thesis using step_messages [OF 1(1)] by simp
qed

text \<open>Reasoning ends: turns without a call follow one another fewer times than the budget, the one read from the
  environment or six, so that a model that only reasons is stopped.\<close>

theorem reasoning_is_bounded:
  assumes "(reason_step w env ^^ n) s t" and "0 \<le> ag_reasoning_turns s"
  shows "n = 0 \<or> int n < resolve_max_reasoning_turns env"
proof -
  have "ag_reasoning_turns t = ag_reasoning_turns s + int n \<and> (n = 0 \<or> ag_reasoning_turns t < resolve_max_reasoning_turns env)"
    using assms(1) by (induction n arbitrary: t) (auto dest!: reason_step_counts)
  then show ?thesis using assms(2) by auto
qed

subsection \<open>Tool calls without end\<close>

definition chatter :: extracted_call where
  "chatter = \<lparr>ec_name = ''get_candles'', ec_args = Some [], ec_raw = [], ec_status = ''ok'', ec_id = ''c''\<rparr>"

definition quiet :: "agent_state \<Rightarrow> bool" where
  "quiet s \<longleftrightarrow> ag_decision s = None \<and> ag_phase s = None \<and> ag_mode s = None \<and> \<not> ag_postmortem_pending s \<and> ag_last_resume_kind s = None"

lemma default_bounds:
  assumes "aw_cfg w = resolve_opportunity_config (\<lambda>_. None)"
  shows "\<exists>out. prune_messages msgs (aw_cfg w) = Inr out"
proof -
  have "usable_bound (oc_prune_max_messages (resolve_opportunity_config (\<lambda>_. None))) DEFAULT_PRUNE_MAX_MESSAGES = Inr 40"
    "usable_bound (oc_prune_keep_recent_turns (resolve_opportunity_config (\<lambda>_. None))) DEFAULT_PRUNE_KEEP_RECENT_TURNS = Inr 8"
    by code_simp+
  then show ?thesis by (simp add: prune_messages_def assms)
qed

lemma chatter_round:
  assumes "aw_cfg w = resolve_opportunity_config (\<lambda>_. None)" and "quiet s"
  shows "\<exists>u t. agent_step w env (AgentNode, s) (ToolsNode, u) \<and> agent_step w env (ToolsNode, u) (AgentNode, t)
    \<and> quiet t \<and> ag_session_turns t = ag_session_turns s + 1"
proof -
  obtain sent where sent: "sent_messages w s None = Inr sent"
    using default_bounds [OF assms(1), of "with_system w s @ advocate_part w s None"] by (auto simp: sent_messages_def)
  let ?m = "response_message [] [chatter]"
  have adv: "advocate_part w s None = []" by (simp add: advocate_part_def)
  have "fresh_watch sent [chatter] = Inr False"
    by (simp add: fresh_watch_def proposed_watch_def chatter_def message_call_def)
  then obtain u where u: "call_model w (Fin 0) s [] [chatter] None = Inr u" by (simp add: call_model_def sent)
  have f: "ag_messages u = ag_messages s @ [?m]" "ag_session_turns u = ag_session_turns s + 1" "quiet u"
    using u assms(2) by (auto simp: call_model_def sent rbind_eq_Inr adv quiet_def mode_is_def DEBATE_MODE_def py_upper_def py_strip_def)
  have l: "last_message u = Inr ?m" using f(1) by simp
  have calls: "ok_calls_of ?m = [message_call chatter]" "failed_calls_of ?m = []" "cm_calls ?m \<noteq> []"
    by (simp_all add: ok_calls_of_def failed_calls_of_def response_message_def call_status_def last_value_def chatter_def message_call_def)
  have not_watch: "\<not> is_watch (message_call chatter)" by (simp add: is_watch_def chatter_def message_call_def)
  have "should_continue w env (Fin 0) u = Inr Continue"
    unfolding should_continue_def l using calls not_watch by simp
  from agent_step.model [OF u this] have 1: "agent_step w env (AgentNode, s) (ToolsNode, u)" by simp
  let ?invoke = "\<lambda>_. [tool_message ''get_candles'' ''c'' ''{}'']"
  have gates: "heartbeat_gate w (Fin 0) u = Inr False" "rearm_gate w u [message_call chatter] = Inr ([], [message_call chatter])"
    using f(3) by (simp_all add: heartbeat_gate_def rearm_gate_def quiet_def split: option.split)
  have tools: "\<not> is_declare (message_call chatter)" "tc_name (message_call chatter) = ''get_candles''"
    by (simp_all add: is_declare_def chatter_def message_call_def)
  have resume: "record_resume w u (?invoke []) = Inr u" by (simp add: record_resume_def watch_result_def tool_message_def)
  have "\<exists>t. tool_node w ?invoke (Fin 0) u = Inr t \<and> t = add_messages (?invoke []) u"
    unfolding tool_node_def l using resume
    by (simp add: hold_back_def calls gates tools answers_def close_tools_def decision_from_declare_def)
  then obtain t where t: "tool_node w ?invoke (Fin 0) u = Inr t" "t = add_messages (?invoke []) u" by blast
  have "route_after_tools t = LoopAgent" using f(3) by (simp add: route_after_tools_def decided_def t(2) quiet_def)
  then have 2: "agent_step w env (ToolsNode, u) (AgentNode, t)" using agent_step.tools [OF t(1)] by simp
  have "quiet t" "ag_session_turns t = ag_session_turns s + 1"
    using f by (simp_all add: t(2) quiet_def add_messages_def)
  then show ?thesis using 1 2 by blast
qed

text \<open>The session budget is no bound on tool calls: under the default configuration, whatever its forty turns and
  its hour say, an analysis whose model asks for candles in every turn is never stopped; for every
  number of turns it reaches a state after so many, ready for the next.\<close>

theorem budget_never_stops_calls:
  assumes "aw_cfg w = resolve_opportunity_config (\<lambda>_. None)" and "quiet s"
  shows "\<exists>t. (agent_step w env)\<^sup>*\<^sup>* (AgentNode, s) (AgentNode, t) \<and> ag_session_turns t = ag_session_turns s + int n"
proof -
  have "\<exists>t. (agent_step w env)\<^sup>*\<^sup>* (AgentNode, s) (AgentNode, t) \<and> quiet t \<and> ag_session_turns t = ag_session_turns s + int n"
  proof (induction n)
    case 0
    then show ?case using assms(2) by auto
  next
    case (Suc n)
    then obtain t where t: "(agent_step w env)\<^sup>*\<^sup>* (AgentNode, s) (AgentNode, t)" "quiet t" "ag_session_turns t = ag_session_turns s + int n"
      by blast
    obtain u v where "agent_step w env (AgentNode, t) (ToolsNode, u)" "agent_step w env (ToolsNode, u) (AgentNode, v)"
        "quiet v" "ag_session_turns v = ag_session_turns t + 1"
      using chatter_round [OF assms(1) t(2)] by blast
    then show ?case using t by (intro exI [of _ v]) (auto intro: rtranclp.rtrancl_into_rtrancl)
  qed
  then show ?thesis by blast
qed

text \<open>A forced ending answers the pending watch only: every other call of the message that it ends on, issued
  beside the watch or failed to parse, is left without an answer in the history.\<close>

theorem forced_end_leaves_calls:
  assumes "force_terminal w now s = Inr t" and "ag_messages s = ms @ [m]"
  shows "\<exists>out. ag_messages t = ag_messages s @ out \<and> answered_ids out = call_ids (filter is_watch (ok_calls_of m))
    \<and> ag_decision t \<noteq> None"
  using assms by (auto simp: force_terminal_def rbind_eq_Inr Let_def)



subsection \<open>Concrete runs\<close>


definition demo_world :: agent_world where
  "demo_world = \<lparr>aw_cfg = resolve_opportunity_config (\<lambda>_. None), aw_prompt = \<lambda>_. [], aw_compact = \<lambda>ms. ms,
     aw_parse = \<lambda>_. None, aw_finalize = \<lambda>_ d. d, aw_read = \<lambda>_. None\<rparr>"

definition demo_call :: "string \<Rightarrow> string \<Rightarrow> string \<Rightarrow> pydict \<Rightarrow> extracted_call" where
  "demo_call name cid status args = \<lparr>ec_name = name, ec_args = Some args, ec_raw = [], ec_status = status, ec_id = cid\<rparr>"

definition demo_agent :: "extracted_call list \<Rightarrow> agent_state" where
  "demo_agent calls = \<lparr>ag_messages = [response_message [] calls], ag_mode = None, ag_phase = None, ag_decision = None,
     ag_reasoning_turns = 0, ag_market_data_seen = True, ag_advocate_done = False, ag_session_turns = 0,
     ag_session_started_at = None, ag_watch_cycles = 0, ag_invalidation_count = 0, ag_postmortem_pending = False,
     ag_prior_thesis = None, ag_heartbeat_count = 0, ag_last_resume_kind = None, ag_best_current_read = None,
     ag_qa_turns = 0, ag_debate_turns = 0, ag_debate_round = None, ag_bull_stance = None, ag_bear_stance = None,
     ag_debate_consensus = None, ag_debate_conviction = None\<rparr>"

definition demo_invoke :: "tool_call list \<Rightarrow> chat_message list" where
  "demo_invoke calls = map (\<lambda>tc. tool_message (tc_name tc) (tc_id tc) ''{}'') calls"

definition demo_buy :: "extracted_call list" where
  "demo_buy = [demo_call ''declare_trade'' ''d'' ''ok'' [(''action'', PStr ''long'')], demo_call ''get_candles'' ''e'' ''parse_failure'' []]"

definition demo_watch_call :: "extracted_call list" where
  "demo_watch_call = [demo_call ''watch_price_condition'' ''w'' ''ok'' [(''symbol'', PStr ''NIFTY''), (''timeframe'', PStr ''15m''),
     (''direction'', PStr ''above''), (''price_level'', PInt 100)], demo_call ''get_candles'' ''c'' ''ok'' []]"

definition succeeds :: "'a res \<Rightarrow> bool" where
  "succeeds r = (case r of Inr _ \<Rightarrow> True | Inl _ \<Rightarrow> False)"

lemma succeedsE: "succeeds r \<Longrightarrow> \<exists>v. r = Inr v"
  by (cases r) (simp_all add: succeeds_def)

lemma demo_answered: "answered_ids (demo_invoke calls) = call_ids calls"
  by (induction calls) (simp_all add: demo_invoke_def answered_ids_def map_filter_simps tool_message_def call_ids_def)

lemma demo_runs:
  "succeeds (tool_node demo_world demo_invoke (Fin 0) (demo_agent demo_buy))"
  "succeeds (call_model demo_world (Fin 0) (demo_agent []) [] demo_watch_call None)"
  "succeeds (force_terminal demo_world (Fin 0) (demo_agent demo_watch_call))"
  by code_simp+

lemma demo_messages: "ag_messages (demo_agent calls) = [] @ [response_message [] calls]"
  by (simp add: demo_agent_def)

theorem every_call_answered_witness:
  "\<exists>t out. tool_node demo_world demo_invoke (Fin 0) (demo_agent demo_buy) = Inr t
     \<and> ag_messages t = ag_messages (demo_agent demo_buy) @ out \<and> answered_ids out = {#''d'', ''e''#}"
proof -
  obtain t where t: "tool_node demo_world demo_invoke (Fin 0) (demo_agent demo_buy) = Inr t"
    using succeedsE [OF demo_runs(1)] by blast
  have "call_ids (cm_calls (response_message [] demo_buy)) = {#''d'', ''e''#}"
    by (simp add: response_message_def demo_buy_def demo_call_def message_call_def)
  then show ?thesis
    using every_call_answered [OF t demo_messages demo_answered] t by auto
qed

theorem decision_is_declared_witness:
  "\<exists>t d. tool_node demo_world demo_invoke (Fin 0) (demo_agent demo_buy) = Inr t \<and> ag_decision t = Some (aw_finalize demo_world (demo_agent demo_buy) d)
     \<and> dict_get d ''action'' = PStr ''BUY''"
proof -
  have "(case tool_node demo_world demo_invoke (Fin 0) (demo_agent demo_buy) of Inr t \<Rightarrow> ag_decision t \<noteq> None | _ \<Rightarrow> False)"
    by code_simp
  then obtain t where t: "tool_node demo_world demo_invoke (Fin 0) (demo_agent demo_buy) = Inr t" "ag_decision t \<noteq> None"
    by (auto split: sum.splits)
  have seen: "ag_market_data_seen (demo_agent demo_buy)" "ag_decision (demo_agent demo_buy) = None" by (simp_all add: demo_agent_def)
  have act: "declared_action (PStr ''long'') = ''BUY''" by code_simp
  have calls: "is_declare tc \<Longrightarrow> dict_get (tc_args tc) ''action'' = PStr ''long''"
    if "tc \<in> set (cm_calls (response_message [] demo_buy))" for tc
    using that by (auto simp: response_message_def demo_buy_def demo_call_def message_call_def is_declare_def dict_get_def)
  show ?thesis
    using decision_is_declared [OF t(1) demo_messages] t seen calls act by auto
qed

theorem unvalidated_declare_commits_witness:
  "\<exists>t d. tool_node demo_world (\<lambda>_. [tool_message ''declare_trade'' ''d'' ''Error invoking tool'']) (Fin 0) (demo_agent [hd demo_buy]) = Inr t
     \<and> ag_decision t = Some d \<and> dict_get d ''action'' = PStr ''BUY''"
proof -
  let ?tc = "message_call (hd demo_buy)" and ?m = "response_message [] [hd demo_buy]"
  have m: "cm_calls ?m = [?tc]" "call_status ?m ?tc = ''ok''" "is_declare ?tc" "tc_id ?tc = ''d''"
    by (simp_all add: response_message_def demo_buy_def demo_call_def message_call_def call_status_def last_value_def is_declare_def)
  have "(case decision_from_declare [?tc] of Inr (Some d) \<Rightarrow> dict_get d ''action'' = PStr ''BUY'' | _ \<Rightarrow> False)"
    by code_simp
  then obtain d where d: "decision_from_declare [?tc] = Inr (Some d)" "dict_get d ''action'' = PStr ''BUY''"
    by (auto split: sum.splits option.splits)
  have "\<not> contains ''TRADE_REJECTED'' ''Error invoking tool''" by code_simp
  then show ?thesis
    using unvalidated_declare_commits [OF m(1-3) demo_messages _ _ _ _ _ _ d(1),
        of "\<lambda>_. [tool_message ''declare_trade'' ''d'' ''Error invoking tool'']" "''Error invoking tool''" demo_world "Fin 0"] d(2) m(4)
    by (auto simp: demo_agent_def demo_world_def)
qed

theorem postmortem_never_cleared_witness:
  "let s = demo_agent []\<lparr>ag_postmortem_pending := True, ag_prior_thesis := Some \<lparr>fp_symbol = None, fp_timeframe = None, fp_direction = None, fp_level = None\<rparr>\<rparr>
   in agent_step demo_world (\<lambda>_. None) (HoldNode, s) (Finished, force_hold demo_world s) \<and> ag_postmortem_pending (force_hold demo_world s)"
proof -
  let ?s = "demo_agent []\<lparr>ag_postmortem_pending := True, ag_prior_thesis := Some \<lparr>fp_symbol = None, fp_timeframe = None, fp_direction = None, fp_level = None\<rparr>\<rparr>"
  have 1: "agent_step demo_world (\<lambda>_. None) (HoldNode, ?s) (Finished, force_hold demo_world ?s)" by (rule agent_step.hold)
  show ?thesis using postmortem_never_cleared [OF r_into_rtranclp [of "agent_step demo_world (\<lambda>_. None)", OF 1]] 1 by simp
qed


theorem reasoning_is_bounded_witness:
  "\<exists>t. (reason_step demo_world (\<lambda>_. None) ^^ 1) (demo_agent []) t \<and> int 1 < resolve_max_reasoning_turns (\<lambda>_. None)"
proof -
  let ?call = "call_model demo_world (Fin 0) (demo_agent []) [] [] None"
  have "rbind ?call (should_continue demo_world (\<lambda>_. None) (Fin 0)) = Inr LoopAgent" by code_simp
  then obtain t where t: "?call = Inr t" "should_continue demo_world (\<lambda>_. None) (Fin 0) t = Inr LoopAgent" by (auto simp: rbind_eq_Inr)
  have "reason_step demo_world (\<lambda>_. None) (demo_agent []) t" using t by (rule reason_step.intros)
  then have 1: "(reason_step demo_world (\<lambda>_. None) ^^ 1) (demo_agent []) t" by (simp add: eq_OO)
  show ?thesis using reasoning_is_bounded [OF 1] 1 by (auto simp: demo_agent_def)
qed

theorem budget_never_stops_calls_witness:
  "\<exists>t. (agent_step demo_world (\<lambda>_. None))\<^sup>*\<^sup>* (AgentNode, demo_agent []) (AgentNode, t) \<and> ag_session_turns t = 1000
     \<and> oc_session_max_turns (aw_cfg demo_world) = 40"
proof -
  have "aw_cfg demo_world = resolve_opportunity_config (\<lambda>_. None)" "quiet (demo_agent [])"
    by (simp_all add: demo_world_def demo_agent_def quiet_def)
  moreover have "oc_session_max_turns (aw_cfg demo_world) = 40" by code_simp
  ultimately show ?thesis
    using budget_never_stops_calls [of demo_world "demo_agent []" "\<lambda>_. None" 1000] by (simp add: demo_agent_def)
qed

theorem forced_end_leaves_calls_witness:
  "\<exists>t out. force_terminal demo_world (Fin 0) (demo_agent demo_watch_call) = Inr t
     \<and> ag_messages t = ag_messages (demo_agent demo_watch_call) @ out \<and> answered_ids out = {#''w''#}"
proof -
  obtain t where t: "force_terminal demo_world (Fin 0) (demo_agent demo_watch_call) = Inr t"
    using succeedsE [OF demo_runs(3)] by blast
  have "call_ids (filter is_watch (ok_calls_of (response_message [] demo_watch_call))) = {#''w''#}"
    by (simp add: response_message_def demo_watch_call_def demo_call_def message_call_def is_watch_def ok_calls_of_def
        call_status_def last_value_def)
  then show ?thesis using forced_end_leaves_calls [OF t demo_messages] t by auto
qed

end
