(* ===== verification/QaLoopFacts.thy ===== *)
theory QaLoopFacts
  imports QaLoop AgentLoopFacts
begin

text \<open>
  What a question about an analysis guarantees: it ends, it leaves the decision alone, and it runs no
  forbidden tool as long as the identifiers of the calls differ.
\<close>


lemma map_of_zip_ids:
  assumes "distinct (map ec_id calls)" and "c \<in> set calls"
  shows "last_value (map (\<lambda>c. (ec_id c, f c)) calls) (ec_id c) = Some (f c)"
proof -
  have "distinct (map fst (rev (map (\<lambda>c. (ec_id c, f c)) calls)))"
    using assms(1) by (simp add: rev_map [symmetric] comp_def)
  then show ?thesis using assms(2) by (auto simp: last_value_def intro!: map_of_is_SomeI)
qed


text \<open>The refusal rests on the identifiers: when the model gives a forbidden call the identifier of a later call
  that is allowed, the status of the later one stands for both and the declaration is executed during
  a question.\<close>

theorem shared_identifier_trades:
  "let calls = [\<lparr>ec_name = ''declare_trade'', ec_args = Some args, ec_raw = raw, ec_status = ''ok'', ec_id = cid\<rparr>,
      \<lparr>ec_name = ''get_candles'', ec_args = Some args', ec_raw = raw', ec_status = ''ok'', ec_id = cid\<rparr>]
   in \<exists>tc \<in> set (qa_executed (qa_response content calls)). is_declare tc \<and> tc_args tc = args"
  by (simp add: Let_def qa_executed_def ok_calls_of_def qa_response_def message_call_def call_status_def last_value_def
      qa_status_def ok_status_def QA_FORBIDDEN_TOOLS_def is_subagent_def QA_SUBAGENT_TOOLS_def is_declare_def)

text \<open>A question ends: with as much fuel as the budget has turns left, and one more, the loop returns whatever the
  model asks for, and it takes at most that many turns of the thread.\<close>

lemma qa_node_turns: "ag_qa_turns (qa_node detect model s) = ag_qa_turns s + 1 \<and> ag_messages (qa_node detect model s) \<noteq> []"
  by (simp add: qa_node_def Let_def add_messages_def split: option.split prod.split)

lemma qa_tool_turns: "ag_messages s \<noteq> [] \<Longrightarrow> \<exists>t. qa_tool_node invoke subagent s = Inr t \<and> ag_qa_turns t = ag_qa_turns s"
  by (auto simp: qa_tool_node_def last_message_def)

theorem questions_end:
  assumes "0 < fuel" and "MAX_QA_TURNS - ag_qa_turns s \<le> int fuel"
  shows "\<exists>t. qa_loop detect model invoke subagent fuel s = Some t
    \<and> ag_qa_turns t \<le> max (ag_qa_turns s + 1) MAX_QA_TURNS"
  using assms
proof (induction fuel arbitrary: s)
  case (Suc fuel)
  let ?s = "qa_node detect (model fuel) s"
  note turns = qa_node_turns [of detect "model fuel" s]
  have l: "last_message ?s = Inr (last (ag_messages ?s))" using turns by (simp add: last_message_def)
  show ?case
  proof (cases "qa_should_continue ?s = Inr True")
    case True
    then have lt: "ag_qa_turns ?s < MAX_QA_TURNS" by (auto simp: qa_should_continue_def l)
    obtain t where t: "qa_tool_node (invoke fuel) subagent ?s = Inr t" "ag_qa_turns t = ag_qa_turns ?s"
      using qa_tool_turns turns by blast
    have "\<exists>u. qa_loop detect model invoke subagent fuel t = Some u \<and> ag_qa_turns u \<le> max (ag_qa_turns t + 1) MAX_QA_TURNS"
      by (rule Suc.IH) (use Suc.prems lt t(2) turns in auto)
    then show ?thesis using True t turns lt by auto
  next
    case False
    then have "qa_should_continue ?s = Inr False" by (auto simp: qa_should_continue_def l)
    then show ?thesis using turns by simp
  qed
qed simp

text \<open>The budget of questions is the thread's, not the question's: nothing sets the turns back, so that once it
  is spent a later question gets no data, as its only turn is answered without tools.\<close>

theorem spent_questions_fetch_nothing:
  assumes "MAX_QA_TURNS - 1 \<le> ag_qa_turns s" and "detect question = None"
  shows "qa_loop detect model invoke subagent (Suc fuel) (ask question s) =
     Some (add_messages [qa_response (fst (model fuel False)) (snd (model fuel False))] ((ask question s)\<lparr>ag_qa_turns := ag_qa_turns s + 1\<rparr>))"
proof -
  let ?s = "qa_node detect (model fuel) (ask question s)"
  have node: "?s = add_messages [qa_response (fst (model fuel False)) (snd (model fuel False))] ((ask question s)\<lparr>ag_qa_turns := ag_qa_turns s + 1\<rparr>)"
    using assms
    by (simp add: qa_node_def Let_def ask_def latest_user_question_def is_human_message_def plain_message_def
        is_final_qa_turn_def add_messages_def case_prod_beta)
  have "qa_should_continue ?s = Inr False"
    using assms(1) unfolding node by (auto simp: qa_should_continue_def last_message_def)
  then show ?thesis by (simp add: Let_def node)
qed



subsection \<open>Concrete questions\<close>



theorem questions_end_witness:
  "\<exists>t. qa_loop (\<lambda>_. None) (\<lambda>_ _. ([], [chatter])) (\<lambda>_. demo_invoke) (\<lambda>_ _ _. []) 8 (ask ''why?'' (demo_agent [])) = Some t
     \<and> ag_qa_turns t \<le> 8"
  using questions_end [of 8 "ask ''why?'' (demo_agent [])" "\<lambda>_. None" "\<lambda>_ _. ([], [chatter])" "\<lambda>_. demo_invoke" "\<lambda>_ _ _. []"]
  by (auto simp: MAX_QA_TURNS_def ask_def demo_agent_def add_messages_def)

theorem spent_questions_fetch_nothing_witness:
  "\<exists>t. qa_loop (\<lambda>_. None) (\<lambda>_ tools. ([], if tools then [chatter] else [])) (\<lambda>_. demo_invoke) (\<lambda>_ _ _. []) 1
       (ask ''why?'' (demo_agent []\<lparr>ag_qa_turns := 7\<rparr>)) = Some t \<and> cm_calls (last (ag_messages t)) = []"
  using spent_questions_fetch_nothing [of "demo_agent []\<lparr>ag_qa_turns := 7\<rparr>" "\<lambda>_. None" "''why?''"
      "\<lambda>_ tools. ([], if tools then [chatter] else [])" "\<lambda>_. demo_invoke" "\<lambda>_ _ _. []" 0]
  by (simp add: MAX_QA_TURNS_def qa_response_def)

end
