(* ===== verification/Debate.thy ===== *)
theory Debate
  imports ToolCalls EnvConfig
begin

text \<open>
  \<open>debate.py\<close>: the pure core of the debate between the bull and the bear. Its configuration from
  the environment, the stance that a role's output is read as, the consensus of two stances, the
  conviction derived from them and the advisory bias. Strengths are Python integers, the weighted sum
  is computed in binary64 and rounded half to even. \<open>loads\<close> stands for \<open>json.loads\<close>: the value
  of a text, \<open>None\<close> when it raises.
\<close>

subsection \<open>Configuration\<close>

definition DEBATE_CONSENSUS_VALUES :: "string list" where
  "DEBATE_CONSENSUS_VALUES = [''strong_agree'', ''lean'', ''contested'']"
definition DEBATE_LEANS :: "string list" where
  "DEBATE_LEANS = [''long'', ''short'', ''neutral'']"

definition STRONG_FLOOR :: int where "STRONG_FLOOR = 60"
definition STRONG_GAP :: int where "STRONG_GAP = 30"
definition CONTESTED_GAP :: int where "CONTESTED_GAP = 15"
definition W_BASE :: pyfloat where "W_BASE = fl (7 / 10)"
definition W_SEP :: pyfloat where "W_SEP = fl (3 / 10)"
definition CONTESTED_PENALTY :: int where "CONTESTED_PENALTY = 25"
definition MAX_ROUNDS :: int where "MAX_ROUNDS = 5"
definition TURNS_PER_ROUND :: int where "TURNS_PER_ROUND = 2"
definition JUDGE_TURNS :: int where "JUDGE_TURNS = 1"
definition MAX_TURNS_CAP :: int where "MAX_TURNS_CAP = MAX_ROUNDS * TURNS_PER_ROUND + JUDGE_TURNS"
definition JUDGE_MAX_TOOL_CALLS_DEFAULT :: int where "JUDGE_MAX_TOOL_CALLS_DEFAULT = 2"
definition JUDGE_MAX_TOOL_CALLS_CAP :: int where "JUDGE_MAX_TOOL_CALLS_CAP = 5"
definition DEFAULT_ROUNDS :: int where "DEFAULT_ROUNDS = 1"
definition GEMINI_DEFAULT_MODEL :: string where "GEMINI_DEFAULT_MODEL = ''gemini-2.5-flash''"

record debate_config =
  dc_rounds :: int
  dc_max_turns :: int
  dc_judge_max_tool_calls :: int
  dc_bull_model :: string
  dc_bear_model :: string
  dc_judge_model :: string

definition env_str :: "env \<Rightarrow> string \<Rightarrow> string option" where
  "env_str env name = (case env name of None \<Rightarrow> None
     | Some raw \<Rightarrow> if py_strip raw = [] then None else Some (py_strip raw))"

definition resolve_int_in_range :: "env \<Rightarrow> string \<Rightarrow> int \<Rightarrow> int \<Rightarrow> int \<Rightarrow> int" where
  "resolve_int_in_range env name dflt low high = (case env_str env name of
     None \<Rightarrow> dflt
   | Some raw \<Rightarrow> (case parse_int raw of
       None \<Rightarrow> dflt
     | Some v \<Rightarrow> if v < low \<or> high < v then dflt else v))"

definition derived_max_turns :: "int \<Rightarrow> int" where
  "derived_max_turns rounds = rounds * TURNS_PER_ROUND + JUDGE_TURNS"

definition resolve_role_model :: "env \<Rightarrow> string \<Rightarrow> string \<Rightarrow> string" where
  "resolve_role_model env name dflt = (case env_str env name of None \<Rightarrow> dflt | Some v \<Rightarrow> v)"

definition system_model :: "env \<Rightarrow> string option \<Rightarrow> string" where
  "system_model env given = (case given of
     None \<Rightarrow> resolve_role_model env ''LLM_MODEL'' GEMINI_DEFAULT_MODEL
   | Some m \<Rightarrow> if py_strip m = [] then resolve_role_model env ''LLM_MODEL'' GEMINI_DEFAULT_MODEL else py_strip m)"

definition resolve_debate_config :: "env \<Rightarrow> string option \<Rightarrow> debate_config" where
  "resolve_debate_config env given =
     (let model = system_model env given;
          rounds = resolve_int_in_range env ''DEBATE_ROUNDS'' DEFAULT_ROUNDS 1 MAX_ROUNDS;
          derived = derived_max_turns rounds
      in \<lparr>dc_rounds = rounds,
          dc_max_turns = resolve_int_in_range env ''DEBATE_MAX_TURNS'' derived derived MAX_TURNS_CAP,
          dc_judge_max_tool_calls = resolve_int_in_range env ''DEBATE_JUDGE_MAX_TOOL_CALLS''
            JUDGE_MAX_TOOL_CALLS_DEFAULT 0 JUDGE_MAX_TOOL_CALLS_CAP,
          dc_bull_model = resolve_role_model env ''DEBATE_BULL_MODEL'' model,
          dc_bear_model = resolve_role_model env ''DEBATE_BEAR_MODEL'' model,
          dc_judge_model = resolve_role_model env ''DEBATE_JUDGE_MODEL'' model\<rparr>)"

subsection \<open>Stances\<close>

definition STRENGTH_MIN :: int where "STRENGTH_MIN = 0"
definition STRENGTH_MAX :: int where "STRENGTH_MAX = 100"
definition DEFAULT_LEAN :: string where "DEFAULT_LEAN = ''neutral''"

record debate_stance =
  ds_role :: string
  ds_lean :: string
  ds_strength :: int
  ds_arguments :: "string list"
  ds_biggest_risk :: string
  ds_available :: bool

definition coerce_to_mapping :: "(string \<Rightarrow> pyval option) \<Rightarrow> pyval \<Rightarrow> pydict option" where
  "coerce_to_mapping loads raw = (case raw of
     PDict d \<Rightarrow> Some d
   | PStr s \<Rightarrow> (if py_strip s = [] then None
       else case loads (py_strip s) of Some (PDict d) \<Rightarrow> Some d | _ \<Rightarrow> None)
   | _ \<Rightarrow> None)"

definition recognized_lean :: "pyval \<Rightarrow> string option" where
  "recognized_lean v = (case v of
     PStr s \<Rightarrow> if py_lower (py_strip s) \<in> set DEBATE_LEANS then Some (py_lower (py_strip s)) else None
   | _ \<Rightarrow> None)"

definition coerce_lean :: "pyval \<Rightarrow> string" where
  "coerce_lean v = (case recognized_lean v of Some l \<Rightarrow> l | None \<Rightarrow> DEFAULT_LEAN)"

text \<open>The number in a strength, if any: \<open>float\<close> of an integer may raise \<open>OverflowError\<close>.\<close>

definition strength_number :: "pyval \<Rightarrow> pyfloat option res" where
  "strength_number v = (case v of
     PInt n \<Rightarrow> rbind (float_of_int n) (\<lambda>f. Inr (Some f))
   | PFloat f \<Rightarrow> Inr (Some f)
   | PStr s \<Rightarrow> Inr (parse_float (py_strip s))
   | _ \<Rightarrow> Inr None)"

text \<open>\<open>round(f)\<close>: an integer, half to even.\<close>

fun py_round :: "pyfloat \<Rightarrow> int res" where
  "py_round (Fin q) = Inr (rne q)"
| "py_round NaN = Inl ValueError"
| "py_round _ = Inl OverflowError"

definition coerce_strength :: "pyval \<Rightarrow> int res" where
  "coerce_strength v = rbind (strength_number v) (\<lambda>number. case number of
     None \<Rightarrow> Inr STRENGTH_MIN
   | Some f \<Rightarrow> py_round (fmax (Fin (of_int STRENGTH_MIN)) (fmin (Fin (of_int STRENGTH_MAX)) f)))"

definition coerce_arguments :: "pyval \<Rightarrow> string list" where
  "coerce_arguments v = (case v of
     PStr s \<Rightarrow> (if py_strip s = [] then [] else [py_strip s])
   | PList vs \<Rightarrow> filter (\<lambda>t. t \<noteq> []) (map (\<lambda>item. py_strip (py_str item)) (filter (\<lambda>item. item \<noteq> PNone) vs))
   | _ \<Rightarrow> [])"

definition coerce_biggest_risk :: "pyval \<Rightarrow> string" where
  "coerce_biggest_risk v = (case v of PNone \<Rightarrow> [] | PStr s \<Rightarrow> py_strip s | _ \<Rightarrow> py_strip (py_str v))"

definition is_number :: "string \<Rightarrow> bool" where
  "is_number text \<longleftrightarrow> parse_float (py_strip text) \<noteq> None"

definition recognized_strength :: "pyval \<Rightarrow> bool" where
  "recognized_strength v \<longleftrightarrow> (case v of PInt _ \<Rightarrow> True | PFloat _ \<Rightarrow> True | PStr s \<Rightarrow> is_number s | _ \<Rightarrow> False)"

definition no_stance :: "string \<Rightarrow> debate_stance" where
  "no_stance role = \<lparr>ds_role = role, ds_lean = DEFAULT_LEAN, ds_strength = STRENGTH_MIN, ds_arguments = [],
     ds_biggest_risk = [], ds_available = False\<rparr>"

definition parse_stance :: "(string \<Rightarrow> pyval option) \<Rightarrow> string \<Rightarrow> pyval \<Rightarrow> debate_stance res" where
  "parse_stance loads role raw = (case coerce_to_mapping loads raw of
     None \<Rightarrow> Inr (no_stance (py_lower (py_strip role)))
   | Some data \<Rightarrow> rbind (coerce_strength (dict_get data ''strength'')) (\<lambda>strength.
       let arguments = coerce_arguments (dict_get data ''arguments'');
           risk = coerce_biggest_risk (dict_get data ''biggest_risk'')
       in Inr \<lparr>ds_role = py_lower (py_strip role), ds_lean = coerce_lean (dict_get data ''lean''),
            ds_strength = strength, ds_arguments = arguments, ds_biggest_risk = risk,
            ds_available = (case dict_get data ''available'' of
                PBool b \<Rightarrow> b
              | _ \<Rightarrow> arguments \<noteq> [] \<or> risk \<noteq> [] \<or> recognized_lean (dict_get data ''lean'') \<noteq> None
                  \<or> recognized_strength (dict_get data ''strength''))\<rparr>))"

definition stance_to_dict :: "debate_stance \<Rightarrow> pydict" where
  "stance_to_dict s = [(''role'', PStr (ds_role s)), (''lean'', PStr (ds_lean s)), (''strength'', PInt (ds_strength s)),
     (''arguments'', PList (map PStr (ds_arguments s))), (''biggest_risk'', PStr (ds_biggest_risk s)),
     (''available'', PBool (ds_available s))]"

subsection \<open>Consensus, conviction and bias\<close>

definition clamp_int :: "int \<Rightarrow> int \<Rightarrow> int \<Rightarrow> int" where
  "clamp_int value low high = (if value < low then low else if value > high then high else value)"

definition effective_strength :: "debate_stance \<Rightarrow> int" where
  "effective_strength s = (if \<not> ds_available s then STRENGTH_MIN else clamp_int (ds_strength s) STRENGTH_MIN STRENGTH_MAX)"

definition classify_consensus :: "debate_stance \<Rightarrow> debate_stance \<Rightarrow> string" where
  "classify_consensus bull bear =
     (let b = effective_strength bull; r = effective_strength bear; hi = max b r; lo = min b r; gap = hi - lo in
      if STRONG_FLOOR \<le> lo \<and> gap \<le> CONTESTED_GAP then ''contested''
      else if STRONG_GAP \<le> gap \<and> STRONG_FLOOR \<le> hi then ''strong_agree''
      else ''lean'')"

text \<open>\<open>W_BASE * base + W_SEP * separation\<close> of two small integers, in binary64.\<close>

definition weighted :: "int \<Rightarrow> int \<Rightarrow> pyfloat" where
  "weighted base separation = fadd (fmul W_BASE (fl (of_int base))) (fmul W_SEP (fl (of_int separation)))"

definition derive_conviction :: "debate_stance \<Rightarrow> debate_stance \<Rightarrow> string \<Rightarrow> int res" where
  "derive_conviction bull bear consensus =
     (let b = effective_strength bull; r = effective_strength bear; hi = max b r; gap = hi - min b r in
      rbind (py_round (weighted (clamp_int hi 0 100) (clamp_int gap 0 100))) (\<lambda>rounded.
        Inr (clamp_int (rounded - (if consensus = ''contested'' then CONTESTED_PENALTY else 0)) 0 100)))"

definition judge_directional_bias :: "debate_stance \<Rightarrow> debate_stance \<Rightarrow> string \<Rightarrow> string" where
  "judge_directional_bias bull bear consensus =
     (if consensus = ''contested'' then ''hold''
      else let b = effective_strength bull; r = effective_strength bear in
        if b = r then ''hold''
        else let lean = ds_lean (if b > r then bull else bear) in
          if lean = ''long'' then ''long'' else if lean = ''short'' then ''short'' else ''hold'')"

end
