(* ===== verification/DebateLoop.thy ===== *)
theory DebateLoop
  imports Debate AgentLoop
begin

text \<open>
  \<open>graph.py\<close>: the roles of the debate, the judge and the order of their turns. A role is asked with
  the evidence of the thread and the stance it has to answer; what the model answers, what the tools
  return and \<open>json.loads\<close> are arguments. The fixed text around the evidence in a request is not
  kept, nor is the tag of the role on a message.
\<close>

subsection \<open>The roles\<close>

definition collect_shared_evidence :: "chat_message list \<Rightarrow> string list" where
  "collect_shared_evidence msgs = concat (map (\<lambda>m.
     let text = py_strip (case cm_content m of None \<Rightarrow> [] | Some t \<Rightarrow> t) in
     if is_tool_message m \<and> text \<noteq> []
     then [(case cm_name m of Some (c # cs) \<Rightarrow> c # cs | _ \<Rightarrow> ''tool'') @ '': '' @ text] else []) msgs)"

definition extract_stance_payload :: "string option \<Rightarrow> pyval" where
  "extract_stance_payload raw = (case raw of None \<Rightarrow> PNone
     | Some t \<Rightarrow> PStr (case extract_balanced_json t 0 of Some j \<Rightarrow> j | None \<Rightarrow> t))"

text \<open>What a role is asked: its system prompt, the evidence, and the stance that it has to rebut.\<close>

record role_request =
  rr_role :: string
  rr_prompt :: string
  rr_evidence :: "string list"
  rr_rebut :: "pydict option"

definition nonempty_dict :: "pydict option \<Rightarrow> pydict option" where
  "nonempty_dict d = (case d of Some (kv # r) \<Rightarrow> Some (kv # r) | _ \<Rightarrow> None)"

definition current_debate_round :: "agent_state \<Rightarrow> int" where
  "current_debate_round s = (case ag_debate_round s of Some n \<Rightarrow> if n = 0 then 1 else n | None \<Rightarrow> 1)"

definition role_request_of :: "string \<Rightarrow> string \<Rightarrow> agent_state \<Rightarrow> role_request" where
  "role_request_of role prompt s = \<lparr>rr_role = role, rr_prompt = prompt,
     rr_evidence = collect_shared_evidence (ag_messages s),
     rr_rebut = (if role = ''bull'' then (if current_debate_round s > 1 then nonempty_dict (ag_bear_stance s) else None)
       else if role = ''bear'' then nonempty_dict (ag_bull_stance s) else None)\<rparr>"

text \<open>
  The update of a role's turn. \<open>ru_messages\<close> is \<open>None\<close> when the update has no messages; the reducer
  of the graph appends them. A role whose model fails answers \<open>None\<close>.
\<close>

record role_update =
  ru_messages :: "chat_message list option"
  ru_stance :: pydict

definition run_debate_role ::
    "(string \<Rightarrow> pyval option) \<Rightarrow> (role_request \<Rightarrow> string option) \<Rightarrow> string \<Rightarrow> string \<Rightarrow> agent_state \<Rightarrow> role_update res" where
  "run_debate_role loads answer role prompt s =
     (let raw = answer (role_request_of role prompt s) in
      rbind (parse_stance loads role (extract_stance_payload raw)) (\<lambda>stance.
        Inr \<lparr>ru_messages = (case raw of Some t \<Rightarrow> if py_strip t \<noteq> [] then Some [plain_message ''ai'' t] else None | None \<Rightarrow> None),
             ru_stance = stance_to_dict stance\<rparr>))"

definition merge_turn :: "role_update \<Rightarrow> agent_state \<Rightarrow> agent_state" where
  "merge_turn u s = add_messages (case ru_messages u of None \<Rightarrow> [] | Some ms \<Rightarrow> ms)
     (s\<lparr>ag_debate_turns := ag_debate_turns s + 1, ag_phase := Some ''debate''\<rparr>)"

definition BULL_ROLE_PROMPT :: string where
  \<open>BULL_ROLE_PROMPT = join_with [char_of (10 :: nat)]
    [''You are the BULL analyst in an adversarial trading debate.'',
     [],
     ''Your job: argue the STRONGEST possible LONG case for the symbol using ONLY the shared evidence provided below. Do NOT fabricate any market data - cite only values that appear in the evidence. If the evidence is weak for a long, say so honestly and score your strength low; never invent support.'',
     [],
     ''You are an analyst, not an executor: you must NOT attempt to commit, declare, or schedule a trade. Output your stance as a SINGLE JSON object and nothing else:'',
     ''{'',
     ''  "lean": "long" | "short" | "neutral",'',
     ''  "strength": <integer 0-100, how compelling the long case is>,'',
     ''  "arguments": ["concise evidence-grounded point", ...],'',
     ''  "biggest_risk": "the single biggest risk to YOUR long thesis"'',
     ''}'']\<close>

definition BEAR_ROLE_PROMPT :: string where
  \<open>BEAR_ROLE_PROMPT = join_with [char_of (10 :: nat)]
    [''You are the BEAR analyst in an adversarial trading debate.'',
     [],
     ''Your job: argue the STRONGEST possible SHORT / NO-TRADE case for the symbol using ONLY the shared evidence provided below. Do NOT fabricate any market data - cite only values that appear in the evidence. If the evidence actually favors a long, say so honestly and score your strength low; never invent bearish support.'',
     [],
     ''You are an analyst, not an executor: you must NOT attempt to commit, declare, or schedule a trade. Output your stance as a SINGLE JSON object and nothing else:'',
     ''{'',
     ''  "lean": "long" | "short" | "neutral",'',
     ''  "strength": <integer 0-100, how compelling the short / no-trade case is>,'',
     ''  "arguments": ["concise evidence-grounded point", ...],'',
     ''  "biggest_risk": "the single biggest risk to YOUR short / no-trade thesis"'',
     ''}'']\<close>

definition bull_node ::
    "(string \<Rightarrow> pyval option) \<Rightarrow> (role_request \<Rightarrow> string option) \<Rightarrow> agent_state \<Rightarrow> agent_state res" where
  "bull_node loads answer s =
     (let s1 = s\<lparr>ag_debate_round := Some (ag_debate_turns s div TURNS_PER_ROUND + 1)\<rparr> in
      rbind (run_debate_role loads answer ''bull'' BULL_ROLE_PROMPT s1) (\<lambda>u.
        Inr ((merge_turn u s1)\<lparr>ag_bull_stance := Some (ru_stance u)\<rparr>)))"

definition bear_node ::
    "(string \<Rightarrow> pyval option) \<Rightarrow> (role_request \<Rightarrow> string option) \<Rightarrow> agent_state \<Rightarrow> agent_state res" where
  "bear_node loads answer s =
     rbind (run_debate_role loads answer ''bear'' BEAR_ROLE_PROMPT s) (\<lambda>u.
        Inr ((merge_turn u s)\<lparr>ag_bear_stance := Some (ru_stance u)\<rparr>))"

definition route_debate :: "debate_config \<Rightarrow> agent_state \<Rightarrow> node" where
  "route_debate cfg s = (if current_debate_round s < dc_rounds cfg \<and> ag_debate_turns s < dc_max_turns cfg
     then BullNode else JudgeNode)"

text \<open>The devil's advocate of a verification: a bear that is given no stance to rebut, as a message.\<close>

definition devils_advocate ::
    "(string \<Rightarrow> pyval option) \<Rightarrow> (role_request \<Rightarrow> string option) \<Rightarrow> string \<Rightarrow> chat_message list \<Rightarrow> chat_message res" where
  "devils_advocate loads answer prompt msgs =
     rbind (parse_stance loads ''bear'' (extract_stance_payload (answer \<lparr>rr_role = ''bear'', rr_prompt = prompt,
         rr_evidence = collect_shared_evidence msgs, rr_rebut = None\<rparr>))) (\<lambda>stance.
       Inr (plain_message ''ai'' (''DEVIL'S ADVOCATE (Bear) - the strongest evidence-grounded case AGAINST the proposed trade, for you to weigh in your verification verdict. This stance does NOT itself approve, block, or commit the trade.''
         @ char_of (10 :: nat) # json_text (PDict (stance_to_dict stance)))))"

subsection \<open>The judge\<close>

text \<open>The verdict that is computed from the two stored stances, and what the judge is given to read.\<close>

record judge_brief =
  jb_evidence :: "string list"
  jb_bull :: pydict
  jb_bear :: pydict
  jb_consensus :: string
  jb_conviction :: int
  jb_bias :: string
  jb_budget :: int

definition stored_stance :: "pydict option \<Rightarrow> pyval" where
  "stored_stance d = (case d of None \<Rightarrow> PNone | Some x \<Rightarrow> PDict x)"

definition dict_or_empty :: "pydict option \<Rightarrow> pydict" where
  "dict_or_empty d = (case d of None \<Rightarrow> [] | Some x \<Rightarrow> x)"

definition judge_synthesis :: "(string \<Rightarrow> pyval option) \<Rightarrow> pydict option \<Rightarrow> pydict option \<Rightarrow> (string \<times> int \<times> string) res" where
  "judge_synthesis loads bull_dict bear_dict =
     rbind (parse_stance loads ''bull'' (stored_stance bull_dict)) (\<lambda>bull.
     rbind (parse_stance loads ''bear'' (stored_stance bear_dict)) (\<lambda>bear.
     let consensus = classify_consensus bull bear in
     rbind (derive_conviction bull bear consensus) (\<lambda>conviction.
       Inr (consensus, conviction, judge_directional_bias bull bear consensus))))"

definition brief_of :: "int \<Rightarrow> agent_state \<Rightarrow> string \<times> int \<times> string \<Rightarrow> judge_brief" where
  "brief_of budget s = (\<lambda>(consensus, conviction, bias). \<lparr>jb_evidence = collect_shared_evidence (ag_messages s),
     jb_bull = dict_or_empty (ag_bull_stance s), jb_bear = dict_or_empty (ag_bear_stance s), jb_consensus = consensus,
     jb_conviction = conviction, jb_bias = bias, jb_budget = budget\<rparr>)"

definition DEBATE_READONLY_EXCLUDED_TOOLS :: "string list" where
  "DEBATE_READONLY_EXCLUDED_TOOLS = [''declare_trade'', ''watch_price_condition'']"

text \<open>
  The judge's conversation: the messages after the brief, the read-only calls used, and the batches
  handed to the executor, in order. The judge's model (\<open>None\<close> when it raises) and the executor
  answer by what was said so far.
\<close>

record judge_talk =
  jt_messages :: "chat_message list"
  jt_used :: int
  jt_ran :: "tool_call list list"

type_synonym judge_model = "chat_message list \<Rightarrow> (string \<times> extracted_call list) option"
type_synonym executor = "chat_message list \<Rightarrow> tool_call list \<Rightarrow> chat_message list"

definition judge_message :: "string \<Rightarrow> extracted_call list \<Rightarrow> chat_message" where
  "judge_message content calls = (plain_message ''ai'' content)\<lparr>cm_calls := map message_call calls\<rparr>"

definition judge_failed_answer :: "extracted_call \<Rightarrow> chat_message" where
  "judge_failed_answer c = tool_message (if ec_name c = [] then ''unknown_tool'' else ec_name c) (ec_id c)
     (synthetic_failure_content c)"

definition no_watch_note :: string where
  "no_watch_note = ''watch_price_condition is not available to the Judge: weigh the shared evidence and either declare_trade (BUY/SELL) or declare a HOLD.''"

definition budget_note :: "int \<Rightarrow> string" where
  "budget_note budget = ''Judge read-only tool budget exhausted ('' @ int_text budget
     @ ''). Do not gather more data - weigh the existing shared evidence and declare your decision (declare_trade BUY/SELL or HOLD) now.''"

definition say :: "chat_message list \<Rightarrow> judge_talk \<Rightarrow> judge_talk" where
  "say ms t = t\<lparr>jt_messages := jt_messages t @ ms\<rparr>"

definition execute :: "executor \<Rightarrow> tool_call list \<Rightarrow> judge_talk \<Rightarrow> judge_talk" where
  "execute invoke calls t = t\<lparr>jt_messages := jt_messages t @ invoke (jt_messages t) calls, jt_ran := jt_ran t @ [calls]\<rparr>"

definition clarify :: "executor \<Rightarrow> int \<Rightarrow> extracted_call \<Rightarrow> judge_talk \<Rightarrow> judge_talk" where
  "clarify invoke budget c t = (if budget \<le> jt_used t then say [tool_message (ec_name c) (ec_id c) (budget_note budget)] t
     else (execute invoke [message_call c] t)\<lparr>jt_used := jt_used t + 1\<rparr>)"

definition declares_of :: "extracted_call list \<Rightarrow> extracted_call list" where
  "declares_of calls = filter (\<lambda>c. ok_status c \<and> ec_name c = ''declare_trade'') calls"

definition watches_of :: "extracted_call list \<Rightarrow> extracted_call list" where
  "watches_of calls = filter (\<lambda>c. ok_status c \<and> ec_name c = ''watch_price_condition'') calls"

definition readonly_of :: "extracted_call list \<Rightarrow> extracted_call list" where
  "readonly_of calls = filter (\<lambda>c. ok_status c \<and> ec_name c \<notin> set DEBATE_READONLY_EXCLUDED_TOOLS) calls"

definition hear :: "string \<Rightarrow> extracted_call list \<Rightarrow> judge_talk \<Rightarrow> judge_talk" where
  "hear content calls t = say (judge_message content calls # map judge_failed_answer (filter (\<lambda>c. \<not> ok_status c) calls)
     @ map (\<lambda>c. tool_message ''watch_price_condition'' (ec_id c) no_watch_note) (watches_of calls)) t"

text \<open>One answer of the judge: whether the loop goes on, and the decision when there is one.\<close>

datatype judge_turn = Again judge_talk | Stop judge_talk "pydict option"

definition judge_declare :: "executor \<Rightarrow> extracted_call list \<Rightarrow> judge_talk \<Rightarrow> judge_turn res" where
  "judge_declare invoke declares t =
     (let calls = map message_call declares; out = invoke (jt_messages t) calls; t' = execute invoke calls t in
      rbind (decision_from_declare calls) (\<lambda>cand. Inr (case cand of
          None \<Rightarrow> Again t'
        | Some d \<Rightarrow> if declare_was_rejected out then Again t' else Stop t' (Some d))))"

definition judge_answer :: "executor \<Rightarrow> int \<Rightarrow> string \<times> extracted_call list \<Rightarrow> judge_talk \<Rightarrow> judge_turn res" where
  "judge_answer invoke budget = (\<lambda>(content, calls) t. let t1 = hear content calls t in
     if declares_of calls \<noteq> [] then judge_declare invoke (declares_of calls) t1
     else if readonly_of calls \<noteq> [] then Inr (Again (fold (clarify invoke budget) (readonly_of calls) t1))
     else if list_ex ok_status calls then Inr (Again t1)
     else Inr (Stop t1 None))"

fun judge_loop :: "judge_model \<Rightarrow> executor \<Rightarrow> int \<Rightarrow> nat \<Rightarrow> judge_talk \<Rightarrow> (judge_talk \<times> pydict option) res" where
  "judge_loop model invoke budget 0 t = Inr (t, None)"
| "judge_loop model invoke budget (Suc n) t = (case model (jt_messages t) of
     None \<Rightarrow> Inr (t, None)
   | Some answer \<Rightarrow> rbind (judge_answer invoke budget answer t) (\<lambda>turn. case turn of
       Again t' \<Rightarrow> judge_loop model invoke budget n t'
     | Stop t' d \<Rightarrow> Inr (t', d)))"

definition max_iters :: "int \<Rightarrow> nat" where "max_iters budget = nat (budget + 2)"

definition talk_start :: judge_talk where "talk_start = \<lparr>jt_messages = [], jt_used = 0, jt_ran = []\<rparr>"

definition drop_key :: "string \<Rightarrow> pydict \<Rightarrow> pydict" where
  "drop_key k d = filter (\<lambda>kv. fst kv \<noteq> k) d"

text \<open>The decision is completed with the stances and the verdict on it, which are taken off afterwards.\<close>

definition finalize_verdict :: "agent_world \<Rightarrow> agent_state \<Rightarrow> string \<Rightarrow> int \<Rightarrow> pydict \<Rightarrow> pydict" where
  "finalize_verdict w s consensus conviction d = drop_key ''_debate'' (aw_finalize w s (dict_put d ''_debate'' (PDict
     [(''bull_stance'', stored_stance (ag_bull_stance s)), (''bear_stance'', stored_stance (ag_bear_stance s)),
      (''consensus'', PStr consensus), (''conviction'', PInt conviction)])))"

definition debate_hold :: "string \<Rightarrow> int \<Rightarrow> pydict" where
  "debate_hold consensus conviction = hold_base ''no-decision-reached''
     (''The Bull/Bear debate reached a '' @ quoted 39 consensus @ '' consensus (derived conviction '' @ int_text conviction
       @ ''); the Judge committed no validated A+ trade within the bounded debate budget. Holding to preserve capital rather than force a low-conviction trade.'')
     ''HOLD - no trade taken (the debate produced no validated setup).'' ''debate_hold''"

definition judge_node ::
    "agent_world \<Rightarrow> debate_config \<Rightarrow> (string \<Rightarrow> pyval option) \<Rightarrow> (judge_brief \<Rightarrow> judge_model) \<Rightarrow> executor
      \<Rightarrow> agent_state \<Rightarrow> agent_state res" where
  "judge_node w cfg loads judge invoke s =
     (let budget = dc_judge_max_tool_calls cfg in
      rbind (judge_synthesis loads (ag_bull_stance s) (ag_bear_stance s)) (\<lambda>(consensus, conviction, bias).
      rbind (judge_loop (judge (brief_of budget s (consensus, conviction, bias))) invoke budget (max_iters budget) talk_start)
       (\<lambda>(talk, declared).
        let d = finalize_verdict w s consensus conviction
              (case declared of Some x \<Rightarrow> x | None \<Rightarrow> debate_hold consensus conviction);
            closing = (case declared of Some _ \<Rightarrow> [] | None \<Rightarrow> [summary_message SUMMARY_KEYS d])
        in Inr (add_messages (jt_messages talk @ closing) (s\<lparr>ag_debate_turns := ag_debate_turns s + 1,
             ag_phase := Some ''debate'', ag_debate_consensus := Some consensus, ag_debate_conviction := Some conviction,
             ag_decision := Some d\<rparr>)))))"

subsection \<open>The debate in the graph\<close>

inductive debate_step :: "agent_world \<Rightarrow> debate_config \<Rightarrow> node \<times> agent_state \<Rightarrow> node \<times> agent_state \<Rightarrow> bool"
  for w :: agent_world and cfg :: debate_config where
  bull: "bull_node loads answer s = Inr s' \<Longrightarrow> debate_step w cfg (BullNode, s) (BearNode, s')"
| bear: "bear_node loads answer s = Inr s' \<Longrightarrow> debate_step w cfg (BearNode, s) (route_debate cfg s', s')"
| judge: "judge_node w cfg loads judge invoke s = Inr s' \<Longrightarrow> debate_step w cfg (JudgeNode, s) (Finished, s')"

inductive_cases debate_stepE: "debate_step w cfg (n, s) x"

text \<open>The whole graph of an analysis: the agent's nodes and the debate's.\<close>

definition graph_step :: "agent_world \<Rightarrow> env \<Rightarrow> debate_config \<Rightarrow> node \<times> agent_state \<Rightarrow> node \<times> agent_state \<Rightarrow> bool" where
  "graph_step w env cfg x y \<longleftrightarrow> agent_step w env x y \<or> debate_step w cfg x y"

definition route_entry :: "agent_state \<Rightarrow> string" where
  "route_entry s = (if mode_is ''QA'' s then ''qa_agent'' else if mode_is DEBATE_MODE s then ''research'' else ''agent'')"

subsection \<open>The second opinion of a question\<close>

text \<open>
  A sub-agent works on a copy of the state. Its updates are merged as dictionaries: the messages of an
  update replace those of the copy, where the graph would append them.
\<close>

definition overwrite_turn :: "role_update \<Rightarrow> agent_state \<Rightarrow> agent_state" where
  "overwrite_turn u s = s\<lparr>ag_debate_turns := ag_debate_turns s + 1, ag_phase := Some ''debate'',
     ag_messages := (case ru_messages u of None \<Rightarrow> ag_messages s | Some ms \<Rightarrow> ms)\<rparr>"

definition QA_REFRESH_TOOLS :: "string list" where
  "QA_REFRESH_TOOLS = [''get_candles'', ''get_consensus_report'', ''get_multi_tf_trend'', ''get_support_resistance'',
     ''get_market_regime'', ''get_order_flow'']"

definition qa_refresh_call :: "string \<Rightarrow> string \<Rightarrow> nat \<times> string \<Rightarrow> tool_call" where
  "qa_refresh_call symbol timeframe = (\<lambda>(i, name). \<lparr>tc_name = name,
     tc_args = (''symbol'', PStr symbol) # (if name = ''get_candles'' then [(''timeframe'', PStr timeframe)] else []),
     tc_id = ''qa_refresh_'' @ int_text (int i)\<rparr>)"

text \<open>The executor gives \<open>None\<close> when the batch fails as a whole.\<close>

definition qa_refresh_evidence :: "(tool_call list \<Rightarrow> chat_message list option) \<Rightarrow> string \<Rightarrow> string \<Rightarrow> chat_message list" where
  "qa_refresh_evidence invoke symbol timeframe = (if py_strip symbol = [] then []
     else case invoke (map (qa_refresh_call (py_strip symbol) (if py_strip timeframe = [] then ''10m'' else py_strip timeframe))
         (enumerate 0 QA_REFRESH_TOOLS)) of None \<Rightarrow> [] | Some ms \<Rightarrow> ms)"

definition focus_line :: "pydict \<Rightarrow> string" where
  "focus_line args = (let f = dict_get args ''focus'' in
     if py_truthy f \<and> py_strip (py_str f) \<noteq> [] then '' Focus: '' @ py_str f @ ''.'' else [])"

definition refresh_note :: string where
  "refresh_note = '' NOTE: the data refresh returned nothing, so this debate is over the session's recorded evidence.''"

definition qa_working :: "string \<Rightarrow> pydict \<Rightarrow> chat_message list \<Rightarrow> agent_state \<Rightarrow> agent_state \<times> string" where
  "qa_working name args fresh s = (if name = ''rerun_analysis''
     then (if fresh \<noteq> [] then (add_messages fresh s, focus_line args) else (s, focus_line args @ refresh_note))
     else (s, focus_line args))"

definition after_bull :: "role_update \<Rightarrow> agent_state \<Rightarrow> agent_state" where
  "after_bull u s = (overwrite_turn u s)\<lparr>ag_bull_stance := Some (ru_stance u)\<rparr>"

definition advisory_note :: string where
  "advisory_note = ''Advisory second opinion. The committed trade for this session is unchanged; report agreement or disagreement, do not present this as a new decision.''"

text \<open>The answer of the sub-agent; \<open>fresh\<close> is what the refresh fetched, \<open>said\<close> how an error is worded.\<close>

definition second_opinion ::
    "(string \<Rightarrow> pyval option) \<Rightarrow> (role_request \<Rightarrow> string option) \<Rightarrow> string \<Rightarrow> agent_state \<times> string \<Rightarrow> pydict res" where
  "second_opinion loads answer name = (\<lambda>(working, focus).
     rbind (run_debate_role loads answer ''bull'' (BULL_ROLE_PROMPT @ focus) working) (\<lambda>bull_u.
     rbind (run_debate_role loads answer ''bear'' (BEAR_ROLE_PROMPT @ focus) (after_bull bull_u working)) (\<lambda>bear_u.
     rbind (judge_synthesis loads (Some (ru_stance bull_u)) (Some (ru_stance bear_u))) (\<lambda>(consensus, conviction, bias).
       Inr [(''sub_agent'', PStr name), (''advisory'', PBool True), (''note'', PStr advisory_note),
         (''consensus'', PStr consensus), (''conviction'', PInt conviction), (''directional_bias'', PStr bias),
         (''bull_stance'', PDict (ru_stance bull_u)), (''bear_stance'', PDict (ru_stance bear_u))]))))"

definition run_qa_subagent ::
    "(string \<Rightarrow> pyval option) \<Rightarrow> (role_request \<Rightarrow> string option) \<Rightarrow> (pyerr \<Rightarrow> string) \<Rightarrow> string \<Rightarrow> pydict
      \<Rightarrow> chat_message list \<Rightarrow> agent_state \<Rightarrow> string" where
  "run_qa_subagent loads answer said name args fresh s =
     (case second_opinion loads answer name (qa_working name args fresh s) of
        Inr d \<Rightarrow> json_text (PDict d)
      | Inl e \<Rightarrow> ''The '' @ quoted 39 name @ '' sub-agent could not complete ('' @ said e
          @ ''). Answer from the recorded analysis and any data you already fetched, and say the second opinion was unavailable.'')"

end
