(* ===== verification/DebateFacts.thy ===== *)
theory DebateFacts
  imports Debate
begin

text \<open>
  Facts of the debate's core. What is read from a role is in range and reads back the same from the
  state; the configuration is in range whatever the environment; the weighted sum is monotone in
  both strengths, which puts every contested conviction below every conviction of a clear debate.
\<close>

subsection \<open>Text\<close>

lemma hd_strip: "t = py_strip s \<Longrightarrow> t \<noteq> [] \<Longrightarrow> \<not> is_space (hd t) \<and> \<not> is_space (last t)"
proof -
  assume t: "t = py_strip s" and ne: "t \<noteq> []"
  define u where "u = dropWhile is_space s"
  define v where "v = dropWhile is_space (rev u)"
  have tv: "t = rev v" by (simp add: t py_strip_def u_def v_def)
  with ne have "v \<noteq> []" by simp
  then have h: "\<not> is_space (hd v)" unfolding v_def by (rule hd_dropWhile)
  from \<open>v \<noteq> []\<close> obtain w where w: "rev u = w @ v" using takeWhile_dropWhile_id v_def by metis
  then have "u \<noteq> []" using \<open>v \<noteq> []\<close> by auto
  then have "\<not> is_space (hd u)" unfolding u_def by (rule hd_dropWhile)
  moreover have "hd u = last v" using w \<open>v \<noteq> []\<close> \<open>u \<noteq> []\<close> by (metis hd_rev last_appendR last_rev rev_rev_ident)
  ultimately show ?thesis using h \<open>v \<noteq> []\<close> by (simp add: tv hd_rev last_rev)
qed

lemma strip_fix: "t \<noteq> [] \<Longrightarrow> \<not> is_space (hd t) \<Longrightarrow> \<not> is_space (last t) \<Longrightarrow> py_strip t = t"
  using dropWhile_eq_self_iff [of is_space t] dropWhile_eq_self_iff [of is_space "rev t"]
  by (simp add: py_strip_def hd_rev)

lemma strip_Nil [simp]: "py_strip [] = []"
  by (simp add: py_strip_def)

lemma strip_strip [simp]: "py_strip (py_strip s) = py_strip s"
proof (cases "py_strip s = []")
  case False
  then show ?thesis using hd_strip [OF refl, of s] by (intro strip_fix) auto
qed simp

lemma lower_char_range: "c \<noteq> lower_char c \<Longrightarrow> 97 \<le> (of_char (lower_char c) :: nat) \<and> (of_char (lower_char c) :: nat) \<le> 122
   \<and> 65 \<le> (of_char c :: nat) \<and> (of_char c :: nat) \<le> 90"
  by (auto simp: lower_char_def Let_def split: if_splits)

lemma lower_lower_char [simp]: "lower_char (lower_char c) = lower_char c"
  using lower_char_range [of c] by (cases "lower_char c = c") (auto simp: lower_char_def [of "lower_char c"] Let_def)

lemma space_lower [simp]: "is_space (lower_char c) = is_space c"
  using lower_char_range [of c] by (cases "lower_char c = c") (auto simp: is_space_def)

lemma lower_lower [simp]: "py_lower (py_lower s) = py_lower s"
  by (simp add: py_lower_def)

lemma strip_lower [simp]: "py_strip (py_lower s) = py_lower (py_strip s)"
proof -
  have *: "is_space \<circ> lower_char = is_space" by (simp add: fun_eq_iff)
  show ?thesis by (simp add: py_strip_def py_lower_def dropWhile_map * rev_map)
qed

subsection \<open>Configuration\<close>

interpretation debate_int: env_param parse_int "\<lambda>v. low \<le> v \<and> v \<le> high"
    "\<lambda>env name d. resolve_int_in_range env name d low high" for low high
  by unfold_locales (auto simp: resolve_int_in_range_def env_str_def)

lemma env_str_nonempty: "env_str env name = Some v \<Longrightarrow> v \<noteq> []"
  by (auto simp: env_str_def split: option.splits if_splits)

lemma role_model_nonempty: "d \<noteq> [] \<Longrightarrow> resolve_role_model env name d \<noteq> []"
  using env_str_nonempty by (auto simp: resolve_role_model_def split: option.split)

lemma system_model_nonempty: "system_model env given \<noteq> []"
  using role_model_nonempty by (auto simp: system_model_def GEMINI_DEFAULT_MODEL_def split: option.split)

lemmas debate_bounds = MAX_ROUNDS_def TURNS_PER_ROUND_def JUDGE_TURNS_def MAX_TURNS_CAP_def DEFAULT_ROUNDS_def
  JUDGE_MAX_TOOL_CALLS_DEFAULT_def JUDGE_MAX_TOOL_CALLS_CAP_def derived_max_turns_def

lemma rounds_range: "1 \<le> dc_rounds (resolve_debate_config env given) \<and> dc_rounds (resolve_debate_config env given) \<le> 5"
  using debate_int.resolve_ok [where low = 1 and high = 5 and d = 1 and env = env and name = "''DEBATE_ROUNDS''"]
  by (simp add: resolve_debate_config_def Let_def debate_bounds)

lemma max_turns_range:
  "2 * dc_rounds (resolve_debate_config env given) + 1 \<le> dc_max_turns (resolve_debate_config env given)
   \<and> dc_max_turns (resolve_debate_config env given) \<le> 11"
proof -
  define r where "r = dc_rounds (resolve_debate_config env given)"
  have "dc_max_turns (resolve_debate_config env given)
      = resolve_int_in_range env ''DEBATE_MAX_TURNS'' (2 * r + 1) (2 * r + 1) 11"
    by (simp add: r_def resolve_debate_config_def Let_def debate_bounds mult.commute)
  then show ?thesis
    using debate_int.resolve_ok [of "2 * r + 1" "2 * r + 1" 11 env "''DEBATE_MAX_TURNS''"]
      rounds_range [of env given] unfolding r_def by simp
qed

lemma judge_budget_range: "0 \<le> dc_judge_max_tool_calls (resolve_debate_config env given)
   \<and> dc_judge_max_tool_calls (resolve_debate_config env given) \<le> 5"
  using debate_int.resolve_ok [where low = 0 and high = 5 and d = 2 and env = env and name = "''DEBATE_JUDGE_MAX_TOOL_CALLS''"]
  by (simp add: resolve_debate_config_def Let_def debate_bounds)

text \<open>Every environment gives a usable configuration of the debate: one to five rounds, a turn budget
  that holds at least the configured rounds and the judge and never more than the cap, a judge's
  read budget within its cap, and a model for every role.\<close>

theorem debate_config_in_range:
  "let c = resolve_debate_config env given in
     1 \<le> dc_rounds c \<and> dc_rounds c \<le> MAX_ROUNDS \<and> derived_max_turns (dc_rounds c) \<le> dc_max_turns c
     \<and> dc_max_turns c \<le> MAX_TURNS_CAP \<and> 0 \<le> dc_judge_max_tool_calls c
     \<and> dc_judge_max_tool_calls c \<le> JUDGE_MAX_TOOL_CALLS_CAP
     \<and> dc_bull_model c \<noteq> [] \<and> dc_bear_model c \<noteq> [] \<and> dc_judge_model c \<noteq> []"
proof -
  have "dc_bull_model (resolve_debate_config env given) \<noteq> []" "dc_bear_model (resolve_debate_config env given) \<noteq> []"
    "dc_judge_model (resolve_debate_config env given) \<noteq> []"
    using role_model_nonempty [OF system_model_nonempty] by (simp_all add: resolve_debate_config_def Let_def)
  then show ?thesis
    using rounds_range [of env given] max_turns_range [of env given] judge_budget_range [of env given]
    by (simp add: debate_bounds mult.commute Let_def)
qed

subsection \<open>Stances\<close>

definition stance_ok :: "debate_stance \<Rightarrow> bool" where
  "stance_ok s \<longleftrightarrow> py_lower (py_strip (ds_role s)) = ds_role s \<and> ds_lean s \<in> set DEBATE_LEANS
     \<and> 0 \<le> ds_strength s \<and> ds_strength s \<le> 100
     \<and> list_all (\<lambda>a. a \<noteq> [] \<and> py_strip a = a) (ds_arguments s) \<and> py_strip (ds_biggest_risk s) = ds_biggest_risk s"

lemma rne_clamped:
  assumes "py_round (fmax (Fin 0) (fmin (Fin 100) f)) = Inr n"
  shows "0 \<le> n \<and> n \<le> 100"
proof (cases f)
  case (Fin q)
  have "0 \<le> rne q \<and> rne q \<le> 100" if "0 \<le> q" "q \<le> 100"
    using rne_mono [OF that(1)] rne_mono [OF that(2)] rne_of_int [of 0] rne_of_int [of 100] by simp
  moreover have "rne 0 = 0" "rne 100 = 100" using rne_of_int [of 0] rne_of_int [of 100] by simp_all
  ultimately show ?thesis using assms by (auto simp: Fin fmax_def fmin_def split: if_splits)
qed (use assms rne_of_int [of 0] rne_of_int [of 100] in \<open>auto simp: fmax_def fmin_def split: if_splits\<close>)

lemma coerce_strength_range: "coerce_strength v = Inr n \<Longrightarrow> 0 \<le> n \<and> n \<le> 100"
  using rne_clamped by (auto simp: coerce_strength_def rbind_eq_Inr STRENGTH_MIN_def STRENGTH_MAX_def split: option.splits)

lemma coerce_strength_int: "0 \<le> n \<Longrightarrow> n \<le> 100 \<Longrightarrow> coerce_strength (PInt n) = Inr n"
proof -
  assume n: "0 \<le> n" "n \<le> 100"
  then have "fl (of_int n) = Fin (of_int n)" by (intro fl_exact fwf_int) simp
  with n show ?thesis
    using rne_of_int [of n] rne_of_int [of 0] rne_of_int [of 100]
    by (auto simp: coerce_strength_def strength_number_def float_of_int_def STRENGTH_MIN_def STRENGTH_MAX_def fmax_def fmin_def)
qed

lemma coerce_lean_range: "coerce_lean v \<in> set DEBATE_LEANS"
proof -
  have "DEFAULT_LEAN \<in> set DEBATE_LEANS" by (simp add: DEFAULT_LEAN_def DEBATE_LEANS_def)
  then show ?thesis
    by (auto simp: coerce_lean_def recognized_lean_def split: pyval.split)
qed

lemma coerce_lean_fix: "l \<in> set DEBATE_LEANS \<Longrightarrow> coerce_lean (PStr l) = l"
proof -
  have all: "list_all (\<lambda>l. coerce_lean (PStr l) = l) DEBATE_LEANS" by code_simp
  assume "l \<in> set DEBATE_LEANS"
  with all show ?thesis by (simp add: list_all_iff)
qed

lemma coerce_arguments_ok: "list_all (\<lambda>a. a \<noteq> [] \<and> py_strip a = a) (coerce_arguments v)"
  by (auto simp: coerce_arguments_def list_all_iff split: pyval.split)

lemma coerce_arguments_fix: "list_all (\<lambda>a. a \<noteq> [] \<and> py_strip a = a) as \<Longrightarrow> coerce_arguments (PList (map PStr as)) = as"
  by (induction as) (auto simp: coerce_arguments_def)

lemma coerce_risk_ok: "py_strip (coerce_biggest_risk v) = coerce_biggest_risk v"
  by (auto simp: coerce_biggest_risk_def split: pyval.split)

lemma parsed_stance_ok: "parse_stance loads role raw = Inr s \<Longrightarrow> stance_ok s"
proof -
  have no: "stance_ok (no_stance (py_lower (py_strip role)))"
    by (simp add: stance_ok_def no_stance_def DEFAULT_LEAN_def DEBATE_LEANS_def STRENGTH_MIN_def)
  assume "parse_stance loads role raw = Inr s"
  then show ?thesis
    using no coerce_strength_range coerce_lean_range coerce_arguments_ok coerce_risk_ok
    by (auto simp: parse_stance_def stance_ok_def rbind_eq_Inr Let_def split: option.splits)
qed

lemmas stance_keys = dict_get_def stance_to_dict_def

lemma parse_stored:
  assumes "stance_ok s"
  shows "parse_stance loads (ds_role s) (PDict (stance_to_dict s)) = Inr s"
proof -
  have "coerce_to_mapping loads (PDict (stance_to_dict s)) = Some (stance_to_dict s)" by (simp add: coerce_to_mapping_def)
  then show ?thesis
    using assms coerce_strength_int coerce_lean_fix coerce_arguments_fix
    by (simp add: parse_stance_def stance_keys stance_ok_def coerce_biggest_risk_def Let_def)
qed

lemma nan_strength: "coerce_strength (PFloat NaN) = Inr 100"
  using rne_of_int [of 100] by (simp add: coerce_strength_def strength_number_def fmax_def fmin_def STRENGTH_MIN_def STRENGTH_MAX_def)

lemma float_of_int_huge: "2 ^ 1024 \<le> n \<Longrightarrow> float_of_int n = Inl OverflowError"
proof -
  assume n: "2 ^ 1024 \<le> n"
  have "rnd (2 ^ 1024) = 2 ^ 1024"
    by (rule rnd_exact [of _ 1 1024]) (simp_all add: power_int_def)
  moreover have "(2 :: rat) ^ 1024 \<le> of_int n"
    using n by (metis of_int_le_iff of_int_numeral of_int_power)
  ultimately have "fbound \<le> rnd (of_int n)" using rnd_mono [of "2 ^ 1024" "of_int n"] by (simp add: fbound_def)
  then show ?thesis by (cases "of_int n :: rat" rule: fl_cases) (auto simp: float_of_int_def)
qed

subsection \<open>Conviction\<close>

definition wsum :: "int \<Rightarrow> int \<Rightarrow> rat" where
  "wsum b s = rnd (rnd (7 / 10) * of_int b) + rnd (rnd (3 / 10) * of_int s)"

lemma rnd_le_int: "q \<le> of_int n \<Longrightarrow> \<bar>n\<bar> \<le> 2 ^ 53 \<Longrightarrow> rnd q \<le> of_int n"
  using rnd_mono [of q "of_int n"] by (simp add: rnd_of_int)

lemma fl_small: "0 \<le> q \<Longrightarrow> q \<le> 1000 \<Longrightarrow> fl q = Fin (rnd q)"
proof -
  assume q: "0 \<le> q" "q \<le> 1000"
  have "rnd q \<le> 1000" using rnd_le_int [of q 1000] q by simp
  then have "\<bar>rnd q\<bar> < fbound" using rnd_nonneg [OF q(1)] fbound_gt by simp
  then show ?thesis by (auto simp: fl_def Let_def abs_less_iff)
qed

lemma weight_bounds: "0 \<le> rnd (7 / 10)" "rnd (7 / 10) \<le> 1" "0 \<le> rnd (3 / 10)" "rnd (3 / 10) \<le> 1"
  using rnd_nonneg [of "7 / 10"] rnd_le_int [of "7 / 10" 1] rnd_nonneg [of "3 / 10"] rnd_le_int [of "3 / 10" 1] by simp_all

lemma part_bounds:
  assumes "0 \<le> w" "w \<le> 1" "0 \<le> n" "n \<le> 100"
  shows "0 \<le> w * of_int n" "w * of_int n \<le> 100" "0 \<le> rnd (w * of_int n)" "rnd (w * of_int n) \<le> 100"
proof -
  show a: "0 \<le> w * of_int n" using assms by simp
  have "w * of_int n \<le> 1 * 100" using assms by (intro mult_mono) auto
  then show b: "w * of_int n \<le> 100" by simp
  show "0 \<le> rnd (w * of_int n)" by (rule rnd_nonneg [OF a])
  show "rnd (w * of_int n) \<le> 100" using rnd_le_int [of "w * of_int n" 100] b by simp
qed

lemma weighted_eq:
  assumes "0 \<le> b" "b \<le> 100" "0 \<le> s" "s \<le> 100"
  shows "weighted b s = Fin (rnd (wsum b s))"
proof -
  have ints: "fl (of_int b) = Fin (of_int b)" "fl (of_int s) = Fin (of_int s)"
    using assms by (auto intro!: fl_exact fwf_int)
  note pb = part_bounds [OF weight_bounds(1,2) assms(1,2)] and ps = part_bounds [OF weight_bounds(3,4) assms(3,4)]
  have "fmul W_BASE (Fin (of_int b)) = Fin (rnd (rnd (7 / 10) * of_int b))"
    "fmul W_SEP (Fin (of_int s)) = Fin (rnd (rnd (3 / 10) * of_int s))"
    using pb ps by (simp_all add: W_BASE_def W_SEP_def fl_small)
  then show ?thesis using pb ps by (simp add: weighted_def ints wsum_def fl_small)
qed

lemma wsum_mono:
  assumes "b \<le> b'" "s \<le> s'" shows "wsum b s \<le> wsum b' s'"
  unfolding wsum_def using assms weight_bounds by (intro add_mono rnd_mono mult_left_mono) auto

text \<open>The rounded term before the penalty.\<close>

definition rounded :: "int \<Rightarrow> int \<Rightarrow> int" where
  "rounded b s = rne (rnd (wsum b s))"

lemma py_round_weighted: "0 \<le> b \<Longrightarrow> b \<le> 100 \<Longrightarrow> 0 \<le> s \<Longrightarrow> s \<le> 100 \<Longrightarrow> py_round (weighted b s) = Inr (rounded b s)"
  by (simp add: weighted_eq rounded_def)

lemma rounded_mono: "b \<le> b' \<Longrightarrow> s \<le> s' \<Longrightarrow> rounded b s \<le> rounded b' s'"
  unfolding rounded_def by (intro rne_mono rnd_mono wsum_mono)

lemma rounded_samples: "rounded 100 15 \<le> 75" "rounded 60 30 = 51"
  by code_simp+

lemma effective_range: "0 \<le> effective_strength s" "effective_strength s \<le> 100"
  by (auto simp: effective_strength_def clamp_int_def STRENGTH_MIN_def STRENGTH_MAX_def)

lemma derive_conviction_eq:
  fixes bull bear :: debate_stance
  defines "hi \<equiv> max (effective_strength bull) (effective_strength bear)"
    and "lo \<equiv> min (effective_strength bull) (effective_strength bear)"
  shows "derive_conviction bull bear consensus
    = Inr (clamp_int (rounded hi (hi - lo) - (if consensus = ''contested'' then 25 else 0)) 0 100)"
proof -
  have "clamp_int hi 0 100 = hi" "clamp_int (hi - lo) 0 100 = hi - lo" "0 \<le> hi" "hi \<le> 100" "0 \<le> hi - lo" "hi - lo \<le> 100"
    using effective_range [of bull] effective_range [of bear] by (auto simp: clamp_int_def hi_def lo_def)
  then show ?thesis
    by (simp add: derive_conviction_def Let_def py_round_weighted CONTESTED_PENALTY_def flip: hi_def lo_def)
qed

lemma conviction_total: "\<exists>n. derive_conviction bull bear consensus = Inr n \<and> 0 \<le> n \<and> n \<le> 100"
  by (auto simp: derive_conviction_eq clamp_int_def)

lemmas consensus_defs = classify_consensus_def STRONG_FLOOR_def STRONG_GAP_def CONTESTED_GAP_def Let_def

subsection \<open>What the core promises\<close>

text \<open>A parsed stance survives its stored form: the dict that is kept in the state is read back, by any
  JSON parser, as exactly the stance that was parsed, availability included.\<close>

theorem stance_round_trip:
  assumes "parse_stance loads role raw = Inr s"
  shows "parse_stance loads' (ds_role s) (PDict (stance_to_dict s)) = Inr s"
  by (rule parse_stored [OF parsed_stance_ok [OF assms]])

definition no_json :: "string \<Rightarrow> pyval option" where "no_json = (\<lambda>_. None)"

text \<open>A bull that leans long at full strength and a bear that leans short.\<close>

definition stance_text :: "string \<Rightarrow> pyval \<Rightarrow> pyval" where
  "stance_text lean strength = PDict [(''lean'', PStr lean), (''strength'', strength)]"

theorem stance_round_trip_witness:
  "\<exists>s. parse_stance no_json ''bull'' (stance_text ''long'' (PInt 80)) = Inr s
     \<and> parse_stance no_json (ds_role s) (PDict (stance_to_dict s)) = Inr s"
proof -
  have "case parse_stance no_json ''bull'' (stance_text ''long'' (PInt 80)) of Inr _ \<Rightarrow> True | Inl _ \<Rightarrow> False" by code_simp
  then obtain s where "parse_stance no_json ''bull'' (stance_text ''long'' (PInt 80)) = Inr s" by (auto split: sum.splits)
  then show ?thesis using stance_round_trip by blast
qed

text \<open>A strength that is not a number is read as full strength: \<open>max(0, min(100, nan))\<close>
  keeps 100, so a stance whose model wrote \<open>nan\<close> enters the verdict as the strongest
  case there is.\<close>

theorem unreadable_strength_is_full:
  "parse_stance loads role (PDict [(''lean'', PStr ''long''), (''strength'', PFloat NaN)])
     = Inr \<lparr>ds_role = py_lower (py_strip role), ds_lean = ''long'', ds_strength = STRENGTH_MAX, ds_arguments = [],
          ds_biggest_risk = [], ds_available = True\<rparr>
   \<and> coerce_strength (PStr ''nan'') = Inr STRENGTH_MAX"
proof -
  have l: "recognized_lean (PStr ''long'') = Some ''long''" "parse_float (py_strip ''nan'') = Some NaN" by code_simp+
  have "coerce_strength (PStr ''nan'') = Inr STRENGTH_MAX"
    using nan_strength l(2) by (simp add: coerce_strength_def strength_number_def STRENGTH_MAX_def)
  then show ?thesis
    using nan_strength l(1)
    by (simp add: parse_stance_def coerce_to_mapping_def dict_get_def coerce_lean_def coerce_arguments_def
        coerce_biggest_risk_def STRENGTH_MAX_def Let_def)
qed

text \<open>C27: A contested debate is never convicted as strongly as an agreed one: whatever the four stances, the
  conviction of any contested pair lies below that of any pair in strong agreement.\<close>

theorem contested_below_agreed:
  assumes "classify_consensus a b = ''contested''" "derive_conviction a b ''contested'' = Inr m"
    and "classify_consensus c d = ''strong_agree''" "derive_conviction c d ''strong_agree'' = Inr n"
  shows "m < n"
proof -
  let ?hi = "\<lambda>x y. max (effective_strength x) (effective_strength y)"
  let ?gap = "\<lambda>x y. ?hi x y - min (effective_strength x) (effective_strength y)"
  have "?hi a b \<le> 100" using effective_range(2) by simp
  moreover have "?gap a b \<le> 15" using assms(1) by (simp add: consensus_defs split: if_splits)
  ultimately have "rounded (?hi a b) (?gap a b) \<le> 75" using rounded_mono rounded_samples(1) order_trans by blast
  then have "m \<le> 50" using assms(2) by (auto simp: derive_conviction_eq clamp_int_def split: if_splits)
  have "60 \<le> ?hi c d" "30 \<le> ?gap c d" using assms(3) by (simp_all add: consensus_defs split: if_splits)
  then have "51 \<le> rounded (?hi c d) (?gap c d)" using rounded_mono rounded_samples(2) by metis
  then have "51 \<le> n" using assms(4) by (auto simp: derive_conviction_eq clamp_int_def split: if_splits)
  with \<open>m \<le> 50\<close> show ?thesis by simp
qed

definition opinion :: "int \<Rightarrow> debate_stance" where
  "opinion n = (no_stance ''bull'')\<lparr>ds_lean := ''long'', ds_strength := n, ds_available := True\<rparr>"

theorem contested_below_agreed_witness:
  "\<exists>m n. derive_conviction (opinion 80) (opinion 80) ''contested'' = Inr m
     \<and> derive_conviction (opinion 80) (opinion 20) ''strong_agree'' = Inr n \<and> m < n"
proof -
  obtain m n where mn: "derive_conviction (opinion 80) (opinion 80) ''contested'' = Inr m"
      "derive_conviction (opinion 80) (opinion 20) ''strong_agree'' = Inr n"
    using conviction_total by metis
  have c: "classify_consensus (opinion 80) (opinion 80) = ''contested''"
    "classify_consensus (opinion 80) (opinion 20) = ''strong_agree''" by code_simp+
  show ?thesis using contested_below_agreed [OF c(1) mn(1) c(2) mn(2)] mn by blast
qed

text \<open>A directional bias is always the lean of an available stance that is strictly stronger than the
  other, and never comes out of a contested debate.\<close>

theorem bias_needs_stronger_side:
  assumes "judge_directional_bias bull bear consensus \<noteq> ''hold''"
  shows "consensus \<noteq> ''contested'' \<and> (\<exists>w l. (w = bull \<and> l = bear \<or> w = bear \<and> l = bull) \<and> ds_available w
    \<and> effective_strength l < effective_strength w \<and> judge_directional_bias bull bear consensus = ds_lean w
    \<and> ds_lean w \<in> {''long'', ''short''})"
proof -
  have c: "consensus \<noteq> ''contested''" using assms by (auto simp: judge_directional_bias_def)
  have ne: "effective_strength bull \<noteq> effective_strength bear" using assms by (auto simp: judge_directional_bias_def Let_def split: if_splits)
  define w l where "w = (if effective_strength bull > effective_strength bear then bull else bear)"
    and "l = (if effective_strength bull > effective_strength bear then bear else bull)"
  have "effective_strength l < effective_strength w" using ne by (auto simp: w_def l_def)
  moreover from this have "ds_available w" using effective_range(1) [of l]
    by (cases "ds_available w") (simp_all add: effective_strength_def [of w] STRENGTH_MIN_def)
  moreover have "judge_directional_bias bull bear consensus = ds_lean w" "ds_lean w \<in> {''long'', ''short''}"
    using assms c ne by (auto simp: judge_directional_bias_def w_def Let_def split: if_splits)
  moreover have "w = bull \<and> l = bear \<or> w = bear \<and> l = bull" by (simp add: w_def l_def)
  ultimately show ?thesis using c by blast
qed

theorem bias_needs_stronger_side_witness:
  "judge_directional_bias (opinion 80) (opinion 20) ''lean'' = ''long''
     \<and> (\<exists>w \<in> {opinion 80, opinion 20}. ds_available w \<and> ds_lean w = ''long'')"
proof -
  have b: "judge_directional_bias (opinion 80) (opinion 20) ''lean'' = ''long''" by code_simp
  then have "judge_directional_bias (opinion 80) (opinion 20) ''lean'' \<noteq> ''hold''" by simp
  from bias_needs_stronger_side [OF this] b show ?thesis by auto
qed

end
