(* ===== verification/DebateLoopFacts.thy ===== *)
theory DebateLoopFacts
  imports DebateLoop DebateFacts AgentLoopFacts
begin

text \<open>
  What the debate guarantees: it runs its configured rounds and ends, only the judge decides, and the
  judge commits no trade that the validator refused and reads within its budget. And what it does
  not: the bear of a second opinion hears no evidence, a call that cannot be parsed ends the debate,
  reads beside a declaration stay unanswered.
\<close>

subsection \<open>The roles\<close>

lemma role_keeps:
  assumes "bull_node loads answer s = Inr t \<or> bear_node loads answer s = Inr t"
  shows "ag_decision t = ag_decision s" "ag_debate_turns t = ag_debate_turns s + 1" "ag_phase t = Some ''debate''"
    "\<exists>new. ag_messages t = ag_messages s @ new \<and> list_all (\<lambda>m. cm_calls m = []) new \<and> \<not> list_ex is_tool_message new"
  using assms
  by (auto simp: bull_node_def bear_node_def run_debate_role_def merge_turn_def rbind_eq_Inr Let_def plain_message_def
      is_tool_message_def add_messages_def split: option.splits if_splits)

lemma evidence_append: "\<not> list_ex is_tool_message new \<Longrightarrow> collect_shared_evidence (ms @ new) = collect_shared_evidence ms"
  by (induction new) (auto simp: collect_shared_evidence_def Let_def)

lemma bear_hears_evidence:
  assumes "bull_node loads answer s = Inr t"
  shows "rr_evidence (role_request_of ''bear'' p t) = collect_shared_evidence (ag_messages s)"
  using role_keeps(4) [of loads answer s t] assms evidence_append by (auto simp: role_request_of_def)

text \<open>In the second opinion of a question the bear is asked without evidence: the update of the bull's
  turn replaces the messages of the copied state, so as soon as the bull has answered with a text
  there is no tool result left for the bear to read.\<close>

theorem sub_agent_bear_is_blind:
  assumes "run_debate_role loads answer ''bull'' prompt s = Inr u"
    and "answer (role_request_of ''bull'' prompt s) = Some text" and "py_strip text \<noteq> []"
  shows "rr_evidence (role_request_of ''bear'' p (after_bull u s)) = []"
  using assms
  by (auto simp: run_debate_role_def rbind_eq_Inr Let_def role_request_of_def after_bull_def overwrite_turn_def
      collect_shared_evidence_def is_tool_message_def plain_message_def)

subsection \<open>The order of the turns\<close>

text \<open>Where a debate stands after \<open>k\<close> turns.\<close>

definition debate_at :: "int \<Rightarrow> nat \<Rightarrow> node \<Rightarrow> agent_state \<Rightarrow> bool" where
  "debate_at rounds k n s \<longleftrightarrow> ag_debate_turns s = int k \<and> int k \<le> 2 * rounds + 1
     \<and> n = (if int k = 2 * rounds + 1 then Finished else if int k = 2 * rounds then JudgeNode
            else if even k then BullNode else BearNode)
     \<and> (odd k \<and> int k < 2 * rounds \<longrightarrow> ag_debate_round s = Some (int k div 2 + 1))"

lemma bull_round:
  "bull_node loads answer s = Inr t \<Longrightarrow> ag_debate_round t = Some (ag_debate_turns s div 2 + 1)"
  by (auto simp: bull_node_def rbind_eq_Inr Let_def merge_turn_def TURNS_PER_ROUND_def add_messages_def)

lemma bear_round: "bear_node loads answer s = Inr t \<Longrightarrow> ag_debate_round t = ag_debate_round s"
  by (auto simp: bear_node_def rbind_eq_Inr Let_def merge_turn_def add_messages_def)

lemma judge_turns: "judge_node w cfg loads judge invoke s = Inr t \<Longrightarrow> ag_debate_turns t = ag_debate_turns s + 1"
  by (auto simp: judge_node_def rbind_eq_Inr Let_def add_messages_def split: prod.splits)

lemma debate_at_step:
  assumes at: "debate_at rounds k n s" and step: "debate_step w cfg (n, s) (n', t)"
    and cfg: "dc_rounds cfg = rounds" "2 * rounds + 1 \<le> dc_max_turns cfg" "1 \<le> rounds"
  shows "debate_at rounds (Suc k) n' t"
proof -
  consider (bull) loads answer where "n = BullNode" "n' = BearNode" "bull_node loads answer s = Inr t"
    | (bear) loads answer where "n = BearNode" "n' = route_debate cfg t" "bear_node loads answer s = Inr t"
    | (judge) loads judge invoke where "n = JudgeNode" "n' = Finished" "judge_node w cfg loads judge invoke s = Inr t"
    using step by (auto elim: debate_step.cases)
  then show ?thesis
  proof cases
  case bull
  from at bull have k: "even k" "int k < 2 * rounds" "ag_debate_turns s = int k"
    by (auto simp: debate_at_def split: if_splits)
  moreover have "int k \<noteq> 2 * rounds - 1" using k(1) by presburger
  ultimately show ?thesis
    using bull role_keeps(2) [of loads answer s t] bull_round [OF bull(3)]
    by (auto simp: debate_at_def)
next
  case bear
  from at bear have k: "odd k" "int k < 2 * rounds" "ag_debate_turns s = int k" "ag_debate_round s = Some (int k div 2 + 1)"
    by (auto simp: debate_at_def split: if_splits)
  have t: "ag_debate_turns t = int k + 1" "ag_debate_round t = Some (int k div 2 + 1)"
    using role_keeps(2) [of loads answer s t] bear_round [OF bear(3)] bear(3) k by simp_all
  have "current_debate_round t = int k div 2 + 1" by (simp add: current_debate_round_def t)
  moreover obtain j where j: "k = 2 * j + 1" using k(1) by (elim oddE)
  ultimately show ?thesis
    using bear(2) k(2) t cfg unfolding debate_at_def route_debate_def by (auto simp: j)
next
  case judge
  from at judge have k: "int k = 2 * rounds" "ag_debate_turns s = int k"
    by (auto simp: debate_at_def split: if_splits)
  then show ?thesis using judge judge_turns [OF judge(3)] by (auto simp: debate_at_def)
  qed
qed

lemma debate_runs:
  assumes run: "(debate_step w cfg ^^ k) (BullNode, s) (n, t)" and "ag_debate_turns s = 0"
    and cfg: "cfg = resolve_debate_config env given"
  shows "debate_at (dc_rounds cfg) k n t"
  using run
proof (induction k arbitrary: n t)
  case 0
  then show ?case using assms(2) rounds_range [of env given] by (auto simp: debate_at_def cfg)
next
  case (Suc k)
  then obtain n' t' where "(debate_step w cfg ^^ k) (BullNode, s) (n', t')" "debate_step w cfg (n', t') (n, t)" by auto
  then show ?case using Suc.IH debate_at_step rounds_range [of env given] max_turns_range [of env given] cfg by metis
qed

text \<open>C25: From the bull's first turn a debate with a configuration of any environment takes exactly two
  turns for each configured round and one for the judge: it never runs longer, it counts every turn,
  and it is finished exactly then. The turn budget never cuts a configured round short.\<close>

theorem debate_runs_its_rounds:
  assumes "(debate_step w cfg ^^ k) (BullNode, s) (n, t)" and "ag_debate_turns s = 0"
    and "cfg = resolve_debate_config env given"
  shows "int k \<le> 2 * dc_rounds cfg + 1 \<and> ag_debate_turns t = int k \<and> (n = Finished \<longleftrightarrow> int k = 2 * dc_rounds cfg + 1)"
  using debate_runs [OF assms] by (auto simp: debate_at_def split: if_splits)

subsection \<open>The judge's loop\<close>

text \<open>A batch for the executor: declarations, or one read-only call.\<close>

definition declaring :: "tool_call list \<Rightarrow> bool" where
  "declaring calls \<longleftrightarrow> calls \<noteq> [] \<and> list_all is_declare calls"

definition reading :: "tool_call list \<Rightarrow> bool" where
  "reading calls \<longleftrightarrow> (\<exists>tc. calls = [tc] \<and> tc_name tc \<notin> set DEBATE_READONLY_EXCLUDED_TOOLS)"

lemma not_both: "reading calls \<Longrightarrow> \<not> declaring calls"
  by (auto simp: reading_def declaring_def DEBATE_READONLY_EXCLUDED_TOOLS_def is_declare_def)

definition talk_ok :: "int \<Rightarrow> judge_talk \<Rightarrow> bool" where
  "talk_ok budget t \<longleftrightarrow> jt_used t \<le> budget \<and> int (length (filter reading (jt_ran t))) = jt_used t
     \<and> list_all (\<lambda>b. reading b \<or> declaring b) (jt_ran t)"

lemma talk_say [simp]: "talk_ok budget (say ms t) = talk_ok budget t"
  by (simp add: talk_ok_def say_def)

lemma talk_hear [simp]: "talk_ok budget (hear content calls t) = talk_ok budget t"
  by (simp add: hear_def)

lemma talk_clarify:
  assumes "talk_ok budget t" "ec_name c \<notin> set DEBATE_READONLY_EXCLUDED_TOOLS"
  shows "talk_ok budget (clarify invoke budget c t)"
proof -
  have "reading [message_call c]" using assms(2) by (simp add: reading_def message_call_def)
  then show ?thesis using assms(1) by (auto simp: clarify_def execute_def talk_ok_def say_def)
qed

lemma talk_clarify_all:
  "talk_ok budget t \<Longrightarrow> list_all (\<lambda>c. ec_name c \<notin> set DEBATE_READONLY_EXCLUDED_TOOLS) cs
   \<Longrightarrow> talk_ok budget (fold (clarify invoke budget) cs t)"
  by (induction cs arbitrary: t) (auto intro: talk_clarify)

lemma declares_declaring: "declares_of calls \<noteq> [] \<Longrightarrow> declaring (map message_call (declares_of calls))"
  by (auto simp: declaring_def declares_of_def list_all_iff is_declare_def message_call_def)

lemma talk_declare:
  assumes "talk_ok budget t" "declaring (map message_call cs)"
  shows "talk_ok budget (execute invoke (map message_call cs) t)"
  using assms not_both by (auto simp: execute_def talk_ok_def)

definition talk_of :: "judge_turn \<Rightarrow> judge_talk" where
  "talk_of turn = (case turn of Again t \<Rightarrow> t | Stop t _ \<Rightarrow> t)"

lemma talk_answer:
  assumes "talk_ok budget t" "judge_answer invoke budget (content, calls) t = Inr turn"
  shows "talk_ok budget (talk_of turn)"
proof -
  have h: "talk_ok budget (hear content calls t)" using assms(1) by simp
  have r: "list_all (\<lambda>c. ec_name c \<notin> set DEBATE_READONLY_EXCLUDED_TOOLS) (readonly_of calls)"
    by (auto simp: readonly_of_def list_all_iff)
  show ?thesis
    using assms(2) h talk_clarify_all [OF h r] talk_declare [OF h declares_declaring]
    by (auto simp: judge_answer_def judge_declare_def talk_of_def rbind_eq_Inr Let_def split: if_splits option.splits)
qed

lemma talk_loop:
  "judge_loop model invoke budget n t = Inr (t', d) \<Longrightarrow> talk_ok budget t \<Longrightarrow> talk_ok budget t'"
proof (induction n arbitrary: t)
  case (Suc n)
  show ?case
  proof (cases "model (jt_messages t)")
    case (Some answer)
    obtain content calls where a: "answer = (content, calls)" by fastforce
    with Suc.prems Some obtain turn where turn: "judge_answer invoke budget (content, calls) t = Inr turn"
      by (auto simp: rbind_eq_Inr)
    with Suc Some a show ?thesis
      using talk_answer [OF Suc.prems(2) turn] by (cases turn) (auto simp: talk_of_def)
  qed (use Suc in auto)
qed simp

text \<open>C26: However the judge's model answers, its conversation executes at most as many read-only calls as
  the budget allows; every other batch that is executed holds declarations only, and a price watch
  is never executed.\<close>

theorem judge_reads_within_budget:
  assumes "judge_loop model invoke budget (max_iters budget) talk_start = Inr (t, d)" and "0 \<le> budget"
  shows "int (length (filter reading (jt_ran t))) \<le> budget
    \<and> list_all (\<lambda>b. reading b \<or> declaring b) (jt_ran t) \<and> \<not> list_ex (list_ex is_watch) (jt_ran t)"
proof -
  have "talk_ok budget talk_start" using assms(2) by (simp add: talk_ok_def talk_start_def)
  then have t: "talk_ok budget t" using talk_loop [OF assms(1)] by blast
  have "\<not> list_ex is_watch b" if "reading b \<or> declaring b" for b
    using that by (auto simp: reading_def declaring_def list_all_iff list_ex_iff is_watch_def is_declare_def
        DEBATE_READONLY_EXCLUDED_TOOLS_def)
  then show ?thesis using t by (auto simp: talk_ok_def list_all_iff list_ex_iff)
qed

lemma declared_by_answer:
  assumes "judge_answer invoke budget (content, calls) t = Inr (Stop t' (Some d))"
  shows "\<exists>conv. decision_from_declare (map message_call (declares_of calls)) = Inr (Some d)
    \<and> \<not> declare_was_rejected (invoke conv (map message_call (declares_of calls)))"
  using assms
  by (auto simp: judge_answer_def judge_declare_def rbind_eq_Inr Let_def split: if_splits option.splits)

lemma declared_by_loop:
  "judge_loop model invoke budget n t = Inr (t', Some d) \<Longrightarrow>
     \<exists>conv declares. declaring declares \<and> decision_from_declare declares = Inr (Some d)
       \<and> \<not> declare_was_rejected (invoke conv declares)"
proof (induction n arbitrary: t)
  case (Suc n)
  show ?case
  proof (cases "model (jt_messages t)")
    case (Some answer)
    obtain content calls where a: "answer = (content, calls)" by fastforce
    with Suc.prems Some obtain turn where turn: "judge_answer invoke budget (content, calls) t = Inr turn"
      by (auto simp: rbind_eq_Inr)
    show ?thesis
    proof (cases turn)
      case (Again x)
      then show ?thesis using Suc Some a turn by auto
    next
      case (Stop x e)
      then have "e = Some d" using Suc.prems Some a turn by auto
      moreover have "declares_of calls \<noteq> []"
        using turn Stop calculation by (auto simp: judge_answer_def Let_def split: if_splits)
      ultimately show ?thesis
        using declared_by_answer turn Stop declares_declaring by blast
    qed
  qed (use Suc in auto)
qed simp


text \<open>An answer of the judge whose calls all failed to parse ends the conversation: the failure is
  written to the history, but the model is not asked again and the debate holds.\<close>

theorem unparsed_call_ends_debate:
  assumes "model (jt_messages t) = Some (content, calls)" and "\<not> list_ex ok_status calls"
  shows "judge_loop model invoke budget (Suc n) t = Inr (hear content calls t, None)"
proof -
  have "declares_of calls = []" "readonly_of calls = []"
    using assms(2) by (auto simp: declares_of_def readonly_of_def list_ex_iff filter_empty_conv)
  then show ?thesis using assms by (simp add: judge_answer_def)
qed

subsection \<open>What the judge weighs\<close>

lemma role_names [simp]: "py_lower (py_strip ''bull'') = ''bull''" "py_lower (py_strip ''bear'') = ''bear''"
  by code_simp+

lemma parsed_role: "parse_stance loads role raw = Inr s \<Longrightarrow> ds_role s = py_lower (py_strip role)"
  by (auto simp: parse_stance_def no_stance_def rbind_eq_Inr Let_def split: option.splits)

lemma parse_stored_as:
  "parse_stance loads role raw = Inr s \<Longrightarrow> py_lower (py_strip role) = role
    \<Longrightarrow> parse_stance loads' role (PDict (stance_to_dict s)) = Inr s"
  using parse_stored [OF parsed_stance_ok] parsed_role by metis

text \<open>C28: The judge's verdict is computed from the stances that the roles argued: reading the stored dicts
  back gives the same consensus and the same bias as the parsed stances, and a conviction from 0 to
  100.\<close>

theorem judge_weighs_what_was_argued:
  assumes "parse_stance loads ''bull'' raw1 = Inr b" and "parse_stance loads ''bear'' raw2 = Inr r"
  shows "\<exists>c. judge_synthesis loads' (Some (stance_to_dict b)) (Some (stance_to_dict r))
      = Inr (classify_consensus b r, c, judge_directional_bias b r (classify_consensus b r))
    \<and> derive_conviction b r (classify_consensus b r) = Inr c \<and> 0 \<le> c \<and> c \<le> 100"
proof -
  obtain c where c: "derive_conviction b r (classify_consensus b r) = Inr c" "0 \<le> c" "c \<le> 100"
    using conviction_total by blast
  have "parse_stance loads' ''bull'' (PDict (stance_to_dict b)) = Inr b"
    "parse_stance loads' ''bear'' (PDict (stance_to_dict r)) = Inr r"
    using assms by (auto intro: parse_stored_as)
  then show ?thesis using c by (simp add: judge_synthesis_def stored_stance_def Let_def)
qed

text \<open>A strength that is an integer outside the range of a float makes the bull's turn raise
  \<open>OverflowError\<close>.\<close>

theorem huge_strength_stops_debate:
  assumes "answer (role_request_of ''bull'' BULL_ROLE_PROMPT (s\<lparr>ag_debate_round := Some (ag_debate_turns s div 2 + 1)\<rparr>)) = Some text"
    and "coerce_to_mapping loads (extract_stance_payload (Some text)) = Some d"
    and "dict_get d ''strength'' = PInt n" and "2 ^ 1024 \<le> n"
  shows "bull_node loads answer s = Inl OverflowError"
proof -
  have "float_of_int n = Inl OverflowError" by (rule float_of_int_huge [OF assms(4)])
  then have "coerce_strength (dict_get d ''strength'') = Inl OverflowError"
    by (simp add: coerce_strength_def strength_number_def assms(3))
  then show ?thesis using assms(1,2) by (simp add: bull_node_def run_debate_role_def parse_stance_def TURNS_PER_ROUND_def)
qed

lemma four_parts:
  assumes "\<And>x. Q x \<Longrightarrow> \<not> R x"
  shows "image_mset f (mset (filter (\<lambda>x. \<not> P x) xs)) + image_mset f (mset (filter (\<lambda>x. P x \<and> R x) xs))
    + image_mset f (mset (filter (\<lambda>x. P x \<and> Q x) xs)) + image_mset f (mset (filter (\<lambda>x. P x \<and> \<not> (Q x \<or> R x)) xs))
    = image_mset f (mset xs)"
proof (induction xs)
  case (Cons x xs)
  then show ?case using assms [of x] by (cases "P x"; cases "Q x"; cases "R x") simp_all
qed simp

lemma judge_calls_partition:
  "image_mset ec_id (mset (filter (\<lambda>c. \<not> ok_status c) calls)) + image_mset ec_id (mset (watches_of calls))
   + image_mset ec_id (mset (declares_of calls)) + image_mset ec_id (mset (readonly_of calls)) = image_mset ec_id (mset calls)"
proof -
  have "readonly_of calls = filter (\<lambda>c. ok_status c \<and> \<not> (ec_name c = ''declare_trade'' \<or> ec_name c = ''watch_price_condition'')) calls"
    by (simp add: readonly_of_def DEBATE_READONLY_EXCLUDED_TOOLS_def)
  then show ?thesis unfolding watches_of_def declares_of_def by (simp only:) (rule four_parts, simp)
qed

lemma call_ids_message: "call_ids (map message_call cs) = image_mset ec_id (mset cs)"
  by (induction cs) (simp_all add: message_call_def)

lemma answered_replies: "(\<And>c. cm_answers (g c) = Some (ec_id c)) \<Longrightarrow> answered_ids (map g cs) = image_mset ec_id (mset cs)"
  by (induction cs) (simp_all add: answered_ids_def map_filter_simps)

lemma answers_failed: "cm_answers (judge_failed_answer c) = Some (ec_id c)"
  by (simp add: judge_failed_answer_def tool_message_def)

lemma answers_tool: "cm_answers (tool_message name cid text) = Some cid"
  by (simp add: tool_message_def)

lemma answered_judge: "answered_ids (judge_message content calls # ms) = answered_ids ms"
  by (simp add: answered_ids_def map_filter_simps judge_message_def plain_message_def)

lemma said_messages: "jt_messages (say ms t) = jt_messages t @ ms"
  by (simp add: say_def)

lemma answered_hear: "answered_ids (jt_messages (hear content calls t)) = answered_ids (jt_messages t)
   + (image_mset ec_id (mset (filter (\<lambda>c. \<not> ok_status c) calls)) + image_mset ec_id (mset (watches_of calls)))"
proof -
  have f: "answered_ids (map judge_failed_answer cs) = image_mset ec_id (mset cs)" for cs
    by (rule answered_replies) (rule answers_failed)
  have w: "answered_ids (map (\<lambda>c. tool_message name (ec_id c) x) cs) = image_mset ec_id (mset cs)" for cs name x
    by (rule answered_replies) (rule answers_tool)
  show ?thesis unfolding hear_def said_messages answered_append(1) answered_judge f w by (rule refl)
qed

lemma talk_of_declare: "judge_declare invoke ds t = Inr turn \<Longrightarrow> talk_of turn = execute invoke (map message_call ds) t"
  unfolding judge_declare_def Let_def rbind_eq_Inr by (elim exE conjE, simp split: option.splits if_splits)
    (auto simp: talk_of_def)

text \<open>An answer that declares a trade and asks for data at once leaves the data calls without an answer:
  what is answered afterwards, together with the read-only calls, is all the calls of the message.\<close>

theorem reads_beside_declare_unanswered:
  assumes "judge_answer invoke budget (content, calls) t = Inr turn" and "declares_of calls \<noteq> []"
    and "\<And>ms cs. answered_ids (invoke ms cs) = call_ids cs"
  shows "answered_ids (jt_messages (talk_of turn)) + image_mset ec_id (mset (readonly_of calls))
    = answered_ids (jt_messages t) + image_mset ec_id (mset calls)"
proof -
  have "judge_declare invoke (declares_of calls) (hear content calls t) = Inr turn"
    using assms(1) unfolding judge_answer_def Let_def prod.case if_P [OF assms(2)] .
  then have turn: "talk_of turn = execute invoke (map message_call (declares_of calls)) (hear content calls t)"
    by (rule talk_of_declare)
  have ex: "answered_ids (jt_messages (execute invoke cs x)) = answered_ids (jt_messages x) + call_ids cs" for cs x
    by (simp add: execute_def assms(3))
  have "answered_ids (jt_messages (talk_of turn)) = answered_ids (jt_messages t)
      + (image_mset ec_id (mset (filter (\<lambda>c. \<not> ok_status c) calls)) + image_mset ec_id (mset (watches_of calls)))
      + image_mset ec_id (mset (declares_of calls))"
    unfolding turn ex answered_hear call_ids_message by (rule refl)
  then show ?thesis unfolding judge_calls_partition [of calls, symmetric] by (simp only: add.assoc)
qed

subsection \<open>A thread that has decided\<close>

lemma model_keeps_decision: "call_model w now s content calls advocate = Inr t \<Longrightarrow> ag_decision t = ag_decision s"
  by (auto simp: call_model_def rbind_eq_Inr)

lemma tools_keep_decided:
  assumes "tool_node w invoke now s = Inr t" and "decided s" and fin: "\<And>s d. aw_finalize w s d \<noteq> []"
  shows "decided t"
proof -
  from assms(1) obtain research blocked heartbeats passed out s' where
    r: "record_resume w s out = Inr s'" and c: "close_tools w s s' research blocked heartbeats passed out = Inr t"
    by (elim tool_nodeE)
  have "decided s'" using record_resume_cases [OF r] assms(2) by (simp add: decided_def)
  then show ?thesis
    using c fin by (auto simp: close_tools_def decided_def Let_def rbind_eq_Inr split: if_splits option.splits)
qed

lemma decided_route:
  "should_continue w env now s = Inr r \<Longrightarrow> decided s \<Longrightarrow> r \<in> {Continue, Suspend, ForceTerminal, EndRun}"
  by (auto simp: should_continue_def rbind_eq_Inr split: if_splits)

definition settling :: "nat \<Rightarrow> node \<times> agent_state \<Rightarrow> bool" where
  "settling k = (\<lambda>(n, s). k = 0 \<and> n = AgentNode \<and> decided s \<or> k = 1 \<and> n = ToolsNode \<and> decided s
     \<or> k = 1 \<and> n = TerminalNode \<or> k \<in> {1, 2} \<and> n = Finished)"

lemma settling_step:
  assumes "settling k (n, s)" and "graph_step w env cfg (n, s) (n', t)" and "\<And>s d. aw_finalize w s d \<noteq> []"
  shows "settling (Suc k) (n', t)"
proof -
  have "\<not> debate_step w cfg (n, s) (n', t)" using assms(1) by (auto simp: settling_def elim: debate_step.cases)
  with assms(2) have "agent_step w env (n, s) (n', t)" by (simp add: graph_step_def)
  then show ?thesis
  proof (cases rule: agent_step.cases)
    case (model now content calls advocate later r)
    then have "decided t" using assms(1) model_keeps_decision by (auto simp: settling_def decided_def)
    then show ?thesis using model assms(1) decided_route [OF model(4)] by (auto simp: settling_def)
  next
    case (tools invoke now)
    then have "decided t" using assms(1) tools_keep_decided assms(3) by (auto simp: settling_def)
    then show ?thesis using tools assms(1) by (auto simp: settling_def route_after_tools_def)
  qed (use assms(1) in \<open>auto simp: settling_def\<close>)
qed

text \<open>A thread that already has a decision is over after at most two steps and never reaches the debate:
  the decision is not reset between requests.\<close>

theorem decided_thread_takes_one_turn:
  assumes "(graph_step w env cfg ^^ k) (AgentNode, s) (n, t)" and "decided s"
    and "\<And>s d. aw_finalize w s d \<noteq> []"
  shows "k \<le> 2 \<and> (n = AgentNode \<longrightarrow> k = 0) \<and> n \<notin> {BullNode, BearNode, JudgeNode}"
proof -
  from assms(1) have "settling k (n, t)"
  proof (induction k arbitrary: n t)
    case 0
    then show ?case using assms(2) by (simp add: settling_def)
  next
    case (Suc k)
    then obtain n' t' where "(graph_step w env cfg ^^ k) (AgentNode, s) (n', t')" "graph_step w env cfg (n', t') (n, t)" by auto
    then show ?case using Suc.IH settling_step assms(3) by metis
  qed
  then show ?thesis by (auto simp: settling_def)
qed

subsection \<open>Concrete debates\<close>

definition demo_cfg :: debate_config where "demo_cfg = resolve_debate_config (\<lambda>_. None) None"

definition demo_evidence :: agent_state where
  "demo_evidence = (demo_agent [])\<lparr>ag_messages := [tool_message ''get_candles'' ''c1'' ''{}'']\<rparr>"

theorem sub_agent_bear_is_blind_witness:
  "\<exists>u. run_debate_role no_json (\<lambda>_. Some ''long'') ''bull'' [] demo_evidence = Inr u
     \<and> rr_evidence (role_request_of ''bull'' [] demo_evidence) \<noteq> []
     \<and> rr_evidence (role_request_of ''bear'' [] (after_bull u demo_evidence)) = []"
proof -
  have "succeeds (run_debate_role no_json (\<lambda>_. Some ''long'') ''bull'' [] demo_evidence)" by code_simp
  then obtain u where u: "run_debate_role no_json (\<lambda>_. Some ''long'') ''bull'' [] demo_evidence = Inr u"
    by (elim succeedsE [THEN exE])
  have "py_strip ''long'' \<noteq> []" by code_simp
  moreover have "rr_evidence (role_request_of ''bull'' [] demo_evidence) \<noteq> []" by code_simp
  ultimately show ?thesis using sub_agent_bear_is_blind [OF u] u by blast
qed

theorem debate_runs_its_rounds_witness:
  "\<exists>t. (debate_step demo_world demo_cfg ^^ 1) (BullNode, demo_evidence) (BearNode, t) \<and> ag_debate_turns t = 1"
proof -
  have "succeeds (bull_node no_json (\<lambda>_. None) demo_evidence)" by code_simp
  then obtain t where "bull_node no_json (\<lambda>_. None) demo_evidence = Inr t" by (elim succeedsE [THEN exE])
  then have step: "(debate_step demo_world demo_cfg ^^ 1) (BullNode, demo_evidence) (BearNode, t)"
    by (auto simp: eq_OO intro: debate_step.bull)
  have "ag_debate_turns demo_evidence = 0" by (simp add: demo_evidence_def demo_agent_def)
  from debate_runs_its_rounds [OF step this demo_cfg_def] have "ag_debate_turns t = int 1" by (elim conjE)
  with step show ?thesis by (intro exI conjI) simp_all
qed

definition one_read :: judge_model where
  "one_read msgs = (if msgs = [] then Some ([], [demo_call ''get_candles'' ''c1'' ''ok'' []]) else None)"

theorem judge_reads_within_budget_witness:
  "\<exists>t d. judge_loop one_read (\<lambda>_. demo_invoke) 2 (max_iters 2) talk_start = Inr (t, d)
     \<and> int (length (filter reading (jt_ran t))) \<le> 2"
proof -
  have "succeeds (judge_loop one_read (\<lambda>_. demo_invoke) 2 (max_iters 2) talk_start)" by code_simp
  then obtain t d where "judge_loop one_read (\<lambda>_. demo_invoke) 2 (max_iters 2) talk_start = Inr (t, d)"
    by (metis succeedsE surj_pair)
  then show ?thesis using judge_reads_within_budget [of one_read "\<lambda>_. demo_invoke" 2 t d] by auto
qed


theorem unparsed_call_ends_debate_witness:
  "judge_loop (\<lambda>_. Some ([], [demo_call ''declare_trade'' ''c1'' ''parse_failure'' []])) (\<lambda>_. demo_invoke) 2 (Suc 3) talk_start
     = Inr (hear [] [demo_call ''declare_trade'' ''c1'' ''parse_failure'' []] talk_start, None)"
  by (rule unparsed_call_ends_debate) (simp_all add: demo_call_def ok_status_def)

theorem judge_weighs_what_was_argued_witness:
  "\<exists>b r c. judge_synthesis no_json (Some (stance_to_dict b)) (Some (stance_to_dict r)) = Inr (classify_consensus b r, c,
      judge_directional_bias b r (classify_consensus b r)) \<and> ds_strength b = 80"
proof -
  have s: "succeeds (rbind (parse_stance no_json ''bull'' (stance_text ''long'' (PInt 80)))
       (\<lambda>b. if ds_strength b = 80 then Inr b else Inl KeyError))" by code_simp
  then obtain b where b: "parse_stance no_json ''bull'' (stance_text ''long'' (PInt 80)) = Inr b" "ds_strength b = 80"
    by (auto dest!: succeedsE simp: rbind_eq_Inr split: if_splits)
  have "succeeds (parse_stance no_json ''bear'' PNone)" by code_simp
  then obtain r where "parse_stance no_json ''bear'' PNone = Inr r" by (elim succeedsE [THEN exE])
  then show ?thesis using judge_weighs_what_was_argued [OF b(1)] b(2) by blast
qed

theorem huge_strength_stops_debate_witness:
  "bull_node (\<lambda>_. Some (stance_text ''long'' (PInt (2 ^ 1024)))) (\<lambda>_. Some ''{}'') demo_evidence = Inl OverflowError"
proof (rule huge_strength_stops_debate)
  have "py_strip ''{}'' \<noteq> []" "extract_stance_payload (Some ''{}'') = PStr ''{}''" by code_simp+
  then show "coerce_to_mapping (\<lambda>_. Some (stance_text ''long'' (PInt (2 ^ 1024)))) (extract_stance_payload (Some ''{}''))
      = Some [(''lean'', PStr ''long''), (''strength'', PInt (2 ^ 1024))]"
    by (simp only:) (simp add: coerce_to_mapping_def stance_text_def)
  show "dict_get [(''lean'', PStr ''long''), (''strength'', PInt (2 ^ 1024))] ''strength'' = PInt (2 ^ 1024)"
    by (simp only: dict_get_def map_of.simps fun_upd_apply snd_conv fst_conv option.case list.inject char.inject if_True if_False) simp
  show "(2 :: int) ^ 1024 \<le> 2 ^ 1024" by (rule order_refl)
qed (rule refl)

theorem reads_beside_declare_unanswered_witness:
  "\<exists>turn. judge_answer (\<lambda>_. demo_invoke) 2 ([], [demo_call ''declare_trade'' ''d'' ''ok'' [], demo_call ''get_candles'' ''c'' ''ok'' []])
       talk_start = Inr turn
     \<and> answered_ids (jt_messages (talk_of turn)) + {#''c''#} = {#''d'', ''c''#}"
proof -
  let ?calls = "[demo_call ''declare_trade'' ''d'' ''ok'' [], demo_call ''get_candles'' ''c'' ''ok'' []]"
  have "succeeds (judge_answer (\<lambda>_. demo_invoke) 2 ([], ?calls) talk_start)" by code_simp
  then obtain turn where turn: "judge_answer (\<lambda>_. demo_invoke) 2 ([], ?calls) talk_start = Inr turn" by (elim succeedsE [THEN exE])
  have "declares_of ?calls \<noteq> []" "readonly_of ?calls = [demo_call ''get_candles'' ''c'' ''ok'' []]" by code_simp+
  then show ?thesis
    using reads_beside_declare_unanswered [OF turn _ demo_answered] turn
    by (auto simp: talk_start_def demo_call_def)
qed

theorem decided_thread_takes_one_turn_witness:
  "\<exists>t. (graph_step (demo_world\<lparr>aw_finalize := \<lambda>_ _. force_hold_base\<rparr>) (\<lambda>_. None) demo_cfg ^^ 0)
       (AgentNode, demo_evidence\<lparr>ag_decision := Some force_hold_base\<rparr>) (AgentNode, t) \<and> decided t"
proof -
  let ?s = "demo_evidence\<lparr>ag_decision := Some force_hold_base\<rparr>"
  let ?w = "demo_world\<lparr>aw_finalize := \<lambda>_ _. force_hold_base\<rparr>"
  have d: "decided ?s" by (simp add: decided_def force_hold_base_def hold_base_def)
  have "(graph_step ?w (\<lambda>_. None) demo_cfg ^^ 0) (AgentNode, ?s) (AgentNode, ?s)" by simp
  from decided_thread_takes_one_turn [OF this d] show ?thesis using d
    by (auto simp: force_hold_base_def hold_base_def)
qed
end
