(* ===== verification/Declare.thy ===== *)
theory Declare
  imports Validator ToolCalls
begin

text \<open>
  \<open>tools.py\<close>, \<open>declare_trade\<close>: the tool that commits a decision. A declared management plan is parsed
  and validated here, then the declaration goes to the tool server, which runs the authoritative
  validator; the text that comes back is what the graph reads. The request over the network is the
  argument \<open>post\<close>: what the server's body is, or the text of the exception. \<open>tool_server\<close> is what the
  tool server under \<open>src/tool-server\<close> answers. The arguments are as the tool gets them, after the
  framework has coerced them to the types of the signature.
\<close>

subsection \<open>Arguments and texts\<close>

record trade_args =
  da_action :: string
  da_conviction :: int
  da_setup :: string
  da_plan_text :: string
  da_entry :: pyval
  da_stop_loss :: pyval
  da_take_profit :: pyval
  da_atr_14 :: pyval
  da_management_plan :: pyval

fun reason_message :: "validator_reason \<Rightarrow> string" where
  "reason_message MISSING_LEVELS = ''missing execution levels: entry, stop-loss, and take-profit are all required''"
| "reason_message RISK_REWARD_TOO_LOW = ''risk-reward ratio below the 1:2 minimum''"
| "reason_message STOP_TOO_TIGHT = ''stop-loss is tighter than 1.5x ATR''"
| "reason_message DIRECTION_INCONSISTENT = ''execution levels are inconsistent with the trade direction''"
| "reason_message LEG_FRACTION_OUT_OF_RANGE = ''a scale-out leg fraction is not in (0.0, 1.0] or the fractions sum to more than 1.0''"
| "reason_message TARGET_ORDERING_INCONSISTENT = ''scale-out targets are inconsistent with the trade direction or not in monotone order''"
| "reason_message BREAKEVEN_OUT_OF_RANGE = ''breakeven trigger is not strictly between entry and the first scale-out target''"
| "reason_message BLENDED_RR_TOO_LOW = ''blended (fraction-weighted) reward-to-risk is below the configured minimum''"

definition is_directional_action :: "string \<Rightarrow> bool" where
  "is_directional_action act \<longleftrightarrow> py_upper (py_strip act) \<in> {''BUY'', ''SELL''}"

text \<open>\<open>configurable["profile"]\<close>, when it is a text that is not blank.\<close>

definition run_profile :: "pyval \<Rightarrow> string option" where
  "run_profile raw = (case raw of PStr s \<Rightarrow> if py_strip s = [] then None else Some (py_strip s) | _ \<Rightarrow> None)"

definition profile_value :: "string option \<Rightarrow> pyval" where
  "profile_value profile = (case profile of None \<Rightarrow> PNone | Some p \<Rightarrow> PStr p)"

text \<open>\<open>f"1:{x:g}"\<close> of the two floors: the shortest text, without a fraction that is zero.\<close>

definition floor_text :: "pyfloat \<Rightarrow> string" where
  "floor_text x = (let t = float_text x in
     ''1:'' @ (if drop (length t - 2) t = ''.0'' then take (length t - 2) t else t))"

definition outcome_reason :: "validator_outcome \<Rightarrow> string" where
  "outcome_reason out = (case reason out of None \<Rightarrow> [] | Some r \<Rightarrow> reason_message r)"

subsection \<open>The management plan\<close>

definition default_key :: "string \<Rightarrow> pyval \<Rightarrow> pydict \<Rightarrow> pydict" where
  "default_key k v d = (if dict_get d k = PNone
     then (if has_key d k then map (\<lambda>(k', w). (k', if k' = k then v else w)) d else d @ [(k, v)]) else d)"

text \<open>The plan is written as JSON and read back, which gives the same value.\<close>

definition coerce_management_plan :: "pyval \<Rightarrow> pyval \<Rightarrow> pyval \<Rightarrow> pyval \<Rightarrow> pyval \<Rightarrow> management_plan option" where
  "coerce_management_plan plan act ent stop atr = (case plan of
     PDict d \<Rightarrow> plan_from_payload (PDict (default_key ''atr_14'' atr (default_key ''initial_stop'' stop
       (default_key ''entry'' ent (default_key ''action'' act d)))))
   | _ \<Rightarrow> None)"

definition declared_levels :: "trade_args \<Rightarrow> execution_levels" where
  "declared_levels a = \<lparr>entry = da_entry a, stop_loss = da_stop_loss a, take_profit = da_take_profit a\<rparr>"

definition unparsed_plan_text :: "trade_args \<Rightarrow> string" where
  "unparsed_plan_text a = ''TRADE_REJECTED: the '' @ da_action a @ '' management_plan could not be parsed into a valid multi-leg plan. Provide `legs` as a list of ''
     @ CHR ''{'' # quoted 34 ''target'' @ '': float, '' @ quoted 34 ''fraction'' @ '': float} entries (and optional `breakeven`/`trailing`), then call declare_trade again.''"

definition plan_rejected_text :: "trade_args \<Rightarrow> pyfloat \<Rightarrow> validator_outcome \<Rightarrow> string" where
  "plan_rejected_text a min_rr out = ''TRADE_REJECTED: the Trade_Validator rejected this '' @ da_action a @ '' management plan because ''
     @ quoted 39 (outcome_reason out)
     @ ''. Revise the management plan (leg fractions in (0.0, 1.0] summing to <= 1.0, scale-out targets ordered on the profit side, breakeven strictly between entry and the first target, and the blended Risk:Reward at/above the ''
     @ floor_text min_rr @ '' minimum for this profile), then call declare_trade again.''"

text \<open>The gate: \<open>Some\<close> text when the plan is refused.\<close>

definition plan_gate :: "env \<Rightarrow> pyfloat \<Rightarrow> trade_args \<Rightarrow> string option res" where
  "plan_gate env min_rr a = (if da_management_plan a = PNone then Inr None
     else case coerce_management_plan (da_management_plan a) (PStr (da_action a)) (da_entry a) (da_stop_loss a) (da_atr_14 a) of
         None \<Rightarrow> Inr (Some (unparsed_plan_text a))
       | Some plan \<Rightarrow> rbind (validate_trade env (from_str_lenient (Some (da_action a))) (Some (declared_levels a)) (da_atr_14 a)
             (plan_to_payload plan) (Some (NF min_rr)) (PFloat min_rr)) (\<lambda>out.
           Inr (if is_pass out then None else Some (plan_rejected_text a min_rr out))))"

subsection \<open>The request\<close>

definition request_body :: "string option \<Rightarrow> trade_args \<Rightarrow> pydict" where
  "request_body profile a = [(''action'', PStr (da_action a)), (''conviction_score'', PInt (da_conviction a)),
     (''setup_validation'', PStr (da_setup a)), (''execution_plan'', PStr (da_plan_text a)), (''entry'', da_entry a),
     (''stop_loss'', da_stop_loss a), (''take_profit'', da_take_profit a), (''atr_14'', da_atr_14 a),
     (''profile'', profile_value profile)]
     @ (if da_management_plan a = PNone then [] else [(''management_plan'', da_management_plan a)])"

type_synonym poster = "pydict \<Rightarrow> string + pyval"

definition body_rejects :: "pyval \<Rightarrow> string option" where
  "body_rejects body = (case body of
     PDict d \<Rightarrow> if py_lower (py_str (dict_get d ''status'')) = ''rejected''
       then Some (if has_key d ''reason'' then py_str (dict_get d ''reason'') else ''unknown'') else None
   | _ \<Rightarrow> None)"

definition success_text :: "trade_args \<Rightarrow> string" where
  "success_text a = ''Trade declared successfully: '' @ da_action a @ '' with '' @ int_text (da_conviction a) @ ''% conviction.''"

definition server_rejected_text :: "trade_args \<Rightarrow> pyfloat \<Rightarrow> string \<Rightarrow> string" where
  "server_rejected_text a min_rr why = ''TRADE_REJECTED: the Trade_Validator rejected this '' @ da_action a @ '' because '' @ quoted 39 why
     @ ''. Revise the entry/stop_loss/take_profit so Risk:Reward >= '' @ floor_text min_rr
     @ '' (the minimum for this profile) and the stop is >= 1.5x ATR, then call declare_trade again.''"

definition unreachable_text :: "trade_args \<Rightarrow> string \<Rightarrow> string" where
  "unreachable_text a why = ''TRADE_REJECTED: the authoritative Trade_Validator could not be reached ('' @ why
     @ ''), so this '' @ da_action a
     @ '' was NOT validated or committed. This is an infrastructure fault, NOT a problem with your levels - re-declaring the same or revised levels will fail the same way. Report the setup as unvalidated and stand aside.''"

definition declare_trade :: "env \<Rightarrow> pyval \<Rightarrow> poster \<Rightarrow> trade_args \<Rightarrow> string res" where
  "declare_trade env raw_profile post a =
     (let profile = run_profile raw_profile; min_rr = min_risk_reward_for_profile (profile_value profile) in
      rbind (plan_gate env min_rr a) (\<lambda>refusal. case refusal of
        Some text \<Rightarrow> Inr text
      | None \<Rightarrow> Inr (case post (request_body profile a) of
          Inl why \<Rightarrow> if is_directional_action (da_action a) then unreachable_text a why else success_text a
        | Inr body \<Rightarrow> (case body_rejects body of
            Some why \<Rightarrow> server_rejected_text a min_rr why
          | None \<Rightarrow> success_text a))))"

subsection \<open>The tool server\<close>

text \<open>
  \<open>tool-server/src/main.rs\<close>: the levels count only when all three are there, the action is read by
  the lenient parser of \<open>quant-core\<close>. Python's \<open>strip\<close> takes the separators U+001C to U+001F off an action, the
  \<open>trim\<close> of Rust does not.
\<close>

definition rust_space :: "char \<Rightarrow> bool" where
  "rust_space c \<longleftrightarrow> (of_char c :: nat) \<in> {9, 10, 11, 12, 13, 32, 133, 160}"

definition rust_trim :: "string \<Rightarrow> string" where
  "rust_trim s = rev (dropWhile rust_space (rev (dropWhile rust_space s)))"

definition server_action :: "string option \<Rightarrow> action" where
  "server_action s = (case s of None \<Rightarrow> HOLD | Some t \<Rightarrow> (let u = py_upper (rust_trim t) in
     if u = ''BUY'' then BUY else if u = ''SELL'' then SELL else HOLD))"

definition evaluate_declared_trade :: "env \<Rightarrow> pydict \<Rightarrow> validator_outcome res" where
  "evaluate_declared_trade env body =
     (let g = dict_get body; min_rr = min_risk_reward_for_profile (g ''profile'') in
      validate_trade env (server_action (case g ''action'' of PStr s \<Rightarrow> Some s | _ \<Rightarrow> None))
        (if g ''entry'' = PNone \<or> g ''stop_loss'' = PNone \<or> g ''take_profit'' = PNone then None
         else Some \<lparr>entry = g ''entry'', stop_loss = g ''stop_loss'', take_profit = g ''take_profit''\<rparr>)
        (g ''atr_14'') PNone None (PFloat min_rr))"

definition tool_server :: "env \<Rightarrow> poster" where
  "tool_server env body = (case evaluate_declared_trade env body of
     Inl _ \<Rightarrow> Inl ''HTTPStatusError''
   | Inr out \<Rightarrow> Inr (PDict (case reason out of
       Some r \<Rightarrow> [(''status'', PStr ''rejected''), (''reason'', PStr (reason_tag r)), (''action'', dict_get body ''action'')]
     | None \<Rightarrow> [(''status'', PStr ''trade_declared''), (''action'', dict_get body ''action''),
         (''conviction_score'', case dict_get body ''conviction_score'' of PInt n \<Rightarrow> PInt (max 0 (min 100 n)) | v \<Rightarrow> v),
         (''risk_reward'', case risk_reward out of None \<Rightarrow> PNone | Some rr \<Rightarrow> num_to_val rr)])))"

end
