(* ===== verification/DeclareFacts.thy ===== *)
theory DeclareFacts
  imports Declare
begin

text \<open>
  What \<open>declare_trade\<close> lets through: a BUY or SELL that is not rejected has passed the validator and
  the check of its plan, and an unreachable server rejects it. But an action that only the graph reads
  as directional passes as a HOLD does, without its levels being looked at.
\<close>

subsection \<open>The text that is read for a rejection\<close>

lemma contains_prefix: "contains p (p @ t)"
  using append_eq_conv_conj [of p t "p @ t"] by (cases "p @ t") auto

lemma contains_chars: "contains p t \<Longrightarrow> set p \<subseteq> set t"
proof (induction t)
  case (Cons c t)
  then show ?case
    using set_take_subset [of "length p" "c # t"] by (auto split: if_splits)
qed simp

definition REJECTED :: string where "REJECTED = ''TRADE_REJECTED''"

lemma rejected_texts:
  "contains REJECTED (unparsed_plan_text a)" "contains REJECTED (plan_rejected_text a f out)"
  "contains REJECTED (server_rejected_text a f why)" "contains REJECTED (unreachable_text a why)"
proof -
  have *: "contains REJECTED (REJECTED @ t)" for t by (rule contains_prefix)
  show "contains REJECTED (unparsed_plan_text a)"
    using * [of "drop 14 (unparsed_plan_text a)"] by (simp add: unparsed_plan_text_def REJECTED_def)
  show "contains REJECTED (plan_rejected_text a f out)"
    using * [of "drop 14 (plan_rejected_text a f out)"] by (simp add: plan_rejected_text_def REJECTED_def)
  show "contains REJECTED (server_rejected_text a f why)"
    using * [of "drop 14 (server_rejected_text a f why)"] by (simp add: server_rejected_text_def REJECTED_def)
  show "contains REJECTED (unreachable_text a why)"
    using * [of "drop 14 (unreachable_text a why)"] by (simp add: unreachable_text_def REJECTED_def)
qed

lemma digit_not_bar: "digit_char n \<noteq> CHR ''_''"
proof
  assume "digit_char n = CHR ''_''"
  then have "(of_char (digit_char n) :: nat) = of_char CHR ''_''" by simp
  moreover have "(of_char (digit_char n) :: nat) = 48 + n mod 10" by (simp add: digit_char_def)
  moreover have "(of_char CHR ''_'' :: nat) = 95" by simp
  ultimately show False using mod_less_divisor [of 10 n] by simp
qed

lemma nat_text_no_bar: "CHR ''_'' \<notin> set acc \<Longrightarrow> CHR ''_'' \<notin> set (nat_text_acc n acc)"
proof (induction n acc rule: nat_text_acc.induct)
  case (1 n acc)
  then show ?case using digit_not_bar [of n] by (subst nat_text_acc.simps) (auto dest: sym)
qed

lemma int_text_no_bar: "CHR ''_'' \<notin> set (int_text n)"
  using nat_text_no_bar [of "[]"] by (simp add: int_text_def)

lemma success_accepted: "CHR ''_'' \<notin> set (da_action a) \<Longrightarrow> \<not> contains REJECTED (success_text a)"
proof
  assume a: "CHR ''_'' \<notin> set (da_action a)" and "contains REJECTED (success_text a)"
  then have "CHR ''_'' \<in> set (success_text a)" using contains_chars [of REJECTED "success_text a"] by (auto simp: REJECTED_def)
  then show False using a int_text_no_bar [of "da_conviction a"] by (simp add: success_text_def)
qed

subsection \<open>The server's answer\<close>

lemma request_keys:
  "dict_get (request_body p a) ''action'' = PStr (da_action a)" "dict_get (request_body p a) ''entry'' = da_entry a"
  "dict_get (request_body p a) ''stop_loss'' = da_stop_loss a" "dict_get (request_body p a) ''take_profit'' = da_take_profit a"
  "dict_get (request_body p a) ''atr_14'' = da_atr_14 a" "dict_get (request_body p a) ''profile'' = profile_value p"
  by (simp_all add: request_body_def dict_get_def)

lemma rejected_status: "body_rejects (PDict [(''status'', PStr ''rejected''), (''reason'', PStr r), (''action'', v)]) = Some r"
proof -
  have "py_lower ''rejected'' = ''rejected''" by code_simp
  then show ?thesis by (simp add: body_rejects_def dict_get_def has_key_def)
qed

lemma declared_status: "body_rejects (PDict ((''status'', PStr ''trade_declared'') # rest)) = None"
proof -
  have "py_lower ''trade_declared'' \<noteq> ''rejected''" by code_simp
  then show ?thesis by (simp add: body_rejects_def dict_get_def)
qed

definition floor_of :: "pyval \<Rightarrow> pyfloat" where
  "floor_of prof = min_risk_reward_for_profile (profile_value (run_profile prof))"

text \<open>An action without the four separators is trimmed alike by Python and by Rust.\<close>

definition no_separators :: "string \<Rightarrow> bool" where
  "no_separators s \<longleftrightarrow> list_all (\<lambda>c. (of_char c :: nat) \<notin> {28, 29, 30, 31}) s"

lemma rust_space_cong: "(of_char c :: nat) \<notin> {28, 29, 30, 31} \<Longrightarrow> rust_space c = is_space c"
  by (auto simp: rust_space_def is_space_def)

lemma trims_agree: assumes "no_separators s" shows "rust_trim s = py_strip s"
proof -
  have eq: "set t \<subseteq> set s \<Longrightarrow> dropWhile rust_space t = dropWhile is_space t" for t
    using assms by (intro dropWhile_cong) (auto simp: no_separators_def list_all_iff rust_space_cong)
  have "set (rev (dropWhile is_space s)) \<subseteq> set s" using set_dropWhileD by fastforce
  then show ?thesis by (simp add: rust_trim_def py_strip_def eq)
qed

lemma server_reads_alike: "no_separators s \<Longrightarrow> server_action (Some s) = from_str_lenient (Some s)"
  by (simp add: server_action_def from_str_lenient_def trims_agree)

lemma server_passes:
  assumes "no_separators (da_action a)" and "tool_server env (request_body p a) = Inr body" and "body_rejects body = None" and "is_directional_action (da_action a)"
  shows "\<exists>out. validate_trade env (from_str_lenient (Some (da_action a))) (Some (declared_levels a)) (da_atr_14 a) PNone None
      (PFloat (min_risk_reward_for_profile (profile_value p))) = Inr out \<and> is_pass out"
proof -
  note [simp] = server_reads_alike [OF assms(1)]
  have act: "from_str_lenient (Some (da_action a)) \<noteq> HOLD"
    using assms(4) by (auto simp: is_directional_action_def from_str_lenient_def Let_def)
  obtain out where e: "evaluate_declared_trade env (request_body p a) = Inr out" and "reason out = None"
    using assms(2,3) by (auto simp: tool_server_def rejected_status split: sum.splits option.splits)
  then have "is_pass out" by (simp add: is_pass_def)
  moreover have "\<not> (da_entry a = PNone \<or> da_stop_loss a = PNone \<or> da_take_profit a = PNone)"
    using e act \<open>reason out = None\<close>
    by (auto simp: evaluate_declared_trade_def request_keys Let_def validate_trade_def failed_def split: if_splits)
  ultimately show ?thesis using e by (auto simp: evaluate_declared_trade_def request_keys Let_def declared_levels_def)
qed

text \<open>C1: A BUY or SELL whose declaration is not answered with a rejection has passed the validator of the
  tool server at the floor of the run's profile, and when it carries a management plan the plan has
  parsed and passed too. The action must not hold any of the separators U+001C to U+001F, which Python takes
  off a text and Rust does not: the lemma after this theorem shows what happens with one.\<close>

theorem unrejected_trade_is_validated:
  assumes "declare_trade env prof (tool_server env) a = Inr text" and "\<not> contains ''TRADE_REJECTED'' text"
    and "is_directional_action (da_action a)" and "no_separators (da_action a)"
  shows "(\<exists>out. validate_trade env (from_str_lenient (Some (da_action a))) (Some (declared_levels a)) (da_atr_14 a) PNone None
       (PFloat (floor_of prof)) = Inr out \<and> is_pass out)
    \<and> (da_management_plan a = PNone \<or> (\<exists>plan out. coerce_management_plan (da_management_plan a) (PStr (da_action a)) (da_entry a)
          (da_stop_loss a) (da_atr_14 a) = Some plan
        \<and> validate_trade env (from_str_lenient (Some (da_action a))) (Some (declared_levels a)) (da_atr_14 a)
            (plan_to_payload plan) (Some (NF (floor_of prof))) (PFloat (floor_of prof)) = Inr out \<and> is_pass out))"
proof -
  have nr: "\<not> contains REJECTED text" using assms(2) by (simp add: REJECTED_def)
  let ?p = "run_profile prof"
  obtain refusal where gate: "plan_gate env (floor_of prof) a = Inr refusal"
    using assms(1) by (auto simp: declare_trade_def Let_def floor_of_def rbind_eq_Inr)
  have none: "refusal = None"
  proof (rule ccontr)
    assume "refusal \<noteq> None"
    then obtain t where t: "refusal = Some t" by auto
    then have "text = t" using assms(1) gate by (simp add: declare_trade_def Let_def floor_of_def)
    moreover have "contains REJECTED t"
      using gate t rejected_texts by (auto simp: plan_gate_def rbind_eq_Inr split: if_splits option.splits)
    ultimately show False using nr by simp
  qed
  have plan: "da_management_plan a = PNone \<or> (\<exists>plan out. coerce_management_plan (da_management_plan a) (PStr (da_action a)) (da_entry a)
          (da_stop_loss a) (da_atr_14 a) = Some plan
        \<and> validate_trade env (from_str_lenient (Some (da_action a))) (Some (declared_levels a)) (da_atr_14 a)
            (plan_to_payload plan) (Some (NF (floor_of prof))) (PFloat (floor_of prof)) = Inr out \<and> is_pass out)"
    using gate none by (auto simp: plan_gate_def rbind_eq_Inr split: if_splits option.splits)
  obtain body where body: "tool_server env (request_body ?p a) = Inr body" "body_rejects body = None"
    using assms(1,3) gate none nr rejected_texts
    by (auto simp: declare_trade_def Let_def floor_of_def split: sum.splits option.splits)
  show ?thesis using server_passes [OF assms(4) body assms(3)] plan by (simp add: floor_of_def)
qed

text \<open>With a separator behind it, an action is directional for the tool and the graph and a HOLD for the server,
  which accepts it with any levels.\<close>

lemma separator_skips_validation:
  assumes "da_action a = ''BUY'' @ [char_of (28 :: nat)]" and "da_management_plan a = PNone"
  shows "is_directional_action (da_action a)" "declare_trade env prof (tool_server env) a = Inr (success_text a)"
    "declared_action (PStr (da_action a)) = ''BUY''"
proof -
  have read: "server_action (Some (''BUY'' @ [char_of (28 :: nat)])) = HOLD" by code_simp
  have "evaluate_declared_trade env (request_body p a) = Inr (passed (NF (Fin 0)))" for p
    using assms(1) read by (simp add: evaluate_declared_trade_def request_keys Let_def validate_trade_def)
  then have "\<exists>body. tool_server env (request_body p a) = Inr body \<and> body_rejects body = None" for p
    by (simp add: tool_server_def passed_def declared_status)
  then obtain body where "tool_server env (request_body (run_profile prof) a) = Inr body" "body_rejects body = None" by blast
  moreover have "plan_gate env f a = Inr None" for f using assms(2) by (simp add: plan_gate_def)
  ultimately show "declare_trade env prof (tool_server env) a = Inr (success_text a)" by (simp add: declare_trade_def Let_def)
  have "is_directional_action (''BUY'' @ [char_of (28 :: nat)])" "declared_action (PStr (''BUY'' @ [char_of (28 :: nat)])) = ''BUY''"
    by code_simp+
  then show "is_directional_action (da_action a)" "declared_action (PStr (da_action a)) = ''BUY''" using assms(1) by simp_all
qed

text \<open>When the tool server cannot be reached, a BUY or SELL is answered with a rejection, whatever its
  levels.\<close>

theorem unreachable_server_rejects:
  assumes "declare_trade env prof post a = Inr text" and "is_directional_action (da_action a)"
    and "post (request_body (run_profile prof) a) = Inl why"
  shows "contains ''TRADE_REJECTED'' text"
proof -
  have "contains REJECTED text"
    using assms rejected_texts
    by (auto simp: declare_trade_def plan_gate_def Let_def rbind_eq_Inr split: if_splits option.splits)
  then show ?thesis by (simp add: REJECTED_def)
qed

text \<open>C5: A declared LONG is accepted with any levels, and even when the server cannot be reached: the
  validator reads it as HOLD and the tool does not count it as directional, but the graph commits it
  as a BUY.\<close>

theorem long_skips_validation:
  assumes "da_action a = ''LONG''" and "da_management_plan a = PNone"
  shows "declare_trade env prof (tool_server env) a = Inr (success_text a)
    \<and> declare_trade env prof (\<lambda>_. Inl why) a = Inr (success_text a)
    \<and> \<not> declare_was_rejected [tool_message ''declare_trade'' cid (success_text a)]
    \<and> (\<exists>d. decision_from_declare [\<lparr>tc_name = ''declare_trade'', tc_args = [(''action'', PStr (da_action a))], tc_id = cid\<rparr>] = Inr (Some d)
        \<and> dict_get d ''action'' = PStr ''BUY'')"
proof -
  have lenient: "from_str_lenient (Some ''LONG'') = HOLD" "\<not> is_directional_action ''LONG''"
    "declared_action (PStr ''LONG'') = ''BUY''" "server_action (Some ''LONG'') = HOLD" by code_simp+
  have "evaluate_declared_trade env (request_body p a) = Inr (passed (NF (Fin 0)))" for p
    using assms(1) lenient(4) by (simp add: evaluate_declared_trade_def request_keys Let_def validate_trade_def)
  then have server: "\<exists>body. tool_server env (request_body p a) = Inr body \<and> body_rejects body = None" for p
    by (simp add: tool_server_def passed_def declared_status)
  have gate: "plan_gate env f a = Inr None" for f using assms(2) by (simp add: plan_gate_def)
  have "declare_trade env prof (tool_server env) a = Inr (success_text a)"
    using server [of "run_profile prof"] by (auto simp: declare_trade_def gate Let_def)
  moreover have "declare_trade env prof (\<lambda>_. Inl why) a = Inr (success_text a)"
    using assms(1) lenient(2) by (simp add: declare_trade_def gate Let_def)
  moreover have "\<not> contains REJECTED (success_text a)" by (rule success_accepted) (simp add: assms(1))
  moreover have "\<exists>d. decision_from_declare [\<lparr>tc_name = ''declare_trade'', tc_args = [(''action'', PStr ''LONG'')], tc_id = cid\<rparr>] = Inr (Some d)
        \<and> dict_get d ''action'' = PStr ''BUY''"
    by (simp add: decision_from_declare_def dict_get_def coerce_price_def lenient(3))
  ultimately show ?thesis using assms(1)
    by (simp add: declare_was_rejected_def tool_message_def plain_message_def REJECTED_def)
qed

subsection \<open>Concrete declarations\<close>

definition demo_trade :: "string \<Rightarrow> trade_args" where
  "demo_trade act = \<lparr>da_action = act, da_conviction = 80, da_setup = [], da_plan_text = [], da_entry = PFloat (Fin 100),
     da_stop_loss = PFloat (Fin 95), da_take_profit = PFloat (Fin 115), da_atr_14 = PNone, da_management_plan = PNone\<rparr>"

definition no_env :: env where "no_env = (\<lambda>_. None)"

theorem unrejected_trade_is_validated_witness:
  "\<exists>out. validate_trade no_env BUY (Some (declared_levels (demo_trade ''BUY''))) PNone PNone None (PFloat (floor_of PNone)) = Inr out
     \<and> is_pass out"
proof -
  have d: "declare_trade no_env PNone (tool_server no_env) (demo_trade ''BUY'') = Inr (success_text (demo_trade ''BUY''))"
    by code_simp
  have n: "\<not> contains ''TRADE_REJECTED'' (success_text (demo_trade ''BUY''))" by code_simp
  have a: "is_directional_action (da_action (demo_trade ''BUY''))" "from_str_lenient (Some ''BUY'') = BUY" by code_simp+
  have s: "no_separators (da_action (demo_trade ''BUY''))" by code_simp
  show ?thesis using unrejected_trade_is_validated [OF d n a(1) s] a(2) by (simp add: demo_trade_def)
qed

theorem unreachable_server_rejects_witness:
  "\<exists>r. declare_trade no_env PNone (\<lambda>_. Inl ''ConnectError'') (demo_trade ''SELL'') = Inr r \<and> contains ''TRADE_REJECTED'' r"
proof -
  have "plan_gate no_env f (demo_trade ''SELL'') = Inr None" for f by (simp add: plan_gate_def demo_trade_def)
  then obtain r where t: "declare_trade no_env PNone (\<lambda>_. Inl ''ConnectError'') (demo_trade ''SELL'') = Inr r"
    by (simp add: declare_trade_def Let_def)
  have a: "is_directional_action (da_action (demo_trade ''SELL''))" by code_simp
  show ?thesis using unreachable_server_rejects [OF t a refl] t by blast
qed

theorem long_skips_validation_witness:
  "declare_trade no_env PNone (tool_server no_env) (demo_trade ''LONG'') = Inr (success_text (demo_trade ''LONG''))
     \<and> (\<exists>d. decision_from_declare [\<lparr>tc_name = ''declare_trade'', tc_args = [(''action'', PStr ''LONG'')], tc_id = ''c''\<rparr>] = Inr (Some d)
        \<and> dict_get d ''action'' = PStr ''BUY'')"
proof -
  have a: "da_action (demo_trade ''LONG'') = ''LONG''" "da_management_plan (demo_trade ''LONG'') = PNone" by (simp_all add: demo_trade_def)
  show ?thesis using long_skips_validation [OF a, of no_env PNone "[]" "''c''"] a(1) by simp
qed

end
