(* ===== verification/Evidence.thy ===== *)
theory Evidence
  imports Declare
begin

text \<open>
  \<open>graph.py\<close>: the evidence behind a decision. Readers that copy the latest result of a tool into an entry
  of the record or mark it unavailable, the action and levels that a decision resolves to, the checks
  that a verification reports, and the evidence that the tier of a decision is classified by. Results
  are a function from tool names to values, \<open>None\<close> where a tool has no usable result. What reads price
  levels out of prose with regular expressions is the argument \<open>prose\<close>.
\<close>

subsection \<open>Values\<close>

type_synonym tool_results = "string \<Rightarrow> pyval"

definition py_or :: "pyval \<Rightarrow> pyval \<Rightarrow> pyval" where
  "py_or v d = (if py_truthy v then v else d)"

text \<open>\<open>v in S\<close> for a set of strings: a list or dict cannot be hashed.\<close>

definition in_enum :: "string list \<Rightarrow> pyval \<Rightarrow> bool res" where
  "in_enum S v = (case v of PStr s \<Rightarrow> Inr (s \<in> set S) | PList _ \<Rightarrow> Inl TypeError | PDict _ \<Rightarrow> Inl TypeError | _ \<Rightarrow> Inr False)"

definition res_all :: "bool res list \<Rightarrow> bool res" where
  "res_all bs = foldr (\<lambda>b r. rbind b (\<lambda>x. if x then r else Inr False)) bs (Inr True)"

definition is_str :: "pyval \<Rightarrow> bool" where
  "is_str v \<longleftrightarrow> (case v of PStr _ \<Rightarrow> True | _ \<Rightarrow> False)"

definition is_bool :: "pyval \<Rightarrow> bool" where
  "is_bool v \<longleftrightarrow> (case v of PBool _ \<Rightarrow> True | _ \<Rightarrow> False)"

text \<open>\<open>f"{x:.kf}"\<close> of a float.\<close>

fun last_digits :: "nat \<Rightarrow> int \<Rightarrow> string" where
  "last_digits 0 n = []"
| "last_digits (Suc k) n = last_digits k (n div 10) @ int_text (n mod 10)"

definition fixed_text :: "nat \<Rightarrow> pyfloat \<Rightarrow> string" where
  "fixed_text k x = (case x of
     Fin q \<Rightarrow> (let n = rne (\<bar>q\<bar> * 10 ^ k) in
       (if q < 0 then ''-'' else []) @ int_text (n div 10 ^ k) @ ''.'' @ last_digits k n)
   | NaN \<Rightarrow> ''nan'' | PInf \<Rightarrow> ''inf'' | NInf \<Rightarrow> ''-inf'')"

definition get_float :: "pydict \<Rightarrow> string \<Rightarrow> pyfloat option res" where
  "get_float d k = rbind (finite_number (dict_get d k)) (\<lambda>fin. if \<not> fin then Inr None
     else rbind (as_float (dict_get d k)) (\<lambda>f. Inr (Some f)))"

subsection \<open>The entries of the record\<close>

definition REGIME_TREND_STATES :: "string list" where "REGIME_TREND_STATES = [''trending'', ''ranging'', ''transitional'']"
definition REGIME_VOLATILITY_STATES :: "string list" where "REGIME_VOLATILITY_STATES = [''low'', ''normal'', ''high'']"
definition REGIME_FAVORABILITY :: "string list" where "REGIME_FAVORABILITY = [''favorable'', ''unfavorable'', ''neutral'']"
definition REGIME_MEASURE_FIELDS :: "string list" where
  "REGIME_MEASURE_FIELDS = [''directional_strength'', ''choppiness'', ''efficiency_ratio'', ''atr_percentile'', ''bb_width'']"
definition INDEX_DIRECTIONS :: "string list" where "INDEX_DIRECTIONS = [''up'', ''down'', ''flat'']"
definition RELATIVE_STRENGTH_STATES :: "string list" where "RELATIVE_STRENGTH_STATES = [''leader'', ''inline'', ''laggard'']"
definition ALIGNMENT_VALUES :: "string list" where "ALIGNMENT_VALUES = [''aligned'', ''misaligned'', ''neutral'']"
definition RS_MEASURE_FIELDS :: "string list" where
  "RS_MEASURE_FIELDS = [''rs_ratio'', ''rs_ratio_slope'', ''relative_return'', ''correlation'', ''beta'']"
definition FORECAST_DIRECTIONS :: "string list" where "FORECAST_DIRECTIONS = [''up'', ''down'', ''flat'']"
definition FORECAST_MEASURE_FIELDS :: "string list" where
  "FORECAST_MEASURE_FIELDS = [''drift'', ''volatility'', ''standardized_drift'', ''atr'']"
definition LABEL_SESSION_PHASES :: "string list" where
  "LABEL_SESSION_PHASES = [''pre_open'', ''opening'', ''morning'', ''midday'', ''afternoon'', ''closing'', ''post_close'']"
definition TIME_FAVORABILITY :: "string list" where "TIME_FAVORABILITY = [''favorable'', ''unfavorable'', ''neutral'']"
definition EVENT_RISK_STATES :: "string list" where "EVENT_RISK_STATES = [''clear'', ''imminent'', ''through_event'']"
definition EVENT_RECOMMENDATIONS :: "string list" where
  "EVENT_RECOMMENDATIONS = [''proceed'', ''size_down'', ''shorten_horizon'', ''stand_aside'']"
definition OPTIONS_BIAS_STATES :: "string list" where "OPTIONS_BIAS_STATES = [''bullish'', ''bearish'', ''neutral'']"
definition OPTIONS_CHAIN_CONTEXTS :: "string list" where "OPTIONS_CHAIN_CONTEXTS = [''own-chain'', ''broad-market'']"

definition unavailable_entry :: "pyval \<Rightarrow> pydict" where
  "unavailable_entry why = [(''available'', PBool False), (''reason'', why)]"

definition copy_fields :: "string list \<Rightarrow> pydict \<Rightarrow> pydict" where
  "copy_fields ks d = map (\<lambda>k. (k, dict_get d k)) ks"

definition carry_fields :: "string list \<Rightarrow> pydict \<Rightarrow> pydict" where
  "carry_fields ks d = copy_fields (filter (has_key d) ks) d"

definition measures_of :: "string list \<Rightarrow> pydict \<Rightarrow> pydict" where
  "measures_of ks d = [(''measures'', PDict (case dict_get d ''measures'' of PDict m \<Rightarrow> copy_fields ks m | _ \<Rightarrow> []))]"

text \<open>
  The shape that the readers share: no result, a marker, a result without a usable label, or the
  entry. \<open>what\<close> names the label in the reason, \<open>marker\<close> is the reason of a marker that has none.
\<close>

definition tool_entry :: "string \<Rightarrow> string \<Rightarrow> string \<Rightarrow> tool_results \<Rightarrow> (pydict \<Rightarrow> bool res) \<Rightarrow> (pydict \<Rightarrow> pydict) \<Rightarrow> pydict res" where
  "tool_entry tool what marker results usable build = (case results tool of
     PDict d \<Rightarrow> if dict_get d ''unavailable'' = PBool True
       then Inr (unavailable_entry (py_or (dict_get d ''reason'') (PStr marker)))
       else rbind (usable d) (\<lambda>ok. Inr (if ok then (''available'', PBool True) # build d
         else unavailable_entry (PStr (''no usable '' @ tool @ '' '' @ what @ '' present in message history''))))
   | _ \<Rightarrow> Inr (unavailable_entry (PStr (''no '' @ tool @ '' result present in message history''))))"

definition regime_entry :: "tool_results \<Rightarrow> pydict res" where
  "regime_entry results = tool_entry ''get_market_regime'' ''label'' ''regime unavailable'' results
     (\<lambda>d. res_all [in_enum REGIME_TREND_STATES (dict_get d ''trend_state''),
        in_enum REGIME_VOLATILITY_STATES (dict_get d ''volatility_state''), in_enum REGIME_FAVORABILITY (dict_get d ''favorability'')])
     (\<lambda>d. copy_fields [''trend_state'', ''volatility_state'', ''favorability''] d @ measures_of REGIME_MEASURE_FIELDS d
        @ carry_fields [''symbol'', ''timeframe'', ''candles_used''] d)"

definition relative_strength_entry :: "tool_results \<Rightarrow> pydict res" where
  "relative_strength_entry results = tool_entry ''get_relative_strength'' ''label'' ''relative strength unavailable'' results
     (\<lambda>d. res_all [in_enum INDEX_DIRECTIONS (dict_get d ''index_direction''),
        in_enum RELATIVE_STRENGTH_STATES (dict_get d ''relative_strength_state''), in_enum ALIGNMENT_VALUES (dict_get d ''alignment''),
        Inr (is_str (dict_get d ''benchmark''))])
     (\<lambda>d. copy_fields [''index_direction'', ''relative_strength_state'', ''alignment''] d @ measures_of RS_MEASURE_FIELDS d
        @ copy_fields [''benchmark''] d @ carry_fields [''symbol'', ''timeframe'', ''aligned_candles''] d)"

definition session_entry :: "tool_results \<Rightarrow> pydict res" where
  "session_entry results = tool_entry ''get_session_context'' ''label'' ''session context unavailable'' results
     (\<lambda>d. res_all [in_enum LABEL_SESSION_PHASES (dict_get d ''session_phase''),
        in_enum TIME_FAVORABILITY (dict_get d ''time_favorability''),
        Inr (case dict_get d ''expiry_context'' of PDict x \<Rightarrow> is_bool (dict_get x ''is_expiry_day'') | _ \<Rightarrow> False)])
     (\<lambda>d. copy_fields [''session_phase'', ''minutes_since_open'', ''minutes_until_close''] d
        @ [(''expiry_context'', PDict (copy_fields [''is_expiry_day'', ''days_until_expiry''] (as_dict (dict_get d ''expiry_context''))))]
        @ copy_fields [''time_favorability''] d @ carry_fields [''symbol'', ''timeframe''] d)"

definition OPTIONS_FIELDS :: "string list" where
  "OPTIONS_FIELDS = [''pcr_oi'', ''pcr_volume'', ''max_pain'', ''oi_buildup'', ''oi_walls'', ''iv_skew'', ''futures_basis'',
     ''options_bias_state'', ''alignment'', ''chain_context'']"

definition options_entry :: "tool_results \<Rightarrow> pydict res" where
  "options_entry results = tool_entry ''get_options_analytics'' ''label'' ''options context unavailable'' results
     (\<lambda>d. res_all [in_enum OPTIONS_BIAS_STATES (dict_get d ''options_bias_state''), in_enum ALIGNMENT_VALUES (dict_get d ''alignment''),
        in_enum OPTIONS_CHAIN_CONTEXTS (dict_get d ''chain_context'')])
     (\<lambda>d. copy_fields OPTIONS_FIELDS d @ carry_fields [''symbol'', ''underlying'', ''expiry'', ''spot''] d)"

definition event_entry :: "tool_results \<Rightarrow> pydict res" where
  "event_entry results = tool_entry ''get_event_risk'' ''assessment'' ''event risk unavailable'' results
     (\<lambda>d. res_all [in_enum EVENT_RISK_STATES (dict_get d ''event_risk''),
        in_enum EVENT_RECOMMENDATIONS (dict_get d ''event_recommendation''), Inr (is_str (dict_get d ''event_date''))])
     (\<lambda>d. copy_fields [''event_risk'', ''days_until_event'', ''event_date'', ''event_recommendation''] d
        @ carry_fields [''symbol'', ''holding_horizon''] d)"

definition forecast_entry :: "tool_results \<Rightarrow> pydict res" where
  "forecast_entry results = tool_entry ''get_forecast'' ''label'' ''forecast unavailable'' results
     (\<lambda>d. res_all [in_enum FORECAST_DIRECTIONS (dict_get d ''projected_direction''),
        in_enum ALIGNMENT_VALUES (dict_get d ''forecast_alignment''), finite_number (dict_get d ''up_probability''),
        finite_number (dict_get d ''forecast_confidence'')])
     (\<lambda>d. copy_fields [''projected_direction'', ''up_probability'', ''expected_move_atr'', ''forecast_confidence'', ''forecast_alignment''] d
        @ measures_of FORECAST_MEASURE_FIELDS d @ carry_fields [''symbol'', ''timeframe'', ''candles_used''] d)"

definition lowered :: "pyval \<Rightarrow> pyval" where
  "lowered v = (case v of PStr s \<Rightarrow> PStr (py_lower (py_strip s)) | _ \<Rightarrow> PNone)"

definition prediction_entry :: "tool_results \<Rightarrow> pydict res" where
  "prediction_entry results = tool_entry ''get_prediction'' ''projection'' ''prediction unavailable'' results
     (\<lambda>d. res_all [Inr (dict_get d ''projected_direction'' \<in> {PStr ''Up'', PStr ''Down'', PStr ''Flat''}),
        finite_number (dict_get d ''projected_value''), finite_number (dict_get d ''confidence'')])
     (\<lambda>d. copy_fields [''projected_direction''] d @ [(''direction'', lowered (dict_get d ''projected_direction''))]
        @ copy_fields [''projected_value'', ''confidence''] d @ carry_fields [''symbol'', ''timeframe''] d)"

subsection \<open>Patterns, trend and projection\<close>

definition PATTERN_CONFIDENCE_THRESHOLD :: pyfloat where "PATTERN_CONFIDENCE_THRESHOLD = fl (6 / 10)"

definition hashable :: "pyval \<Rightarrow> bool" where
  "hashable v \<longleftrightarrow> (case v of PList _ \<Rightarrow> False | PDict _ \<Rightarrow> False | _ \<Rightarrow> True)"

text \<open>One pattern of a result: it is kept when its confidence is above the threshold and it is new.\<close>

definition pattern_row :: "pyval \<Rightarrow> pydict list \<Rightarrow> pyval \<Rightarrow> pydict list res" where
  "pattern_row tf found p = (case p of
     PDict d \<Rightarrow> rbind (get_float d ''confidence'') (\<lambda>conf. case conf of None \<Rightarrow> Inr found
       | Some c \<Rightarrow> if fle c PATTERN_CONFIDENCE_THRESHOLD then Inr found
           else if \<not> hashable (dict_get d ''pattern_type'') \<or> \<not> hashable tf then Inl TypeError
           else if list_ex (\<lambda>f. dict_get f ''pattern_type'' = dict_get d ''pattern_type'' \<and> dict_get f ''timeframe'' = tf
                \<and> (case dict_get f ''confidence'' of PFloat c' \<Rightarrow> round4 c' = round4 c | _ \<Rightarrow> False)) found then Inr found
           else Inr (found @ [[(''pattern_type'', dict_get d ''pattern_type''), (''sentiment'', dict_get d ''sentiment''),
             (''confidence'', PFloat c), (''description'', dict_get d ''description''), (''timeframe'', tf)]]))
   | _ \<Rightarrow> Inr found)"

definition parsed_result :: "(string \<Rightarrow> pyval option) \<Rightarrow> chat_message \<Rightarrow> pyval" where
  "parsed_result parse m = (case cm_content m of None \<Rightarrow> PNone
     | Some t \<Rightarrow> if py_strip t = [] then PNone else (case parse (py_strip t) of None \<Rightarrow> PNone | Some v \<Rightarrow> v))"

definition collect_high_confidence_patterns :: "(string \<Rightarrow> pyval option) \<Rightarrow> chat_message list \<Rightarrow> pydict list res" where
  "collect_high_confidence_patterns parse msgs = rfold (\<lambda>found m.
     if is_tool_message m \<and> cm_name m = Some ''get_chart_patterns'' \<and> \<not> tool_result_is_error (cm_content m)
     then (case parsed_result parse m of
         PDict d \<Rightarrow> rbind (let ps = dict_get d ''patterns'' in if py_truthy ps then py_iter ps else Inr [])
           (rfold (pattern_row (dict_get d ''timeframe'')) found)
       | _ \<Rightarrow> Inr found)
     else Inr found) [] msgs"

definition max_pattern_confidence :: "tool_results \<Rightarrow> pyfloat res" where
  "max_pattern_confidence results =
     (let v = results ''get_chart_patterns''; ps = (case v of PDict d \<Rightarrow> dict_get d ''patterns'' | _ \<Rightarrow> v) in
      rbind (rfold (\<lambda>best p. case p of
          PDict d \<Rightarrow> rbind (get_float d ''confidence'') (\<lambda>c. Inr (case c of None \<Rightarrow> best | Some f \<Rightarrow> fmax best f))
        | _ \<Rightarrow> Inr best) (Fin 0) (case ps of PList vs \<Rightarrow> vs | _ \<Rightarrow> [])) (\<lambda>best.
        Inr (fmax (Fin 0) (fmin (Fin 1) best))))"

definition daily_key :: "string \<Rightarrow> bool" where
  "daily_key k \<longleftrightarrow> (let kl = py_lower k in contains ''1d'' kl \<or> contains ''1day'' kl \<or> contains ''daily'' kl \<or> kl = ''day'')"

definition extract_1d_bias :: "pyval \<Rightarrow> string option" where
  "extract_1d_bias multi_tf = (case multi_tf of
     PDict d \<Rightarrow> (case find (\<lambda>(k, v). is_str v \<and> daily_key k) d of Some (_, PStr s) \<Rightarrow> Some s | _ \<Rightarrow> None)
   | _ \<Rightarrow> None)"

definition bias_sign :: "string option \<Rightarrow> string option" where
  "bias_sign bias = (case bias of None \<Rightarrow> None
     | Some t \<Rightarrow> if t = [] then None else let b = py_lower t in
         if contains ''bull'' b \<or> b = ''up'' then Some ''Bullish''
         else if contains ''bear'' b \<or> b = ''down'' then Some ''Bearish''
         else if contains ''neutral'' b \<or> contains ''flat'' b then Some ''Neutral'' else None)"

definition capitalize :: "string \<Rightarrow> string" where
  "capitalize s = (case s of [] \<Rightarrow> [] | c # cs \<Rightarrow> upper_char c # py_lower cs)"

definition explicit_projection :: "tool_results \<Rightarrow> string option" where
  "explicit_projection results = (case results ''get_prediction'' of
     PDict d \<Rightarrow> (case dict_get d ''projected_direction'' of
         PStr s \<Rightarrow> if py_strip s \<noteq> [] then Some (capitalize (py_strip s)) else None | _ \<Rightarrow> None)
   | _ \<Rightarrow> None)"

fun slope_direction :: "pydict \<Rightarrow> string list \<Rightarrow> (string \<times> string) option res" where
  "slope_direction d [] = Inr None"
| "slope_direction d (k # ks) = rbind (finite_number (dict_get d k)) (\<lambda>fin. if \<not> fin then slope_direction d ks
     else rbind (to_num (dict_get d k)) (\<lambda>slope. Inr (Some (if num_lt (NF (Fin 0)) slope then ''Up''
         else if num_lt slope (NF (Fin 0)) then ''Down'' else ''Flat'', k))))"

definition predictive_direction :: "tool_results \<Rightarrow> (string \<times> string) option res" where
  "predictive_direction results = (case explicit_projection results of
     Some d \<Rightarrow> Inr (Some (d, ''predictive-engine''))
   | None \<Rightarrow> (case results ''get_consensus_report'' of
       PDict d \<Rightarrow> slope_direction d [''ols_slope'', ''vwepr_slope''] | _ \<Rightarrow> Inr None))"

subsection \<open>Action and levels\<close>

text \<open>The trade that a user proposes in a verification; an empty dict counts as none.\<close>

definition proposed_trade :: "string \<Rightarrow> pyval \<Rightarrow> pydict option" where
  "proposed_trade mode manual = (case manual of PDict (kv # r) \<Rightarrow> if mode = ''VERIFY'' then Some (kv # r) else None | _ \<Rightarrow> None)"

definition LEVEL_KEYS :: "string list" where "LEVEL_KEYS = [''entry'', ''stop_loss'', ''take_profit'']"

definition structured_levels :: "pydict \<Rightarrow> pydict res" where
  "structured_levels d = level_entries [] (map (\<lambda>k. (k, dict_get d k)) LEVEL_KEYS)"

definition nonempty :: "pydict \<Rightarrow> pydict option" where
  "nonempty d = (if d = [] then None else Some d)"

text \<open>\<open>" ".join(part for part in parts if part)\<close>.\<close>

definition join_parts :: "pyval list \<Rightarrow> string res" where
  "join_parts vs = rbind (rmap (\<lambda>v. case v of PStr s \<Rightarrow> Inr s | _ \<Rightarrow> Inl TypeError) (filter py_truthy vs))
     (\<lambda>ts. Inr (join_with '' '' ts))"

definition parse_levels_from_text :: "(string \<Rightarrow> pydict) \<Rightarrow> string \<Rightarrow> pydict option" where
  "parse_levels_from_text prose t = (if t = [] then None else nonempty (prose t))"

definition resolve_action_and_levels ::
    "(string \<Rightarrow> pydict) \<Rightarrow> pydict \<Rightarrow> string \<Rightarrow> pyval \<Rightarrow> (string option \<times> pydict option) res" where
  "resolve_action_and_levels prose decision mode manual = (case proposed_trade mode manual of
     Some trade \<Rightarrow> rbind (structured_levels trade) (\<lambda>ls. Inr (normalize_action (dict_get trade ''side''), nonempty ls))
   | None \<Rightarrow> (let act = normalize_action (dict_get decision ''action'') in
       rbind (structured_levels decision) (\<lambda>ls. if length ls = 3 then Inr (act, Some ls)
         else rbind (join_parts [dict_get decision ''execution_plan'', dict_get decision ''setup_validation'']) (\<lambda>t.
           Inr (act, parse_levels_from_text prose t)))))"

definition levels_are_structural :: "pydict \<Rightarrow> string \<Rightarrow> pyval \<Rightarrow> bool res" where
  "levels_are_structural decision mode manual = (if proposed_trade mode manual \<noteq> None then Inr True
     else all_finite (map (dict_get decision) LEVEL_KEYS))"

subsection \<open>The checks of a verification\<close>

definition check_entry :: "string \<Rightarrow> string \<Rightarrow> pydict" where
  "check_entry name outcome = [(''check'', PStr name), (''outcome'', PStr outcome)]"

definition pass_fail :: "bool \<Rightarrow> string" where
  "pass_fail b = (if b then ''pass'' else ''fail'')"

definition verify_floor :: "pyval \<Rightarrow> pyfloat res" where
  "verify_floor v = (case v of
     PInt n \<Rightarrow> if 0 < n then float_of_int n else Inr MIN_RISK_REWARD
   | PFloat f \<Rightarrow> Inr (if flt (Fin 0) f then f else MIN_RISK_REWARD)
   | _ \<Rightarrow> Inr MIN_RISK_REWARD)"

definition stop_check :: "pyfloat option \<Rightarrow> pyfloat \<Rightarrow> pydict" where
  "stop_check atr risk = (case atr of
     Some a \<Rightarrow> if isfinite a \<and> flt (Fin 0) a
       then check_entry ''stop-distance-vs-atr'' (pass_fail (fle (fmul (Fin (3 / 2)) a) risk))
         @ [(''detail'', PStr (''stop_distance='' @ fixed_text 4 risk @ '', 1.5xATR='' @ fixed_text 4 (fmul (Fin (3 / 2)) a)))]
       else check_entry ''stop-distance-vs-atr'' ''not-evaluable - ATR unavailable''
   | None \<Rightarrow> check_entry ''stop-distance-vs-atr'' ''not-evaluable - ATR unavailable'')"

definition reward_check :: "pyfloat \<Rightarrow> pyfloat \<Rightarrow> pyfloat \<Rightarrow> pydict res" where
  "reward_check min_rr reward risk = (if \<not> flt (Fin 0) risk then Inr (check_entry ''risk-reward'' ''not-evaluable - zero risk'')
     else rbind (fdiv reward risk) (\<lambda>rr. Inr (check_entry ''risk-reward'' (pass_fail (fle min_rr rr))
       @ [(''detail'', PStr (''RR='' @ fixed_text 4 rr @ '', min='' @ fixed_text 4 min_rr))])))"

definition level_at :: "pydict \<Rightarrow> string \<Rightarrow> pyfloat res" where
  "level_at ls k = as_float (dict_get ls k)"

definition verify_mode_validator_checks ::
    "string option \<Rightarrow> pydict option \<Rightarrow> pyfloat option \<Rightarrow> pyval \<Rightarrow> pydict list res" where
  "verify_mode_validator_checks act levels atr min_risk_reward =
     rbind (verify_floor min_risk_reward) (\<lambda>min_rr.
      let a = (case act of None \<Rightarrow> None | Some t \<Rightarrow> normalize_action (PStr t)) in
      if a \<noteq> Some ''BUY'' \<and> a \<noteq> Some ''SELL'' then Inr [check_entry ''direction'' ''n/a - HOLD/abstain bypasses level checks'']
      else rbind (case levels of None \<Rightarrow> Inr False | Some ls \<Rightarrow> all_finite (map (dict_get ls) LEVEL_KEYS)) (\<lambda>have.
        if \<not> have then Inr (check_entry ''execution-levels-present'' ''fail''
            # map (\<lambda>c. check_entry c ''not-evaluable - missing levels'') [''direction-consistency'', ''stop-distance-vs-atr'', ''risk-reward''])
        else let ls = (case levels of None \<Rightarrow> [] | Some ls \<Rightarrow> ls) in
          rbind (level_at ls ''entry'') (\<lambda>e. rbind (level_at ls ''stop_loss'') (\<lambda>sl. rbind (level_at ls ''take_profit'') (\<lambda>tp.
          rbind (reward_check min_rr (fabs (fsub tp e)) (fabs (fsub e sl))) (\<lambda>rr_check.
            Inr [check_entry ''execution-levels-present'' ''pass'',
              check_entry ''direction-consistency'' (pass_fail (if a = Some ''BUY'' then flt sl e \<and> flt e tp else flt tp e \<and> flt e sl)),
              stop_check atr (fabs (fsub e sl)), rr_check]))))))"

subsection \<open>The evidence of the tier\<close>

definition macro_signal_for_tier :: "tool_results \<Rightarrow> string option \<Rightarrow> pydict" where
  "macro_signal_for_tier results act =
     (let bias = bias_sign (extract_1d_bias (results ''get_multi_tf_trend''));
          a = py_upper (case act of None \<Rightarrow> [] | Some t \<Rightarrow> t)
      in if bias = None then [(''available'', PBool False), (''alignment'', PStr ''neutral'')]
         else [(''available'', PBool True), (''alignment'', PStr
           (if bias = Some ''Neutral'' \<or> a \<notin> {''BUY'', ''SELL''} then ''neutral''
            else if a = ''BUY'' \<and> bias = Some ''Bullish'' \<or> a = ''SELL'' \<and> bias = Some ''Bearish'' then ''aligned''
            else ''misaligned''))])"

definition finite_floats :: "pydict \<Rightarrow> string list \<Rightarrow> pyfloat list res" where
  "finite_floats d ks = rfold (\<lambda>acc k. rbind (get_float d k) (\<lambda>f. Inr (case f of None \<Rightarrow> acc | Some x \<Rightarrow> acc @ [x]))) [] ks"

text \<open>The first list element that no later one beats: Python's \<open>max\<close> and \<open>min\<close>, also with a key.\<close>

definition best_by :: "(pyfloat \<Rightarrow> pyfloat \<Rightarrow> bool) \<Rightarrow> pyfloat list \<Rightarrow> pyfloat" where
  "best_by beats xs = fold (\<lambda>x b. if beats x b then x else b) (tl xs) (hd xs)"

definition nearest :: "pyfloat option \<Rightarrow> pyfloat list \<Rightarrow> pyfloat" where
  "nearest anchor xs = (let gap = (\<lambda>x. fabs (fsub x (case anchor of None \<Rightarrow> x | Some a \<Rightarrow> a))) in
     best_by (\<lambda>x b. flt (gap x) (gap b)) xs)"

definition nearest_below :: "pyfloat option \<Rightarrow> pyfloat list \<Rightarrow> pyfloat" where
  "nearest_below anchor xs = (let below = filter (\<lambda>s. case anchor of None \<Rightarrow> True | Some a \<Rightarrow> fle s a) xs in
     if below \<noteq> [] then best_by (\<lambda>x b. flt b x) below else nearest anchor xs)"

definition nearest_above :: "pyfloat option \<Rightarrow> pyfloat list \<Rightarrow> pyfloat" where
  "nearest_above anchor xs = (let above = filter (\<lambda>r. case anchor of None \<Rightarrow> True | Some a \<Rightarrow> fle a r) xs in
     if above \<noteq> [] then best_by (\<lambda>x b. flt x b) above else nearest anchor xs)"

definition sr_levels :: "pydict \<Rightarrow> pyfloat option \<Rightarrow> pydict res" where
  "sr_levels sr ref_price =
     rbind (finite_floats sr [''s1'', ''s2'', ''s3'']) (\<lambda>supports.
     rbind (finite_floats sr [''r1'', ''r2'', ''r3'']) (\<lambda>resistances.
     rbind (case ref_price of Some p \<Rightarrow> Inr (Some p) | None \<Rightarrow> get_float sr ''pivot'') (\<lambda>anchor.
       Inr ((if supports \<noteq> [] then [(''support'', PFloat (nearest_below anchor supports))] else [])
         @ (if resistances \<noteq> [] then [(''resistance'', PFloat (nearest_above anchor resistances))] else [])))))"

definition renamed_levels :: "pydict \<Rightarrow> (string \<times> string) list \<Rightarrow> pydict res" where
  "renamed_levels d ks = level_entries [] (map (\<lambda>(src, name). (name, dict_get d src)) ks)"

definition reference_levels :: "tool_results \<Rightarrow> pydict \<Rightarrow> pydict res" where
  "reference_levels results watch =
     (let consensus = as_dict (results ''get_consensus_report'') in
      rbind (get_float consensus ''current_price'') (\<lambda>ref_price.
      rbind (case results ''get_support_resistance'' of
          PDict sr \<Rightarrow> if py_truthy (dict_get sr ''unavailable'') then Inr [] else sr_levels sr ref_price
        | _ \<Rightarrow> Inr []) (\<lambda>first.
      if first \<noteq> [] then Inr first
      else rbind (renamed_levels consensus [(''vwap'', ''vwap'')]) (\<lambda>vwap.
        rbind (renamed_levels (as_dict (results ''get_volume_profile'')) [(''vah'', ''value_area_high''), (''val'', ''value_area_low'')]) (\<lambda>edges.
        if vwap @ edges \<noteq> [] then Inr (vwap @ edges)
        else renamed_levels watch [(''price_level'', ''watch_price''), (''invalidation_level'', ''invalidation'')])))))"

definition opt_level :: "pydict option \<Rightarrow> string \<Rightarrow> pyval" where
  "opt_level levels k = (case levels of None \<Rightarrow> PNone | Some ls \<Rightarrow> dict_get ls k)"

definition evidence_for_tier ::
    "(string \<Rightarrow> pyval option) \<Rightarrow> (string \<Rightarrow> pydict) \<Rightarrow> chat_message list \<Rightarrow> string \<Rightarrow> pyval \<Rightarrow> pydict \<Rightarrow> (pydict \<times> string option) res" where
  "evidence_for_tier parse prose msgs mode manual decision = (let results = latest_result parse msgs in
     rbind (resolve_action_and_levels prose decision mode manual) (\<lambda>(act, levels).
     rbind (max_pattern_confidence results) (\<lambda>conf.
     rbind (rmap (\<lambda>(k, e). rbind e (\<lambda>d. Inr (k, PDict d))) [(''regime'', regime_entry results), (''session'', session_entry results),
        (''relative_strength'', relative_strength_entry results), (''forecast'', forecast_entry results),
        (''prediction'', prediction_entry results), (''options'', options_entry results)]) (\<lambda>signals.
     rbind (reference_levels results (latest_watch_args msgs)) (\<lambda>refs.
     rbind (levels_are_structural decision mode manual) (\<lambda>structural.
       Inr ([(''pattern_confidence'', PFloat conf), (''entry'', opt_level levels ''entry''),
         (''stop'', opt_level levels ''stop_loss''), (''target'', opt_level levels ''take_profit'')]
         @ signals @ [(''macro'', PDict (macro_signal_for_tier results act)), (''reference_levels'', PDict refs),
         (''levels_structural'', PBool structural)], act)))))))"

text \<open>The interim read, with the direction of the secondary prediction when the forecast is missing.\<close>

definition interim_read :: "pydict \<Rightarrow> tier_evaluation \<Rightarrow> pydict res" where
  "interim_read evidence te = rbind (best_current_read (PDict evidence) (Some te)) (\<lambda>read.
     let prediction = as_dict (dict_get evidence ''prediction'');
         bias = (case dict_get prediction ''direction'' of PStr t \<Rightarrow> if t = ''up'' then ''bullish'' else if t = ''down'' then ''bearish'' else [] | _ \<Rightarrow> []);
         why = (case dict_get read ''why_standing_aside'' of PStr t \<Rightarrow> t | _ \<Rightarrow> []);
         note = ''Interim direction from the secondary prediction (forecast unavailable).''
     in Inr (if dict_get read ''bias'' = PStr ''neutral'' \<and> dict_get (as_dict (dict_get evidence ''forecast'')) ''available'' \<noteq> PBool True
              \<and> dict_get prediction ''available'' = PBool True \<and> bias \<noteq> []
       then map (\<lambda>(k, v). if k = ''bias'' then (k, PStr bias)
             else if k = ''why_standing_aside'' then (k, PStr (if why = [] then note else py_strip (why @ '' '' @ note))) else (k, v)) read
       else read))"

end
