(* ===== verification/Fingerprint.thy ===== *)
theory Fingerprint
  imports Opportunity TradeManager
begin

text \<open>
  The setup fingerprint of a committed decision: \<open>journal.py\<close> reads one tag of each dimension off the
  record that defends the decision and joins them to the key that trades are grouped by;
  \<open>attribution.py\<close> takes the key apart again. The tag functions of single dimensions catch every
  exception and answer \<open>unknown\<close>; \<open>derive_setup_tags\<close> itself can raise.
\<close>

subsection \<open>The vocabulary of the tags\<close>

definition REGIME_TAG_VALUES :: "string list" where
  "REGIME_TAG_VALUES = [''trend-favorable'', ''trend-unfavorable'', ''trend-neutral'', ''range-favorable'', ''range-unfavorable'',
     ''range-neutral'', ''unknown'']"

definition RS_TAG_VALUES :: "string list" where
  "RS_TAG_VALUES = [''leader-aligned'', ''leader-misaligned'', ''laggard-aligned'', ''laggard-misaligned'', ''inline-neutral'',
     ''aligned'', ''misaligned'', ''unknown'']"

definition FC_TAG_VALUES :: "string list" where
  "FC_TAG_VALUES = [''aligned-strong'', ''aligned-weak'', ''misaligned-strong'', ''misaligned-weak'', ''neutral-strong'',
     ''neutral-weak'', ''unknown'']"

definition FC_STRONG_PROB_SPLIT :: pyfloat where "FC_STRONG_PROB_SPLIT = fl (15 / 100)"

definition SESS_TAG_VALUES :: "string list" where
  "SESS_TAG_VALUES = [''opening'', ''morning'', ''midday'', ''afternoon'', ''closing'', ''offhours'', ''expiry'', ''unknown'']"

definition DB_TAG_VALUES :: "string list" where
  "DB_TAG_VALUES = [''strong_agree'', ''lean'', ''contested'', ''unknown'']"

definition OPT_TAG_VALUES :: "string list" where
  "OPT_TAG_VALUES = [''bullish-aligned'', ''bullish-misaligned'', ''bearish-aligned'', ''bearish-misaligned'', ''neutral'', ''unknown'']"

definition EVT_TAG_VALUES :: "string list" where
  "EVT_TAG_VALUES = [''clear'', ''imminent'', ''through_event'', ''unknown'']"

subsection \<open>The tag of one entry\<close>

text \<open>\<open>x or {}\<close> on which \<open>.get\<close> is called: a truthy value that is no dict is an \<open>AttributeError\<close>.\<close>

definition dict_or_nothing :: "pyval \<Rightarrow> pydict res" where
  "dict_or_nothing v = (case v of PDict d \<Rightarrow> Inr d | _ \<Rightarrow> if py_truthy v then Inl AttributeError else Inr [])"

definition defensibility :: "pydict \<Rightarrow> pydict res" where
  "defensibility decision = dict_or_nothing (dict_get decision ''defensibility'')"

definition label_of :: "pydict \<Rightarrow> string \<Rightarrow> string" where
  "label_of e k = (let v = dict_get e k in if py_truthy v then py_lower (py_strip (py_str v)) else [])"

definition known_or :: "string list \<Rightarrow> string \<Rightarrow> string" where
  "known_or allowed t = (if t \<in> set allowed then t else ''unknown'')"

text \<open>The entry of a record under a name, when it is there and not marked unavailable.\<close>

definition usable_entry :: "pydict \<Rightarrow> string \<Rightarrow> pydict option" where
  "usable_entry decision name = (case defensibility decision of
     Inl _ \<Rightarrow> None
   | Inr deff \<Rightarrow> (case dict_get deff name of
       PDict e \<Rightarrow> if dict_get e ''available'' = PBool False then None else Some e
     | _ \<Rightarrow> None))"

definition entry_tag :: "pydict \<Rightarrow> string \<Rightarrow> (pydict \<Rightarrow> string) \<Rightarrow> string" where
  "entry_tag decision name f = (case usable_entry decision name of None \<Rightarrow> ''unknown'' | Some e \<Rightarrow> f e)"

definition trend_family :: "string \<Rightarrow> string option" where
  "trend_family t = map_of [(''trending'', ''trend''), (''transitional'', ''trend''), (''ranging'', ''range'')] t"

definition regime_tag :: "pydict \<Rightarrow> string" where
  "regime_tag decision = entry_tag decision ''regime'' (\<lambda>e. case trend_family (label_of e ''trend_state'') of
       None \<Rightarrow> ''unknown''
     | Some family \<Rightarrow> if label_of e ''favorability'' \<in> {''favorable'', ''unfavorable'', ''neutral''}
         then known_or REGIME_TAG_VALUES (family @ ''-'' @ label_of e ''favorability'') else ''unknown'')"

definition relative_strength_tag :: "pydict \<Rightarrow> string" where
  "relative_strength_tag decision = entry_tag decision ''relative_strength'' (\<lambda>e.
     let state = label_of e ''relative_strength_state''; alignment = label_of e ''alignment'' in
     if state \<notin> {''leader'', ''inline'', ''laggard''} \<or> alignment \<notin> {''aligned'', ''misaligned'', ''neutral''} then ''unknown''
     else if state @ ''-'' @ alignment \<in> set RS_TAG_VALUES then state @ ''-'' @ alignment
     else known_or RS_TAG_VALUES alignment)"

text \<open>Whether the probability is far from a half; an integer outside the float range raises.\<close>

definition strong_band :: "pyval \<Rightarrow> bool res" where
  "strong_band p = rbind (to_num p) (\<lambda>n. rbind (num_sub n (NF (Fin (1 / 2)))) (\<lambda>d.
     Inr (num_le (NF FC_STRONG_PROB_SPLIT) (num_abs d))))"

definition forecast_tag :: "pydict \<Rightarrow> string" where
  "forecast_tag decision = entry_tag decision ''forecast'' (\<lambda>e.
     let alignment = label_of e ''forecast_alignment''; p = dict_get e ''up_probability'' in
     if alignment \<notin> {''aligned'', ''misaligned'', ''neutral''} \<or> finite_number p \<noteq> Inr True then ''unknown''
     else case strong_band p of Inl _ \<Rightarrow> ''unknown''
       | Inr strong \<Rightarrow> known_or FC_TAG_VALUES (alignment @ (if strong then ''-strong'' else ''-weak'')))"

definition forecast_up_probability :: "pydict \<Rightarrow> pyval" where
  "forecast_up_probability deff = (case dict_get deff ''forecast'' of
     PDict e \<Rightarrow> if dict_get e ''available'' \<noteq> PBool False \<and> finite_number (dict_get e ''up_probability'') = Inr True
       then dict_get e ''up_probability'' else PNone
   | _ \<Rightarrow> PNone)"

definition style_tag :: "pydict \<Rightarrow> string" where
  "style_tag decision = entry_tag decision ''management'' (\<lambda>e. known_or MANAGEMENT_STYLE_TAGS (label_of e ''style''))"

definition session_tag :: "pydict \<Rightarrow> string" where
  "session_tag decision = entry_tag decision ''session'' (\<lambda>e.
     let phase = label_of e ''session_phase'';
         expiry = (case dict_get e ''expiry_context'' of PDict x \<Rightarrow> py_truthy (dict_get x ''is_expiry_day'') | _ \<Rightarrow> False) in
     if phase \<notin> {''opening'', ''morning'', ''midday'', ''afternoon'', ''closing'', ''pre_open'', ''post_close''} then ''unknown''
     else if expiry \<and> phase \<in> {''afternoon'', ''closing''} then ''expiry''
     else if phase \<in> {''pre_open'', ''post_close''} then ''offhours''
     else known_or SESS_TAG_VALUES phase)"

text \<open>The debate entry has no mark of availability.\<close>

definition debate_tag :: "pydict \<Rightarrow> string" where
  "debate_tag decision = (case defensibility decision of Inl _ \<Rightarrow> ''unknown''
   | Inr deff \<Rightarrow> (case dict_get deff ''debate'' of
       PDict e \<Rightarrow> (let c = label_of e ''consensus'' in if c \<in> {''strong_agree'', ''lean'', ''contested''} then c else ''unknown'')
     | _ \<Rightarrow> ''unknown''))"

definition options_tag :: "pydict \<Rightarrow> string" where
  "options_tag decision = entry_tag decision ''options'' (\<lambda>e.
     let bias = label_of e ''options_bias_state''; alignment = label_of e ''alignment'' in
     if bias \<notin> {''bullish'', ''bearish'', ''neutral''} \<or> alignment \<notin> {''aligned'', ''misaligned'', ''neutral''} then ''unknown''
     else if bias = ''neutral'' then ''neutral'' else known_or OPT_TAG_VALUES (bias @ ''-'' @ alignment))"

definition event_tag :: "pydict \<Rightarrow> string" where
  "event_tag decision = entry_tag decision ''event'' (\<lambda>e. let r = label_of e ''event_risk'' in
     if r \<in> {''clear'', ''imminent'', ''through_event''} then r else ''unknown'')"

subsection \<open>The tags of a decision\<close>

text \<open>\<open>sub in s\<close> for strings.\<close>

fun has_text :: "string \<Rightarrow> string \<Rightarrow> bool" where
  "has_text sub [] \<longleftrightarrow> sub = []"
| "has_text sub (c # cs) \<longleftrightarrow> take (length sub) (c # cs) = sub \<or> has_text sub cs"

definition prose_of :: "pydict \<Rightarrow> string \<Rightarrow> string" where
  "prose_of d k = (let v = dict_get d k in if py_truthy v then py_lower (py_str v) else [])"

definition macro_tag :: "string \<Rightarrow> string" where
  "macro_tag mc = (if has_text ''macro conflict'' mc then ''against'' else if has_text ''aligned with the 1d'' mc then ''aligned''
     else if has_text ''unavailable'' mc then ''unknown'' else ''neutral'')"

definition predictive_tag :: "string \<Rightarrow> string" where
  "predictive_tag pc = (if has_text ''no predictive conflict'' pc \<or> has_text ''aligns with trade bias'' pc then ''aligned''
     else if take 8 pc = ''conflict'' \<or> has_text ''conflict:'' pc then ''conflict'' else ''na'')"

definition value_area_tag :: "pydict \<Rightarrow> string" where
  "value_area_tag vp = (case dict_get vp ''price_vs_value_area'' of
     PStr s \<Rightarrow> if s \<in> {''above_value_area'', ''inside_value_area'', ''below_value_area''} then hd (py_split (CHR ''_'') s) else ''unknown''
   | _ \<Rightarrow> ''unknown'')"

definition decision_action :: "pydict \<Rightarrow> string" where
  "decision_action d = (let v = dict_get d ''action'' in py_upper (py_str (if py_truthy v then v else PStr ''HOLD'')))"

text \<open>The dimensions and their values in order; the text of a tag is \<open>dimension:value\<close>.\<close>

definition setup_values :: "pydict \<Rightarrow> (string \<times> string) list res" where
  "setup_values d =
     rbind (defensibility d) (\<lambda>deff.
     rbind (dict_or_nothing (dict_get deff ''volume_profile'')) (\<lambda>vp. Inr
      [(''dir'', decision_action d), (''macro'', macro_tag (prose_of deff ''macro_trend_conflict'')),
       (''pred'', predictive_tag (prose_of deff ''predictive_conflict'')), (''va'', value_area_tag vp),
       (''regime'', regime_tag d), (''rs'', relative_strength_tag d), (''fc'', forecast_tag d), (''tm'', style_tag d),
       (''sess'', session_tag d), (''db'', debate_tag d), (''opt'', options_tag d), (''tier'', tier_tag (PDict d)),
       (''evt'', event_tag d)]))"

definition derive_setup_tags :: "pydict \<Rightarrow> string list res" where
  "derive_setup_tags d = rbind (setup_values d) (\<lambda>vs. Inr (map (\<lambda>(k, v). k @ '':'' @ v) vs))"

definition setup_key_from_tags :: "string list \<Rightarrow> string" where
  "setup_key_from_tags tags = (if tags = [] then ''unknown'' else join_with ''|'' tags)"

subsection \<open>The key taken apart\<close>

definition UNKNOWN_VALUE :: string where "UNKNOWN_VALUE = ''unknown''"

text \<open>\<open>s.partition(":")\<close>: the separator is found or not.\<close>

fun partition_colon :: "string \<Rightarrow> string \<times> bool \<times> string" where
  "partition_colon [] = ([], False, [])"
| "partition_colon (c # cs) = (if c = CHR '':'' then ([], True, cs)
     else let (a, f, b) = partition_colon cs in (c # a, f, b))"

definition read_token :: "string \<Rightarrow> string \<times> string" where
  "read_token t = (let (a, sep, b) = partition_colon t; dimension = py_strip a; value = py_strip b in
     (dimension, if \<not> sep \<or> dimension = [] \<or> value = [] \<or> py_lower value = UNKNOWN_VALUE then UNKNOWN_VALUE else value))"

fun put_value :: "(string \<times> 'a) list \<Rightarrow> string \<Rightarrow> 'a \<Rightarrow> (string \<times> 'a) list" where
  "put_value [] k v = [(k, v)]"
| "put_value ((k', v') # d) k v = (if k' = k then (k', v) # d else (k', v') # put_value d k v)"

definition parse_setup_key :: "pyval \<Rightarrow> (string \<times> string) list" where
  "parse_setup_key key = (case key of
     PStr s \<Rightarrow> if py_strip s = [] then []
       else foldl (\<lambda>d t. let (k, v) = read_token t in put_value d k v) []
         (filter (\<lambda>t. t \<noteq> []) (map py_strip (py_split (CHR ''|'') s)))
   | _ \<Rightarrow> [])"

end
