(* ===== verification/Journal.thy ===== *)
theory Journal
  imports Fingerprint RecoStore
begin

text \<open>
  \<open>journal.py\<close>: the table of trades the agent learns from. A decision is recorded once per thread, open
  trades are scored against later candles, either by the trade manager or by the first level touched,
  and the scored ones are counted. A stored plan is the value its JSON text reads back as. Columns of
  type REAL give a float back, or NULL for a NaN; a text in one of them stays a text. The candles are an
  argument (\<open>_fetch_candles\<close> never raises), so is the clock; the store itself does not fail.
\<close>

subsection \<open>The table\<close>

record trade_row =
  tr_id :: int
  tr_created_at :: pyval
  tr_mode :: string
  tr_symbol :: "string option"
  tr_timeframe :: "string option"
  tr_action :: string
  tr_entry :: pyval
  tr_stop_loss :: pyval
  tr_take_profit :: pyval
  tr_atr_14 :: pyval
  tr_conviction :: pyval
  tr_risk_reward :: pyval
  tr_setup_key :: string
  tr_setup_tags :: string
  tr_source :: "string option"
  tr_status :: string
  tr_outcome_price :: pyval
  tr_outcome_at :: pyval
  tr_r_multiple :: pyval
  tr_scored_at :: pyval
  tr_forecast_up_probability :: pyval
  tr_management_plan :: "pyval option"
  tr_exit_breakdown :: "pyval option"
  tr_thread_id :: "string option"

record journal_table =
  jt_rows :: "trade_row list"
  jt_last_id :: int

definition empty_journal :: journal_table where
  "empty_journal = \<lparr>jt_rows = [], jt_last_id = 0\<rparr>"

definition real_column :: "pyval \<Rightarrow> pyval res" where
  "real_column v = (case v of
     PBool b \<Rightarrow> Inr (PFloat (Fin (if b then 1 else 0)))
   | PInt n \<Rightarrow> if int64_ok v then Inr (PFloat (fl (of_int n))) else Inl OverflowError
   | PFloat f \<Rightarrow> Inr (if f = NaN then PNone else v)
   | PList _ \<Rightarrow> Inl SqliteError | PDict _ \<Rightarrow> Inl SqliteError | _ \<Rightarrow> Inr v)"

definition finite_column :: "pyval \<Rightarrow> pyval res" where
  "finite_column v = rbind (finite_number v) (\<lambda>fin. if fin then real_column v else Inr PNone)"

text \<open>The partial UNIQUE index and the row counter.\<close>

definition thread_row :: "string \<Rightarrow> journal_table \<Rightarrow> trade_row option" where
  "thread_row tid jt = find (\<lambda>r. tr_thread_id r = Some tid) (jt_rows jt)"

definition insert_trade :: "trade_row \<Rightarrow> journal_table \<Rightarrow> journal_table \<times> int option" where
  "insert_trade row jt = (case tr_thread_id row of
     Some tid \<Rightarrow> (case thread_row tid jt of
         Some r \<Rightarrow> (jt, Some (tr_id r))
       | None \<Rightarrow> (jt\<lparr>jt_rows := jt_rows jt @ [row\<lparr>tr_id := jt_last_id jt + 1\<rparr>], jt_last_id := jt_last_id jt + 1\<rparr>, Some (jt_last_id jt + 1)))
   | None \<Rightarrow> (jt\<lparr>jt_rows := jt_rows jt @ [row\<lparr>tr_id := jt_last_id jt + 1\<rparr>], jt_last_id := jt_last_id jt + 1\<rparr>, Some (jt_last_id jt + 1)))"

subsection \<open>Recording a decision\<close>

definition fill_none :: "string \<Rightarrow> pyval \<Rightarrow> pydict \<Rightarrow> pydict" where
  "fill_none k v d = (if dict_get d k = PNone then put_value d k v else d)"

definition serialize_plan :: "pydict \<Rightarrow> pyval \<Rightarrow> pyval \<Rightarrow> pyval option" where
  "serialize_plan d ent stop = (case dict_get d ''management_plan'' of
     PDict plan \<Rightarrow> (let act = dict_get d ''action'' in
       map_option plan_to_payload (plan_from_payload (PDict (fill_none ''atr_14'' (dict_get d ''atr_14'')
         (fill_none ''initial_stop'' stop (fill_none ''entry'' ent
           (fill_none ''action'' (PStr (if py_truthy act then py_upper (py_str act) else [])) plan)))))))
   | _ \<Rightarrow> None)"

definition all_numbers :: "pyval list \<Rightarrow> bool res" where
  "all_numbers vs = rfold (\<lambda>ok v. if ok then finite_number v else Inr False) True vs"

definition level_or :: "pydict \<Rightarrow> string \<Rightarrow> pyval \<Rightarrow> pyval res" where
  "level_or lv k v = rbind (finite_number (dict_get lv k)) (\<lambda>fin. Inr (if fin then dict_get lv k else v))"

text \<open>The declared levels, each replaced by that of the record when not all three are numbers.\<close>

definition recorded_levels :: "pydict \<Rightarrow> pydict \<Rightarrow> (pyval \<times> pyval \<times> pyval) res" where
  "recorded_levels d deff = (let e = dict_get d ''entry''; s = dict_get d ''stop_loss''; t = dict_get d ''take_profit'' in
     rbind (all_numbers [e, s, t]) (\<lambda>ok. if ok then Inr (e, s, t)
       else rbind (dict_or_nothing (dict_get deff ''levels'')) (\<lambda>lv.
         rbind (level_or lv ''entry'' e) (\<lambda>e'. rbind (level_or lv ''stop_loss'' s) (\<lambda>s'.
         rbind (level_or lv ''take_profit'' t) (\<lambda>t'. Inr (e', s', t')))))))"

definition reward_over_risk :: "pyval \<Rightarrow> pyval \<Rightarrow> pyval \<Rightarrow> pyval res" where
  "reward_over_risk e s t = rbind (to_num e) (\<lambda>e. rbind (to_num s) (\<lambda>s. rbind (to_num t) (\<lambda>t.
     rbind (num_sub e s) (\<lambda>risk. if \<not> num_lt (NI 0) (num_abs risk) then Inr PNone
       else rbind (num_sub t e) (\<lambda>reward. rbind (num_div (num_abs reward) (num_abs risk)) (\<lambda>q. Inr (num_to_val q)))))))"

text \<open>\<open>int(conv)\<close>, where a text or a value that is no number gives none; and an INTEGER column, which keeps
  a float as an integer when it is one.\<close>

definition whole_conviction :: "pyval \<Rightarrow> pyval res" where
  "whole_conviction v = (case v of PBool b \<Rightarrow> Inr (PInt (if b then 1 else 0)) | _ \<Rightarrow> int_or_none v)"

definition integer_column :: "pyval \<Rightarrow> pyval res" where
  "integer_column v = (case v of
     PBool b \<Rightarrow> Inr (PInt (if b then 1 else 0))
   | PInt n \<Rightarrow> if int64_ok v then Inr v else Inl OverflowError
   | PFloat NaN \<Rightarrow> Inr PNone
   | PFloat (Fin q) \<Rightarrow> Inr (if of_int \<lfloor>q\<rfloor> = q \<and> int64_ok (PInt \<lfloor>q\<rfloor>) then PInt \<lfloor>q\<rfloor> else v)
   | PList _ \<Rightarrow> Inl SqliteError | PDict _ \<Rightarrow> Inl SqliteError | _ \<Rightarrow> Inr v)"

definition json_list_text :: "string list \<Rightarrow> string" where
  "json_list_text ts = ''['' @ join_with '', '' (map ascii_string ts) @ '']''"

definition decision_row :: "pyfloat \<Rightarrow> pydict \<Rightarrow> string option \<Rightarrow> string option \<Rightarrow> string option \<Rightarrow> string option \<Rightarrow> trade_row res" where
  "decision_row now d symbol timeframe mode tid =
     rbind (defensibility d) (\<lambda>deff.
     rbind (recorded_levels d deff) (\<lambda>(e, s, t).
     rbind (if decision_action d \<in> {''BUY'', ''SELL''} then all_numbers [e, s, t] else Inr False) (\<lambda>scoreable.
     rbind (derive_setup_tags d) (\<lambda>tags.
     rbind (finite_number (dict_get deff ''risk_reward'')) (\<lambda>has_rr.
     rbind (if \<not> has_rr \<and> scoreable then reward_over_risk e s t else Inr (dict_get deff ''risk_reward'')) (\<lambda>rr.
     rbind (whole_conviction (dict_get d ''conviction_score'')) (\<lambda>conv.
     rbind (finite_column e) (\<lambda>ce. rbind (finite_column s) (\<lambda>cs. rbind (finite_column t) (\<lambda>ct.
     rbind (finite_column (dict_get d ''atr_14'')) (\<lambda>catr. rbind (finite_column rr) (\<lambda>crr.
     rbind (real_column (forecast_up_probability deff)) (\<lambda>cup.
     rbind (integer_column conv) (\<lambda>cconv. Inr
       \<lparr>tr_id = 0, tr_created_at = PFloat now, tr_mode = (case mode of Some (c # cs) \<Rightarrow> c # cs | _ \<Rightarrow> ''FIND''), tr_symbol = symbol,
        tr_timeframe = timeframe, tr_action = decision_action d, tr_entry = ce, tr_stop_loss = cs, tr_take_profit = ct, tr_atr_14 = catr,
        tr_conviction = cconv, tr_risk_reward = crr, tr_setup_key = setup_key_from_tags tags, tr_setup_tags = json_list_text tags,
        tr_source = (case dict_get d ''source'' of PStr x \<Rightarrow> Some x | _ \<Rightarrow> None), tr_status = (if scoreable then ''open'' else ''hold''),
        tr_outcome_price = PNone, tr_outcome_at = PNone, tr_r_multiple = PNone, tr_scored_at = PNone,
        tr_forecast_up_probability = cup, tr_management_plan = serialize_plan d e s, tr_exit_breakdown = None,
        tr_thread_id = tid\<rparr>))))))))))))))"

text \<open>A thread id that is blank counts as none. Any failure leaves the table and gives \<open>None\<close>.\<close>

definition journal_thread :: "string option \<Rightarrow> string option" where
  "journal_thread tid = (case tid of Some t \<Rightarrow> if py_strip t = [] then None else Some t | None \<Rightarrow> None)"

definition record_decision ::
    "pyfloat \<Rightarrow> pydict \<Rightarrow> string option \<Rightarrow> string option \<Rightarrow> string option \<Rightarrow> string option \<Rightarrow> journal_table \<Rightarrow> journal_table \<times> int option" where
  "record_decision now d symbol timeframe mode thread_id jt =
     (case decision_row now d symbol timeframe mode (journal_thread thread_id) of
        Inl _ \<Rightarrow> (jt, None)
      | Inr row \<Rightarrow> insert_trade row jt)"

text \<open>A trade of the seeder comes with its outcome. A falsy time of creation is the clock's.\<close>

definition record_backtest_trade ::
    "pyfloat \<Rightarrow> pydict \<Rightarrow> string \<Rightarrow> string \<Rightarrow> string \<Rightarrow> pyval \<Rightarrow> pyval \<Rightarrow> pyval \<Rightarrow> journal_table \<Rightarrow> journal_table \<times> int option" where
  "record_backtest_trade now d symbol timeframe status price out_at r jt = (let e = dict_get d ''entry''; s = dict_get d ''stop_loss''; t = dict_get d ''take_profit'' in
     case rbind (defensibility d) (\<lambda>deff.
     rbind (derive_setup_tags d) (\<lambda>tags.
     rbind (finite_number (dict_get deff ''risk_reward'')) (\<lambda>has_rr.
     rbind (if has_rr then Inr False else all_numbers [e, s, t]) (\<lambda>derive.
     rbind (if derive then reward_over_risk e s t else Inr (dict_get deff ''risk_reward'')) (\<lambda>rr.
     rbind (real_column (if py_truthy (dict_get d ''created_at'') then dict_get d ''created_at'' else PFloat now)) (\<lambda>cat.
     rbind (finite_column e) (\<lambda>ce. rbind (finite_column s) (\<lambda>cs. rbind (finite_column t) (\<lambda>ct.
     rbind (finite_column (dict_get d ''atr_14'')) (\<lambda>catr. rbind (finite_column rr) (\<lambda>crr.
     rbind (real_column price) (\<lambda>cprice. rbind (real_column out_at) (\<lambda>cout. rbind (real_column r) (\<lambda>cr.
     rbind (real_column (forecast_up_probability deff)) (\<lambda>cup.
     rbind (integer_column (dict_get d ''conviction_score'')) (\<lambda>cconv. Inr
       \<lparr>tr_id = 0, tr_created_at = cat, tr_mode = ''BACKTEST'', tr_symbol = Some symbol, tr_timeframe = Some timeframe,
        tr_action = decision_action d, tr_entry = ce, tr_stop_loss = cs, tr_take_profit = ct, tr_atr_14 = catr,
        tr_conviction = cconv, tr_risk_reward = crr, tr_setup_key = setup_key_from_tags tags,
        tr_setup_tags = json_list_text tags, tr_source = Some ''backtest'', tr_status = status, tr_outcome_price = cprice,
        tr_outcome_at = cout, tr_r_multiple = cr, tr_scored_at = PFloat now, tr_forecast_up_probability = cup,
        tr_management_plan = None, tr_exit_breakdown = None, tr_thread_id = None\<rparr>)))))))))))))))) of
       Inl _ \<Rightarrow> (jt, None) | Inr row \<Rightarrow> insert_trade row jt)"

subsection \<open>Scoring\<close>

record score_update =
  su_status :: string
  su_outcome_price :: pyval
  su_outcome_at :: pyval
  su_r_multiple :: pyval
  su_exit_breakdown :: "pyval option"

text \<open>The candle's time and prices when all of them are numbers.\<close>

definition scoring_candle :: "pyval \<Rightarrow> (pynum \<times> pynum \<times> pynum) option res" where
  "scoring_candle c = (case c of
     PDict d \<Rightarrow> rbind (all_numbers [dict_get d ''timestamp_ms'', dict_get d ''high'', dict_get d ''low'']) (\<lambda>ok. if \<not> ok then Inr None
       else rbind (to_num (dict_get d ''timestamp_ms'')) (\<lambda>ts. rbind (to_num (dict_get d ''high'')) (\<lambda>hi.
         rbind (to_num (dict_get d ''low'')) (\<lambda>lo. Inr (Some (ts, hi, lo))))))
   | _ \<Rightarrow> Inr None)"

definition hits_target :: "bool \<Rightarrow> pyfloat \<Rightarrow> pynum \<Rightarrow> pynum \<Rightarrow> bool" where
  "hits_target buy tp hi lo \<longleftrightarrow> (if buy then num_le (NF tp) hi else num_le lo (NF tp))"

definition hits_stop :: "bool \<Rightarrow> pyfloat \<Rightarrow> pynum \<Rightarrow> pynum \<Rightarrow> bool" where
  "hits_stop buy sl hi lo \<longleftrightarrow> (if buy then num_le lo (NF sl) else num_le (NF sl) hi)"

definition seconds_of :: "pynum \<Rightarrow> pyval res" where
  "seconds_of ts = rbind (num_div ts (NF (Fin 1000))) (\<lambda>q. Inr (num_to_val q))"

text \<open>
  The candles in the order they come: the first that touches a level decides, for the stop when it
  touches both. Without one, the time of the last usable candle.
\<close>

fun walk_candles :: "bool \<Rightarrow> pyfloat \<Rightarrow> pyfloat \<Rightarrow> pyfloat \<Rightarrow> pyfloat \<Rightarrow> pynum option \<Rightarrow> pyval list \<Rightarrow> (score_update + pynum option) res" where
  "walk_candles buy sl tp rr created_ms seen [] = Inr (Inr seen)"
| "walk_candles buy sl tp rr created_ms seen (c # cs) = rbind (scoring_candle c) (\<lambda>u. case u of
     None \<Rightarrow> walk_candles buy sl tp rr created_ms seen cs
   | Some (ts, hi, lo) \<Rightarrow> if num_le ts (NF created_ms) then walk_candles buy sl tp rr created_ms seen cs
     else if hits_stop buy sl hi lo then rbind (seconds_of ts) (\<lambda>tm. Inr (Inl \<lparr>su_status = ''loss'', su_outcome_price = PFloat sl,
         su_outcome_at = tm, su_r_multiple = PFloat (Fin (- 1)), su_exit_breakdown = None\<rparr>))
     else if hits_target buy tp hi lo then rbind (seconds_of ts) (\<lambda>tm. Inr (Inl \<lparr>su_status = ''win'', su_outcome_price = PFloat tp,
         su_outcome_at = tm, su_r_multiple = PFloat (round4 rr), su_exit_breakdown = None\<rparr>))
     else walk_candles buy sl tp rr created_ms (Some ts) cs)"

definition expired :: "pyfloat \<Rightarrow> pyfloat \<Rightarrow> pyfloat \<Rightarrow> pynum option \<Rightarrow> pyval option \<Rightarrow> score_update option res" where
  "expired expiry now created seen breakdown = (case seen of
     Some ts \<Rightarrow> if flt expiry (fsub now created) then rbind (seconds_of ts) (\<lambda>tm. Inr (Some \<lparr>su_status = ''expired'',
         su_outcome_price = PNone, su_outcome_at = tm, su_r_multiple = PNone, su_exit_breakdown = breakdown\<rparr>)) else Inr None
   | None \<Rightarrow> Inr None)"

definition stored_float :: "pyval \<Rightarrow> pyfloat option" where
  "stored_float v = (case v of PFloat f \<Rightarrow> if isfinite f then Some f else None | _ \<Rightarrow> None)"

definition score_bracket :: "pyfloat \<Rightarrow> pyfloat \<Rightarrow> trade_row \<Rightarrow> pyval list \<Rightarrow> score_update option res" where
  "score_bracket expiry now row candles =
     (case (stored_float (tr_entry row), stored_float (tr_stop_loss row), stored_float (tr_take_profit row), stored_float (tr_created_at row)) of
        (Some e, Some sl, Some tp, Some created) \<Rightarrow> (let risk = fabs (fsub e sl) in
          if fle risk (Fin 0) then Inr None
          else rbind (fdiv (fabs (fsub tp e)) risk) (\<lambda>rr.
            rbind (walk_candles (py_upper (tr_action row) = ''BUY'') sl tp rr (fmul created (Fin 1000)) None candles) (\<lambda>r. case r of
              Inl upd \<Rightarrow> Inr (Some upd) | Inr seen \<Rightarrow> expired expiry now created seen None)))
      | _ \<Rightarrow> Inr None)"

text \<open>A managed trade: the candles after its entry go to the simulator of the trade manager.\<close>

definition after_entry :: "pyfloat \<Rightarrow> pyval \<Rightarrow> bool res" where
  "after_entry created_ms c = (case c of
     PDict d \<Rightarrow> rbind (finite_number (dict_get d ''timestamp_ms'')) (\<lambda>fin. if \<not> fin then Inr False
       else rbind (to_num (dict_get d ''timestamp_ms'')) (\<lambda>ts. Inr (num_lt (NF created_ms) ts)))
   | _ \<Rightarrow> Inr False)"

fun rfilter :: "('a \<Rightarrow> bool res) \<Rightarrow> 'a list \<Rightarrow> 'a list res" where
  "rfilter p [] = Inr []"
| "rfilter p (x # xs) = rbind (p x) (\<lambda>b. rbind (rfilter p xs) (\<lambda>ys. Inr (if b then x # ys else ys)))"

fun kind_text :: "fill_kind \<Rightarrow> string" where
  "kind_text K_target = ''target''"
| "kind_text K_stop = ''stop''"
| "kind_text K_breakeven_stop = ''breakeven-stop''"
| "kind_text K_trail_stop = ''trail-stop''"

fun status_text :: "sim_status \<Rightarrow> string" where
  "status_text Resolved = ''resolved''"
| "status_text Open = ''open''"
| "status_text Invalid = ''invalid''"

definition breakdown_of :: "simulation_result \<Rightarrow> pyval" where
  "breakdown_of r = PDict [(''status'', PStr (status_text (res_status r))),
     (''realized_r'', case res_realized_r r of None \<Rightarrow> PNone | Some x \<Rightarrow> PFloat x),
     (''fills'', PList (map (\<lambda>f. PDict [(''index'', PInt (fill_index f)), (''price'', PFloat (fill_price f)),
        (''fraction'', num_to_val (fill_fraction f)), (''leg_r'', PFloat (leg_r f)), (''timestamp_ms'', PInt (fill_timestamp_ms f)),
        (''kind'', PStr (kind_text (fill_kind f)))]) (res_fills r))),
     (''residual_fraction'', PFloat (res_residual_fraction r)),
     (''breakeven_moved_at'', case res_breakeven_moved_at r of None \<Rightarrow> PNone | Some n \<Rightarrow> PInt n), (''trailed'', PBool (res_trailed r))]"

definition last_time :: "pyval list \<Rightarrow> pynum option" where
  "last_time cs = (case rev cs of [] \<Rightarrow> None | c # _ \<Rightarrow> (case c of
     PDict d \<Rightarrow> (case to_num (dict_get d ''timestamp_ms'') of Inr ts \<Rightarrow> Some ts | Inl _ \<Rightarrow> None) | _ \<Rightarrow> None))"

definition managed_outcome :: "simulation_result \<Rightarrow> pyfloat \<Rightarrow> score_update res" where
  "managed_outcome r realized = rbind (case rev (res_fills r) of
       [] \<Rightarrow> Inr (PNone, PNone)
     | f # _ \<Rightarrow> rbind (seconds_of (NI (fill_timestamp_ms f))) (\<lambda>tm. Inr (if isfinite (fill_price f) then PFloat (fill_price f) else PNone, tm)))
     (\<lambda>(price, tm). Inr \<lparr>su_status = (if flt (Fin 0) realized then ''win'' else ''loss''), su_outcome_price = price, su_outcome_at = tm,
        su_r_multiple = PFloat (round4 realized), su_exit_breakdown = Some (breakdown_of r)\<rparr>)"

definition score_managed :: "pyfloat \<Rightarrow> pyfloat \<Rightarrow> trade_row \<Rightarrow> pyval list \<Rightarrow> pyval \<Rightarrow> score_update option" where
  "score_managed expiry now row candles payload = (case plan_from_payload payload of
     None \<Rightarrow> None
   | Some plan \<Rightarrow> (case stored_float (tr_created_at row) of
       None \<Rightarrow> None
     | Some created \<Rightarrow> (case rbind (rfilter (after_entry (fmul created (Fin 1000))) candles) (\<lambda>subsequent.
         let r = simulate_plan plan subsequent in
         case (res_status r, res_realized_r r) of
           (Resolved, Some realized) \<Rightarrow> if isfinite realized then rbind (managed_outcome r realized) (\<lambda>u. Inr (Some u))
             else expired expiry now created (last_time subsequent) (Some (breakdown_of r))
         | _ \<Rightarrow> expired expiry now created (last_time subsequent) (Some (breakdown_of r)))
         of Inl _ \<Rightarrow> None | Inr u \<Rightarrow> u)))"

definition score_one :: "pyfloat \<Rightarrow> pyfloat \<Rightarrow> trade_row \<Rightarrow> pyval list \<Rightarrow> score_update option res" where
  "score_one expiry now row candles = (case tr_management_plan row of
     Some payload \<Rightarrow> Inr (score_managed expiry now row candles payload)
   | None \<Rightarrow> score_bracket expiry now row candles)"

text \<open>The market of a row: rows without one are not scored.\<close>

type_synonym candle_source = "string \<Rightarrow> string \<Rightarrow> pyval list"

definition market_of :: "trade_row \<Rightarrow> (string \<times> string) option" where
  "market_of r = (case (tr_symbol r, tr_timeframe r) of (Some s, Some t) \<Rightarrow> if s = [] \<or> t = [] then None else Some (s, t) | _ \<Rightarrow> None)"

definition open_rows :: "string option \<Rightarrow> journal_table \<Rightarrow> trade_row list" where
  "open_rows symbol jt = filter (\<lambda>r. tr_status r = ''open'' \<and> (case symbol of Some (c # cs) \<Rightarrow> tr_symbol r = Some (c # cs) | _ \<Rightarrow> True)) (jt_rows jt)"

definition apply_score :: "pyfloat \<Rightarrow> int \<Rightarrow> score_update \<Rightarrow> trade_row \<Rightarrow> trade_row" where
  "apply_score now i u r = (if tr_id r = i then r\<lparr>tr_status := su_status u, tr_outcome_price := su_outcome_price u,
     tr_outcome_at := su_outcome_at u, tr_r_multiple := su_r_multiple u, tr_exit_breakdown := su_exit_breakdown u,
     tr_scored_at := PFloat now\<rparr> else r)"

text \<open>
  Of one market after the other, in the order of their first rows. An exception ends the pass: what was
  written so far is rolled back, the number of resolved trades is returned all the same.
\<close>

definition by_market :: "trade_row list \<Rightarrow> trade_row list" where
  "by_market rows = (let market = (\<lambda>r. (tr_symbol r, tr_timeframe r)) in
     concat (map (\<lambda>m. filter (\<lambda>r. market r = m) rows) (rev (remdups (rev (map market rows))))))"

definition score_row :: "pyfloat \<Rightarrow> pyfloat \<Rightarrow> candle_source \<Rightarrow> trade_row \<Rightarrow> score_update option res" where
  "score_row expiry now fetch r = (case market_of r of
     None \<Rightarrow> Inr None
   | Some (s, t) \<Rightarrow> if fetch s t = [] then Inr None else score_one expiry now r (fetch s t))"

fun score_rows :: "pyfloat \<Rightarrow> pyfloat \<Rightarrow> candle_source \<Rightarrow> trade_row list \<Rightarrow> trade_row list \<times> int \<Rightarrow> trade_row list option \<times> int" where
  "score_rows expiry now fetch [] (rows, n) = (Some rows, n)"
| "score_rows expiry now fetch (r # rs) (rows, n) = (case score_row expiry now fetch r of
     Inl _ \<Rightarrow> (None, n)
   | Inr None \<Rightarrow> score_rows expiry now fetch rs (rows, n)
   | Inr (Some u) \<Rightarrow> score_rows expiry now fetch rs (map (apply_score now (tr_id r) u) rows, n + 1))"

definition score_open_trades :: "pyfloat \<Rightarrow> pyfloat \<Rightarrow> candle_source \<Rightarrow> string option \<Rightarrow> journal_table \<Rightarrow> journal_table \<times> int" where
  "score_open_trades expiry now fetch symbol jt =
     (case score_rows expiry now fetch (by_market (open_rows symbol jt)) (jt_rows jt, 0) of
        (None, n) \<Rightarrow> (jt, n) | (Some rows, n) \<Rightarrow> (jt\<lparr>jt_rows := rows\<rparr>, n))"

subsection \<open>Statistics\<close>

record trade_stats =
  ts_scored :: int
  ts_wins :: int
  ts_losses :: int
  ts_open :: int
  ts_expired :: int
  ts_win_rate :: "pyfloat option"
  ts_expectancy_r :: "pyfloat option"

definition status_count :: "string \<Rightarrow> trade_row list \<Rightarrow> int" where
  "status_count s rows = int (length (filter (\<lambda>r. tr_status r = s) rows))"

definition scored_results :: "trade_row list \<Rightarrow> pyfloat list" where
  "scored_results rows = List.map_filter (\<lambda>r. if tr_status r = ''win'' \<or> tr_status r = ''loss'' then stored_float (tr_r_multiple r) else None) rows"

definition mean4 :: "pyfloat \<Rightarrow> int \<Rightarrow> pyfloat option res" where
  "mean4 s n = (if n = 0 then Inr None else rbind (float_of_int n) (\<lambda>f. rbind (fdiv s f) (\<lambda>q. Inr (Some (round4 q)))))"

definition win_share :: "int \<Rightarrow> int \<Rightarrow> pyfloat option" where
  "win_share wins n = (if n = 0 then None else Some (round4 (fl (of_int wins / of_int n))))"

definition aggregate :: "trade_row list \<Rightarrow> trade_stats res" where
  "aggregate rows = (let wins = status_count ''win'' rows; losses = status_count ''loss'' rows; rs = scored_results rows in
     rbind (mean4 (py_sum rs) (int (length rs))) (\<lambda>e. Inr
       \<lparr>ts_scored = wins + losses, ts_wins = wins, ts_losses = losses, ts_open = status_count ''open'' rows,
        ts_expired = status_count ''expired'' rows, ts_win_rate = win_share wins (wins + losses), ts_expectancy_r = e\<rparr>))"

definition given :: "string option \<Rightarrow> string option" where
  "given v = (case v of Some (c # cs) \<Rightarrow> v | _ \<Rightarrow> None)"

definition stat_rows :: "string option \<Rightarrow> string option \<Rightarrow> journal_table \<Rightarrow> trade_row list" where
  "stat_rows symbol source jt = filter (\<lambda>r. (given symbol = None \<or> tr_symbol r = given symbol) \<and> (given source = None \<or> tr_source r = given source))
     (jt_rows jt)"

definition group_key :: "trade_row \<Rightarrow> string" where
  "group_key r = (if tr_setup_key r = [] then ''unknown'' else tr_setup_key r)"

definition group_rows :: "trade_row list \<Rightarrow> (string \<times> trade_row list) list" where
  "group_rows rows = foldl (\<lambda>gs r. (case map_of gs (group_key r) of
       None \<Rightarrow> gs @ [(group_key r, [r])]
     | Some _ \<Rightarrow> map (\<lambda>(k, g). (k, if k = group_key r then g @ [r] else g)) gs)) []
     (filter (\<lambda>r. py_upper (tr_action r) \<in> {''BUY'', ''SELL''}) rows)"

record setup_stats =
  ss_key :: string
  ss_stats :: trade_stats
  ss_low_sample :: bool

record journal_stats =
  js_overall :: trade_stats
  js_by_setup :: "setup_stats list"
  js_low_sample :: bool
  js_setup_match :: "setup_stats option"

text \<open>\<open>sort(reverse=True)\<close> is stable: equal keys keep their order.\<close>

definition most_traded :: "setup_stats list \<Rightarrow> setup_stats list" where
  "most_traded gs = sort_key (\<lambda>g. (- ts_scored (ss_stats g), - (ts_wins (ss_stats g) + ts_losses (ss_stats g) + ts_open (ss_stats g)))) gs"

text \<open>The statistics after scoring what is open; \<open>None\<close> is the object flagged unavailable.\<close>

definition get_stats ::
    "int \<Rightarrow> pyfloat \<Rightarrow> pyfloat \<Rightarrow> candle_source \<Rightarrow> string option \<Rightarrow> string option \<Rightarrow> string option \<Rightarrow> journal_table \<Rightarrow> journal_table \<times> journal_stats option" where
  "get_stats threshold expiry now fetch symbol key source jt =
     (let jt1 = fst (score_open_trades expiry now fetch symbol jt); rows = stat_rows symbol source jt1 in
      case rbind (aggregate rows) (\<lambda>overall.
        rbind (rmap (\<lambda>(k, g). rbind (aggregate g) (\<lambda>a. Inr \<lparr>ss_key = k, ss_stats = a, ss_low_sample = ts_scored a < threshold\<rparr>)) (group_rows rows)) (\<lambda>gs. Inr
          \<lparr>js_overall = overall, js_by_setup = most_traded gs, js_low_sample = ts_scored overall < threshold,
           js_setup_match = (case key of None \<Rightarrow> None | Some k \<Rightarrow> find (\<lambda>g. ss_key g = k) (most_traded gs))\<rparr>))
      of Inl _ \<Rightarrow> (jt1, None) | Inr s \<Rightarrow> (jt1, Some s))"

subsection \<open>Deletion\<close>

definition purge :: "string option \<Rightarrow> string option \<Rightarrow> journal_table \<Rightarrow> journal_table \<times> int" where
  "purge source symbol jt = (let kept = filter (\<lambda>r. \<not> ((given symbol = None \<or> tr_symbol r = given symbol) \<and> (given source = None \<or> tr_source r = given source)))
       (jt_rows jt) in (jt\<lparr>jt_rows := kept\<rparr>, int (length (jt_rows jt)) - int (length kept)))"

text \<open>The whole seconds of the creation, and the key that rows without a thread are compared by.\<close>

definition whole_seconds :: "pyval \<Rightarrow> int" where
  "whole_seconds v = (case v of PFloat (Fin q) \<Rightarrow> if 0 \<le> q then \<lfloor>q\<rfloor> else \<lceil>q\<rceil> | _ \<Rightarrow> 0)"

definition text_or_empty :: "string option \<Rightarrow> string" where
  "text_or_empty v = (case v of None \<Rightarrow> [] | Some s \<Rightarrow> s)"

type_synonym row_identity = "string + string \<times> string \<times> string \<times> string \<times> int"

definition row_identity :: "trade_row \<Rightarrow> row_identity" where
  "row_identity r = (case tr_thread_id r of
     Some t \<Rightarrow> Inl t
   | None \<Rightarrow> Inr (text_or_empty (tr_symbol r), text_or_empty (tr_timeframe r), tr_action r, tr_setup_key r, whole_seconds (tr_created_at r)))"

definition dedupe_thread_rows :: "journal_table \<Rightarrow> journal_table \<times> int" where
  "dedupe_thread_rows jt = (let kept = filter (\<lambda>r. \<forall>r'\<in>set (jt_rows jt). row_identity r' = row_identity r \<longrightarrow> tr_id r \<le> tr_id r') (jt_rows jt)
     in (jt\<lparr>jt_rows := kept\<rparr>, int (length (jt_rows jt)) - int (length kept)))"

end
