(* ===== verification/Attribution.thy ===== *)
theory Attribution
  imports Fingerprint
begin

text \<open>
  \<open>attribution.py\<close>: which dimensions of the fingerprint separate realized results. Scored rows are
  counted by dimension and value, the spread of the mean result over the values is the contribution
  of a dimension, and from it follow a ranking, a recommendation and a weight. Rows are any values, as
  they come from the journal; between the stages the dicts are the records below, with the keys in the
  order of their first appearance.
\<close>

subsection \<open>Configuration\<close>

definition DEFAULT_MIN_SAMPLE_DIMENSION :: int where "DEFAULT_MIN_SAMPLE_DIMENSION = 30"
definition DEFAULT_MIN_SAMPLE_VALUE :: int where "DEFAULT_MIN_SAMPLE_VALUE = 10"
definition DEFAULT_CONTRIBUTION_THRESHOLD :: pyfloat where "DEFAULT_CONTRIBUTION_THRESHOLD = fl (15 / 100)"
definition DEFAULT_GLOBAL_MIN_SCORED :: int where "DEFAULT_GLOBAL_MIN_SCORED = 50"
definition DEFAULT_DOWN_WEIGHT_FACTOR :: pyfloat where "DEFAULT_DOWN_WEIGHT_FACTOR = fl (5 / 10)"
definition DEFAULT_WEIGHT_MAP_ENABLED :: bool where "DEFAULT_WEIGHT_MAP_ENABLED = False"

record attribution_config =
  ac_min_sample_dimension :: int
  ac_min_sample_value :: int
  ac_contribution_threshold :: pyfloat
  ac_global_min_scored :: int
  ac_down_weight_factor :: pyfloat
  ac_weight_map_enabled :: bool

definition flag_token :: "string \<Rightarrow> bool option" where
  "flag_token t = (if py_lower t \<in> {''1'', ''true'', ''yes'', ''on''} then Some True
     else if py_lower t \<in> {''0'', ''false'', ''no'', ''off''} then Some False else None)"

definition resolve_flag :: "env \<Rightarrow> string \<Rightarrow> bool \<Rightarrow> bool" where
  "resolve_flag env name dflt = (case env name of None \<Rightarrow> dflt
     | Some raw \<Rightarrow> if py_strip raw = [] then dflt
         else case flag_token (py_strip raw) of None \<Rightarrow> dflt | Some b \<Rightarrow> b)"

text \<open>The threshold has no upper end; a factor of zero reverts to its default.\<close>

definition resolve_attribution_config :: "env \<Rightarrow> attribution_config" where
  "resolve_attribution_config env = (let factor = resolve_float env ''ATTRIBUTION_DOWN_WEIGHT_FACTOR'' DEFAULT_DOWN_WEIGHT_FACTOR (Fin 0) (Fin 1) in
     \<lparr>ac_min_sample_dimension = resolve_int env ''ATTRIBUTION_MIN_SAMPLE_DIMENSION'' DEFAULT_MIN_SAMPLE_DIMENSION 1,
      ac_min_sample_value = resolve_int env ''ATTRIBUTION_MIN_SAMPLE_VALUE'' DEFAULT_MIN_SAMPLE_VALUE 1,
      ac_contribution_threshold = resolve_float env ''ATTRIBUTION_CONTRIBUTION_THRESHOLD'' DEFAULT_CONTRIBUTION_THRESHOLD (Fin 0) PInf,
      ac_global_min_scored = resolve_int env ''ATTRIBUTION_GLOBAL_MIN_SCORED'' DEFAULT_GLOBAL_MIN_SCORED 1,
      ac_down_weight_factor = (if fle factor (Fin 0) then DEFAULT_DOWN_WEIGHT_FACTOR else factor),
      ac_weight_map_enabled = resolve_flag env ''ATTRIBUTION_WEIGHT_MAP_ENABLED'' DEFAULT_WEIGHT_MAP_ENABLED\<rparr>)"

subsection \<open>Scored trades\<close>

definition BACKTEST_SOURCE :: string where "BACKTEST_SOURCE = ''backtest''"

definition word_of :: "pyval \<Rightarrow> string" where
  "word_of v = (if py_truthy v then py_lower (py_strip (py_str v)) else [])"

text \<open>Every exception of the test counts as no.\<close>

definition is_scored_trade :: "pyval \<Rightarrow> bool" where
  "is_scored_trade row \<longleftrightarrow> (case row of
     PDict d \<Rightarrow> word_of (dict_get d ''status'') \<in> {''win'', ''loss''} \<and> finite_number (dict_get d ''r_multiple'') = Inr True
   | _ \<Rightarrow> False)"

definition is_backtest_source :: "pyval \<Rightarrow> bool" where
  "is_backtest_source row \<longleftrightarrow> (case row of PDict d \<Rightarrow> word_of (dict_get d ''source'') = BACKTEST_SOURCE | _ \<Rightarrow> False)"

subsection \<open>Statistics of a dimension's values\<close>

record bucket =
  bk_wins :: int
  bk_losses :: int
  bk_r_sum :: pyfloat
  bk_backtest :: int
  bk_live :: int

definition empty_bucket :: bucket where
  "empty_bucket = \<lparr>bk_wins = 0, bk_losses = 0, bk_r_sum = Fin 0, bk_backtest = 0, bk_live = 0\<rparr>"

record dimension_stats =
  ds_value :: string
  ds_count :: int
  ds_wins :: int
  ds_losses :: int
  ds_win_rate :: "pyfloat option"
  ds_expectancy_r :: "pyfloat option"
  ds_weak_prior :: bool
  ds_backtest_count :: int
  ds_live_count :: int

definition add_outcome :: "bool \<Rightarrow> pyfloat \<Rightarrow> bool \<Rightarrow> bucket \<Rightarrow> bucket" where
  "add_outcome win r backtest b = b\<lparr>bk_wins := bk_wins b + (if win then 1 else 0), bk_losses := bk_losses b + (if win then 0 else 1),
     bk_r_sum := fadd (bk_r_sum b) r, bk_backtest := bk_backtest b + (if backtest then 1 else 0),
     bk_live := bk_live b + (if backtest then 0 else 1)\<rparr>"

text \<open>\<open>d.setdefault(k, new)\<close> followed by an update of the value.\<close>

fun update_at :: "'a \<Rightarrow> ('a \<Rightarrow> 'a) \<Rightarrow> string \<Rightarrow> (string \<times> 'a) list \<Rightarrow> (string \<times> 'a) list" where
  "update_at new f k [] = [(k, f new)]"
| "update_at new f k ((k', v) # d) = (if k' = k then (k', f v) # d else (k', v) # update_at new f k d)"

type_synonym tallies = "(string \<times> (string \<times> bucket) list) list"

definition tally_row :: "tallies \<Rightarrow> pyval \<Rightarrow> tallies" where
  "tally_row acc row = (case row of
     PDict d \<Rightarrow> if \<not> is_scored_trade row then acc
       else (case as_float (dict_get d ''r_multiple'') of Inl _ \<Rightarrow> acc
         | Inr r \<Rightarrow> foldl (\<lambda>a (dim, v). update_at [] (update_at empty_bucket
               (add_outcome (word_of (dict_get d ''status'') = ''win'') r (is_backtest_source row)) v) dim a)
             acc (parse_setup_key (dict_get d ''setup_key'')))
   | _ \<Rightarrow> acc)"

text \<open>\<open>round(a / n, 4)\<close> for a count that is not zero; a count outside the float range raises.\<close>

definition rounded_share :: "pynum \<Rightarrow> int \<Rightarrow> pyfloat option res" where
  "rounded_share a n = (if n = 0 then Inr None
     else rbind (num_div a (NI n)) (\<lambda>q. case q of NF f \<Rightarrow> Inr (Some (round4 f)) | NI m \<Rightarrow> Inl TypeError))"

definition stats_of :: "attribution_config \<Rightarrow> string \<Rightarrow> bucket \<Rightarrow> dimension_stats res" where
  "stats_of cfg value b = (let n = bk_wins b + bk_losses b in
     rbind (rounded_share (NI (bk_wins b)) n) (\<lambda>rate. rbind (rounded_share (NF (bk_r_sum b)) n) (\<lambda>expectancy. Inr
       \<lparr>ds_value = value, ds_count = n, ds_wins = bk_wins b, ds_losses = bk_losses b, ds_win_rate = rate,
        ds_expectancy_r = expectancy, ds_weak_prior = n < ac_min_sample_value cfg, ds_backtest_count = bk_backtest b,
        ds_live_count = bk_live b\<rparr>)))"

type_synonym value_stats = "(string \<times> dimension_stats) list"

definition compute_dimension_stats :: "attribution_config \<Rightarrow> pyval list \<Rightarrow> (string \<times> value_stats) list res" where
  "compute_dimension_stats cfg rows =
     rmap (\<lambda>(dim, bs). rbind (rmap (\<lambda>(v, b). rbind (stats_of cfg v b) (\<lambda>s. Inr (v, s))) bs) (\<lambda>vs. Inr (dim, vs)))
       (foldl tally_row [] rows)"

subsection \<open>Contribution\<close>

text \<open>
  \<open>math.sqrt\<close>, correctly rounded: the integer square root of \<open>q\<close> scaled so that it has at least 54 more
  bits than the exponent needs, with a sticky half when it is not exact.
\<close>

fun sqrt_bits :: "nat \<Rightarrow> int \<Rightarrow> int \<Rightarrow> int" where
  "sqrt_bits 0 n r = r"
| "sqrt_bits (Suc b) n r = sqrt_bits b n (if (r + 2 ^ b) * (r + 2 ^ b) \<le> n then r + 2 ^ b else r)"

definition isqrt :: "int \<Rightarrow> int" where
  "isqrt n = sqrt_bits (nat (flog2 (of_int n)) div 2 + 1) n 0"

definition fsqrt :: "pyfloat \<Rightarrow> pyfloat res" where
  "fsqrt f = (case f of
     Fin q \<Rightarrow> if q < 0 then Inl ValueError else if q = 0 then Inr (Fin 0)
       else (let k = 60 - flog2 q div 2; x = q * 4 powi k; s = isqrt \<lfloor>x\<rfloor>;
                 sticky = (if of_int (s * s) = x then 0 else 1 / 2)
             in Inr (fl ((of_int s + sticky) / 2 powi k)))
   | NInf \<Rightarrow> Inl ValueError | _ \<Rightarrow> Inr f)"

text \<open>\<open>x ** 2\<close>: the square of a finite number beyond the float range raises; inside, correctly rounded.\<close>

definition fsquare :: "pyfloat \<Rightarrow> pyfloat res" where
  "fsquare x = (if isfinite x \<and> \<not> isfinite (fmul x x) then Inl OverflowError else Inr (fmul x x))"

definition usable_means :: "value_stats \<Rightarrow> (int \<times> pyfloat) list" where
  "usable_means vs = List.map_filter (\<lambda>(v, s). case ds_expectancy_r s of
     Some m \<Rightarrow> if 0 < ds_count s \<and> isfinite m then Some (ds_count s, m) else None | None \<Rightarrow> None) vs"

definition weighted_mean :: "(int \<times> pyfloat) list \<Rightarrow> int \<Rightarrow> pyfloat res" where
  "weighted_mean terms tot = rbind (rmap (\<lambda>(n, x). rbind (float_of_int n) (\<lambda>f. Inr (fmul f x))) terms) (\<lambda>ws.
     rbind (float_of_int tot) (\<lambda>t. fdiv (py_sum ws) t))"

definition compute_contribution :: "attribution_config \<Rightarrow> value_stats \<Rightarrow> pyfloat option res" where
  "compute_contribution cfg vs = (let w = usable_means vs; tot = sum_list (map fst w) in
     if tot \<le> 0 \<or> tot < ac_min_sample_dimension cfg then Inr None
     else rbind (weighted_mean w tot) (\<lambda>mu.
       rbind (rmap (\<lambda>(n, m). rbind (fsquare (fsub m mu)) (\<lambda>sq. Inr (n, sq))) w) (\<lambda>squares.
       rbind (weighted_mean squares tot) (\<lambda>variance.
       rbind (fsqrt (if flt variance (Fin 0) then Fin 0 else variance)) (\<lambda>s. Inr (Some (round4 s)))))))"

subsection \<open>Ranking\<close>

datatype recommendation = R_keep | R_down_weight | R_insufficient_sample

fun recommendation_text :: "recommendation \<Rightarrow> string" where
  "recommendation_text R_keep = ''keep''"
| "recommendation_text R_down_weight = ''down_weight''"
| "recommendation_text R_insufficient_sample = ''insufficient_sample''"

record dimension_report =
  dr_dimension :: string
  dr_values :: "dimension_stats list"
  dr_total_scored :: int
  dr_backtest_scored :: int
  dr_live_scored :: int
  dr_contribution :: "pyfloat option"
  dr_rank :: int
  dr_recommendation :: recommendation

definition recommend :: "attribution_config \<Rightarrow> int \<Rightarrow> pyfloat option \<Rightarrow> recommendation" where
  "recommend cfg tot contribution = (if tot < ac_min_sample_dimension cfg then R_insufficient_sample
     else case contribution of None \<Rightarrow> R_insufficient_sample
       | Some c \<Rightarrow> if flt c (ac_contribution_threshold cfg) then R_down_weight else R_keep)"

definition report_dimension :: "attribution_config \<Rightarrow> string \<times> value_stats \<Rightarrow> dimension_report res" where
  "report_dimension cfg dv = (let vals = map snd (sort_key fst (snd dv)); tot = sum_list (map ds_count vals) in
     rbind (compute_contribution cfg (snd dv)) (\<lambda>c. Inr
       \<lparr>dr_dimension = fst dv, dr_values = vals, dr_total_scored = tot, dr_backtest_scored = sum_list (map ds_backtest_count vals),
        dr_live_scored = sum_list (map ds_live_count vals), dr_contribution = c, dr_rank = 0,
        dr_recommendation = recommend cfg tot c\<rparr>))"

text \<open>Meaningful contributions first, the larger before the smaller, then by name.\<close>

definition rank_key :: "dimension_report \<Rightarrow> nat \<times> pyfloat \<times> string" where
  "rank_key e = (case dr_contribution e of Some c \<Rightarrow> (0, fneg c, dr_dimension e) | None \<Rightarrow> (1, Fin 0, dr_dimension e))"

definition number_ranks :: "dimension_report list \<Rightarrow> dimension_report list" where
  "number_ranks es = map (\<lambda>(i, e). e\<lparr>dr_rank := int i\<rparr>) (enumerate 1 es)"

definition rank_and_recommend :: "attribution_config \<Rightarrow> (string \<times> value_stats) list \<Rightarrow> dimension_report list res" where
  "rank_and_recommend cfg stats = rbind (rmap (report_dimension cfg) stats) (\<lambda>es. Inr (number_ranks (sort_key rank_key es)))"

subsection \<open>The report and its weights\<close>

record attribution_report =
  ar_dimensions :: "dimension_report list"
  ar_total_scored :: int
  ar_backtest_scored :: int
  ar_live_scored :: int
  ar_config :: attribution_config
  ar_weak_prior :: bool
  ar_insufficient_data :: bool

definition build_attribution_report :: "attribution_config \<Rightarrow> pyval list \<Rightarrow> attribution_report res" where
  "build_attribution_report cfg rows = (let scored = filter is_scored_trade rows; tot = int (length scored) in
     rbind (if tot = 0 then Inr [] else rbind (compute_dimension_stats cfg rows) (rank_and_recommend cfg)) (\<lambda>dims. Inr
       \<lparr>ar_dimensions = dims, ar_total_scored = tot,
        ar_backtest_scored = int (length (filter is_backtest_source scored)),
        ar_live_scored = int (length (filter (\<lambda>r. \<not> is_backtest_source r) scored)),
        ar_config = cfg, ar_weak_prior = tot < ac_global_min_scored cfg, ar_insufficient_data = (tot = 0)\<rparr>))"

definition usable_factor :: "attribution_config \<Rightarrow> pyfloat" where
  "usable_factor cfg = (let f = ac_down_weight_factor cfg in
     if \<not> isfinite f \<or> fle f (Fin 0) \<or> flt (Fin 1) f then DEFAULT_DOWN_WEIGHT_FACTOR else f)"

definition derive_weight_map :: "attribution_config \<Rightarrow> attribution_report \<Rightarrow> (string \<times> pyfloat) list" where
  "derive_weight_map cfg report = foldl (\<lambda>m e. put_value m (dr_dimension e)
      (if dr_recommendation e = R_down_weight then usable_factor cfg else Fin 1)) [] (ar_dimensions report)"

text \<open>
  The read of the journal: the rows of a symbol, of one kind of source, which SQL trims of spaces only;
  \<open>None\<close> when the store cannot be
  read. \<open>attribution_report_from_journal\<close> falls back to the report of no rows then.
\<close>

definition sql_word :: "pyval \<Rightarrow> string" where
  "sql_word v = (case v of PStr s \<Rightarrow> py_lower (rev (dropWhile (\<lambda>c. c = CHR '' '') (rev (dropWhile (\<lambda>c. c = CHR '' '') s)))) | _ \<Rightarrow> [])"

definition row_selected :: "string option \<Rightarrow> string option \<Rightarrow> pyval \<Rightarrow> bool" where
  "row_selected symbol source row \<longleftrightarrow> (case row of
     PDict d \<Rightarrow> (case symbol of None \<Rightarrow> True | Some s \<Rightarrow> dict_get d ''symbol'' = PStr s)
       \<and> (case source of None \<Rightarrow> True
          | Some s \<Rightarrow> (py_lower (py_strip s) = BACKTEST_SOURCE) = (sql_word (dict_get d ''source'') = BACKTEST_SOURCE))
   | _ \<Rightarrow> False)"

definition attribution_report_from_journal ::
    "pyval list option \<Rightarrow> string option \<Rightarrow> string option \<Rightarrow> attribution_config \<Rightarrow> attribution_report res" where
  "attribution_report_from_journal table symbol source cfg =
     build_attribution_report cfg (case table of None \<Rightarrow> [] | Some rows \<Rightarrow> filter (row_selected symbol source) rows)"

definition weight_map_from_journal :: "env \<Rightarrow> pyval list option \<Rightarrow> string option \<Rightarrow> (string \<times> pyfloat) list res" where
  "weight_map_from_journal env table symbol = (let cfg = resolve_attribution_config env in
     rbind (attribution_report_from_journal table symbol None cfg) (\<lambda>report. Inr (derive_weight_map cfg report)))"

end
