(* ===== verification/Finalize.thy ===== *)
theory Finalize
  imports Evidence AgentLoop Debate Journal Attribution
begin

text \<open>
  \<open>graph.py\<close>: how a decision is completed. The record that defends it is assembled from the results in
  the history, its tier is stamped, and it is handed to the journal and to the recommendation store,
  once per thread. What these two and the table of committed threads hold is the state \<open>commit_log\<close>.
  Arguments: how a result is parsed, how levels are read from prose, \<open>json.loads\<close>, and the weights of
  the attribution pass (\<open>None\<close> when it is off, as by default).
\<close>

subsection \<open>The management of a trade\<close>

definition committed_plan :: "(string \<Rightarrow> pyval option) \<Rightarrow> pydict \<Rightarrow> string \<Rightarrow> pydict \<Rightarrow> pyval \<Rightarrow> management_plan option res" where
  "committed_plan loads decision act levels atr =
     (case (case dict_get decision ''management_plan'' of
         PStr t \<Rightarrow> (case loads t of Some v \<Rightarrow> plan_from_payload v | None \<Rightarrow> None)
       | v \<Rightarrow> coerce_management_plan v (PStr act) (dict_get levels ''entry'') (dict_get levels ''stop_loss'') atr) of
       Some plan \<Rightarrow> Inr (Some plan)
     | None \<Rightarrow> rbind (finite_number (dict_get levels ''take_profit'')) (\<lambda>fin. if \<not> fin then Inr None
         else rbind (single_target_plan (dict_get levels ''entry'') (dict_get levels ''stop_loss'') (dict_get levels ''take_profit'')) (\<lambda>p.
           Inr (Some p))))"

definition fill_dict :: "leg_fill \<Rightarrow> pydict" where
  "fill_dict f = [(''index'', PInt (fill_index f)), (''price'', PFloat (fill_price f)), (''fraction'', num_to_val (fill_fraction f)),
     (''leg_r'', PFloat (leg_r f)), (''timestamp_ms'', PInt (fill_timestamp_ms f)), (''kind'', PStr (kind_text (fill_kind f)))]"

definition simulation_fields :: "simulation_result \<Rightarrow> pydict" where
  "simulation_fields r = [(''status'', PStr (status_text (res_status r))),
     (''realized_r'', case res_realized_r r of None \<Rightarrow> PNone | Some x \<Rightarrow> PFloat x),
     (''residual_fraction'', PFloat (res_residual_fraction r)),
     (''exit_breakdown'', PList (map (\<lambda>f. PDict (fill_dict f)) (res_fills r)))]"

definition plan_fields :: "management_plan \<Rightarrow> pydict" where
  "plan_fields plan = [(''available'', PBool True), (''style'', PStr (management_style_tag (Some plan))), (''action'', plan_action plan),
     (''entry'', plan_entry plan), (''initial_stop'', plan_initial_stop plan),
     (''legs'', PList (map (\<lambda>leg. PDict [(''target'', leg_target leg), (''fraction'', leg_fraction leg)]) (plan_legs plan))),
     (''breakeven'', case plan_breakeven plan of None \<Rightarrow> PNone
        | Some b \<Rightarrow> PDict [(''price'', be_price b), (''r_multiple'', be_r_multiple b)]),
     (''trailing'', case plan_trailing plan of None \<Rightarrow> PNone
        | Some t \<Rightarrow> PDict [(''atr_multiple'', atr_multiple t), (''r_increment'', r_increment t)]),
     (''atr_14'', plan_atr_14 plan)]"

definition directional :: "string option \<Rightarrow> bool" where
  "directional act \<longleftrightarrow> act = Some ''BUY'' \<or> act = Some ''SELL''"

definition management_entry ::
    "(string \<Rightarrow> pyval option) \<Rightarrow> pydict \<Rightarrow> string option \<Rightarrow> pydict option \<Rightarrow> tool_results \<Rightarrow> pyval \<Rightarrow> pydict option res" where
  "management_entry loads decision act levels results atr = (case (act, levels) of
     (Some a, Some ls) \<Rightarrow> if \<not> directional act then Inr None
       else rbind (all_finite [dict_get ls ''entry'', dict_get ls ''stop_loss'']) (\<lambda>fin. if \<not> fin then Inr None
         else rbind (committed_plan loads decision a ls atr) (\<lambda>p. Inr (case p of None \<Rightarrow> None
           | Some plan \<Rightarrow> Some (plan_fields plan @ (case results ''get_candles'' of
               PList (c # cs) \<Rightarrow> simulation_fields (simulate_plan plan (c # cs)) | _ \<Rightarrow> [])))))
   | _ \<Rightarrow> Inr None)"

subsection \<open>The debate behind a decision\<close>

definition entry_strength :: "pydict \<Rightarrow> int option res" where
  "entry_strength e = (if dict_get e ''available'' = PBool False then Inr None
     else case dict_get e ''strength'' of
         PInt n \<Rightarrow> Inr (Some n)
       | PFloat f \<Rightarrow> rbind (int_of_float f) (\<lambda>n. Inr (Some n))
       | _ \<Rightarrow> Inr None)"

definition int_or_nothing :: "pyval \<Rightarrow> int option res" where
  "int_or_nothing v = (case v of
       PInt n \<Rightarrow> Inr (Some n)
     | PBool b \<Rightarrow> Inr (Some (if b then 1 else 0))
     | PFloat f \<Rightarrow> (case int_of_float f of Inr n \<Rightarrow> Inr (Some n) | Inl e \<Rightarrow> if e = OverflowError then Inl e else Inr None)
     | PStr s \<Rightarrow> Inr (parse_int s)
     | _ \<Rightarrow> Inr None)"

definition stance_or_absent :: "pyval \<Rightarrow> pydict" where
  "stance_or_absent v = (case v of PDict d \<Rightarrow> d | _ \<Rightarrow> [(''available'', PBool False)])"

definition int_or_word :: "string \<Rightarrow> int option \<Rightarrow> string" where
  "int_or_word w n = (case n of None \<Rightarrow> w | Some k \<Rightarrow> int_text k)"

definition debate_entry :: "pydict \<Rightarrow> string \<Rightarrow> string option \<Rightarrow> pydict option res" where
  "debate_entry decision mode act = (case dict_get decision ''_debate'' of
     PDict raw \<Rightarrow> if mode \<noteq> DEBATE_MODE then Inr None
       else let bull = stance_or_absent (dict_get raw ''bull_stance''); bear = stance_or_absent (dict_get raw ''bear_stance'');
                consensus = (case dict_get raw ''consensus'' of PStr c \<Rightarrow> if c \<in> set DEBATE_CONSENSUS_VALUES then c else ''unknown''
                             | _ \<Rightarrow> ''unknown'')
            in rbind (int_or_nothing (dict_get raw ''conviction'')) (\<lambda>conviction.
               rbind (entry_strength bull) (\<lambda>bs. rbind (entry_strength bear) (\<lambda>rs.
               let b = int_or_word ''unavailable'' bs; r = int_or_word ''unavailable'' rs in
               Inr (Some ([(''bull_stance'', PDict bull), (''bear_stance'', PDict bear), (''consensus'', PStr consensus),
                 (''conviction'', case conviction of None \<Rightarrow> PNone | Some n \<Rightarrow> PInt n),
                 (''conviction_basis'', PStr (''Consensus '' @ quoted 39 consensus @ '' with bull strength '' @ b @ '' vs bear strength '' @ r
                    @ '' set the Judge conviction to '' @ int_or_word ''n/a'' conviction @ ''.''
                    @ (if consensus = ''contested'' then '' A contested consensus attenuates conviction toward caution.'' else [])))]
                 @ (if consensus = ''contested'' \<and> directional act then [(''committed_against_contested'',
                      PStr (''COMMITTED AGAINST A CONTESTED DEBATE: the Judge committed a directional '' @ (case act of None \<Rightarrow> [] | Some a \<Rightarrow> a)
                        @ '' even though the Bull and Bear cases were comparably strong and opposed (bull strength '' @ b
                        @ '' vs bear strength '' @ r @ '', consensus=contested).''))] else []))))))
   | _ \<Rightarrow> Inr None)"

subsection \<open>The statements of the record\<close>

definition volatility_basis :: "pyfloat option \<Rightarrow> pydict option \<Rightarrow> string res" where
  "volatility_basis atr levels = (case atr of
     None \<Rightarrow> Inr ''ATR(14) unavailable from consensus; volatility basis for the stop could not be confirmed.''
   | Some a \<Rightarrow> (let floor = fmul (Fin (3 / 2)) a;
         base = ''Stop sized against ATR(14)='' @ fixed_text 4 a @ ''; risk-manager floor is 1.5x ATR = '' @ fixed_text 4 floor @ ''.''
       in case levels of None \<Rightarrow> Inr base
       | Some ls \<Rightarrow> rbind (all_finite [dict_get ls ''entry'', dict_get ls ''stop_loss'']) (\<lambda>fin. if \<not> fin then Inr base
           else rbind (level_at ls ''entry'') (\<lambda>e. rbind (level_at ls ''stop_loss'') (\<lambda>sl. let gap = fabs (fsub e sl) in
             Inr (base @ '' Actual stop distance = '' @ fixed_text 4 gap @ '' ('' @ (if fle floor gap then ''>='' else ''<'') @ '' 1.5x ATR).''))))))"

definition risk_reward_ratio :: "pydict option \<Rightarrow> pyfloat option res" where
  "risk_reward_ratio levels = (case levels of None \<Rightarrow> Inr None
   | Some ls \<Rightarrow> rbind (all_finite (map (dict_get ls) LEVEL_KEYS)) (\<lambda>fin. if \<not> fin then Inr None
       else rbind (level_at ls ''entry'') (\<lambda>e. rbind (level_at ls ''stop_loss'') (\<lambda>sl. rbind (level_at ls ''take_profit'') (\<lambda>tp.
         let risk = fabs (fsub e sl) in
         if \<not> flt (Fin 0) risk then Inr None else rbind (fdiv (fabs (fsub tp e)) risk) (\<lambda>rr. Inr (Some (round4 rr))))))))"

definition agent_dir :: "string option \<Rightarrow> string option" where
  "agent_dir act = (case act of None \<Rightarrow> None | Some a \<Rightarrow> map_of [(''BUY'', ''Up''), (''SELL'', ''Down''), (''HOLD'', ''Flat'')] a)"

definition predictive_conflict :: "(string \<times> string) option \<Rightarrow> string option \<Rightarrow> string" where
  "predictive_conflict proj dir = (case proj of
     None \<Rightarrow> ''Predictive projection unavailable; no conflict assessment possible.''
   | Some (p, src) \<Rightarrow> (case dir of Some d \<Rightarrow> if d \<noteq> ''Flat'' then
         (if p = ''Up'' \<and> d = ''Down'' \<or> p = ''Down'' \<and> d = ''Up''
          then ''CONFLICT: predictive projection is '' @ p @ '' (source: '' @ src @ '') but the trade bias is '' @ d @ ''.''
          else ''No predictive conflict: projection '' @ p @ '' aligns with trade bias '' @ d @ '' (source: '' @ src @ '').'')
         else ''Predictive projection is '' @ p @ '' (source: '' @ src @ ''); no directional trade bias to compare.''
       | None \<Rightarrow> ''Predictive projection is '' @ p @ '' (source: '' @ src @ ''); no directional trade bias to compare.''))"

definition macro_conflict :: "string option \<Rightarrow> string option \<Rightarrow> string" where
  "macro_conflict bias_raw act = (let raw = (case bias_raw of None \<Rightarrow> [] | Some t \<Rightarrow> t); a = (case act of None \<Rightarrow> [] | Some t \<Rightarrow> t);
       sign = bias_sign bias_raw; dir = agent_dir act in
     if sign \<in> {Some ''Bullish'', Some ''Bearish''} \<and> dir \<in> {Some ''Up'', Some ''Down''} then
       (if dir = Some ''Up'' \<and> sign = Some ''Bearish'' \<or> dir = Some ''Down'' \<and> sign = Some ''Bullish''
        then ''MACRO CONFLICT: '' @ a @ '' opposes the 1D trend bias ('' @ raw @ '').''
        else ''Aligned with the 1D trend bias ('' @ raw @ '').'')
     else if raw \<noteq> [] then ''1D trend bias is '' @ raw @ ''; trade direction is '' @ (if a = [] then ''n/a'' else a) @ ''.''
     else ''1D trend bias unavailable; macro-trend alignment could not be assessed.'')"

text \<open>An entry of an available label that a directional decision goes against gets a statement of it.\<close>

definition opposed :: "string option \<Rightarrow> string \<Rightarrow> string \<Rightarrow> string \<Rightarrow> (string \<Rightarrow> pydict \<Rightarrow> string) \<Rightarrow> pydict \<Rightarrow> pydict" where
  "opposed act k bad mark statement e = (case act of
     Some a \<Rightarrow> if dict_get e ''available'' = PBool True \<and> dict_get e k = PStr bad \<and> directional act
       then dict_put e mark (PStr (statement a e)) else e
   | None \<Rightarrow> e)"

definition shown :: "pydict \<Rightarrow> string \<Rightarrow> string" where
  "shown e k = py_str (dict_get e k)"

definition regime_opposition :: "string \<Rightarrow> pydict \<Rightarrow> string" where
  "regime_opposition a e = ''REGIME CONFLICT: the committed '' @ a @ '' trade opposes the regime assessment (favorability=unfavorable, trend_state=''
     @ shown e ''trend_state'' @ '', volatility_state='' @ shown e ''volatility_state'' @ '').''"

definition strength_opposition :: "string \<Rightarrow> pydict \<Rightarrow> string" where
  "strength_opposition a e = ''RELATIVE STRENGTH CONFLICT: the committed '' @ a @ '' trade fights the index or trades a laggard against its benchmark (''
     @ shown e ''benchmark'' @ '') - index_direction='' @ shown e ''index_direction'' @ '', relative_strength_state=''
     @ shown e ''relative_strength_state'' @ '', alignment=misaligned.''"

definition forecast_opposition :: "string \<Rightarrow> pydict \<Rightarrow> string" where
  "forecast_opposition a e = ''FORECAST CONFLICT: the committed '' @ a @ '' trade opposes the forecast (projected_direction=''
     @ shown e ''projected_direction'' @ '', up_probability='' @ shown e ''up_probability'' @ '', forecast_alignment=misaligned).''"

definition session_opposition :: "string \<Rightarrow> pydict \<Rightarrow> string" where
  "session_opposition a e = ''UNFAVORABLE TIME WINDOW: the committed '' @ a @ '' trade is taken in an unfavorable time window (session_phase=''
     @ shown e ''session_phase'' @ '', is_expiry_day='' @ shown (as_dict (dict_get e ''expiry_context'')) ''is_expiry_day''
     @ '', time_favorability=unfavorable).''"

definition options_opposition :: "string \<Rightarrow> pydict \<Rightarrow> string" where
  "options_opposition a e = ''OPTIONS CONFLICT: the committed '' @ a @ '' trade fights the prevailing options positioning (options_bias_state=''
     @ shown e ''options_bias_state'' @ '', alignment=misaligned, chain_context='' @ shown e ''chain_context'' @ '').''"

definition event_opposition :: "string \<Rightarrow> pydict \<Rightarrow> string" where
  "event_opposition a e = ''EVENT RISK: the committed '' @ a @ '' trade is held THROUGH a scheduled event (event_risk=through_event, event_date=''
     @ shown e ''event_date'' @ '', days_until_event='' @ shown e ''days_until_event'' @ '', event_recommendation=''
     @ shown e ''event_recommendation'' @ '').''"

text \<open>The six signals of the record with their statements, and their part of the summary.\<close>

definition record_signals :: "tool_results \<Rightarrow> string option \<Rightarrow> (string \<times> pydict) list res" where
  "record_signals results act = rmap (\<lambda>(name, e, f). rbind e (\<lambda>d. Inr (name, f d)))
     [(''regime'', regime_entry results, opposed act ''favorability'' ''unfavorable'' ''trade_opposes_regime'' regime_opposition),
      (''relative_strength'', relative_strength_entry results,
         opposed act ''alignment'' ''misaligned'' ''trade_opposes_relative_strength'' strength_opposition),
      (''forecast'', forecast_entry results, opposed act ''forecast_alignment'' ''misaligned'' ''trade_opposes_forecast'' forecast_opposition),
      (''session'', session_entry results, opposed act ''time_favorability'' ''unfavorable'' ''trade_in_unfavorable_window'' session_opposition),
      (''options'', options_entry results, opposed act ''alignment'' ''misaligned'' ''trade_opposes_options'' options_opposition),
      (''event'', event_entry results, opposed act ''event_risk'' ''through_event'' ''trade_held_through_event'' event_opposition)]"

definition signal_word :: "string \<Rightarrow> pydict \<Rightarrow> string" where
  "signal_word k e = (if dict_get e ''available'' = PBool True then shown e k else ''unavailable'')"

definition statement_of :: "pydict \<Rightarrow> string \<Rightarrow> string" where
  "statement_of e k = (case dict_get e k of PStr (c # cs) \<Rightarrow> '' '' @ c # cs | _ \<Rightarrow> [])"

definition signal_of :: "(string \<times> pydict) list \<Rightarrow> string \<Rightarrow> pydict" where
  "signal_of signals name = (case map_of signals name of None \<Rightarrow> [] | Some e \<Rightarrow> e)"

definition named_patterns :: "pydict list \<Rightarrow> string" where
  "named_patterns ps = (if ps = [] then ''none >0.6'' else join_with '', '' (map (\<lambda>p. shown p ''pattern_type'' @ '' (conf ''
     @ (case dict_get p ''confidence'' of PFloat f \<Rightarrow> fixed_text 2 f | _ \<Rightarrow> []) @ '')'') ps))"

definition record_summary :: "(string \<times> pydict) list \<Rightarrow> string option \<Rightarrow> pyfloat option \<Rightarrow> pydict list \<Rightarrow> string \<Rightarrow> string \<Rightarrow> string" where
  "record_summary signals bias rr patterns macro predictive = (let s = signal_of signals in
     ''Multi-TF 1D bias: '' @ (case bias of Some (c # cs) \<Rightarrow> c # cs | _ \<Rightarrow> ''n/a'') @ ''. RR: ''
     @ (case rr of None \<Rightarrow> ''n/a'' | Some f \<Rightarrow> py_str (PFloat f)) @ ''. High-confidence patterns: '' @ named_patterns patterns
     @ ''. Regime: '' @ signal_word ''favorability'' (s ''regime'') @ ''. Relative strength: '' @ signal_word ''alignment'' (s ''relative_strength'')
     @ ''. Forecast: '' @ signal_word ''forecast_alignment'' (s ''forecast'') @ ''. Session: '' @ signal_word ''time_favorability'' (s ''session'')
     @ ''. Options: '' @ signal_word ''alignment'' (s ''options'') @ ''. Event: '' @ signal_word ''event_risk'' (s ''event'') @ ''. ''
     @ macro @ '' '' @ predictive @ statement_of (s ''regime'') ''trade_opposes_regime''
     @ statement_of (s ''relative_strength'') ''trade_opposes_relative_strength'' @ statement_of (s ''forecast'') ''trade_opposes_forecast''
     @ statement_of (s ''session'') ''trade_in_unfavorable_window'' @ statement_of (s ''options'') ''trade_opposes_options''
     @ statement_of (s ''event'') ''trade_held_through_event'')"

subsection \<open>The record\<close>

definition number_or_none :: "pyval \<Rightarrow> pyfloat option" where
  "number_or_none v = (case v of PFloat f \<Rightarrow> Some f | _ \<Rightarrow> None)"

definition dict_or_none :: "pyval \<Rightarrow> pyval" where
  "dict_or_none v = (case v of PDict d \<Rightarrow> v | _ \<Rightarrow> PNone)"

definition picked :: "string list \<Rightarrow> pydict \<Rightarrow> pyval" where
  "picked ks d = PDict (map (\<lambda>k. (k, dict_get d k)) ks)"

definition volume_evidence :: "tool_results \<Rightarrow> pyval" where
  "volume_evidence results = (case results ''get_volume_profile'' of
     PDict (kv # vp) \<Rightarrow> picked [''poc'', ''vah'', ''val'', ''price_vs_value_area'', ''hvn_levels'', ''lvn_levels''] (kv # vp) | _ \<Rightarrow> PNone)"

definition track_evidence :: "tool_results \<Rightarrow> pyval" where
  "track_evidence results = (case results ''get_trade_performance'' of PDict d \<Rightarrow> picked [''overall'', ''low_sample''] d | _ \<Rightarrow> PNone)"

definition validator_entries :: "string \<Rightarrow> string option \<Rightarrow> pydict option \<Rightarrow> pyval \<Rightarrow> string option \<Rightarrow> pydict res" where
  "validator_entries mode act levels atr profile = (if mode = ''VERIFY''
     then rbind (verify_mode_validator_checks act levels (number_or_none atr) (PFloat (min_risk_reward_for_profile (opt_str profile)))) (\<lambda>cs.
       Inr [(''validator_checks'', PList (map PDict cs))])
     else Inr [])"

definition optional_entry :: "string \<Rightarrow> pydict option \<Rightarrow> pydict" where
  "optional_entry k e = (case e of None \<Rightarrow> [] | Some d \<Rightarrow> [(k, PDict d)])"

definition tier_entry :: "pydict \<Rightarrow> pydict" where
  "tier_entry decision = (case dict_get decision ''opportunity_tier'' of PStr (c # cs) \<Rightarrow> [(''opportunity_tier'', PStr (c # cs))] | _ \<Rightarrow> [])"

definition run_mode :: "string option \<Rightarrow> string" where
  "run_mode mode = py_upper (case mode of Some (c # cs) \<Rightarrow> c # cs | _ \<Rightarrow> ''FIND'')"

definition build_defensibility_record ::
    "(string \<Rightarrow> pyval option) \<Rightarrow> (string \<Rightarrow> pydict) \<Rightarrow> (string \<Rightarrow> pyval option) \<Rightarrow> chat_message list \<Rightarrow> pydict
      \<Rightarrow> string option \<Rightarrow> pyval \<Rightarrow> string option \<Rightarrow> pydict res" where
  "build_defensibility_record parse prose loads msgs decision mode_raw manual profile =
     (let mode = run_mode mode_raw; results = latest_result parse msgs;
          multi_tf = dict_or_none (results ''get_multi_tf_trend''); bias = extract_1d_bias multi_tf in
      rbind (collect_high_confidence_patterns parse msgs) (\<lambda>patterns.
      rbind (resolve_action_and_levels prose decision mode manual) (\<lambda>(act, levels).
      rbind (latest_atr parse msgs) (\<lambda>atr.
      rbind (volatility_basis (number_or_none atr) levels) (\<lambda>vol.
      rbind (risk_reward_ratio levels) (\<lambda>rr.
      rbind (predictive_direction results) (\<lambda>proj.
      rbind (record_signals results act) (\<lambda>signals.
      rbind (management_entry loads decision act levels results atr) (\<lambda>management.
      rbind (debate_entry decision mode act) (\<lambda>debate.
      rbind (validator_entries mode act levels atr profile) (\<lambda>checks.
      let predictive = predictive_conflict proj (agent_dir act); macro = macro_conflict bias act in Inr
       ([(''mode'', PStr mode), (''action'', opt_str act), (''multi_tf_bias'', multi_tf), (''trend_1d'', opt_str bias),
         (''support_resistance'', dict_or_none (results ''get_support_resistance'')), (''volatility_basis'', PStr vol), (''atr_14'', atr),
         (''levels'', case levels of None \<Rightarrow> PNone | Some ls \<Rightarrow> PDict ls),
         (''risk_reward'', case rr of None \<Rightarrow> PNone | Some f \<Rightarrow> PFloat f), (''patterns'', PList (map PDict patterns)),
         (''volume_profile'', volume_evidence results), (''track_record'', track_evidence results),
         (''predictive_conflict'', PStr predictive), (''macro_trend_conflict'', PStr macro),
         (''news_sentiment'', dict_get (as_dict (results ''get_news_context'')) ''sentiment_summary'')]
        @ map (\<lambda>(k, e). (k, PDict e)) signals
        @ [(''summary'', PStr (record_summary signals bias rr patterns macro predictive))]
        @ optional_entry ''management'' management @ optional_entry ''debate'' debate @ checks @ tier_entry decision))))))))))))"

subsection \<open>Completing a decision\<close>

text \<open>What a finalization reads of the run, and of the outside.\<close>

record run_facts =
  rf_messages :: "chat_message list"
  rf_mode :: "string option"
  rf_symbol :: "string option"
  rf_timeframe :: "string option"
  rf_profile :: "string option"
  rf_manual :: pyval

record finalize_world =
  fz_parse :: "string \<Rightarrow> pyval option"
  fz_prose :: "string \<Rightarrow> pydict"
  fz_loads :: "string \<Rightarrow> pyval option"
  fz_cfg :: opportunity_config
  fz_env :: env
  fz_now :: pyfloat
  fz_user :: pyval
  fz_model_id :: "string option"
  fz_prompt_hash :: "string option"
  fz_prompt_set_hash :: "string option"

text \<open>The tier; any failure leaves the decision as it is at that point.\<close>

definition stamped_tier :: "string option \<Rightarrow> tier_evaluation \<Rightarrow> string" where
  "stamped_tier act te = (if py_upper (text_or_empty act) \<in> {''BUY'', ''SELL''}
     then (if te_tier te \<noteq> ''stand_aside'' then te_tier te else ''scalp'') else ''stand_aside'')"

definition stamp_opportunity_tier :: "finalize_world \<Rightarrow> run_facts \<Rightarrow> pydict \<Rightarrow> pydict" where
  "stamp_opportunity_tier w st decision =
     (case rbind (evidence_for_tier (fz_parse w) (fz_prose w) (rf_messages st) (text_or_empty (rf_mode st)) (rf_manual st) decision)
        (\<lambda>(ev, act). rbind (evaluate_tier (PDict ev) (fz_cfg w)) (\<lambda>te. Inr (ev, act, te))) of
        Inl _ \<Rightarrow> decision
      | Inr (ev, act, te) \<Rightarrow> (let tier = stamped_tier act te;
            d = dict_put (dict_put decision ''opportunity_tier'' (PStr tier)) ''size_factor'' (PFloat (size_factor tier (fz_cfg w)))
          in if tier = ''stand_aside'' \<and> \<not> has_key d ''best_current_read''
             then (case interim_read ev te of Inl _ \<Rightarrow> d | Inr r \<Rightarrow> dict_put d ''best_current_read'' (PDict r)) else d))"

text \<open>The label of a decision that was reached while core tools are unresolved.\<close>

definition degraded_note :: "chat_message list \<Rightarrow> string" where
  "degraded_note msgs = ''decision reached on degraded data (core tools unresolved: ''
     @ join_with '', '' (sort (filter (\<lambda>t. \<not> tool_resolved msgs t) CORE_DATA_TOOL_NAMES)) @ '')''"

definition degrade_record :: "string \<Rightarrow> pydict \<Rightarrow> pydict" where
  "degrade_record note r = (let r' = dict_put (dict_put r ''data_degraded'' (PBool True)) ''data_degraded_note'' (PStr note) in
     case dict_get r' ''summary'' of PStr s \<Rightarrow> dict_put r' ''summary'' (PStr (s @ '' '' @ note @ ''.'')) | _ \<Rightarrow> r')"

definition label_degraded :: "chat_message list \<Rightarrow> pydict \<Rightarrow> pydict" where
  "label_degraded msgs decision = (if core_acquisition_resolved msgs then decision
     else let d = dict_put decision ''data_degraded'' (PBool True) in
       case dict_get d ''defensibility'' of PDict r \<Rightarrow> dict_put d ''defensibility'' (PDict (degrade_record (degraded_note msgs) r)) | _ \<Rightarrow> d)"

text \<open>The weights of the fingerprint's dimensions scale the conviction, when this is switched on.\<close>

definition attribution_row :: "trade_row \<Rightarrow> pyval" where
  "attribution_row r = PDict [(''setup_key'', PStr (tr_setup_key r)), (''status'', PStr (tr_status r)), (''r_multiple'', tr_r_multiple r),
     (''source'', opt_str (tr_source r)), (''symbol'', opt_str (tr_symbol r))]"

definition consulted_weights :: "env \<Rightarrow> journal_table \<Rightarrow> string option \<Rightarrow> (string \<times> pyfloat) list" where
  "consulted_weights env jt symbol = (case weight_map_from_journal env (Some (map attribution_row (jt_rows jt))) symbol of Inl _ \<Rightarrow> [] | Inr m \<Rightarrow> m)"

definition applied_weights :: "(string \<times> pyfloat) list \<Rightarrow> pydict \<Rightarrow> (string \<times> pyfloat) list res" where
  "applied_weights weights decision = rbind (derive_setup_tags decision) (\<lambda>tags. Inr (map (\<lambda>(k, _).
     (k, case map_of weights k of None \<Rightarrow> Fin 1 | Some w \<Rightarrow> w)) (parse_setup_key (PStr (setup_key_from_tags tags)))))"

definition scaled_conviction :: "pyval \<Rightarrow> (string \<times> pyfloat) list \<Rightarrow> int res" where
  "scaled_conviction conviction applied = rbind (fdiv (py_sum (map snd applied)) (Fin (of_nat (length applied)))) (\<lambda>mean.
     rbind (to_num conviction) (\<lambda>c. rbind (num_mul c (NF mean)) (\<lambda>x. rbind (to_float x) (\<lambda>f. rbind (py_round f) (\<lambda>n.
       Inr (max 0 (min 100 n)))))))"

definition apply_weight_map :: "env \<Rightarrow> journal_table \<Rightarrow> string option \<Rightarrow> pydict \<Rightarrow> pydict" where
  "apply_weight_map env jt symbol decision = (if \<not> ac_weight_map_enabled (resolve_attribution_config env) then decision
     else case dict_get decision ''defensibility'' of
       PDict rec \<Rightarrow> (case applied_weights (consulted_weights env jt symbol) decision of
           Inl _ \<Rightarrow> decision
         | Inr applied \<Rightarrow> (let rec1 = dict_put (dict_put rec ''weight_map_applied'' (PBool True)) ''weight_map''
                 (PDict (map (\<lambda>(k, w). (k, PFloat w)) applied)); conviction = dict_get decision ''conviction_score'' in
             if applied \<noteq> [] \<and> (case conviction of PInt _ \<Rightarrow> True | PFloat _ \<Rightarrow> True | _ \<Rightarrow> False) then
               (case scaled_conviction conviction applied of
                  Inl _ \<Rightarrow> dict_put decision ''defensibility'' (PDict rec1)
                | Inr n \<Rightarrow> dict_put (dict_put decision ''defensibility'' (PDict (dict_put (dict_put rec1 ''conviction_before_weight_map'' conviction)
                      ''conviction_after_weight_map'' (PInt n)))) ''conviction_score'' (PInt n))
             else dict_put decision ''defensibility'' (PDict rec1)))
     | _ \<Rightarrow> decision)"

subsection \<open>Handing over\<close>

definition thread_id_from_config :: "pyval \<Rightarrow> string option" where
  "thread_id_from_config config = (case dict_get (as_dict (dict_get (as_dict config) ''configurable'')) ''thread_id'' of
     PNone \<Rightarrow> None | v \<Rightarrow> Some (py_str v))"

definition declared_horizon :: "pydict \<Rightarrow> string option" where
  "declared_horizon rec = (case dict_get (as_dict (dict_get rec ''event'')) ''holding_horizon'' of
     PStr s \<Rightarrow> if py_strip s \<noteq> [] then Some (py_strip s) else None | _ \<Rightarrow> None)"

definition tool_results_dict :: "(string \<Rightarrow> pyval option) \<Rightarrow> chat_message list \<Rightarrow> pydict" where
  "tool_results_dict parse msgs = map (\<lambda>n. (n, latest_result parse msgs n))
     (filter (\<lambda>n. n \<noteq> [] \<and> latest_result parse msgs n \<noteq> PNone) (rev (remdups (rev (List.map_filter cm_name msgs)))))"

definition level_or_recorded :: "pydict \<Rightarrow> pydict \<Rightarrow> string \<Rightarrow> pyval res" where
  "level_or_recorded decision levels k = rbind (finite_number (dict_get decision k)) (\<lambda>fin.
     Inr (if fin then dict_get decision k else dict_get levels k))"

definition recommendation_args :: "finalize_world \<Rightarrow> run_facts \<Rightarrow> pydict \<Rightarrow> string option \<Rightarrow> reco_args res" where
  "recommendation_args w st decision tid = (let rec = as_dict (dict_get decision ''defensibility''); levels = as_dict (dict_get rec ''levels'');
       act = dict_get decision ''action'' in
     rbind (level_or_recorded decision levels ''entry'') (\<lambda>e.
     rbind (level_or_recorded decision levels ''stop_loss'') (\<lambda>s.
     rbind (level_or_recorded decision levels ''take_profit'') (\<lambda>t. Inr
      \<lparr>ra_action = (if py_truthy act then act else PStr ''HOLD''), ra_thread_id = opt_str tid, ra_user_id = fz_user w, ra_symbol = rf_symbol st,
       ra_timeframe = rf_timeframe st, ra_mode = rf_mode st, ra_profile = rf_profile st, ra_entry = e, ra_stop_loss = s,
       ra_take_profit = t, ra_horizon = declared_horizon rec, ra_conviction = dict_get decision ''conviction_score'',
       ra_risk_reward = dict_get rec ''risk_reward'', ra_rationale = PDict rec,
       ra_tool_inputs = (if rf_messages st = [] then PNone else PDict (tool_results_dict (fz_parse w) (rf_messages st))),
       ra_model_id = fz_model_id w, ra_prompt_hash = fz_prompt_hash w, ra_prompt_set_hash = fz_prompt_set_hash w\<rparr>))))"

text \<open>The table of committed threads, the journal, and the recommendation store.\<close>

record commit_log =
  cl_committed :: "(string \<times> pydict) list"
  cl_journal :: journal_table
  cl_recos :: store

definition record_recommendation :: "finalize_world \<Rightarrow> run_facts \<Rightarrow> pydict \<Rightarrow> string option \<Rightarrow> store \<Rightarrow> store" where
  "record_recommendation w st decision tid db = (case rbind (recommendation_args w st decision tid) (\<lambda>a. record_reco (fz_env w) (fz_now w) a db) of
     Inl _ \<Rightarrow> db | Inr (db', _) \<Rightarrow> db')"

definition prior_record :: "string option \<Rightarrow> commit_log \<Rightarrow> pydict option" where
  "prior_record tid cl = (case tid of None \<Rightarrow> None | Some t \<Rightarrow> map_of (cl_committed cl) t)"

text \<open>The decision with its record, before it is handed over; a failure of the record is an exception of the node.\<close>

definition complete_decision :: "finalize_world \<Rightarrow> run_facts \<Rightarrow> pydict \<Rightarrow> journal_table \<Rightarrow> pydict res" where
  "complete_decision w st decision jt = (let d1 = stamp_opportunity_tier w st decision in
     rbind (build_defensibility_record (fz_parse w) (fz_prose w) (fz_loads w) (rf_messages st) d1 (rf_mode st) (rf_manual st) (rf_profile st)) (\<lambda>rec.
       Inr (apply_weight_map (fz_env w) jt (rf_symbol st) (label_degraded (rf_messages st) (dict_put d1 ''defensibility'' (PDict rec))))))"

definition finalize_decision :: "finalize_world \<Rightarrow> run_facts \<Rightarrow> string option \<Rightarrow> pydict \<Rightarrow> commit_log \<Rightarrow> (pydict \<times> commit_log) res" where
  "finalize_decision w st tid decision cl = (case prior_record tid cl of
     Some prior \<Rightarrow> Inr (dict_put decision ''defensibility'' (PDict prior), cl)
   | None \<Rightarrow> rbind (complete_decision w st decision (cl_journal cl)) (\<lambda>d. Inr (d,
       \<lparr>cl_committed = (case tid of None \<Rightarrow> cl_committed cl
          | Some t \<Rightarrow> cl_committed cl @ [(t, as_dict (dict_get d ''defensibility''))]),
        cl_journal = fst (record_decision (fz_now w) d (rf_symbol st) (rf_timeframe st) (rf_mode st) tid (cl_journal cl)),
        cl_recos = record_recommendation w st d tid (cl_recos cl)\<rparr>)))"

end
