(* ===== verification/FinalizeFacts.thy ===== *)
theory FinalizeFacts
  imports Finalize OpportunityFacts
begin

text \<open>
  What the completion of a decision guarantees: the checks of a verification are the validator's, the
  trade is not changed, a thread commits once, the tier follows the judged side, and the record cites
  results only.
\<close>

subsection \<open>The checks of a verification\<close>

definition check_failed :: "pydict \<Rightarrow> bool" where
  "check_failed c \<longleftrightarrow> dict_get c ''outcome'' = PStr ''fail''"

definition check_reason :: "pydict \<Rightarrow> validator_reason option" where
  "check_reason c = (case dict_get c ''check'' of
     PStr n \<Rightarrow> map_of [(''execution-levels-present'', MISSING_LEVELS), (''direction-consistency'', DIRECTION_INCONSISTENT),
       (''stop-distance-vs-atr'', STOP_TOO_TIGHT), (''risk-reward'', RISK_REWARD_TOO_LOW)] n
   | _ \<Rightarrow> None)"

definition first_failure :: "pydict list \<Rightarrow> validator_reason option" where
  "first_failure cs = (case find check_failed cs of None \<Rightarrow> None | Some c \<Rightarrow> check_reason c)"

definition side_text :: "action \<Rightarrow> string" where
  "side_text act = (if act = BUY then ''BUY'' else ''SELL'')"

definition bracket_levels :: "rat \<Rightarrow> rat \<Rightarrow> rat \<Rightarrow> pydict" where
  "bracket_levels e sl tp = [(''entry'', PFloat (Fin e)), (''stop_loss'', PFloat (Fin sl)), (''take_profit'', PFloat (Fin tp))]"

lemma check_entry_failed [simp]:
  "check_failed (check_entry n t @ rest) \<longleftrightarrow> t = ''fail''" "check_failed (check_entry n t) \<longleftrightarrow> t = ''fail''"
  by (simp_all add: check_failed_def check_entry_def dict_get_def)

lemma check_entry_reason [simp]:
  "check_reason (check_entry n t @ rest) = check_reason (check_entry n t)"
  by (simp add: check_reason_def check_entry_def dict_get_def)

lemma check_names [simp]:
  "check_reason (check_entry ''direction-consistency'' t) = Some DIRECTION_INCONSISTENT"
  "check_reason (check_entry ''stop-distance-vs-atr'' t) = Some STOP_TOO_TIGHT"
  "check_reason (check_entry ''risk-reward'' t) = Some RISK_REWARD_TOO_LOW"
  by (simp_all add: check_reason_def check_entry_def dict_get_def)

lemma pass_fail_fail [simp]: "pass_fail b = ''fail'' \<longleftrightarrow> \<not> b"
  by (simp add: pass_fail_def)

lemma stop_check_failed:
  "check_failed (stop_check atr (fdistance e sl)) \<longleftrightarrow> \<not> atr_floor_ok atr (fdistance e sl)"
  "check_reason (stop_check atr risk) = Some STOP_TOO_TIGHT"
proof -
  show "check_reason (stop_check atr risk) = Some STOP_TOO_TIGHT"
    by (simp add: stop_check_def split: option.split)
  show "check_failed (stop_check atr (fdistance e sl)) \<longleftrightarrow> \<not> atr_floor_ok atr (fdistance e sl)"
  proof (cases atr)
    case (Some a)
    then show ?thesis by (cases a) (auto simp: stop_check_def atr_floor_ok_def MIN_STOP_eq)
  qed (simp add: stop_check_def atr_floor_ok_def)
qed

lemma reward_check_eval:
  assumes "flt (Fin 0) risk"
  shows "\<exists>c. reward_check m reward risk = Inr c \<and> (\<exists>rr. fdiv reward risk = Inr rr \<and> (check_failed c \<longleftrightarrow> \<not> fle m rr))
    \<and> check_reason c = Some RISK_REWARD_TOO_LOW"
proof -
  obtain rr where "fdiv reward risk = Inr rr" using assms by (cases risk; cases reward) auto
  then show ?thesis using assms by (simp add: reward_check_def)
qed

lemma side_normal: "normalize_action (PStr (side_text act)) = Some (side_text act)"
proof -
  have "normalize_action (PStr ''BUY'') = Some ''BUY''" "normalize_action (PStr ''SELL'') = Some ''SELL''" by code_simp+
  then show ?thesis by (simp add: side_text_def)
qed

lemma verify_checks_eval:
  "verify_mode_validator_checks (Some (side_text act)) (Some (bracket_levels e sl tp)) atr (PFloat m) =
    rbind (reward_check (if flt (Fin 0) m then m else MIN_RISK_REWARD) (fdistance tp e) (fdistance e sl)) (\<lambda>c.
      Inr [check_entry ''execution-levels-present'' ''pass'',
        check_entry ''direction-consistency'' (pass_fail (ordered_bracket act e sl tp)), stop_check atr (fdistance e sl), c])"
proof -
  have g: "dict_get (bracket_levels e sl tp) ''entry'' = PFloat (Fin e)" "dict_get (bracket_levels e sl tp) ''stop_loss'' = PFloat (Fin sl)"
    "dict_get (bracket_levels e sl tp) ''take_profit'' = PFloat (Fin tp)"
    by (simp_all add: bracket_levels_def dict_get_def)
  then have "all_finite (map (dict_get (bracket_levels e sl tp)) LEVEL_KEYS) = Inr True"
    by (simp add: LEVEL_KEYS_def all_finite_def finite_number_def)
  then show ?thesis using g
    by (simp add: verify_mode_validator_checks_def side_normal verify_floor_def Let_def level_at_def as_float_def ordered_bracket_def
        fdistance_def) (simp add: side_text_def)
qed

text \<open>C9: The checks that a verification reports are the validator's: on every bracket of finite levels they
  and the validator's verdict are both given without an exception, the trade passes exactly when no
  check failed, and the reason of a rejection is that of the first failed check.\<close>

theorem verify_checks_agree:
  assumes "act \<noteq> HOLD" "fwf (Fin e)" "fwf (Fin sl)" "fwf (Fin tp)"
  shows "\<exists>cs out. verify_mode_validator_checks (Some (side_text act)) (Some (bracket_levels e sl tp)) atr (PFloat m) = Inr cs
    \<and> validate_trade env act (Some (flevels e sl tp)) (atr_val atr) PNone mb (PFloat m) = Inr out
    \<and> first_failure cs = reason out \<and> (is_pass out \<longleftrightarrow> first_failure cs = None)"
proof (cases "ordered_bracket act e sl tp")
  case True
  let ?m = "if flt (Fin 0) m then m else MIN_RISK_REWARD"
  have pos: "flt (Fin 0) (fdistance e sl)" using ordered_distance_pos True assms(2,3) by blast
  obtain c rr where c: "reward_check ?m (fdistance tp e) (fdistance e sl) = Inr c" "fdiv (fdistance tp e) (fdistance e sl) = Inr rr"
    "check_failed c \<longleftrightarrow> \<not> fle ?m rr" "check_reason c = Some RISK_REWARD_TOO_LOW"
    using reward_check_eval [OF pos] by blast
  obtain rr' where "fdiv (fdistance tp e) (fdistance e sl) = Inr rr'" "rr' \<noteq> NaN" using ordered_ratio [OF True assms(2-4)] .
  then have "rr \<noteq> NaN" using c(2) by simp
  moreover have "num_ext (effective_min_rr (PFloat m)) = ?m" by (simp add: effective_min_rr_def)
  ultimately have "flt rr ?m \<longleftrightarrow> \<not> fle ?m rr" using not_flt effective_min_rr_not_NaN by metis
  then show ?thesis using True c stop_check_failed(1) [of atr e sl] stop_check_failed(2) [of atr "fdistance e sl"]
    \<open>num_ext (effective_min_rr (PFloat m)) = ?m\<close>
    by (simp add: verify_checks_eval validate_trade_eval [OF assms] first_failure_def is_pass_def failed_def passed_def)
next
  case False
  obtain c where "reward_check (if flt (Fin 0) m then m else MIN_RISK_REWARD) (fdistance tp e) (fdistance e sl) = Inr c"
    using reward_check_eval [of "fdistance e sl"] by (cases "flt (Fin 0) (fdistance e sl)") (fastforce simp: reward_check_def)+
  then show ?thesis using False
    by (simp add: verify_checks_eval validate_trade_eval [OF assms] first_failure_def is_pass_def failed_def)
qed

subsection \<open>What completion leaves alone\<close>

lemma dict_get_put [simp]: "dict_get (dict_put d k v) k' = (if k' = k then v else dict_get d k')"
proof -
  have m: "map_of (map (\<lambda>(j, w). (j, if j = k then v else w)) d) i = (if i = k then map_option (\<lambda>_. v) (map_of d i) else map_of d i)" for i
    by (induction d) auto
  show ?thesis
    by (auto simp: dict_put_def dict_get_def has_key_def m map_of_append map_add_def split: option.split)
qed

lemma stamp_other:
  assumes "k \<notin> {''opportunity_tier'', ''size_factor'', ''best_current_read''}"
  shows "dict_get (stamp_opportunity_tier w st d) k = dict_get d k"
  using assms by (auto simp: stamp_opportunity_tier_def Let_def split: sum.splits prod.splits)

lemma degraded_other:
  assumes "k \<notin> {''data_degraded'', ''defensibility''}"
  shows "dict_get (label_degraded msgs d) k = dict_get d k"
  using assms by (auto simp: label_degraded_def Let_def split: pyval.splits)

lemma weights_other:
  assumes "k \<notin> {''defensibility'', ''conviction_score''}"
  shows "dict_get (apply_weight_map env jt symbol d) k = dict_get d k"
  using assms by (auto simp: apply_weight_map_def Let_def split: pyval.splits sum.splits)

lemma scaled_range: "scaled_conviction v ap = Inr n \<Longrightarrow> 0 \<le> n \<and> n \<le> 100"
  by (auto simp: scaled_conviction_def rbind_eq_Inr)

lemma weights_conviction:
  "dict_get (apply_weight_map env jt symbol d) ''conviction_score'' = dict_get d ''conviction_score''
   \<or> ac_weight_map_enabled (resolve_attribution_config env)
     \<and> (\<exists>n. dict_get (apply_weight_map env jt symbol d) ''conviction_score'' = PInt n \<and> 0 \<le> n \<and> n \<le> 100)"
  using scaled_range by (auto simp: apply_weight_map_def Let_def split: pyval.splits sum.splits)

definition STAMPED_KEYS :: "string list" where
  "STAMPED_KEYS = [''opportunity_tier'', ''size_factor'', ''best_current_read'', ''defensibility'', ''data_degraded'', ''conviction_score'']"

lemma complete_other:
  assumes "complete_decision w st d jt = Inr d'"
  shows "k \<notin> set STAMPED_KEYS \<Longrightarrow> dict_get d' k = dict_get d k"
    and "dict_get d' ''conviction_score'' = dict_get d ''conviction_score''
      \<or> ac_weight_map_enabled (resolve_attribution_config (fz_env w)) \<and> (\<exists>n. dict_get d' ''conviction_score'' = PInt n \<and> 0 \<le> n \<and> n \<le> 100)"
proof -
  obtain rec where d': "d' = apply_weight_map (fz_env w) jt (rf_symbol st) (label_degraded (rf_messages st)
      (dict_put (stamp_opportunity_tier w st d) ''defensibility'' (PDict rec)))"
    using assms by (auto simp: complete_decision_def Let_def rbind_eq_Inr)
  show "dict_get d' k = dict_get d k" if "k \<notin> set STAMPED_KEYS"
    using that by (simp add: d' STAMPED_KEYS_def weights_other degraded_other stamp_other)
  show "dict_get d' ''conviction_score'' = dict_get d ''conviction_score''
      \<or> ac_weight_map_enabled (resolve_attribution_config (fz_env w)) \<and> (\<exists>n. dict_get d' ''conviction_score'' = PInt n \<and> 0 \<le> n \<and> n \<le> 100)"
    using weights_conviction [of "fz_env w" jt "rf_symbol st" "label_degraded (rf_messages st)
      (dict_put (stamp_opportunity_tier w st d) ''defensibility'' (PDict rec))"]
    by (simp add: d' degraded_other stamp_other)
qed

lemma weights_record: "dict_get d ''defensibility'' = PDict r \<Longrightarrow>
    \<exists>r'. dict_get (apply_weight_map env jt symbol d) ''defensibility'' = PDict r'"
  by (auto simp: apply_weight_map_def Let_def split: sum.splits)

lemma complete_record: "complete_decision w st d jt = Inr d' \<Longrightarrow> \<exists>r. dict_get d' ''defensibility'' = PDict r"
proof -
  have l: "\<exists>r'. dict_get (label_degraded msgs x) ''defensibility'' = PDict r'" if "dict_get x ''defensibility'' = PDict r" for msgs x r
    using that by (auto simp: label_degraded_def Let_def)
  show "complete_decision w st d jt = Inr d' \<Longrightarrow> \<exists>r. dict_get d' ''defensibility'' = PDict r"
    using l weights_record by (fastforce simp: complete_decision_def Let_def rbind_eq_Inr)
qed

text \<open>C7: Completing a decision never changes the trade: action, levels, plan and every other key stay as
  they were declared except the six that completion stamps, and the conviction changes only when the
  weight map is switched on, to a whole number from 0 to 100.\<close>

theorem finalize_keeps_trade:
  assumes "finalize_decision w st tid d cl = Inr (d', cl')"
  shows "(\<forall>k. k \<notin> set STAMPED_KEYS \<longrightarrow> dict_get d' k = dict_get d k)
    \<and> (dict_get d' ''conviction_score'' = dict_get d ''conviction_score''
       \<or> ac_weight_map_enabled (resolve_attribution_config (fz_env w)) \<and> (\<exists>n. dict_get d' ''conviction_score'' = PInt n \<and> 0 \<le> n \<and> n \<le> 100))"
proof (cases "prior_record tid cl")
  case None
  then have "complete_decision w st d (cl_journal cl) = Inr d'"
    using assms by (auto simp: finalize_decision_def rbind_eq_Inr)
  then show ?thesis using complete_other by blast
next
  case (Some r)
  then show ?thesis using assms by (auto simp: finalize_decision_def STAMPED_KEYS_def)
qed

lemma committed_prior:
  assumes "finalize_decision w st (Some t) d cl = Inr (d1, cl1)"
  shows "\<exists>r. prior_record (Some t) cl1 = Some r \<and> dict_get d1 ''defensibility'' = PDict r"
proof (cases "map_of (cl_committed cl) t")
  case None
  then have c: "complete_decision w st d (cl_journal cl) = Inr d1"
    "cl_committed cl1 = cl_committed cl @ [(t, as_dict (dict_get d1 ''defensibility''))]"
    using assms by (auto simp: finalize_decision_def prior_record_def rbind_eq_Inr)
  obtain r where "dict_get d1 ''defensibility'' = PDict r" using complete_record [OF c(1)] by blast
  then show ?thesis using c(2) None by (simp add: prior_record_def map_of_append map_add_def as_dict_def)
next
  case (Some r)
  then show ?thesis using assms by (auto simp: finalize_decision_def prior_record_def)
qed

text \<open>C10: A thread commits once: a later decision of the same thread changes neither the journal nor the
  recommendations nor the table, and it is handed the record of the first decision, with an action
  that may be another one.\<close>

theorem second_commit_keeps_first_record:
  assumes "finalize_decision w st (Some t) d cl = Inr (d1, cl1)" "finalize_decision w' st' (Some t) later cl1 = Inr (d2, cl2)"
  shows "cl2 = cl1 \<and> dict_get d2 ''defensibility'' = dict_get d1 ''defensibility'' \<and> dict_get d2 ''action'' = dict_get later ''action''"
  using committed_prior [OF assms(1)] assms(2) by (auto simp: finalize_decision_def)

subsection \<open>The tier\<close>

text \<open>The action by which a decision is judged: the user's side in a verification, else the decision's own.\<close>

definition judged_action :: "run_facts \<Rightarrow> pydict \<Rightarrow> string option" where
  "judged_action st d = (case proposed_trade (text_or_empty (rf_mode st)) (rf_manual st) of
     Some trade \<Rightarrow> normalize_action (dict_get trade ''side'') | None \<Rightarrow> normalize_action (dict_get d ''action''))"

lemma resolved_action:
  "resolve_action_and_levels prose d (text_or_empty (rf_mode st)) (rf_manual st) = Inr (act, ls) \<Longrightarrow> act = judged_action st d"
  by (auto simp: resolve_action_and_levels_def judged_action_def Let_def rbind_eq_Inr split: option.splits if_splits)

lemma evidence_action:
  "evidence_for_tier parse prose msgs (text_or_empty (rf_mode st)) (rf_manual st) d = Inr (ev, act) \<Longrightarrow> act = judged_action st d"
  using resolved_action by (auto simp: evidence_for_tier_def Let_def rbind_eq_Inr)

lemma upper_idem [simp]: "py_upper (py_upper s) = py_upper s"
proof -
  have "upper_char (upper_char c) = upper_char c" for c by (auto simp: upper_char_def Let_def)
  then show ?thesis by (simp add: py_upper_def)
qed

lemma normalized_upper: "normalize_action v = Some t \<Longrightarrow> py_upper t = t"
proof -
  have "py_upper ''BUY'' = ''BUY''" "py_upper ''SELL'' = ''SELL''" by code_simp+
  then show "normalize_action v = Some t \<Longrightarrow> py_upper t = t"
    by (auto simp: normalize_action_def Let_def split: if_splits)
qed

lemma judged_directional: "py_upper (text_or_empty (judged_action st d)) \<in> {''BUY'', ''SELL''} \<longleftrightarrow> directional (judged_action st d)"
proof (cases "judged_action st d")
  case None
  then show ?thesis by (simp add: text_or_empty_def directional_def py_upper_def)
next
  case (Some t)
  then have "py_upper t = t" using normalized_upper by (auto simp: judged_action_def split: option.splits)
  then show ?thesis using Some by (auto simp: text_or_empty_def directional_def)
qed

lemma evaluated_tier: "evaluate_tier v cfg = Inr te \<Longrightarrow> te_tier te \<in> set OPPORTUNITY_TIERS"
proof -
  assume "evaluate_tier v cfg = Inr te"
  then obtain ev triple conf where "te = ladder ev cfg triple conf" by (auto simp: evaluate_tier_def Let_def rbind_eq_Inr)
  then show ?thesis using ladder_sound [of ev cfg triple conf] by (auto simp: chosen_def OPPORTUNITY_TIERS_def)
qed

text \<open>The stamped tier is one of the ladder's and stands aside exactly when the action that is judged is
  no BUY or SELL, with its own size factor; in a verification the action judged is the user's side
  and not the decision's. When the evidence cannot be read the decision is left as it is.\<close>

theorem tier_follows_side:
  "stamp_opportunity_tier w st d = d
   \<or> (\<exists>t. dict_get (stamp_opportunity_tier w st d) ''opportunity_tier'' = PStr t \<and> t \<in> set OPPORTUNITY_TIERS
        \<and> (t = ''stand_aside'') = (\<not> directional (judged_action st d))
        \<and> dict_get (stamp_opportunity_tier w st d) ''size_factor'' = PFloat (size_factor t (fz_cfg w)))"
proof -
  let ?r = "rbind (evidence_for_tier (fz_parse w) (fz_prose w) (rf_messages st) (text_or_empty (rf_mode st)) (rf_manual st) d)
        (\<lambda>(ev, act). rbind (evaluate_tier (PDict ev) (fz_cfg w)) (\<lambda>te. Inr (ev, act, te)))"
  show ?thesis
  proof (cases ?r)
    case (Inl e)
    then show ?thesis by (simp add: stamp_opportunity_tier_def)
  next
    case (Inr x)
    obtain ev act te where x: "x = (ev, act, te)" by (cases x)
    have te: "te_tier te \<in> set OPPORTUNITY_TIERS" and act: "act = judged_action st d"
      using Inr x evaluated_tier evidence_action by (auto simp: rbind_eq_Inr)
    have "stamped_tier act te \<in> set OPPORTUNITY_TIERS" using te by (auto simp: stamped_tier_def OPPORTUNITY_TIERS_def)
    moreover have "(stamped_tier act te = ''stand_aside'') = (\<not> directional (judged_action st d))"
      unfolding stamped_tier_def act judged_directional by simp
    ultimately show ?thesis
      by (intro disjI2 exI [of _ "stamped_tier act te"]) (simp add: stamp_opportunity_tier_def Inr x Let_def split: sum.split)
  qed
qed

subsection \<open>Nothing in the record is made up\<close>

text \<open>A field that is the result's, or a dict of fields of the result's dict.\<close>

definition cited :: "pydict \<Rightarrow> string \<Rightarrow> pyval \<Rightarrow> bool" where
  "cited d k v \<longleftrightarrow> v = dict_get d k
     \<or> k \<in> {''measures'', ''expiry_context''} \<and> (\<exists>m. v = PDict m \<and> (\<forall>(j, x)\<in>set m. x = dict_get (as_dict (dict_get d k)) j))"

definition SIGNAL_TOOLS :: "(string \<times> string) list" where
  "SIGNAL_TOOLS = [(''regime'', ''get_market_regime''), (''relative_strength'', ''get_relative_strength''), (''forecast'', ''get_forecast''),
     (''session'', ''get_session_context''), (''options'', ''get_options_analytics''), (''event'', ''get_event_risk'')]"

definition STATEMENT_KEYS :: "string list" where
  "STATEMENT_KEYS = [''trade_opposes_regime'', ''trade_opposes_relative_strength'', ''trade_opposes_forecast'',
     ''trade_in_unfavorable_window'', ''trade_opposes_options'', ''trade_held_through_event'']"

lemma tool_entry_cites:
  assumes "tool_entry tool what marker results usable build = Inr e" "(k, v) \<in> set e" "k \<notin> {''available'', ''reason''}"
  shows "\<exists>d. results tool = PDict d \<and> (k, v) \<in> set (build d)"
  using assms by (auto simp: tool_entry_def unavailable_entry_def rbind_eq_Inr split: pyval.splits if_splits)

lemma copied_cited: "(k, v) \<in> set (copy_fields ks d) \<Longrightarrow> cited d k v" "(k, v) \<in> set (carry_fields ks d) \<Longrightarrow> cited d k v"
  by (auto simp: copy_fields_def carry_fields_def cited_def)

lemma measures_cited: "(k, v) \<in> set (measures_of ks d) \<Longrightarrow> cited d k v"
  by (auto simp: measures_of_def cited_def copy_fields_def as_dict_def split: pyval.splits)

lemma expiry_cited: "cited d ''expiry_context'' (PDict (copy_fields ks (as_dict (dict_get d ''expiry_context''))))"
  by (auto simp: cited_def copy_fields_def)

lemma entry_cites:
  assumes "k \<notin> {''available'', ''reason''}" "(k, v) \<in> set e"
  shows "regime_entry results = Inr e \<Longrightarrow> \<exists>d. results ''get_market_regime'' = PDict d \<and> cited d k v"
    and "relative_strength_entry results = Inr e \<Longrightarrow> \<exists>d. results ''get_relative_strength'' = PDict d \<and> cited d k v"
    and "forecast_entry results = Inr e \<Longrightarrow> \<exists>d. results ''get_forecast'' = PDict d \<and> cited d k v"
    and "session_entry results = Inr e \<Longrightarrow> \<exists>d. results ''get_session_context'' = PDict d \<and> cited d k v"
    and "options_entry results = Inr e \<Longrightarrow> \<exists>d. results ''get_options_analytics'' = PDict d \<and> cited d k v"
    and "event_entry results = Inr e \<Longrightarrow> \<exists>d. results ''get_event_risk'' = PDict d \<and> cited d k v"
  unfolding regime_entry_def relative_strength_entry_def forecast_entry_def session_entry_def options_entry_def event_entry_def
  by (drule tool_entry_cites [OF _ assms(2,1)], fastforce dest: copied_cited measures_cited intro: expiry_cited)+

lemma put_member: "(k, v) \<in> set (dict_put d m x) \<Longrightarrow> k = m \<or> (k, v) \<in> set d"
  by (auto simp: dict_put_def split: if_splits)

lemma opposed_member: "(k, v) \<in> set (opposed act key bad mark f e) \<Longrightarrow> k = mark \<or> (k, v) \<in> set e"
  using put_member by (fastforce simp: opposed_def split: option.splits if_splits)

lemma opposed_statement:
  "(k, v) \<in> set (opposed act a b m g x) \<Longrightarrow> m \<in> set STATEMENT_KEYS \<Longrightarrow> k \<in> set STATEMENT_KEYS \<or> (k, v) \<in> set x"
  using opposed_member by fastforce

text \<open>C8: Nothing in the record is made up: every field of its six signal entries other than the
  availability, the reason and the statement of an opposition is the value of the same field in the
  latest result of the signal's tool, also inside the measures and the expiry context.\<close>

theorem signals_cite_results:
  assumes "record_signals results act = Inr sg" "(name, e) \<in> set sg" "(k, v) \<in> set e"
  shows "k \<in> {''available'', ''reason''} \<or> k \<in> set STATEMENT_KEYS
    \<or> (\<exists>tool d. (name, tool) \<in> set SIGNAL_TOOLS \<and> results tool = PDict d \<and> cited d k v)"
proof -
  let ?L = "[(''regime'', regime_entry results, opposed act ''favorability'' ''unfavorable'' ''trade_opposes_regime'' regime_opposition),
      (''relative_strength'', relative_strength_entry results,
         opposed act ''alignment'' ''misaligned'' ''trade_opposes_relative_strength'' strength_opposition),
      (''forecast'', forecast_entry results, opposed act ''forecast_alignment'' ''misaligned'' ''trade_opposes_forecast'' forecast_opposition),
      (''session'', session_entry results, opposed act ''time_favorability'' ''unfavorable'' ''trade_in_unfavorable_window'' session_opposition),
      (''options'', options_entry results, opposed act ''alignment'' ''misaligned'' ''trade_opposes_options'' options_opposition),
      (''event'', event_entry results, opposed act ''event_risk'' ''through_event'' ''trade_held_through_event'' event_opposition)]"
  obtain y where y: "y \<in> set ?L" "(case y of (n, r, f) \<Rightarrow> rbind r (\<lambda>d. Inr (n, f d))) = Inr (name, e)"
    by (rule bexE [OF rmap_Inr_member [OF assms(1) [unfolded record_signals_def] assms(2)]])
  obtain n r f where nrf: "y = (n, r, f)" by (cases y)
  then obtain x where x: "r = Inr x" "e = f x" "n = name" using y(2) by (auto simp: rbind_eq_Inr)
  have r: "(name, r, f) \<in> set ?L" using y(1) unfolding nrf x(3) .
  have k: "k \<in> set STATEMENT_KEYS \<or> (k, v) \<in> set x"
    using r assms(3) [unfolded x(2)] unfolding list.set insert_iff prod.inject empty_iff
    by - (elim disjE conjE FalseE; hypsubst; erule opposed_statement; simp add: STATEMENT_KEYS_def)
  show ?thesis
  proof (cases "k \<in> {''available'', ''reason''} \<or> k \<in> set STATEMENT_KEYS")
    case False
    then have m: "k \<notin> {''available'', ''reason''}" "(k, v) \<in> set x" using k by blast+
    have "\<exists>tool d. (name, tool) \<in> set SIGNAL_TOOLS \<and> results tool = PDict d \<and> cited d k v"
      using r unfolding list.set insert_iff prod.inject empty_iff SIGNAL_TOOLS_def
      by (elim disjE conjE FalseE; use entry_cites [OF m, folded x(1), of results] in simp)
    then show ?thesis by blast
  qed blast
qed


subsection \<open>Concrete completions\<close>

lemma no_results: "latest_result parse [] = (\<lambda>_. PNone)" "latest_atr parse [] = Inr PNone" "collect_high_confidence_patterns parse [] = Inr []"
  by (simp_all add: latest_result_def latest_atr_def collect_high_confidence_patterns_def fun_eq_iff)

lemma no_signals: "\<exists>sg. record_signals (\<lambda>_. PNone) act = Inr sg"
  by (simp add: record_signals_def regime_entry_def relative_strength_entry_def forecast_entry_def session_entry_def options_entry_def
      event_entry_def tool_entry_def)

text \<open>A decision without levels and without tool results is always completed.\<close>

lemma complete_without_results:
  assumes "rf_messages st = []" "rf_mode st = Some ''FIND''"
    "dict_get d ''entry'' = PNone" "dict_get d ''stop_loss'' = PNone" "dict_get d ''take_profit'' = PNone"
    "dict_get d ''execution_plan'' = PNone" "dict_get d ''setup_validation'' = PNone" "dict_get d ''_debate'' = PNone"
  shows "\<exists>d'. complete_decision w st d jt = Inr d'"
proof -
  let ?d = "stamp_opportunity_tier w st d"
  have mode: "run_mode (Some ''FIND'') = ''FIND''" by code_simp
  have g: "dict_get ?d k = dict_get d k" if "k \<in> {''entry'', ''stop_loss'', ''take_profit'', ''execution_plan'', ''setup_validation'', ''_debate'', ''action''}" for k
    using that by (auto intro: stamp_other)
  have p: "proposed_trade ''FIND'' m = None" for m by (simp add: proposed_trade_def split: pyval.split list.split)
  have e: "structured_levels ?d = Inr []" using assms g by (simp add: structured_levels_def LEVEL_KEYS_def finite_number_def level_entries_def)
  have "resolve_action_and_levels (fz_prose w) ?d ''FIND'' (rf_manual st) = Inr (normalize_action (dict_get d ''action''), None)"
    using assms g p e by (simp add: resolve_action_and_levels_def Let_def join_parts_def parse_levels_from_text_def)
  moreover obtain sg where "record_signals (\<lambda>_. PNone) (normalize_action (dict_get d ''action'')) = Inr sg" using no_signals by blast
  ultimately show ?thesis using assms g
    by (simp add: complete_decision_def build_defensibility_record_def Let_def no_results mode volatility_basis_def number_or_none_def
        risk_reward_ratio_def predictive_direction_def explicit_projection_def management_entry_def debate_entry_def validator_entries_def
        split: option.split pyval.split)
qed

definition fz_demo_world :: finalize_world where
  "fz_demo_world = \<lparr>fz_parse = (\<lambda>_. None), fz_prose = (\<lambda>_. []), fz_loads = (\<lambda>_. None),
     fz_cfg = resolve_opportunity_config (\<lambda>_. None), fz_env = (\<lambda>_. None), fz_now = Fin 1, fz_user = PNone, fz_model_id = None,
     fz_prompt_hash = None, fz_prompt_set_hash = None\<rparr>"

definition fz_demo_run :: "string \<Rightarrow> pyval \<Rightarrow> run_facts" where
  "fz_demo_run mode manual = \<lparr>rf_messages = [], rf_mode = Some mode, rf_symbol = Some ''TCS'', rf_timeframe = Some ''1D'',
     rf_profile = None, rf_manual = manual\<rparr>"

definition fz_demo_buy :: pydict where
  "fz_demo_buy = [(''action'', PStr ''BUY'')]"

definition fz_demo_hold :: pydict where
  "fz_demo_hold = [(''action'', PStr ''HOLD'')]"

definition fz_demo_log :: commit_log where
  "fz_demo_log = \<lparr>cl_committed = [], cl_journal = empty_journal, cl_recos = (\<lambda>_. None)\<rparr>"

lemma finalize_demo:
  assumes "d = fz_demo_buy \<or> d = fz_demo_hold" "prior_record tid cl = None"
  shows "\<exists>d' cl'. finalize_decision fz_demo_world (fz_demo_run ''FIND'' PNone) tid d cl = Inr (d', cl')"
proof -
  obtain d' where "complete_decision fz_demo_world (fz_demo_run ''FIND'' PNone) d (cl_journal cl) = Inr d'"
    using complete_without_results [of "fz_demo_run ''FIND'' PNone" d fz_demo_world "cl_journal cl"] assms(1)
    by (auto simp: fz_demo_run_def fz_demo_buy_def fz_demo_hold_def dict_get_def)
  then show ?thesis using assms(2) by (simp add: finalize_decision_def)
qed

theorem verify_checks_agree_witness:
  "\<exists>cs out. verify_mode_validator_checks (Some (side_text BUY)) (Some (bracket_levels 100 95 115)) (Some (Fin 2)) (PFloat (Fin 2)) = Inr cs
    \<and> validate_trade (\<lambda>_. None) BUY (Some (flevels 100 95 115)) (atr_val (Some (Fin 2))) PNone None (PFloat (Fin 2)) = Inr out
    \<and> first_failure cs = reason out"
  using verify_checks_agree [of BUY 100 95 115 "Some (Fin 2)" "Fin 2" "\<lambda>_. None" None] fwf_100_95_115 by auto

theorem finalize_keeps_trade_witness:
  "\<exists>d' cl'. finalize_decision fz_demo_world (fz_demo_run ''FIND'' PNone) (Some ''t1'') fz_demo_buy fz_demo_log = Inr (d', cl')
    \<and> dict_get d' ''action'' = PStr ''BUY''"
proof -
  obtain d' cl' where f: "finalize_decision fz_demo_world (fz_demo_run ''FIND'' PNone) (Some ''t1'') fz_demo_buy fz_demo_log = Inr (d', cl')"
    using finalize_demo [of fz_demo_buy "Some ''t1''" fz_demo_log] by (auto simp: prior_record_def fz_demo_log_def)
  have "''action'' \<notin> set STAMPED_KEYS" "dict_get fz_demo_buy ''action'' = PStr ''BUY''" by code_simp+
  then show ?thesis using finalize_keeps_trade [OF f] f by auto
qed

theorem second_commit_keeps_first_record_witness:
  "\<exists>d1 cl1 d2. finalize_decision fz_demo_world (fz_demo_run ''FIND'' PNone) (Some ''t1'') fz_demo_buy fz_demo_log = Inr (d1, cl1)
    \<and> finalize_decision fz_demo_world (fz_demo_run ''FIND'' PNone) (Some ''t1'') fz_demo_hold cl1 = Inr (d2, cl1)
    \<and> dict_get d2 ''action'' = PStr ''HOLD'' \<and> dict_get d2 ''defensibility'' = dict_get d1 ''defensibility''"
proof -
  obtain d1 cl1 where f: "finalize_decision fz_demo_world (fz_demo_run ''FIND'' PNone) (Some ''t1'') fz_demo_buy fz_demo_log = Inr (d1, cl1)"
    using finalize_demo [of fz_demo_buy "Some ''t1''" fz_demo_log] by (auto simp: prior_record_def fz_demo_log_def)
  obtain r where "prior_record (Some ''t1'') cl1 = Some r" using committed_prior [OF f] by blast
  then obtain d2 cl2 where g: "finalize_decision fz_demo_world (fz_demo_run ''FIND'' PNone) (Some ''t1'') fz_demo_hold cl1 = Inr (d2, cl2)"
    by (simp add: finalize_decision_def)
  show ?thesis using second_commit_keeps_first_record [OF f g] f g by (auto simp: fz_demo_hold_def dict_get_def)
qed

text \<open>A HOLD that a verification of a proposed BUY ends with is stamped as a scalp.\<close>

theorem verify_hold_is_tiered:
  "dict_get (stamp_opportunity_tier fz_demo_world (fz_demo_run ''VERIFY'' (PDict [(''side'', PStr ''BUY'')])) fz_demo_hold) ''opportunity_tier''
     = PStr ''scalp''"
  by code_simp

definition fz_demo_results :: tool_results where
  "fz_demo_results = (\<lambda>n. if n = ''get_event_risk'' then PDict [(''event_risk'', PStr ''through_event''), (''days_until_event'', PInt 2),
     (''event_date'', PStr ''2025-01-17''), (''event_recommendation'', PStr ''stand_aside'')] else PNone)"

definition fz_demo_event :: pydict where
  "fz_demo_event = (case event_entry fz_demo_results of Inr e \<Rightarrow>
     opposed (Some ''BUY'') ''event_risk'' ''through_event'' ''trade_held_through_event'' event_opposition e | Inl _ \<Rightarrow> [])"

theorem signals_cite_results_witness:
  "\<exists>tool d. (''event'', tool) \<in> set SIGNAL_TOOLS \<and> fz_demo_results tool = PDict d \<and> cited d ''days_until_event'' (PInt 2)"
proof -
  have "case record_signals fz_demo_results (Some ''BUY'') of Inr sg \<Rightarrow>
      list_ex (\<lambda>(n, e). n = ''event'' \<and> list_ex (\<lambda>kv. kv = (''days_until_event'', PInt 2)) e) sg | Inl _ \<Rightarrow> False" by code_simp
  then obtain sg e where "record_signals fz_demo_results (Some ''BUY'') = Inr sg" "(''event'', e) \<in> set sg" "(''days_until_event'', PInt 2) \<in> set e"
    by (auto simp: list_ex_iff split: sum.splits)
  moreover have "''days_until_event'' \<notin> {''available'', ''reason''}" "''days_until_event'' \<notin> set STATEMENT_KEYS" by code_simp+
  ultimately show ?thesis using signals_cite_results by blast
qed
end
