(* ===== verification/FingerprintFacts.thy ===== *)
theory FingerprintFacts
  imports Fingerprint
begin

text \<open>
  The tags of a decision come from fixed small enumerations, and the key they are joined to can be taken
  apart into the same dimensions and values.
\<close>

subsection \<open>Words without separators\<close>

definition plain :: "string \<Rightarrow> bool" where
  "plain s \<longleftrightarrow> s \<noteq> [] \<and> list_all (\<lambda>c. \<not> is_space c \<and> c \<noteq> CHR ''|'' \<and> c \<noteq> CHR '':'') s"

lemma strip_id: "s \<noteq> [] \<Longrightarrow> \<not> is_space (hd s) \<Longrightarrow> \<not> is_space (last s) \<Longrightarrow> py_strip s = s"
proof -
  assume "s \<noteq> []" "\<not> is_space (hd s)" "\<not> is_space (last s)"
  then have "dropWhile is_space s = s" "dropWhile is_space (rev s) = rev s" by (simp_all add: dropWhile_eq_self_iff hd_rev)
  then show ?thesis by (simp add: py_strip_def)
qed

lemma plain_ends: "plain s \<Longrightarrow> s \<noteq> [] \<and> \<not> is_space (hd s) \<and> \<not> is_space (last s)"
  unfolding plain_def list_all_iff by (meson hd_in_set last_in_set)

lemma token_chars: "plain s \<Longrightarrow> CHR ''|'' \<notin> set s \<and> CHR '':'' \<notin> set s"
  unfolding plain_def list_all_iff by blast

lemma strip_plain: "plain s \<Longrightarrow> py_strip s = s"
  using plain_ends strip_id by blast

lemma split_no_sep: "sep \<notin> set w \<Longrightarrow> py_split sep w = [w]"
  by (induction w) auto

lemma split_join:
  "ws \<noteq> [] \<Longrightarrow> \<forall>w\<in>set ws. sep \<notin> set w \<Longrightarrow> py_split sep (join_with [sep] ws) = ws"
proof (induction "[sep]" ws rule: join_with.induct)
  case (3 x y ys)
  have "py_split sep (x @ [sep] @ r) = x # py_split sep r" if "sep \<notin> set x" for r
    using that by (induction x) auto
  with 3 show ?case by simp
qed (auto simp: split_no_sep)

lemma partition_tag: "CHR '':'' \<notin> set k \<Longrightarrow> partition_colon (k @ '':'' @ v) = (k, True, v)"
  by (induction k) auto

lemma strip_tag: "plain k \<Longrightarrow> plain v \<Longrightarrow> py_strip (k @ '':'' @ v) = k @ '':'' @ v"
  using plain_ends [of k] plain_ends [of v] by (intro strip_id) auto

lemma read_tag: assumes "plain k" "plain v" "py_lower v \<noteq> UNKNOWN_VALUE \<or> v = UNKNOWN_VALUE"
  shows "read_token (k @ '':'' @ v) = (k, v)"
proof -
  have p: "partition_colon (k @ '':'' @ v) = (k, True, v)" using assms(1) token_chars partition_tag by blast
  show ?thesis using assms plain_ends [of k] plain_ends [of v]
    by (auto simp only: read_token_def p Let_def prod.case strip_plain simp_thms if_True if_False split: if_splits)
qed

lemma put_new: "k \<notin> fst ` set d \<Longrightarrow> put_value d k v = d @ [(k, v)]"
  by (induction d) auto

lemma put_all: "distinct (map fst (d @ kvs)) \<Longrightarrow> foldl (\<lambda>d (k, v). put_value d k v) d kvs = d @ kvs"
  by (induction kvs arbitrary: d) (auto simp: put_new)

definition readable :: "string \<times> string \<Rightarrow> bool" where
  "readable kv \<longleftrightarrow> plain (fst kv) \<and> plain (snd kv) \<and> (py_lower (snd kv) \<noteq> UNKNOWN_VALUE \<or> snd kv = UNKNOWN_VALUE)"

lemma key_read_back:
  assumes "kvs \<noteq> []" "list_all readable kvs" "distinct (map fst kvs)"
  shows "parse_setup_key (PStr (setup_key_from_tags (map (\<lambda>(k, v). k @ '':'' @ v) kvs))) = kvs"
proof -
  let ?tag = "\<lambda>(k, v). k @ '':'' @ v" and ?s = "join_with ''|'' (map (\<lambda>(k, v). k @ '':'' @ v) kvs)"
  have nosep: "CHR ''|'' \<notin> set (?tag kv) \<and> py_strip (?tag kv) = ?tag kv \<and> ?tag kv \<noteq> [] \<and> read_token (?tag kv) = kv"
    if "kv \<in> set kvs" for kv
  proof -
    obtain k v where kv: "kv = (k, v)" by (cases kv)
    have r: "plain k" "plain v" "py_lower v \<noteq> UNKNOWN_VALUE \<or> v = UNKNOWN_VALUE"
      using assms(2) that by (auto simp only: kv list_all_iff readable_def fst_conv snd_conv)
    have "CHR ''|'' \<noteq> CHR '':''" by simp
    then show ?thesis using r token_chars [of k] token_chars [of v] strip_tag [of k v] read_tag [of k v] by (simp add: kv del: char.inject)
  qed
  have split: "py_split (CHR ''|'') ?s = map ?tag kvs"
    using assms(1) nosep by (intro split_join) auto
  have strip: "map py_strip (map ?tag kvs) = map ?tag kvs" and keep: "filter (\<lambda>t. t \<noteq> []) (map ?tag kvs) = map ?tag kvs"
    using nosep by (auto simp: filter_id_conv)
  have "py_strip ?s \<noteq> []"
  proof -
    obtain k v rest where kvs: "kvs = (k, v) # rest" using assms(1) by (cases kvs) auto
    have "plain k" using assms(2) kvs by (simp add: readable_def)
    then obtain a k' where "k = a # k'" "\<not> is_space a" by (cases k) (auto simp: plain_def)
    then obtain r where "?s = a # r" by (cases rest) (auto simp: kvs)
    then show ?thesis using \<open>\<not> is_space a\<close> by (auto simp: py_strip_def dropWhile_eq_Nil_conv)
  qed
  moreover have "foldl (\<lambda>d t. let (k, v) = read_token t in put_value d k v) [] (map ?tag ys) = foldl (\<lambda>d (k, v). put_value d k v) [] ys"
    if "set ys \<subseteq> set kvs" for ys
    using that nosep by (induction ys rule: rev_induct) auto
  ultimately show ?thesis
    using assms(1) put_all [of "[]" kvs] assms(3)
    by (simp only: parse_setup_key_def setup_key_from_tags_def pyval.case if_False map_is_Nil_conv split strip keep subset_refl append_Nil)
qed

subsection \<open>The enumerations\<close>

definition SETUP_VOCABULARY :: "(string \<times> string list) list" where
  "SETUP_VOCABULARY = [(''macro'', [''against'', ''aligned'', ''unknown'', ''neutral'']), (''pred'', [''aligned'', ''conflict'', ''na'']),
     (''va'', [''above'', ''inside'', ''below'', ''unknown'']), (''regime'', REGIME_TAG_VALUES), (''rs'', RS_TAG_VALUES),
     (''fc'', FC_TAG_VALUES), (''tm'', MANAGEMENT_STYLE_TAGS), (''sess'', SESS_TAG_VALUES), (''db'', DB_TAG_VALUES),
     (''opt'', OPT_TAG_VALUES), (''tier'', [''a_plus'', ''b_continuation'', ''scalp'', ''stand_aside'', ''unknown'']),
     (''evt'', EVT_TAG_VALUES)]"

definition in_vocabulary :: "string \<times> string \<Rightarrow> string \<times> string list \<Rightarrow> bool" where
  "in_vocabulary kv voc \<longleftrightarrow> fst kv = fst voc \<and> snd kv \<in> set (snd voc)"

lemma entry_tag_in: "''unknown'' \<in> S \<Longrightarrow> (\<And>e. f e \<in> S) \<Longrightarrow> entry_tag d name f \<in> S"
  by (simp add: entry_tag_def split: option.split)

lemma known_or_in: "''unknown'' \<in> set vs \<Longrightarrow> known_or vs t \<in> set vs"
  by (simp add: known_or_def)

lemma tag_values:
  "regime_tag d \<in> set REGIME_TAG_VALUES" "relative_strength_tag d \<in> set RS_TAG_VALUES" "forecast_tag d \<in> set FC_TAG_VALUES"
  "style_tag d \<in> set MANAGEMENT_STYLE_TAGS" "session_tag d \<in> set SESS_TAG_VALUES" "debate_tag d \<in> set DB_TAG_VALUES"
  "options_tag d \<in> set OPT_TAG_VALUES" "event_tag d \<in> set EVT_TAG_VALUES"
proof -
  have u: "''unknown'' \<in> set REGIME_TAG_VALUES" "''unknown'' \<in> set RS_TAG_VALUES" "''unknown'' \<in> set FC_TAG_VALUES"
    "''unknown'' \<in> set MANAGEMENT_STYLE_TAGS" "''unknown'' \<in> set SESS_TAG_VALUES" "''unknown'' \<in> set OPT_TAG_VALUES"
    "''neutral'' \<in> set OPT_TAG_VALUES" "''expiry'' \<in> set SESS_TAG_VALUES" "''offhours'' \<in> set SESS_TAG_VALUES"
    by code_simp+
  show "regime_tag d \<in> set REGIME_TAG_VALUES" unfolding regime_tag_def
    by (rule entry_tag_in) (simp_all only: u known_or_in simp_thms split: option.split if_split)
  show "relative_strength_tag d \<in> set RS_TAG_VALUES" unfolding relative_strength_tag_def Let_def
    by (rule entry_tag_in, simp only: u, simp only: u known_or_in simp_thms split: if_split, blast)
  show "forecast_tag d \<in> set FC_TAG_VALUES" unfolding forecast_tag_def Let_def
    by (rule entry_tag_in) (simp_all only: u known_or_in simp_thms split: if_split sum.split)
  show "style_tag d \<in> set MANAGEMENT_STYLE_TAGS" unfolding style_tag_def
    by (rule entry_tag_in) (simp_all only: u known_or_in)
  show "session_tag d \<in> set SESS_TAG_VALUES" unfolding session_tag_def Let_def
    by (rule entry_tag_in) (simp_all only: u known_or_in simp_thms split: if_split)
  show "options_tag d \<in> set OPT_TAG_VALUES" unfolding options_tag_def Let_def
    by (rule entry_tag_in) (simp_all only: u known_or_in simp_thms split: if_split)
  show "debate_tag d \<in> set DB_TAG_VALUES"
    by (simp add: debate_tag_def DB_TAG_VALUES_def Let_def split: sum.split pyval.split)
  show "event_tag d \<in> set EVT_TAG_VALUES" unfolding event_tag_def EVT_TAG_VALUES_def
    by (rule entry_tag_in) (simp_all add: Let_def)
qed

lemma setup_vocabulary:
  "setup_values d = Inr vs \<Longrightarrow> hd vs = (''dir'', decision_action d) \<and> list_all2 in_vocabulary (tl vs) SETUP_VOCABULARY"
proof -
  assume "setup_values d = Inr vs"
  then obtain deff vp where vs: "vs = [(''dir'', decision_action d), (''macro'', macro_tag (prose_of deff ''macro_trend_conflict'')),
       (''pred'', predictive_tag (prose_of deff ''predictive_conflict'')), (''va'', value_area_tag vp),
       (''regime'', regime_tag d), (''rs'', relative_strength_tag d), (''fc'', forecast_tag d), (''tm'', style_tag d),
       (''sess'', session_tag d), (''db'', debate_tag d), (''opt'', options_tag d), (''tier'', tier_tag (PDict d)),
       (''evt'', event_tag d)]"
    unfolding setup_values_def rbind_eq_Inr by auto
  have va: "value_area_tag vp \<in> set [''above'', ''inside'', ''below'', ''unknown'']"
  proof -
    have "hd (py_split (CHR ''_'') ''above_value_area'') = ''above''" "hd (py_split (CHR ''_'') ''inside_value_area'') = ''inside''"
      "hd (py_split (CHR ''_'') ''below_value_area'') = ''below''" by code_simp+
    then show ?thesis by (auto simp: value_area_tag_def split: pyval.split simp del: py_split.simps)
  qed
  show ?thesis
    by (simp only: vs SETUP_VOCABULARY_def list.sel list_all2_Cons list_all2_Nil in_vocabulary_def fst_conv snd_conv tag_values va simp_thms)
      (auto simp: macro_tag_def predictive_tag_def tier_tag_def Let_def split: pyval.split)
qed

lemma vocabulary_readable: "list_all (\<lambda>(k, vs). list_all (\<lambda>v. readable (k, v)) vs) SETUP_VOCABULARY"
  and vocabulary_names: "distinct (''dir'' # map fst SETUP_VOCABULARY)" and vocabulary_small: "list_all (\<lambda>(k, vs). length vs \<le> 8) SETUP_VOCABULARY"
  by code_simp+

lemma vocabulary_names_of: "list_all2 in_vocabulary kvs voc \<Longrightarrow> map fst kvs = map fst voc"
  by (induction rule: list_all2_induct) (auto simp: in_vocabulary_def)

lemma vocabulary_readable_of:
  "list_all2 in_vocabulary kvs voc \<Longrightarrow> list_all (\<lambda>(k, vs). list_all (\<lambda>v. readable (k, v)) vs) voc \<Longrightarrow> list_all readable kvs"
  by (induction rule: list_all2_induct) (auto simp: in_vocabulary_def list_all_iff)

text \<open>C21: The fingerprint of every decision has the same thirteen dimensions in the same order, the first
  being the action, and every other value comes from an enumeration of at most eight.\<close>

theorem setup_tags_enumerated:
  assumes "setup_values d = Inr vs"
  shows "map fst vs = ''dir'' # map fst SETUP_VOCABULARY \<and> snd (hd vs) = decision_action d
    \<and> list_all2 (\<lambda>(k, v) (k', allowed). k = k' \<and> v \<in> set allowed \<and> length allowed \<le> 8) (tl vs) SETUP_VOCABULARY"
proof -
  have hd: "hd vs = (''dir'', decision_action d)" and tl: "list_all2 in_vocabulary (tl vs) SETUP_VOCABULARY"
    using setup_vocabulary [OF assms] by blast+
  then obtain rest where vs: "vs = (''dir'', decision_action d) # rest"
    by (cases vs) (auto simp: SETUP_VOCABULARY_def)
  have "list_all2 (\<lambda>kv voc. in_vocabulary kv voc \<and> length (snd voc) \<le> 8) rest SETUP_VOCABULARY"
    using tl vocabulary_small by (auto simp: vs list_all2_conv_all_nth list_all_length case_prod_beta)
  then show ?thesis using vocabulary_names_of [of rest] tl
    by (auto simp: vs in_vocabulary_def case_prod_beta elim: list_all2_mono)
qed

definition demo_setup :: pydict where
  "demo_setup = [(''action'', PStr ''BUY''), (''opportunity_tier'', PStr ''scalp''), (''defensibility'', PDict
     [(''macro_trend_conflict'', PStr ''Aligned with the 1D trend bias (Bullish).''),
      (''regime'', PDict [(''available'', PBool True), (''trend_state'', PStr ''ranging''), (''favorability'', PStr ''neutral'')]),
      (''event'', PDict [(''available'', PBool False), (''event_risk'', PStr ''clear'')])])]"

definition demo_setup_values :: "(string \<times> string) list" where
  "demo_setup_values = [(''dir'', ''BUY''), (''macro'', ''aligned''), (''pred'', ''na''), (''va'', ''unknown''), (''regime'', ''range-neutral''),
     (''rs'', ''unknown''), (''fc'', ''unknown''), (''tm'', ''unknown''), (''sess'', ''unknown''), (''db'', ''unknown''), (''opt'', ''unknown''),
     (''tier'', ''scalp''), (''evt'', ''unknown'')]"

lemma demo_setup_read: "setup_values demo_setup = Inr demo_setup_values"
  by code_simp

theorem setup_tags_enumerated_witness: "map fst demo_setup_values = ''dir'' # map fst SETUP_VOCABULARY"
  using setup_tags_enumerated [OF demo_setup_read] by blast



end
