(* ===== verification/AttributionFacts.thy ===== *)
theory AttributionFacts
  imports Attribution
begin

text \<open>
  What the attribution report says is what the rows say: the streamed tallies are the recount of the rows of
  each value, a dimension that too few scored rows name is never rated, and the weights drawn from a
  report only attenuate.
\<close>

subsection \<open>Tallies as a map\<close>

lemma map_of_update_at: "map_of (update_at new f k d) = (map_of d)(k \<mapsto> f (case map_of d k of None \<Rightarrow> new | Some v \<Rightarrow> v))"
  by (induction d) (auto simp: fun_eq_iff)

lemma update_at_keys: "fst ` set (update_at new f k d) = insert k (fst ` set d)"
  by (induction new f k d rule: update_at.induct) (simp_all add: insert_commute)

lemma update_at_distinct: "distinct (map fst d) \<Longrightarrow> distinct (map fst (update_at new f k d))"
  by (induction new f k d rule: update_at.induct) (simp_all add: update_at_keys, blast)

lemma put_value_keys: "fst ` set (put_value d k v) = insert k (fst ` set d)"
  by (induction d k v rule: put_value.induct) (simp_all add: insert_commute)

lemma put_value_distinct: "distinct (map fst d) \<Longrightarrow> distinct (map fst (put_value d k v))"
  by (induction d k v rule: put_value.induct) (simp_all add: put_value_keys, blast)

lemma parsed_distinct: "distinct (map fst (parse_setup_key key))"
proof -
  have "distinct (map fst (foldl (\<lambda>d t. let (k, v) = read_token t in put_value d k v) d ts))" if "distinct (map fst d)" for d ts
    using that by (induction ts arbitrary: d) (auto simp: put_value_distinct Let_def split: prod.split)
  then show ?thesis by (simp add: parse_setup_key_def split: pyval.split)
qed

definition bucket_at :: "tallies \<Rightarrow> string \<Rightarrow> string \<Rightarrow> bucket" where
  "bucket_at acc dm v = (case map_of acc dm of None \<Rightarrow> empty_bucket
     | Some bs \<Rightarrow> (case map_of bs v of None \<Rightarrow> empty_bucket | Some b \<Rightarrow> b))"

lemma bucket_at_update:
  "bucket_at (update_at [] (update_at empty_bucket f v) dm acc) dm' v'
     = (if dm' = dm \<and> v' = v then f (bucket_at acc dm v) else bucket_at acc dm' v')"
  by (auto simp: bucket_at_def map_of_update_at split: option.split)

lemma bucket_at_tokens:
  "distinct (map fst toks) \<Longrightarrow> bucket_at (foldl (\<lambda>a (dm, v). update_at [] (update_at empty_bucket f v) dm a) acc toks) dm v
     = (if map_of toks dm = Some v then f (bucket_at acc dm v) else bucket_at acc dm v)"
proof (induction toks arbitrary: acc)
  case (Cons t toks)
  obtain d u where t: "t = (d, u)" by (cases t)
  have "map_of toks d = None" using Cons.prems by (auto simp: t map_of_eq_None_iff)
  then show ?case using Cons by (auto simp: t bucket_at_update)
qed simp

text \<open>The rows of a dimension's value, and their outcome.\<close>

definition row_key :: "pyval \<Rightarrow> string \<Rightarrow> string option" where
  "row_key row = (case row of PDict d \<Rightarrow> map_of (parse_setup_key (dict_get d ''setup_key'')) | _ \<Rightarrow> Map.empty)"

definition in_group :: "string \<Rightarrow> string \<Rightarrow> pyval \<Rightarrow> bool" where
  "in_group dm v row \<longleftrightarrow> is_scored_trade row \<and> row_key row dm = Some v"

definition row_won :: "pyval \<Rightarrow> bool" where
  "row_won row \<longleftrightarrow> (case row of PDict d \<Rightarrow> word_of (dict_get d ''status'') = ''win'' | _ \<Rightarrow> False)"

definition row_r :: "pyval \<Rightarrow> pyfloat" where
  "row_r row = (case row of PDict d \<Rightarrow> (case as_float (dict_get d ''r_multiple'') of Inr r \<Rightarrow> r | _ \<Rightarrow> NaN) | _ \<Rightarrow> NaN)"

lemma finite_as_float: "finite_number v = Inr True \<Longrightarrow> \<exists>r. as_float v = Inr r"
  by (cases v) (auto simp: finite_number_def as_float_def rbind_eq_Inr)

lemma bucket_at_row:
  "bucket_at (tally_row acc row) dm v = (if in_group dm v row
     then add_outcome (row_won row) (row_r row) (is_backtest_source row) (bucket_at acc dm v) else bucket_at acc dm v)"
proof (cases "is_scored_trade row")
  case True
  then obtain d where row: "row = PDict d" by (auto simp: is_scored_trade_def split: pyval.splits)
  obtain r where r: "as_float (dict_get d ''r_multiple'') = Inr r"
    using True finite_as_float by (auto simp: row is_scored_trade_def)
  show ?thesis using True
    by (simp add: row tally_row_def r bucket_at_tokens [OF parsed_distinct] in_group_def row_key_def row_won_def row_r_def)
qed (auto simp: tally_row_def in_group_def split: pyval.split)

lemma bucket_at_rows:
  "bucket_at (foldl tally_row [] rows) dm v = foldl (\<lambda>b row. add_outcome (row_won row) (row_r row) (is_backtest_source row) b) empty_bucket
     (filter (in_group dm v) rows)"
  by (induction rows rule: rev_induct) (simp_all add: bucket_at_row, simp add: bucket_at_def)

lemma outcomes_counted:
  fixes rows :: "pyval list" and dm v :: string
  defines "b \<equiv> foldl (\<lambda>b row. add_outcome (row_won row) (row_r row) (is_backtest_source row) b) empty_bucket rows"
  shows "bk_wins b = int (length (filter row_won rows)) \<and> bk_losses b = int (length (filter (\<lambda>r. \<not> row_won r) rows))
    \<and> bk_backtest b = int (length (filter is_backtest_source rows)) \<and> bk_live b = int (length (filter (\<lambda>r. \<not> is_backtest_source r) rows))
    \<and> bk_r_sum b = foldl fadd (Fin 0) (map row_r rows)"
  unfolding b_def by (induction rows rule: rev_induct) (auto simp: add_outcome_def empty_bucket_def)

definition bucket_ok :: "bucket \<Rightarrow> bool" where
  "bucket_ok b \<longleftrightarrow> 0 < bk_wins b + bk_losses b \<and> 0 \<le> bk_wins b \<and> 0 \<le> bk_losses b"

definition values_ok :: "(string \<times> bucket) list \<Rightarrow> bool" where
  "values_ok bs \<longleftrightarrow> distinct (map fst bs) \<and> (\<forall>kv\<in>set bs. bucket_ok (snd kv))"

definition tallies_ok :: "tallies \<Rightarrow> bool" where
  "tallies_ok acc \<longleftrightarrow> distinct (map fst acc) \<and> (\<forall>kv\<in>set acc. values_ok (snd kv))"

lemma update_at_all:
  "\<forall>kv\<in>set d. P (snd kv) \<Longrightarrow> (\<And>v. P v \<or> v = new \<Longrightarrow> P (f v)) \<Longrightarrow> \<forall>kv\<in>set (update_at new f k d). P (snd kv)"
  by (induction new f k d rule: update_at.induct) simp_all

lemma values_ok_update: "values_ok bs \<or> bs = [] \<Longrightarrow> values_ok (update_at empty_bucket (add_outcome w r s) v bs)"
proof -
  have "bucket_ok (add_outcome w r s b)" if "bucket_ok b \<or> b = empty_bucket" for b
    using that by (auto simp: bucket_ok_def add_outcome_def empty_bucket_def)
  then show "values_ok bs \<or> bs = [] \<Longrightarrow> ?thesis"
    using update_at_all [of bs bucket_ok empty_bucket] by (auto simp: values_ok_def update_at_distinct)
qed

lemma tallies_ok_row: "tallies_ok acc \<Longrightarrow> tallies_ok (tally_row acc row)"
proof -
  have step: "tallies_ok (update_at [] (update_at empty_bucket (add_outcome w r s) v) dm a)" if "tallies_ok a" for a w r s v dm
    using that values_ok_update update_at_all [of a values_ok "[]" "update_at empty_bucket (add_outcome w r s) v"]
    by (simp add: tallies_ok_def update_at_distinct)
  have "tallies_ok (foldl (\<lambda>a (dm, v). update_at [] (update_at empty_bucket (add_outcome w r s) v) dm a) a toks)" if "tallies_ok a" for a w r s toks
    using that step by (induction toks arbitrary: a) auto
  then show "tallies_ok acc \<Longrightarrow> tallies_ok (tally_row acc row)"
    by (simp add: tally_row_def split: pyval.split sum.split)
qed

lemma tallies_ok_rows: "tallies_ok (foldl tally_row [] rows)"
  by (induction rows rule: rev_induct) (simp_all add: tallies_ok_row, simp add: tallies_ok_def)

text \<open>C22: The statistics of a value recount the journal: they hold the number of scored rows whose key gives
  the dimension this value, split into wins and losses and into seeded and live rows.\<close>

theorem dimension_stats_recount:
  assumes "compute_dimension_stats cfg rows = Inr st" "(dm, vs) \<in> set st" "(v, s) \<in> set vs"
  shows "ds_count s = int (length (filter (in_group dm v) rows)) \<and> 0 < ds_count s \<and> ds_value s = v
    \<and> ds_wins s = int (length (filter row_won (filter (in_group dm v) rows))) \<and> ds_count s = ds_wins s + ds_losses s
    \<and> ds_backtest_count s = int (length (filter is_backtest_source (filter (in_group dm v) rows)))
    \<and> ds_count s = ds_backtest_count s + ds_live_count s"
proof -
  let ?g = "filter (in_group dm v) rows" and ?acc = "foldl tally_row [] rows"
  obtain bs where bs: "(dm, bs) \<in> set ?acc" "rmap (\<lambda>(v, b). rbind (stats_of cfg v b) (\<lambda>s. Inr (v, s))) bs = Inr vs"
    using rmap_Inr_member [OF assms(1) [unfolded compute_dimension_stats_def] assms(2)] by (auto simp: rbind_eq_Inr)
  obtain b where b: "(v, b) \<in> set bs" "stats_of cfg v b = Inr s"
    using rmap_Inr_member [OF bs(2) assms(3)] by (auto simp: rbind_eq_Inr)
  have ok: "tallies_ok ?acc" by (rule tallies_ok_rows)
  then have "map_of ?acc dm = Some bs" "map_of bs v = Some b"
    using bs(1) b(1) by (force simp: tallies_ok_def values_ok_def intro!: map_of_is_SomeI)+
  then have "b = foldl (\<lambda>b row. add_outcome (row_won row) (row_r row) (is_backtest_source row) b) empty_bucket ?g"
    using bucket_at_rows [of rows dm v] by (simp add: bucket_at_def)
  then have counts: "bk_wins b = int (length (filter row_won ?g))" "bk_losses b = int (length (filter (\<lambda>r. \<not> row_won r) ?g))"
    "bk_backtest b = int (length (filter is_backtest_source ?g))" "bk_live b = int (length (filter (\<lambda>r. \<not> is_backtest_source r) ?g))"
    using outcomes_counted [of ?g] by simp_all
  have "0 < bk_wins b + bk_losses b" using ok bs(1) b(1) by (force simp: tallies_ok_def values_ok_def bucket_ok_def)
  moreover have "ds_count s = bk_wins b + bk_losses b" "ds_wins s = bk_wins b" "ds_losses s = bk_losses b"
    "ds_backtest_count s = bk_backtest b" "ds_live_count s = bk_live b" "ds_value s = v"
    using b(2) by (auto simp: stats_of_def Let_def rbind_eq_Inr)
  moreover have "length (filter row_won ?g) + length (filter (\<lambda>r. \<not> row_won r) ?g) = length ?g"
    "length (filter is_backtest_source ?g) + length (filter (\<lambda>r. \<not> is_backtest_source r) ?g) = length ?g"
    by (rule sum_length_filter_compl)+
  ultimately show ?thesis using counts by simp
qed

subsection \<open>Totals of a dimension\<close>

definition scored_in :: "tallies \<Rightarrow> string \<Rightarrow> int" where
  "scored_in acc dm = (case map_of acc dm of None \<Rightarrow> 0 | Some bs \<Rightarrow> sum_list (map (\<lambda>kv. bk_wins (snd kv) + bk_losses (snd kv)) bs))"

lemma update_at_sum:
  "(\<And>x. m (f x) = m x + (1::int)) \<Longrightarrow> m new = 0
    \<Longrightarrow> sum_list (map (\<lambda>kv. m (snd kv)) (update_at new f k d)) = sum_list (map (\<lambda>kv. m (snd kv)) d) + 1"
  by (induction new f k d rule: update_at.induct) auto

lemma scored_in_update:
  "scored_in (update_at [] (update_at empty_bucket (add_outcome w r s) v) dm acc) dm'
     = scored_in acc dm' + (if dm' = dm then 1 else 0)"
  using update_at_sum [of "\<lambda>b. bk_wins b + bk_losses b" "add_outcome w r s" empty_bucket v]
  by (auto simp: scored_in_def map_of_update_at add_outcome_def empty_bucket_def split: option.split)

lemma scored_in_tokens:
  "distinct (map fst toks) \<Longrightarrow> scored_in (foldl (\<lambda>a (dm, v). update_at [] (update_at empty_bucket (add_outcome w r s) v) dm a) acc toks) dm
     = scored_in acc dm + (if map_of toks dm = None then 0 else 1)"
proof (induction toks arbitrary: acc)
  case (Cons t toks)
  obtain d u where t: "t = (d, u)" by (cases t)
  have "map_of toks d = None" using Cons.prems by (auto simp: t map_of_eq_None_iff)
  then show ?case using Cons by (auto simp: t scored_in_update)
qed simp

definition names :: "string \<Rightarrow> pyval \<Rightarrow> bool" where
  "names dm row \<longleftrightarrow> is_scored_trade row \<and> row_key row dm \<noteq> None"

lemma scored_in_rows: "scored_in (foldl tally_row [] rows) dm = int (length (filter (names dm) rows))"
proof (induction rows rule: rev_induct)
  case (snoc row rows)
  have "scored_in (tally_row acc row) dm = scored_in acc dm + (if names dm row then 1 else 0)" for acc
  proof (cases "is_scored_trade row")
    case True
    then obtain d where row: "row = PDict d" by (auto simp: is_scored_trade_def split: pyval.splits)
    obtain r where "as_float (dict_get d ''r_multiple'') = Inr r"
      using True finite_as_float by (auto simp: row is_scored_trade_def)
    then show ?thesis using True
      by (simp add: row tally_row_def scored_in_tokens [OF parsed_distinct] names_def row_key_def)
  qed (auto simp: tally_row_def names_def split: pyval.split)
  then show ?case using snoc by simp
qed (simp add: scored_in_def)

lemma stats_total:
  assumes "compute_dimension_stats cfg rows = Inr st" "(dm, vs) \<in> set st"
  shows "sum_list (map (\<lambda>kv. ds_count (snd kv)) vs) = int (length (filter (names dm) rows))"
proof -
  obtain bs where bs: "(dm, bs) \<in> set (foldl tally_row [] rows)" "rmap (\<lambda>(v, b). rbind (stats_of cfg v b) (\<lambda>s. Inr (v, s))) bs = Inr vs"
    using rmap_Inr_member [OF assms(1) [unfolded compute_dimension_stats_def] assms(2)] by (auto simp: rbind_eq_Inr)
  have "sum_list (map (\<lambda>kv. ds_count (snd kv)) vs) = sum_list (map (\<lambda>kv. bk_wins (snd kv) + bk_losses (snd kv)) bs)"
    using bs(2) by (induction bs arbitrary: vs) (auto simp: rbind_eq_Inr stats_of_def Let_def)
  moreover have "map_of (foldl tally_row [] rows) dm = Some bs"
    using bs(1) tallies_ok_rows [of rows] by (simp add: tallies_ok_def)
  ultimately show ?thesis using scored_in_rows [of rows dm] by (simp add: scored_in_def)
qed

lemma sorted_values_total: "sum_list (map (f \<circ> snd) (sort_key fst vs)) = (\<Sum>kv\<leftarrow>vs. f (snd kv) :: int)"
proof -
  have "sum_mset (image_mset (f \<circ> snd) (mset (sort_key fst vs))) = sum_mset (image_mset (f \<circ> snd) (mset vs))" by simp
  then show ?thesis by (simp only: mset_map [symmetric] sum_mset_sum_list comp_def)
qed

lemma renumbered: "e \<in> set (number_ranks es) \<Longrightarrow> \<exists>e'\<in>set es. \<exists>i. e = e'\<lparr>dr_rank := i\<rparr>"
proof -
  assume "e \<in> set (number_ranks es)"
  then obtain p where p: "p \<in> set (enumerate 1 es)" "e = (snd p)\<lparr>dr_rank := int (fst p)\<rparr>"
    unfolding number_ranks_def set_map by (auto simp: case_prod_beta)
  then have "snd p \<in> set es" by (simp add: in_set_enumerate_eq) (metis One_nat_def Suc_le_lessD diff_less_mono le_zero_eq not_less nth_mem less_Suc0 diff_Suc_1 plus_1_eq_Suc)
  then show ?thesis using p(2) by blast
qed

lemma ranked_member:
  assumes "rank_and_recommend cfg st = Inr es" "e \<in> set es"
  shows "\<exists>dv\<in>set st. \<exists>e' i. report_dimension cfg dv = Inr e' \<and> e = e'\<lparr>dr_rank := i\<rparr>"
proof -
  obtain es' where es: "rmap (report_dimension cfg) st = Inr es'" "es = number_ranks (sort_key rank_key es')"
    using assms(1) by (auto simp: rank_and_recommend_def rbind_eq_Inr)
  then obtain e' i where "e' \<in> set es'" "e = e'\<lparr>dr_rank := i\<rparr>"
    using renumbered [of e "sort_key rank_key es'"] assms(2) by (simp only: set_sort) blast
  then show ?thesis using rmap_Inr_member [OF es(1)] by blast
qed

lemma report_total:
  assumes "build_attribution_report cfg rows = Inr rep" "e \<in> set (ar_dimensions rep)"
  shows "dr_total_scored e = int (length (filter (names (dr_dimension e)) rows))
    \<and> dr_recommendation e = recommend cfg (dr_total_scored e) (dr_contribution e)"
proof -
  obtain st where st: "compute_dimension_stats cfg rows = Inr st" "rank_and_recommend cfg st = Inr (ar_dimensions rep)"
    using assms by (auto simp: build_attribution_report_def Let_def rbind_eq_Inr split: if_splits)
  obtain dm vs e' i where e: "(dm, vs) \<in> set st" "report_dimension cfg (dm, vs) = Inr e'" "e = e'\<lparr>dr_rank := i\<rparr>"
    using ranked_member [OF st(2) assms(2)] by auto
  then show ?thesis using stats_total [OF st(1) e(1)]
    by (auto simp: report_dimension_def Let_def rbind_eq_Inr sorted_values_total)
qed

lemma rank_key_rank [simp]: "rank_key (e\<lparr>dr_rank := i\<rparr>) = rank_key e"
  by (simp add: rank_key_def split: option.split)

lemma map_enumerate: "map (\<lambda>(i, e). f i e) (enumerate n xs) = map2 f [n..<n + length xs] xs"
  by (simp add: enumerate_eq_zip)

text \<open>
  The order the report promises, said without the key the code sorts by: a dimension with a known contribution stands
  before every one without, of two known ones the earlier is not the smaller, and equals are in the order of
  their names.
\<close>

definition ranks_before :: "dimension_report \<Rightarrow> dimension_report \<Rightarrow> bool" where
  "ranks_before a b \<longleftrightarrow> (case dr_contribution a of
     Some x \<Rightarrow> (case dr_contribution b of Some y \<Rightarrow> \<not> flt x y \<and> (x = y \<longrightarrow> dr_dimension a \<le> dr_dimension b) | None \<Rightarrow> True)
   | None \<Rightarrow> dr_contribution b = None \<and> dr_dimension a \<le> dr_dimension b)"

definition contributions_are_numbers :: "attribution_report \<Rightarrow> bool" where
  "contributions_are_numbers rep \<longleftrightarrow> list_all (\<lambda>e. dr_contribution e \<noteq> Some NaN) (ar_dimensions rep)"

lemma fneg_le: "x \<noteq> NaN \<Longrightarrow> y \<noteq> NaN \<Longrightarrow> fneg x \<le> fneg y \<longleftrightarrow> \<not> flt x y" "x \<noteq> NaN \<Longrightarrow> y \<noteq> NaN \<Longrightarrow> fneg x = fneg y \<longleftrightarrow> x = y"
  by (cases x; cases y; auto simp: less_eq_pyfloat_def fle_def)+

lemma key_order:
  assumes "dr_contribution a \<noteq> Some NaN" "dr_contribution b \<noteq> Some NaN" and le: "rank_key a \<le> rank_key b"
  shows "ranks_before a b"
proof (cases "dr_contribution a")
  case None
  then show ?thesis using le by (cases "dr_contribution b") (auto simp: rank_key_def ranks_before_def less_eq_prod_def less_prod_def)
next
  case (Some x)
  note a = this
  show ?thesis
  proof (cases "dr_contribution b")
    case (Some y)
    then have "fneg x \<le> fneg y" "fneg x = fneg y \<Longrightarrow> dr_dimension a \<le> dr_dimension b" 
      using le a by (auto simp: rank_key_def)
    then show ?thesis using assms(1,2) a Some fneg_le [of x y] by (simp add: ranks_before_def)
  qed (simp add: ranks_before_def a)
qed

lemma keys_order:
  assumes "sorted (map rank_key es)" "list_all (\<lambda>e. dr_contribution e \<noteq> Some NaN) es" shows "sorted_wrt ranks_before es"
  using assms by (induction es) (auto simp: list_all_iff intro: key_order)

text \<open>C23: A report ranks its dimensions from one without gaps, the larger contribution before the smaller, unknown
  ones last and ties by name; a dimension never counts more trades than there are, and below the sample gate
  it is never recommended for anything but more data. The order is stated for contributions that are numbers: with a NaN
  among the keys Python's sort promises none.\<close>

theorem report_is_honest:
  assumes "build_attribution_report cfg rows = Inr rep"
  shows "map dr_rank (ar_dimensions rep) = map int [1..<Suc (length (ar_dimensions rep))]
    \<and> (contributions_are_numbers rep \<longrightarrow> sorted_wrt ranks_before (ar_dimensions rep))
    \<and> ar_total_scored rep = ar_backtest_scored rep + ar_live_scored rep
    \<and> (\<forall>e\<in>set (ar_dimensions rep). dr_total_scored e = int (length (filter (names (dr_dimension e)) rows))
        \<and> dr_total_scored e \<le> ar_total_scored rep
        \<and> (dr_total_scored e < ac_min_sample_dimension cfg \<longrightarrow> dr_recommendation e = R_insufficient_sample))"
proof -
  let ?es = "ar_dimensions rep"
  have "?es = [] \<or> (\<exists>st. rank_and_recommend cfg st = Inr ?es)"
    using assms by (auto simp: build_attribution_report_def Let_def rbind_eq_Inr split: if_splits)
  moreover have "[] = number_ranks (sort_key rank_key [])" by (simp add: number_ranks_def)
  ultimately obtain es' where es': "?es = number_ranks (sort_key rank_key es')"
    unfolding rank_and_recommend_def rbind_eq_Inr by (elim disjE exE conjE) (metis, metis sum.inject(2))
  have ranks: "map dr_rank ?es = map int [1..<Suc (length ?es)]"
    by (rule nth_equalityI) (auto simp: es' number_ranks_def nth_enumerate_eq simp del: upt_Suc)
  have "map rank_key ?es = map rank_key (sort_key rank_key es')"
    by (rule nth_equalityI) (auto simp: es' number_ranks_def nth_enumerate_eq)
  then have "sorted (map rank_key ?es)" by simp
  then have ordered: "contributions_are_numbers rep \<longrightarrow> sorted_wrt ranks_before ?es"
    by (simp add: contributions_are_numbers_def keys_order)
  have split: "ar_total_scored rep = ar_backtest_scored rep + ar_live_scored rep" and tot: "ar_total_scored rep = int (length (filter is_scored_trade rows))"
    using assms sum_length_filter_compl [of is_backtest_source "filter is_scored_trade rows"]
    by (auto simp: build_attribution_report_def Let_def rbind_eq_Inr)
  have "length (filter (names dm) rows) \<le> length (filter is_scored_trade rows)" for dm
    by (induction rows) (auto simp: names_def)
  then have "int (length (filter (names dm) rows)) \<le> ar_total_scored rep" for dm by (simp add: tot)
  then have each: "\<forall>e\<in>set ?es. dr_total_scored e = int (length (filter (names (dr_dimension e)) rows)) \<and> dr_total_scored e \<le> ar_total_scored rep
      \<and> (dr_total_scored e < ac_min_sample_dimension cfg \<longrightarrow> dr_recommendation e = R_insufficient_sample)"
    using report_total [OF assms] by (simp add: recommend_def)
  show ?thesis using ranks ordered split each by blast
qed

lemma put_value_member: "(k', v') \<in> set (put_value d k v) \<Longrightarrow> (k', v') \<in> set d \<or> (k' = k \<and> v' = v)"
  by (induction d k v rule: put_value.induct) (auto split: if_splits)

lemma usable_factor_range: "flt (Fin 0) (usable_factor cfg) \<and> fle (usable_factor cfg) (Fin 1)"
proof -
  have d: "DEFAULT_DOWN_WEIGHT_FACTOR = Fin (1 / 2)" by (simp add: DEFAULT_DOWN_WEIGHT_FACTOR_def fl_exact [of "1 / 2"], code_simp)
  show ?thesis
  proof (cases "ac_down_weight_factor cfg")
    case (Fin q) then show ?thesis by (simp add: usable_factor_def Let_def d)
  qed (simp_all add: usable_factor_def Let_def d)
qed

text \<open>C24: Every weight is positive and at most one, and a weight below one belongs to a dimension that
  carries the required sample and was recommended for down-weighting.\<close>

theorem weights_only_attenuate:
  assumes "build_attribution_report cfg rows = Inr rep" "(dm, w) \<in> set (derive_weight_map cfg rep)"
  shows "flt (Fin 0) w \<and> fle w (Fin 1)
    \<and> (w = Fin 1 \<or> (ac_min_sample_dimension cfg \<le> int (length (filter (names dm) rows))
        \<and> (\<exists>e\<in>set (ar_dimensions rep). dr_dimension e = dm \<and> dr_recommendation e = R_down_weight)))"
proof -
  let ?w = "\<lambda>e. if dr_recommendation e = R_down_weight then usable_factor cfg else Fin 1"
  have "\<exists>e\<in>set es. dr_dimension e = dm \<and> w = ?w e" if "(dm, w) \<in> set (foldl (\<lambda>m e. put_value m (dr_dimension e) (?w e)) [] es)" for es
    using that
  proof (induction es rule: rev_induct)
    case (snoc x es)
    let ?m = "foldl (\<lambda>m e. put_value m (dr_dimension e) (?w e)) [] es"
    have "(dm, w) \<in> set (put_value ?m (dr_dimension x) (?w x))" using snoc.prems by simp
    then have "(dm, w) \<in> set ?m \<or> dm = dr_dimension x \<and> w = ?w x" by (rule put_value_member)
    then show ?case
    proof
      assume "(dm, w) \<in> set ?m"
      from snoc.IH [OF this] show ?case by (metis Un_iff set_append)
    qed (metis Un_iff list.set_intros(1) set_append)
  qed simp
  then obtain e where e: "e \<in> set (ar_dimensions rep)" "dr_dimension e = dm" "w = ?w e"
    using assms(2) by (auto simp: derive_weight_map_def)
  moreover have "ac_min_sample_dimension cfg \<le> dr_total_scored e" if "dr_recommendation e = R_down_weight"
    using report_total [OF assms(1) e(1)] that by (auto simp: recommend_def split: if_splits)
  ultimately show ?thesis using usable_factor_range [of cfg] report_total [OF assms(1) e(1)] by auto
qed

subsection \<open>Witnesses\<close>

definition demo_row :: "string \<Rightarrow> string \<Rightarrow> pyfloat \<Rightarrow> pyval \<Rightarrow> pyval" where
  "demo_row key status r source = PDict [(''setup_key'', PStr key), (''status'', PStr status), (''r_multiple'', PFloat r), (''source'', source),
     (''symbol'', PStr ''TCS'')]"

definition demo_rows :: "pyval list" where
  "demo_rows = [demo_row ''dir:BUY'' ''win'' (Fin 2) (PStr ''backtest''), demo_row ''dir:BUY'' ''loss'' (Fin (- 1)) PNone,
     demo_row ''dir:BUY'' ''open'' (Fin 1) PNone]"

definition demo_attribution :: attribution_config where
  "demo_attribution = \<lparr>ac_min_sample_dimension = 2, ac_min_sample_value = 1, ac_contribution_threshold = Fin (1 / 8),
     ac_global_min_scored = 1, ac_down_weight_factor = Fin (1 / 4), ac_weight_map_enabled = True\<rparr>"

definition demo_value :: dimension_stats where
  "demo_value = \<lparr>ds_value = ''BUY'', ds_count = 2, ds_wins = 1, ds_losses = 1, ds_win_rate = Some (Fin (1 / 2)),
     ds_expectancy_r = Some (Fin (1 / 2)), ds_weak_prior = False, ds_backtest_count = 1, ds_live_count = 1\<rparr>"

lemma demo_stats: "compute_dimension_stats demo_attribution demo_rows = Inr [(''dir'', [(''BUY'', demo_value)])]"
  by code_simp

lemma demo_contribution: "compute_contribution demo_attribution [(''BUY'', demo_value)] = Inr (Some (Fin 0))"
  by code_simp

lemma demo_counted: "length (filter is_scored_trade demo_rows) = 2" "length (filter is_backtest_source (filter is_scored_trade demo_rows)) = 1"
  "length (filter (\<lambda>r. \<not> is_backtest_source r) (filter is_scored_trade demo_rows)) = 1"
  by code_simp+

definition demo_report :: attribution_report where
  "demo_report = \<lparr>ar_dimensions = [\<lparr>dr_dimension = ''dir'', dr_values = [demo_value], dr_total_scored = 2, dr_backtest_scored = 1,
       dr_live_scored = 1, dr_contribution = Some (Fin 0), dr_rank = 1, dr_recommendation = R_down_weight\<rparr>],
     ar_total_scored = 2, ar_backtest_scored = 1, ar_live_scored = 1, ar_config = demo_attribution, ar_weak_prior = False,
     ar_insufficient_data = False\<rparr>"

lemma demo_fields: "ac_min_sample_dimension demo_attribution = 2" "ac_contribution_threshold demo_attribution = Fin (1 / 8)"
  "ac_global_min_scored demo_attribution = 1" "ds_count demo_value = 2" "ds_backtest_count demo_value = 1" "ds_live_count demo_value = 1"
  by (simp_all add: demo_attribution_def demo_value_def)

lemma demo_built: "build_attribution_report demo_attribution demo_rows = Inr demo_report"
  using demo_counted
  by (auto simp: build_attribution_report_def demo_stats rank_and_recommend_def report_dimension_def demo_contribution
      number_ranks_def demo_report_def recommend_def Let_def demo_fields)

theorem dimension_stats_recount_witness: "ds_count demo_value = int (length (filter (in_group ''dir'' ''BUY'') demo_rows))"
  using dimension_stats_recount [OF demo_stats, of "''dir''" "[(''BUY'', demo_value)]" "''BUY''" demo_value] by simp

theorem report_is_honest_witness:
  "2 = int (length (filter (names ''dir'') demo_rows)) \<and> sorted_wrt ranks_before (ar_dimensions demo_report)"
  using report_is_honest [OF demo_built] by (simp add: demo_report_def contributions_are_numbers_def)

lemma demo_weights: "derive_weight_map demo_attribution demo_report = [(''dir'', Fin (1 / 4))]"
  by code_simp

theorem weights_only_attenuate_witness: "fle (Fin (1 / 4)) (Fin 1) \<and> 2 \<le> int (length (filter (names ''dir'') demo_rows))"
  using weights_only_attenuate [OF demo_built, of "''dir''" "Fin (1 / 4)"] by (simp add: demo_weights demo_fields)

end
