(* ===== verification/JournalFacts.thy ===== *)
theory JournalFacts
  imports Journal
begin

text \<open>
  What the journal promises under any sequence of its operations: ids grow, a thread has one row, scoring
  settles open trades only and never in the trade's favour, deduplication keeps the first row of each
  decision, and the counts add up.
\<close>

subsection \<open>The table\<close>

definition thread_ids_of :: "trade_row list \<Rightarrow> string list" where
  "thread_ids_of rows = List.map_filter tr_thread_id rows"

definition journal_ok :: "journal_table \<Rightarrow> bool" where
  "journal_ok jt \<longleftrightarrow> sorted_wrt (<) (map tr_id (jt_rows jt)) \<and> (\<forall>r\<in>set (jt_rows jt). 0 < tr_id r \<and> tr_id r \<le> jt_last_id jt)
     \<and> 0 \<le> jt_last_id jt \<and> distinct (thread_ids_of (jt_rows jt))"

lemma thread_ids_set: "t \<in> set (thread_ids_of rows) \<longleftrightarrow> (\<exists>r\<in>set rows. tr_thread_id r = Some t)"
  by (force simp: thread_ids_of_def List.map_filter_def)

lemma thread_ids_append: "thread_ids_of (rows @ [r]) = thread_ids_of rows @ (case tr_thread_id r of None \<Rightarrow> [] | Some t \<Rightarrow> [t])"
  by (auto simp: thread_ids_of_def List.map_filter_def split: option.split)

lemma thread_row_None: "thread_row t jt = None \<longleftrightarrow> t \<notin> set (thread_ids_of (jt_rows jt))"
  by (auto simp: thread_row_def find_None_iff thread_ids_set)

lemma thread_ids_map: "thread_ids_of rows = map the (filter (\<lambda>x. x \<noteq> None) (map tr_thread_id rows))"
  by (induction rows) (auto simp: thread_ids_of_def List.map_filter_def)

lemma journal_ok_cong:
  assumes "map tr_id (jt_rows jt') = map tr_id (jt_rows jt)" "map tr_thread_id (jt_rows jt') = map tr_thread_id (jt_rows jt)"
    "jt_last_id jt' = jt_last_id jt"
  shows "journal_ok jt' \<longleftrightarrow> journal_ok jt"
proof -
  have "(\<forall>r\<in>set rows. 0 < tr_id r \<and> tr_id r \<le> n) \<longleftrightarrow> (\<forall>i\<in>set (map tr_id rows). 0 < i \<and> i \<le> n)" for rows n by simp
  then have "journal_ok j \<longleftrightarrow> sorted_wrt (<) (map tr_id (jt_rows j)) \<and> (\<forall>i\<in>set (map tr_id (jt_rows j)). 0 < i \<and> i \<le> jt_last_id j)
      \<and> 0 \<le> jt_last_id j \<and> distinct (map the (filter (\<lambda>x. x \<noteq> None) (map tr_thread_id (jt_rows j))))" for j
    unfolding journal_ok_def thread_ids_map by blast
  then show ?thesis by (simp only: assms)
qed

lemma insert_new_ok:
  assumes "journal_ok jt" "case tr_thread_id r of None \<Rightarrow> True | Some t \<Rightarrow> t \<notin> set (thread_ids_of (jt_rows jt))"
  shows "journal_ok (jt\<lparr>jt_rows := jt_rows jt @ [r\<lparr>tr_id := jt_last_id jt + 1\<rparr>], jt_last_id := jt_last_id jt + 1\<rparr>)"
  using assms by (fastforce simp: journal_ok_def sorted_wrt_append thread_ids_append split: option.splits)

lemma insert_trade_ok: "journal_ok jt \<Longrightarrow> journal_ok (fst (insert_trade row jt))"
  using insert_new_ok [of jt row] by (auto simp: insert_trade_def thread_row_None split: option.splits)

lemma record_decision_ok: "journal_ok jt \<Longrightarrow> journal_ok (fst (record_decision now d s t m tid jt))"
  by (simp add: record_decision_def insert_trade_ok split: sum.split)

lemma record_backtest_ok: "journal_ok jt \<Longrightarrow> journal_ok (fst (record_backtest_trade now d s t st p oa r jt))"
  by (simp add: record_backtest_trade_def Let_def insert_trade_ok split: sum.split)

lemma filter_rows_ok: "journal_ok jt \<Longrightarrow> journal_ok (jt\<lparr>jt_rows := filter p (jt_rows jt)\<rparr>)"
proof -
  have "thread_ids_of (filter p rows) = filter (\<lambda>t. \<exists>r\<in>set rows. p r \<and> tr_thread_id r = Some t) (thread_ids_of rows)"
    if "distinct (thread_ids_of rows)" for rows
    using that
  proof (induction rows)
    case (Cons r rows)
    have cons: "thread_ids_of (r # rs) = (case tr_thread_id r of None \<Rightarrow> [] | Some t \<Rightarrow> [t]) @ thread_ids_of rs" for rs
      by (simp add: thread_ids_of_def List.map_filter_def split: option.split)
    have "distinct (thread_ids_of rows)" using Cons.prems by (auto simp: cons split: option.splits)
    moreover have "filter (\<lambda>t. \<exists>x\<in>set (r # rows). p x \<and> tr_thread_id x = Some t) (thread_ids_of rows)
        = filter (\<lambda>t. \<exists>x\<in>set rows. p x \<and> tr_thread_id x = Some t) (thread_ids_of rows)"
      using Cons.prems by (intro filter_cong) (auto simp: cons split: option.splits)
    moreover have "\<not> (\<exists>x\<in>set rows. tr_thread_id x = tr_thread_id r)" if "tr_thread_id r \<noteq> None"
      using Cons.prems that by (auto simp: cons thread_ids_set split: option.splits)
    ultimately show ?case using Cons.IH by (auto simp: cons split: option.splits)
  qed (simp add: thread_ids_of_def)
  then show "journal_ok jt \<Longrightarrow> ?thesis" by (auto simp: journal_ok_def sorted_wrt_map sorted_wrt_filter)
qed

text \<open>The columns that scoring leaves alone, and what it does to a row.\<close>

definition same_trade :: "trade_row \<Rightarrow> trade_row \<Rightarrow> bool" where
  "same_trade r r' \<longleftrightarrow> r'\<lparr>tr_status := tr_status r, tr_outcome_price := tr_outcome_price r, tr_outcome_at := tr_outcome_at r,
     tr_r_multiple := tr_r_multiple r, tr_exit_breakdown := tr_exit_breakdown r, tr_scored_at := tr_scored_at r\<rparr> = r"

lemma same_trade_id: "same_trade r r' \<Longrightarrow> tr_id r' = tr_id r \<and> tr_thread_id r' = tr_thread_id r"
  by (cases r; cases r') (simp add: same_trade_def)

lemma same_trade_refl [simp]: "same_trade r r"
  by (simp add: same_trade_def)

lemma apply_score_same: "same_trade r r' \<Longrightarrow> same_trade r (apply_score now i u r')"
  by (cases r; cases r') (simp add: same_trade_def apply_score_def)

lemma apply_score_other: "tr_id r \<noteq> i \<Longrightarrow> apply_score now i u r = r"
  by (simp add: apply_score_def)

lemma apply_score_status: "tr_id r = i \<Longrightarrow> tr_status (apply_score now i u r) = su_status u"
  by (simp add: apply_score_def)

definition scored_from :: "trade_row set \<Rightarrow> trade_row \<Rightarrow> trade_row \<Rightarrow> bool" where
  "scored_from todo r r' \<longleftrightarrow> same_trade r r' \<and> (r' = r \<or> r \<in> todo \<and> tr_status r' \<in> {''win'', ''loss'', ''expired''})"

lemma scored_from_ids: "scored_from T r r' \<Longrightarrow> tr_id r' = tr_id r \<and> tr_thread_id r' = tr_thread_id r"
  using same_trade_id by (simp add: scored_from_def)

lemma walk_Cons_cases:
  assumes "walk_candles buy sl tp rr ms seen (c # cs) = Inr res"
  obtains (skip) "walk_candles buy sl tp rr ms seen cs = Inr res"
      "scoring_candle c = Inr None \<or> (\<exists>ts hi lo. scoring_candle c = Inr (Some (ts, hi, lo)) \<and> num_le ts (NF ms))"
    | (stop) ts hi lo tm where "scoring_candle c = Inr (Some (ts, hi, lo))" "\<not> num_le ts (NF ms)" "hits_stop buy sl hi lo"
      "res = Inl \<lparr>su_status = ''loss'', su_outcome_price = PFloat sl, su_outcome_at = tm, su_r_multiple = PFloat (Fin (- 1)), su_exit_breakdown = None\<rparr>"
    | (target) ts hi lo tm where "scoring_candle c = Inr (Some (ts, hi, lo))" "\<not> num_le ts (NF ms)" "\<not> hits_stop buy sl hi lo" "hits_target buy tp hi lo"
      "res = Inl \<lparr>su_status = ''win'', su_outcome_price = PFloat tp, su_outcome_at = tm, su_r_multiple = PFloat (round4 rr), su_exit_breakdown = None\<rparr>"
    | (pass) ts hi lo where "scoring_candle c = Inr (Some (ts, hi, lo))" "\<not> num_le ts (NF ms)" "\<not> hits_stop buy sl hi lo" "\<not> hits_target buy tp hi lo"
      "walk_candles buy sl tp rr ms (Some ts) cs = Inr res"
proof -
  obtain u where u: "scoring_candle c = Inr u" using assms by (cases "scoring_candle c") simp_all
  show thesis
  proof (cases u)
    case None
    then show thesis using assms u skip by simp
  next
    case (Some t)
    obtain ts hi lo where t: "t = (ts, hi, lo)" by (cases t)
    consider "num_le ts (NF ms)" | "\<not> num_le ts (NF ms)" "hits_stop buy sl hi lo"
      | "\<not> num_le ts (NF ms)" "\<not> hits_stop buy sl hi lo" "hits_target buy tp hi lo"
      | "\<not> num_le ts (NF ms)" "\<not> hits_stop buy sl hi lo" "\<not> hits_target buy tp hi lo" by blast
    then show thesis
    proof cases
      case 1 then show thesis using assms u Some t skip by simp
    next
      case 2
      then obtain tm where "seconds_of ts = Inr tm" "res = Inl \<lparr>su_status = ''loss'', su_outcome_price = PFloat sl, su_outcome_at = tm,
          su_r_multiple = PFloat (Fin (- 1)), su_exit_breakdown = None\<rparr>" using assms u Some t by (cases "seconds_of ts") simp_all
      then show thesis using stop 2 u Some t by blast
    next
      case 3
      then obtain tm where "seconds_of ts = Inr tm" "res = Inl \<lparr>su_status = ''win'', su_outcome_price = PFloat tp, su_outcome_at = tm,
          su_r_multiple = PFloat (round4 rr), su_exit_breakdown = None\<rparr>" using assms u Some t by (cases "seconds_of ts") simp_all
      then show thesis using target 3 u Some t by blast
    next
      case 4 then show thesis using assms u Some t pass by simp
    qed
  qed
qed

lemma walk_status: "walk_candles buy sl tp rr ms seen cs = Inr (Inl u) \<Longrightarrow> su_status u = ''win'' \<or> su_status u = ''loss''"
proof (induction cs arbitrary: seen)
  case (Cons c cs)
  from Cons.prems show ?case by (cases rule: walk_Cons_cases) (use Cons.IH in auto)
qed simp

lemma expired_status: "expired e n c seen b = Inr (Some u) \<Longrightarrow> su_status u = ''expired''"
  by (auto simp: expired_def rbind_eq_Inr split: option.splits if_splits)

lemma managed_status: "managed_outcome r x = Inr u \<Longrightarrow> su_status u = ''win'' \<or> su_status u = ''loss''"
  unfolding managed_outcome_def rbind_eq_Inr by (auto split: if_splits)

lemma score_bracketE:
  assumes "score_bracket expiry now r cs = Inr (Some u)"
  obtains e sl tp cr rr res where "stored_float (tr_entry r) = Some e" "stored_float (tr_stop_loss r) = Some sl"
    "stored_float (tr_take_profit r) = Some tp" "stored_float (tr_created_at r) = Some cr" "\<not> fle (fabs (fsub e sl)) (Fin 0)"
    "fdiv (fabs (fsub tp e)) (fabs (fsub e sl)) = Inr rr"
    "walk_candles (py_upper (tr_action r) = ''BUY'') sl tp rr (fmul cr (Fin 1000)) None cs = Inr res"
    "res = Inl u \<or> (\<exists>seen. res = Inr seen \<and> expired expiry now cr seen None = Inr (Some u))"
proof -
  obtain e sl tp cr where f: "stored_float (tr_entry r) = Some e" "stored_float (tr_stop_loss r) = Some sl"
    "stored_float (tr_take_profit r) = Some tp" "stored_float (tr_created_at r) = Some cr"
    using assms unfolding score_bracket_def by (simp split: option.splits)
  have pos: "\<not> fle (fabs (fsub e sl)) (Fin 0)" using assms by (auto simp: score_bracket_def f Let_def)
  then obtain rr res where r: "fdiv (fabs (fsub tp e)) (fabs (fsub e sl)) = Inr rr"
    "walk_candles (py_upper (tr_action r) = ''BUY'') sl tp rr (fmul cr (Fin 1000)) None cs = Inr res"
    "(case res of Inl upd \<Rightarrow> Inr (Some upd) | Inr seen \<Rightarrow> expired expiry now cr seen None) = Inr (Some u)"
    using assms by (auto simp only: score_bracket_def f Let_def option.case prod.case if_False rbind_eq_Inr)
  show thesis using that [OF f pos r(1,2)] r(3) by (cases res) auto
qed

lemma score_bracket_status: "score_bracket e n r cs = Inr (Some u) \<Longrightarrow> su_status u \<in> {''win'', ''loss'', ''expired''}"
proof (elim score_bracketE disjE exE conjE)
  fix rr sl tp cr res
  assume "walk_candles (py_upper (tr_action r) = ''BUY'') sl tp rr (fmul cr (Fin 1000)) None cs = Inr res" "res = Inl u"
  then show ?thesis using walk_status by blast
qed (use expired_status in blast)

lemma score_managed_status: "score_managed expiry now r cs p = Some u \<Longrightarrow> su_status u \<in> {''win'', ''loss'', ''expired''}"
proof -
  assume a: "score_managed expiry now r cs p = Some u"
  obtain plan cr where f: "plan_from_payload p = Some plan" "stored_float (tr_created_at r) = Some cr"
    using a unfolding score_managed_def by (simp split: option.splits)
  let ?sub = "rfilter (after_entry (fmul cr (Fin 1000))) cs"
  obtain sub where sub: "?sub = Inr sub" using a by (cases ?sub) (simp_all add: score_managed_def f)
  let ?res = "simulate_plan plan sub"
  have "managed_outcome ?res x = Inr u \<or> expired expiry now cr (last_time sub) (Some (breakdown_of ?res)) = Inr (Some u)"
    if "res_realized_r ?res = Some x" for x
    using a that by (cases "managed_outcome ?res x"; cases "expired expiry now cr (last_time sub) (Some (breakdown_of ?res))")
      (simp_all add: score_managed_def f sub Let_def split: sim_status.splits if_splits)
  moreover have "expired expiry now cr (last_time sub) (Some (breakdown_of ?res)) = Inr (Some u)" if "res_realized_r ?res = None"
    using a that by (cases "expired expiry now cr (last_time sub) (Some (breakdown_of ?res))")
      (simp_all add: score_managed_def f sub Let_def split: sim_status.splits)
  ultimately show ?thesis using managed_status expired_status by (cases "res_realized_r ?res") blast+
qed

lemma score_one_status: "score_one e n r cs = Inr (Some u) \<Longrightarrow> su_status u \<in> {''win'', ''loss'', ''expired''}"
  using score_bracket_status score_managed_status by (auto simp only: score_one_def sum.inject split: option.splits)

lemma scored_all_ids:
  "list_all2 (scored_from T) xs ys \<Longrightarrow> map tr_id ys = map tr_id xs \<and> map tr_thread_id ys = map tr_thread_id xs"
  by (induction rule: list_all2_induct) (auto dest: scored_from_ids)

lemma score_rows_scored:
  "score_rows e n f todo (rows, k) = (Some rows', k') \<Longrightarrow> set todo \<subseteq> T \<Longrightarrow> list_all2 (scored_from T) orig rows
    \<Longrightarrow> distinct (map tr_id orig) \<Longrightarrow> T \<subseteq> set orig \<Longrightarrow> list_all2 (scored_from T) orig rows'"
proof (induction e n f todo "(rows, k)" arbitrary: rows k rule: score_rows.induct)
  case (2 e n f r todo rows k)
  have ids: "map tr_id rows = map tr_id orig" using scored_all_ids [OF 2(5)] by blast
  show ?case
  proof (cases "score_row e n f r")
    case (Inr ou)
    show ?thesis
    proof (cases ou)
      case None
      with Inr 2 show ?thesis by simp
    next
      case (Some u)
      obtain cs where "score_one e n r cs = Inr (Some u)"
        using Inr Some by (auto simp: score_row_def split: option.splits if_splits)
      then have st: "su_status u \<in> {''win'', ''loss'', ''expired''}" by (rule score_one_status)
      have "list_all2 (scored_from T) orig (map (apply_score n (tr_id r) u) rows)"
        unfolding list_all2_conv_all_nth
      proof (intro conjI allI impI)
        show "length orig = length (map (apply_score n (tr_id r) u) rows)" using 2(5) by (simp add: list_all2_lengthD)
        fix i assume i: "i < length orig"
        have old: "scored_from T (orig ! i) (rows ! i)" and len: "length rows = length orig"
          using 2(5) i by (auto simp: list_all2_conv_all_nth)
        have id: "tr_id (rows ! i) = tr_id (orig ! i)" using old scored_from_ids by blast
        show "scored_from T (orig ! i) (map (apply_score n (tr_id r) u) rows ! i)"
        proof (cases "tr_id (orig ! i) = tr_id r")
          case True
          have "r \<in> set orig" using 2(4,7) by auto
          then have "orig ! i = r" using True i 2(6) by (metis in_set_conv_nth distinct_map inj_onD nth_mem)
          then have "orig ! i \<in> T" using 2(4) by auto
          moreover have "tr_status (apply_score n (tr_id r) u (rows ! i)) = su_status u" using True id by (simp add: apply_score_status)
          moreover have "same_trade (orig ! i) (apply_score n (tr_id r) u (rows ! i))" using old apply_score_same scored_from_def by blast
          ultimately show ?thesis using st i len by (simp only: scored_from_def nth_map simp_thms)
        next
          case False
          then show ?thesis using old id i len by (simp add: apply_score_other)
        qed
      qed
      with Inr Some 2 show ?thesis by simp
    qed
  qed (use 2 in simp)
qed simp

lemma scoring_keeps:
  assumes "journal_ok jt" "score_open_trades expiry now fetch symbol jt = (jt', n)"
  shows "journal_ok jt' \<and> list_all2 (\<lambda>r r'. same_trade r r'
      \<and> (r' = r \<or> tr_status r = ''open'' \<and> tr_status r' \<in> {''win'', ''loss'', ''expired''})) (jt_rows jt) (jt_rows jt')"
proof -
  let ?T = "set (open_rows symbol jt)"
  have "distinct (map tr_id (jt_rows jt))" using assms(1) by (auto simp: journal_ok_def strict_sorted_iff)
  moreover have "set (by_market (open_rows symbol jt)) \<subseteq> ?T" by (auto simp: by_market_def Let_def)
  moreover have "?T \<subseteq> set (jt_rows jt)" by (auto simp: open_rows_def)
  moreover have "list_all2 (scored_from ?T) (jt_rows jt) (jt_rows jt)" by (simp add: list_all2_conv_all_nth scored_from_def)
  ultimately have rows: "list_all2 (scored_from ?T) (jt_rows jt) rows'"
    if "score_rows expiry now fetch (by_market (open_rows symbol jt)) (jt_rows jt, 0) = (Some rows', k)" for rows' k
    using score_rows_scored [OF that] by blast
  have "list_all2 (scored_from ?T) (jt_rows jt) (jt_rows jt') \<and> jt_last_id jt' = jt_last_id jt"
  proof (cases "score_rows expiry now fetch (by_market (open_rows symbol jt)) (jt_rows jt, 0)")
    case (Pair ro k)
    then show ?thesis using assms(2) rows
      by (cases ro) (auto simp: score_open_trades_def list_all2_conv_all_nth scored_from_def)
  qed
  then have all: "list_all2 (scored_from ?T) (jt_rows jt) (jt_rows jt')" and last: "jt_last_id jt' = jt_last_id jt" by blast+
  have "journal_ok jt'" using assms(1) last scored_all_ids [OF all] journal_ok_cong by blast
  moreover have "list_all2 (\<lambda>r r'. same_trade r r' \<and> (r' = r \<or> tr_status r = ''open'' \<and> tr_status r' \<in> {''win'', ''loss'', ''expired''}))
      (jt_rows jt) (jt_rows jt')"
    using all by (rule list_all2_mono) (auto simp: scored_from_def open_rows_def)
  ultimately show ?thesis by blast
qed

subsection \<open>Every operation\<close>

datatype journal_op =
    J_record pyfloat pydict "string option" "string option" "string option" "string option"
  | J_backtest pyfloat pydict string string string pyval pyval pyval
  | J_score pyfloat pyfloat candle_source "string option"
  | J_stats int pyfloat pyfloat candle_source "string option" "string option" "string option"
  | J_purge "string option" "string option"
  | J_dedupe

fun journal_step :: "journal_op \<Rightarrow> journal_table \<Rightarrow> journal_table" where
  "journal_step (J_record now d s t m tid) jt = fst (record_decision now d s t m tid jt)"
| "journal_step (J_backtest now d s t st p oa r) jt = fst (record_backtest_trade now d s t st p oa r jt)"
| "journal_step (J_score e now f s) jt = fst (score_open_trades e now f s jt)"
| "journal_step (J_stats k e now f s key src) jt = fst (get_stats k e now f s key src jt)"
| "journal_step (J_purge src s) jt = fst (purge src s jt)"
| "journal_step J_dedupe jt = fst (dedupe_thread_rows jt)"

lemma score_open_ok: "journal_ok jt \<Longrightarrow> journal_ok (fst (score_open_trades e now f s jt))"
  using scoring_keeps [of jt e now f s] by (cases "score_open_trades e now f s jt") simp

lemma stats_scores: "fst (get_stats k e now f s key src jt) = fst (score_open_trades e now f s jt)"
  by (simp add: get_stats_def Let_def split: sum.split)

lemma journal_step_ok: "journal_ok jt \<Longrightarrow> journal_ok (journal_step op jt)"
  by (cases op) (simp_all add: record_decision_ok record_backtest_ok score_open_ok stats_scores purge_def dedupe_thread_rows_def
      Let_def filter_rows_ok)

text \<open>C17: After any sequence of operations on a new journal, recorded, seeded, scored, purged and cleaned in
  any order and with any arguments, identifiers increase and no two rows share a thread.\<close>

theorem journal_one_row_per_thread: "journal_ok (fold journal_step ops empty_journal)"
proof -
  have "journal_ok (fold journal_step ops jt)" if "journal_ok jt" for jt
    using that by (induction ops arbitrary: jt) (auto simp: journal_step_ok)
  moreover have "journal_ok empty_journal" by (simp add: journal_ok_def empty_journal_def thread_ids_map)
  ultimately show ?thesis by blast
qed

subsection \<open>One decision per thread\<close>

definition keeps_rows :: "journal_op \<Rightarrow> bool" where
  "keeps_rows op \<longleftrightarrow> (case op of J_purge _ _ \<Rightarrow> False | J_dedupe \<Rightarrow> False | _ \<Rightarrow> True)"

lemma insert_trade_appends: "\<exists>xs. jt_rows (fst (insert_trade row jt)) = jt_rows jt @ xs"
  by (auto simp: insert_trade_def split: option.split)

lemma map_of_pairs: "list_all2 (\<lambda>r r'. f r' = f r) xs ys \<Longrightarrow> map f ys = map f xs"
  by (induction rule: list_all2_induct) auto

lemma step_keeps_prefix:
  assumes "journal_ok jt" "keeps_rows op"
  shows "\<exists>xs. map (\<lambda>r. (tr_thread_id r, tr_id r)) (jt_rows (journal_step op jt)) = map (\<lambda>r. (tr_thread_id r, tr_id r)) (jt_rows jt) @ xs"
proof -
  let ?f = "\<lambda>r. (tr_thread_id r, tr_id r)"
  have scored: "map ?f (jt_rows (fst (score_open_trades e now f s jt))) = map ?f (jt_rows jt)" for e now f s
  proof -
    obtain jt' n where r: "score_open_trades e now f s jt = (jt', n)" by (cases "score_open_trades e now f s jt")
    have "list_all2 (\<lambda>r r'. ?f r' = ?f r) (jt_rows jt) (jt_rows jt')"
      using scoring_keeps [OF assms(1) r] same_trade_id by (auto elim!: list_all2_mono)
    then show ?thesis using map_of_pairs [of ?f] by (simp only: r fst_conv)
  qed
  have app: "\<exists>xs. map ?f (jt_rows (fst (insert_trade row jt))) = map ?f (jt_rows jt) @ xs" for row
    using insert_trade_appends [of row jt] by auto
  show ?thesis using assms(2)
    by (cases op) (simp_all add: keeps_rows_def scored stats_scores app record_decision_def record_backtest_trade_def Let_def split: sum.split)
qed

lemma thread_row_id: "map_option tr_id (thread_row t jt) = map_of (List.map_filter (\<lambda>(k, i). map_option (\<lambda>k. (k, i)) k) (map (\<lambda>r. (tr_thread_id r, tr_id r)) (jt_rows jt))) t"
proof -
  have "map_option tr_id (find (\<lambda>r. tr_thread_id r = Some t) rows)
      = map_of (List.map_filter (\<lambda>(k, i). map_option (\<lambda>k. (k, i)) k) (map (\<lambda>r. (tr_thread_id r, tr_id r)) rows)) t" for rows
    by (induction rows) (auto simp: List.map_filter_def split: option.splits)
  then show ?thesis by (simp add: thread_row_def)
qed

lemma thread_row_kept:
  assumes "journal_ok jt" "\<forall>op\<in>set ops. keeps_rows op" "map_option tr_id (thread_row t jt) = Some i"
  shows "map_option tr_id (thread_row t (fold journal_step ops jt)) = Some i"
  using assms
proof (induction ops arbitrary: jt)
  case (Cons op ops)
  obtain xs where "map (\<lambda>r. (tr_thread_id r, tr_id r)) (jt_rows (journal_step op jt)) = map (\<lambda>r. (tr_thread_id r, tr_id r)) (jt_rows jt) @ xs"
    using step_keeps_prefix Cons.prems(1,2) by fastforce
  then have "map_option tr_id (thread_row t (journal_step op jt)) = Some i"
    using Cons.prems(3) by (simp add: thread_row_id List.map_filter_def map_add_Some_iff)
  then show ?case using Cons journal_step_ok by simp
qed simp

text \<open>Once a thread has been recorded, no later recording of the same thread changes the journal,
  whatever decision it carries and whatever recordings and scorings lie between; it gives the
  identifier of the first row.\<close>

theorem thread_is_journalled_once:
  assumes "journal_ok jt" "record_decision now d s t m (Some tid) jt = (jt1, Some i)" "py_strip tid \<noteq> []"
    "\<forall>op\<in>set ops. keeps_rows op" "jt2 = fold journal_step ops jt1"
    "record_decision now' d' s' t' m' (Some tid) jt2 = (jt3, r)"
  shows "jt3 = jt2 \<and> (r = None \<or> r = Some i)"
proof -
  have thread: "tr_thread_id row = Some tid" if "decision_row n d s t m (Some tid) = Inr row" for n d s t m row
    using that unfolding decision_row_def rbind_eq_Inr by (auto simp: rbind_eq_Inr split: prod.splits)
  have j: "journal_thread (Some tid) = Some tid" using assms(3) by (simp add: journal_thread_def)
  obtain row where row: "decision_row now d s t m (Some tid) = Inr row" "insert_trade row jt = (jt1, Some i)"
    using assms(2) by (auto simp: record_decision_def j split: sum.splits)
  have "map_option tr_id (thread_row tid jt1) = Some i"
    using row(2) thread [OF row(1)] find_snoc [of "\<lambda>r. tr_thread_id r = Some tid" "jt_rows jt"]
    by (auto simp: insert_trade_def thread_row_def split: option.splits)
  moreover have "journal_ok jt1" using insert_trade_ok [OF assms(1), of row] row(2) by simp
  ultimately have "map_option tr_id (thread_row tid jt2) = Some i" using thread_row_kept assms(4,5) by blast
  then obtain r2 where "thread_row tid jt2 = Some r2" "tr_id r2 = i" by auto
  then show ?thesis using assms(6) thread by (auto simp: record_decision_def j insert_trade_def split: sum.splits)
qed

subsection \<open>Scoring against candles\<close>

text \<open>A candle that decides nothing: unusable, not after the entry, or between the levels.\<close>

definition quiet :: "bool \<Rightarrow> pyfloat \<Rightarrow> pyfloat \<Rightarrow> pyfloat \<Rightarrow> pyval \<Rightarrow> bool" where
  "quiet buy sl tp created_ms c \<longleftrightarrow> scoring_candle c = Inr None \<or> (\<exists>ts hi lo. scoring_candle c = Inr (Some (ts, hi, lo))
     \<and> (num_le ts (NF created_ms) \<or> \<not> hits_stop buy sl hi lo \<and> \<not> hits_target buy tp hi lo))"

text \<open>The candle that settles a trade, for the stop when it touches both levels.\<close>

definition settled_by :: "bool \<Rightarrow> pyfloat \<Rightarrow> pyfloat \<Rightarrow> pyfloat \<Rightarrow> score_update \<Rightarrow> pyval \<Rightarrow> bool" where
  "settled_by buy sl tp created_ms u c \<longleftrightarrow> (\<exists>ts hi lo. scoring_candle c = Inr (Some (ts, hi, lo)) \<and> \<not> num_le ts (NF created_ms)
     \<and> (if hits_stop buy sl hi lo then su_status u = ''loss'' \<and> su_r_multiple u = PFloat (Fin (- 1)) \<and> su_outcome_price u = PFloat sl
        else hits_target buy tp hi lo \<and> su_status u = ''win'' \<and> su_outcome_price u = PFloat tp))"

lemma walk_decided:
  "walk_candles buy sl tp rr ms seen cs = Inr (Inl u)
    \<Longrightarrow> \<exists>pre c post. cs = pre @ c # post \<and> list_all (quiet buy sl tp ms) pre \<and> settled_by buy sl tp ms u c"
proof (induction cs arbitrary: seen)
  case (Cons c cs)
  have more: ?case if w: "walk_candles buy sl tp rr ms seen' cs = Inr (Inl u)" and q: "quiet buy sl tp ms c" for seen'
  proof -
    obtain pre d post where "cs = pre @ d # post" "list_all (quiet buy sl tp ms) pre" "settled_by buy sl tp ms u d"
      using Cons.IH [OF w] by blast
    then show ?thesis using q by (intro exI [of _ "c # pre"] exI [of _ d] exI [of _ post]) simp
  qed
  have here: ?case if "settled_by buy sl tp ms u c"
    using that by (intro exI [of _ "[]"] exI [of _ c] exI [of _ cs]) simp
  from Cons.prems show ?case
  proof (cases rule: walk_Cons_cases)
    case skip
    then have "quiet buy sl tp ms c" by (auto simp: quiet_def)
    with skip(1) show ?thesis by (rule more)
  next
    case (stop ts hi lo tm)
    then show ?thesis by (intro here) (simp add: settled_by_def)
  next
    case (target ts hi lo tm)
    then show ?thesis by (intro here) (simp add: settled_by_def)
  next
    case (pass ts hi lo)
    then have "quiet buy sl tp ms c" by (auto simp: quiet_def)
    with pass(5) show ?thesis by (rule more)
  qed
qed simp

text \<open>C18: A bracket that is scored as won or lost was settled by the first candle after the entry that
  touches a level: no earlier one touches either, and a candle that touches both is a loss.\<close>

theorem bracket_never_flatters:
  assumes "score_bracket expiry now r cs = Inr (Some u)" "su_status u \<noteq> ''expired''"
    "tr_stop_loss r = PFloat sl" "tr_take_profit r = PFloat tp" "tr_created_at r = PFloat created" "buy = (py_upper (tr_action r) = ''BUY'')"
  shows "\<exists>pre c post. cs = pre @ c # post \<and> list_all (quiet buy sl tp (fmul created (Fin 1000))) pre
    \<and> settled_by buy sl tp (fmul created (Fin 1000)) u c"
proof -
  obtain e sl' tp' cr rr res where d: "stored_float (tr_stop_loss r) = Some sl'"
    "stored_float (tr_take_profit r) = Some tp'" "stored_float (tr_created_at r) = Some cr"
    "walk_candles (py_upper (tr_action r) = ''BUY'') sl' tp' rr (fmul cr (Fin 1000)) None cs = Inr res"
    "res = Inl u \<or> (\<exists>seen. res = Inr seen \<and> expired expiry now cr seen None = Inr (Some u))"
    using score_bracketE [OF assms(1)] by metis
  then have "sl' = sl" "tp' = tp" "cr = created" using assms(3-5) by (auto simp: stored_float_def split: if_splits)
  moreover have "res = Inl u" using d(5) assms(2) expired_status by blast
  ultimately show ?thesis using walk_decided d(4) assms(6) by blast
qed

subsection \<open>Duplicates\<close>

lemma dedupe_kept: "fst (dedupe_thread_rows jt) = jt\<lparr>jt_rows := filter (\<lambda>r. \<forall>r'\<in>set (jt_rows jt). row_identity r' = row_identity r \<longrightarrow> tr_id r \<le> tr_id r') (jt_rows jt)\<rparr>"
  by (simp add: dedupe_thread_rows_def Let_def)

lemma rows_by_id: "journal_ok jt \<Longrightarrow> r \<in> set (jt_rows jt) \<Longrightarrow> r' \<in> set (jt_rows jt) \<Longrightarrow> tr_id r = tr_id r' \<Longrightarrow> r = r'"
  by (auto simp: journal_ok_def strict_sorted_iff distinct_map inj_on_def)

lemma least_member: assumes "finite A" "A \<noteq> {}" shows "\<exists>x\<in>A. \<forall>y\<in>A. f x \<le> (f y :: int)"
proof -
  have "Min (f ` A) \<in> f ` A" using assms by (intro Min_in) simp_all
  then obtain x where "x \<in> A" "f x = Min (f ` A)" by force
  then show ?thesis using assms(1) by (intro bexI [of _ x]) simp_all
qed

text \<open>The clean-up leaves exactly one row for every identity that was in the journal, the earliest one,
  reports the number of removed rows, and has nothing left to do when it is run again.\<close>

theorem dedupe_keeps_first_rows:
  assumes "journal_ok jt" "dedupe_thread_rows jt = (jt', n)"
  shows "distinct (map row_identity (jt_rows jt')) \<and> row_identity ` set (jt_rows jt') = row_identity ` set (jt_rows jt)
    \<and> (\<forall>r\<in>set (jt_rows jt'). \<forall>r'\<in>set (jt_rows jt). row_identity r' = row_identity r \<longrightarrow> tr_id r \<le> tr_id r')
    \<and> n = int (length (jt_rows jt)) - int (length (jt_rows jt')) \<and> dedupe_thread_rows jt' = (jt', 0)"
proof -
  let ?p = "\<lambda>r. \<forall>r'\<in>set (jt_rows jt). row_identity r' = row_identity r \<longrightarrow> tr_id r \<le> tr_id r'"
  have jt': "jt_rows jt' = filter ?p (jt_rows jt)" and n: "n = int (length (jt_rows jt)) - int (length (jt_rows jt'))"
    using assms(2) by (auto simp: dedupe_thread_rows_def Let_def)
  have dist: "distinct (jt_rows jt)" using assms(1) by (auto simp: journal_ok_def strict_sorted_iff distinct_map)
  have "inj_on row_identity (set (jt_rows jt'))"
  proof (rule inj_onI)
    fix r r' assume r: "r \<in> set (jt_rows jt')" "r' \<in> set (jt_rows jt')" "row_identity r = row_identity r'"
    then have "tr_id r = tr_id r'" by (auto simp: jt' intro: order_antisym)
    then show "r = r'" using rows_by_id [OF assms(1)] r by (auto simp: jt')
  qed
  then have "distinct (map row_identity (jt_rows jt'))" using dist by (simp add: distinct_map jt')
  moreover have "row_identity ` set (jt_rows jt') = row_identity ` set (jt_rows jt)"
  proof -
    have "\<exists>r'\<in>set (jt_rows jt'). row_identity r' = row_identity r" if "r \<in> set (jt_rows jt)" for r
    proof -
      let ?c = "{x \<in> set (jt_rows jt). row_identity x = row_identity r}"
      have "finite ?c" "?c \<noteq> {}" using that by auto
      then obtain x where "x \<in> ?c" "\<forall>y\<in>?c. tr_id x \<le> tr_id y" by (rule least_member [of ?c tr_id, THEN bexE])
      then show ?thesis by (intro bexI [of _ x]) (auto simp: jt')
    qed
    then have "row_identity ` set (jt_rows jt) \<subseteq> row_identity ` set (jt_rows jt')" by (metis image_eqI image_subsetI)
    moreover have "set (jt_rows jt') \<subseteq> set (jt_rows jt)" by (simp add: jt')
    ultimately show ?thesis by blast
  qed
  moreover have "dedupe_thread_rows jt' = (jt', 0)"
  proof -
    have "filter (\<lambda>r. \<forall>r'\<in>set (jt_rows jt'). row_identity r' = row_identity r \<longrightarrow> tr_id r \<le> tr_id r') (jt_rows jt') = jt_rows jt'"
      unfolding filter_id_conv by (simp add: jt')
    then show ?thesis by (simp add: dedupe_thread_rows_def)
  qed
  moreover have "\<forall>r\<in>set (jt_rows jt'). ?p r" by (simp add: jt')
  ultimately show ?thesis using n by blast
qed

subsection \<open>Rates\<close>

lemma share_unit: "0 \<le> q \<Longrightarrow> q \<le> 1 \<Longrightarrow> \<exists>r. fl q = Fin r \<and> 0 \<le> r \<and> r \<le> 1"
  using fl_mono [of 0 q] fl_mono [of q 1] by (cases "fl q") (auto simp: fle_def)

lemma round4_unit: assumes "0 \<le> q" "q \<le> 1" shows "fle (Fin 0) (round4 (Fin q)) \<and> fle (round4 (Fin q)) (Fin 1)"
proof -
  have "rne 0 \<le> rne (q * 10000)" "rne (q * 10000) \<le> rne 10000" using assms by (auto intro!: rne_mono)
  moreover have "rne 0 = 0" "rne 10000 = 10000" using rne_of_int [of 0] rne_of_int [of 10000] by simp_all
  ultimately have "0 \<le> rat_of_int (rne (q * 10000)) / 10000" "rat_of_int (rne (q * 10000)) / 10000 \<le> 1" by simp_all
  then obtain r where "fl (rat_of_int (rne (q * 10000)) / 10000) = Fin r" "0 \<le> r" "r \<le> 1" using share_unit by blast
  then show ?thesis by (simp add: round4_def)
qed

lemma win_share_unit: "0 \<le> w \<Longrightarrow> w \<le> n \<Longrightarrow> case win_share w n of None \<Rightarrow> n = 0 | Some x \<Rightarrow> 0 < n \<and> fle (Fin 0) x \<and> fle x (Fin 1)"
proof (cases "n = 0")
  case False
  assume a: "0 \<le> w" "w \<le> n"
  then have "0 \<le> rat_of_int w / of_int n" "rat_of_int w / of_int n \<le> 1" using False by (simp_all add: divide_le_eq)
  then obtain r where "fl (of_int w / of_int n) = Fin r" "0 \<le> r" "r \<le> 1" using share_unit by blast
  then show ?thesis using a False round4_unit by (simp add: win_share_def)
qed (simp add: win_share_def)

text \<open>The statistics count every row once: wins, losses, open and expired rows add up to no more than
  there are, the win rate is between zero and one and missing exactly without a scored row.\<close>

theorem aggregate_counts_outcomes:
  assumes "aggregate rows = Inr s"
  shows "ts_scored s = ts_wins s + ts_losses s \<and> ts_scored s + ts_open s + ts_expired s \<le> int (length rows)
    \<and> (case ts_win_rate s of None \<Rightarrow> ts_scored s = 0 | Some w \<Rightarrow> 0 < ts_scored s \<and> fle (Fin 0) w \<and> fle w (Fin 1))
    \<and> int (length (scored_results rows)) \<le> ts_scored s"
proof -
  have s: "ts_wins s = status_count ''win'' rows" "ts_losses s = status_count ''loss'' rows" "ts_scored s = ts_wins s + ts_losses s"
    "ts_open s = status_count ''open'' rows" "ts_expired s = status_count ''expired'' rows"
    "ts_win_rate s = win_share (ts_wins s) (ts_wins s + ts_losses s)"
    using assms by (auto simp: aggregate_def Let_def rbind_eq_Inr)
  have "status_count ''win'' rows + status_count ''loss'' rows + status_count ''open'' rows + status_count ''expired'' rows \<le> int (length rows)"
    by (induction rows) (auto simp: status_count_def)
  moreover have "int (length (scored_results rows)) \<le> status_count ''win'' rows + status_count ''loss'' rows"
    by (induction rows) (auto simp: scored_results_def status_count_def List.map_filter_def)
  moreover have "0 \<le> status_count x rows" for x by (simp add: status_count_def)
  moreover have "case ts_win_rate s of None \<Rightarrow> ts_wins s + ts_losses s = 0 | Some x \<Rightarrow> 0 < ts_wins s + ts_losses s \<and> fle (Fin 0) x \<and> fle x (Fin 1)"
    unfolding s(6) by (rule win_share_unit) (simp_all add: s(1,2) status_count_def)
  ultimately show ?thesis using s(1-5) by (simp split: option.splits)
qed

subsection \<open>Witnesses\<close>

definition demo_decision :: pydict where
  "demo_decision = [(''action'', PStr ''BUY''), (''entry'', PInt 100), (''stop_loss'', PInt 95), (''take_profit'', PInt 110),
     (''conviction_score'', PInt 60), (''defensibility'', PDict [(''risk_reward'', PFloat (Fin 2))])]"

definition demo_trade :: "int \<Rightarrow> string option \<Rightarrow> trade_row" where
  "demo_trade i tid = \<lparr>tr_id = i, tr_created_at = PFloat (Fin 1), tr_mode = ''FIND'', tr_symbol = Some ''TCS'', tr_timeframe = Some ''1D'',
     tr_action = ''BUY'', tr_entry = PFloat (Fin 100), tr_stop_loss = PFloat (Fin 95), tr_take_profit = PFloat (Fin 110), tr_atr_14 = PNone,
     tr_conviction = PInt 60, tr_risk_reward = PFloat (Fin 2), tr_setup_key = ''dir:BUY'', tr_setup_tags = [], tr_source = None,
     tr_status = ''open'', tr_outcome_price = PNone, tr_outcome_at = PNone, tr_r_multiple = PNone, tr_scored_at = PNone,
     tr_forecast_up_probability = PNone, tr_management_plan = None, tr_exit_breakdown = None, tr_thread_id = tid\<rparr>"

definition demo_candle :: "int \<Rightarrow> int \<Rightarrow> int \<Rightarrow> pyval" where
  "demo_candle ts hi lo = PDict [(''timestamp_ms'', PInt ts), (''high'', PInt hi), (''low'', PInt lo)]"

definition demo_journal :: journal_table where
  "demo_journal = \<lparr>jt_rows = [demo_trade 1 None, demo_trade 2 None], jt_last_id = 2\<rparr>"

lemma demo_journal_ok: "journal_ok demo_journal"
  by (simp add: journal_ok_def demo_journal_def demo_trade_def thread_ids_of_def List.map_filter_def)

definition demo_recorded :: "journal_table \<times> int option" where
  "demo_recorded = record_decision (Fin 5) demo_decision (Some ''TCS'') (Some ''1D'') None (Some ''t1'') demo_journal"

lemma demo_recorded_id: "snd demo_recorded = Some 3"
  by code_simp

theorem thread_is_journalled_once_witness:
  "fst (record_decision (Fin 9) [] None None None (Some ''t1'') (fst demo_recorded)) = fst demo_recorded"
proof -
  have "record_decision (Fin 5) demo_decision (Some ''TCS'') (Some ''1D'') None (Some ''t1'') demo_journal = (fst demo_recorded, Some 3)"
    using demo_recorded_id by (simp add: demo_recorded_def prod_eq_iff)
  moreover have "py_strip ''t1'' \<noteq> []" by code_simp
  ultimately show ?thesis
    using thread_is_journalled_once [OF demo_journal_ok _ _ _ refl, of "Fin 5" demo_decision "Some ''TCS''" "Some ''1D''" None "''t1''" _ 3 "[]" "Fin 9" "[]" None None None]
    by (cases "record_decision (Fin 9) [] None None None (Some ''t1'') (fst demo_recorded)") simp
qed

definition demo_loss :: score_update where
  "demo_loss = \<lparr>su_status = ''loss'', su_outcome_price = PFloat (Fin 95), su_outcome_at = PFloat (Fin 3), su_r_multiple = PFloat (Fin (- 1)),
     su_exit_breakdown = None\<rparr>"

lemma demo_scored: "score_bracket (Fin 100) (Fin 9) (demo_trade 1 None) [demo_candle 2000 105 99, demo_candle 3000 115 90] = Inr (Some demo_loss)"
  by code_simp

theorem bracket_never_flatters_witness:
  "\<exists>pre c post. [demo_candle 2000 105 99, demo_candle 3000 115 90] = pre @ c # post
    \<and> list_all (quiet True (Fin 95) (Fin 110) (fmul (Fin 1) (Fin 1000))) pre \<and> settled_by True (Fin 95) (Fin 110) (fmul (Fin 1) (Fin 1000)) demo_loss c"
  by (rule bracket_never_flatters [OF demo_scored]) (simp_all add: demo_loss_def demo_trade_def py_upper_def upper_char_def)

lemma demo_dedupe: "dedupe_thread_rows demo_journal = (\<lparr>jt_rows = [demo_trade 1 None], jt_last_id = 2\<rparr>, 1)"
  by (simp add: dedupe_thread_rows_def demo_journal_def demo_trade_def row_identity_def)

theorem dedupe_keeps_first_rows_witness:
  "dedupe_thread_rows \<lparr>jt_rows = [demo_trade 1 None], jt_last_id = 2\<rparr> = (\<lparr>jt_rows = [demo_trade 1 None], jt_last_id = 2\<rparr>, 0)"
  using dedupe_keeps_first_rows [OF demo_journal_ok demo_dedupe] by blast

definition demo_closed :: "trade_row list" where
  "demo_closed = [(demo_trade 1 None)\<lparr>tr_status := ''loss'', tr_r_multiple := PFloat (Fin (- 1))\<rparr>,
     (demo_trade 2 None)\<lparr>tr_status := ''win'', tr_r_multiple := PFloat (Fin 2)\<rparr>, demo_trade 3 None]"

lemma demo_aggregate: "aggregate demo_closed = Inr \<lparr>ts_scored = 2, ts_wins = 1, ts_losses = 1, ts_open = 1, ts_expired = 0,
    ts_win_rate = Some (Fin (1 / 2)), ts_expectancy_r = Some (Fin (1 / 2))\<rparr>"
  by code_simp

theorem aggregate_counts_outcomes_witness: "fle (Fin 0) (Fin (1 / 2)) \<and> int (length (scored_results demo_closed)) \<le> 2"
  using aggregate_counts_outcomes [OF demo_aggregate] by simp

text \<open>C19: A scoring pass keeps every row with its identity and its plan, changes only the outcome of rows
  that were open, and settles them as won, lost or expired.\<close>

theorem scoring_settles_open_trades_once:
  assumes "journal_ok jt" "score_open_trades expiry now fetch symbol jt = (jt', n)"
  shows "journal_ok jt' \<and> list_all2 (\<lambda>r r'. same_trade r r'
      \<and> (r' = r \<or> tr_status r = ''open'' \<and> tr_status r' \<in> {''win'', ''loss'', ''expired''})) (jt_rows jt) (jt_rows jt')"
  using assms by (rule scoring_keeps)

theorem scoring_settles_open_trades_once_witness:
  "journal_ok (fst (score_open_trades (Fin 100) (Fin 9) (\<lambda>s t. [demo_candle 2000 105 90]) None demo_journal))"
  using scoring_settles_open_trades_once [OF demo_journal_ok]
  by (cases "score_open_trades (Fin 100) (Fin 9) (\<lambda>s t. [demo_candle 2000 105 90]) None demo_journal") simp

end
