(* ===== verification/EventCalendar.thy ===== *)
theory EventCalendar
  imports EnvConfig PyJson
begin

text \<open>
  The event calendar adapter of event_calendar.py with its route in main.py: an upstream calendar is read
  through a cache, its rows are filtered by purpose, its dates are rewritten to ISO, and a request gets the
  rows of its symbol. The upstream read is an argument: the value it returned or the text of its exception.
  The cache is a state read twice by a request, before the lock and under it, so that another thread may
  have written it in between; it is written under the lock only.
\<close>

subsection \<open>The proleptic Gregorian calendar of datetime.date\<close>

definition is_leap :: "int \<Rightarrow> bool" where
  "is_leap y \<longleftrightarrow> y mod 4 = 0 \<and> (y mod 100 \<noteq> 0 \<or> y mod 400 = 0)"

definition days_in_month :: "int \<Rightarrow> int \<Rightarrow> int" where
  "days_in_month y m = (if m = 2 then (if is_leap y then 29 else 28) else if m \<in> {4, 6, 9, 11} then 30 else 31)"

definition days_before_month :: "int \<Rightarrow> int \<Rightarrow> int" where
  "days_before_month y m = (\<Sum>k\<leftarrow>[1..m - 1]. days_in_month y k)"

definition valid_date :: "int \<Rightarrow> int \<Rightarrow> int \<Rightarrow> bool" where
  "valid_date y m d \<longleftrightarrow> 1 \<le> y \<and> y \<le> 9999 \<and> 1 \<le> m \<and> m \<le> 12 \<and> 1 \<le> d \<and> d \<le> days_in_month y m"

text \<open>The number of a date, day 0 being 1970-01-01.\<close>

definition day_number :: "int \<Rightarrow> int \<Rightarrow> int \<Rightarrow> int" where
  "day_number y m d = (let p = y - 1 in
     p * 365 + p div 4 - p div 100 + p div 400 + days_before_month y m + d - 719163)"

text \<open>A number padded with zeros to a width.\<close>

definition padded :: "nat \<Rightarrow> int \<Rightarrow> string" where
  "padded w n = (let t = int_text n in replicate (w - length t) (CHR ''0'') @ t)"

definition iso_text :: "int \<Rightarrow> int \<Rightarrow> int \<Rightarrow> string" where
  "iso_text y m d = padded 4 y @ ''-'' @ padded 2 m @ ''-'' @ padded 2 d"

subsection \<open>Configuration\<close>

definition DEFAULT_SOURCE_URL :: string where "DEFAULT_SOURCE_URL = ''https://www.nseindia.com/api/event-calendar''"
definition DEFAULT_PRIME_URL :: string where "DEFAULT_PRIME_URL = ''https://www.nseindia.com''"
definition DEFAULT_TTL_SECONDS :: pyfloat where "DEFAULT_TTL_SECONDS = Fin 1800"
definition DEFAULT_TIMEOUT_SECONDS :: pyfloat where "DEFAULT_TIMEOUT_SECONDS = Fin 15"
definition DEFAULT_STALE_GRACE_SECONDS :: pyfloat where "DEFAULT_STALE_GRACE_SECONDS = Fin 21600"
definition DEFAULT_PURPOSES :: "string list" where "DEFAULT_PURPOSES = [''result'']"

definition env_str :: "env \<Rightarrow> string \<Rightarrow> string \<Rightarrow> string" where
  "env_str env name dflt = (case env name of None \<Rightarrow> dflt
     | Some raw \<Rightarrow> if py_strip raw = [] then dflt else py_strip raw)"

definition env_float :: "env \<Rightarrow> string \<Rightarrow> pyfloat \<Rightarrow> pyfloat \<Rightarrow> pyfloat" where
  "env_float env name dflt minimum = (case env name of None \<Rightarrow> dflt
     | Some raw \<Rightarrow> if py_strip raw = [] then dflt
         else case parse_float (py_strip raw) of None \<Rightarrow> dflt
         | Some v \<Rightarrow> if \<not> flt minimum v \<or> v = NaN then dflt else v)"

definition resolve_purposes :: "env \<Rightarrow> string list" where
  "resolve_purposes env = (case env ''EVENT_CALENDAR_PURPOSES'' of None \<Rightarrow> DEFAULT_PURPOSES
     | Some raw \<Rightarrow> if py_strip raw = [] then DEFAULT_PURPOSES
         else if py_strip raw = ''*'' then []
         else let parts = map (\<lambda>p. py_lower (py_strip p)) (filter (\<lambda>p. py_strip p \<noteq> []) (py_split (CHR '','') raw))
           in if parts = [] then DEFAULT_PURPOSES else parts)"

interpretation calendar_text: env_param Some "\<lambda>_. True" env_str
  by unfold_locales (auto simp: env_str_def)

interpretation calendar_float: env_param parse_float "\<lambda>v. flt low v \<and> v \<noteq> NaN"
    "\<lambda>env name d. env_float env name d low" for low
  by unfold_locales (auto simp: env_float_def)

subsection \<open>Rows\<close>

definition MONTHS :: "(string \<times> int) list" where
  "MONTHS = [(''jan'', 1), (''feb'', 2), (''mar'', 3), (''apr'', 4), (''may'', 5), (''jun'', 6),
     (''jul'', 7), (''aug'', 8), (''sep'', 9), (''oct'', 10), (''nov'', 11), (''dec'', 12)]"

definition iso_or_none :: "int \<Rightarrow> int \<Rightarrow> int \<Rightarrow> string option" where
  "iso_or_none year month day =
     (if \<not> (1 \<le> month \<and> month \<le> 12) \<or> \<not> (1 \<le> day \<and> day \<le> 31) \<or> \<not> (1970 \<le> year \<and> year \<le> 2999) then None
      else if \<not> valid_date year month day then None
      else Some (iso_text year month day))"

definition slice :: "nat \<Rightarrow> nat \<Rightarrow> string \<Rightarrow> string" where
  "slice a b s = take (b - a) (drop a s)"

definition iso_fields :: "string \<Rightarrow> (int \<times> int \<times> int) option" where
  "iso_fields s = (case (parse_int (slice 0 4 s), parse_int (slice 5 7 s), parse_int (slice 8 10 s)) of
     (Some y, Some m, Some d) \<Rightarrow> Some (y, m, d) | _ \<Rightarrow> None)"

definition to_iso_date :: "pyval \<Rightarrow> string option" where
  "to_iso_date value = (case value of
     PStr s \<Rightarrow> (let txt = py_strip s in
       if txt = [] then None
       else if 10 \<le> length txt \<and> txt ! 4 = CHR ''-'' \<and> txt ! 7 = CHR ''-'' then
         (case iso_fields (take 10 txt) of None \<Rightarrow> None | Some (y, m, d) \<Rightarrow> iso_or_none y m d)
       else (case py_split (CHR ''-'') txt of
         [day_s, mon_s, year_s] \<Rightarrow> (case map_of MONTHS (take 3 (py_lower (py_strip mon_s))) of
             None \<Rightarrow> None
           | Some month \<Rightarrow> (case (parse_int (py_strip day_s), parse_int (py_strip year_s)) of
               (Some day, Some year) \<Rightarrow> iso_or_none year month day | _ \<Rightarrow> None))
       | _ \<Rightarrow> None))
   | _ \<Rightarrow> None)"

text \<open>\<open>p in text\<close> for strings.\<close>

fun substring :: "string \<Rightarrow> string \<Rightarrow> bool" where
  "substring p [] \<longleftrightarrow> p = []"
| "substring p (c # s) \<longleftrightarrow> take (length p) (c # s) = p \<or> substring p s"

definition purpose_matches :: "pyval \<Rightarrow> string list \<Rightarrow> bool" where
  "purpose_matches purpose purposes = (if purposes = [] then True
     else (case purpose of PStr s \<Rightarrow> list_ex (\<lambda>p. substring p (py_lower s)) purposes | _ \<Rightarrow> False))"

record cal_row =
  cr_symbol :: string
  cr_date :: string
  cr_purpose :: string
  cr_company :: string

definition normalise_row :: "string list \<Rightarrow> pyval \<Rightarrow> cal_row option" where
  "normalise_row purposes row = (case row of
     PDict d \<Rightarrow> (case dict_get d ''symbol'' of
         PStr symbol \<Rightarrow> if py_strip symbol = [] then None
           else (case to_iso_date (dict_get d ''date'') of None \<Rightarrow> None
             | Some dt \<Rightarrow> if \<not> purpose_matches (dict_get d ''purpose'') purposes then None
                 else Some \<lparr>cr_symbol = py_upper (py_strip symbol), cr_date = dt,
                   cr_purpose = (case dict_get d ''purpose'' of PStr p \<Rightarrow> py_strip p | _ \<Rightarrow> []),
                   cr_company = (case dict_get d ''company'' of PStr c \<Rightarrow> c | _ \<Rightarrow> [])\<rparr>)
       | _ \<Rightarrow> None)
   | _ \<Rightarrow> None)"

definition normalise_rows :: "pyval \<Rightarrow> string list \<Rightarrow> cal_row list" where
  "normalise_rows raw purposes = (case raw of PList rows \<Rightarrow> List.map_filter (normalise_row purposes) rows | _ \<Rightarrow> [])"

definition rows_for_symbol :: "cal_row list \<Rightarrow> string \<Rightarrow> cal_row list" where
  "rows_for_symbol rows symbol = (if py_strip symbol = [] then []
     else filter (\<lambda>r. py_upper (cr_symbol r) = py_upper (py_strip symbol)) rows)"

subsection \<open>The cached read\<close>

record cal_cache =
  cc_rows :: "cal_row list option"
  cc_at :: pyfloat
  cc_purposes :: "string list"

definition reset_cache :: cal_cache where
  "reset_cache = \<lparr>cc_rows = None, cc_at = Fin 0, cc_purposes = []\<rparr>"

definition fresh_enough :: "env \<Rightarrow> bool \<Rightarrow> pyfloat \<Rightarrow> cal_cache \<Rightarrow> bool" where
  "fresh_enough env force now c \<longleftrightarrow> cc_rows c \<noteq> None \<and> cc_purposes c = resolve_purposes env
     \<and> flt (fsub now (cc_at c)) (env_float env ''EVENT_CALENDAR_TTL_SECS'' DEFAULT_TTL_SECONDS (Fin 0)) \<and> \<not> force"

definition cached_rows :: "cal_cache \<Rightarrow> cal_row list" where
  "cached_rows c = (case cc_rows c of Some rows \<Rightarrow> rows | None \<Rightarrow> [])"

type_synonym upstream = "string + pyval"
type_synonym calendar_answer = "string + (cal_row list \<times> bool)"

text \<open>What \<open>_fetch_upstream\<close> makes of the answer of the HTTP client: a transport error, or a status with the
  parsed body, \<open>None\<close> when it does not parse.\<close>

definition fetch_upstream :: "string + (int \<times> pyval option) \<Rightarrow> upstream" where
  "fetch_upstream response = (case response of
     Inl exc \<Rightarrow> Inl exc
   | Inr (status, body) \<Rightarrow> if status < 200 \<or> 300 \<le> status then Inl (''upstream returned HTTP '' @ int_text status)
       else (case body of None \<Rightarrow> Inl ''upstream returned an unparseable body'' | Some v \<Rightarrow> Inr v))"

text \<open>What happens under the lock: \<open>now\<close> is the clock on entry, \<open>later\<close> after the upstream read.\<close>

definition refresh_locked ::
  "env \<Rightarrow> bool \<Rightarrow> pyfloat \<Rightarrow> pyfloat \<Rightarrow> upstream \<Rightarrow> cal_cache \<Rightarrow> cal_cache \<times> calendar_answer" where
  "refresh_locked env force now later up c =
     (if fresh_enough env force now c then (c, Inr (cached_rows c, False))
      else case up of
        Inl exc \<Rightarrow>
          (if cc_rows c \<noteq> None \<and> cc_purposes c = resolve_purposes env
              \<and> fle (fsub later (cc_at c)) (env_float env ''EVENT_CALENDAR_STALE_GRACE_SECS'' DEFAULT_STALE_GRACE_SECONDS (Fin 0))
           then (c, Inr (cached_rows c, True)) else (c, Inl exc))
      | Inr raw \<Rightarrow> (let rows = normalise_rows raw (resolve_purposes env) in
          (\<lparr>cc_rows = Some rows, cc_at = later, cc_purposes = resolve_purposes env\<rparr>, Inr (rows, False))))"

text \<open>The whole request: \<open>c\<close> is the cache it sees first, \<open>c'\<close> the one it finds under the lock.\<close>

definition get_calendar :: "env \<Rightarrow> bool \<Rightarrow> pyfloat \<Rightarrow> pyfloat \<Rightarrow> pyfloat \<Rightarrow> upstream \<Rightarrow> cal_cache \<Rightarrow> cal_cache
    \<Rightarrow> cal_cache \<times> calendar_answer" where
  "get_calendar env force start now later up c c' =
     (if fresh_enough env force start c then (c', Inr (cached_rows c, False))
      else refresh_locked env force now later up c')"

definition events_for_symbol :: "env \<Rightarrow> pyfloat \<Rightarrow> pyfloat \<Rightarrow> pyfloat \<Rightarrow> upstream \<Rightarrow> cal_cache \<Rightarrow> cal_cache \<Rightarrow> string
    \<Rightarrow> cal_cache \<times> calendar_answer" where
  "events_for_symbol env start now later up c c' symbol =
     (case get_calendar env False start now later up c c' of
        (k, Inl exc) \<Rightarrow> (k, Inl exc)
      | (k, Inr (rows, stale)) \<Rightarrow> (k, Inr (rows_for_symbol rows symbol, stale)))"

text \<open>The route: a status and a body.\<close>

definition row_value :: "cal_row \<Rightarrow> pyval" where
  "row_value r = PDict [(''symbol'', PStr (cr_symbol r)), (''date'', PStr (cr_date r)),
     (''purpose'', PStr (cr_purpose r)), (''company'', PStr (cr_company r))]"

definition error_body :: "string \<Rightarrow> pyval" where
  "error_body detail = PDict [(''detail'', PStr detail)]"

definition events_calendar :: "env \<Rightarrow> pyfloat \<Rightarrow> pyfloat \<Rightarrow> pyfloat \<Rightarrow> upstream \<Rightarrow> cal_cache \<Rightarrow> cal_cache \<Rightarrow> string
    \<Rightarrow> cal_cache \<times> int \<times> pyval" where
  "events_calendar env start now later up c c' symbol = (let requested = py_strip symbol in
     if requested = [] then (c', 422, error_body ''symbol query parameter is required'')
     else case events_for_symbol env start now later up c c' requested of
        (k, Inl exc) \<Rightarrow> (k, 503, error_body (''event calendar unavailable: '' @ exc))
      | (k, Inr (rows, stale)) \<Rightarrow> (k, 200, PList (map row_value rows)))"

end
