(* ===== verification/EventCalendarFacts.thy ===== *)
theory EventCalendarFacts
  imports EventCalendar
begin

text \<open>
  What the calendar adapter serves: rows read from upstream under the filter that is in force, fresh or within
  the grace after a failed read, and only those of the requested symbol. A failed read is never an empty
  calendar; a body that is not a list is one.
\<close>

text \<open>The caches that requests can find, with the successful reads so far, the latest first.\<close>

inductive cache_history :: "(pyfloat \<times> pyval) list \<Rightarrow> cal_cache \<Rightarrow> bool" where
  start: "cache_history [] reset_cache"
| drop: "cache_history h c \<Longrightarrow> cache_history h reset_cache"
| served: "cache_history h c \<Longrightarrow> fresh_enough env force now c
    \<Longrightarrow> cache_history h (fst (refresh_locked env force now later up c))"
| failed: "cache_history h c \<Longrightarrow> cache_history h (fst (refresh_locked env force now later (Inl exc) c))"
| read: "cache_history h c \<Longrightarrow> \<not> fresh_enough env force now c
    \<Longrightarrow> cache_history ((later, raw) # h) (fst (refresh_locked env force now later (Inr raw) c))"

lemma refresh_fresh: "fresh_enough env force now c \<Longrightarrow> refresh_locked env force now later up c = (c, Inr (cached_rows c, False))"
  by (simp add: refresh_locked_def)

lemma refresh_failed: "fst (refresh_locked env force now later (Inl exc) c) = c"
  by (simp add: refresh_locked_def)

lemma refresh_read: "\<not> fresh_enough env force now c \<Longrightarrow> refresh_locked env force now later (Inr raw) c =
    (\<lparr>cc_rows = Some (normalise_rows raw (resolve_purposes env)), cc_at = later, cc_purposes = resolve_purposes env\<rparr>,
     Inr (normalise_rows raw (resolve_purposes env), False))"
  by (simp add: refresh_locked_def Let_def)

lemma cached_was_read:
  "cache_history h c \<Longrightarrow> cc_rows c = Some rows \<Longrightarrow> \<exists>raw. (cc_at c, raw) \<in> set h \<and> rows = normalise_rows raw (cc_purposes c)"
proof (induction arbitrary: rows rule: cache_history.induct)
  case (read h c env force now later raw)
  then show ?case by (auto simp: refresh_read)
qed (auto simp: reset_cache_def refresh_fresh refresh_failed)

text \<open>Every answer that is not an exception is the filtered payload of a successful read, the one of this
  request or an earlier one in the cache; a cached one is younger than the freshness window at the time it
  is looked up, or the answer is marked stale, this request's read has failed and the cached one is
  within the grace. A request whose read fails and finds nothing usable gets the exception.\<close>

theorem answers_were_read:
  assumes "cache_history h c" "cache_history h' c'" "get_calendar env force start now later up c c' = (k, Inr (rows, stale))"
  shows "\<exists>t raw. rows = normalise_rows raw (resolve_purposes env) \<and>
    (if stale then (t, raw) \<in> set h' \<and> (\<exists>exc. up = Inl exc)
        \<and> fle (fsub later t) (env_float env ''EVENT_CALENDAR_STALE_GRACE_SECS'' DEFAULT_STALE_GRACE_SECONDS (Fin 0))
     else (t = later \<and> up = Inr raw)
        \<or> ((t, raw) \<in> set h \<and> flt (fsub start t) (env_float env ''EVENT_CALENDAR_TTL_SECS'' DEFAULT_TTL_SECONDS (Fin 0)))
        \<or> ((t, raw) \<in> set h' \<and> flt (fsub now t) (env_float env ''EVENT_CALENDAR_TTL_SECS'' DEFAULT_TTL_SECONDS (Fin 0))))"
proof (cases "fresh_enough env force start c")
  case True
  then obtain rs where "cc_rows c = Some rs" "rows = rs" "\<not> stale" "cc_purposes c = resolve_purposes env"
    using assms(3) by (auto simp: get_calendar_def fresh_enough_def cached_rows_def)
  with True cached_was_read [OF assms(1)] show ?thesis by (auto simp: fresh_enough_def)
next
  case slow: False
  then have locked: "refresh_locked env force now later up c' = (k, Inr (rows, stale))" using assms(3) by (simp add: get_calendar_def)
  show ?thesis
  proof (cases "fresh_enough env force now c'")
    case True
    then obtain rs where "cc_rows c' = Some rs" "rows = rs" "\<not> stale" "cc_purposes c' = resolve_purposes env"
      using locked by (auto simp: refresh_fresh fresh_enough_def cached_rows_def)
    with True cached_was_read [OF assms(2)] show ?thesis by (auto simp: fresh_enough_def)
  next
    case False
    show ?thesis
    proof (cases up)
      case (Inr raw)
      with False locked show ?thesis by (auto simp: refresh_read)
    next
      case (Inl exc)
      then obtain rs where "cc_rows c' = Some rs" "rows = rs" "stale" "cc_purposes c' = resolve_purposes env"
        "fle (fsub later (cc_at c')) (env_float env ''EVENT_CALENDAR_STALE_GRACE_SECS'' DEFAULT_STALE_GRACE_SECONDS (Fin 0))"
        using locked False by (auto simp: refresh_locked_def cached_rows_def split: if_splits)
      with Inl cached_was_read [OF assms(2)] show ?thesis by auto
    qed
  qed
qed

text \<open>The route tells blindness from an empty calendar, except when upstream answers with something else than a
  list: any such body, an error object among them, is served as a calendar without events and kept.\<close>

theorem odd_body_is_a_clear_calendar:
  assumes "\<not> fresh_enough env False start c" "\<not> fresh_enough env False now c'"
    and "response = Inr (200, Some (PDict body))" "py_strip symbol \<noteq> []"
  shows "events_calendar env start now later (fetch_upstream response) c c' symbol
      = (\<lparr>cc_rows = Some [], cc_at = later, cc_purposes = resolve_purposes env\<rparr>, 200, PList [])
    \<and> (\<exists>k detail. events_calendar env start now later (fetch_upstream (Inr (403, Some (PDict body)))) reset_cache reset_cache symbol = (k, 503, detail))"
proof
  have none: "normalise_rows (PDict body) p = []" "rows_for_symbol [] t = []" for p t
    by (simp_all add: normalise_rows_def rows_for_symbol_def)
  have "fetch_upstream response = Inr (PDict body)" by (simp add: assms(3) fetch_upstream_def)
  with assms show "events_calendar env start now later (fetch_upstream response) c c' symbol
      = (\<lparr>cc_rows = Some [], cc_at = later, cc_purposes = resolve_purposes env\<rparr>, 200, PList [])"
    by (simp add: events_calendar_def events_for_symbol_def get_calendar_def refresh_read none Let_def)
  have empty: "\<not> fresh_enough env False t reset_cache" "cc_rows reset_cache = None" for t
    by (simp_all add: fresh_enough_def reset_cache_def)
  then show "\<exists>k detail. events_calendar env start now later (fetch_upstream (Inr (403, Some (PDict body)))) reset_cache reset_cache symbol = (k, 503, detail)"
    using assms(4) by (simp add: events_calendar_def events_for_symbol_def get_calendar_def refresh_locked_def fetch_upstream_def Let_def)
qed

text \<open>A request never gets another company's rows.\<close>

theorem rows_of_the_symbol_only:
  assumes "events_calendar env start now later up c c' symbol = (k, 200, PList body)" "row \<in> set body"
  shows "\<exists>r. row = row_value r \<and> py_upper (cr_symbol r) = py_upper (py_strip (py_strip symbol))"
  using assms
  by (auto simp: events_calendar_def events_for_symbol_def rows_for_symbol_def Let_def split: if_splits prod.splits sum.splits)

lemma answers_were_read_witness:
  "\<exists>t raw. ([] :: cal_row list) = normalise_rows raw (resolve_purposes (\<lambda>_. None)) \<and>
    (if False then (t, raw) \<in> set [] \<and> (\<exists>exc. (Inr (PList []) :: upstream) = Inl exc)
        \<and> fle (fsub (Fin 12) t) (env_float (\<lambda>_. None) ''EVENT_CALENDAR_STALE_GRACE_SECS'' DEFAULT_STALE_GRACE_SECONDS (Fin 0))
     else (t = Fin 12 \<and> (Inr (PList []) :: upstream) = Inr raw)
        \<or> ((t, raw) \<in> set [] \<and> flt (fsub (Fin 10) t) (env_float (\<lambda>_. None) ''EVENT_CALENDAR_TTL_SECS'' DEFAULT_TTL_SECONDS (Fin 0)))
        \<or> ((t, raw) \<in> set [] \<and> flt (fsub (Fin 11) t) (env_float (\<lambda>_. None) ''EVENT_CALENDAR_TTL_SECS'' DEFAULT_TTL_SECONDS (Fin 0))))"
  by (rule answers_were_read [OF cache_history.start cache_history.start]) code_simp

lemma odd_body_is_a_clear_calendar_witness:
  "events_calendar (\<lambda>_. None) (Fin 10) (Fin 11) (Fin 12) (fetch_upstream (Inr (200, Some (PDict [(''error'', PStr ''blocked'')]))))
      reset_cache reset_cache ''TCS''
      = (\<lparr>cc_rows = Some [], cc_at = Fin 12, cc_purposes = resolve_purposes (\<lambda>_. None)\<rparr>, 200, PList [])
    \<and> (\<exists>k detail. events_calendar (\<lambda>_. None) (Fin 10) (Fin 11) (Fin 12)
        (fetch_upstream (Inr (403, Some (PDict [(''error'', PStr ''blocked'')])))) reset_cache reset_cache ''TCS'' = (k, 503, detail))"
  by (rule odd_body_is_a_clear_calendar [OF _ _ refl]) code_simp+

lemma rows_of_the_symbol_only_witness:
  "\<exists>r. row_value \<lparr>cr_symbol = ''TCS'', cr_date = ''2026-09-01'', cr_purpose = ''Results'', cr_company = []\<rparr> = row_value r
    \<and> py_upper (cr_symbol r) = py_upper (py_strip (py_strip ''tcs''))"
  by (rule rows_of_the_symbol_only [of "\<lambda>_. None" "Fin 10" "Fin 11" "Fin 12"
        "Inr (PList [PDict [(''symbol'', PStr ''TCS''), (''date'', PStr ''1-sep-2026''), (''purpose'', PStr ''Results'')],
           PDict [(''symbol'', PStr ''TCSX''), (''date'', PStr ''1-sep-2026''), (''purpose'', PStr ''Results'')]])"
        reset_cache reset_cache "''tcs''"
        "\<lparr>cc_rows = Some [\<lparr>cr_symbol = ''TCS'', cr_date = ''2026-09-01'', cr_purpose = ''Results'', cr_company = []\<rparr>,
            \<lparr>cr_symbol = ''TCSX'', cr_date = ''2026-09-01'', cr_purpose = ''Results'', cr_company = []\<rparr>],
          cc_at = Fin 12, cc_purposes = [''result'']\<rparr>"
        "[row_value \<lparr>cr_symbol = ''TCS'', cr_date = ''2026-09-01'', cr_purpose = ''Results'', cr_company = []\<rparr>]"]) code_simp+

end
