(* ===== verification/EventRisk.thy ===== *)
theory EventRisk
  imports Evidence Session EventCalendar
begin

text \<open>
  Earnings risk: the classifier of events.py and the tool get_event_risk of tools.py that feeds it. The time
  zone database is given by two functions, the offset of a UTC second and the offset of a local second;
  \<open>datetime.fromisoformat\<close>, \<open>json.loads\<close>, the csv reader, the calendar file, the HTTP client and the clock are
  the other parts of the world the tool reads. Days are numbered from 1970-01-01.
\<close>

subsection \<open>Configuration\<close>

definition DEFAULT_EVENT_GATE_ENABLED :: bool where "DEFAULT_EVENT_GATE_ENABLED = True"
definition DEFAULT_EVENT_MARKET_TIMEZONE :: string where "DEFAULT_EVENT_MARKET_TIMEZONE = ''Asia/Kolkata''"
definition DEFAULT_EVENT_DEFAULT_HOLDING_HORIZON :: string where "DEFAULT_EVENT_DEFAULT_HOLDING_HORIZON = ''multi_session''"
definition DEFAULT_EVENT_IMMINENT_WINDOW_DAYS :: int where "DEFAULT_EVENT_IMMINENT_WINDOW_DAYS = 5"
definition DEFAULT_EVENT_THROUGH_EVENT_WINDOW_DAYS :: int where "DEFAULT_EVENT_THROUGH_EVENT_WINDOW_DAYS = 2"
definition DEFAULT_EVENT_SOURCE_TIMEOUT_S :: pyfloat where "DEFAULT_EVENT_SOURCE_TIMEOUT_S = Fin 10"
definition HOLDING_HORIZONS :: "string list" where "HOLDING_HORIZONS = [''intraday'', ''multi_session'']"

record event_config =
  ec_enabled :: bool
  ec_timezone :: string
  ec_default_horizon :: string
  ec_imminent_days :: int
  ec_through_days :: int
  ec_timeout :: pyfloat
  ec_api_url :: "string option"
  ec_file_path :: "string option"

definition parse_switch :: "string \<Rightarrow> bool option" where
  "parse_switch s = (let t = py_lower s in
     if t \<in> {''1'', ''true'', ''yes''} then Some True else if t \<in> {''0'', ''false'', ''no''} then Some False else None)"

definition resolve_switch :: "env \<Rightarrow> string \<Rightarrow> bool \<Rightarrow> bool" where
  "resolve_switch env env_name dflt = (case env env_name of None \<Rightarrow> dflt
     | Some raw \<Rightarrow> if py_strip raw = [] then dflt
         else case parse_switch (py_strip raw) of None \<Rightarrow> dflt | Some b \<Rightarrow> b)"

definition resolve_horizon :: "env \<Rightarrow> string \<Rightarrow> string \<Rightarrow> string" where
  "resolve_horizon env env_name dflt = (case env env_name of None \<Rightarrow> dflt
     | Some raw \<Rightarrow> if py_strip raw = [] then dflt
         else if py_strip raw \<notin> set HOLDING_HORIZONS then dflt else py_strip raw)"

definition resolve_window :: "env \<Rightarrow> string \<Rightarrow> int \<Rightarrow> int \<Rightarrow> int" where
  "resolve_window env env_name dflt low = (case env env_name of None \<Rightarrow> dflt
     | Some raw \<Rightarrow> if py_strip raw = [] then dflt
         else case parse_int (py_strip raw) of None \<Rightarrow> dflt | Some v \<Rightarrow> if v < low then dflt else v)"

definition resolve_above :: "env \<Rightarrow> string \<Rightarrow> pyfloat \<Rightarrow> pyfloat \<Rightarrow> pyfloat" where
  "resolve_above env env_name dflt low_exclusive = (case env env_name of None \<Rightarrow> dflt
     | Some raw \<Rightarrow> if py_strip raw = [] then dflt
         else case parse_float (py_strip raw) of None \<Rightarrow> dflt
         | Some v \<Rightarrow> if \<not> isfinite v \<or> fle v low_exclusive then dflt else v)"

definition resolve_optional_str :: "env \<Rightarrow> string \<Rightarrow> string option" where
  "resolve_optional_str env env_name = (case env env_name of None \<Rightarrow> None
     | Some raw \<Rightarrow> if py_strip raw = [] then None else Some (py_strip raw))"

interpretation event_switch: env_param parse_switch "\<lambda>_. True" resolve_switch
  by unfold_locales (auto simp: resolve_switch_def)

interpretation event_horizon: env_param Some "\<lambda>h. h \<in> set HOLDING_HORIZONS" resolve_horizon
  by unfold_locales (auto simp: resolve_horizon_def)

interpretation event_window: env_param parse_int "\<lambda>v. low \<le> v" "\<lambda>env name d. resolve_window env name d low" for low
  by unfold_locales (auto simp: resolve_window_def)

interpretation event_timeout: env_param parse_float "\<lambda>v. isfinite v \<and> \<not> fle v low"
    "\<lambda>env name d. resolve_above env name d low" for low
  by unfold_locales (auto simp: resolve_above_def)

text \<open>The zone is resolved as in session.py; the two windows fall back together when out of order.\<close>

definition resolve_event_config :: "zoneinfo \<Rightarrow> env \<Rightarrow> event_config" where
  "resolve_event_config zone env =
     (let imminent = resolve_window env ''EVENT_IMMINENT_WINDOW_DAYS'' DEFAULT_EVENT_IMMINENT_WINDOW_DAYS 0;
          through = resolve_window env ''EVENT_THROUGH_EVENT_WINDOW_DAYS'' DEFAULT_EVENT_THROUGH_EVENT_WINDOW_DAYS 0;
          (imminent, through) = (if imminent < through
            then (DEFAULT_EVENT_IMMINENT_WINDOW_DAYS, DEFAULT_EVENT_THROUGH_EVENT_WINDOW_DAYS) else (imminent, through))
      in \<lparr>ec_enabled = resolve_switch env ''EVENT_GATE_ENABLED'' DEFAULT_EVENT_GATE_ENABLED,
          ec_timezone = resolve_timezone zone env ''EVENT_MARKET_TIMEZONE'' DEFAULT_EVENT_MARKET_TIMEZONE,
          ec_default_horizon = resolve_horizon env ''EVENT_DEFAULT_HOLDING_HORIZON'' DEFAULT_EVENT_DEFAULT_HOLDING_HORIZON,
          ec_imminent_days = imminent, ec_through_days = through,
          ec_timeout = resolve_above env ''EVENT_SOURCE_TIMEOUT_S'' DEFAULT_EVENT_SOURCE_TIMEOUT_S (Fin 0),
          ec_api_url = resolve_optional_str env ''EVENT_CALENDAR_API_URL'',
          ec_file_path = resolve_optional_str env ''EVENT_CALENDAR_FILE''\<rparr>)"

subsection \<open>The classifier\<close>

datatype event_risk = Clear | Imminent | Through_event
datatype event_advice = Proceed | Size_down | Shorten_horizon | Stand_aside

fun risk_text :: "event_risk \<Rightarrow> string" where
  "risk_text Clear = ''clear''"
| "risk_text Imminent = ''imminent''"
| "risk_text Through_event = ''through_event''"

fun advice_text :: "event_advice \<Rightarrow> string" where
  "advice_text Proceed = ''proceed''"
| "advice_text Size_down = ''size_down''"
| "advice_text Shorten_horizon = ''shorten_horizon''"
| "advice_text Stand_aside = ''stand_aside''"

definition normalize_holding_horizon :: "pyval \<Rightarrow> event_config \<Rightarrow> string" where
  "normalize_holding_horizon value config = (case value of
     PStr s \<Rightarrow> if s \<in> set HOLDING_HORIZONS then s else ec_default_horizon config | _ \<Rightarrow> ec_default_horizon config)"

text \<open>One pass over the candidates that keeps the least one after the reference.\<close>

definition nearer_event :: "pynum \<Rightarrow> pyfloat option \<Rightarrow> pyval \<Rightarrow> pyfloat option res" where
  "nearer_event reference best candidate = rbind (is_finite_number candidate) (\<lambda>fin. if \<not> fin then Inr best
     else rbind (to_num candidate) (\<lambda>c. if num_le c reference then Inr best
       else if best = None \<or> num_lt c (NF (the best)) then rbind (to_float c) (\<lambda>f. Inr (Some f)) else Inr best))"

definition select_next_event :: "pyval \<Rightarrow> pyval \<Rightarrow> pyfloat option res" where
  "select_next_event candidate_ms reference_ms = rbind (is_finite_number reference_ms) (\<lambda>fin. if \<not> fin then Inr None
     else rbind (to_num reference_ms) (\<lambda>reference. case py_iter candidate_ms of
         Inl _ \<Rightarrow> Inr None | Inr cs \<Rightarrow> rfold (nearer_event reference) None cs))"

text \<open>The local day of a timestamp, \<open>None\<close> outside the years of a datetime.\<close>

definition local_day :: "(int \<Rightarrow> int) \<Rightarrow> pyval \<Rightarrow> int option" where
  "local_day tz ms = (case rbind (to_num ms) (\<lambda>n. num_div n (NF (Fin 1000))) of
     Inr (NF (Fin q)) \<Rightarrow> map_option ld_day (fromtimestamp tz q) | _ \<Rightarrow> None)"

definition compute_days_until_event :: "zoneinfo \<Rightarrow> pyval \<Rightarrow> pyval \<Rightarrow> event_config \<Rightarrow> int option res" where
  "compute_days_until_event zone reference_ms event_ms config =
     rbind (is_finite_number reference_ms) (\<lambda>a. if \<not> a then Inr None
       else rbind (is_finite_number event_ms) (\<lambda>b. if \<not> b then Inr None
       else (case zone (ec_timezone config) of None \<Rightarrow> Inr None
         | Some tz \<Rightarrow> (case (local_day tz reference_ms, local_day tz event_ms) of
             (Some r, Some e) \<Rightarrow> Inr (if e - r < 0 then None else Some (e - r)) | _ \<Rightarrow> Inr None))))"

definition classify_event_risk :: "pyval \<Rightarrow> string \<Rightarrow> event_config \<Rightarrow> event_risk res" where
  "classify_event_risk days_until_event holding_horizon config =
     rbind (is_finite_number days_until_event) (\<lambda>fin. if \<not> fin then Inr Clear
       else rbind (to_num days_until_event) (\<lambda>days. if num_lt days (NI 0) then Inr Clear
         else if holding_horizon = ''intraday'' then Inr (if num_ext days = Fin 0 then Through_event else Clear)
         else if num_le days (NI (ec_through_days config)) then Inr Through_event
         else if num_le days (NI (ec_imminent_days config)) then Inr Imminent
         else Inr Clear))"

definition derive_event_recommendation :: "event_risk \<Rightarrow> string \<Rightarrow> event_advice" where
  "derive_event_recommendation risk holding_horizon = (case risk of
     Imminent \<Rightarrow> Size_down
   | Through_event \<Rightarrow> if holding_horizon = ''intraday'' then Stand_aside else Shorten_horizon
   | Clear \<Rightarrow> Proceed)"

definition event_unavailable :: "string \<Rightarrow> string option \<Rightarrow> string option \<Rightarrow> string option \<Rightarrow> pydict" where
  "event_unavailable cause symbol holding_horizon event_date =
     opt_entry ''symbol'' symbol @ opt_entry ''holding_horizon'' holding_horizon @ opt_entry ''event_date'' event_date
     @ [(''unavailable'', PBool True), (''reason'', PStr cause)]"

definition str_or_none :: "string option \<Rightarrow> pyval" where
  "str_or_none s = (case s of None \<Rightarrow> PNone | Some t \<Rightarrow> PStr t)"

definition assess_event_risk ::
  "zoneinfo \<Rightarrow> pyval \<Rightarrow> pyval \<Rightarrow> pyval \<Rightarrow> event_config \<Rightarrow> string option \<Rightarrow> string option \<Rightarrow> pydict" where
  "assess_event_risk zone reference_ms event_ms holding_horizon config symbol event_date =
     (let horizon = normalize_holding_horizon holding_horizon config in
      case rbind (compute_days_until_event zone reference_ms event_ms config) (\<lambda>days. case days of
          None \<Rightarrow> Inr (event_unavailable (''invalid event timing: expected finite epoch-millisecond reference/event timestamps, got reference=''
            @ py_repr reference_ms @ '', event='' @ py_repr event_ms) symbol (Some horizon) event_date)
        | Some n \<Rightarrow> rbind (classify_event_risk (PInt n) horizon config) (\<lambda>risk. Inr
            [(''days_until_event'', PInt n), (''event_risk'', PStr (risk_text risk)),
             (''event_recommendation'', PStr (advice_text (derive_event_recommendation risk horizon))),
             (''holding_horizon'', PStr horizon), (''event_date'', str_or_none event_date), (''symbol'', str_or_none symbol)])) of
        Inr result \<Rightarrow> result
      | Inl e \<Rightarrow> event_unavailable (''event classification error: '' @ error_name e) symbol (Some horizon) event_date)"

subsection \<open>The event source\<close>

text \<open>An ISO datetime: its local microsecond, counted from 1970-01-01T00:00, and its own offset in microseconds, if any.\<close>

type_synonym iso_reader = "string \<Rightarrow> (int \<times> int option) option"

datatype file_state = Missing_file | Unreadable_file string | File_text string

record event_world =
  ew_zone :: zoneinfo
  ew_wall :: "string \<Rightarrow> int \<Rightarrow> int"
  ew_iso :: iso_reader
  ew_loads :: "string \<Rightarrow> pyval option"
  ew_csv :: "string \<Rightarrow> string list list"
  ew_file :: "string \<Rightarrow> file_state"
  ew_http :: "string \<Rightarrow> string \<Rightarrow> string + (int \<times> pyval option)"
  ew_time :: pyfloat

definition EVENT_SYMBOL_KEYS :: "string list" where
  "EVENT_SYMBOL_KEYS = [''symbol'', ''ticker'', ''scrip'', ''code'']"

definition EVENT_DATE_KEYS :: "string list" where
  "EVENT_DATE_KEYS = [''date'', ''dates'', ''event_date'', ''eventDate'', ''event_dates'', ''earnings_date'',
     ''earningsDate'', ''earnings_dates'', ''results_date'', ''resultsDate'']"

text \<open>\<open>dt.timestamp() * 1000.0\<close> of the microsecond \<open>us\<close> of UTC.\<close>

definition timestamp_ms :: "int \<Rightarrow> pyfloat" where
  "timestamp_ms us = fmul (fl (of_int us / 1000000)) (Fin 1000)"

definition date_only :: "string \<Rightarrow> bool" where
  "date_only txt \<longleftrightarrow> length txt = 10 \<and> txt ! 4 = CHR ''-'' \<and> txt ! 7 = CHR ''-''"

text \<open>The microsecond of UTC at a local microsecond of the market.\<close>

definition utc_of_local :: "event_world \<Rightarrow> event_config \<Rightarrow> int \<Rightarrow> int" where
  "utc_of_local w config local_us = local_us - ew_wall w (ec_timezone config) (local_us div 1000000) * 1000000"

definition midnight_ms :: "event_world \<Rightarrow> event_config \<Rightarrow> int \<Rightarrow> pyfloat" where
  "midnight_ms w config day = timestamp_ms (utc_of_local w config (day * 86400000000))"

definition parse_event_date_to_ms :: "event_world \<Rightarrow> event_config \<Rightarrow> pyval \<Rightarrow> pyfloat option res" where
  "parse_event_date_to_ms w config value = (case value of
     PInt _ \<Rightarrow> rbind (math_isfinite value) (\<lambda>_. rbind (as_float value) (\<lambda>f. Inr (Some f)))
   | PFloat f \<Rightarrow> Inr (if isfinite f then Some f else None)
   | PStr s \<Rightarrow> (let txt = py_strip s in
       if txt = [] \<or> ew_zone w (ec_timezone config) = None then Inr None
       else if date_only txt then (case iso_fields txt of
             Some (y, m, d) \<Rightarrow> Inr (if valid_date y m d then Some (midnight_ms w config (day_number y m d)) else None)
           | None \<Rightarrow> Inr None)
       else (case ew_iso w (if last txt = CHR ''Z'' then butlast txt @ ''+00:00'' else txt) of
             None \<Rightarrow> Inr None
           | Some (us, Some off) \<Rightarrow> Inr (Some (timestamp_ms (us - off)))
           | Some (us, None) \<Rightarrow> Inr (Some (timestamp_ms (utc_of_local w config us)))))
   | _ \<Rightarrow> Inr None)"

definition is_date_value :: "pyval \<Rightarrow> bool" where
  "is_date_value v \<longleftrightarrow> (case v of PStr _ \<Rightarrow> True | PInt _ \<Rightarrow> True | PFloat _ \<Rightarrow> True | _ \<Rightarrow> False)"

definition coerce_date_values :: "pyval \<Rightarrow> pyval list" where
  "coerce_date_values value = (if is_date_value value then [value]
     else case value of PList vs \<Rightarrow> filter is_date_value vs | _ \<Rightarrow> [])"

definition dates_of_record :: "pydict \<Rightarrow> pyval list" where
  "dates_of_record d = concat (map (\<lambda>k. if has_key d k then coerce_date_values (dict_get d k) else []) EVENT_DATE_KEYS)"

definition record_symbol :: "pydict \<Rightarrow> string option" where
  "record_symbol d = (case find (\<lambda>k. is_str (dict_get d k)) EVENT_SYMBOL_KEYS of
     None \<Rightarrow> None | Some k \<Rightarrow> (case dict_get d k of PStr s \<Rightarrow> Some s | _ \<Rightarrow> None))"

definition same_symbol :: "string \<Rightarrow> string \<Rightarrow> bool" where
  "same_symbol target s \<longleftrightarrow> py_lower (py_strip s) = target"

definition record_dates :: "string \<Rightarrow> pyval \<Rightarrow> pyval list" where
  "record_dates target item = (case item of
     PDict d \<Rightarrow> (case record_symbol d of
         Some s \<Rightarrow> if same_symbol target s then dates_of_record d else [] | None \<Rightarrow> [])
   | _ \<Rightarrow> [])"

definition collect_symbol_dates :: "pyval \<Rightarrow> string \<Rightarrow> pyval list" where
  "collect_symbol_dates data symbol = (let target = py_lower (py_strip symbol) in
     if target = [] then []
     else case data of
       PDict d \<Rightarrow> concat (map (\<lambda>(k, v). if same_symbol target k then coerce_date_values v else []) d)
     | PList items \<Rightarrow> concat (map (record_dates target) items)
     | _ \<Rightarrow> [])"

definition dates_of_item :: "pyval \<Rightarrow> pyval list" where
  "dates_of_item item = (case item of PStr s \<Rightarrow> [item] | PDict d \<Rightarrow> dates_of_record d | _ \<Rightarrow> [])"

definition collect_api_dates :: "pyval \<Rightarrow> pyval list" where
  "collect_api_dates body = (case body of
     PList items \<Rightarrow> concat (map dates_of_item items)
   | PDict d \<Rightarrow> (case dict_get d ''events'' of PList items \<Rightarrow> concat (map dates_of_item items) | _ \<Rightarrow> []) @ dates_of_record d
   | _ \<Rightarrow> [])"

definition dates_to_ms :: "event_world \<Rightarrow> event_config \<Rightarrow> pyval list \<Rightarrow> pyfloat list res" where
  "dates_to_ms w config raws = rbind (rmap (parse_event_date_to_ms w config) raws) (\<lambda>ms. Inr (List.map_filter id ms))"

text \<open>The cells of the date columns of the symbol's rows; without a header the first column is the symbol.\<close>

definition extract_dates_from_csv :: "string list list \<Rightarrow> string \<Rightarrow> pyval list" where
  "extract_dates_from_csv table symbol = (let target = py_lower (py_strip symbol);
       rows = filter (list_ex (\<lambda>c. py_strip c \<noteq> [])) table in
     if target = [] \<or> rows = [] then []
     else let header = map (\<lambda>c. py_lower (py_strip c)) (hd rows);
       has_header = list_ex (\<lambda>h. h \<in> set EVENT_SYMBOL_KEYS \<or> substring ''date'' h) header;
       named = filter (\<lambda>i. substring ''date'' (header ! i)) [0..<length header];
       sym_idx = (if has_header then (case find (\<lambda>i. header ! i \<in> set EVENT_SYMBOL_KEYS) [0..<length header] of
           Some i \<Rightarrow> i | None \<Rightarrow> 0) else 0);
       date_idxs = (if has_header then (if named \<noteq> [] then named else if 1 < length header then [1] else []) else [1])
     in concat (map (\<lambda>row. if length row \<le> sym_idx \<or> \<not> same_symbol target (row ! sym_idx) then []
          else List.map_filter (\<lambda>i. if i < length row \<and> py_strip (row ! i) \<noteq> [] then Some (PStr (py_strip (row ! i))) else None)
            date_idxs) (if has_header then tl rows else rows)))"

definition ends_with :: "string \<Rightarrow> string \<Rightarrow> bool" where
  "ends_with suf s \<longleftrightarrow> length suf \<le> length s \<and> drop (length s - length suf) s = suf"

definition file_dates :: "event_world \<Rightarrow> string \<Rightarrow> string \<Rightarrow> string \<Rightarrow> string + pyval list" where
  "file_dates w symbol path raw = (case (if ends_with ''.csv'' (py_lower path) then None else ew_loads w raw) of
     Some data \<Rightarrow> Inr (collect_symbol_dates data symbol)
   | None \<Rightarrow> if ends_with ''.json'' (py_lower path) then Inl ''calendar file is malformed (unparseable JSON)''
       else Inr (extract_dates_from_csv (ew_csv w raw) symbol))"

text \<open>A reader gives candidates, or the reason it failed.\<close>

definition read_event_file :: "event_world \<Rightarrow> event_config \<Rightarrow> string \<Rightarrow> string \<Rightarrow> string + pyfloat list" where
  "read_event_file w config symbol path = (case ew_file w path of
     Missing_file \<Rightarrow> Inl (''calendar file not found: '' @ path)
   | Unreadable_file exc \<Rightarrow> Inl (''calendar file read error: '' @ exc)
   | File_text raw \<Rightarrow> if py_strip raw = [] then Inl ''calendar file is empty''
       else (case file_dates w symbol path raw of Inl cause \<Rightarrow> Inl cause
         | Inr dates \<Rightarrow> (case dates_to_ms w config dates of
             Inr ms \<Rightarrow> Inr ms | Inl e \<Rightarrow> Inl (''calendar file read error: '' @ error_name e))))"

definition read_event_api :: "event_world \<Rightarrow> event_config \<Rightarrow> string \<Rightarrow> string \<Rightarrow> string + pyfloat list" where
  "read_event_api w config symbol url = (case ew_http w url symbol of
     Inl exc \<Rightarrow> Inl (''calendar API request failed: '' @ exc)
   | Inr (status, body) \<Rightarrow> if status < 200 \<or> 300 \<le> status then Inl (''calendar API returned HTTP '' @ int_text status)
       else (case body of None \<Rightarrow> Inl ''calendar API returned an unparseable body''
         | Some v \<Rightarrow> (case dates_to_ms w config (collect_symbol_dates v symbol @ collect_api_dates v) of
             Inr ms \<Rightarrow> Inr ms | Inl e \<Rightarrow> Inl (''calendar API request failed: '' @ error_name e))))"

record event_source =
  es_candidates :: "pyfloat list"
  es_configured :: bool
  es_failure :: "string option"

definition add_source :: "(string \<Rightarrow> string + pyfloat list) \<Rightarrow> string option \<Rightarrow> event_source \<Rightarrow> event_source" where
  "add_source read place s = (case place of None \<Rightarrow> s
     | Some p \<Rightarrow> if py_strip p = [] then s else (case read p of
         Inl cause \<Rightarrow> s\<lparr>es_configured := True, es_failure := Some cause\<rparr>
       | Inr cs \<Rightarrow> s\<lparr>es_configured := True, es_candidates := es_candidates s @ cs\<rparr>))"

definition load_event_candidates :: "event_world \<Rightarrow> event_config \<Rightarrow> string \<Rightarrow> event_source" where
  "load_event_candidates w config symbol =
     add_source (read_event_api w config symbol) (ec_api_url config)
       (add_source (read_event_file w config symbol) (ec_file_path config)
         \<lparr>es_candidates = [], es_configured = False, es_failure = None\<rparr>)"

subsection \<open>The tool\<close>

definition event_marker :: "pyval \<Rightarrow> pyval \<Rightarrow> string \<Rightarrow> pydict" where
  "event_marker symbol holding_horizon cause =
     [(''symbol'', symbol), (''holding_horizon'', holding_horizon), (''unavailable'', PBool True), (''reason'', PStr cause)]"

definition has_honest_marker :: "pydict \<Rightarrow> bool" where
  "has_honest_marker d \<longleftrightarrow> has_key d ''error'' \<or> dict_get d ''unavailable'' = PBool True
     \<or> (case dict_get d ''sentiment_summary'' of PStr s \<Rightarrow> py_lower (py_strip s) = ''unavailable'' | _ \<Rightarrow> False)
     \<or> (case dict_get d ''status'' of PStr s \<Rightarrow> py_lower (py_strip s) \<in> {''unavailable'', ''watch_registration_failed''} | _ \<Rightarrow> False)"

definition contract_error :: "string \<Rightarrow> pydict" where
  "contract_error detail = [(''error'', PStr (''Tool result failed contract validation: '' @ detail)), (''contract_violation'', PStr detail)]"

definition is_number_or_null :: "pyval \<Rightarrow> bool" where
  "is_number_or_null v \<longleftrightarrow> (case v of PNone \<Rightarrow> True | PInt _ \<Rightarrow> True | PFloat _ \<Rightarrow> True | _ \<Rightarrow> False)"

text \<open>The event branch of \<open>validate_contract\<close>. Its set lookups raise for an unhashable label only, and the labels
  of an assessment are strings.\<close>

definition event_contract :: "pydict \<Rightarrow> pydict" where
  "event_contract d = (let q = quoted 39 in
     if has_honest_marker d then d
     else if in_enum EVENT_RISK_STATES (dict_get d ''event_risk'') \<noteq> Inr True
       then contract_error (''event_risk '' @ q (py_str (dict_get d ''event_risk'')) @ '' not in {clear, imminent, through_event}'')
     else if in_enum EVENT_RECOMMENDATIONS (dict_get d ''event_recommendation'') \<noteq> Inr True
       then contract_error (''event_recommendation '' @ q (py_str (dict_get d ''event_recommendation''))
         @ '' not in {proceed, size_down, shorten_horizon, stand_aside}'')
     else if \<not> has_key d ''days_until_event'' then contract_error (''event missing field '' @ q ''days_until_event'')
     else if \<not> is_number_or_null (dict_get d ''days_until_event'') then contract_error (''event '' @ q ''days_until_event'' @ '' is neither numeric nor null'')
     else if \<not> is_str (dict_get d ''event_date'') then contract_error (''event missing '' @ q ''event_date'' @ '' string'')
     else d)"

text \<open>\<open>date.isoformat()\<close> of a day: the year by cycles of 400, 100, 4 and 1 years, then the month.\<close>

definition civil_of_day :: "int \<Rightarrow> int \<times> int \<times> int" where
  "civil_of_day day = (let n = day + 719162; a = n mod 146097; b = a mod 36524; c = b mod 1461; r = c mod 365;
       y = n div 146097 * 400 + a div 36524 * 100 + b div 1461 * 4 + c div 365 + 1 in
     if c div 365 = 4 \<or> a div 36524 = 4 then (y - 1, 12, 31)
     else let m = int (length (filter (\<lambda>m. days_before_month y m \<le> r) [1..12])) in (y, m, r - days_before_month y m + 1))"

definition event_date_text :: "event_world \<Rightarrow> event_config \<Rightarrow> pyfloat \<Rightarrow> string option" where
  "event_date_text w config event_ms = (case ew_zone w (ec_timezone config) of None \<Rightarrow> None
     | Some tz \<Rightarrow> map_option (\<lambda>day. case civil_of_day day of (y, m, d) \<Rightarrow> iso_text y m d) (local_day tz (PFloat event_ms)))"

definition str_arg :: "pyval \<Rightarrow> pyval" where
  "str_arg v = (if is_str v then v else PNone)"

text \<open>The only exception that could reach the handler is that of \<open>math.isfinite\<close> on an integer beyond the floats.\<close>

definition exception_text :: "pyerr \<Rightarrow> string" where
  "exception_text e = (if e = OverflowError then ''int too large to convert to float'' else error_name e)"

definition nearest_event :: "event_world \<Rightarrow> event_source \<Rightarrow> pyfloat option res" where
  "nearest_event w source = select_next_event (PList (map PFloat (es_candidates source))) (PFloat (fmul (ew_time w) (Fin 1000)))"

definition get_event_risk :: "event_world \<Rightarrow> env \<Rightarrow> pyval \<Rightarrow> pyval \<Rightarrow> pydict" where
  "get_event_risk w env symbol holding_horizon = (let config = resolve_event_config (ew_zone w) env in
     if \<not> ec_enabled config then event_marker (str_arg symbol) (str_arg holding_horizon) ''event risk gate disabled by configuration''
     else case symbol of
       PStr ticker \<Rightarrow> (if py_strip ticker = [] then [(''error'', PStr ''get_event_risk requires a non-empty symbol'')]
         else let horizon = normalize_holding_horizon holding_horizon config; source = load_event_candidates w config ticker in
           if \<not> es_configured source then event_marker symbol (PStr horizon) ''no event source configured''
           else case nearest_event w source of
             Inl e \<Rightarrow> event_marker symbol (str_arg holding_horizon) (''event processing error: '' @ exception_text e)
           | Inr None \<Rightarrow> (case es_failure source of
               Some cause \<Rightarrow> if es_candidates source = [] then event_marker symbol (PStr horizon) (''event source retrieval failed: '' @ cause)
                 else event_marker symbol (PStr horizon) ''no upcoming scheduled event known for symbol''
             | None \<Rightarrow> event_marker symbol (PStr horizon) ''no upcoming scheduled event known for symbol'')
           | Inr (Some event_ms) \<Rightarrow> event_contract (assess_event_risk (ew_zone w) (PFloat (fmul (ew_time w) (Fin 1000)))
               (PFloat event_ms) (PStr horizon) config (Some ticker) (event_date_text w config event_ms)))
     | _ \<Rightarrow> [(''error'', PStr ''get_event_risk requires a non-empty symbol'')])"

end
