(* ===== verification/EventRiskFacts.thy ===== *)
theory EventRiskFacts
  imports EventRisk DebateFacts
begin

text \<open>
  What the earnings gate and its calendar promise, and where they fail: answers of the calendar were read
  from upstream under the current filter and within their age, a date keeps its day from the exchange's
  format to the candidate of the gate, nearer events are rated more strictly, and an event that is dated
  today is taken for no event.
\<close>

subsection \<open>Digits\<close>

lemma digit_char_digit [simp]: "is_digit (digit_char k)" "digit_val (digit_char k) = int (k mod 10)"
proof -
  have "48 + k mod 10 < 256" by (simp add: less_trans [of "k mod 10" 10 208])
  then show "is_digit (digit_char k)" "digit_val (digit_char k) = int (k mod 10)"
    by (simp_all add: is_digit_def digit_val_def digit_char_def)
qed

lemma digit_not_mark: "is_digit c \<Longrightarrow> c \<noteq> CHR ''-'' \<and> c \<noteq> CHR ''+'' \<and> c \<noteq> CHR ''_'' \<and> \<not> is_space c"
  by (auto simp: is_digit_def is_space_def Let_def)

lemma digit_char_mark [simp]: "digit_char k \<noteq> CHR ''-''" "digit_char k \<noteq> CHR ''+''" "digit_char k \<noteq> CHR ''_''"
    "\<not> is_space (digit_char k)" "CHR ''-'' \<noteq> digit_char k"
  using digit_not_mark [of "digit_char k"] by (metis digit_char_digit(1))+

lemma digit_part_digits: "ds \<noteq> [] \<Longrightarrow> digit_part (map digit_char ds) = Some (map (\<lambda>k. int (k mod 10)) ds)"
  by (induction ds rule: induct_list012) auto

lemma strip_digits: "py_strip (map digit_char ds) = map digit_char ds"
  by (cases "ds = []") (auto intro!: strip_fix simp: hd_map last_map)

lemma parse_digits:
  assumes "ds \<noteq> []" "length ds \<le> 4300"
  shows "parse_int (map digit_char ds) = Some (digits_val (map (\<lambda>k. int (k mod 10)) ds))"
proof -
  have "take_sign (map digit_char ds) = (1, map digit_char ds)"
    using assms(1) by (cases ds) (auto simp: take_sign_def)
  then show ?thesis using assms by (simp add: parse_int_def strip_digits digit_part_digits)
qed

lemma zero_char: "CHR ''0'' = digit_char 0"
  by code_simp

lemma padded_two:
  assumes "0 \<le> n" "n < 100" shows "padded 2 n = map digit_char [nat n div 10, nat n]"
proof (cases "nat n < 10")
  case True
  with assms show ?thesis by (simp add: padded_def int_text_def nat_text_acc.simps [of "nat n"] Let_def zero_char)
next
  case False
  have "nat n div 10 < 10" using assms by linarith
  with False assms have "int_text n = map digit_char [nat n div 10, nat n]"
    by (simp add: int_text_def nat_text_acc.simps [of "nat n"] nat_text_acc.simps [of "nat n div 10"])
  then show ?thesis by (simp add: padded_def)
qed

lemma padded_four:
  assumes "1000 \<le> n" "n < 10000" shows "padded 4 n = map digit_char [nat n div 1000, nat n div 100, nat n div 10, nat n]"
proof -
  have b: "\<not> nat n < 10" "\<not> nat n div 10 < 10" "\<not> nat n div 100 < 10" "nat n div 1000 < 10" using assms by linarith+
  have "nat n div 10 div 10 = nat n div 100" "nat n div 100 div 10 = nat n div 1000" by (simp_all add: div_mult2_eq [symmetric])
  with b assms have "int_text n = map digit_char [nat n div 1000, nat n div 100, nat n div 10, nat n]"
    by (simp add: int_text_def nat_text_acc.simps [of "nat n"] nat_text_acc.simps [of "nat n div 10"]
        nat_text_acc.simps [of "nat n div 100"] nat_text_acc.simps [of "nat n div 1000"])
  then show ?thesis by (simp add: padded_def)
qed

text \<open>The decimal digits of a number, most significant first, and their value.\<close>

lemma digits_snoc: "digits_val (ds @ [d]) = 10 * digits_val ds + d"
  by (simp add: digits_val_def)

fun leading :: "nat \<Rightarrow> nat \<Rightarrow> nat list" where
  "leading 0 k = []"
| "leading (Suc w) k = leading w (k div 10) @ [k]"

lemma leading_value: "k < 10 ^ w \<Longrightarrow> digits_val (map (\<lambda>k. int (k mod 10)) (leading w k)) = int k"
proof (induction w arbitrary: k)
  case 0
  then show ?case by (simp add: digits_val_def)
next
  case (Suc w)
  from Suc.prems have "k div 10 < 10 ^ w" by (simp add: div_less_iff_less_mult)
  with Suc.IH have "digits_val (map (\<lambda>k. int (k mod 10)) (leading w (k div 10))) = int (k div 10)" by simp
  moreover have "int k = 10 * int (k div 10) + int (k mod 10)"
    using mult_div_mod_eq [of 10 k] by linarith
  ultimately show ?case by (simp only: leading.simps map_append list.map digits_snoc)
qed

lemma two_digits_value:
  assumes "0 \<le> n" "n < 100" shows "parse_int (padded 2 n) = Some n"
proof -
  have "leading 2 (nat n) = [nat n div 10, nat n]" by (simp add: numeral_2_eq_2)
  then show ?thesis using assms leading_value [of "nat n" 2] by (simp add: padded_two parse_digits del: list.map)
qed

lemma four_digits_value:
  assumes "1000 \<le> n" "n < 10000" shows "parse_int (padded 4 n) = Some n"
proof -
  have "leading 4 (nat n) = [nat n div 1000, nat n div 100, nat n div 10, nat n]"
  proof -
    have four: "(4 :: nat) = Suc (Suc (Suc (Suc 0)))" by simp
    show ?thesis unfolding four leading.simps by (simp add: div_mult2_eq [symmetric])
  qed
  then show ?thesis using assms leading_value [of "nat n" 4] by (simp add: padded_four parse_digits del: list.map)
qed

subsection \<open>Dates\<close>

lemma iso_parts:
  assumes "1000 \<le> y" "y < 10000" "0 \<le> m" "m < 100" "0 \<le> d" "d < 100"
  shows "length (iso_text y m d) = 10" "iso_text y m d ! 4 = CHR ''-''" "iso_text y m d ! 7 = CHR ''-''"
    "iso_fields (iso_text y m d) = Some (y, m, d)" "py_strip (iso_text y m d) = iso_text y m d"
proof -
  have y4: "length (padded 4 y) = 4" and m2: "length (padded 2 m) = 2" and d2: "length (padded 2 d) = 2"
    using assms by (simp_all add: padded_four padded_two)
  then show "length (iso_text y m d) = 10" "iso_text y m d ! 4 = CHR ''-''" "iso_text y m d ! 7 = CHR ''-''"
    by (simp_all add: iso_text_def nth_append)
  have "slice 0 4 (iso_text y m d) = padded 4 y" "slice 5 7 (iso_text y m d) = padded 2 m" "slice 8 10 (iso_text y m d) = padded 2 d"
    using y4 m2 d2 by (simp_all add: slice_def iso_text_def)
  then show "iso_fields (iso_text y m d) = Some (y, m, d)"
    using assms by (simp add: iso_fields_def two_digits_value four_digits_value)
  have "hd (iso_text y m d) = digit_char (nat y div 1000)" "last (iso_text y m d) = digit_char (nat d)"
    using assms by (simp_all add: iso_text_def padded_four padded_two)
  then show "py_strip (iso_text y m d) = iso_text y m d"
    using \<open>length (iso_text y m d) = 10\<close> by (intro strip_fix) (auto simp del: length_greater_0_conv)
qed

lemma valid_bounds: "valid_date y m d \<Longrightarrow> 0 \<le> m \<and> m < 100 \<and> 0 \<le> d \<and> d < 100"
  by (auto simp: valid_date_def days_in_month_def split: if_splits)

text \<open>A date and the ISO text that the adapter keeps of it.\<close>

definition iso_date :: "int \<Rightarrow> int \<Rightarrow> int \<Rightarrow> string \<Rightarrow> bool" where
  "iso_date y m d s \<longleftrightarrow> valid_date y m d \<and> 1970 \<le> y \<and> y \<le> 2999 \<and> s = iso_text y m d"

lemma iso_dateD:
  assumes "iso_date y m d s"
  shows "date_only (py_strip s)" "iso_fields (py_strip s) = Some (y, m, d)" "py_strip s \<noteq> []" "py_strip s = s"
  using assms iso_parts [of y m d] valid_bounds [of y m d] by (auto simp: iso_date_def date_only_def)

lemma iso_or_none_date: "iso_or_none y m d = Some s \<Longrightarrow> iso_date y m d s"
  by (auto simp: iso_or_none_def iso_date_def split: if_splits)

lemma to_iso_date_form: "to_iso_date v = Some s \<Longrightarrow> \<exists>y m d. iso_date y m d s"
  by (auto simp: to_iso_date_def Let_def dest: iso_or_none_date split: pyval.splits if_splits option.splits list.splits)

lemma parsed_iso_date:
  assumes "iso_date y m d s" "ew_zone w (ec_timezone config) \<noteq> None"
  shows "parse_event_date_to_ms w config (PStr s) = Inr (Some (midnight_ms w config (day_number y m d)))"
  using iso_dateD [OF assms(1)] assms by (simp add: parse_event_date_to_ms_def Let_def iso_date_def)

lemma timestamp_exact:
  assumes "\<bar>s\<bar> \<le> 2 ^ 40" shows "timestamp_ms (s * 1000000) = Fin (of_int (1000 * s))"
proof -
  have s: "\<bar>s\<bar> \<le> 1099511627776" using assms by simp
  have "fl (of_int s) = Fin (of_int s)"
    by (rule fl_exact, rule fwf_int) (use s in simp)
  moreover have "fl (of_int (1000 * s)) = Fin (of_int (1000 * s))"
    by (rule fl_exact, rule fwf_int) (use s in \<open>simp add: abs_mult\<close>)
  ultimately show ?thesis by (simp add: timestamp_ms_def mult.commute)
qed

lemma month_offset: "1 \<le> m \<Longrightarrow> m \<le> 12 \<Longrightarrow> 0 \<le> days_before_month y m \<and> days_before_month y m \<le> 341"
proof -
  assume m: "1 \<le> m" "m \<le> 12"
  have b: "0 \<le> days_in_month y k" "days_in_month y k \<le> 31" for k by (simp_all add: days_in_month_def)
  have "sum_list (map (days_in_month y) ks) \<le> 31 * int (length ks)" "0 \<le> sum_list (map (days_in_month y) ks)" for ks
    by (induction ks) (use b in \<open>auto simp: algebra_simps intro: add_mono\<close>)
  from this [of "[1..m - 1]"] show ?thesis using m by (simp add: days_before_month_def)
qed

lemma day_number_bound: "iso_date y m d s \<Longrightarrow> \<bar>day_number y m d\<bar> \<le> 500000"
  using month_offset [of m y] valid_bounds [of y m d]
  by (auto simp: iso_date_def day_number_def Let_def valid_date_def)

lemma midnight_exact:
  assumes "iso_date y m d s" "ew_wall w (ec_timezone config) = (\<lambda>_. off)" "\<bar>off\<bar> \<le> 86400"
  shows "midnight_ms w config (day_number y m d) = Fin (of_int (1000 * (day_number y m d * 86400 - off)))"
proof -
  let ?s = "day_number y m d * 86400 - off"
  have "\<bar>?s\<bar> \<le> 2 ^ 40" using day_number_bound [OF assms(1)] assms(3) by simp
  moreover have "utc_of_local w config (day_number y m d * 86400000000) = ?s * 1000000"
    using assms(2) by (simp add: utc_of_local_def)
  ultimately show ?thesis unfolding midnight_ms_def by (simp only: timestamp_exact)
qed

subsection \<open>Candidates\<close>

lemma finite_pfloat [simp]: "is_finite_number (PFloat f) = Inr (isfinite f)"
  by (simp add: is_finite_number_def)

text \<open>Candidates that are not after the reference are never selected.\<close>

lemma past_not_selected:
  assumes "\<And>f. f \<in> set fs \<Longrightarrow> fle f r"
  shows "rfold (nearer_event (NF r)) None (map PFloat fs) = Inr None"
  using assms by (induction fs) (simp_all add: nearer_event_def)

lemma past_events_none:
  assumes "\<And>f. f \<in> set (es_candidates source) \<Longrightarrow> fle f (fmul (ew_time w) (Fin 1000))"
  shows "nearest_event w source = Inr None"
  using past_not_selected [OF assms] by (simp add: nearest_event_def select_next_event_def)

lemma dates_member:
  assumes "dates_to_ms w config raws = Inr ms" "f \<in> set ms"
  shows "\<exists>v\<in>set raws. parse_event_date_to_ms w config v = Inr (Some f)"
proof -
  obtain os where os: "rmap (parse_event_date_to_ms w config) raws = Inr os" "ms = List.map_filter id os"
    using assms(1) by (auto simp: dates_to_ms_def rbind_eq_Inr)
  then have "Some f \<in> set os" using assms(2) by (auto simp: map_filter_def)
  with os(1) show ?thesis using rmap_Inr_member by metis
qed

lemma dates_total:
  assumes "\<And>v. v \<in> set raws \<Longrightarrow> \<exists>f. parse_event_date_to_ms w config v = Inr (Some f)"
  shows "\<exists>ms. dates_to_ms w config raws = Inr ms \<and> length ms = length raws"
  using assms
proof (induction raws)
  case (Cons v raws)
  then obtain f ms os where "parse_event_date_to_ms w config v = Inr (Some f)"
    "rmap (parse_event_date_to_ms w config) raws = Inr os" "length (List.map_filter id os) = length raws"
    by (auto simp: dates_to_ms_def rbind_eq_Inr) metis
  then show ?case by (simp add: dates_to_ms_def)
qed (simp add: dates_to_ms_def)

text \<open>The reader takes the dates of the calendar's rows and nothing else.\<close>

lemma row_dates [simp]: "dates_of_record [(''symbol'', PStr a), (''date'', PStr b), (''purpose'', PStr c), (''company'', PStr d)] = [PStr b]"
  by (simp add: dates_of_record_def EVENT_DATE_KEYS_def has_key_def dict_get_def coerce_date_values_def is_date_value_def)

lemma row_item [simp]: "dates_of_item (row_value r) = [PStr (cr_date r)]"
  by (simp add: dates_of_item_def row_value_def)

lemma row_record: "set (record_dates target (row_value r)) \<subseteq> {PStr (cr_date r)}"
  by (auto simp: record_dates_def row_value_def split: option.split)

lemma calendar_dates:
  "set (collect_symbol_dates (PList (map row_value rows)) ticker @ collect_api_dates (PList (map row_value rows)))
     = PStr ` cr_date ` set rows"
proof -
  have "set (collect_symbol_dates (PList (map row_value rows)) ticker) \<subseteq> PStr ` cr_date ` set rows"
    by (auto simp: collect_symbol_dates_def Let_def dest!: subsetD [OF row_record])
  moreover have "set (collect_api_dates (PList (map row_value rows))) = PStr ` cr_date ` set rows"
    by (auto simp: collect_api_dates_def)
  ultimately show ?thesis by auto
qed

lemma normalised_row_date: "normalise_row purposes v = Some r \<Longrightarrow> to_iso_date (dict_get (as_dict v) ''date'') = Some (cr_date r)"
  unfolding normalise_row_def as_dict_def
  by (cases v; simp) (auto split: pyval.split_asm if_split_asm option.split_asm)

lemma normalised_date:
  assumes "r \<in> set (normalise_rows raw purposes)" shows "\<exists>y m d. iso_date y m d (cr_date r)"
proof -
  obtain v where "normalise_row purposes v = Some r"
    using assms by (cases raw) (auto simp: normalise_rows_def map_filter_def)
  then show ?thesis using normalised_row_date to_iso_date_form by blast
qed

subsection \<open>Configuration\<close>

lemma windows_not_negative: "0 \<le> ec_through_days (resolve_event_config zone env)"
proof -
  have "0 \<le> resolve_window env name d 0" if "0 \<le> d" for name d
    using event_window.resolve_ok [of 0 d env name] that by simp
  then show ?thesis
    by (simp add: resolve_event_config_def Let_def DEFAULT_EVENT_THROUGH_EVENT_WINDOW_DAYS_def
        DEFAULT_EVENT_IMMINENT_WINDOW_DAYS_def)
qed

lemma finite_int: "\<bar>n\<bar> \<le> 2 ^ 53 \<Longrightarrow> is_finite_number (PInt n) = Inr True"
  using fl_exact [OF fwf_int [of n]] by (simp add: is_finite_number_def float_of_int_def)

lemma classify_days:
  assumes "0 \<le> n" "n \<le> 2 ^ 53"
  shows "classify_event_risk (PInt n) h c = Inr (if h = ''intraday'' then (if n = 0 then Through_event else Clear)
     else if n \<le> ec_through_days c then Through_event else if n \<le> ec_imminent_days c then Imminent else Clear)"
  using assms finite_int [of n] by (simp add: classify_event_risk_def num_lt_def num_le_def)

subsection \<open>Today's event\<close>

text \<open>Whoever reports today is read as reporting never: the calendar serves dates, a date stands for its midnight,
  and an event must lie after the present. With the adapter as the only source and every date of the symbol's
  rows today or earlier in the market, the gate answers that no scheduled event is known, although its own
  classifier rates an event of the same day as held through, for every horizon.\<close>

theorem results_day_reads_clear:
  fixes w env off
  defines "config \<equiv> resolve_event_config (ew_zone w) env"
  assumes gate: "ec_enabled config" "ec_file_path config = None" "ec_api_url config = Some url" "py_strip url \<noteq> []"
    and zone: "ew_zone w (ec_timezone config) \<noteq> None" "ew_wall w (ec_timezone config) = (\<lambda>_. off)" "\<bar>off\<bar> \<le> 86400"
    and clock: "ew_time w = Fin now"
    and answer: "ew_http w url ticker = Inr (200, Some (PList (map row_value (rows_for_symbol (normalise_rows raw purposes) ticker))))"
    and past: "\<And>r y m d. r \<in> set (rows_for_symbol (normalise_rows raw purposes) ticker) \<Longrightarrow> iso_date y m d (cr_date r)
      \<Longrightarrow> of_int (day_number y m d * 86400 - off) \<le> now"
    and ticker: "py_strip ticker \<noteq> []"
  shows "get_event_risk w env (PStr ticker) h = event_marker (PStr ticker) (PStr (normalize_holding_horizon h config))
      ''no upcoming scheduled event known for symbol''
    \<and> classify_event_risk (PInt 0) (normalize_holding_horizon h config) config = Inr Through_event"
proof
  let ?rows = "rows_for_symbol (normalise_rows raw purposes) ticker"
  let ?raws = "collect_symbol_dates (PList (map row_value ?rows)) ticker @ collect_api_dates (PList (map row_value ?rows))"
  have read: "\<exists>f. parse_event_date_to_ms w config v = Inr (Some f) \<and> fle f (fmul (ew_time w) (Fin 1000))"
    if "v \<in> set ?raws" for v
  proof -
    have "v \<in> PStr ` cr_date ` set ?rows" using that unfolding calendar_dates .
    then obtain r where r: "r \<in> set ?rows" "v = PStr (cr_date r)" by blast
    then have "r \<in> set (normalise_rows raw purposes)" by (simp add: rows_for_symbol_def split: if_splits)
    then obtain y m d where dt: "iso_date y m d (cr_date r)" using normalised_date by blast
    have "of_int (1000 * (day_number y m d * 86400 - off)) \<le> now * 1000" using past [OF r(1) dt] by simp
    then have "fle (midnight_ms w config (day_number y m d)) (fl (now * 1000))"
      using fl_mono [of "of_int (1000 * (day_number y m d * 86400 - off))" "now * 1000"] midnight_exact [OF dt zone(2,3)]
        fl_exact [OF fwf_int [of "1000 * (day_number y m d * 86400 - off)"]] day_number_bound [OF dt] zone(3)
      by (simp del: of_int_mult of_int_diff)
    with r dt zone(1) clock show ?thesis by (simp add: parsed_iso_date)
  qed
  then obtain ms where ms: "dates_to_ms w config ?raws = Inr ms" using dates_total by blast
  have "fle f (fmul (ew_time w) (Fin 1000))" if "f \<in> set ms" for f
    using dates_member [OF ms that] read by fastforce
  moreover have src: "load_event_candidates w config ticker = \<lparr>es_candidates = ms, es_configured = True, es_failure = None\<rparr>"
    using gate answer ms by (simp add: load_event_candidates_def add_source_def read_event_api_def)
  ultimately have "nearest_event w (load_event_candidates w config ticker) = Inr None" by (intro past_events_none) simp
  then show "get_event_risk w env (PStr ticker) h = event_marker (PStr ticker) (PStr (normalize_holding_horizon h config))
      ''no upcoming scheduled event known for symbol''"
    using gate ticker src by (simp add: get_event_risk_def config_def Let_def)
  show "classify_event_risk (PInt 0) (normalize_holding_horizon h config) config = Inr Through_event"
    using windows_not_negative [of "ew_zone w" env] by (simp add: classify_days config_def)
qed

subsection \<open>Nearer events\<close>

fun risk_rank :: "event_risk \<Rightarrow> nat" where
  "risk_rank Clear = 0"
| "risk_rank Imminent = 1"
| "risk_rank Through_event = 2"

fun advice_rank :: "event_advice \<Rightarrow> nat" where
  "advice_rank Proceed = 0"
| "advice_rank Size_down = 1"
| "advice_rank Shorten_horizon = 2"
| "advice_rank Stand_aside = 3"

lemma local_day_range:
  assumes "local_day tz ms = Some day" shows "- 719162 \<le> day \<and> day < 2932897"
proof -
  obtain q dt where q: "fromtimestamp tz q = Some dt" "day = ld_day dt"
    using assms by (auto simp: local_day_def split: sum.splits pynum.splits pyfloat.splits)
  define l where "l = utc_micros q + tz (utc_micros q div 1000000) * 1000000"
  have "us_in_range l" "day = l div 86400000000"
    using q by (auto simp: fromtimestamp_def Let_def l_def split: if_splits)
  then show ?thesis by (auto simp: us_in_range_def)
qed

lemma days_range:
  assumes "compute_days_until_event zone r e c = Inr (Some n)" shows "0 \<le> n \<and> n \<le> 2 ^ 53"
proof -
  obtain tz a b where "local_day tz r = Some a" "local_day tz e = Some b" "n = b - a" "0 \<le> n"
    using assms by (auto simp: compute_days_until_event_def rbind_eq_Inr split: if_splits option.splits)
  with local_day_range [of tz r a] local_day_range [of tz e b] show ?thesis by simp
qed

text \<open>Of two events the nearer one, in days, is rated at least as risky and advised on at least as strictly under
  every horizon. Shortening the horizon clears an event that lies at least a day ahead, and it is also advised
  for one of the same day, which it leaves as held through.\<close>

theorem nearer_events_are_stricter:
  assumes "compute_days_until_event zone r e c = Inr (Some n)" "compute_days_until_event zone r' e' c = Inr (Some n')"
    and "n \<le> n'" "classify_event_risk (PInt n) h c = Inr a" "classify_event_risk (PInt n') h c = Inr a'"
  shows "risk_rank a' \<le> risk_rank a \<and> advice_rank (derive_event_recommendation a' h) \<le> advice_rank (derive_event_recommendation a h)
    \<and> classify_event_risk (PInt n) ''intraday'' c = Inr (if 1 \<le> n then Clear else Through_event)"
  using assms(3-5) days_range [OF assms(1)] days_range [OF assms(2)]
  by (auto simp: classify_days derive_event_recommendation_def split: if_splits)

subsection \<open>The exchange's dates\<close>

definition month_abbreviations :: "string list" where
  "month_abbreviations = [''Jan'', ''Feb'', ''Mar'', ''Apr'', ''May'', ''Jun'', ''Jul'', ''Aug'', ''Sep'', ''Oct'', ''Nov'', ''Dec'']"

definition exchange_text :: "int \<Rightarrow> int \<Rightarrow> int \<Rightarrow> string" where
  "exchange_text y m d = padded 2 d @ ''-'' @ month_abbreviations ! nat (m - 1) @ ''-'' @ padded 4 y"

lemma month_names:
  assumes "1 \<le> m" "m \<le> 12"
  shows "map_of MONTHS (take 3 (py_lower (py_strip (month_abbreviations ! nat (m - 1))))) = Some m
    \<and> CHR ''-'' \<notin> set (month_abbreviations ! nat (m - 1)) \<and> length (month_abbreviations ! nat (m - 1)) = 3"
proof -
  have "list_all (\<lambda>k. map_of MONTHS (take 3 (py_lower (py_strip (month_abbreviations ! nat (k - 1))))) = Some k
    \<and> CHR ''-'' \<notin> set (month_abbreviations ! nat (k - 1)) \<and> length (month_abbreviations ! nat (k - 1)) = 3) [1..12]"
    by code_simp
  moreover have "m \<in> set [1..12]" using assms by simp
  ultimately show ?thesis unfolding list_all_iff by blast
qed

lemma split_three:
  assumes "c \<notin> set a" "c \<notin> set b" "c \<notin> set d" shows "py_split c (a @ [c] @ b @ [c] @ d) = [a, b, d]"
proof -
  have one: "c \<notin> set s \<Longrightarrow> py_split c s = [s]" for s by (induction s) auto
  have more: "c \<notin> set s \<Longrightarrow> py_split c (s @ c # t) = s # py_split c t" for s t by (induction s) auto
  show ?thesis using assms by (simp add: one more)
qed

text \<open>A day of the exchange's calendar keeps its date: the text the exchange writes is rewritten to the ISO
  text of the same date, ISO texts pass unchanged, and the reader takes either for the midnight that
  begins the day in the market.\<close>

theorem calendar_date_round_trip:
  assumes "valid_date y m d" "1970 \<le> y" "y \<le> 2999"
    and "ew_zone w (ec_timezone config) \<noteq> None" "ew_wall w (ec_timezone config) = (\<lambda>_. off)" "\<bar>off\<bar> \<le> 86400"
  shows "to_iso_date (PStr (exchange_text y m d)) = Some (iso_text y m d)
    \<and> to_iso_date (PStr (iso_text y m d)) = Some (iso_text y m d)
    \<and> parse_event_date_to_ms w config (PStr (iso_text y m d)) = Inr (Some (Fin (of_int (1000 * (day_number y m d * 86400 - off)))))"
proof (intro conjI)
  have dt: "iso_date y m d (iso_text y m d)" using assms by (simp add: iso_date_def)
  have ok: "iso_or_none y m d = Some (iso_text y m d)"
    using assms by (auto simp: iso_or_none_def valid_date_def days_in_month_def split: if_splits)
  have b: "0 \<le> d" "d < 100" "1 \<le> m" "m \<le> 12" using assms(1) valid_bounds [OF assms(1)] by (simp_all add: valid_date_def)
  have no: "CHR ''-'' \<notin> set (padded 2 d)" "CHR ''-'' \<notin> set (padded 4 y)" using assms b by (simp_all add: padded_two padded_four)
  have hd_last: "hd (exchange_text y m d) = digit_char (nat d div 10)" "last (exchange_text y m d) = digit_char (nat y)"
    "exchange_text y m d \<noteq> []" using assms b by (simp_all add: exchange_text_def padded_two padded_four)
  have strip: "py_strip (exchange_text y m d) = exchange_text y m d" by (rule strip_fix) (simp_all add: hd_last)
  have four: "exchange_text y m d ! 4 \<noteq> CHR ''-''"
  proof -
    let ?n = "month_abbreviations ! nat (m - 1)"
    have n: "CHR ''-'' \<notin> set ?n" "length ?n = 3" using month_names [OF b(3,4)] by blast+
    have "exchange_text y m d ! 4 = ?n ! 1" using n b by (simp add: exchange_text_def padded_two nth_append)
    moreover have "?n ! 1 \<in> set ?n" using n by (intro nth_mem) simp
    ultimately show ?thesis using n(1) by metis
  qed
  have parts: "py_split (CHR ''-'') (exchange_text y m d) = [padded 2 d, month_abbreviations ! nat (m - 1), padded 4 y]"
    using split_three [OF no(1) _ no(2)] month_names [OF b(3,4)] by (simp add: exchange_text_def)
  have "py_strip (padded 2 d) = padded 2 d" "py_strip (padded 4 y) = padded 4 y"
    using assms b strip_digits [of "[nat d div 10, nat d]"] strip_digits [of "[nat y div 1000, nat y div 100, nat y div 10, nat y]"]
    by (simp_all add: padded_two padded_four)
  then show "to_iso_date (PStr (exchange_text y m d)) = Some (iso_text y m d)"
    using four parts month_names [OF b(3,4)] two_digits_value [OF b(1,2)] four_digits_value [of y] assms ok hd_last(3)
    by (simp add: to_iso_date_def strip)
  show "to_iso_date (PStr (iso_text y m d)) = Some (iso_text y m d)"
    using iso_dateD [OF dt] ok by (simp add: to_iso_date_def date_only_def)
  show "parse_event_date_to_ms w config (PStr (iso_text y m d)) = Inr (Some (Fin (of_int (1000 * (day_number y m d * 86400 - off)))))"
    using parsed_iso_date [OF dt assms(4)] midnight_exact [OF dt assms(5,6)] by simp
qed

subsection \<open>Witnesses\<close>

definition demo_row :: cal_row where
  "demo_row = \<lparr>cr_symbol = ''RELIANCE'', cr_date = ''2026-09-01'', cr_purpose = ''Financial Results'', cr_company = []\<rparr>"

definition demo_calendar :: pyval where
  "demo_calendar = PList [PDict [(''symbol'', PStr ''RELIANCE''), (''date'', PStr ''01-Sep-2026''), (''purpose'', PStr ''Financial Results'')]]"

text \<open>1 September 2026, eleven o'clock in Mumbai.\<close>

definition demo_world :: event_world where
  "demo_world = \<lparr>ew_zone = (\<lambda>z. Some (\<lambda>_. 19800)), ew_wall = (\<lambda>_ _. 19800), ew_iso = (\<lambda>_. None), ew_loads = (\<lambda>_. None),
     ew_csv = (\<lambda>_. []), ew_file = (\<lambda>_. Missing_file),
     ew_http = (\<lambda>url ticker. Inr (200, Some (PList (map row_value [demo_row])))), ew_time = Fin 1788240600\<rparr>"

definition demo_env :: env where
  "demo_env name = (if name = ''EVENT_CALENDAR_API_URL'' then Some ''http://127.0.0.1:8086/events/calendar'' else None)"

definition demo_config :: event_config where
  "demo_config = resolve_event_config (ew_zone demo_world) demo_env"

lemma demo_gate:
  "ec_enabled demo_config" "ec_file_path demo_config = None" "ec_api_url demo_config = Some ''http://127.0.0.1:8086/events/calendar''"
  "ec_through_days demo_config = 2" "ec_imminent_days demo_config = 5" "ec_timezone demo_config = ''Asia/Kolkata''"
  by code_simp+

lemma demo_rows: "rows_for_symbol (normalise_rows demo_calendar [''result'']) ''RELIANCE'' = [demo_row]"
  by code_simp

lemma demo_date: "iso_date y m d (cr_date demo_row) \<Longrightarrow> y = 2026 \<and> m = 9 \<and> d = 1"
proof -
  assume a: "iso_date y m d (cr_date demo_row)"
  have "iso_fields (py_strip (cr_date demo_row)) = Some (2026, 9, 1)" by code_simp
  with iso_dateD(2) [OF a] show ?thesis by simp
qed

lemma results_day_reads_clear_witness:
  "get_event_risk demo_world demo_env (PStr ''RELIANCE'') (PStr ''multi_session'')
     = event_marker (PStr ''RELIANCE'') (PStr (normalize_holding_horizon (PStr ''multi_session'') demo_config))
      ''no upcoming scheduled event known for symbol''
   \<and> classify_event_risk (PInt 0) (normalize_holding_horizon (PStr ''multi_session'') demo_config) demo_config = Inr Through_event"
proof -
  have day: "day_number 2026 9 1 = 20697" by code_simp
  have url: "py_strip ''http://127.0.0.1:8086/events/calendar'' \<noteq> []" "py_strip ''RELIANCE'' \<noteq> []" by code_simp+
  show ?thesis unfolding demo_config_def
    by (rule results_day_reads_clear [of demo_world demo_env "''http://127.0.0.1:8086/events/calendar''" 19800 1788240600
        "''RELIANCE''" demo_calendar "[''result'']"], unfold demo_config_def [symmetric] demo_rows)
      (use day in \<open>auto simp: demo_gate demo_world_def url dest!: demo_date\<close>)
qed

lemma nearer_events_are_stricter_witness:
  "risk_rank Clear \<le> risk_rank Through_event
    \<and> advice_rank (derive_event_recommendation Clear ''multi_session'') \<le> advice_rank (derive_event_recommendation Through_event ''multi_session'')
    \<and> classify_event_risk (PInt 1) ''intraday'' demo_config = Inr (if 1 \<le> (1 :: int) then Clear else Through_event)"
  by (rule nearer_events_are_stricter [of "ew_zone demo_world" "PInt 1788240600000" "PInt 1788327000000" demo_config 1
        "PInt 1788240600000" "PInt 1789140600000" 10]) code_simp+

lemma calendar_date_round_trip_witness:
  "to_iso_date (PStr (exchange_text 2026 9 1)) = Some (iso_text 2026 9 1)
    \<and> to_iso_date (PStr (iso_text 2026 9 1)) = Some (iso_text 2026 9 1)
    \<and> parse_event_date_to_ms demo_world demo_config (PStr (iso_text 2026 9 1))
      = Inr (Some (Fin (of_int (1000 * (day_number 2026 9 1 * 86400 - 19800)))))"
  by (rule calendar_date_round_trip) (simp_all add: demo_world_def valid_date_def days_in_month_def)

end
