(* ===== verification/OptionsBias.thy ===== *)
theory OptionsBias
  imports Evidence
begin

text \<open>
  options_bias.py: the positioning of the options market netted into a bias. Six signals of an analytics
  result vote bullish, bearish or not at all; a bias needs two votes and a strict majority. The values are
  those of a JSON object, integers may have any size.
\<close>

subsection \<open>Configuration\<close>

definition DEFAULT_PCR_BULLISH_CUTOFF :: pyfloat where "DEFAULT_PCR_BULLISH_CUTOFF = fl (13 / 10)"
definition DEFAULT_PCR_BEARISH_CUTOFF :: pyfloat where "DEFAULT_PCR_BEARISH_CUTOFF = fl (7 / 10)"
definition DEFAULT_OI_WALL_PROXIMITY_PCT :: pyfloat where "DEFAULT_OI_WALL_PROXIMITY_PCT = fl (1 / 100)"
definition DEFAULT_IV_SKEW_THRESHOLD :: pyfloat where "DEFAULT_IV_SKEW_THRESHOLD = Fin 0"
definition DEFAULT_FUTURES_BASIS_THRESHOLD :: pyfloat where "DEFAULT_FUTURES_BASIS_THRESHOLD = Fin 0"
definition MIN_SIGNALS_FOR_BIAS :: int where "MIN_SIGNALS_FOR_BIAS = 2"

record bias_config =
  bc_pcr_bullish :: pyfloat
  bc_pcr_bearish :: pyfloat
  bc_wall_proximity :: pyfloat
  bc_skew_threshold :: pyfloat
  bc_basis_threshold :: pyfloat

definition resolve_bounded :: "env \<Rightarrow> string \<Rightarrow> pyfloat \<Rightarrow> pyfloat \<Rightarrow> pyfloat \<Rightarrow> bool \<Rightarrow> pyfloat" where
  "resolve_bounded env env_name dflt low high low_exclusive = (case env env_name of None \<Rightarrow> dflt
     | Some raw \<Rightarrow> if py_strip raw = [] then dflt
         else case parse_float (py_strip raw) of None \<Rightarrow> dflt
         | Some v \<Rightarrow> if \<not> isfinite v then dflt
             else if low_exclusive \<and> fle v low then dflt
             else if \<not> low_exclusive \<and> flt v low then dflt
             else if flt high v then dflt else v)"

interpretation bias_float: env_param parse_float
    "\<lambda>v. isfinite v \<and> (if low_exclusive then \<not> fle v low else \<not> flt v low) \<and> \<not> flt high v"
    "\<lambda>env name d. resolve_bounded env name d low high low_exclusive" for low high low_exclusive
  by unfold_locales (auto simp: resolve_bounded_def)

definition resolve_options_bias_config :: "env \<Rightarrow> bias_config" where
  "resolve_options_bias_config env =
     (let bullish = resolve_bounded env ''OPTIONS_BIAS_PCR_BULLISH_CUTOFF'' DEFAULT_PCR_BULLISH_CUTOFF (Fin 0) PInf True;
          bearish = resolve_bounded env ''OPTIONS_BIAS_PCR_BEARISH_CUTOFF'' DEFAULT_PCR_BEARISH_CUTOFF (Fin 0) PInf True;
          (bullish, bearish) = (if \<not> flt bearish bullish
            then (DEFAULT_PCR_BULLISH_CUTOFF, DEFAULT_PCR_BEARISH_CUTOFF) else (bullish, bearish))
      in \<lparr>bc_pcr_bullish = bullish, bc_pcr_bearish = bearish,
          bc_wall_proximity = resolve_bounded env ''OPTIONS_BIAS_OI_WALL_PROXIMITY_PCT'' DEFAULT_OI_WALL_PROXIMITY_PCT (Fin 0) (Fin 1) False,
          bc_skew_threshold = resolve_bounded env ''OPTIONS_BIAS_IV_SKEW_THRESHOLD'' DEFAULT_IV_SKEW_THRESHOLD (Fin 0) PInf False,
          bc_basis_threshold = resolve_bounded env ''OPTIONS_BIAS_FUTURES_BASIS_THRESHOLD'' DEFAULT_FUTURES_BASIS_THRESHOLD (Fin 0) PInf False\<rparr>)"

subsection \<open>Votes\<close>

definition OI_BULLISH_COMBOS :: "(string \<times> string) list" where
  "OI_BULLISH_COMBOS = [(''put'', ''long_buildup''), (''put'', ''short_covering''), (''call'', ''short_buildup''), (''call'', ''long_unwinding'')]"

definition OI_BEARISH_COMBOS :: "(string \<times> string) list" where
  "OI_BEARISH_COMBOS = [(''call'', ''long_buildup''), (''call'', ''short_buildup''), (''put'', ''long_unwinding''), (''put'', ''short_buildup'')]"

text \<open>A usable number, \<open>None\<close> for anything else; an integer beyond the floats raises in \<open>math.isfinite\<close>.\<close>

definition usable :: "pyval \<Rightarrow> pynum option res" where
  "usable v = rbind (finite_number v) (\<lambda>fin. if \<not> fin then Inr None else rbind (to_num v) (\<lambda>n. Inr (Some n)))"

definition pcr_vote :: "pyval \<Rightarrow> bias_config \<Rightarrow> int res" where
  "pcr_vote pcr_oi config = rbind (usable pcr_oi) (\<lambda>u. Inr (case u of None \<Rightarrow> 0
     | Some n \<Rightarrow> if num_le (NF (bc_pcr_bullish config)) n then 1
         else if num_le n (NF (bc_pcr_bearish config)) then - 1 else 0))"

definition side_count :: "(string \<times> string) list \<Rightarrow> pydict \<Rightarrow> int" where
  "side_count combos d = int (length (filter (\<lambda>side. case dict_get d side of
     PStr label \<Rightarrow> (side, label) \<in> set combos | _ \<Rightarrow> False) [''call'', ''put'']))"

definition oi_buildup_vote :: "pyval \<Rightarrow> int" where
  "oi_buildup_vote oi_buildup = (case oi_buildup of
     PDict d \<Rightarrow> (let bullish = side_count OI_BULLISH_COMBOS d; bearish = side_count OI_BEARISH_COMBOS d in
       if bearish < bullish then 1 else if bullish < bearish then - 1 else 0)
   | _ \<Rightarrow> 0)"

text \<open>\<open>abs(x - spot) / abs(spot) <= limit\<close>.\<close>

definition near_spot :: "pynum \<Rightarrow> pynum \<Rightarrow> pyfloat \<Rightarrow> bool res" where
  "near_spot x spot limit = rbind (num_sub x spot) (\<lambda>diff. rbind (num_div (num_abs diff) (num_abs spot)) (\<lambda>q. Inr (num_le q (NF limit))))"

definition max_pain_vote :: "pyval \<Rightarrow> pyval \<Rightarrow> bias_config \<Rightarrow> int res" where
  "max_pain_vote max_pain spot config = rbind (usable max_pain) (\<lambda>p. case p of None \<Rightarrow> Inr 0
     | Some mp \<Rightarrow> rbind (usable spot) (\<lambda>s. case s of None \<Rightarrow> Inr 0
       | Some sp \<Rightarrow> if num_ext sp = Fin 0 then Inr 0
           else rbind (near_spot mp sp (bc_wall_proximity config)) (\<lambda>pinned. Inr (if pinned then 0
             else if num_lt sp mp then 1 else if num_lt mp sp then - 1 else 0))))"

definition wall_near :: "pyval \<Rightarrow> pynum \<Rightarrow> pyfloat \<Rightarrow> bool res" where
  "wall_near wall spot prox = rbind (usable wall) (\<lambda>u. case u of None \<Rightarrow> Inr False | Some n \<Rightarrow> near_spot n spot prox)"

definition oi_walls_vote :: "pyval \<Rightarrow> pyval \<Rightarrow> bias_config \<Rightarrow> int res" where
  "oi_walls_vote oi_walls spot config = (case oi_walls of
     PDict d \<Rightarrow> rbind (usable spot) (\<lambda>s. case s of None \<Rightarrow> Inr 0
       | Some sp \<Rightarrow> if num_ext sp = Fin 0 then Inr 0
           else rbind (wall_near (dict_get d ''support'') sp (bc_wall_proximity config)) (\<lambda>support_near.
             rbind (wall_near (dict_get d ''resistance'') sp (bc_wall_proximity config)) (\<lambda>resistance_near. Inr
               (if support_near \<and> \<not> resistance_near then 1 else if resistance_near \<and> \<not> support_near then - 1 else 0))))
   | _ \<Rightarrow> Inr 0)"

definition iv_skew_vote :: "pyval \<Rightarrow> bias_config \<Rightarrow> int res" where
  "iv_skew_vote iv_skew config = (case iv_skew of
     PDict d \<Rightarrow> rbind (usable (dict_get d ''put_minus_call'')) (\<lambda>u. Inr (case u of None \<Rightarrow> 0
       | Some n \<Rightarrow> if num_lt (NF (bc_skew_threshold config)) n then - 1
           else if num_lt n (NF (fneg (bc_skew_threshold config))) then 1 else 0))
   | _ \<Rightarrow> Inr 0)"

definition futures_basis_vote :: "pyval \<Rightarrow> bias_config \<Rightarrow> int res" where
  "futures_basis_vote futures_basis config = rbind (usable futures_basis) (\<lambda>u. Inr (case u of None \<Rightarrow> 0
     | Some n \<Rightarrow> if num_lt (NF (bc_basis_threshold config)) n then 1
         else if num_lt n (NF (fneg (bc_basis_threshold config))) then - 1 else 0))"

subsection \<open>The label\<close>

datatype bias = Bullish | Bearish | Neutral

fun bias_text :: "bias \<Rightarrow> string" where
  "bias_text Bullish = ''bullish''"
| "bias_text Bearish = ''bearish''"
| "bias_text Neutral = ''neutral''"

definition derive_alignment :: "bias \<Rightarrow> pyval \<Rightarrow> string" where
  "derive_alignment b proposed_direction =
     (let direction = (case proposed_direction of PStr s \<Rightarrow> py_upper (py_strip s) | _ \<Rightarrow> []) in
      case b of
        Bullish \<Rightarrow> if direction = ''BUY'' then ''aligned'' else if direction = ''SELL'' then ''misaligned'' else ''neutral''
      | Bearish \<Rightarrow> if direction = ''BUY'' then ''misaligned'' else if direction = ''SELL'' then ''aligned'' else ''neutral''
      | Neutral \<Rightarrow> ''neutral'')"

definition max_pain_vs_spot :: "pyval \<Rightarrow> pyval \<Rightarrow> pyval res" where
  "max_pain_vs_spot max_pain spot = rbind (usable max_pain) (\<lambda>p. case p of None \<Rightarrow> Inr PNone
     | Some mp \<Rightarrow> rbind (usable spot) (\<lambda>s. Inr (case s of None \<Rightarrow> PNone
       | Some sp \<Rightarrow> PStr (if num_lt sp mp then ''above'' else if num_lt mp sp then ''below'' else ''at''))))"

definition build_signals :: "pydict \<Rightarrow> pyval res" where
  "build_signals a = rbind (max_pain_vs_spot (dict_get a ''max_pain'') (dict_get a ''spot'')) (\<lambda>position. Inr (PDict
     [(''pcr_oi'', dict_get a ''pcr_oi''), (''oi_buildup'', dict_get a ''oi_buildup''), (''max_pain'', dict_get a ''max_pain''),
      (''spot'', dict_get a ''spot''), (''max_pain_vs_spot'', position), (''oi_walls'', dict_get a ''oi_walls''),
      (''iv_skew_put_minus_call'', case dict_get a ''iv_skew'' of PDict d \<Rightarrow> dict_get d ''put_minus_call'' | _ \<Rightarrow> PNone),
      (''futures_basis'', dict_get a ''futures_basis'')]))"

definition no_signals :: pyval where
  "no_signals = PDict (map (\<lambda>k. (k, PNone)) [''pcr_oi'', ''oi_buildup'', ''max_pain'', ''spot'', ''max_pain_vs_spot'',
     ''oi_walls'', ''iv_skew_put_minus_call'', ''futures_basis''])"

definition bias_label :: "bias \<Rightarrow> pyval \<Rightarrow> pyval \<Rightarrow> pydict" where
  "bias_label b proposed_direction signals = [(''options_bias_state'', PStr (bias_text b)),
     (''alignment'', PStr (derive_alignment b proposed_direction)), (''signals'', signals)]"

definition neutral_label :: "pyval \<Rightarrow> pyval \<Rightarrow> pydict res" where
  "neutral_label analytics proposed_direction = rbind (case analytics of PDict a \<Rightarrow> build_signals a | _ \<Rightarrow> Inr no_signals)
     (\<lambda>signals. Inr (bias_label Neutral proposed_direction signals))"

definition bias_votes :: "pydict \<Rightarrow> bias_config \<Rightarrow> int list res" where
  "bias_votes a config =
     rbind (pcr_vote (dict_get a ''pcr_oi'') config) (\<lambda>v1.
     rbind (max_pain_vote (dict_get a ''max_pain'') (dict_get a ''spot'') config) (\<lambda>v3.
     rbind (oi_walls_vote (dict_get a ''oi_walls'') (dict_get a ''spot'') config) (\<lambda>v4.
     rbind (iv_skew_vote (dict_get a ''iv_skew'') config) (\<lambda>v5.
     rbind (futures_basis_vote (dict_get a ''futures_basis'') config) (\<lambda>v6.
       Inr [v1, oi_buildup_vote (dict_get a ''oi_buildup''), v3, v4, v5, v6])))))"

definition bias_of_votes :: "int list \<Rightarrow> bias" where
  "bias_of_votes votes = (let bullish = int (length (filter (\<lambda>v. 0 < v) votes)); bearish = int (length (filter (\<lambda>v. v < 0) votes)) in
     if MIN_SIGNALS_FOR_BIAS \<le> bullish + bearish \<and> bearish < bullish then Bullish
     else if MIN_SIGNALS_FOR_BIAS \<le> bullish + bearish \<and> bullish < bearish then Bearish else Neutral)"

text \<open>Every exception of the body is answered by the neutral label, whose own signals are outside of the handler.\<close>

definition classify_options_bias :: "pyval \<Rightarrow> bias_config \<Rightarrow> pyval \<Rightarrow> pydict res" where
  "classify_options_bias analytics config proposed_direction = (case analytics of
     PDict a \<Rightarrow> (case rbind (bias_votes a config) (\<lambda>votes. rbind (build_signals a) (\<lambda>signals.
         Inr (bias_label (bias_of_votes votes) proposed_direction signals))) of
         Inr label \<Rightarrow> Inr label
       | Inl _ \<Rightarrow> neutral_label analytics proposed_direction)
   | _ \<Rightarrow> neutral_label analytics proposed_direction)"

end
