(* ===== verification/OptionsBiasFacts.thy ===== *)
theory OptionsBiasFacts
  imports OptionsBias
begin

text \<open>
  What the label of the options market is worth: a bias rests on at least two agreeing signals, a signal that
  goes missing never turns it round, mirrored votes give the mirrored bias, and the classifier, documented as
  total, raises for an integer that no float can hold.
\<close>

definition votes_for :: "(int \<Rightarrow> bool) \<Rightarrow> int list \<Rightarrow> nat" where
  "votes_for p votes = length (filter p votes)"

lemma bias_votes_iff:
  "bias_of_votes votes = Bullish \<longleftrightarrow> 2 \<le> votes_for ((<) 0) votes + votes_for (\<lambda>v. v < 0) votes
     \<and> votes_for (\<lambda>v. v < 0) votes < votes_for ((<) 0) votes"
  "bias_of_votes votes = Bearish \<longleftrightarrow> 2 \<le> votes_for ((<) 0) votes + votes_for (\<lambda>v. v < 0) votes
     \<and> votes_for ((<) 0) votes < votes_for (\<lambda>v. v < 0) votes"
  by (auto simp: bias_of_votes_def Let_def MIN_SIGNALS_FOR_BIAS_def votes_for_def)

lemma votes_for_update:
  "i < length votes \<Longrightarrow> votes_for p (votes[i := v]) + (if p (votes ! i) then 1 else 0) = votes_for p votes + (if p v then 1 else 0)"
proof (induction votes arbitrary: i)
  case (Cons x votes)
  then show ?case using Cons.IH [of "i - 1"] by (cases i) (auto simp: votes_for_def)
qed simp

lemma dropped_vote: "\<not> p 0 \<Longrightarrow> votes_for p (votes[i := 0]) \<le> votes_for p votes \<and> votes_for p votes \<le> votes_for p (votes[i := 0]) + 1"
  using votes_for_update [of i votes p 0] by (cases "i < length votes") (auto simp: list_update_beyond split: if_splits)

text \<open>A signal that is missing never turns a bias into its opposite.\<close>

lemma missing_signal_never_flips:
  "bias_of_votes votes = Bullish \<Longrightarrow> bias_of_votes (votes[i := 0]) \<noteq> Bearish"
  "bias_of_votes votes = Bearish \<Longrightarrow> bias_of_votes (votes[i := 0]) \<noteq> Bullish"
  using dropped_vote [of "(<) 0" votes i] dropped_vote [of "\<lambda>v. v < 0" votes i] by (auto simp: bias_votes_iff)

fun opposite :: "bias \<Rightarrow> bias" where
  "opposite Bullish = Bearish"
| "opposite Bearish = Bullish"
| "opposite Neutral = Neutral"

lemma mirrored_votes: "bias_of_votes (map uminus votes) = opposite (bias_of_votes votes)"
proof -
  have "votes_for ((<) 0) (map uminus votes) = votes_for (\<lambda>v. v < 0) votes"
    "votes_for (\<lambda>v. v < 0) (map uminus votes) = votes_for ((<) 0) votes"
    by (simp_all add: votes_for_def filter_map comp_def)
  then have "bias_of_votes (map uminus votes) = Bullish \<longleftrightarrow> bias_of_votes votes = Bearish"
    "bias_of_votes (map uminus votes) = Bearish \<longleftrightarrow> bias_of_votes votes = Bullish"
    by (auto simp: bias_votes_iff)
  then show ?thesis by (cases "bias_of_votes votes"; cases "bias_of_votes (map uminus votes)") auto
qed

text \<open>A label that takes a side rests on two signals or more for that side and fewer against it, and it shows the values
  as they were read.\<close>

theorem bias_rests_on_two_signals:
  assumes "classify_options_bias (PDict a) config direction = Inr label"
  shows "dict_get label ''options_bias_state'' = PStr ''neutral''
    \<or> (\<exists>votes sign. bias_votes a config = Inr votes \<and> length votes = 6 \<and> sign \<in> {1, - 1}
        \<and> dict_get label ''options_bias_state'' = PStr (if sign = 1 then ''bullish'' else ''bearish'')
        \<and> 2 \<le> votes_for (\<lambda>v. 0 < sign * v) votes \<and> votes_for (\<lambda>v. sign * v < 0) votes < votes_for (\<lambda>v. 0 < sign * v) votes)"
proof (cases "rbind (bias_votes a config) (\<lambda>votes. rbind (build_signals a) (\<lambda>signals. Inr (bias_label (bias_of_votes votes) direction signals)))")
  case (Inl e)
  then have "neutral_label (PDict a) direction = Inr label" using assms by (simp add: classify_options_bias_def)
  then show ?thesis by (auto simp: neutral_label_def rbind_eq_Inr bias_label_def dict_get_def)
next
  case (Inr l)
  then obtain votes signals where v: "bias_votes a config = Inr votes" "l = bias_label (bias_of_votes votes) direction signals"
    by (auto simp: rbind_eq_Inr)
  have l: "label = l" using assms Inr by (simp add: classify_options_bias_def)
  have six: "length votes = 6" using v(1) by (auto simp: bias_votes_def rbind_eq_Inr)
  have state: "dict_get label ''options_bias_state'' = PStr (bias_text (bias_of_votes votes))"
    by (simp add: l v(2) bias_label_def dict_get_def)
  show ?thesis
  proof (cases "bias_of_votes votes")
    case Bullish
    then show ?thesis using bias_votes_iff(1) [of votes] v(1) six state by (intro disjI2 exI [of _ votes] exI [of _ 1]) auto
  next
    case Bearish
    then show ?thesis using bias_votes_iff(2) [of votes] v(1) six state
      by (intro disjI2 exI [of _ votes] exI [of _ "- 1"]) auto
  qed (simp add: state)
qed

text \<open>The neutral label of the handler reads the two levels again, outside of the handler.\<close>

lemma huge_level_raises:
  assumes "classify_options_bias analytics config direction = Inl e"
  shows "\<exists>a n. analytics = PDict a \<and> (dict_get a ''max_pain'' = PInt n \<or> dict_get a ''spot'' = PInt n) \<and> float_of_int n = Inl e"
proof -
  have usable: "usable v = Inl e \<Longrightarrow> \<exists>n. v = PInt n \<and> float_of_int n = Inl e" for v
    by (cases v) (auto simp: usable_def finite_number_def rbind_eq_Inl rbind_eq_Inr split: if_splits)
  obtain a where a: "analytics = PDict a" "max_pain_vs_spot (dict_get a ''max_pain'') (dict_get a ''spot'') = Inl e"
    using assms by (cases analytics) (auto simp: classify_options_bias_def neutral_label_def build_signals_def rbind_eq_Inl
        split: sum.splits)
  then have "usable (dict_get a ''max_pain'') = Inl e \<or> usable (dict_get a ''spot'') = Inl e"
    by (auto simp: max_pain_vs_spot_def rbind_eq_Inl split: option.splits)
  then show ?thesis using usable a(1) by blast
qed

end
