(* ===== verification/Calibration.thy ===== *)
theory Calibration
  imports Attribution Journal EventCalendar
begin

text \<open>
  calibration.py: whether the conviction of debated decisions predicts their outcomes. Journal rows are
  values, a row of the store a dict of its columns; \<open>json.loads\<close> is an argument. Every statistic is
  computed on binary64 and rounded to four places.
\<close>

subsection \<open>Rows\<close>

definition CONSENSUS_CLASSES :: "string list" where
  "CONSENSUS_CLASSES = [''strong_agree'', ''lean'', ''contested'']"

definition DEFAULT_CONVICTION_BINS :: "(int \<times> int) list" where
  "DEFAULT_CONVICTION_BINS = [(0, 20), (20, 40), (40, 60), (60, 80), (80, 100)]"

definition key_tags :: "pydict \<Rightarrow> string list" where
  "key_tags d = (case dict_get d ''setup_key'' of PStr k \<Rightarrow> if k = [] then [] else py_split (CHR ''|'') k | _ \<Rightarrow> [])"

definition tags_of :: "(string \<Rightarrow> pyval option) \<Rightarrow> pydict \<Rightarrow> string list" where
  "tags_of loads d = (case dict_get d ''setup_tags'' of
     PList vs \<Rightarrow> map py_str vs
   | PStr raw \<Rightarrow> (if py_strip raw = [] then key_tags d
       else (case loads raw of Some (PList vs) \<Rightarrow> map py_str vs | _ \<Rightarrow> key_tags d))
   | _ \<Rightarrow> key_tags d)"

definition consensus_of :: "(string \<Rightarrow> pyval option) \<Rightarrow> pydict \<Rightarrow> string option" where
  "consensus_of loads d = (case find (\<lambda>t. take 3 (py_strip t) = ''db:'') (tags_of loads d) of
     None \<Rightarrow> None
   | Some t \<Rightarrow> (let value = py_lower (py_strip (drop 3 (py_strip t))) in if value \<in> set CONSENSUS_CLASSES then Some value else None))"

definition is_scored_debate_row :: "(string \<Rightarrow> pyval option) \<Rightarrow> pydict \<Rightarrow> bool" where
  "is_scored_debate_row loads d \<longleftrightarrow> word_of (dict_get d ''status'') \<in> {''win'', ''loss''}
     \<and> finite_number (dict_get d ''conviction'') = Inr True
     \<and> (py_upper (word_of (dict_get d ''mode'')) = ''DEBATE'' \<or> consensus_of loads d \<noteq> None)"

definition scored_debates :: "(string \<Rightarrow> pyval option) \<Rightarrow> pyval list \<Rightarrow> pydict list" where
  "scored_debates loads rows = List.map_filter (\<lambda>r. case r of
     PDict d \<Rightarrow> if is_scored_debate_row loads d then Some d else None | _ \<Rightarrow> None) rows"

text \<open>The outcome is read without the stripping that the filter allows.\<close>

definition has_outcome :: "string \<Rightarrow> pydict \<Rightarrow> bool" where
  "has_outcome s d \<longleftrightarrow> py_lower (py_str (dict_get d ''status'')) = s"

definition outcome_count :: "string \<Rightarrow> pydict list \<Rightarrow> int" where
  "outcome_count s members = int (length (filter (has_outcome s) members))"

definition conviction_of :: "pydict \<Rightarrow> pyfloat" where
  "conviction_of d = (case as_float (dict_get d ''conviction'') of Inr f \<Rightarrow> f | Inl _ \<Rightarrow> NaN)"

subsection \<open>Bins\<close>

fun bin_index :: "pyfloat \<Rightarrow> (int \<times> int) list \<Rightarrow> nat option" where
  "bin_index c [] = None"
| "bin_index c [(lo, hi)] = (if fle (Fin (of_int lo)) c \<and> fle c (Fin (of_int hi)) then Some 0 else None)"
| "bin_index c ((lo, hi) # b # bs) = (if fle (Fin (of_int lo)) c \<and> flt c (Fin (of_int hi)) then Some 0
     else map_option Suc (bin_index c (b # bs)))"

definition bin_members :: "(int \<times> int) list \<Rightarrow> pydict list \<Rightarrow> nat \<Rightarrow> pydict list" where
  "bin_members bins scored i = filter (\<lambda>d. bin_index (conviction_of d) bins = Some i) scored"

definition win_rate :: "int \<Rightarrow> int \<Rightarrow> pyfloat option" where
  "win_rate wins losses = win_share wins (wins + losses)"

definition mean_or_none :: "pyfloat list \<Rightarrow> pyfloat option res" where
  "mean_or_none xs = mean4 (py_sum xs) (int (length xs))"

record bin_report =
  br_lower :: int
  br_upper :: int
  br_label :: string
  br_applicable :: bool
  br_count :: int
  br_wins :: int
  br_losses :: int
  br_mean_conviction :: "pyfloat option"
  br_win_rate :: "pyfloat option"

definition bin_report_of :: "int \<times> int \<Rightarrow> pydict list \<Rightarrow> bin_report res" where
  "bin_report_of b members = (let wins = outcome_count ''win'' members; losses = outcome_count ''loss'' members in
     rbind (mean_or_none (map conviction_of members)) (\<lambda>mean. Inr
       \<lparr>br_lower = fst b, br_upper = snd b, br_label = int_text (fst b) @ ''-'' @ int_text (snd b),
        br_applicable = members \<noteq> [], br_count = int (length members), br_wins = wins, br_losses = losses,
        br_mean_conviction = mean, br_win_rate = win_rate wins losses\<rparr>))"

definition bin_reports :: "(int \<times> int) list \<Rightarrow> pydict list \<Rightarrow> bin_report list res" where
  "bin_reports bins scored = rmap (\<lambda>(i, b). bin_report_of b (bin_members bins scored i)) (enumerate 0 bins)"

subsection \<open>Reliability\<close>

record reliability =
  rl_applicable :: bool
  rl_non_decreasing :: bool
  rl_bins_compared :: int

definition non_empty_rates :: "bin_report list \<Rightarrow> pyfloat list" where
  "non_empty_rates reports = List.map_filter (\<lambda>b. if br_applicable b then br_win_rate b else None) reports"

fun adjacent_le :: "pyfloat list \<Rightarrow> bool" where
  "adjacent_le (x # y # xs) \<longleftrightarrow> fle x y \<and> adjacent_le (y # xs)"
| "adjacent_le _ \<longleftrightarrow> True"

definition reliability_of :: "bin_report list \<Rightarrow> reliability" where
  "reliability_of reports = (let rates = non_empty_rates reports in
     \<lparr>rl_applicable = 2 \<le> length rates, rl_non_decreasing = adjacent_le rates, rl_bins_compared = int (length rates)\<rparr>)"

subsection \<open>The measurement\<close>

record class_report =
  cl_applicable :: bool
  cl_count :: int
  cl_wins :: int
  cl_losses :: int
  cl_win_rate :: "pyfloat option"
  cl_expectancy_r :: "pyfloat option"

text \<open>The results of the settled members; an integer beyond the floats raises.\<close>

definition r_values :: "pydict list \<Rightarrow> pyfloat list res" where
  "r_values members = rbind (rmap (\<lambda>d. rbind (finite_number (dict_get d ''r_multiple'')) (\<lambda>fin.
       if \<not> fin then Inr None else rbind (as_float (dict_get d ''r_multiple'')) (\<lambda>f. Inr (Some f))))
     (filter (\<lambda>d. has_outcome ''win'' d \<or> has_outcome ''loss'' d) members)) (\<lambda>rs. Inr (List.map_filter id rs))"

definition class_report_of :: "pydict list \<Rightarrow> class_report res" where
  "class_report_of members = (let wins = outcome_count ''win'' members; losses = outcome_count ''loss'' members in
     rbind (r_values members) (\<lambda>rs. rbind (mean_or_none rs) (\<lambda>e. Inr
       \<lparr>cl_applicable = members \<noteq> [], cl_count = int (length members), cl_wins = wins, cl_losses = losses,
        cl_win_rate = win_rate wins losses, cl_expectancy_r = e\<rparr>)))"

definition by_consensus :: "(string \<Rightarrow> pyval option) \<Rightarrow> pydict list \<Rightarrow> (string \<times> class_report) list res" where
  "by_consensus loads scored = rmap (\<lambda>c. rbind (class_report_of (filter (\<lambda>d. consensus_of loads d = Some c) scored))
     (\<lambda>r. Inr (c, r))) CONSENSUS_CLASSES"

record calibration =
  ca_applicable :: bool
  ca_trades_scored :: int
  ca_bins :: "bin_report list"
  ca_reliability :: reliability
  ca_by_consensus :: "(string \<times> class_report) list"
  ca_failed :: bool

definition failed_calibration :: calibration where
  "failed_calibration = \<lparr>ca_applicable = False, ca_trades_scored = 0, ca_bins = [],
     ca_reliability = \<lparr>rl_applicable = False, rl_non_decreasing = True, rl_bins_compared = 0\<rparr>,
     ca_by_consensus = map (\<lambda>c. (c, \<lparr>cl_applicable = False, cl_count = 0, cl_wins = 0, cl_losses = 0, cl_win_rate = None,
       cl_expectancy_r = None\<rparr>)) CONSENSUS_CLASSES, ca_failed = True\<rparr>"

definition conviction_calibration :: "(string \<Rightarrow> pyval option) \<Rightarrow> pyval \<Rightarrow> (int \<times> int) list \<Rightarrow> calibration" where
  "conviction_calibration loads rows bins =
     (let defs = (if bins = [] then DEFAULT_CONVICTION_BINS else bins);
          scored = scored_debates loads (case rows of PList vs \<Rightarrow> vs | _ \<Rightarrow> []) in
      case rbind (bin_reports defs scored) (\<lambda>reports. rbind (by_consensus loads scored) (\<lambda>classes. Inr
          \<lparr>ca_applicable = scored \<noteq> [], ca_trades_scored = int (length scored), ca_bins = reports,
           ca_reliability = reliability_of reports, ca_by_consensus = classes, ca_failed = False\<rparr>)) of
        Inr c \<Rightarrow> c | Inl _ \<Rightarrow> failed_calibration)"

text \<open>The rows the journal is asked for: \<open>LIKE\<close> ignores the case of ASCII letters. A store that cannot be read gives none.\<close>

definition debate_row :: "pydict \<Rightarrow> bool" where
  "debate_row d \<longleftrightarrow> dict_get d ''mode'' = PStr ''DEBATE''
     \<or> (case dict_get d ''setup_key'' of PStr k \<Rightarrow> substring ''db:'' (py_lower k) | _ \<Rightarrow> False)"

definition conviction_calibration_from_journal :: "(string \<Rightarrow> pyval option) \<Rightarrow> pydict list res \<Rightarrow> (int \<times> int) list \<Rightarrow> calibration" where
  "conviction_calibration_from_journal loads store bins = (case store of
     Inr rows \<Rightarrow> conviction_calibration loads (PList (map PDict (filter debate_row rows))) bins
   | Inl _ \<Rightarrow> conviction_calibration loads (PList []) bins)"

end
