(* ===== verification/CalibrationFacts.thy ===== *)
theory CalibrationFacts
  imports Calibration
begin

text \<open>
  What the calibration counts: every conviction of the scale has one bin, the bins count every scored decision
  once, and a reliability that compares neighbours orders all bins.
\<close>

lemma default_bins:
  "bin_index (Fin q) DEFAULT_CONVICTION_BINS = (if 0 \<le> q \<and> q \<le> 100
     then Some (if q < 20 then 0 else if q < 40 then 1 else if q < 60 then 2 else if q < 80 then 3 else 4) else None)"
  by (auto simp: DEFAULT_CONVICTION_BINS_def)

lemma bin_index_bound: "bin_index c bins = Some i \<Longrightarrow> i < length bins"
  by (induction c bins arbitrary: i rule: bin_index.induct) (auto split: if_splits)

lemma members_partition:
  "(\<Sum>i<length bins. length (bin_members bins scored i)) = length (filter (\<lambda>d. bin_index (conviction_of d) bins \<noteq> None) scored)"
proof (induction scored)
  case (Cons d scored)
  let ?i = "bin_index (conviction_of d) bins"
  have one: "(\<Sum>i<length bins. if ?i = Some i then 1 else 0) = (if ?i \<noteq> None then 1 else 0 :: nat)"
  proof (cases ?i)
    case (Some k)
    then show ?thesis using bin_index_bound [OF Some] by (simp add: sum.delta')
  qed simp
  have "length (bin_members bins (d # scored) i) = (if ?i = Some i then 1 else 0) + length (bin_members bins scored i)" for i
    by (simp add: bin_members_def)
  then show ?case using Cons one by (simp add: sum.distrib)
qed (simp add: bin_members_def)

lemma bin_report_counts:
  "bin_report_of b ms = Inr r \<Longrightarrow> br_count r = int (length ms) \<and> br_wins r = outcome_count ''win'' ms \<and> br_losses r = outcome_count ''loss'' ms"
  by (auto simp: bin_report_of_def Let_def rbind_eq_Inr)

lemma outcomes_bounded: "outcome_count ''win'' ms + outcome_count ''loss'' ms \<le> int (length ms)"
proof -
  have "length (filter (has_outcome ''win'') ms) + length (filter (has_outcome ''loss'') ms) \<le> length ms"
    by (induction ms) (auto simp: has_outcome_def)
  then show ?thesis by (simp add: outcome_count_def)
qed

lemma numbered_reports:
  "rmap (\<lambda>(i, b). bin_report_of b (f i)) (enumerate n bins) = Inr rs \<Longrightarrow>
     sum_list (map br_count rs) = (\<Sum>i<length bins. int (length (f (n + i))))"
proof (induction bins arbitrary: n rs)
  case (Cons b bins)
  then obtain r rest where r: "rs = r # rest" "bin_report_of b (f n) = Inr r"
    "rmap (\<lambda>(i, b). bin_report_of b (f i)) (enumerate (Suc n) bins) = Inr rest"
    by (auto simp: rbind_eq_Inr)
  have "(\<Sum>i<length (b # bins). int (length (f (n + i)))) = int (length (f n)) + (\<Sum>i<length bins. int (length (f (Suc n + i))))"
    by (simp add: sum.lessThan_Suc_shift del: sum.lessThan_Suc)
  then show ?case using Cons.IH [OF r(3)] bin_report_counts [OF r(2)] by (simp add: r(1))
qed simp

text \<open>Every scored decision is counted in one bin, none is counted twice, and no bin settles more than it holds.\<close>

theorem bins_count_every_decision:
  assumes "bin_reports bins scored = Inr rs"
  shows "sum_list (map br_count rs) = int (length (filter (\<lambda>d. bin_index (conviction_of d) bins \<noteq> None) scored))
    \<and> (\<forall>r\<in>set rs. br_wins r + br_losses r \<le> br_count r)"
proof -
  have "sum_list (map br_count rs) = int (\<Sum>i<length bins. length (bin_members bins scored i))"
    using numbered_reports [of "bin_members bins scored" 0 bins rs] assms by (simp add: bin_reports_def)
  moreover have "br_wins r + br_losses r \<le> br_count r" if "r \<in> set rs" for r
    using rmap_Inr_member [OF assms [unfolded bin_reports_def] that] bin_report_counts outcomes_bounded by fastforce
  ultimately show ?thesis by (simp add: members_partition)
qed

text \<open>Neighbours in order are all in order.\<close>

lemma adjacent_sorted: "adjacent_le xs \<Longrightarrow> sorted_wrt fle xs"
proof (induction xs rule: adjacent_le.induct)
  case (1 x y xs)
  then show ?case by (auto intro: fle_trans)
qed simp_all

lemma reliability_orders_all: "rl_non_decreasing (reliability_of reports) \<Longrightarrow> sorted_wrt fle (non_empty_rates reports)"
  by (simp add: reliability_of_def Let_def adjacent_sorted)

text \<open>A status with white space around it is scored, and then counted neither as a win nor as a loss.\<close>

lemma padded_status_uncounted:
  assumes "dict_get d ''status'' = PStr '' win''" "dict_get d ''conviction'' = PInt 50" "dict_get d ''mode'' = PStr ''DEBATE''"
  shows "is_scored_debate_row loads d \<and> outcome_count ''win'' [d] = 0 \<and> outcome_count ''loss'' [d] = 0"
proof -
  have "word_of (PStr '' win'') = ''win''" "py_lower (py_str (PStr '' win'')) = '' win''"
    "py_upper (word_of (PStr ''DEBATE'')) = ''DEBATE''" "finite_number (PInt 50) = Inr True"
    by code_simp+
  then show ?thesis by (simp add: is_scored_debate_row_def assms outcome_count_def has_outcome_def)
qed

end
