(* ===== verification/Regime.thy ===== *)
theory Regime
  imports Attribution Session
begin

text \<open>
  regime.py: whether a market trends or ranges and how volatile it is, measured on its candles in binary64.
  The common logarithm of the C library is an argument; \<open>math.sqrt\<close> and the sum are those of the
  interpreter. A candle is a value; one that is not a dict with finite prices is left out.
\<close>

subsection \<open>Configuration\<close>

definition DEFAULT_ADX_TREND_CUTOFF :: pyfloat where "DEFAULT_ADX_TREND_CUTOFF = Fin 25"
definition DEFAULT_CHOP_RANGING_CUTOFF :: pyfloat where "DEFAULT_CHOP_RANGING_CUTOFF = fl (618 / 10)"
definition DEFAULT_VOL_LOW_PCTL :: pyfloat where "DEFAULT_VOL_LOW_PCTL = Fin 25"
definition DEFAULT_VOL_HIGH_PCTL :: pyfloat where "DEFAULT_VOL_HIGH_PCTL = Fin 75"
definition DEFAULT_MIN_CANDLES :: int where "DEFAULT_MIN_CANDLES = 50"
definition DEFAULT_ADX_PERIOD :: int where "DEFAULT_ADX_PERIOD = 14"
definition DEFAULT_CHOP_PERIOD :: int where "DEFAULT_CHOP_PERIOD = 14"
definition DEFAULT_VOL_PERIOD :: int where "DEFAULT_VOL_PERIOD = 14"
definition DEFAULT_VOL_PCTL_WINDOW :: int where "DEFAULT_VOL_PCTL_WINDOW = 100"
definition DEFAULT_BB_PERIOD :: int where "DEFAULT_BB_PERIOD = 20"

record regime_config =
  rc_adx_period :: int
  rc_chop_period :: int
  rc_vol_period :: int
  rc_vol_pctl_window :: int
  rc_bb_period :: int
  rc_adx_trend_cutoff :: pyfloat
  rc_chop_ranging_cutoff :: pyfloat
  rc_vol_low_pctl :: pyfloat
  rc_vol_high_pctl :: pyfloat
  rc_min_candles :: int

definition largest_lookback :: "regime_config \<Rightarrow> int" where
  "largest_lookback c = Max {rc_adx_period c, rc_chop_period c, rc_vol_period c, rc_bb_period c,
     rc_vol_period c + rc_vol_pctl_window c}"

definition resolve_regime_config :: "env \<Rightarrow> regime_config" where
  "resolve_regime_config env =
     (let low = EnvConfig.resolve_float env ''REGIME_VOL_LOW_PCTL'' DEFAULT_VOL_LOW_PCTL (Fin 0) (Fin 100);
          high = EnvConfig.resolve_float env ''REGIME_VOL_HIGH_PCTL'' DEFAULT_VOL_HIGH_PCTL (Fin 0) (Fin 100);
          (low, high) = (if fle high low then (DEFAULT_VOL_LOW_PCTL, DEFAULT_VOL_HIGH_PCTL) else (low, high))
      in \<lparr>rc_adx_period = EnvConfig.resolve_int env ''REGIME_ADX_PERIOD'' DEFAULT_ADX_PERIOD 1,
          rc_chop_period = EnvConfig.resolve_int env ''REGIME_CHOP_PERIOD'' DEFAULT_CHOP_PERIOD 1,
          rc_vol_period = EnvConfig.resolve_int env ''REGIME_VOL_PERIOD'' DEFAULT_VOL_PERIOD 1,
          rc_vol_pctl_window = EnvConfig.resolve_int env ''REGIME_VOL_PCTL_WINDOW'' DEFAULT_VOL_PCTL_WINDOW 1,
          rc_bb_period = EnvConfig.resolve_int env ''REGIME_BB_PERIOD'' DEFAULT_BB_PERIOD 1,
          rc_adx_trend_cutoff = EnvConfig.resolve_float env ''REGIME_ADX_TREND_CUTOFF'' DEFAULT_ADX_TREND_CUTOFF (Fin 0) (Fin 100),
          rc_chop_ranging_cutoff = EnvConfig.resolve_float env ''REGIME_CHOP_RANGING_CUTOFF'' DEFAULT_CHOP_RANGING_CUTOFF (Fin 0) (Fin 100),
          rc_vol_low_pctl = low, rc_vol_high_pctl = high,
          rc_min_candles = EnvConfig.resolve_int env ''REGIME_MIN_CANDLES'' DEFAULT_MIN_CANDLES 1\<rparr>)"

subsection \<open>Candles\<close>

record ohlc =
  oh_open :: pyfloat
  oh_high :: pyfloat
  oh_low :: pyfloat
  oh_close :: pyfloat

definition parse_ohlc :: "pyval \<Rightarrow> ohlc option res" where
  "parse_ohlc candle = (case candle of
     PDict d \<Rightarrow> rbind (all_finite [dict_get d ''open'', dict_get d ''high'', dict_get d ''low'', dict_get d ''close'']) (\<lambda>fin.
       if \<not> fin then Inr None
       else rbind (if dict_get d ''volume'' = PNone then Inr True else finite_number (dict_get d ''volume'')) (\<lambda>vol.
         if \<not> vol then Inr None
         else rbind (as_float (dict_get d ''open'')) (\<lambda>a. rbind (as_float (dict_get d ''high'')) (\<lambda>h.
           rbind (as_float (dict_get d ''low'')) (\<lambda>l. rbind (as_float (dict_get d ''close'')) (\<lambda>c.
             Inr (Some \<lparr>oh_open = a, oh_high = h, oh_low = l, oh_close = c\<rparr>)))))))
   | _ \<Rightarrow> Inr None)"

definition valid_ohlc_rows :: "pyval \<Rightarrow> ohlc list res" where
  "valid_ohlc_rows candles = (case py_iter candles of
     Inl _ \<Rightarrow> Inr []
   | Inr cs \<Rightarrow> rbind (rmap parse_ohlc cs) (\<lambda>rs. Inr (List.map_filter id rs)))"

definition clamp :: "pyfloat \<Rightarrow> pyfloat \<Rightarrow> pyfloat \<Rightarrow> pyfloat" where
  "clamp v low high = (if flt v low then low else if flt high v then high else v)"

fun pairwise :: "('a \<Rightarrow> 'a \<Rightarrow> 'b) \<Rightarrow> 'a list \<Rightarrow> 'b list" where
  "pairwise f (x # y # xs) = f x y # pairwise f (y # xs)"
| "pairwise f _ = []"

definition true_range :: "ohlc \<Rightarrow> ohlc \<Rightarrow> pyfloat" where
  "true_range p r = fmax (fmax (fsub (oh_high r) (oh_low r)) (fabs (fsub (oh_high r) (oh_close p)))) (fabs (fsub (oh_low r) (oh_close p)))"

definition true_ranges :: "ohlc list \<Rightarrow> pyfloat list" where
  "true_ranges rows = pairwise true_range rows"

text \<open>The last \<open>n\<close> items, \<open>xs[-n:]\<close> for a positive \<open>n\<close>.\<close>

definition last_n :: "nat \<Rightarrow> 'a list \<Rightarrow> 'a list" where
  "last_n n xs = drop (length xs - n) xs"

definition mean_of :: "pyfloat list \<Rightarrow> int \<Rightarrow> pyfloat res" where
  "mean_of xs n = rbind (float_of_int n) (\<lambda>f. fdiv (py_sum xs) f)"

subsection \<open>Measures\<close>

definition plus_dm :: "ohlc \<Rightarrow> ohlc \<Rightarrow> pyfloat" where
  "plus_dm p r = (let up_move = fsub (oh_high r) (oh_high p); down_move = fsub (oh_low p) (oh_low r) in
     if flt down_move up_move \<and> flt (Fin 0) up_move then up_move else Fin 0)"

definition minus_dm :: "ohlc \<Rightarrow> ohlc \<Rightarrow> pyfloat" where
  "minus_dm p r = (let up_move = fsub (oh_high r) (oh_high p); down_move = fsub (oh_low p) (oh_low r) in
     if flt up_move down_move \<and> flt (Fin 0) down_move then down_move else Fin 0)"

fun wilder_from :: "pyfloat \<Rightarrow> pyfloat \<Rightarrow> pyfloat list \<Rightarrow> pyfloat list res" where
  "wilder_from p running [] = Inr []"
| "wilder_from p running (v # vs) = rbind (fdiv running p) (\<lambda>part. let next = fadd (fsub running part) v in
     rbind (wilder_from p next vs) (\<lambda>rest. Inr (next # rest)))"

definition wilder :: "pyfloat list \<Rightarrow> nat \<Rightarrow> pyfloat list res" where
  "wilder values p = (let running = py_sum (take p values) in rbind (float_of_int (int p)) (\<lambda>n.
     rbind (wilder_from n running (drop p values)) (\<lambda>rest. Inr (running # rest))))"

definition directional_index :: "pyfloat \<Rightarrow> pyfloat \<Rightarrow> pyfloat \<Rightarrow> pyfloat option res" where
  "directional_index tr_s plus_s minus_s = (if feq tr_s (Fin 0) then Inr None
     else rbind (fdiv (fmul (Fin 100) plus_s) tr_s) (\<lambda>plus_di. rbind (fdiv (fmul (Fin 100) minus_s) tr_s) (\<lambda>minus_di.
       let di_sum = fadd plus_di minus_di in if feq di_sum (Fin 0) then Inr None
         else rbind (fdiv (fmul (Fin 100) (fabs (fsub plus_di minus_di))) di_sum) (\<lambda>dx. Inr (Some dx)))))"

definition compute_directional_strength :: "ohlc list \<Rightarrow> nat \<Rightarrow> pyfloat option res" where
  "compute_directional_strength rows period = (if period < 1 \<or> length rows < period + 1 then Inr None
     else rbind (wilder (true_ranges rows) period) (\<lambda>sm_tr. rbind (wilder (pairwise plus_dm rows) period) (\<lambda>sm_plus.
       rbind (wilder (pairwise minus_dm rows) period) (\<lambda>sm_minus.
       rbind (rmap (\<lambda>(t, pl, mi). directional_index t pl mi) (zip sm_tr (zip sm_plus sm_minus))) (\<lambda>ds.
         let dxs = List.map_filter id ds; window = last_n period dxs in
         if dxs = [] then Inr None
         else rbind (mean_of window (int (length window))) (\<lambda>adx. Inr (Some (clamp adx (Fin 0) (Fin 100)))))))))"

text \<open>\<open>max(xs)\<close> and \<open>min(xs)\<close> of a list that is not empty.\<close>

definition list_max :: "pyfloat list \<Rightarrow> pyfloat" where
  "list_max xs = foldl fmax (hd xs) (tl xs)"

definition list_min :: "pyfloat list \<Rightarrow> pyfloat" where
  "list_min xs = foldl fmin (hd xs) (tl xs)"

definition compute_choppiness :: "(pyfloat \<Rightarrow> pyfloat res) \<Rightarrow> ohlc list \<Rightarrow> nat \<Rightarrow> pyfloat option res" where
  "compute_choppiness log10 rows period = (if period < 2 \<or> length rows < period + 1 then Inr None
     else let sub = last_n (period + 1) rows; sum_tr = py_sum (true_ranges sub);
         price_range = fsub (list_max (map oh_high (tl sub))) (list_min (map oh_low (tl sub))) in
       if fle price_range (Fin 0) \<or> fle sum_tr (Fin 0) then Inr None
       else rbind (fdiv sum_tr price_range) (\<lambda>q. rbind (log10 q) (\<lambda>lq. rbind (float_of_int (int period)) (\<lambda>pf. rbind (log10 pf) (\<lambda>lp.
         rbind (fdiv (fmul (Fin 100) lq) lp) (\<lambda>ci. Inr (Some (clamp ci (Fin 0) (Fin 100)))))))))"

definition compute_efficiency_ratio :: "ohlc list \<Rightarrow> nat \<Rightarrow> pyfloat option res" where
  "compute_efficiency_ratio rows period = (if period < 1 \<or> length rows < period + 1 then Inr None
     else let closes = map oh_close (last_n (period + 1) rows); net_move = fabs (fsub (last closes) (hd closes));
         path = py_sum (pairwise (\<lambda>a b. fabs (fsub b a)) closes) in
       if feq path (Fin 0) then Inr None
       else rbind (fdiv net_move path) (\<lambda>r. Inr (Some (clamp r (Fin 0) (Fin 1)))))"

definition average_ranges :: "pyfloat list \<Rightarrow> nat \<Rightarrow> pyfloat list res" where
  "average_ranges trs period = rmap (\<lambda>i. mean_of (take period (drop (i - period) trs)) (int period)) [period..<length trs + 1]"

definition compute_atr_percentile :: "ohlc list \<Rightarrow> nat \<Rightarrow> nat \<Rightarrow> pyfloat option res" where
  "compute_atr_percentile rows atr_period window = (let trs = true_ranges rows in
     if atr_period < 1 \<or> window < 1 \<or> length trs < atr_period then Inr None
     else rbind (average_ranges trs atr_period) (\<lambda>atrs. let sample = last_n window atrs in
       if list_all (\<lambda>v. feq v (Fin 0)) sample then Inr None
       else let count_le = int (length (filter (\<lambda>v. fle v (last sample)) sample)) in
         rbind (float_of_int (int (length sample))) (\<lambda>n. rbind (float_of_int count_le) (\<lambda>k.
           rbind (fdiv (fmul (Fin 100) k) n) (\<lambda>pctl. Inr (Some (clamp pctl (Fin 0) (Fin 100))))))))"

definition compute_bb_width :: "ohlc list \<Rightarrow> nat \<Rightarrow> pyfloat option res" where
  "compute_bb_width rows period = (if period < 1 \<or> length rows < period then Inr None
     else let closes = map oh_close (last_n period rows) in
       if feq (list_max closes) (list_min closes) then Inr None
       else rbind (mean_of closes (int (length closes))) (\<lambda>mid. if feq mid (Fin 0) then Inr None
         else rbind (rmap (\<lambda>x. fsquare (fsub x mid)) closes) (\<lambda>squares.
           rbind (mean_of squares (int (length closes))) (\<lambda>variance. rbind (fsqrt variance) (\<lambda>std.
             rbind (fdiv (fsub (fadd mid (fmul (Fin 2) std)) (fsub mid (fmul (Fin 2) std))) mid) (\<lambda>w. Inr (Some w)))))))"

subsection \<open>Classification\<close>

datatype trend_state = Trending | Ranging | Transitional
datatype volatility_state = Low_vol | Normal_vol | High_vol
datatype favorability = Favorable | Unfavorable | Neutral_regime

definition classify_trend_state :: "pyfloat option \<Rightarrow> pyfloat option \<Rightarrow> regime_config \<Rightarrow> trend_state" where
  "classify_trend_state adx chop config = (case (adx, chop) of
     (Some a, Some c) \<Rightarrow> (let strong = fle (rc_adx_trend_cutoff config) a; choppy = fle (rc_chop_ranging_cutoff config) c in
       if strong \<and> \<not> choppy then Trending else if \<not> strong \<and> choppy then Ranging else Transitional)
   | _ \<Rightarrow> Transitional)"

definition classify_volatility_state :: "pyfloat option \<Rightarrow> regime_config \<Rightarrow> volatility_state" where
  "classify_volatility_state atr_pctl config = (case atr_pctl of
     None \<Rightarrow> Normal_vol
   | Some v \<Rightarrow> if flt v (rc_vol_low_pctl config) then Low_vol else if flt (rc_vol_high_pctl config) v then High_vol else Normal_vol)"

fun derive_favorability :: "trend_state \<Rightarrow> volatility_state \<Rightarrow> favorability" where
  "derive_favorability Trending Low_vol = Neutral_regime"
| "derive_favorability Trending Normal_vol = Favorable"
| "derive_favorability Trending High_vol = Unfavorable"
| "derive_favorability Ranging _ = Unfavorable"
| "derive_favorability Transitional High_vol = Unfavorable"
| "derive_favorability Transitional _ = Neutral_regime"

record regime_label =
  rl_trend :: trend_state
  rl_volatility :: volatility_state
  rl_favorability :: favorability
  rl_directional_strength :: "pyfloat option"
  rl_choppiness :: "pyfloat option"
  rl_efficiency_ratio :: "pyfloat option"
  rl_atr_percentile :: "pyfloat option"
  rl_bb_width :: "pyfloat option"
  rl_candles_used :: int

datatype regime_result = Label regime_label | Unavailable string

definition label_of :: "regime_config \<Rightarrow> int \<Rightarrow> pyfloat option \<Rightarrow> pyfloat option \<Rightarrow> pyfloat option \<Rightarrow> pyfloat option \<Rightarrow> pyfloat option
    \<Rightarrow> regime_result" where
  "label_of config received adx chop er atr bb = (if adx = None \<and> chop = None \<and> er = None \<and> atr = None \<and> bb = None
     then Unavailable ''no regime measure could be computed''
     else let t = classify_trend_state adx chop config; v = classify_volatility_state atr config in
       Label \<lparr>rl_trend = t, rl_volatility = v, rl_favorability = derive_favorability t v, rl_directional_strength = adx,
         rl_choppiness = chop, rl_efficiency_ratio = er, rl_atr_percentile = atr, rl_bb_width = bb, rl_candles_used = received\<rparr>)"

definition measure_regime :: "(pyfloat \<Rightarrow> pyfloat res) \<Rightarrow> regime_config \<Rightarrow> ohlc list \<Rightarrow> regime_result res" where
  "measure_regime log10 config rows =
     rbind (compute_directional_strength rows (nat (rc_adx_period config))) (\<lambda>adx.
     rbind (compute_choppiness log10 rows (nat (rc_chop_period config))) (\<lambda>chop.
     rbind (compute_efficiency_ratio rows (nat (rc_chop_period config))) (\<lambda>er.
     rbind (compute_atr_percentile rows (nat (rc_vol_period config)) (nat (rc_vol_pctl_window config))) (\<lambda>atr.
     rbind (compute_bb_width rows (nat (rc_bb_period config))) (\<lambda>bb.
       Inr (label_of config (int (length rows)) adx chop er atr bb))))))"

definition regime_of :: "(pyfloat \<Rightarrow> pyfloat res) \<Rightarrow> pyval \<Rightarrow> regime_config \<Rightarrow> regime_result" where
  "regime_of log10 candles config =
     (case rbind (valid_ohlc_rows candles) (\<lambda>rows. let required = max (rc_min_candles config) (largest_lookback config) in
        if int (length rows) < required
        then Inr (Unavailable (''insufficient data: '' @ int_text (int (length rows)) @ '' valid candles received, '' @ int_text required @ '' required''))
        else measure_regime log10 config rows) of
        Inr r \<Rightarrow> r
      | Inl e \<Rightarrow> Unavailable (''regime classification error: '' @ error_name e))"

fun trend_text :: "trend_state \<Rightarrow> string" where
  "trend_text Trending = ''trending''"
| "trend_text Ranging = ''ranging''"
| "trend_text Transitional = ''transitional''"

fun volatility_text :: "volatility_state \<Rightarrow> string" where
  "volatility_text Low_vol = ''low''"
| "volatility_text Normal_vol = ''normal''"
| "volatility_text High_vol = ''high''"

fun favorability_text :: "favorability \<Rightarrow> string" where
  "favorability_text Favorable = ''favorable''"
| "favorability_text Unfavorable = ''unfavorable''"
| "favorability_text Neutral_regime = ''neutral''"

definition measure_value :: "pyfloat option \<Rightarrow> pyval" where
  "measure_value m = (case m of None \<Rightarrow> PNone | Some f \<Rightarrow> PFloat f)"

definition classify_regime :: "(pyfloat \<Rightarrow> pyfloat res) \<Rightarrow> pyval \<Rightarrow> regime_config \<Rightarrow> string option \<Rightarrow> string option \<Rightarrow> pydict" where
  "classify_regime log10 candles config symbol timeframe = (case regime_of log10 candles config of
     Unavailable cause \<Rightarrow> unavailable cause symbol timeframe
   | Label l \<Rightarrow> [(''trend_state'', PStr (trend_text (rl_trend l))), (''volatility_state'', PStr (volatility_text (rl_volatility l))),
       (''favorability'', PStr (favorability_text (rl_favorability l))),
       (''measures'', PDict [(''directional_strength'', measure_value (rl_directional_strength l)),
          (''choppiness'', measure_value (rl_choppiness l)), (''efficiency_ratio'', measure_value (rl_efficiency_ratio l)),
          (''atr_percentile'', measure_value (rl_atr_percentile l)), (''bb_width'', measure_value (rl_bb_width l))])]
       @ opt_entry ''symbol'' symbol @ opt_entry ''timeframe'' timeframe @ [(''candles_used'', PInt (rl_candles_used l))])"

end
