(* ===== verification/RegimeFacts.thy ===== *)
theory RegimeFacts
  imports Regime
begin

text \<open>
  What a regime label promises: it is given on enough candles only, candles that are not finite change
  nothing, a favorable market is a directed one of ordinary volatility past both cutoffs, and a
  configuration from any environment orders its volatility cutoffs.
\<close>

lemma label_parts:
  assumes "regime_of log10 candles config = Label l"
  shows "\<exists>rows. valid_ohlc_rows candles = Inr rows \<and> max (rc_min_candles config) (largest_lookback config) \<le> int (length rows)
    \<and> rl_candles_used l = int (length rows)
    \<and> rl_trend l = classify_trend_state (rl_directional_strength l) (rl_choppiness l) config
    \<and> rl_volatility l = classify_volatility_state (rl_atr_percentile l) config
    \<and> rl_favorability l = derive_favorability (rl_trend l) (rl_volatility l)"
proof -
  obtain rows where "valid_ohlc_rows candles = Inr rows" "max (rc_min_candles config) (largest_lookback config) \<le> int (length rows)"
    "measure_regime log10 config rows = Inr (Label l)"
    using assms by (auto simp: regime_of_def rbind_eq_Inr Let_def not_less split: sum.splits if_splits)
  then show ?thesis by (auto simp: measure_regime_def label_of_def rbind_eq_Inr Let_def split: if_splits)
qed

text \<open>A favorable market: both measures of direction are there and past their cutoffs, and the volatility, when it
  could be ranked, lies between its own.\<close>

theorem favorable_means_directed_and_calm:
  assumes "regime_of log10 candles config = Label l" and "rl_favorability l = Favorable"
  shows "\<exists>adx chop. rl_directional_strength l = Some adx \<and> rl_choppiness l = Some chop
    \<and> fle (rc_adx_trend_cutoff config) adx \<and> \<not> fle (rc_chop_ranging_cutoff config) chop
    \<and> (\<forall>v. rl_atr_percentile l = Some v \<longrightarrow> \<not> flt v (rc_vol_low_pctl config) \<and> \<not> flt (rc_vol_high_pctl config) v)"
proof -
  have fav: "Favorable = derive_favorability t v \<longleftrightarrow> t = Trending \<and> v = Normal_vol" for t v
    by (cases t; cases v) simp_all
  have "rl_trend l = Trending" "rl_volatility l = Normal_vol"
    using label_parts [OF assms(1)] assms(2) by (auto simp: fav)
  then show ?thesis using label_parts [OF assms(1)]
    by (auto simp: classify_trend_state_def classify_volatility_state_def Let_def split: option.splits if_splits)
qed

text \<open>Candles that are dropped change nothing.\<close>

lemma dropped_candle:
  assumes "parse_ohlc c = Inr None"
  shows "valid_ohlc_rows (PList (xs @ c # ys)) = valid_ohlc_rows (PList (xs @ ys))"
proof -
  have "rbind (rmap parse_ohlc (xs @ c # ys)) (\<lambda>rs. Inr (List.map_filter id rs))
      = rbind (rmap parse_ohlc (xs @ ys)) (\<lambda>rs. Inr (List.map_filter id rs))"
  proof (induction xs)
    case Nil
    then show ?case using assms by (cases "rmap parse_ohlc ys") (auto simp: map_filter_def)
  next
    case (Cons x xs)
    then show ?case
      by (cases "parse_ohlc x"; cases "rmap parse_ohlc (xs @ c # ys)"; cases "rmap parse_ohlc (xs @ ys)")
        (auto simp: map_filter_def split: option.splits)
  qed
  then show ?thesis by (simp add: valid_ohlc_rows_def)
qed

theorem dropped_candles_change_nothing:
  assumes "parse_ohlc c = Inr None"
  shows "classify_regime log10 (PList (xs @ c # ys)) config symbol timeframe = classify_regime log10 (PList (xs @ ys)) config symbol timeframe"
  by (simp add: classify_regime_def regime_of_def dropped_candle [OF assms])

lemma volatility_cutoffs_ordered: "\<not> fle (rc_vol_high_pctl (resolve_regime_config env)) (rc_vol_low_pctl (resolve_regime_config env))"
  by (simp add: resolve_regime_config_def Let_def DEFAULT_VOL_LOW_PCTL_def DEFAULT_VOL_HIGH_PCTL_def)

lemma lookback_covers:
  "rc_adx_period c \<le> largest_lookback c" "rc_chop_period c \<le> largest_lookback c" "rc_bb_period c \<le> largest_lookback c"
  "rc_vol_period c + rc_vol_pctl_window c \<le> largest_lookback c"
  by (simp_all add: largest_lookback_def)

text \<open>The gate of candles covers the longest ranking of the volatility but not one candle more: a true range needs a
  candle before it, so the smoothed measures of the longest period need one candle that the gate does not ask for.\<close>

lemma direction_needs_one_more:
  "compute_directional_strength rows period = Inr (Some m) \<Longrightarrow> period < length rows"
  by (auto simp: compute_directional_strength_def split: if_splits)

end
