(* ===== verification/Spec2Isabelle.thy ===== *)
theory Spec2Isabelle
  imports Validator TradeManagerFacts InteractionLogFacts RecoStore SessionFacts StreamPersistFacts
    OpportunityFacts ToolCallsFacts QaLoopFacts DebateLoopFacts DeclareFacts FinalizeFacts FingerprintFacts AttributionFacts JournalFacts
    EventCalendarFacts EventRiskFacts OptionsBiasFacts CalibrationFacts RegimeFacts
begin

text \<open>
  A model of the decision core of the trading agent, the Python package
  \<open>src/agents/deep-quant-loop\<close>, and of the one Rust route it leans on for the verdict on a trade,
  with the theorems that make the core correct and those that show where it is not.

  The program. A request runs a graph of nodes over one state. In an analysis the model is asked
  (\<open>call_model\<close>), its tool calls pass a series of gates and are executed (\<open>tool_node\<close>), and
  \<open>should_continue\<close> routes to the next node: again the model, the wait on a price watch, a forced
  ending, or the end. A decision exists only when the tool \<open>declare_trade\<close> was called and not
  rejected, or as a stated HOLD. In a debate a bull and a bear argue and a judge decides; a question
  about an analysis runs its own small loop. A decision is completed by \<open>_finalize_decision\<close>: it is
  stamped with a tier, given a record of the evidence, and handed to the trade journal and to the
  recommendation store. The journal scores its trades later on candles, and the attribution report
  reads the scored rows. Beside this, a turn is recorded frame by frame in the session store.

  Foundations.
  \<^item> \<open>Prelude\<close>: the result type \<open>res\<close> (an exception or a value), the collections of simplification
    rules and the generic lemmas of all components.
  \<^item> \<open>PyFloat\<close>, \<open>PyValue\<close>, \<open>PyJson\<close>: Python's binary64 numbers with round to nearest even, written on
    integers so that they evaluate in the logic; its dynamic values with the conversions by \<open>int\<close>, \<open>float\<close>
    and \<open>str\<close>; \<open>repr\<close> and canonical JSON. \<open>Sha256\<close>: the digest of FIPS 180-4 on 32-bit words.
  \<^item> \<open>EnvConfig\<close>: the readers of parameters from the environment (\<open>regime.py\<close> and its copies). The
    locale \<open>env_param\<close> is their contract, an accepted text is used and everything else gives the
    default; it is interpreted on the readers of \<open>EnvConfig\<close>, \<open>Session\<close>, \<open>Opportunity\<close>, \<open>Debate\<close>,
    \<open>EventCalendar\<close>, \<open>EventRisk\<close> and \<open>OptionsBias\<close>.

  Risk rules and simulation.
  \<^item> \<open>Validator\<close> (\<open>validator.py\<close>): the verdict on a declared bracket, exceptions included. On finite levels
    it passes exactly when independent rules on rationals hold, and SELL mirrors BUY.
  \<^item> \<open>TradeManager\<close>, \<open>TradeManagerFacts\<close> (\<open>trade_manager.py\<close>): management plans and the simulation of a
    plan on candles. The locale \<open>sim_invariant\<close> turns an invariant of one step into one of the run; its
    interpretations give that sizes are conserved, that no leg is left twice, that the stop never moves
    adversely and that a stop costs at most the initial risk.
  \<^item> \<open>Declare\<close>, \<open>DeclareFacts\<close> (\<open>declare_trade\<close> of \<open>tools.py\<close>, the route of \<open>src/tool-server/src/main.rs\<close>
    and the action parser of \<open>src/quant-core/src/lib.rs\<close>): what an unrejected declaration has passed. The
    tool and the graph read the action with Python's \<open>strip\<close> and \<open>upper\<close>, the server with Rust's \<open>trim\<close> and
    \<open>to_ascii_uppercase\<close>; both are modelled, and a lemma shows an action on which they differ.

  The agent.
  \<^item> \<open>ToolCalls\<close>, \<open>ToolCallsFacts\<close> (\<open>graph.py\<close>): calls read from the text of an answer, classes of calls,
    results and their judgement.
  \<^item> \<open>Opportunity\<close>, \<open>OpportunityFacts\<close> (\<open>opportunity.py\<close>): the ladder of tiers, budgets and caps, the
    comparison of theses, resumes and the pruning of the history.
  \<^item> \<open>AgentLoop\<close>, \<open>AgentLoopFacts\<close> (\<open>graph.py\<close>): the state, the nodes and the routing as functions, and the
    run as the step relation \<open>agent_step\<close>. Facts by rule induction: every call is answered once, a
    decision was declared, turns that wait on a watch are bounded, while tool calls are not.
  \<^item> \<open>QaLoop\<close>, \<open>QaLoopFacts\<close>: questions; they end and cannot trade.
  \<^item> \<open>Debate\<close>, \<open>DebateFacts\<close> (\<open>debate.py\<close>) and \<open>DebateLoop\<close>, \<open>DebateLoopFacts\<close> (\<open>graph.py\<close>): stances and
    the verdict; the turns of the roles (\<open>debate_step\<close>) and the bounded conversation of the judge.

  Completion and learning.
  \<^item> \<open>Evidence\<close>, \<open>Finalize\<close>, \<open>FinalizeFacts\<close> (\<open>graph.py\<close>): readers of tool results, the record, the tier
    stamp, the checks of a verification and the commit of a thread. The record cites results only, the
    trade is kept, the checks agree with the validator.
  \<^item> \<open>Fingerprint\<close>, \<open>FingerprintFacts\<close>, \<open>Journal\<close>, \<open>JournalFacts\<close> (\<open>journal.py\<close>): the setup key and its
    parser, the journal table, scoring and clean-up, under every sequence of operations.
  \<^item> \<open>Attribution\<close>, \<open>AttributionFacts\<close> (\<open>attribution.py\<close>): the statistics against a recount of the rows,
    the ranking against an order stated on its own (\<open>ranks_before\<close>), and the weights.

  Context of the market.
  \<^item> \<open>EventCalendar\<close>, \<open>EventCalendarFacts\<close> (\<open>event_calendar.py\<close> and its route in \<open>main.py\<close>): the cached calendar of
    scheduled results. Rows that are served were read before, by induction on the history of the cache; a
    body of an odd shape is served as a clear calendar.
  \<^item> \<open>EventRisk\<close>, \<open>EventRiskFacts\<close> (\<open>events.py\<close>, \<open>get_event_risk\<close> of \<open>tools.py\<close>): the classifier and the tool.
    Nearer events are never judged more leniently, dates go round from the exchange's form to the gate
    exactly, and on the day of the results the gate reads no event.
  \<^item> \<open>OptionsBias\<close>, \<open>Regime\<close>, \<open>Calibration\<close> with their facts (\<open>options_bias.py\<close>, \<open>regime.py\<close>, \<open>calibration.py\<close>): the
    vote of the options market, the measures and labels of a regime, and the count of convictions against
    outcomes.

  Stores.
  \<^item> \<open>HashChain\<close>, \<open>InteractionLog\<close>, \<open>InteractionLogFacts\<close>, \<open>RecoStore\<close> (\<open>hashchain.py\<close>, \<open>interaction_log.py\<close>,
    \<open>reco_store.py\<close>): append-only chained tables. The locale \<open>chain_digest\<close> is what verification needs of
    a digest, interpreted on SHA-256; \<open>chained_record\<close> is a table of given columns, interpreted on both
    tables. Collisions are explicit disjuncts, never assumed away.
  \<^item> \<open>Session\<close>, \<open>SessionFacts\<close> (\<open>session.py\<close>): phases of the trading day over a zone database.
  \<^item> \<open>SessionStore\<close>, \<open>SessionStoreFacts\<close>, \<open>SessionStoreProps\<close> (\<open>session_store.py\<close>): four tables with their
    constraints. \<open>db_ok\<close> is the invariant, foreign keys included (a message names an existing run or
    none), kept by every operation \<open>store_op\<close>; on it rest the set-once outcomes, the pages, the
    reconciliation and deletion. Start-up calls \<open>areconcile_stale_runs\<close>, modelled as \<open>areconcile\<close>, whose
    update is the one of the operation.
  \<^item> \<open>StreamPersist\<close>, \<open>StreamPersistFacts\<close> (\<open>stream_persist.py\<close>, the generator of \<open>main.py\<close>): the recorder as
    a client of the session store. \<open>records\<close> relates it to an ideal transcript of the turn, for a run
    that is open and for one that already has an outcome (a resumed turn, a question).

  Bounds and fuel. The judge's loop runs for its read budget plus two turns, as the code's does. The
  questions' loop \<open>qa_loop\<close> takes fuel, and one more than the turns left of \<open>MAX_QA_TURNS\<close> is enough; the
  pages of the session store take one more than there are sessions; the search for the shortest \<open>repr\<close>
  of a number tries at most seventeen digits. A debate ends by its rounds. The agent's loop is a relation,
  since its tool calls have no bound. The square root of the attribution runs over the bits of its
  integer operand. Everything else is structural recursion or has a measure. The model, the executor of tools, clocks and identifiers are
  arguments of the definitions, and the theorems hold for all of them.

  Conventions. Strings are lists of characters below U+0100 (JSON writes the others as escapes; of
  case mapping only that range is modelled, so the long s, which Python's \<open>upper\<close> turns into S, is out
  of reach); a hyphen stands for the dash in messages. A table is the list of its rows in the order of
  their keys; a transaction that raises leaves the store as it was.

  Not modelled: the HTTP application, its command line tools and the backtest driver; telemetry,
  identity, entitlements and keys; checkpoints and paths; the numerical series of options chains,
  forecasts, order flow and relative strength; prompts and the binding of the model; the services that
  deliver market data; and the desktop terminal, backend and status pages. Their results are arguments
  where the core reads them. Regular expressions over the model's prose, \<open>json.loads\<close> and
  \<open>ast.literal_eval\<close> are arguments too, as is the reading of a file path by the stores.
\<close>

end
